(* ===== verification/Rf_Prelude.thy ===== *)
theory Rf_Prelude
  imports Complex_Main "HOL-Library.Multiset" "HOL-Library.Word"
begin

section \<open>Prelude: results, Python values and shared lemmas\<close>

text \<open>
  What every component of the development uses:
  \<^item> \<open>py_error\<close> and the result type \<open>'a result\<close>: an exception of the Python code is the left
    value of a sum, named by its class and its message (an \<open>HTTPException\<close> by its status code
    and detail);
  \<^item> the ASCII part of Python's string functions (\<open>strip\<close>, \<open>lower\<close>, \<open>startswith\<close>); strings
    are lists of characters, and the model speaks about ASCII text, where \<open>lower\<close> and
    \<open>casefold\<close> agree;
  \<^item> Python's \<open>or\<close> on optional strings, \<open>round\<close> to an integer (half to even), \<open>min\<close>/\<open>max\<close> clamping;
  \<^item> the JSON values that cross the process boundaries (\<open>pyval\<close>), with floats as exact rationals
    extended by the two infinities and not-a-number: the tests of the code on such values
    (finite, positive, equal) are exact, rounding of float arithmetic is not modelled;
  \<^item> the lemma collections \<open>rf_simps\<close> and \<open>rf_inv\<close>.
\<close>

named_theorems rf_simps \<open>unfolding equations of the model's small operations\<close>
named_theorems rf_inv \<open>preservation of the component invariants\<close>

subsection \<open>Errors as values\<close>

datatype py_error =
    ValueError string
  | RuntimeError string
  | TypeError string
  | KeyError string
  | OSError string
  | AssertionError string
  | AttributeError string
  | OverflowError string
  | HTTPException int string

type_synonym 'a result = "py_error + 'a"

type_synonym byte = "8 word"

definition and_then :: "'e + 'a \<Rightarrow> ('a \<Rightarrow> 'e + 'b) \<Rightarrow> 'e + 'b" where
  "and_then r f = (case r of Inl e \<Rightarrow> Inl e | Inr x \<Rightarrow> f x)"

definition require :: "bool \<Rightarrow> 'e \<Rightarrow> 'e + unit" where
  "require ok e = (if ok then Inr () else Inl e)"

definition is_ok :: "'e + 'a \<Rightarrow> bool" where
  "is_ok r = (case r of Inl _ \<Rightarrow> False | Inr _ \<Rightarrow> True)"

lemma and_then_simps [simp]:
  "and_then (Inl e) f = Inl e"
  "and_then (Inr x) f = f x"
  by (simp_all add: and_then_def)

lemma and_then_Inr_iff: "and_then r f = Inr y \<longleftrightarrow> (\<exists>x. r = Inr x \<and> f x = Inr y)"
  by (cases r) simp_all

lemma and_then_Inl_iff:
  "and_then r f = Inl e \<longleftrightarrow> r = Inl e \<or> (\<exists>x. r = Inr x \<and> f x = Inl e)"
  by (cases r) simp_all

lemma require_iff [simp]:
  "require ok e = Inr u \<longleftrightarrow> ok"
  "require ok e = Inl e' \<longleftrightarrow> \<not> ok \<and> e' = e"
  by (auto simp: require_def)

lemma and_then_require [simp]: "and_then (require ok e) f = (if ok then f () else Inl e)"
  by (simp add: require_def)

lemma is_ok_simps [simp]: "is_ok (Inl e) = False" "is_ok (Inr x) = True"
  by (simp_all add: is_ok_def)

lemma is_ok_iff: "is_ok r \<longleftrightarrow> (\<exists>x. r = Inr x)"
  by (cases r) simp_all

text \<open>A loop that stops at its first exception: \<open>for x in xs: s = step(s, x)\<close>.\<close>

fun fold_result :: "('s \<Rightarrow> 'x \<Rightarrow> 'e + 's) \<Rightarrow> 's \<Rightarrow> 'x list \<Rightarrow> 'e + 's" where
  "fold_result f s [] = Inr s"
| "fold_result f s (x # xs) = and_then (f s x) (\<lambda>s'. fold_result f s' xs)"

lemma fold_result_append:
  "fold_result f s (xs @ ys) = and_then (fold_result f s xs) (\<lambda>s'. fold_result f s' ys)"
  by (induction xs arbitrary: s) (auto simp: and_then_def split: sum.splits)

lemma fold_result_invariant:
  assumes "fold_result f s xs = Inr t" and "P s"
    and "\<And>s x s'. x \<in> set xs \<Longrightarrow> P s \<Longrightarrow> f s x = Inr s' \<Longrightarrow> P s'"
  shows "P t"
  using assms by (induction xs arbitrary: s) (auto simp: and_then_Inr_iff)

subsection \<open>ASCII strings\<close>

definition is_space :: "char \<Rightarrow> bool" where
  "is_space c = (let n = (of_char c :: nat) in (9 \<le> n \<and> n \<le> 13) \<or> (28 \<le> n \<and> n \<le> 32))"

definition char_lower :: "char \<Rightarrow> char" where
  "char_lower c = (let n = (of_char c :: nat) in if 65 \<le> n \<and> n \<le> 90 then char_of (n + 32) else c)"

text \<open>Code equations over the bits of a character, for evaluation in the kernel.\<close>

lemma of_char_bits: "(of_char (Char b0 b1 b2 b3 b4 b5 b6 b7) :: nat) =
    of_bool b0 + 2 * of_bool b1 + 4 * of_bool b2 + 8 * of_bool b3 + 16 * of_bool b4 + 32 * of_bool b5
    + 64 * of_bool b6 + 128 * of_bool b7"
  by (simp add: of_char_def)

lemma is_space_code [code]:
  "is_space (Char b0 b1 b2 b3 b4 b5 b6 b7) = (\<not> b7 \<and> \<not> b6 \<and>
     (if b5 then \<not> b4 \<and> \<not> b3 \<and> \<not> b2 \<and> \<not> b1 \<and> \<not> b0
      else if b4 then b3 \<and> b2 else b3 \<and> (b0 \<or> b1 \<or> b2) \<and> \<not> (b2 \<and> b1)))"
  unfolding is_space_def of_char_bits Let_def
  by (cases b7; cases b6; cases b5; cases b4; cases b3; cases b2; cases b1; cases b0; simp)

lemma char_lower_code [code]:
  "char_lower (Char b0 b1 b2 b3 b4 b5 b6 b7) =
     (if \<not> b7 \<and> b6 \<and> \<not> b5 \<and> (b4 \<or> b3 \<or> b2 \<or> b1 \<or> b0) \<and> \<not> (b4 \<and> b3 \<and> (b2 \<or> b1 \<and> b0))
      then Char b0 b1 b2 b3 b4 True b6 b7 else Char b0 b1 b2 b3 b4 b5 b6 b7)"
  unfolding char_lower_def of_char_bits Let_def
  by (cases b7; cases b6; cases b5; cases b4; cases b3; cases b2; cases b1; cases b0; simp add: char_of_def bit_0)

definition py_lower :: "string \<Rightarrow> string" where
  "py_lower s = map char_lower s"

definition py_upper :: "string \<Rightarrow> string" where
  "py_upper s = map (\<lambda>c. let n = (of_char c :: nat) in if 97 \<le> n \<and> n \<le> 122 then char_of (n - 32) else c) s"

lemma upper_bits:
  "(let n = (of_char (Char b0 b1 b2 b3 b4 b5 b6 b7) :: nat) in
      if 97 \<le> n \<and> n \<le> 122 then char_of (n - 32) else Char b0 b1 b2 b3 b4 b5 b6 b7) =
    (if \<not> b7 \<and> b6 \<and> b5 \<and> (b4 \<or> b3 \<or> b2 \<or> b1 \<or> b0) \<and> \<not> (b4 \<and> b3 \<and> (b2 \<or> b1 \<and> b0))
     then Char b0 b1 b2 b3 b4 False b6 b7 else Char b0 b1 b2 b3 b4 b5 b6 b7)"
  unfolding of_char_bits Let_def
  by (cases b7; cases b6; cases b5; cases b4; cases b3; cases b2; cases b1; cases b0; simp add: char_of_def bit_0)

lemma py_upper_code [code]:
  "py_upper [] = []"
  "py_upper (Char b0 b1 b2 b3 b4 b5 b6 b7 # s) =
     (if \<not> b7 \<and> b6 \<and> b5 \<and> (b4 \<or> b3 \<or> b2 \<or> b1 \<or> b0) \<and> \<not> (b4 \<and> b3 \<and> (b2 \<or> b1 \<and> b0))
      then Char b0 b1 b2 b3 b4 False b6 b7 else Char b0 b1 b2 b3 b4 b5 b6 b7) # py_upper s"
  by (simp_all only: py_upper_def list.map upper_bits)

definition lstrip :: "string \<Rightarrow> string" where
  "lstrip s = dropWhile is_space s"

definition py_strip :: "string \<Rightarrow> string" where
  "py_strip s = rev (dropWhile is_space (rev (dropWhile is_space s)))"

fun startswith :: "'a list \<Rightarrow> 'a list \<Rightarrow> bool" where
  "startswith s [] = True"
| "startswith [] (p # ps) = False"
| "startswith (c # s) (p # ps) = (c = p \<and> startswith s ps)"

fun contains :: "'a list \<Rightarrow> 'a list \<Rightarrow> bool" where
  "contains p [] = (p = [])"
| "contains p (c # s) = (startswith (c # s) p \<or> contains p s)"

lemma char_lower_idem [simp]: "char_lower (char_lower c) = char_lower c"
  by (auto simp: char_lower_def Let_def)

lemma py_lower_idem [simp]: "py_lower (py_lower s) = py_lower s"
  by (simp add: py_lower_def o_def)

lemma py_lower_Nil [simp]: "py_lower s = [] \<longleftrightarrow> s = []" "py_lower [] = []"
  by (simp_all add: py_lower_def)

lemma length_py_lower [simp]: "length (py_lower s) = length s"
  by (simp add: py_lower_def)

lemma length_py_strip: "length (py_strip s) \<le> length s"
proof -
  have "length (dropWhile is_space (rev (dropWhile is_space s))) \<le> length (rev (dropWhile is_space s))"
    by (rule length_dropWhile_le)
  also have "\<dots> \<le> length s"
    by (simp add: length_dropWhile_le)
  finally show ?thesis by (simp add: py_strip_def)
qed

lemma dropWhile_eq_self: "xs = [] \<or> \<not> P (hd xs) \<Longrightarrow> dropWhile P xs = xs"
  by (cases xs) auto

lemma last_dropWhile: "dropWhile P xs \<noteq> [] \<Longrightarrow> last (dropWhile P xs) = last xs"
  by (induction xs) (auto split: if_splits)

lemma py_strip_idem [simp]: "py_strip (py_strip s) = py_strip s"
proof -
  let ?l = "dropWhile is_space s"
  let ?r = "dropWhile is_space (rev ?l)"
  have r: "?r = [] \<or> \<not> is_space (hd ?r)"
    using hd_dropWhile by blast
  have l: "rev ?r = [] \<or> \<not> is_space (hd (rev ?r))"
  proof (cases "?r = []")
    case False
    then have "?l \<noteq> []" by (metis dropWhile.simps(1) rev.simps(1))
    have "hd (rev ?r) = last ?r" by (simp only: hd_rev)
    also have "\<dots> = last (rev ?l)" using False by (rule last_dropWhile)
    also have "\<dots> = hd ?l" by (simp only: last_rev)
    finally have "hd (rev ?r) = hd ?l" .
    moreover have "\<not> is_space (hd ?l)" using \<open>?l \<noteq> []\<close> hd_dropWhile by blast
    ultimately show ?thesis by simp
  qed simp
  show ?thesis
    unfolding py_strip_def using dropWhile_eq_self [where P = is_space, OF l]
      dropWhile_eq_self [where P = is_space, OF r]
    by (simp only: rev_rev_ident)
qed

lemma startswith_iff: "startswith s p \<longleftrightarrow> (\<exists>t. s = p @ t)"
  by (induction s p rule: startswith.induct) auto

lemma contains_startswith: "startswith s p \<Longrightarrow> contains p s"
  by (cases s; cases p) auto

lemma contains_iff: "contains p s \<longleftrightarrow> (\<exists>a b. s = a @ p @ b)"
proof
  assume "contains p s"
  then show "\<exists>a b. s = a @ p @ b"
  proof (induction s)
    case (Cons c s)
    show ?case
    proof (cases "startswith (c # s) p")
      case True
      then show ?thesis by (metis startswith_iff append_Nil)
    next
      case False
      with Cons obtain a b where "s = a @ p @ b" by auto
      then have "c # s = (c # a) @ p @ b" by simp
      then show ?thesis by blast
    qed
  qed simp
next
  assume "\<exists>a b. s = a @ p @ b"
  then obtain a b where "s = a @ p @ b" by blast
  then show "contains p s"
  proof (induction a arbitrary: s)
    case Nil
    then have "startswith s p" by (auto simp: startswith_iff)
    then show ?case by (rule contains_startswith)
  qed simp
qed

subsection \<open>Optional values\<close>

text \<open>Python's truth of \<open>str | None\<close>, \<open>x or ""\<close> and \<open>x or y\<close>.\<close>

definition truthy :: "string option \<Rightarrow> bool" where
  "truthy x = (case x of None \<Rightarrow> False | Some s \<Rightarrow> s \<noteq> [])"

definition or_empty :: "string option \<Rightarrow> string" where
  "or_empty x = (case x of None \<Rightarrow> [] | Some s \<Rightarrow> s)"

definition or_else :: "string option \<Rightarrow> string option \<Rightarrow> string option" where
  "or_else x y = (if truthy x then x else y)"

lemma truthy_simps [simp]:
  "truthy None = False" "truthy (Some s) = (s \<noteq> [])"
  by (simp_all add: truthy_def)

lemma or_empty_simps [simp]:
  "or_empty None = []" "or_empty (Some s) = s"
  by (simp_all add: or_empty_def)

lemma truthy_or_empty: "truthy x \<longleftrightarrow> or_empty x \<noteq> []"
  by (cases x) simp_all

subsection \<open>Numbers\<close>

definition clamp :: "'a::linorder \<Rightarrow> 'a \<Rightarrow> 'a \<Rightarrow> 'a" where
  "clamp lo hi x = max lo (min hi x)"

lemma clamp_range: "lo \<le> hi \<Longrightarrow> lo \<le> clamp lo hi x \<and> clamp lo hi x \<le> hi"
  by (auto simp: clamp_def)

lemma clamp_id: "lo \<le> x \<Longrightarrow> x \<le> hi \<Longrightarrow> clamp lo hi x = x"
  by (auto simp: clamp_def)

text \<open>Python's \<open>round(x)\<close>: to the nearest integer, a tie to the even one.\<close>

definition py_round :: "rat \<Rightarrow> int" where
  "py_round x = (let f = \<lfloor>x\<rfloor>; d = x - of_int f in
     if d < 1 / 2 then f else if d > 1 / 2 then f + 1 else if even f then f else f + 1)"

text \<open>Python's \<open>int(x)\<close>: truncation towards zero.\<close>

definition py_trunc :: "rat \<Rightarrow> int" where
  "py_trunc x = (if 0 \<le> x then \<lfloor>x\<rfloor> else \<lceil>x\<rceil>)"

lemma py_round_close: "\<bar>x - of_int (py_round x)\<bar> \<le> 1 / 2"
proof -
  have "of_int \<lfloor>x\<rfloor> \<le> x" "x < of_int \<lfloor>x\<rfloor> + 1" by linarith+
  then show ?thesis by (auto simp: py_round_def Let_def)
qed

lemma py_round_of_int [simp]: "py_round (of_int n) = n"
  by (simp add: py_round_def)

lemma py_round_mono: "x \<le> y \<Longrightarrow> py_round x \<le> py_round y"
proof -
  assume "x \<le> y"
  then have f: "\<lfloor>x\<rfloor> \<le> \<lfloor>y\<rfloor>" by (rule floor_mono)
  show ?thesis
  proof (cases "\<lfloor>x\<rfloor> = \<lfloor>y\<rfloor>")
    case True
    with \<open>x \<le> y\<close> show ?thesis by (auto simp: py_round_def Let_def)
  next
    case False
    with f have "\<lfloor>x\<rfloor> + 1 \<le> \<lfloor>y\<rfloor>" by simp
    moreover have "py_round x \<le> \<lfloor>x\<rfloor> + 1" "\<lfloor>y\<rfloor> \<le> py_round y"
      by (auto simp: py_round_def Let_def)
    ultimately show ?thesis by simp
  qed
qed

text \<open>The decimal text of an integer, \<open>str(n)\<close>, and the value of a digit string.\<close>

fun nat_text :: "nat \<Rightarrow> string" where
  "nat_text n = (if n < 10 then [char_of (48 + n)] else nat_text (n div 10) @ [char_of (48 + n mod 10)])"

declare nat_text.simps [simp del]

definition int_text :: "int \<Rightarrow> string" where
  "int_text n = (if n < 0 then CHR ''-'' # nat_text (nat (- n)) else nat_text (nat n))"

definition is_digit :: "char \<Rightarrow> bool" where
  "is_digit c = (let n = (of_char c :: nat) in 48 \<le> n \<and> n \<le> 57)"

lemma is_digit_code [code]:
  "is_digit (Char b0 b1 b2 b3 b4 b5 b6 b7) = (\<not> b7 \<and> \<not> b6 \<and> b5 \<and> b4 \<and> (\<not> b3 \<or> \<not> b2 \<and> \<not> b1))"
  unfolding is_digit_def of_char_bits Let_def
  by (cases b7; cases b6; cases b5; cases b4; cases b3; cases b2; cases b1; cases b0; simp)

definition digit_value :: "char \<Rightarrow> nat" where
  "digit_value c = of_char c - 48"

definition digits_value :: "string \<Rightarrow> nat" where
  "digits_value s = foldl (\<lambda>n c. 10 * n + digit_value c) 0 s"

lemma digit_char [simp]: "n < 10 \<Longrightarrow> is_digit (char_of (48 + n))" "n < 10 \<Longrightarrow> digit_value (char_of (48 + n)) = n"
  by (simp_all add: is_digit_def digit_value_def of_char_of)

lemma nat_text_digits: "c \<in> set (nat_text n) \<Longrightarrow> is_digit c"
  by (induction n rule: nat_text.induct) (subst (asm) (2) nat_text.simps, auto split: if_splits)

lemma digits_value_snoc: "digits_value (s @ [c]) = 10 * digits_value s + digit_value c"
  by (simp add: digits_value_def)

lemma digits_value_nat_text [simp]: "digits_value (nat_text n) = n"
proof (induction n rule: nat_text.induct)
  case (1 n)
  show ?case
  proof (cases "n < 10")
    case True
    then show ?thesis by (subst nat_text.simps) (simp add: digits_value_def)
  next
    case False
    then show ?thesis using 1 by (subst nat_text.simps) (simp add: digits_value_snoc)
  qed
qed

lemma nat_text_nonempty [simp]: "nat_text n \<noteq> []"
  by (subst nat_text.simps) simp

subsection \<open>JSON values\<close>

datatype pyfloat = Fin rat | PosInf | NegInf | NaN

datatype pyval =
    PNone
  | PBool bool
  | PInt int
  | PFloat pyfloat
  | PStr string
  | PList "pyval list"
  | PDict "(string \<times> pyval) list"

definition dict_has :: "(string \<times> 'v) list \<Rightarrow> string \<Rightarrow> bool" where
  "dict_has d k = (map_of d k \<noteq> None)"

definition dict_get :: "(string \<times> pyval) list \<Rightarrow> string \<Rightarrow> pyval" where
  "dict_get d k = (case map_of d k of None \<Rightarrow> PNone | Some v \<Rightarrow> v)"

text \<open>
  \<open>x == n\<close> for an integer literal \<open>n\<close>: Python compares numbers of all three numeric types, and
  \<open>True == 1\<close>.
\<close>

definition num_of :: "pyval \<Rightarrow> pyfloat option" where
  "num_of v = (case v of PInt n \<Rightarrow> Some (Fin (of_int n))
     | PBool b \<Rightarrow> Some (Fin (if b then 1 else 0)) | PFloat f \<Rightarrow> Some f | _ \<Rightarrow> None)"

definition eq_int :: "pyval \<Rightarrow> int \<Rightarrow> bool" where
  "eq_int v n = (num_of v = Some (Fin (of_int n)))"

definition is_strict_int :: "pyval \<Rightarrow> bool" where
  "is_strict_int v = (case v of PInt _ \<Rightarrow> True | _ \<Rightarrow> False)"

definition int_val :: "pyval \<Rightarrow> int" where
  "int_val v = (case v of PInt n \<Rightarrow> n | PBool b \<Rightarrow> (if b then 1 else 0) | _ \<Rightarrow> 0)"

lemma eq_int_simps [simp]:
  "eq_int (PInt m) n = (m = n)"
  "eq_int (PStr s) n = False" "eq_int PNone n = False"
  "eq_int (PList xs) n = False" "eq_int (PDict d) n = False"
  by (simp_all add: eq_int_def num_of_def)

lemma is_strict_int_iff: "is_strict_int v \<longleftrightarrow> (\<exists>n. v = PInt n)"
  by (cases v) (auto simp: is_strict_int_def)

lemma int_val_PInt [simp]: "int_val (PInt n) = n"
  by (simp add: int_val_def)

definition type_name :: "pyval \<Rightarrow> string" where
  "type_name v = (case v of PNone \<Rightarrow> ''NoneType'' | PBool _ \<Rightarrow> ''bool'' | PInt _ \<Rightarrow> ''int''
     | PFloat _ \<Rightarrow> ''float'' | PStr _ \<Rightarrow> ''str'' | PList _ \<Rightarrow> ''list'' | PDict _ \<Rightarrow> ''dict'')"

text \<open>A date and time: whether it carries a time zone, and its distance from the epoch in UTC.\<close>

record py_datetime =
  aware :: bool
  utc_seconds :: rat

subsection \<open>Lists\<close>

text \<open>\<open>xs[-n:]\<close> for \<open>n > 0\<close>, and what a \<open>deque(maxlen=n)\<close> keeps.\<close>

definition take_last :: "nat \<Rightarrow> 'a list \<Rightarrow> 'a list" where
  "take_last n xs = drop (length xs - n) xs"

lemma length_take_last [simp]: "length (take_last n xs) = min n (length xs)"
  by (simp add: take_last_def)

lemma set_take_last: "set (take_last n xs) \<subseteq> set xs"
  by (simp add: take_last_def set_drop_subset)

lemma take_last_append_suffix: "\<exists>p. xs = p @ take_last n xs"
  by (metis append_take_drop_id take_last_def)

definition deque_append :: "nat \<Rightarrow> 'a list \<Rightarrow> 'a \<Rightarrow> 'a list" where
  "deque_append n xs x = take_last n (xs @ [x])"

lemma length_deque_append: "length (deque_append n xs x) \<le> n"
  by (simp add: deque_append_def)

lemma last_deque_append: "0 < n \<Longrightarrow> last (deque_append n xs x) = x"
  by (simp add: deque_append_def take_last_def)

lemma deque_append_nonempty: "0 < n \<Longrightarrow> deque_append n xs x \<noteq> []"
  by (simp add: deque_append_def take_last_def)

end
