(* ===== verification/Frame_Validation.thy ===== *)
theory Frame_Validation
  imports Rf_Prelude
begin

section \<open>The three validators of a SpectrumFrame\<close>

text \<open>
  A frame crosses three processes, and each checks it on its own:
  \<open>validate_frame\<close> of the ingest service (\<open>spectrum-ingest/app.py\<close>), \<open>_parse_frame\<close> of the
  backend's ingest client (\<open>spectrum/sources/spectrum_ingest.py\<close>) and \<open>_validate_frame\<close> of the
  machine-learning preprocessor (\<open>ml/preprocessing.py\<close>). All three take the value of
  \<open>json.loads\<close>. \<open>datetime.fromisoformat\<close>, the rounding of float arithmetic, \<open>numpy.asarray\<close>
  and the rarely used conversions (\<open>int("12")\<close>, \<open>str(3)\<close>, \<open>dict([...])\<close>) are arguments.

  The locale \<open>frame_contract\<close> is what every consumer of an accepted frame relies on; it is
  interpreted on all three validators.
\<close>

subsection \<open>Python helpers\<close>

text \<open>\<open>float(n)\<close> raises for an integer that rounds to \<open>2 ^ 1024\<close> or more.\<close>

definition float_overflow :: "int \<Rightarrow> bool" where
  "float_overflow n = (2 ^ 1024 - 2 ^ 970 \<le> \<bar>n\<bar>)"

definition too_large :: py_error where
  "too_large = OverflowError ''int too large to convert to float''"

definition is_fin :: "pyfloat \<Rightarrow> bool" where
  "is_fin f = (case f of Fin _ \<Rightarrow> True | _ \<Rightarrow> False)"

definition finite_number :: "pyval \<Rightarrow> bool result" where
  "finite_number v = (case v of
       PInt n \<Rightarrow> if float_overflow n then Inl too_large else Inr True
     | PFloat f \<Rightarrow> Inr (is_fin f)
     | _ \<Rightarrow> Inr False)"

text \<open>\<open>all(p(x) for x in xs)\<close>: stops at the first false value or exception.\<close>

fun all_result :: "('a \<Rightarrow> bool result) \<Rightarrow> 'a list \<Rightarrow> bool result" where
  "all_result p [] = Inr True"
| "all_result p (x # xs) = and_then (p x) (\<lambda>b. if b then all_result p xs else Inr False)"

definition unhashable :: "pyval \<Rightarrow> bool" where
  "unhashable v = (case v of PList _ \<Rightarrow> True | PDict _ \<Rightarrow> True | _ \<Rightarrow> False)"

definition not_positive :: "pyval \<Rightarrow> bool" where
  "not_positive v = (case num_of v of Some (Fin r) \<Rightarrow> r \<le> 0 | Some NegInf \<Rightarrow> True | _ \<Rightarrow> False)"

definition str_val :: "pyval \<Rightarrow> string" where
  "str_val v = (case v of PStr s \<Rightarrow> s | _ \<Rightarrow> [])"

text \<open>\<open>s.replace("Z", "+00:00")\<close>: every \<open>Z\<close>, not only a final one.\<close>

definition replace_Z :: "string \<Rightarrow> string" where
  "replace_Z s = concat (map (\<lambda>c. if c = CHR ''Z'' then ''+00:00'' else [c]) s)"

lemma all_result_Inr_True: "all_result p xs = Inr True \<longleftrightarrow> (\<forall>x\<in>set xs. p x = Inr True)"
  by (induction xs) (auto simp: and_then_Inr_iff)

lemma finite_number_True_iff:
  "finite_number v = Inr True \<longleftrightarrow>
     (\<exists>n. v = PInt n \<and> \<not> float_overflow n) \<or> (\<exists>r. v = PFloat (Fin r))"
  by (auto simp: finite_number_def is_fin_def split: pyval.splits pyfloat.splits)

lemma dict_has_get: "dict_has d k \<Longrightarrow> map_of d k = Some (dict_get d k)"
  by (auto simp: dict_has_def dict_get_def)

lemma eq_int_unique: "eq_int v m \<Longrightarrow> eq_int v n \<Longrightarrow> m = n"
  by (simp add: eq_int_def)

subsection \<open>The ingest service: \<open>validate_frame\<close>\<close>

definition source_type_names :: "string list" where
  "source_type_names = [''mock'', ''replay'', ''aaronia'', ''usrp'', ''hackrf'']"

definition required_fields :: "string list" where
  "required_fields =
     [''schema_version'', ''sensor_id'', ''source_type'', ''source_device'', ''device_model'',
      ''measurement_mode'', ''session_id'', ''timestamp'', ''sequence'', ''start_frequency_hz'',
      ''stop_frequency_hz'', ''step_frequency_hz'', ''center_frequency_hz'', ''sample_rate_hz'',
      ''rbw_hz'', ''num_points'', ''point_count'', ''power_unit'', ''powers_dbm'', ''flags'',
      ''metadata'']"

definition text_fields :: "string list" where
  "text_fields = [''sensor_id'', ''source_device'', ''device_model'', ''measurement_mode'',
     ''session_id'', ''timestamp'']"

definition integer_fields :: "string list" where
  "integer_fields = [''sequence'', ''start_frequency_hz'', ''stop_frequency_hz'',
     ''step_frequency_hz'', ''center_frequency_hz'', ''sample_rate_hz'', ''num_points'']"

definition bad_text :: "(string \<times> pyval) list \<Rightarrow> string \<Rightarrow> bool" where
  "bad_text d k = (case dict_get d k of PStr s \<Rightarrow> s = [] | _ \<Rightarrow> True)"

definition check_simulated :: "(string \<times> pyval) list \<Rightarrow> (bool \<times> string) result" where
  "check_simulated d =
     (if str_val (dict_get d ''source_type'') \<in> {''mock'', ''replay''} then
        (case dict_get d ''metadata'' of
           PDict m \<Rightarrow> if dict_get m ''is_simulated'' \<noteq> PBool True
                      then Inr (False, ''simulated source is not labelled'') else Inr (True, [])
         | v \<Rightarrow> Inl (AttributeError (type_name v @ '' object has no attribute get'')))
      else Inr (True, []))"

definition check_levels :: "(string \<times> pyval) list \<Rightarrow> (bool \<times> string) result" where
  "check_levels d =
     (case dict_get d ''powers_dbm'' of
        PList ps \<Rightarrow>
          if int (length ps) \<noteq> int_val (dict_get d ''num_points'')
          then Inr (False, ''powers_dbm is invalid'')
          else and_then (all_result finite_number ps) (\<lambda>ok.
            if \<not> ok then Inr (False, ''powers_dbm is invalid'')
            else and_then (finite_number (dict_get d ''rbw_hz'')) (\<lambda>ok.
              if \<not> ok \<or> not_positive (dict_get d ''rbw_hz'') then Inr (False, ''rbw_hz is invalid'')
              else check_simulated d))
      | _ \<Rightarrow> Inr (False, ''powers_dbm is invalid''))"

definition check_axis :: "int \<Rightarrow> (string \<times> pyval) list \<Rightarrow> (bool \<times> string) result" where
  "check_axis max_points d =
     (if \<not> list_all (\<lambda>k. is_strict_int (dict_get d k)) integer_fields
      then Inr (False, ''integer frame field has invalid type'')
      else let
        points = int_val (dict_get d ''num_points'');
        start = int_val (dict_get d ''start_frequency_hz'');
        stop = int_val (dict_get d ''stop_frequency_hz'');
        step = int_val (dict_get d ''step_frequency_hz'');
        center = int_val (dict_get d ''center_frequency_hz'')
      in if points \<le> 0 \<or> max_points < points \<or> \<not> eq_int (dict_get d ''point_count'') points \<or> step \<le> 0
      then Inr (False, ''invalid point count or frequency step'')
      else if stop \<noteq> start + step * (points - 1)
      then Inr (False, ''frequency axis is inconsistent'')
      else if \<not> (start \<le> center \<and> center \<le> stop)
      then Inr (False, ''center frequency is outside the frame'')
      else check_levels d)"

definition check_fields ::
  "(string \<Rightarrow> py_datetime option) \<Rightarrow> int \<Rightarrow> (string \<times> pyval) list \<Rightarrow> (bool \<times> string) result" where
  "check_fields fromiso max_points d =
     (if \<not> eq_int (dict_get d ''schema_version'') 1 \<or> dict_get d ''power_unit'' \<noteq> PStr ''dBm''
      then Inr (False, ''unsupported SpectrumFrame schema or power unit'')
      else if unhashable (dict_get d ''source_type'')
      then Inl (TypeError (''unhashable type: '' @ type_name (dict_get d ''source_type'')))
      else if dict_get d ''source_type'' \<notin> PStr ` set source_type_names
      then Inr (False, ''invalid source_type'')
      else (case filter (bad_text d) text_fields of
          k # _ \<Rightarrow> Inr (False, ''invalid '' @ k)
        | [] \<Rightarrow>
            (case fromiso (replace_Z (str_val (dict_get d ''timestamp''))) of
               None \<Rightarrow> Inr (False, ''invalid timestamp'')
             | Some t \<Rightarrow> if \<not> aware t then Inr (False, ''timestamp timezone is required'')
                         else check_axis max_points d)))"

definition validate_frame ::
  "(string \<Rightarrow> py_datetime option) \<Rightarrow> int \<Rightarrow> pyval \<Rightarrow> (bool \<times> string) result" where
  "validate_frame fromiso max_points frame =
     (case frame of
        PDict d \<Rightarrow> if list_all (dict_has d) required_fields then check_fields fromiso max_points d
                   else Inr (False, ''missing required SpectrumFrame fields'')
      | _ \<Rightarrow> Inr (False, ''missing required SpectrumFrame fields''))"

definition ingest_accepts :: "(string \<Rightarrow> py_datetime option) \<Rightarrow> int \<Rightarrow> pyval \<Rightarrow> bool" where
  "ingest_accepts fromiso max_points frame = (validate_frame fromiso max_points frame = Inr (True, []))"

subsection \<open>The machine-learning preprocessor: \<open>_validate_frame\<close>\<close>

definition ml_fields :: "string list" where
  "ml_fields = [''schema_version'', ''source_type'', ''session_id'', ''start_frequency_hz'',
     ''stop_frequency_hz'', ''step_frequency_hz'', ''num_points'', ''power_unit'', ''powers_dbm'']"

text \<open>\<open>v + n\<close> for an arbitrary JSON value and an integer; \<open>rnd\<close> rounds to a float.\<close>

definition plus_int :: "(rat \<Rightarrow> pyfloat) \<Rightarrow> pyval \<Rightarrow> int \<Rightarrow> pyval result" where
  "plus_int rnd v n = (case v of
       PInt m \<Rightarrow> Inr (PInt (m + n))
     | PBool b \<Rightarrow> Inr (PInt ((if b then 1 else 0) + n))
     | PFloat f \<Rightarrow> if float_overflow n then Inl too_large
         else Inr (PFloat (case f of
            Fin r \<Rightarrow> (case rnd (of_int n) of Fin m \<Rightarrow> rnd (r + m) | g \<Rightarrow> g) | g \<Rightarrow> g))
     | _ \<Rightarrow> Inl (TypeError (''unsupported operand type(s) for +: '' @ type_name v)))"

text \<open>\<open>==\<close> of two JSON values where at least one is a number.\<close>

definition num_eq :: "pyval \<Rightarrow> pyval \<Rightarrow> bool" where
  "num_eq v w = (case (num_of v, num_of w) of (Some x, Some y) \<Rightarrow> x = y \<and> x \<noteq> NaN | _ \<Rightarrow> False)"

definition ml_validate_frame ::
  "(rat \<Rightarrow> pyfloat) \<Rightarrow> (pyval list \<Rightarrow> pyfloat list result) \<Rightarrow> pyval \<Rightarrow> unit result" where
  "ml_validate_frame rnd asarray frame =
     (case frame of
        PDict d \<Rightarrow>
          if \<not> list_all (dict_has d) ml_fields then Inl (ValueError ''missing SpectrumFrame fields'')
          else if \<not> eq_int (dict_get d ''schema_version'') 1 \<or> dict_get d ''power_unit'' \<noteq> PStr ''dBm''
          then Inl (ValueError ''unsupported SpectrumFrame schema or power unit'')
          else if unhashable (dict_get d ''source_type'')
          then Inl (TypeError (''unhashable type: '' @ type_name (dict_get d ''source_type'')))
          else if dict_get d ''source_type'' \<notin> PStr ` set source_type_names
          then Inl (ValueError ''invalid source_type'')
          else let count = dict_get d ''num_points''; step = dict_get d ''step_frequency_hz'' in
          if \<not> is_strict_int count \<or> int_val count < 2 \<or> 65536 < int_val count
          then Inl (ValueError ''invalid num_points'')
          else if \<not> is_strict_int step \<or> int_val step \<le> 0
          then Inl (ValueError ''invalid step_frequency_hz'')
          else and_then
            (plus_int rnd (dict_get d ''start_frequency_hz'') (int_val step * (int_val count - 1)))
            (\<lambda>expected_stop.
              if \<not> num_eq (dict_get d ''stop_frequency_hz'') expected_stop
              then Inl (ValueError ''inconsistent frequency axis'')
              else (case dict_get d ''powers_dbm'' of
                  PList ps \<Rightarrow>
                    if int (length ps) \<noteq> int_val count
                    then Inl (ValueError ''powers_dbm length mismatch'')
                    else and_then (asarray ps) (\<lambda>values.
                      if list_all is_fin values then Inr ()
                      else Inl (ValueError ''powers_dbm contains non-finite values''))
                | _ \<Rightarrow> Inl (ValueError ''powers_dbm length mismatch'')))
      | _ \<Rightarrow> Inl (ValueError ''missing SpectrumFrame fields''))"

subsection \<open>The backend: \<open>_parse_frame\<close> and \<open>read_frame\<close>\<close>

record spectrum_point =
  frequency_mhz :: pyfloat
  power_dbm :: pyfloat

record spectrum_frame =
  sf_timestamp :: py_datetime
  sf_source_mode :: string
  sf_points :: "spectrum_point list"
  sf_sequence :: int
  sf_source_device :: string
  sf_device_model :: string
  sf_measurement_mode :: string
  sf_flags :: "(string \<times> pyval) list"

text \<open>The conversions of the language that the parser applies to unchecked values.\<close>

record conversions =
  cv_fromiso :: "string \<Rightarrow> py_datetime option"
  cv_round :: "rat \<Rightarrow> pyfloat"
  cv_str :: "pyval \<Rightarrow> string"
  cv_parse_int :: "string \<Rightarrow> int option"
  cv_dict :: "pyval \<Rightarrow> (string \<times> pyval) list result"

definition py_str :: "conversions \<Rightarrow> pyval \<Rightarrow> string" where
  "py_str cv v = (case v of PStr s \<Rightarrow> s | _ \<Rightarrow> cv_str cv v)"

definition py_dict :: "conversions \<Rightarrow> pyval \<Rightarrow> (string \<times> pyval) list result" where
  "py_dict cv v = (case v of PDict d \<Rightarrow> Inr d | _ \<Rightarrow> cv_dict cv v)"

definition py_int :: "conversions \<Rightarrow> pyval \<Rightarrow> int result" where
  "py_int cv v = (case v of
       PInt n \<Rightarrow> Inr n
     | PBool b \<Rightarrow> Inr (if b then 1 else 0)
     | PFloat (Fin r) \<Rightarrow> Inr (py_trunc r)
     | PFloat NaN \<Rightarrow> Inl (ValueError ''cannot convert float NaN to integer'')
     | PFloat _ \<Rightarrow> Inl (OverflowError ''cannot convert float infinity to integer'')
     | PStr s \<Rightarrow> (case cv_parse_int cv s of Some n \<Rightarrow> Inr n
         | None \<Rightarrow> Inl (ValueError ''invalid literal for int() with base 10''))
     | _ \<Rightarrow> Inl (TypeError ''int() argument must be a string or a real number''))"

definition py_float :: "conversions \<Rightarrow> pyval \<Rightarrow> pyfloat result" where
  "py_float cv v = (case v of
       PInt n \<Rightarrow> if float_overflow n then Inl too_large else Inr (cv_round cv (of_int n))
     | PBool b \<Rightarrow> Inr (Fin (if b then 1 else 0))
     | PFloat f \<Rightarrow> Inr f
     | _ \<Rightarrow> Inl (TypeError ''float() argument must be a string or a real number''))"

definition is_number :: "pyval \<Rightarrow> bool" where
  "is_number v = (num_of v \<noteq> None)"

definition is_int_or_bool :: "pyval \<Rightarrow> bool" where
  "is_int_or_bool v = (case v of PInt _ \<Rightarrow> True | PBool _ \<Rightarrow> True | _ \<Rightarrow> False)"

text \<open>\<open>n / 1_000_000.0\<close> for an integer.\<close>

definition per_million :: "conversions \<Rightarrow> int \<Rightarrow> pyfloat result" where
  "per_million cv n =
     (if float_overflow n then Inl too_large
      else Inr (case cv_round cv (of_int n) of Fin r \<Rightarrow> cv_round cv (r / 1000000) | f \<Rightarrow> f))"

fun build_points :: "conversions \<Rightarrow> int \<Rightarrow> int \<Rightarrow> nat \<Rightarrow> pyval list \<Rightarrow> spectrum_point list result" where
  "build_points cv start step index [] = Inr []"
| "build_points cv start step index (pw # rest) =
     and_then (per_million cv (start + int index * step)) (\<lambda>f.
       and_then (py_float cv pw) (\<lambda>p.
         and_then (build_points cv start step (index + 1) rest) (\<lambda>points.
           Inr (\<lparr>frequency_mhz = f, power_dbm = p\<rparr> # points))))"

definition parser_fields :: "string list" where
  "parser_fields = [''schema_version'', ''source_type'', ''source_device'', ''device_model'',
     ''measurement_mode'', ''timestamp'', ''sequence'', ''start_frequency_hz'',
     ''step_frequency_hz'', ''num_points'', ''point_count'', ''powers_dbm'', ''flags'']"

definition parse_frame :: "conversions \<Rightarrow> pyval \<Rightarrow> spectrum_frame result" where
  "parse_frame cv value =
     (case value of
        PDict d \<Rightarrow>
          if \<not> list_all (dict_has d) parser_fields then Inl (ValueError ''invalid SpectrumFrame fields'')
          else (case dict_get d ''powers_dbm'' of
            PList powers \<Rightarrow>
              if \<not> eq_int (dict_get d ''schema_version'') 1
                \<or> \<not> num_eq (dict_get d ''point_count'') (dict_get d ''num_points'')
                \<or> \<not> eq_int (dict_get d ''num_points'') (int (length powers))
              then Inl (ValueError ''invalid SpectrumFrame shape'')
              else if length powers < 2 \<or> 65536 < length powers \<or> \<not> list_all is_number powers
              then Inl (ValueError ''invalid SpectrumFrame powers'')
              else and_then (py_int cv (dict_get d ''start_frequency_hz'')) (\<lambda>start.
                and_then (py_int cv (dict_get d ''step_frequency_hz'')) (\<lambda>step.
                if start < 0 \<or> step \<le> 0 \<or> \<not> is_int_or_bool (dict_get d ''sequence'')
                  \<or> int_val (dict_get d ''sequence'') < 0
                then Inl (ValueError ''invalid SpectrumFrame frequency or sequence'')
                else (case cv_fromiso cv (replace_Z (py_str cv (dict_get d ''timestamp''))) of
                    None \<Rightarrow> Inl (ValueError ''Invalid isoformat string'')
                  | Some t \<Rightarrow> and_then (build_points cv start step 0 powers) (\<lambda>points.
                      and_then (py_dict cv (dict_get d ''flags'')) (\<lambda>flags.
                        Inr \<lparr>sf_timestamp = t,
                             sf_source_mode = py_str cv (dict_get d ''source_type''),
                             sf_points = points,
                             sf_sequence = int_val (dict_get d ''sequence''),
                             sf_source_device = py_str cv (dict_get d ''source_device''),
                             sf_device_model = py_str cv (dict_get d ''device_model''),
                             sf_measurement_mode = py_str cv (dict_get d ''measurement_mode''),
                             sf_flags = flags\<rparr>)))))
          | _ \<Rightarrow> Inl (ValueError ''invalid SpectrumFrame shape''))
      | _ \<Rightarrow> Inl (ValueError ''invalid SpectrumFrame fields''))"

text \<open>
  The client's connection. One call of \<open>read_frame\<close> gets the outcome of \<open>connect\<close> (used only
  without a socket) and of \<open>recv\<close> plus \<open>json.loads\<close>; any exception closes the socket.
\<close>

record ingest_client =
  has_socket :: bool
  client_error :: "py_error option"
  last_frame :: "spectrum_frame option"

definition read_frame ::
  "conversions \<Rightarrow> ingest_client \<Rightarrow> unit result \<Rightarrow> pyval result \<Rightarrow> ingest_client \<times> spectrum_frame result" where
  "read_frame cv c connect recv =
     (let outcome =
        and_then (if has_socket c then Inr () else connect) (\<lambda>_.
          and_then recv (\<lambda>payload. parse_frame cv payload))
      in case outcome of
        Inr frame \<Rightarrow> (c\<lparr>has_socket := True, client_error := None, last_frame := Some frame\<rparr>, Inr frame)
      | Inl e \<Rightarrow> (c\<lparr>has_socket := False, client_error := Some e\<rparr>,
                  Inl (RuntimeError ''Spectrum ingest unavailable'')))"

lemma length_build_points:
  "build_points cv start step i ps = Inr pts \<Longrightarrow> length pts = length ps"
  by (induction cv start step i ps arbitrary: pts rule: build_points.induct)
    (auto simp: and_then_Inr_iff)

lemma build_points_nth:
  "build_points cv start step i ps = Inr pts \<Longrightarrow> k < length ps \<Longrightarrow>
    per_million cv (start + int (i + k) * step) = Inr (frequency_mhz (pts ! k)) \<and>
    py_float cv (ps ! k) = Inr (power_dbm (pts ! k))"
proof (induction cv start step i ps arbitrary: pts k rule: build_points.induct)
  case (2 cv start step index pw rest)
  then show ?case
    by (cases k) (auto simp: and_then_Inr_iff algebra_simps)
qed simp

lemma build_points_total:
  assumes "\<And>p. p \<in> set ps \<Longrightarrow> is_ok (py_float cv p)"
    and "\<And>k. k < length ps \<Longrightarrow> \<not> float_overflow (start + int (i + k) * step)"
  shows "is_ok (build_points cv start step i ps)"
  using assms
proof (induction ps arbitrary: i)
  case (Cons p ps)
  have "is_ok (build_points cv start step (i + 1) ps)"
  proof (rule Cons.IH)
    show "\<not> float_overflow (start + int (i + 1 + k) * step)" if "k < length ps" for k
      using Cons.prems(2) [of "Suc k"] that by (simp add: algebra_simps)
  qed (simp add: Cons.prems(1))
  moreover have "is_ok (py_float cv p)" by (simp add: Cons.prems(1))
  moreover have "is_ok (per_million cv (start + int i * step))"
    using Cons.prems(2) [of 0] by (simp add: per_million_def)
  ultimately show ?case by (auto simp: is_ok_iff)
qed simp

subsection \<open>What acceptance means\<close>

text \<open>The shape of an accepted frame, with the values of its numeric fields.\<close>

definition frame_shape :: "int \<Rightarrow> (string \<times> pyval) list \<Rightarrow> bool" where
  "frame_shape max_points d =
     (case dict_get d ''powers_dbm'' of
        PList ps \<Rightarrow>
          (let n = int (length ps); start = dict_get d ''start_frequency_hz'' in
           0 < n \<and> n \<le> max_points
           \<and> dict_get d ''num_points'' = PInt n \<and> eq_int (dict_get d ''point_count'') n
           \<and> (\<forall>p\<in>set ps. finite_number p = Inr True)
           \<and> (\<forall>k\<in>set integer_fields. is_strict_int (dict_get d k))
           \<and> 0 < int_val (dict_get d ''step_frequency_hz'')
           \<and> int_val (dict_get d ''stop_frequency_hz'')
               = int_val start + int_val (dict_get d ''step_frequency_hz'') * (n - 1)
           \<and> int_val start \<le> int_val (dict_get d ''center_frequency_hz'')
           \<and> int_val (dict_get d ''center_frequency_hz'') \<le> int_val (dict_get d ''stop_frequency_hz''))
      | _ \<Rightarrow> False)"

lemma check_levels_True:
  assumes "check_levels d = Inr (True, [])"
  shows "\<exists>ps. dict_get d ''powers_dbm'' = PList ps
    \<and> int (length ps) = int_val (dict_get d ''num_points'') \<and> (\<forall>p\<in>set ps. finite_number p = Inr True)
    \<and> finite_number (dict_get d ''rbw_hz'') = Inr True \<and> \<not> not_positive (dict_get d ''rbw_hz'')
    \<and> check_simulated d = Inr (True, [])"
  using assms
  by (auto simp: check_levels_def and_then_Inr_iff all_result_Inr_True split: pyval.splits if_splits)

lemma check_axis_True:
  assumes "check_axis m d = Inr (True, [])"
  shows "(\<forall>k\<in>set integer_fields. is_strict_int (dict_get d k))
    \<and> 0 < int_val (dict_get d ''num_points'') \<and> int_val (dict_get d ''num_points'') \<le> m
    \<and> eq_int (dict_get d ''point_count'') (int_val (dict_get d ''num_points''))
    \<and> 0 < int_val (dict_get d ''step_frequency_hz'')
    \<and> int_val (dict_get d ''stop_frequency_hz'') = int_val (dict_get d ''start_frequency_hz'')
        + int_val (dict_get d ''step_frequency_hz'') * (int_val (dict_get d ''num_points'') - 1)
    \<and> int_val (dict_get d ''start_frequency_hz'') \<le> int_val (dict_get d ''center_frequency_hz'')
    \<and> int_val (dict_get d ''center_frequency_hz'') \<le> int_val (dict_get d ''stop_frequency_hz'')
    \<and> check_levels d = Inr (True, [])"
  using assms unfolding check_axis_def Let_def
  by (simp add: list_all_iff not_less split: if_splits)

lemma check_fields_True:
  assumes "check_fields fromiso m d = Inr (True, [])"
  shows "eq_int (dict_get d ''schema_version'') 1 \<and> dict_get d ''power_unit'' = PStr ''dBm''
    \<and> dict_get d ''source_type'' \<in> PStr ` set source_type_names
    \<and> (\<forall>k\<in>set text_fields. \<exists>s. dict_get d k = PStr s \<and> s \<noteq> [])
    \<and> (\<exists>t. fromiso (replace_Z (str_val (dict_get d ''timestamp''))) = Some t \<and> aware t)
    \<and> check_axis m d = Inr (True, [])"
proof -
  have bad: "\<not> bad_text d k \<Longrightarrow> \<exists>s. dict_get d k = PStr s \<and> s \<noteq> []" for k
    by (cases "dict_get d k") (simp_all add: bad_text_def)
  have txts: "filter (bad_text d) text_fields = [] \<Longrightarrow> \<forall>k\<in>set text_fields. \<exists>s. dict_get d k = PStr s \<and> s \<noteq> []"
    using bad by (simp add: filter_empty_conv)
  show ?thesis
    using assms txts unfolding check_fields_def
    by (simp split: if_splits list.splits option.splits)
qed

lemma ingest_accepts_dict:
  assumes "ingest_accepts fromiso m frame"
  obtains d where "frame = PDict d" "\<forall>k\<in>set required_fields. dict_has d k"
    "check_fields fromiso m d = Inr (True, [])"
  using assms unfolding ingest_accepts_def validate_frame_def list_all_iff
  by (cases frame) (simp_all split: if_splits)

lemma check_fields_shape:
  assumes "check_fields fromiso m d = Inr (True, [])"
  shows "frame_shape m d"
proof -
  from check_fields_True [OF assms] have axis: "check_axis m d = Inr (True, [])" by blast
  note a = check_axis_True [OF axis]
  then obtain ps where ps: "dict_get d ''powers_dbm'' = PList ps"
    "int (length ps) = int_val (dict_get d ''num_points'')" "\<forall>p\<in>set ps. finite_number p = Inr True"
    using check_levels_True by blast
  have "is_strict_int (dict_get d ''num_points'')" using a by (simp add: integer_fields_def)
  then have "dict_get d ''num_points'' = PInt (int (length ps))"
    using ps(2) by (auto simp: is_strict_int_iff)
  with a ps(1,3) show ?thesis unfolding frame_shape_def by (simp add: Let_def)
qed

lemma strict_int_val: "is_strict_int v \<Longrightarrow> v = PInt (int_val v)"
  by (auto simp: is_strict_int_iff)

subsection \<open>The contract of a validated frame\<close>

text \<open>
  What the code behind a validator relies on: an accepted frame is a dictionary of schema 1 whose
  \<open>powers_dbm\<close> is a list with as many entries as \<open>num_points\<close> says, between \<open>lo\<close> and \<open>hi\<close>.
\<close>

locale frame_contract =
  fixes accepts :: "pyval \<Rightarrow> bool" and lo hi :: int
  assumes lo_pos: "0 < lo"
    and accepted_shape: "accepts f \<Longrightarrow> \<exists>d ps. f = PDict d \<and> eq_int (dict_get d ''schema_version'') 1
      \<and> dict_get d ''powers_dbm'' = PList ps \<and> eq_int (dict_get d ''num_points'') (int (length ps))
      \<and> lo \<le> int (length ps) \<and> int (length ps) \<le> hi"
begin

lemma accepted_nonempty:
  "accepts (PDict d) \<Longrightarrow> \<exists>p ps. dict_get d ''powers_dbm'' = PList (p # ps)"
proof -
  assume "accepts (PDict d)"
  then obtain ps where "dict_get d ''powers_dbm'' = PList ps" "lo \<le> int (length ps)"
    using accepted_shape by blast
  then show ?thesis using lo_pos by (cases ps) auto
qed

lemma accepted_count_unique:
  assumes "accepts (PDict d)" "dict_get d ''powers_dbm'' = PList ps" "eq_int (dict_get d ''num_points'') n"
  shows "n = int (length ps) \<and> lo \<le> n \<and> n \<le> hi"
  using accepted_shape [OF assms(1)] assms(2,3) by (auto dest: eq_int_unique)

lemma batch_size:
  "\<forall>f\<in>set fs. accepts f \<Longrightarrow>
     lo * int (length fs) \<le> (\<Sum>f\<leftarrow>fs. case f of PDict d \<Rightarrow>
         (case dict_get d ''powers_dbm'' of PList ps \<Rightarrow> int (length ps) | _ \<Rightarrow> 0) | _ \<Rightarrow> 0)"
proof (induction fs)
  case (Cons f fs)
  from Cons.prems obtain d ps where "f = PDict d" "dict_get d ''powers_dbm'' = PList ps"
    "lo \<le> int (length ps)" using accepted_shape [of f] by auto
  with Cons show ?case by (auto simp: algebra_simps)
qed simp

end

definition ml_accepts :: "(rat \<Rightarrow> pyfloat) \<Rightarrow> (pyval list \<Rightarrow> pyfloat list result) \<Rightarrow> pyval \<Rightarrow> bool" where
  "ml_accepts rnd asarray f = is_ok (ml_validate_frame rnd asarray f)"

definition parser_accepts :: "conversions \<Rightarrow> pyval \<Rightarrow> bool" where
  "parser_accepts cv f = is_ok (parse_frame cv f)"

lemma ml_accepts_shape:
  assumes "ml_accepts rnd asarray f"
  shows "\<exists>d ps. f = PDict d \<and> eq_int (dict_get d ''schema_version'') 1
      \<and> dict_get d ''powers_dbm'' = PList ps \<and> eq_int (dict_get d ''num_points'') (int (length ps))
      \<and> 2 \<le> int (length ps) \<and> int (length ps) \<le> 65536"
proof -
  obtain d where d: "f = PDict d"
    using assms by (cases f) (simp_all add: ml_accepts_def ml_validate_frame_def)
  show ?thesis
    using assms unfolding d ml_accepts_def is_ok_iff ml_validate_frame_def Let_def
    by (auto simp: and_then_Inr_iff is_strict_int_iff split: if_splits pyval.splits)
qed

lemma parser_accepts_shape:
  assumes "parser_accepts cv f"
  shows "\<exists>d ps. f = PDict d \<and> eq_int (dict_get d ''schema_version'') 1
      \<and> dict_get d ''powers_dbm'' = PList ps \<and> eq_int (dict_get d ''num_points'') (int (length ps))
      \<and> 2 \<le> int (length ps) \<and> int (length ps) \<le> 65536"
proof -
  obtain d where d: "f = PDict d"
    using assms by (cases f) (simp_all add: parser_accepts_def parse_frame_def)
  show ?thesis
    using assms unfolding d parser_accepts_def is_ok_iff parse_frame_def
    by (auto simp: and_then_Inr_iff split: if_splits pyval.splits)
qed

interpretation ingest_contract: frame_contract "ingest_accepts fromiso m" 1 m for fromiso m
proof unfold_locales
  fix f assume "ingest_accepts fromiso m f"
  then obtain d where d: "f = PDict d" "check_fields fromiso m d = Inr (True, [])"
    by (rule ingest_accepts_dict)
  from check_fields_shape [OF d(2)] check_fields_True [OF d(2)]
  show "\<exists>d ps. f = PDict d \<and> eq_int (dict_get d ''schema_version'') 1
      \<and> dict_get d ''powers_dbm'' = PList ps \<and> eq_int (dict_get d ''num_points'') (int (length ps))
      \<and> 1 \<le> int (length ps) \<and> int (length ps) \<le> m"
    using d(1) by (auto simp: frame_shape_def Let_def Suc_le_eq split: pyval.splits)
qed simp

interpretation ml_contract: frame_contract "ml_accepts rnd asarray" 2 65536 for rnd asarray
  by unfold_locales (use ml_accepts_shape in simp_all)

interpretation parser_contract: frame_contract "parser_accepts cv" 2 65536 for cv
  by unfold_locales (use parser_accepts_shape in simp_all)

subsection \<open>Agreement of the validators\<close>

lemma frame_shapeD:
  assumes "frame_shape m d"
  obtains n start stop step center seq ps where
    "dict_get d ''powers_dbm'' = PList ps" "n = int (length ps)" "0 < n" "n \<le> m"
    "dict_get d ''num_points'' = PInt n" "eq_int (dict_get d ''point_count'') n"
    "\<forall>p\<in>set ps. finite_number p = Inr True"
    "dict_get d ''start_frequency_hz'' = PInt start" "dict_get d ''stop_frequency_hz'' = PInt stop"
    "dict_get d ''step_frequency_hz'' = PInt step" "dict_get d ''center_frequency_hz'' = PInt center"
    "dict_get d ''sequence'' = PInt seq"
    "0 < step" "stop = start + step * (n - 1)" "start \<le> center" "center \<le> stop"
proof -
  from assms obtain ps where ps: "dict_get d ''powers_dbm'' = PList ps"
    by (auto simp: frame_shape_def split: pyval.splits)
  have ints: "\<forall>k\<in>set integer_fields. dict_get d k = PInt (int_val (dict_get d k))"
    using assms ps by (auto simp: frame_shape_def Let_def intro: strict_int_val)
  show thesis
  proof (rule that [OF ps refl])
    show "dict_get d ''start_frequency_hz'' = PInt (int_val (dict_get d ''start_frequency_hz''))"
      "dict_get d ''stop_frequency_hz'' = PInt (int_val (dict_get d ''stop_frequency_hz''))"
      "dict_get d ''step_frequency_hz'' = PInt (int_val (dict_get d ''step_frequency_hz''))"
      "dict_get d ''center_frequency_hz'' = PInt (int_val (dict_get d ''center_frequency_hz''))"
      "dict_get d ''sequence'' = PInt (int_val (dict_get d ''sequence''))"
      using ints by (simp_all add: integer_fields_def)
  qed (use assms ps in \<open>simp_all add: frame_shape_def Let_def\<close>)
qed

lemma ingest_implies_ml:
  assumes acc: "ingest_accepts fromiso m (PDict d)" and m: "m \<le> 65536"
    and two: "2 \<le> int_val (dict_get d ''num_points'')"
    and asarray: "\<And>ps. \<forall>p\<in>set ps. finite_number p = Inr True \<Longrightarrow>
        \<exists>vs. asarray ps = Inr vs \<and> list_all is_fin vs"
  shows "ml_validate_frame rnd asarray (PDict d) = Inr ()"
proof -
  from acc have has: "\<forall>k\<in>set required_fields. dict_has d k"
    and f: "check_fields fromiso m d = Inr (True, [])"
    by (auto elim: ingest_accepts_dict)
  from check_fields_shape [OF f] obtain n start stop step center seq ps where s:
    "dict_get d ''powers_dbm'' = PList ps" "n = int (length ps)" "0 < n" "n \<le> m"
    "dict_get d ''num_points'' = PInt n" "eq_int (dict_get d ''point_count'') n"
    "\<forall>p\<in>set ps. finite_number p = Inr True"
    "dict_get d ''start_frequency_hz'' = PInt start" "dict_get d ''stop_frequency_hz'' = PInt stop"
    "dict_get d ''step_frequency_hz'' = PInt step" "dict_get d ''center_frequency_hz'' = PInt center"
    "dict_get d ''sequence'' = PInt seq"
    "0 < step" "stop = start + step * (n - 1)" by (rule frame_shapeD) blast
  note t = check_fields_True [OF f]
  obtain vs where vs: "asarray ps = Inr vs" "list_all is_fin vs" using asarray s(7) by blast
  have fields: "list_all (dict_has d) ml_fields"
    using has by (auto simp: list_all_iff ml_fields_def required_fields_def)
  have hashable: "\<not> unhashable (dict_get d ''source_type'')"
    using t by (auto simp: unhashable_def)
  show ?thesis
    using t s m two vs fields hashable
    by (simp add: ml_validate_frame_def Let_def is_strict_int_def plus_int_def num_eq_def num_of_def)
qed

lemma finite_number_py_float: "finite_number p = Inr True \<Longrightarrow> is_ok (py_float cv p) \<and> is_number p"
  by (auto simp: finite_number_True_iff py_float_def is_number_def num_of_def)

text \<open>A non-negative axis that ends below the float range has no point above it.\<close>

lemma axis_no_overflow:
  assumes "0 \<le> start" "0 < step" "stop = start + step * (int n - 1)" "\<not> float_overflow stop" "k < n"
  shows "\<not> float_overflow (start + int k * step)"
proof -
  have "int k * step \<le> (int n - 1) * step" using assms(2,5) by (intro mult_right_mono) simp_all
  then have "start + int k * step \<le> stop" using assms(3) by (simp add: algebra_simps)
  moreover have "0 \<le> start + int k * step" using assms(1,2) by simp
  ultimately show ?thesis using assms(4) by (simp add: float_overflow_def)
qed

lemma ingest_implies_parser:
  assumes acc: "ingest_accepts (cv_fromiso cv) m (PDict d)" and m: "m \<le> 65536"
    and two: "2 \<le> int_val (dict_get d ''num_points'')"
    and start0: "0 \<le> int_val (dict_get d ''start_frequency_hz'')"
    and seq0: "0 \<le> int_val (dict_get d ''sequence'')"
    and small: "\<not> float_overflow (int_val (dict_get d ''stop_frequency_hz''))"
    and flags: "dict_get d ''flags'' = PDict fl"
  shows "\<exists>fr. parse_frame cv (PDict d) = Inr fr
    \<and> int (length (sf_points fr)) = int_val (dict_get d ''num_points'')
    \<and> sf_sequence fr = int_val (dict_get d ''sequence'') \<and> sf_flags fr = fl"
proof -
  from acc have has: "\<forall>k\<in>set required_fields. dict_has d k"
    and f: "check_fields (cv_fromiso cv) m d = Inr (True, [])"
    by (auto elim: ingest_accepts_dict)
  from check_fields_shape [OF f] obtain n start stop step center seq ps where s:
    "dict_get d ''powers_dbm'' = PList ps" "n = int (length ps)" "0 < n" "n \<le> m"
    "dict_get d ''num_points'' = PInt n" "eq_int (dict_get d ''point_count'') n"
    "\<forall>p\<in>set ps. finite_number p = Inr True"
    "dict_get d ''start_frequency_hz'' = PInt start" "dict_get d ''stop_frequency_hz'' = PInt stop"
    "dict_get d ''step_frequency_hz'' = PInt step" "dict_get d ''center_frequency_hz'' = PInt center"
    "dict_get d ''sequence'' = PInt seq"
    "0 < step" "stop = start + step * (n - 1)" by (rule frame_shapeD) blast
  note t = check_fields_True [OF f]
  from t obtain ts where ts: "dict_get d ''timestamp'' = PStr ts" by (auto simp: text_fields_def)
  with t obtain tm where tm: "cv_fromiso cv (replace_Z ts) = Some tm" by (auto simp: str_val_def)
  have "is_ok (build_points cv start step 0 ps)"
  proof (rule build_points_total)
    show "is_ok (py_float cv p)" if "p \<in> set ps" for p
      using s(7) that finite_number_py_float by blast
    show "\<not> float_overflow (start + int (0 + k) * step)" if "k < length ps" for k
      using axis_no_overflow [of start step stop "length ps" k] s start0 small that by simp
  qed
  then obtain pts where pts: "build_points cv start step 0 ps = Inr pts" by (auto simp: is_ok_iff)
  have fields: "list_all (dict_has d) parser_fields"
    using has by (auto simp: list_all_iff parser_fields_def required_fields_def)
  have nums: "list_all is_number ps" using s(7) finite_number_py_float by (auto simp: list_all_iff)
  have count: "num_eq (dict_get d ''point_count'') (dict_get d ''num_points'')"
    using s(5,6) by (simp add: num_eq_def eq_int_def num_of_def)
  show ?thesis
    using t s m two start0 seq0 ts tm pts fields nums count flags length_build_points [OF pts]
    by (simp add: parse_frame_def py_int_def is_int_or_bool_def py_str_def py_dict_def)
qed

lemma parser_rejects_short:
  assumes "dict_get d ''powers_dbm'' = PList ps" and "length ps < 2"
  shows "\<exists>msg. parse_frame cv (PDict d) = Inl (ValueError msg)"
  using assms by (auto simp: parse_frame_def)

subsection \<open>Properties\<close>

text \<open>A concrete frame and concrete conversions, for the witnesses.\<close>

definition sample_fields :: "nat \<Rightarrow> (string \<times> pyval) list" where
  "sample_fields n =
     [(''schema_version'', PInt 1), (''sensor_id'', PStr ''s1''), (''source_type'', PStr ''mock''),
      (''source_device'', PStr ''dev''), (''device_model'', PStr ''model''),
      (''measurement_mode'', PStr ''sweep''), (''session_id'', PStr ''run''),
      (''timestamp'', PStr ''2024-01-01T00:00:00Z''), (''sequence'', PInt 7),
      (''start_frequency_hz'', PInt 100), (''stop_frequency_hz'', PInt (100 + 10 * (int n - 1))),
      (''step_frequency_hz'', PInt 10), (''center_frequency_hz'', PInt 100),
      (''sample_rate_hz'', PInt 0), (''rbw_hz'', PFloat (Fin 10)), (''num_points'', PInt (int n)),
      (''point_count'', PInt (int n)), (''power_unit'', PStr ''dBm''),
      (''powers_dbm'', PList (replicate n (PFloat (Fin (-70))))), (''flags'', PDict []),
      (''metadata'', PDict [(''is_simulated'', PBool True)])]"

definition sample_conversions :: conversions where
  "sample_conversions =
     \<lparr>cv_fromiso = (\<lambda>s. if s = ''2024-01-01T00:00:00+00:00'' then Some \<lparr>aware = True, utc_seconds = 1704067200\<rparr> else None),
      cv_round = Fin, cv_str = (\<lambda>_. []), cv_parse_int = (\<lambda>_. None),
      cv_dict = (\<lambda>_. Inl (TypeError ''dict''))\<rparr>"

definition sample_asarray :: "pyval list \<Rightarrow> pyfloat list result" where
  "sample_asarray ps = (if list_all is_number ps
     then Inr (map (\<lambda>p. case num_of p of Some x \<Rightarrow> x | None \<Rightarrow> NaN) ps)
     else Inl (ValueError ''could not convert''))"

lemmas sample_simps = sample_fields_def sample_conversions_def validate_frame_def check_fields_def
  check_axis_def check_levels_def check_simulated_def required_fields_def text_fields_def
  integer_fields_def source_type_names_def ingest_accepts_def dict_has_def dict_get_def
  bad_text_def unhashable_def str_val_def replace_Z_def is_strict_int_def is_fin_def
  finite_number_def float_overflow_def not_positive_def num_of_def numeral_2_eq_2

lemma sample_accepted_2: "ingest_accepts (cv_fromiso sample_conversions) 65536 (PDict (sample_fields 2))"
  by (simp add: sample_simps)

lemma sample_accepted_1: "ingest_accepts (cv_fromiso sample_conversions) 65536 (PDict (sample_fields 1))"
  by (simp add: sample_simps)

lemma sample_asarray_ok:
  "\<forall>p\<in>set ps. finite_number p = Inr True \<Longrightarrow> \<exists>vs. sample_asarray ps = Inr vs \<and> list_all is_fin vs"
  by (auto simp: sample_asarray_def list_all_iff finite_number_True_iff is_number_def num_of_def
      is_fin_def split: pyval.splits)

text \<open>
  C1: A frame that the ingest service accepts is a dictionary of schema 1 in dBm with a known
  source type, non-empty identifying texts and a time stamp with a zone; its powers are as many
  finite numbers as \<open>num_points\<close> and \<open>point_count\<close> say, within the configured maximum; its
  axis is consistent (\<open>stop = start + step * (n - 1)\<close>, positive step, centre inside), and a
  simulated source is labelled as such.
\<close>

theorem validate_frame_sound:
  assumes "validate_frame fromiso max_points frame = Inr (True, [])"
  shows "\<exists>d. frame = PDict d \<and> frame_shape max_points d
    \<and> eq_int (dict_get d ''schema_version'') 1 \<and> dict_get d ''power_unit'' = PStr ''dBm''
    \<and> dict_get d ''source_type'' \<in> PStr ` set source_type_names
    \<and> (\<forall>k\<in>set text_fields. \<exists>s. dict_get d k = PStr s \<and> s \<noteq> [])
    \<and> (\<exists>t. fromiso (replace_Z (str_val (dict_get d ''timestamp''))) = Some t \<and> aware t)
    \<and> finite_number (dict_get d ''rbw_hz'') = Inr True \<and> \<not> not_positive (dict_get d ''rbw_hz'')
    \<and> (str_val (dict_get d ''source_type'') \<in> {''mock'', ''replay''} \<longrightarrow>
         (\<exists>m. dict_get d ''metadata'' = PDict m \<and> dict_get m ''is_simulated'' = PBool True))"
proof -
  from assms have "ingest_accepts fromiso max_points frame" by (simp add: ingest_accepts_def)
  then obtain d where d: "frame = PDict d" "check_fields fromiso max_points d = Inr (True, [])"
    by (rule ingest_accepts_dict)
  note t = check_fields_True [OF d(2)]
  then have "check_axis max_points d = Inr (True, [])" by blast
  from check_axis_True [OF this] have "check_levels d = Inr (True, [])" by blast
  from check_levels_True [OF this]
  have l: "finite_number (dict_get d ''rbw_hz'') = Inr True" "\<not> not_positive (dict_get d ''rbw_hz'')"
    "check_simulated d = Inr (True, [])" by blast+
  have "str_val (dict_get d ''source_type'') \<in> {''mock'', ''replay''} \<longrightarrow>
      (\<exists>m. dict_get d ''metadata'' = PDict m \<and> dict_get m ''is_simulated'' = PBool True)"
    using l(3) by (simp add: check_simulated_def split: pyval.splits if_splits)
  with d(1) t l(1,2) check_fields_shape [OF d(2)] show ?thesis by blast
qed

lemma validate_frame_sound_witness:
  "\<exists>d. PDict (sample_fields 2) = PDict d \<and> frame_shape 65536 d"
  using validate_frame_sound [OF sample_accepted_2 [unfolded ingest_accepts_def]] by blast

text \<open>
  C4: The ingest service and the machine-learning preprocessor agree: a frame of at least two
  points that the ingest service accepts (with at most 65536 points configured) passes
  \<open>_validate_frame\<close>, for any \<open>numpy.asarray\<close> that turns a list of finite numbers into finite
  floats.
\<close>

theorem ingest_frame_accepted_by_ml:
  assumes "ingest_accepts fromiso max_points (PDict d)" and "max_points \<le> 65536"
    and "2 \<le> int_val (dict_get d ''num_points'')"
    and "\<And>ps. \<forall>p\<in>set ps. finite_number p = Inr True \<Longrightarrow>
        \<exists>vs. asarray ps = Inr vs \<and> list_all is_fin vs"
  shows "ml_validate_frame rnd asarray (PDict d) = Inr ()"
  using assms by (rule ingest_implies_ml)

lemma ingest_frame_accepted_by_ml_witness:
  "ml_validate_frame Fin sample_asarray (PDict (sample_fields 2)) = Inr ()"
  by (rule ingest_frame_accepted_by_ml [OF sample_accepted_2 order_refl _ sample_asarray_ok])
    (simp add: sample_simps)

text \<open>
  The ingest service and the backend's client agree on frames with at least two points, a
  non-negative axis inside the float range, a non-negative sequence number and a dictionary of
  flags: \<open>_parse_frame\<close> returns a frame with one point per power, the sequence number and the
  flags of the message, and point \<open>k\<close> has the level \<open>float(powers_dbm[k])\<close> and the frequency
  \<open>(start + k * step) / 1e6\<close>.
\<close>

theorem ingest_frame_parsed_by_backend:
  assumes "ingest_accepts (cv_fromiso cv) max_points (PDict d)" and "max_points \<le> 65536"
    and "2 \<le> int_val (dict_get d ''num_points'')"
    and "0 \<le> int_val (dict_get d ''start_frequency_hz'')" and "0 \<le> int_val (dict_get d ''sequence'')"
    and "\<not> float_overflow (int_val (dict_get d ''stop_frequency_hz''))"
    and "dict_get d ''flags'' = PDict fl"
  shows "\<exists>fr ps. parse_frame cv (PDict d) = Inr fr \<and> dict_get d ''powers_dbm'' = PList ps
    \<and> length (sf_points fr) = length ps
    \<and> sf_sequence fr = int_val (dict_get d ''sequence'') \<and> sf_flags fr = fl
    \<and> (\<forall>k<length ps.
         per_million cv (int_val (dict_get d ''start_frequency_hz'')
           + int k * int_val (dict_get d ''step_frequency_hz'')) = Inr (frequency_mhz (sf_points fr ! k))
         \<and> py_float cv (ps ! k) = Inr (power_dbm (sf_points fr ! k)))"
proof -
  from ingest_implies_parser [OF assms] obtain fr where fr: "parse_frame cv (PDict d) = Inr fr"
    "sf_sequence fr = int_val (dict_get d ''sequence'')" "sf_flags fr = fl" by blast
  from assms(1) have "check_fields (cv_fromiso cv) max_points d = Inr (True, [])"
    by (auto elim: ingest_accepts_dict)
  from check_fields_shape [OF this] obtain ps start step where s:
    "dict_get d ''powers_dbm'' = PList ps"
    "dict_get d ''start_frequency_hz'' = PInt start" "dict_get d ''step_frequency_hz'' = PInt step"
    by (rule frame_shapeD) blast
  have b: "build_points cv start step 0 ps = Inr (sf_points fr)"
    using fr(1) s by (auto simp: parse_frame_def and_then_Inr_iff py_int_def
        split: if_splits option.splits)
  show ?thesis
    using fr s length_build_points [OF b] build_points_nth [OF b] by auto
qed

lemma ingest_frame_parsed_by_backend_witness:
  "\<exists>fr. parse_frame sample_conversions (PDict (sample_fields 2)) = Inr fr \<and> sf_sequence fr = 7"
  using ingest_frame_parsed_by_backend [where fl = "[]", OF sample_accepted_2 order_refl]
  by (simp add: sample_simps) blast

text \<open>
  The validators disagree on a frame with a single point: the ingest service accepts and
  publishes it, the backend's client rejects it with an exception and closes its connection.
\<close>

theorem one_point_frame_disconnects_backend:
  assumes "ingest_accepts fromiso max_points (PDict d)" and "dict_get d ''num_points'' = PInt 1"
  shows "\<exists>c' e. read_frame cv \<lparr>has_socket = True, client_error = None, last_frame = lf\<rparr> connect (Inr (PDict d))
      = (c', Inl e) \<and> \<not> has_socket c' \<and> last_frame c' = lf"
proof -
  from assms(1) have "check_fields fromiso max_points d = Inr (True, [])"
    by (auto elim: ingest_accepts_dict)
  from check_fields_shape [OF this] obtain ps n where "dict_get d ''powers_dbm'' = PList ps"
    "n = int (length ps)" "dict_get d ''num_points'' = PInt n" by (rule frame_shapeD) blast
  with assms(2) have ps: "dict_get d ''powers_dbm'' = PList ps" "length ps < 2" by simp_all
  from parser_rejects_short [OF this, of cv] obtain msg
    where "parse_frame cv (PDict d) = Inl (ValueError msg)" by blast
  then show ?thesis by (simp add: read_frame_def)
qed

lemma one_point_frame_disconnects_backend_witness:
  "\<exists>c' e. read_frame sample_conversions \<lparr>has_socket = True, client_error = None, last_frame = None\<rparr>
      (Inr ()) (Inr (PDict (sample_fields 1))) = (c', Inl e) \<and> \<not> has_socket c'"
  using one_point_frame_disconnects_backend [OF sample_accepted_1, of sample_conversions None]
  by (simp add: sample_simps) blast

end
