(* ===== verification/Bounded_Queue.thy ===== *)
theory Bounded_Queue
  imports Rf_Prelude
begin

section \<open>Bounded queues\<close>

text \<open>
  The bounded FIFO that the services put between a producer and a slow consumer:
  \<open>asyncio.Queue(maxsize=n)\<close> and \<open>queue.Queue(maxsize=n)\<close> of the standard library, used through
  \<open>full\<close>, \<open>put_nowait\<close> and \<open>get_nowait\<close> only (\<open>QueueFull\<close> and \<open>QueueEmpty\<close> are \<open>None\<close>).
  The locale \<open>bounded_fifo\<close> states that contract; what the code's two overflow policies do is
  proved once inside it and then interpreted on the queue model.
\<close>

subsection \<open>The queue of the standard library\<close>

record 'a bqueue =
  maxsize :: nat
  items :: "'a list"

definition new_queue :: "nat \<Rightarrow> 'a bqueue" where
  "new_queue n = \<lparr>maxsize = n, items = []\<rparr>"

definition q_full :: "'a bqueue \<Rightarrow> bool" where
  "q_full q = (0 < maxsize q \<and> maxsize q \<le> length (items q))"

definition put_nowait :: "'a bqueue \<Rightarrow> 'a \<Rightarrow> 'a bqueue option" where
  "put_nowait q x = (if q_full q then None else Some (q\<lparr>items := items q @ [x]\<rparr>))"

definition get_nowait :: "'a bqueue \<Rightarrow> ('a \<times> 'a bqueue) option" where
  "get_nowait q = (case items q of [] \<Rightarrow> None | x # xs \<Rightarrow> Some (x, q\<lparr>items := xs\<rparr>))"

definition queue_ok :: "'a bqueue \<Rightarrow> bool" where
  "queue_ok q = (0 < maxsize q \<and> length (items q) \<le> maxsize q)"

lemma queue_ok_new [simp]: "queue_ok (new_queue n) = (0 < n)"
  by (simp add: queue_ok_def new_queue_def)

lemma new_queue_sel [simp]: "maxsize (new_queue n) = n" "items (new_queue n) = []"
  by (simp_all add: new_queue_def)

lemma get_nowait_ok: "get_nowait q = Some (x, q') \<Longrightarrow> queue_ok q \<Longrightarrow> queue_ok q'"
  by (auto simp: get_nowait_def queue_ok_def split: list.splits)

lemma get_nowait_items:
  "get_nowait q = Some (x, q') \<Longrightarrow> items q = x # items q' \<and> maxsize q' = maxsize q"
  by (auto simp: get_nowait_def split: list.splits)

subsection \<open>The two overflow policies\<close>

text \<open>
  \<open>offer_latest\<close> makes room by dropping the oldest entry (\<open>publish\<close>, the audio fan-out);
  it returns the new queue and the number of dropped entries. \<open>offer_or_reject\<close> refuses the
  new entry when the queue is full (\<open>submit_nowait\<close> of the anomaly pipeline). Both are written
  over the operations of the queue, as the code is.
\<close>

definition offer_latest ::
  "('q \<Rightarrow> bool) \<Rightarrow> ('q \<Rightarrow> ('a \<times> 'q) option) \<Rightarrow> ('q \<Rightarrow> 'a \<Rightarrow> 'q option) \<Rightarrow> 'q \<Rightarrow> 'a \<Rightarrow> 'q \<times> nat" where
  "offer_latest is_full get put q x =
     (let (q1, dropped) =
        (if is_full q
         then (case get q of None \<Rightarrow> (q, 0) | Some (_, q') \<Rightarrow> (q', 1))
         else (q, 0))
      in case put q1 x of None \<Rightarrow> (q1, dropped) | Some q2 \<Rightarrow> (q2, dropped))"

definition offer_or_reject :: "('q \<Rightarrow> 'a \<Rightarrow> 'q option) \<Rightarrow> 'q \<Rightarrow> 'a \<Rightarrow> 'q \<times> bool" where
  "offer_or_reject put q x = (case put q x of None \<Rightarrow> (q, False) | Some q' \<Rightarrow> (q', True))"

locale bounded_fifo =
  fixes is_full :: "'q \<Rightarrow> bool"
    and get :: "'q \<Rightarrow> ('a \<times> 'q) option"
    and put :: "'q \<Rightarrow> 'a \<Rightarrow> 'q option"
    and contents :: "'q \<Rightarrow> 'a list"
    and cap :: "'q \<Rightarrow> nat"
    and ok :: "'q \<Rightarrow> bool"
  assumes cap_pos: "ok q \<Longrightarrow> 0 < cap q"
    and within_cap: "ok q \<Longrightarrow> length (contents q) \<le> cap q"
    and full_iff: "ok q \<Longrightarrow> is_full q \<longleftrightarrow> length (contents q) = cap q"
    and put_full: "ok q \<Longrightarrow> is_full q \<Longrightarrow> put q x = None"
    and put_room: "ok q \<Longrightarrow> \<not> is_full q \<Longrightarrow>
      \<exists>q'. put q x = Some q' \<and> contents q' = contents q @ [x] \<and> cap q' = cap q \<and> ok q'"
    and get_none: "ok q \<Longrightarrow> contents q = [] \<Longrightarrow> get q = None"
    and get_some: "ok q \<Longrightarrow> contents q = y # ys \<Longrightarrow>
      \<exists>q'. get q = Some (y, q') \<and> contents q' = ys \<and> cap q' = cap q \<and> ok q'"
begin

lemma offer_latest_spec:
  assumes "ok q"
  shows "\<exists>q'. offer_latest is_full get put q x = (q', if is_full q then 1 else 0) \<and>
    contents q' = take_last (cap q) (contents q @ [x]) \<and> cap q' = cap q \<and> ok q'"
proof (cases "is_full q")
  case True
  then have len: "length (contents q) = cap q" using assms by (simp add: full_iff)
  moreover have "0 < cap q" using assms by (rule cap_pos)
  ultimately obtain y ys where c: "contents q = y # ys" by (cases "contents q") auto
  obtain q1 where q1: "get q = Some (y, q1)" "contents q1 = ys" "cap q1 = cap q" "ok q1"
    using get_some [OF assms c] by blast
  have "\<not> is_full q1" using q1 c len by (simp add: full_iff)
  then obtain q2 where q2: "put q1 x = Some q2" "contents q2 = ys @ [x]" "cap q2 = cap q" "ok q2"
    using put_room [OF q1(4), of x] q1 by auto
  have "take_last (cap q) (contents q @ [x]) = ys @ [x]"
    using c len by (simp add: take_last_def)
  then show ?thesis using True q1 q2 by (simp add: offer_latest_def)
next
  case False
  then obtain q2 where q2: "put q x = Some q2" "contents q2 = contents q @ [x]" "cap q2 = cap q" "ok q2"
    using put_room [OF assms] by blast
  have "length (contents q) < cap q"
    using False assms within_cap [OF assms] by (simp add: full_iff order_neq_le_trans)
  then have "take_last (cap q) (contents q @ [x]) = contents q @ [x]"
    by (simp add: take_last_def)
  then show ?thesis using False q2 by (simp add: offer_latest_def)
qed

lemma offer_latest_newest_last:
  assumes "ok q"
  shows "last (contents (fst (offer_latest is_full get put q x))) = x"
proof -
  from offer_latest_spec [OF assms, of x] obtain q' where
    "offer_latest is_full get put q x = (q', if is_full q then 1 else 0)"
    "contents q' = take_last (cap q) (contents q @ [x])" by blast
  then show ?thesis
    using last_deque_append [OF cap_pos [OF assms], of "contents q" x]
    by (simp add: deque_append_def)
qed

lemma offer_latest_conserves:
  assumes "ok q"
  shows "length (contents (fst (offer_latest is_full get put q x)))
    + snd (offer_latest is_full get put q x) = length (contents q) + 1"
proof -
  from offer_latest_spec [OF assms, of x] obtain q' where
    "offer_latest is_full get put q x = (q', if is_full q then 1 else 0)"
    "contents q' = take_last (cap q) (contents q @ [x])" by blast
  then show ?thesis
    using within_cap [OF assms] full_iff [OF assms] by (auto simp: min_def)
qed

lemma offer_or_reject_spec:
  assumes "ok q"
  shows "\<exists>q'. offer_or_reject put q x = (q', \<not> is_full q) \<and> cap q' = cap q \<and> ok q' \<and>
    contents q' = (if is_full q then contents q else contents q @ [x])"
proof (cases "is_full q")
  case True
  then show ?thesis using assms by (simp add: offer_or_reject_def put_full)
next
  case False
  then show ?thesis using put_room [OF assms False, of x] by (auto simp: offer_or_reject_def)
qed

end

interpretation bq: bounded_fifo q_full get_nowait put_nowait items maxsize queue_ok
  by unfold_locales
    (auto simp: q_full_def put_nowait_def get_nowait_def queue_ok_def split: list.splits)

abbreviation bq_offer :: "'a bqueue \<Rightarrow> 'a \<Rightarrow> 'a bqueue \<times> nat" where
  "bq_offer \<equiv> offer_latest q_full get_nowait put_nowait"

lemma bq_offer_sel:
  assumes "queue_ok q"
  shows "items (fst (bq_offer q x)) = take_last (maxsize q) (items q @ [x])"
    and "maxsize (fst (bq_offer q x)) = maxsize q"
    and "queue_ok (fst (bq_offer q x))"
    and "snd (bq_offer q x) = (if q_full q then 1 else 0)"
  using bq.offer_latest_spec [OF assms, of x] by auto

end
