(* ===== verification/Ingest.thy ===== *)
theory Ingest
  imports Frame_Validation Bounded_Queue "HOL-Library.Sublist"
begin

section \<open>The spectrum-ingest service\<close>

text \<open>
  \<open>spectrum-ingest/app.py\<close>: the process state \<open>IngestState\<close> with its \<open>Metrics\<close>, the consumer of the
  RF agent's WebSocket with its reconnection back-off, the fan-out of accepted frames and of audio
  datagrams to bounded per-client queues, and the client handlers. One event is one point where
  a coroutine resumes: a message or the loss of the source, a time-out of the back-off, a
  datagram, a client that connects, is sent its next entry, or disconnects. An event that the
  code cannot see in the current state leaves it unchanged.

  The environment record holds \<open>json.loads\<close> and \<open>datetime.fromisoformat\<close>. Frame rates and
  latencies are exact rationals. The counters of \<open>prometheus_client\<close> mirror \<open>Metrics\<close> and are not
  modelled; the HTTP middleware and the routes that only print the snapshot are not modelled.
\<close>

subsection \<open>Configuration\<close>

record ingest_config =
  cfg_max_queue :: nat
  cfg_reconnect :: rat
  cfg_client_max_fps :: rat
  cfg_max_frame_bytes :: nat
  cfg_max_points :: int
  cfg_audio_udp_port :: int
  cfg_audio_sample_rate :: int
  cfg_audio_max_queue :: nat
  cfg_audio_max_packet :: nat

text \<open>The module-level constants, from the parsed environment variables.\<close>

definition load_config ::
  "int \<Rightarrow> rat \<Rightarrow> rat \<Rightarrow> int \<Rightarrow> int \<Rightarrow> int \<Rightarrow> int \<Rightarrow> int \<Rightarrow> int \<Rightarrow> ingest_config" where
  "load_config queue reconnect fps frame_bytes points udp_port sample_rate audio_queue packet =
     \<lparr>cfg_max_queue = nat (clamp 1 256 queue),
      cfg_reconnect = max (1 / 10) reconnect,
      cfg_client_max_fps = max (1 / 10) fps,
      cfg_max_frame_bytes = nat (max 1024 frame_bytes),
      cfg_max_points = max 1 points,
      cfg_audio_udp_port = clamp 1 65535 udp_port,
      cfg_audio_sample_rate = clamp 8000 384000 sample_rate,
      cfg_audio_max_queue = nat (clamp 1 512 audio_queue),
      cfg_audio_max_packet = nat (clamp 2 262144 packet)\<rparr>"

definition config_ok :: "ingest_config \<Rightarrow> bool" where
  "config_ok c = (0 < cfg_max_queue c \<and> cfg_max_queue c \<le> 256 \<and> 1 / 10 \<le> cfg_reconnect c
     \<and> 0 < cfg_audio_max_queue c \<and> cfg_audio_max_queue c \<le> 512 \<and> 1024 \<le> cfg_max_frame_bytes c
     \<and> 1 \<le> cfg_max_points c \<and> 2 \<le> cfg_audio_max_packet c)"

lemma config_ok_load: "config_ok (load_config q r f b p u s a k)"
  by (auto simp: config_ok_def load_config_def clamp_def)

subsection \<open>State\<close>

record ingest_metrics =
  received_frames :: nat
  invalid_frames :: nat
  dropped_frames :: nat
  sequence_gaps :: nat
  connected_clients :: nat
  source_latency_ms :: rat
  source_fps :: rat
  outgoing_fps :: rat
  audio_packets :: nat
  audio_bytes :: nat
  audio_dropped_packets :: nat
  audio_invalid_packets :: nat
  audio_connected_clients :: nat

text \<open>What \<open>last_error\<close> shows: the reason of a rejected frame, or an exception.\<close>

datatype error_text = Reason string | Raised py_error

text \<open>Where the coroutine \<open>consume_source\<close> stands.\<close>

datatype source_phase = Connecting | Consuming | Backing_Off | Finished


record ingest_state =
  metrics :: ingest_metrics
  phase :: source_phase
  backoff :: rat
  source_connected :: bool
  last_error :: "error_text option"
  last_source :: "(string \<times> pyval) list option"
  last_payload :: "string option"
  clients :: "(nat \<times> string bqueue) list"
  audio_clients :: "(nat \<times> byte list bqueue) list"
  audio_transport :: bool
  audio_last_error :: "error_text option"
  audio_last_packet_at :: "rat option"
  last_sequences :: "string \<times> string \<times> string \<rightharpoonup> int"
  received_times :: "rat list"
  outgoing_times :: "rat list"
  stop_set :: bool

definition initial_metrics :: ingest_metrics where
  "initial_metrics = \<lparr>received_frames = 0, invalid_frames = 0, dropped_frames = 0, sequence_gaps = 0,
     connected_clients = 0, source_latency_ms = 0, source_fps = 0, outgoing_fps = 0,
     audio_packets = 0, audio_bytes = 0, audio_dropped_packets = 0, audio_invalid_packets = 0,
     audio_connected_clients = 0\<rparr>"

definition initial_state :: "ingest_config \<Rightarrow> ingest_state" where
  "initial_state cfg = \<lparr>metrics = initial_metrics, phase = Connecting, backoff = cfg_reconnect cfg,
     source_connected = False, last_error = None, last_source = None, last_payload = None,
     clients = [], audio_clients = [], audio_transport = False, audio_last_error = None,
     audio_last_packet_at = None, last_sequences = Map.empty, received_times = [],
     outgoing_times = [], stop_set = False\<rparr>"

definition upd_metrics :: "(ingest_metrics \<Rightarrow> ingest_metrics) \<Rightarrow> ingest_state \<Rightarrow> ingest_state" where
  "upd_metrics f st = st\<lparr>metrics := f (metrics st)\<rparr>"

text \<open>The fields of \<open>snapshot\<close> that are decided, not copied, and the code of \<open>/ready\<close>.\<close>

definition snapshot_status :: "ingest_state \<Rightarrow> string" where
  "snapshot_status st = (if source_connected st then ''connected'' else ''degraded'')"

definition ready_code :: "ingest_state \<Rightarrow> nat" where
  "ready_code st = (if source_connected st then 200 else 503)"

subsection \<open>Operations\<close>

definition rolling_fps :: "rat list \<Rightarrow> rat" where
  "rolling_fps samples =
     (if length samples < 2 then 0
      else let elapsed = last samples - hd samples in
        if 0 < elapsed then of_nat (length samples - 1) / elapsed else 0)"

text \<open>
  The fan-out of \<open>publish\<close> and of \<open>datagram_received\<close>: every client queue is offered the entry, a
  full one drops its oldest entry first. The second result counts the drops.
\<close>

definition fan_out :: "(nat \<times> 'a bqueue) list \<Rightarrow> 'a \<Rightarrow> (nat \<times> 'a bqueue) list \<times> nat" where
  "fan_out qs x = (map (\<lambda>(i, q). (i, fst (bq_offer q x))) qs, \<Sum>(i, q)\<leftarrow>qs. snd (bq_offer q x))"

definition publish :: "string \<Rightarrow> ingest_state \<Rightarrow> ingest_state" where
  "publish payload st = (let (qs, dropped) = fan_out (clients st) payload in
     upd_metrics (\<lambda>m. m\<lparr>dropped_frames := dropped_frames m + dropped\<rparr>) (st\<lparr>clients := qs\<rparr>))"

definition datagram_received :: "ingest_config \<Rightarrow> rat \<Rightarrow> byte list \<Rightarrow> ingest_state \<Rightarrow> ingest_state" where
  "datagram_received cfg now data st =
     (if length data < 2 \<or> cfg_audio_max_packet cfg < length data
      then upd_metrics (\<lambda>m. m\<lparr>audio_invalid_packets := audio_invalid_packets m + 1\<rparr>) st
      else let data = (if length data mod 2 \<noteq> 0 then butlast data else data) in
      if data = []
      then upd_metrics (\<lambda>m. m\<lparr>audio_invalid_packets := audio_invalid_packets m + 1\<rparr>) st
      else let (qs, dropped) = fan_out (audio_clients st) data in
        upd_metrics (\<lambda>m. m\<lparr>audio_packets := audio_packets m + 1,
                           audio_bytes := audio_bytes m + length data,
                           audio_dropped_packets := audio_dropped_packets m + dropped\<rparr>)
          (st\<lparr>audio_last_packet_at := Some now, audio_last_error := None, audio_clients := qs\<rparr>))"

definition connection_lost :: "py_error option \<Rightarrow> ingest_state \<Rightarrow> ingest_state" where
  "connection_lost err st = (let st = st\<lparr>audio_transport := False\<rparr> in
     case err of None \<Rightarrow> st | Some e \<Rightarrow> st\<lparr>audio_last_error := Some (Raised e)\<rparr>)"

text \<open>One message of the source. \<open>Decoded\<close> is the value of \<open>json.loads\<close>, \<open>DecodeError\<close> its
  \<open>JSONDecodeError\<close>, \<open>LoadRaises\<close> any other exception.\<close>

datatype ws_message = TextMsg string | BinaryMsg "byte list"

datatype load_result = Decoded pyval | DecodeError | LoadRaises py_error

record environment =
  json_loads :: "string \<Rightarrow> load_result"
  fromisoformat :: "string \<Rightarrow> py_datetime option"

definition count_invalid :: "ingest_state \<Rightarrow> ingest_state" where
  "count_invalid = upd_metrics (\<lambda>m. m\<lparr>invalid_frames := invalid_frames m + 1\<rparr>)"

definition source_fields :: "string list" where
  "source_fields = [''sensor_id'', ''source_type'', ''source_device'', ''session_id'', ''device_model'',
     ''measurement_mode'', ''start_frequency_hz'', ''stop_frequency_hz'', ''point_count'', ''sequence'']"

definition source_key :: "(string \<times> pyval) list \<Rightarrow> string \<times> string \<times> string" where
  "source_key d = (str_val (dict_get d ''sensor_id''), str_val (dict_get d ''session_id''),
     str_val (dict_get d ''source_type''))"

definition is_gap :: "int option \<Rightarrow> int \<Rightarrow> bool" where
  "is_gap previous sequence = (case previous of None \<Rightarrow> False | Some p \<Rightarrow> sequence \<noteq> p + 1)"

definition latency_ms :: "environment \<Rightarrow> rat \<Rightarrow> string \<Rightarrow> rat" where
  "latency_ms env utc ts = (case fromisoformat env (replace_Z ts) of
     None \<Rightarrow> 0 | Some t \<Rightarrow> max 0 ((utc - utc_seconds t) * 1000))"

definition accept_frame ::
  "environment \<Rightarrow> rat \<Rightarrow> rat \<Rightarrow> string \<Rightarrow> (string \<times> pyval) list \<Rightarrow> ingest_state \<Rightarrow> ingest_state" where
  "accept_frame env now utc payload d st =
     (let key = source_key d; sequence = int_val (dict_get d ''sequence'');
          gap = is_gap (last_sequences st key) sequence;
          times = deque_append 120 (received_times st) now;
          st = upd_metrics (\<lambda>m. m\<lparr>sequence_gaps := sequence_gaps m + (if gap then 1 else 0),
              received_frames := received_frames m + 1,
              source_fps := rolling_fps times,
              source_latency_ms := latency_ms env utc (str_val (dict_get d ''timestamp''))\<rparr>) st
      in publish payload
           (st\<lparr>last_sequences := (last_sequences st)(key \<mapsto> sequence),
               received_times := times,
               last_source := Some (map (\<lambda>k. (k, dict_get d k)) source_fields),
               last_payload := Some payload,
               last_error := None\<rparr>))"

text \<open>
  The body of the loop \<open>async for payload in source\<close>. An exception (left) ends the loop: it is
  caught around the connection, see \<open>source_failed\<close>. The second component tells whether the
  payload was published.
\<close>

definition source_message ::
  "ingest_config \<Rightarrow> environment \<Rightarrow> rat \<Rightarrow> rat \<Rightarrow> ws_message \<Rightarrow> ingest_state \<Rightarrow> (ingest_state \<times> bool) result" where
  "source_message cfg env now utc msg st =
     (case msg of
        BinaryMsg _ \<Rightarrow> Inr (count_invalid st, False)
      | TextMsg payload \<Rightarrow>
          if cfg_max_frame_bytes cfg < length payload then Inr (count_invalid st, False)
          else (case json_loads env payload of
              DecodeError \<Rightarrow> Inr (count_invalid st, False)
            | LoadRaises e \<Rightarrow> Inl e
            | Decoded frame \<Rightarrow>
                and_then (validate_frame (fromisoformat env) (cfg_max_points cfg) frame) (\<lambda>(valid, error).
                  if \<not> valid then Inr (count_invalid st\<lparr>last_error := Some (Reason error)\<rparr>, False)
                  else (case frame of
                      PDict d \<Rightarrow> Inr (accept_frame env now utc payload d st, True)
                    | _ \<Rightarrow> Inl (TypeError ''frame is not subscriptable'')))))"

text \<open>The exits of one connection: the clauses \<open>except Exception\<close> and \<open>finally\<close>.\<close>

definition source_closed :: "ingest_state \<Rightarrow> ingest_state" where
  "source_closed st = st\<lparr>source_connected := False, phase := Backing_Off\<rparr>"

definition source_failed :: "py_error \<Rightarrow> ingest_state \<Rightarrow> ingest_state" where
  "source_failed e st = source_closed (st\<lparr>last_error := Some (Raised e)\<rparr>)"

definition source_opened :: "ingest_config \<Rightarrow> ingest_state \<Rightarrow> ingest_state" where
  "source_opened cfg st = st\<lparr>source_connected := True, last_error := None,
     backoff := cfg_reconnect cfg, phase := Consuming\<rparr>"

text \<open>The wait after a connection: \<open>wait_for(stop.wait(), timeout=backoff)\<close> times out.\<close>

definition backoff_elapsed :: "ingest_state \<Rightarrow> ingest_state" where
  "backoff_elapsed st = (let st = st\<lparr>backoff := min (backoff st * 2) 30\<rparr> in
     st\<lparr>phase := (if stop_set st then Finished else Connecting)\<rparr>)"

definition shut_down :: "ingest_state \<Rightarrow> ingest_state" where
  "shut_down st = st\<lparr>stop_set := True, audio_transport := False, source_connected := False,
     phase := Finished\<rparr>"

text \<open>
  The start of the audio listener in \<open>lifespan\<close>.
\<close>

definition audio_listen :: "unit result \<Rightarrow> ingest_state \<Rightarrow> ingest_state" where
  "audio_listen r st = (case r of
     Inr _ \<Rightarrow> st\<lparr>audio_transport := True, audio_last_error := None\<rparr>
   | Inl e \<Rightarrow> st\<lparr>audio_transport := False, audio_last_error := Some (Raised e)\<rparr>)"

text \<open>
  The client handlers. A failing \<open>put_nowait\<close> in \<open>spectrum_socket\<close> would leave before the
  \<open>try\<close>, with the queue still registered. \<open>audio_socket\<close> does leave like that when the client
  is gone before the header was sent.
\<close>

definition remove_client :: "nat \<Rightarrow> (nat \<times> 'a) list \<Rightarrow> (nat \<times> 'a) list" where
  "remove_client i qs = filter (\<lambda>(j, q). j \<noteq> i) qs"

definition set_queue :: "nat \<Rightarrow> 'a \<Rightarrow> (nat \<times> 'a) list \<Rightarrow> (nat \<times> 'a) list" where
  "set_queue i q qs = map (\<lambda>(j, r). if j = i then (j, q) else (j, r)) qs"

definition set_clients :: "(nat \<times> string bqueue) list \<Rightarrow> ingest_state \<Rightarrow> ingest_state" where
  "set_clients qs st = upd_metrics (\<lambda>m. m\<lparr>connected_clients := length qs\<rparr>) (st\<lparr>clients := qs\<rparr>)"

definition set_audio_clients :: "(nat \<times> byte list bqueue) list \<Rightarrow> ingest_state \<Rightarrow> ingest_state" where
  "set_audio_clients qs st =
     upd_metrics (\<lambda>m. m\<lparr>audio_connected_clients := length qs\<rparr>) (st\<lparr>audio_clients := qs\<rparr>)"

definition spectrum_connect :: "ingest_config \<Rightarrow> nat \<Rightarrow> ingest_state \<Rightarrow> ingest_state \<times> bool" where
  "spectrum_connect cfg i st =
     (let queue = new_queue (cfg_max_queue cfg) in
      case last_payload st of
        None \<Rightarrow> (set_clients (clients st @ [(i, queue)]) st, True)
      | Some p \<Rightarrow> (case put_nowait queue p of
            Some queue \<Rightarrow> (set_clients (clients st @ [(i, queue)]) st, True)
          | None \<Rightarrow> (st\<lparr>clients := clients st @ [(i, queue)]\<rparr>, False)))"

definition spectrum_disconnect :: "nat \<Rightarrow> ingest_state \<Rightarrow> ingest_state" where
  "spectrum_disconnect i st = set_clients (remove_client i (clients st)) st"

text \<open>\<open>queue.get\<close> and \<open>send_text\<close>: waits on an empty queue; a failing send ends the handler.\<close>

definition spectrum_send :: "nat \<Rightarrow> bool \<Rightarrow> rat \<Rightarrow> ingest_state \<Rightarrow> ingest_state \<times> string option" where
  "spectrum_send i delivered now st =
     (case map_of (clients st) i of
        None \<Rightarrow> (st, None)
      | Some q \<Rightarrow> (case get_nowait q of
            None \<Rightarrow> (st, None)
          | Some (payload, q') \<Rightarrow>
              let st = st\<lparr>clients := set_queue i q' (clients st)\<rparr> in
              if \<not> delivered then (spectrum_disconnect i st, None)
              else let times = deque_append 120 (outgoing_times st) now in
                (upd_metrics (\<lambda>m. m\<lparr>outgoing_fps := rolling_fps times\<rparr>) (st\<lparr>outgoing_times := times\<rparr>),
                 Some payload)))"

definition audio_connect :: "ingest_config \<Rightarrow> nat \<Rightarrow> bool \<Rightarrow> ingest_state \<Rightarrow> ingest_state \<times> bool" where
  "audio_connect cfg i header_sent st =
     (set_audio_clients (audio_clients st @ [(i, new_queue (cfg_audio_max_queue cfg))]) st, header_sent)"

definition audio_disconnect :: "nat \<Rightarrow> ingest_state \<Rightarrow> ingest_state" where
  "audio_disconnect i st = set_audio_clients (remove_client i (audio_clients st)) st"

definition audio_send :: "nat \<Rightarrow> bool \<Rightarrow> ingest_state \<Rightarrow> ingest_state" where
  "audio_send i delivered st =
     (case map_of (audio_clients st) i of
        None \<Rightarrow> st
      | Some q \<Rightarrow> (case get_nowait q of
            None \<Rightarrow> st
          | Some (packet, q') \<Rightarrow>
              if \<not> delivered then audio_disconnect i st
              else st\<lparr>audio_clients := set_queue i q' (audio_clients st)\<rparr>))"

subsection \<open>The service as a step function on events\<close>

datatype ingest_event =
    SourceOpened
  | SourceConnectFailed py_error
  | SourceMessage rat rat ws_message
  | SourceClosed
  | SourceLost py_error
  | BackoffElapsed
  | AudioListen "unit result"
  | AudioLost "py_error option"
  | Datagram rat "byte list"
  | SpectrumConnect nat
  | SpectrumSend nat bool rat
  | SpectrumDisconnect nat
  | AudioConnect nat bool
  | AudioSend nat bool
  | AudioDisconnect nat
  | ShutDown

text \<open>What a step shows outside: a published payload, or a payload sent to a client.\<close>

datatype ingest_output = Published string | Sent nat string

fun ingest_step ::
  "ingest_config \<Rightarrow> environment \<Rightarrow> ingest_state \<Rightarrow> ingest_event \<Rightarrow> ingest_state \<times> ingest_output list" where
  "ingest_step cfg env st SourceOpened =
     (if phase st = Connecting then source_opened cfg st else st, [])"
| "ingest_step cfg env st (SourceConnectFailed e) =
     (if phase st = Connecting then source_failed e st else st, [])"
| "ingest_step cfg env st (SourceMessage now utc msg) =
     (if phase st \<noteq> Consuming then (st, [])
      else (case source_message cfg env now utc msg st of
          Inl e \<Rightarrow> (source_failed e st, [])
        | Inr (st', published) \<Rightarrow>
            (st', if published then (case msg of TextMsg p \<Rightarrow> [Published p] | _ \<Rightarrow> []) else [])))"
| "ingest_step cfg env st SourceClosed = (if phase st = Consuming then source_closed st else st, [])"
| "ingest_step cfg env st (SourceLost e) = (if phase st = Consuming then source_failed e st else st, [])"
| "ingest_step cfg env st BackoffElapsed = (if phase st = Backing_Off then backoff_elapsed st else st, [])"
| "ingest_step cfg env st (AudioListen r) = (audio_listen r st, [])"
| "ingest_step cfg env st (AudioLost e) = (connection_lost e st, [])"
| "ingest_step cfg env st (Datagram now data) =
     (if audio_transport st then datagram_received cfg now data st else st, [])"
| "ingest_step cfg env st (SpectrumConnect i) =
     (if i \<in> fst ` set (clients st) then st else fst (spectrum_connect cfg i st), [])"
| "ingest_step cfg env st (SpectrumSend i ok now) =
     (let (st', sent) = spectrum_send i ok now st in
      (st', case sent of None \<Rightarrow> [] | Some p \<Rightarrow> [Sent i p]))"
| "ingest_step cfg env st (SpectrumDisconnect i) = (spectrum_disconnect i st, [])"
| "ingest_step cfg env st (AudioConnect i ok) =
     (if i \<in> fst ` set (audio_clients st) then st else fst (audio_connect cfg i ok st), [])"
| "ingest_step cfg env st (AudioSend i ok) = (audio_send i ok st, [])"
| "ingest_step cfg env st (AudioDisconnect i) = (audio_disconnect i st, [])"
| "ingest_step cfg env st ShutDown = (shut_down st, [])"

fun ingest_run ::
  "ingest_config \<Rightarrow> environment \<Rightarrow> ingest_state \<Rightarrow> ingest_event list \<Rightarrow> ingest_state \<times> ingest_output list" where
  "ingest_run cfg env st [] = (st, [])"
| "ingest_run cfg env st (e # es) =
     (let (st1, out1) = ingest_step cfg env st e; (st2, out2) = ingest_run cfg env st1 es
      in (st2, out1 @ out2))"

inductive ingest_reachable :: "ingest_config \<Rightarrow> environment \<Rightarrow> ingest_state \<Rightarrow> bool"
  for cfg env where
  start: "ingest_reachable cfg env (initial_state cfg)"
| step: "ingest_reachable cfg env st \<Longrightarrow> ingest_reachable cfg env (fst (ingest_step cfg env st e))"

inductive_cases ingest_reachableE: "ingest_reachable cfg env st"

lemma ingest_run_reachable:
  "ingest_reachable cfg env st \<Longrightarrow> ingest_reachable cfg env (fst (ingest_run cfg env st es))"
  by (induction es arbitrary: st) (auto simp: Let_def split_def intro: ingest_reachable.step)

subsection \<open>The invariant\<close>

definition clients_ok :: "nat \<Rightarrow> ('a \<Rightarrow> bool) \<Rightarrow> (nat \<times> 'a bqueue) list \<Rightarrow> bool" where
  "clients_ok cap good qs = (distinct (map fst qs) \<and>
     (\<forall>(i, q)\<in>set qs. queue_ok q \<and> maxsize q = cap \<and> (\<forall>x\<in>set (items q). good x)))"

definition good_payload :: "ingest_config \<Rightarrow> environment \<Rightarrow> string \<Rightarrow> bool" where
  "good_payload cfg env p = (length p \<le> cfg_max_frame_bytes cfg \<and>
     (\<exists>f. json_loads env p = Decoded f \<and> ingest_accepts (fromisoformat env) (cfg_max_points cfg) f))"

definition good_packet :: "ingest_config \<Rightarrow> byte list \<Rightarrow> bool" where
  "good_packet cfg d = (d \<noteq> [] \<and> even (length d) \<and> length d \<le> cfg_audio_max_packet cfg)"

definition source_inv :: "ingest_config \<Rightarrow> ingest_state \<Rightarrow> bool" where
  "source_inv cfg st = (source_connected st = (phase st = Consuming)
     \<and> min (cfg_reconnect cfg) 30 \<le> backoff st \<and> backoff st \<le> max (cfg_reconnect cfg) 30)"

definition payload_inv :: "ingest_config \<Rightarrow> environment \<Rightarrow> ingest_state \<Rightarrow> bool" where
  "payload_inv cfg env st = ((\<forall>p. last_payload st = Some p \<longrightarrow> good_payload cfg env p)
     \<and> (last_payload st \<noteq> None) = (0 < received_frames (metrics st))
     \<and> (last_source st \<noteq> None) = (0 < received_frames (metrics st))
     \<and> sequence_gaps (metrics st) \<le> received_frames (metrics st)
     \<and> length (received_times st) \<le> 120 \<and> length (outgoing_times st) \<le> 120)"

definition spectrum_inv :: "ingest_config \<Rightarrow> environment \<Rightarrow> ingest_state \<Rightarrow> bool" where
  "spectrum_inv cfg env st = (clients_ok (cfg_max_queue cfg) (good_payload cfg env) (clients st)
     \<and> connected_clients (metrics st) = length (clients st))"

definition audio_inv :: "ingest_config \<Rightarrow> ingest_state \<Rightarrow> bool" where
  "audio_inv cfg st = (clients_ok (cfg_audio_max_queue cfg) (good_packet cfg) (audio_clients st)
     \<and> audio_connected_clients (metrics st) = length (audio_clients st))"

definition ingest_inv :: "ingest_config \<Rightarrow> environment \<Rightarrow> ingest_state \<Rightarrow> bool" where
  "ingest_inv cfg env st =
     (source_inv cfg st \<and> payload_inv cfg env st \<and> spectrum_inv cfg env st \<and> audio_inv cfg st)"

lemmas ingest_inv_defs = ingest_inv_def source_inv_def payload_inv_def spectrum_inv_def audio_inv_def

lemma upd_metrics_sel [simp]:
  "phase (upd_metrics f st) = phase st" "backoff (upd_metrics f st) = backoff st"
  "source_connected (upd_metrics f st) = source_connected st"
  "last_payload (upd_metrics f st) = last_payload st" "last_source (upd_metrics f st) = last_source st"
  "clients (upd_metrics f st) = clients st" "audio_clients (upd_metrics f st) = audio_clients st"
  "received_times (upd_metrics f st) = received_times st"
  "outgoing_times (upd_metrics f st) = outgoing_times st"
  "last_sequences (upd_metrics f st) = last_sequences st"
  "metrics (upd_metrics f st) = f (metrics st)"
  by (simp_all add: upd_metrics_def)

lemma clients_ok_Nil [simp]: "clients_ok n good []"
  by (simp add: clients_ok_def)

lemma fst_fan_out [simp]: "map fst (fst (fan_out qs x)) = map fst qs"
  by (simp add: fan_out_def split_def o_def)

lemma length_fan_out [simp]: "length (fst (fan_out qs x)) = length qs"
  by (simp add: fan_out_def)

lemma fst_set_queue [simp]: "map fst (set_queue i q qs) = map fst qs"
  by (simp add: set_queue_def split_def o_def if_distrib)

lemma length_set_queue [simp]: "length (set_queue i q qs) = length qs"
  by (simp add: set_queue_def)

lemma clients_ok_fan_out:
  assumes "clients_ok n good qs" and "good x"
  shows "clients_ok n good (fst (fan_out qs x))"
proof -
  have "queue_ok q' \<and> maxsize q' = n \<and> (\<forall>y\<in>set (items q'). good y)"
    if q': "(i, q') \<in> set (fst (fan_out qs x))" for i q'
  proof -
    from q' obtain q where q: "(i, q) \<in> set qs" "q' = fst (bq_offer q x)"
      by (auto simp: fan_out_def)
    with assms(1) have ok: "queue_ok q" "maxsize q = n" "\<forall>y\<in>set (items q). good y"
      by (auto simp: clients_ok_def)
    have "set (items q') \<subseteq> insert x (set (items q))"
      using set_take_last [of "maxsize q" "items q @ [x]"] q(2) bq_offer_sel(1) [OF ok(1), of x] by simp
    with ok assms(2) q(2) bq_offer_sel(2,3) [OF ok(1), of x] show ?thesis by auto
  qed
  moreover have "distinct (map fst (fst (fan_out qs x)))"
    using assms(1) by (simp add: clients_ok_def)
  ultimately show ?thesis by (auto simp: clients_ok_def)
qed

lemma clients_ok_add:
  "clients_ok n good qs \<Longrightarrow> i \<notin> fst ` set qs \<Longrightarrow> queue_ok q \<Longrightarrow> maxsize q = n \<Longrightarrow>
     \<forall>x\<in>set (items q). good x \<Longrightarrow> clients_ok n good (qs @ [(i, q)])"
  by (auto simp: clients_ok_def)

lemma clients_ok_remove: "clients_ok n good qs \<Longrightarrow> clients_ok n good (remove_client i qs)"
proof -
  assume a: "clients_ok n good qs"
  then have "distinct (map fst (remove_client i qs))"
    by (simp add: clients_ok_def remove_client_def distinct_map_filter)
  with a show ?thesis by (auto simp: clients_ok_def remove_client_def)
qed

lemma clients_ok_pop:
  assumes "clients_ok n good qs" "map_of qs i = Some q" "get_nowait q = Some (x, q')"
  shows "clients_ok n good (set_queue i q' qs)" and "good x"
proof -
  have q: "(i, q) \<in> set qs" using assms(2) by (rule map_of_SomeD)
  then have ok: "queue_ok q" "maxsize q = n" "\<forall>y\<in>set (items q). good y"
    using assms(1) by (auto simp: clients_ok_def)
  note it = get_nowait_items [OF assms(3)]
  show "good x" using ok it by simp
  have "queue_ok q'" using get_nowait_ok [OF assms(3) ok(1)] .
  then have "\<forall>(j, r)\<in>set (set_queue i q' qs). queue_ok r \<and> maxsize r = n \<and> (\<forall>y\<in>set (items r). good y)"
    using assms(1) ok it by (auto simp: clients_ok_def set_queue_def split: if_splits)
  then show "clients_ok n good (set_queue i q' qs)"
    using assms(1) by (simp add: clients_ok_def)
qed

lemma initial_inv: "ingest_inv cfg env (initial_state cfg)"
  by (simp add: ingest_inv_defs initial_state_def initial_metrics_def)

lemma source_closed_inv [rf_inv]: "ingest_inv cfg env st \<Longrightarrow> ingest_inv cfg env (source_closed st)"
  by (auto simp: ingest_inv_defs source_closed_def)

lemma source_failed_inv [rf_inv]: "ingest_inv cfg env st \<Longrightarrow> ingest_inv cfg env (source_failed e st)"
  by (auto simp: ingest_inv_defs source_closed_def source_failed_def)

lemma source_opened_inv [rf_inv]: "ingest_inv cfg env st \<Longrightarrow> ingest_inv cfg env (source_opened cfg st)"
  by (auto simp: ingest_inv_defs source_opened_def)

lemma backoff_elapsed_inv [rf_inv]:
  "config_ok cfg \<Longrightarrow> phase st = Backing_Off \<Longrightarrow> ingest_inv cfg env st \<Longrightarrow>
     ingest_inv cfg env (backoff_elapsed st)"
  by (auto simp: ingest_inv_defs backoff_elapsed_def config_ok_def min_def max_def)

lemma shut_down_inv [rf_inv]: "ingest_inv cfg env st \<Longrightarrow> ingest_inv cfg env (shut_down st)"
  by (auto simp: ingest_inv_defs shut_down_def)

lemma audio_listen_inv [rf_inv]: "ingest_inv cfg env st \<Longrightarrow> ingest_inv cfg env (audio_listen r st)"
  by (auto simp: ingest_inv_defs audio_listen_def split: sum.splits)

lemma connection_lost_inv [rf_inv]: "ingest_inv cfg env st \<Longrightarrow> ingest_inv cfg env (connection_lost e st)"
  by (auto simp: ingest_inv_defs connection_lost_def Let_def split: option.splits)

lemma count_invalid_inv [rf_inv]: "ingest_inv cfg env st \<Longrightarrow> ingest_inv cfg env (count_invalid st)"
  by (simp add: ingest_inv_defs count_invalid_def)

lemma set_clients_inv:
  "ingest_inv cfg env st \<Longrightarrow> clients_ok (cfg_max_queue cfg) (good_payload cfg env) qs \<Longrightarrow>
     ingest_inv cfg env (set_clients qs st)"
  by (simp add: ingest_inv_defs set_clients_def)

lemma set_audio_clients_inv:
  "ingest_inv cfg env st \<Longrightarrow> clients_ok (cfg_audio_max_queue cfg) (good_packet cfg) qs \<Longrightarrow>
     ingest_inv cfg env (set_audio_clients qs st)"
  by (simp add: ingest_inv_defs set_audio_clients_def)

lemma ingest_inv_clients: "ingest_inv cfg env st \<Longrightarrow> clients_ok (cfg_max_queue cfg) (good_payload cfg env) (clients st)"
  by (simp add: ingest_inv_defs)

lemma ingest_inv_audio: "ingest_inv cfg env st \<Longrightarrow> clients_ok (cfg_audio_max_queue cfg) (good_packet cfg) (audio_clients st)"
  by (simp add: ingest_inv_defs)

lemma spectrum_disconnect_inv [rf_inv]:
  "ingest_inv cfg env st \<Longrightarrow> ingest_inv cfg env (spectrum_disconnect i st)"
  by (simp add: spectrum_disconnect_def set_clients_inv clients_ok_remove ingest_inv_clients)

lemma audio_disconnect_inv [rf_inv]:
  "ingest_inv cfg env st \<Longrightarrow> ingest_inv cfg env (audio_disconnect i st)"
  by (simp add: audio_disconnect_def set_audio_clients_inv clients_ok_remove ingest_inv_audio)

lemma publish_inv:
  "ingest_inv cfg env st \<Longrightarrow> good_payload cfg env p \<Longrightarrow> ingest_inv cfg env (publish p st)"
  using clients_ok_fan_out [of _ _ "clients st" p]
  by (simp add: ingest_inv_defs publish_def Let_def split_def)

lemma good_packet_trim:
  "2 \<le> length d \<Longrightarrow> length d \<le> cfg_audio_max_packet cfg \<Longrightarrow>
     good_packet cfg (if length d mod 2 \<noteq> 0 then butlast d else d)"
  by (cases "even (length d)"; cases d) (auto simp: good_packet_def mod_2_eq_odd)

lemma datagram_received_inv [rf_inv]:
  assumes "ingest_inv cfg env st" shows "ingest_inv cfg env (datagram_received cfg now d st)"
proof (cases "length d < 2 \<or> cfg_audio_max_packet cfg < length d")
  case True
  then show ?thesis using assms by (simp add: datagram_received_def ingest_inv_defs)
next
  case False
  define d' where "d' = (if length d mod 2 \<noteq> 0 then butlast d else d)"
  have g: "good_packet cfg d'" unfolding d'_def using False by (intro good_packet_trim) auto
  then have "d' \<noteq> []" by (simp add: good_packet_def)
  then have eq: "datagram_received cfg now d st = (let (qs, dropped) = fan_out (audio_clients st) d' in
        upd_metrics (\<lambda>m. m\<lparr>audio_packets := audio_packets m + 1,
                           audio_bytes := audio_bytes m + length d',
                           audio_dropped_packets := audio_dropped_packets m + dropped\<rparr>)
          (st\<lparr>audio_last_packet_at := Some now, audio_last_error := None, audio_clients := qs\<rparr>))"
    using False unfolding datagram_received_def d'_def [symmetric] by (simp only: Let_def if_False)
  show ?thesis
    unfolding eq using assms clients_ok_fan_out [OF ingest_inv_audio [OF assms] g]
    by (simp add: ingest_inv_defs Let_def split_def)
qed

lemma accept_frame_inv:
  assumes inv: "ingest_inv cfg env st" and good: "good_payload cfg env p"
  shows "ingest_inv cfg env (accept_frame env now utc p d st)"
proof -
  have "length (deque_append 120 (received_times st) now) \<le> 120" by (rule length_deque_append)
  then show ?thesis
    unfolding accept_frame_def Let_def
    by (intro publish_inv [OF _ good]) (use inv good in \<open>simp add: ingest_inv_defs\<close>)
qed

lemma check_simulated_msg: "check_simulated d = Inr (True, msg) \<Longrightarrow> msg = []"
  by (simp add: check_simulated_def split: pyval.splits if_splits)

lemma check_levels_msg: "check_levels d = Inr (True, msg) \<Longrightarrow> msg = []"
  by (auto simp: check_levels_def and_then_Inr_iff split: pyval.splits if_splits dest: check_simulated_msg)

lemma check_axis_msg: "check_axis m d = Inr (True, msg) \<Longrightarrow> msg = []"
  unfolding check_axis_def Let_def by (simp split: if_splits) (rule check_levels_msg)

lemma check_fields_msg: "check_fields fromiso m d = Inr (True, msg) \<Longrightarrow> msg = []"
  unfolding check_fields_def by (simp split: if_splits list.splits option.splits) (rule check_axis_msg)

lemma validate_frame_True_msg: "validate_frame fromiso m f = Inr (True, msg) \<Longrightarrow> msg = []"
  unfolding validate_frame_def by (cases f) (simp_all split: if_splits, rule check_fields_msg)

lemma source_message_cases:
  assumes "source_message cfg env now utc msg st = Inr (st', published)"
  shows "(\<not> published \<and> (st' = count_invalid st \<or> (\<exists>r. st' = count_invalid st\<lparr>last_error := Some (Reason r)\<rparr>)))
    \<or> (published \<and> (\<exists>p d. msg = TextMsg p \<and> length p \<le> cfg_max_frame_bytes cfg
        \<and> json_loads env p = Decoded (PDict d)
        \<and> ingest_accepts (fromisoformat env) (cfg_max_points cfg) (PDict d)
        \<and> st' = accept_frame env now utc p d st))"
  using assms validate_frame_True_msg
  by (auto simp: source_message_def and_then_Inr_iff ingest_accepts_def not_less
      split: ws_message.splits if_splits load_result.splits pyval.splits)

lemma source_message_inv:
  assumes "source_message cfg env now utc msg st = Inr (st', published)" "ingest_inv cfg env st"
  shows "ingest_inv cfg env st'"
  using source_message_cases [OF assms(1)]
proof (elim disjE conjE exE)
  fix p d assume p: "length p \<le> cfg_max_frame_bytes cfg" "json_loads env p = Decoded (PDict d)"
    "ingest_accepts (fromisoformat env) (cfg_max_points cfg) (PDict d)"
    "st' = accept_frame env now utc p d st"
  then have "good_payload cfg env p" by (auto simp: good_payload_def)
  with p(4) assms(2) show ?thesis by (simp add: accept_frame_inv)
qed (use count_invalid_inv [OF assms(2)] in \<open>simp_all add: ingest_inv_defs\<close>)

lemma spectrum_connect_eq:
  assumes "config_ok cfg"
  shows "spectrum_connect cfg i st =
    (set_clients (clients st @ [(i, \<lparr>maxsize = cfg_max_queue cfg,
        items = (case last_payload st of None \<Rightarrow> [] | Some p \<Rightarrow> [p])\<rparr>)]) st, True)"
  using assms by (auto simp: spectrum_connect_def put_nowait_def q_full_def new_queue_def config_ok_def
      split: option.splits)

lemma spectrum_connect_inv:
  assumes "config_ok cfg" "ingest_inv cfg env st" "i \<notin> fst ` set (clients st)"
  shows "ingest_inv cfg env (fst (spectrum_connect cfg i st))"
  unfolding spectrum_connect_eq [OF assms(1)] fst_conv
  by (intro set_clients_inv clients_ok_add assms(2,3))
    (use assms in \<open>auto simp: queue_ok_def config_ok_def ingest_inv_defs split: option.splits\<close>)

lemma audio_connect_inv:
  assumes "config_ok cfg" "ingest_inv cfg env st" "i \<notin> fst ` set (audio_clients st)"
  shows "ingest_inv cfg env (fst (audio_connect cfg i ok st))"
  unfolding audio_connect_def fst_conv
  by (intro set_audio_clients_inv clients_ok_add assms(2,3))
    (use assms in \<open>auto simp: config_ok_def ingest_inv_defs\<close>)

lemma spectrum_send_inv:
  assumes "ingest_inv cfg env st" shows "ingest_inv cfg env (fst (spectrum_send i ok now st))"
proof (cases "map_of (clients st) i")
  case None
  then show ?thesis using assms by (simp add: spectrum_send_def)
next
  case (Some q)
  show ?thesis
  proof (cases "get_nowait q")
    case None
    then show ?thesis using assms Some by (simp add: spectrum_send_def)
  next
    case (Some r)
    obtain p q' where r: "r = (p, q')" by fastforce
    note get = Some [unfolded r]
    have "clients_ok (cfg_max_queue cfg) (good_payload cfg env) (set_queue i q' (clients st))"
      using clients_ok_pop(1) [OF ingest_inv_clients [OF assms] \<open>map_of (clients st) i = Some q\<close> get] .
    then have inv: "ingest_inv cfg env (st\<lparr>clients := set_queue i q' (clients st)\<rparr>)"
      using assms by (simp add: ingest_inv_defs)
    have len: "length (deque_append 120 (outgoing_times st) now) \<le> 120" by (rule length_deque_append)
    then have "ingest_inv cfg env (upd_metrics f (st\<lparr>clients := set_queue i q' (clients st),
        outgoing_times := deque_append 120 (outgoing_times st) now\<rparr>))"
      if "f = (\<lambda>m. m\<lparr>outgoing_fps := rolling_fps (deque_append 120 (outgoing_times st) now)\<rparr>)" for f
      using inv that by (simp add: ingest_inv_defs)
    then show ?thesis
      using inv spectrum_disconnect_inv [OF inv, of i] \<open>map_of (clients st) i = Some q\<close> get
      by (simp add: spectrum_send_def Let_def)
  qed
qed

lemma audio_send_inv:
  assumes "ingest_inv cfg env st" shows "ingest_inv cfg env (audio_send i ok st)"
proof -
  have "ingest_inv cfg env (st\<lparr>audio_clients := set_queue i q' (audio_clients st)\<rparr>)"
    if "map_of (audio_clients st) i = Some q" "get_nowait q = Some (p, q')" for q p q'
    using clients_ok_pop(1) [OF ingest_inv_audio [OF assms] that] assms by (simp add: ingest_inv_defs)
  then show ?thesis using assms audio_disconnect_inv [OF assms]
    by (auto simp: audio_send_def split: option.splits)
qed

lemma ingest_step_inv:
  assumes "config_ok cfg" "ingest_inv cfg env st"
  shows "ingest_inv cfg env (fst (ingest_step cfg env st e))"
proof (cases e)
  case (SourceMessage now utc msg)
  show ?thesis
  proof (cases "source_message cfg env now utc msg st")
    case (Inr r)
    then show ?thesis using SourceMessage assms(2) source_message_inv [of cfg env now utc msg st]
      by (cases r) auto
  qed (use SourceMessage assms(2) in \<open>auto intro: rf_inv\<close>)
next
  case (SpectrumSend i ok now)
  then show ?thesis using spectrum_send_inv [OF assms(2), of i ok now] by (simp add: split_def Let_def)
qed (use assms in \<open>auto simp: audio_send_inv spectrum_connect_inv audio_connect_inv intro: rf_inv\<close>)

lemma ingest_reachable_inv:
  "ingest_reachable cfg env st \<Longrightarrow> config_ok cfg \<Longrightarrow> ingest_inv cfg env st"
  by (induction rule: ingest_reachable.induct) (simp_all add: initial_inv ingest_step_inv)

subsection \<open>What one client receives\<close>

definition published :: "ingest_output list \<Rightarrow> string list" where
  "published out = concat (map (\<lambda>x. case x of Published p \<Rightarrow> [p] | Sent _ _ \<Rightarrow> []) out)"

definition sent_to :: "nat \<Rightarrow> ingest_output list \<Rightarrow> string list" where
  "sent_to i out = concat (map (\<lambda>x. case x of Published _ \<Rightarrow> [] | Sent j p \<Rightarrow> if j = i then [p] else []) out)"

fun ends_client :: "nat \<Rightarrow> ingest_event \<Rightarrow> bool" where
  "ends_client i (SpectrumDisconnect j) = (i = j)"
| "ends_client i (SpectrumSend j ok now) = (i = j \<and> \<not> ok)"
| "ends_client i _ = False"

lemma output_simps [simp]:
  "published [] = []" "sent_to i [] = []"
  "published (a @ b) = published a @ published b" "sent_to i (a @ b) = sent_to i a @ sent_to i b"
  "published [Published p] = [p]" "sent_to i [Published p] = []"
  "published [Sent j p] = []" "sent_to i [Sent j p] = (if j = i then [p] else [])"
  by (simp_all add: published_def sent_to_def)

lemma map_of_fan_out:
  "map_of (fst (fan_out qs x)) i = map_option (\<lambda>q. fst (bq_offer q x)) (map_of qs i)"
  by (simp add: fan_out_def map_of_map)

lemma map_of_set_queue:
  "map_of (set_queue j q qs) i = (if i = j \<and> map_of qs i \<noteq> None then Some q else map_of qs i)"
  by (induction qs) (auto simp: set_queue_def)

lemma map_of_remove_client: "i \<noteq> j \<Longrightarrow> map_of (remove_client j qs) i = map_of qs i"
  by (induction qs) (auto simp: remove_client_def)

lemma clients_publish: "clients (publish p st) = fst (fan_out (clients st) p)"
  by (simp add: publish_def Let_def split_def)

lemma clients_accept_frame: "clients (accept_frame env now utc p d st) = fst (fan_out (clients st) p)"
  by (simp add: accept_frame_def Let_def clients_publish)

lemma clients_unchanged [simp]:
  "clients (source_closed st) = clients st" "clients (source_failed e st) = clients st"
  "clients (source_opened cfg st) = clients st" "clients (backoff_elapsed st) = clients st"
  "clients (shut_down st) = clients st" "clients (audio_listen r st) = clients st"
  "clients (connection_lost err st) = clients st" "clients (count_invalid st) = clients st"
  "clients (set_audio_clients qs st) = clients st" "clients (audio_disconnect i st) = clients st"
  "clients (set_clients cs st) = cs"
  by (simp_all add: source_closed_def source_failed_def source_opened_def backoff_elapsed_def
      shut_down_def audio_listen_def connection_lost_def count_invalid_def set_audio_clients_def
      audio_disconnect_def set_clients_def Let_def split: sum.splits option.splits)

lemma clients_audio [simp]:
  "clients (audio_send i ok st) = clients st" "clients (fst (audio_connect cfg i ok st)) = clients st"
  "clients (datagram_received cfg now d st) = clients st"
  by (simp_all add: audio_send_def audio_connect_def datagram_received_def Let_def split_def
      split: option.splits)

lemma source_message_client:
  assumes "source_message cfg env now utc msg st = Inr (st', pub)" "map_of (clients st) i = Some q" "queue_ok q"
  shows "\<exists>q'. map_of (clients st') i = Some q' \<and>
    subseq (items q') (items q @ (if pub then (case msg of TextMsg p \<Rightarrow> [p] | _ \<Rightarrow> []) else []))"
proof -
  have keep: "subseq (take_last n xs) xs" for n and xs :: "string list"
    by (metis take_last_append_suffix subseq_append' list_emb_Nil append_Nil subseq_order.order_refl
        list_emb_append2)
  show ?thesis
    using source_message_cases [OF assms(1)] assms(2) keep [of "maxsize q" "items q @ _"]
    by (auto simp: clients_accept_frame map_of_fan_out bq_offer_sel(1) [OF assms(3)])
qed

lemma ingest_step_client:
  assumes "config_ok cfg" "ingest_inv cfg env st" "map_of (clients st) i = Some q" "\<not> ends_client i e"
    and step: "ingest_step cfg env st e = (st', out)"
  shows "\<exists>q'. map_of (clients st') i = Some q' \<and> subseq (sent_to i out @ items q') (items q @ published out)"
proof -
  have mem: "i \<in> fst ` set (clients st)" using assms(3) by (metis domI dom_map_of_conv_image_fst)
  have qok: "queue_ok q"
    using map_of_SomeD [OF assms(3)] ingest_inv_clients [OF assms(2)] by (auto simp: clients_ok_def)
  show ?thesis
  proof (cases e)
    case (SourceMessage now utc msg)
    show ?thesis
    proof (cases "phase st = Consuming")
      case True
      show ?thesis
      proof (cases "source_message cfg env now utc msg st")
        case (Inr r)
        obtain s pub where r: "r = (s, pub)" by fastforce
        from source_message_client [OF Inr [unfolded r] assms(3) qok]
        show ?thesis using step SourceMessage True Inr r
          by (auto split: ws_message.splits if_splits)
      qed (use step SourceMessage True assms(3) in auto)
    qed (use step SourceMessage assms(3) in auto)
  next
    case (SpectrumConnect j)
    show ?thesis
    proof (cases "j \<in> fst ` set (clients st)")
      case False
      then have "j \<noteq> i" using mem by blast
      with step SpectrumConnect False assms(3) show ?thesis
        by (auto simp: spectrum_connect_eq [OF assms(1)])
    qed (use step SpectrumConnect assms(3) in auto)
  next
    case (SpectrumSend j ok now)
    show ?thesis
    proof (cases "map_of (clients st) j")
      case (Some r)
      note mr = Some
      show ?thesis
      proof (cases "get_nowait r")
        case (Some pr)
        obtain p r' where pr: "pr = (p, r')" by fastforce
        note g = Some [unfolded pr] and it = get_nowait_items [OF Some [unfolded pr]]
        show ?thesis
          using step SpectrumSend mr g it assms(3,4)
          by (cases "j = i"; cases ok)
            (auto simp: spectrum_send_def Let_def map_of_set_queue spectrum_disconnect_def map_of_remove_client)
      qed (use step SpectrumSend mr assms(3) in \<open>auto simp: spectrum_send_def\<close>)
    qed (use step SpectrumSend assms(3) in \<open>auto simp: spectrum_send_def\<close>)
  next
    case (SpectrumDisconnect j)
    with step assms(3,4) show ?thesis by (auto simp: spectrum_disconnect_def map_of_remove_client)
  qed (use step assms(3) in \<open>auto split: if_splits\<close>)
qed

lemma subseq_compose:
  assumes "subseq (s1 @ q1) (q @ p1)" "subseq (s2 @ q2) (q1 @ p2)"
  shows "subseq ((s1 @ s2) @ q2) (q @ p1 @ p2)"
proof -
  have a: "subseq (s1 @ (s2 @ q2)) (s1 @ (q1 @ p2))" using assms(2) by (simp add: subseq_append')
  have "subseq ((s1 @ q1) @ p2) ((q @ p1) @ p2)"
    using assms(1) by (rule list_emb_append_mono) simp
  with a show ?thesis using subseq_order.order_trans by fastforce
qed

lemma ingest_run_client:
  assumes "config_ok cfg" "ingest_inv cfg env st" "map_of (clients st) i = Some q"
    and "\<forall>e\<in>set es. \<not> ends_client i e"
  shows "\<exists>q'. map_of (clients (fst (ingest_run cfg env st es))) i = Some q' \<and>
    subseq (sent_to i (snd (ingest_run cfg env st es)) @ items q')
      (items q @ published (snd (ingest_run cfg env st es)))"
  using assms(2-4)
proof (induction es arbitrary: st q)
  case (Cons e es)
  obtain st1 out1 where s: "ingest_step cfg env st e = (st1, out1)" by fastforce
  from ingest_step_client [OF assms(1) Cons.prems(1,2) _ s] Cons.prems(3) obtain q1 where q1:
    "map_of (clients st1) i = Some q1" "subseq (sent_to i out1 @ items q1) (items q @ published out1)"
    by auto
  have "ingest_inv cfg env st1" using ingest_step_inv [OF assms(1) Cons.prems(1), of e] s by simp
  from Cons.IH [OF this q1(1)] Cons.prems(3) obtain q2 where q2:
    "map_of (clients (fst (ingest_run cfg env st1 es))) i = Some q2"
    "subseq (sent_to i (snd (ingest_run cfg env st1 es)) @ items q2)
      (items q1 @ published (snd (ingest_run cfg env st1 es)))" by auto
  show ?case using s q2(1) subseq_compose [OF q1(2) q2(2)] by (simp add: Let_def split_def)
qed simp

subsection \<open>Reconnection, gaps and the leaked audio queue\<close>

definition failed_attempts :: "py_error \<Rightarrow> nat \<Rightarrow> ingest_event list" where
  "failed_attempts e k = concat (replicate k [SourceConnectFailed e, BackoffElapsed])"

lemma ingest_run_append:
  "ingest_run cfg env st (a @ b) = (let (s1, o1) = ingest_run cfg env st a;
      (s2, o2) = ingest_run cfg env s1 b in (s2, o1 @ o2))"
  by (induction a arbitrary: st) (auto simp: Let_def split_def)

lemma one_failed_attempt:
  assumes "phase st = Connecting" "\<not> stop_set st"
    and st': "st' = fst (ingest_run cfg env st [SourceConnectFailed e, BackoffElapsed])"
  shows "phase st' = Connecting" "\<not> stop_set st'" "backoff st' = min (backoff st * 2) 30"
    "last_error st' = Some (Raised e)" "\<not> source_connected st'"
  using assms(1,2) unfolding st'
  by (simp_all add: source_failed_def source_closed_def backoff_elapsed_def Let_def)

lemma failed_attempts_backoff:
  assumes "phase st = Connecting" "\<not> stop_set st" "0 < backoff st" "backoff st \<le> 30"
  shows "phase (fst (ingest_run cfg env st (failed_attempts e k))) = Connecting \<and>
    backoff (fst (ingest_run cfg env st (failed_attempts e k))) = min (backoff st * 2 ^ k) 30"
  using assms
proof (induction k arbitrary: st)
  case (Suc k)
  define st' where "st' = fst (ingest_run cfg env st [SourceConnectFailed e, BackoffElapsed])"
  note one = one_failed_attempt [OF Suc.prems(1,2) st'_def]
  have "failed_attempts e (Suc k) = [SourceConnectFailed e, BackoffElapsed] @ failed_attempts e k"
    by (simp add: failed_attempts_def)
  then have run: "fst (ingest_run cfg env st (failed_attempts e (Suc k)))
      = fst (ingest_run cfg env st' (failed_attempts e k))"
    by (simp only: ingest_run_append st'_def) (simp add: Let_def split_def)
  have ih: "phase (fst (ingest_run cfg env st' (failed_attempts e k))) = Connecting \<and>
    backoff (fst (ingest_run cfg env st' (failed_attempts e k))) = min (backoff st' * 2 ^ k) 30"
    by (rule Suc.IH) (use one Suc.prems in auto)
  have "min (min (backoff st * 2) 30 * 2 ^ k) 30 = min (backoff st * 2 ^ Suc k) (30::rat)"
  proof (cases "backoff st * 2 \<le> 30")
    case False
    have p: "(1::rat) \<le> 2 ^ k" by simp
    then have "30 * (1::rat) \<le> 30 * 2 ^ k" "30 * 1 \<le> (backoff st * 2) * 2 ^ k"
      using False by (intro mult_mono; simp)+
    then have "min (30 * 2 ^ k) 30 = (30::rat)" "min (backoff st * 2 * 2 ^ k) 30 = (30::rat)"
      by (simp_all only: mult_1_right min_absorb2)
    with False show ?thesis by (simp add: mult.assoc min_absorb2)
  qed (simp add: mult.assoc)
  then show ?case using ih run one(3) by simp
qed (simp add: failed_attempts_def)

text \<open>The number of positions at which a sequence of numbers does not continue.\<close>

fun count_gaps :: "int option \<Rightarrow> int list \<Rightarrow> nat" where
  "count_gaps previous [] = 0"
| "count_gaps previous (s # ss) = (if is_gap previous s then 1 else 0) + count_gaps (Some s) ss"

lemma count_gaps_consecutive: "count_gaps (Some s) [s + 1..s + int n] = 0"
proof (induction n arbitrary: s)
  case (Suc n)
  have "[s + 1..s + int (Suc n)] = (s + 1) # [(s + 1) + 1..(s + 1) + int n]"
    by (subst upto.simps) (simp add: algebra_simps)
  then show ?case using Suc [of "s + 1"] by (simp add: is_gap_def)
qed simp

fun accept_all ::
  "environment \<Rightarrow> (rat \<times> rat \<times> string \<times> (string \<times> pyval) list) list \<Rightarrow> ingest_state \<Rightarrow> ingest_state" where
  "accept_all env [] st = st"
| "accept_all env ((now, utc, p, d) # fs) st = accept_all env fs (accept_frame env now utc p d st)"

definition frame_sequence :: "(rat \<times> rat \<times> string \<times> (string \<times> pyval) list) \<Rightarrow> int" where
  "frame_sequence f = int_val (dict_get (snd (snd (snd f))) ''sequence'')"

lemma accept_frame_sel:
  "sequence_gaps (metrics (accept_frame env now utc p d st)) = sequence_gaps (metrics st)
     + (if is_gap (last_sequences st (source_key d)) (int_val (dict_get d ''sequence'')) then 1 else 0)"
  "received_frames (metrics (accept_frame env now utc p d st)) = received_frames (metrics st) + 1"
  "last_sequences (accept_frame env now utc p d st) =
     (last_sequences st)(source_key d \<mapsto> int_val (dict_get d ''sequence''))"
  by (simp_all add: accept_frame_def publish_def Let_def split_def)

lemma accept_all_gaps:
  "\<forall>f\<in>set fs. source_key (snd (snd (snd f))) = key \<Longrightarrow>
     sequence_gaps (metrics (accept_all env fs st)) = sequence_gaps (metrics st)
        + count_gaps (last_sequences st key) (map frame_sequence fs)
     \<and> received_frames (metrics (accept_all env fs st)) = received_frames (metrics st) + length fs"
  by (induction env fs st rule: accept_all.induct) (auto simp: accept_frame_sel frame_sequence_def)

fun audio_handler_event :: "nat \<Rightarrow> ingest_event \<Rightarrow> bool" where
  "audio_handler_event i (AudioSend j ok) = (i = j)"
| "audio_handler_event i (AudioDisconnect j) = (i = j)"
| "audio_handler_event i _ = False"

lemma audio_clients_simps [simp]:
  "audio_clients (source_closed st) = audio_clients st" "audio_clients (source_failed e st) = audio_clients st"
  "audio_clients (source_opened cfg st) = audio_clients st" "audio_clients (backoff_elapsed st) = audio_clients st"
  "audio_clients (shut_down st) = audio_clients st" "audio_clients (audio_listen r st) = audio_clients st"
  "audio_clients (connection_lost err st) = audio_clients st" "audio_clients (count_invalid st) = audio_clients st"
  "audio_clients (set_clients cs st) = audio_clients st" "audio_clients (spectrum_disconnect i st) = audio_clients st"
  "audio_clients (publish p st) = audio_clients st"
  "audio_clients (accept_frame env now utc p d st) = audio_clients st"
  "audio_clients (set_audio_clients qs st) = qs"
  by (simp_all add: source_closed_def source_failed_def source_opened_def backoff_elapsed_def
      shut_down_def audio_listen_def connection_lost_def count_invalid_def set_clients_def publish_def
      accept_frame_def spectrum_disconnect_def set_audio_clients_def Let_def split_def
      split: sum.splits option.splits)

lemma audio_clients_connect [simp]: "audio_clients (fst (spectrum_connect cfg i st)) = audio_clients st"
  by (simp add: spectrum_connect_def Let_def split: option.splits)

lemma audio_clients_send [simp]: "audio_clients (fst (spectrum_send i ok now st)) = audio_clients st"
  by (simp add: spectrum_send_def Let_def split: option.splits)

lemma fst_audio_datagram:
  "map fst (audio_clients (datagram_received cfg now d st)) = map fst (audio_clients st)"
  by (simp add: datagram_received_def Let_def split_def)

lemma fst_set_eq: "fst ` set xs = set (map fst xs)"
  by simp

lemma audio_step_keeps:
  assumes "i \<in> set (map fst (audio_clients st))" "\<not> audio_handler_event i e"
  shows "i \<in> set (map fst (audio_clients (fst (ingest_step cfg env st e))))"
proof (cases e)
  case (SourceMessage now utc msg)
  show ?thesis
  proof (cases "source_message cfg env now utc msg st")
    case (Inr r)
    obtain s pub where r: "r = (s, pub)" by fastforce
    have "audio_clients s = audio_clients st"
      using source_message_cases [OF Inr [unfolded r]] by auto
    with SourceMessage assms(1) Inr r show ?thesis by simp
  qed (use SourceMessage assms(1) in simp)
next
  case (Datagram now d)
  have "audio_transport st \<Longrightarrow> ?thesis"
    using assms(1) unfolding Datagram ingest_step.simps by (simp only: if_True fst_conv fst_audio_datagram)
  then show ?thesis using assms(1) Datagram by auto
next
  case (AudioSend j ok)
  have "i \<in> set (map fst (remove_client j (audio_clients st)))"
    using assms AudioSend by (auto simp: remove_client_def)
  then show ?thesis using assms(1) AudioSend
    by (simp add: audio_send_def audio_disconnect_def del: set_map split: option.splits)
next
  case (AudioDisconnect j)
  then show ?thesis using assms by (auto simp: audio_disconnect_def remove_client_def)
qed (use assms in \<open>auto simp: audio_connect_def split_def Let_def\<close>)

lemma audio_run_keeps:
  "i \<in> set (map fst (audio_clients st)) \<Longrightarrow> \<forall>e\<in>set es. \<not> audio_handler_event i e \<Longrightarrow>
     i \<in> set (map fst (audio_clients (fst (ingest_run cfg env st es))))"
proof (induction es arbitrary: st)
  case (Cons e es)
  have "i \<in> set (map fst (audio_clients (fst (ingest_step cfg env st e))))"
    using Cons.prems by (intro audio_step_keeps) auto
  with Cons.IH Cons.prems(2) show ?case by (simp add: Let_def split_def)
qed simp

subsection \<open>Properties\<close>

text \<open>A configuration, an environment and a message, for the witnesses.\<close>

definition sample_config :: ingest_config where
  "sample_config = load_config 2 2 5 4194304 65536 9998 48000 2 65536"

definition sample_env :: environment where
  "sample_env = \<lparr>json_loads = (\<lambda>s. if s = ''frame'' then Decoded (PDict (sample_fields 2))
      else if s = ''list'' then Decoded (PDict ((''source_type'', PList []) # sample_fields 2)) else DecodeError),
    fromisoformat = cv_fromiso sample_conversions\<rparr>"

lemma sample_config_ok: "config_ok sample_config"
  by (simp add: sample_config_def config_ok_load)

text \<open>
  C2: Invariant of the service, in every state it can reach by any sequence of messages, client
  connections, sends, losses and time-outs: every payload that is queued for a client or kept
  for the next client is within the size limit, decodes and was accepted by \<open>validate_frame\<close>;
  every audio packet in a queue has a positive even length within the limit; no queue exceeds
  its configured size; the client counters equal the number of registered queues; the
  connection flag is set exactly while the source is consumed; the back-off stays between the
  reconnect time and 30 seconds; the rate windows hold at most 120 times.
\<close>

theorem ingest_invariant_reachable:
  assumes "config_ok cfg" and "ingest_reachable cfg env st"
  shows "clients_ok (cfg_max_queue cfg) (good_payload cfg env) (clients st)
    \<and> clients_ok (cfg_audio_max_queue cfg) (good_packet cfg) (audio_clients st)
    \<and> connected_clients (metrics st) = length (clients st)
    \<and> audio_connected_clients (metrics st) = length (audio_clients st)
    \<and> source_connected st = (phase st = Consuming)
    \<and> min (cfg_reconnect cfg) 30 \<le> backoff st \<and> backoff st \<le> max (cfg_reconnect cfg) 30
    \<and> (\<forall>p. last_payload st = Some p \<longrightarrow> good_payload cfg env p)
    \<and> (last_payload st \<noteq> None) = (0 < received_frames (metrics st))
    \<and> sequence_gaps (metrics st) \<le> received_frames (metrics st)
    \<and> length (received_times st) \<le> 120 \<and> length (outgoing_times st) \<le> 120"
  using ingest_reachable_inv [OF assms(2,1)] by (simp add: ingest_inv_defs)

lemma ingest_invariant_reachable_witness:
  "connected_clients (metrics (fst (ingest_run sample_config sample_env (initial_state sample_config)
      [SpectrumConnect 1, SourceOpened, SourceMessage 0 0 (TextMsg ''frame''), SpectrumConnect 2])))
   = length (clients (fst (ingest_run sample_config sample_env (initial_state sample_config)
      [SpectrumConnect 1, SourceOpened, SourceMessage 0 0 (TextMsg ''frame''), SpectrumConnect 2])))"
  using ingest_invariant_reachable [OF sample_config_ok ingest_run_reachable [OF ingest_reachable.start]]
  by blast

text \<open>
  C3: Delivery in order, without duplicates: while a spectrum client stays connected, what has
  been sent to it followed by what still waits in its queue is a subsequence of what waited at
  the beginning followed by what was published since; a slow client loses frames, but never
  gets one twice, out of order, or one that was not published.
\<close>

theorem client_stream_in_order:
  assumes "config_ok cfg" and "ingest_reachable cfg env st" and "map_of (clients st) i = Some q"
    and "\<forall>e\<in>set es. \<not> ends_client i e" and "ingest_run cfg env st es = (st', out)"
  shows "\<exists>q'. map_of (clients st') i = Some q' \<and>
    subseq (sent_to i out @ items q') (items q @ published out)"
  using ingest_run_client [OF assms(1) ingest_reachable_inv [OF assms(2,1)] assms(3,4)] assms(5) by simp

lemma sample_client_connected:
  "map_of (clients (fst (ingest_run sample_config sample_env (initial_state sample_config)
     [SpectrumConnect 1, SourceOpened]))) 1 = Some \<lparr>maxsize = 2, items = []\<rparr>"
  by (simp add: spectrum_connect_eq [OF sample_config_ok] source_opened_def initial_state_def Let_def
      set_clients_def upd_metrics_def) (simp add: sample_config_def load_config_def clamp_def)

lemma client_stream_in_order_witness:
  "\<exists>q'. map_of (clients (fst (ingest_run sample_config sample_env
       (fst (ingest_run sample_config sample_env (initial_state sample_config) [SpectrumConnect 1, SourceOpened]))
       [SourceMessage 0 0 (TextMsg ''frame''), SpectrumSend 1 True 1]))) 1 = Some q'"
proof -
  have "\<forall>e\<in>set [SourceMessage 0 0 (TextMsg ''frame''), SpectrumSend 1 True 1]. \<not> ends_client 1 e"
    by simp
  from client_stream_in_order [OF sample_config_ok ingest_run_reachable [OF ingest_reachable.start]
      sample_client_connected this prod.collapse [symmetric]]
  show ?thesis by blast
qed

text \<open>
  Reconnection: with a reconnect time of at most 30 seconds, after \<open>k\<close> failed attempts the
  service is about to try again and the wait has doubled \<open>k\<close> times, capped at 30 seconds; a
  successful connection resets the wait.
\<close>

theorem reconnect_backoff:
  assumes "phase st = Connecting" and "\<not> stop_set st" and "0 < backoff st" and "backoff st \<le> 30"
  shows "phase (fst (ingest_run cfg env st (failed_attempts e k))) = Connecting
    \<and> backoff (fst (ingest_run cfg env st (failed_attempts e k))) = min (backoff st * 2 ^ k) 30
    \<and> backoff (fst (ingest_step cfg env (fst (ingest_run cfg env st (failed_attempts e k))) SourceOpened))
        = cfg_reconnect cfg"
  using failed_attempts_backoff [OF assms, of cfg env e k] by (simp add: source_opened_def)

lemma reconnect_backoff_witness:
  "backoff (fst (ingest_run sample_config sample_env (initial_state sample_config)
     (failed_attempts (OSError ''refused'') 3))) = min (2 * 2 ^ 3) 30"
  using reconnect_backoff [of "initial_state sample_config" sample_config sample_env "OSError ''refused''" 3]
  by (simp add: initial_state_def sample_config_def load_config_def)

text \<open>
  Sequence gaps: for a run of accepted frames of one sensor, session and source type the
  gap counter grows by the number of frames whose sequence number does not follow the one
  before it (of the same source, also across reconnections), and the frame counter by the
  number of frames.
\<close>

theorem sequence_gaps_counted:
  assumes "\<forall>f\<in>set fs. source_key (snd (snd (snd f))) = key"
  shows "sequence_gaps (metrics (accept_all env fs st)) = sequence_gaps (metrics st)
       + count_gaps (last_sequences st key) (map frame_sequence fs)
    \<and> received_frames (metrics (accept_all env fs st)) = received_frames (metrics st) + length fs"
  using assms by (rule accept_all_gaps)

lemma sequence_gaps_counted_witness:
  "sequence_gaps (metrics (accept_all sample_env [(0, 0, ''frame'', sample_fields 2),
      (1, 1, ''frame'', (''sequence'', PInt 9) # sample_fields 2)] (initial_state sample_config))) = 1"
  using sequence_gaps_counted [of "[(0, 0, ''frame'', sample_fields 2),
      (1, 1, ''frame'', (''sequence'', PInt 9) # sample_fields 2)]" "(''s1'', ''run'', ''mock'')" sample_env
      "initial_state sample_config"]
  by (simp add: source_key_def frame_sequence_def sample_fields_def dict_get_def str_val_def
      is_gap_def initial_state_def initial_metrics_def)

text \<open>
  A message that makes \<open>validate_frame\<close> raise instead of returning \<open>False\<close> (a source type that
  is a list, metadata of a simulated source that is no dictionary, an integer power beyond the
  float range) is not counted as an invalid frame: the exception ends the source connection,
  and the service waits for its back-off before it reads again.
\<close>

theorem raising_frame_drops_connection:
  assumes "phase st = Consuming" and "json_loads env p = Decoded f"
    and "length p \<le> cfg_max_frame_bytes cfg"
    and "validate_frame (fromisoformat env) (cfg_max_points cfg) f = Inl e"
  shows "\<exists>st'. ingest_step cfg env st (SourceMessage now utc (TextMsg p)) = (st', [])
    \<and> phase st' = Backing_Off \<and> \<not> source_connected st' \<and> metrics st' = metrics st
    \<and> last_error st' = Some (Raised e)"
  using assms by (simp add: source_message_def source_failed_def source_closed_def)

lemma raising_frame_drops_connection_witness:
  "\<exists>st'. ingest_step sample_config sample_env (source_opened sample_config (initial_state sample_config))
      (SourceMessage 0 0 (TextMsg ''list'')) = (st', []) \<and> phase st' = Backing_Off"
  using raising_frame_drops_connection [of "source_opened sample_config (initial_state sample_config)"
      sample_env "''list''" "PDict ((''source_type'', PList []) # sample_fields 2)" sample_config
      "TypeError ''unhashable type: list''" 0 0]
  by (simp add: source_opened_def sample_env_def sample_config_def load_config_def sample_simps type_name_def)
    blast

text \<open>
  A browser that leaves before the audio header was sent leaks its queue: the handler returns
  with the queue registered, and whatever happens to other clients, the source and the
  datagrams, it stays registered and is counted as a connected client (only the handler itself
  could remove it).
\<close>

theorem audio_header_failure_leaks_queue:
  assumes "config_ok cfg" and "ingest_reachable cfg env st" and "i \<notin> fst ` set (audio_clients st)"
    and "\<forall>e\<in>set es. \<not> audio_handler_event i e"
    and "st' = fst (ingest_run cfg env st (AudioConnect i False # es))"
  shows "i \<in> fst ` set (audio_clients st') \<and> 0 < audio_connected_clients (metrics st')"
proof -
  have "i \<in> set (map fst (audio_clients (fst (ingest_step cfg env st (AudioConnect i False)))))"
    using assms(3) by (simp add: audio_connect_def)
  from audio_run_keeps [OF this assms(4), of cfg env] assms(3,5)
  have "i \<in> fst ` set (audio_clients st')" by (simp add: Let_def split_def)
  moreover have "ingest_inv cfg env st'"
    using ingest_reachable_inv [OF ingest_run_reachable [OF assms(2)] assms(1)] assms(5) by blast
  ultimately show ?thesis by (auto simp: ingest_inv_defs)
qed

lemma audio_header_failure_leaks_queue_witness:
  "0 < audio_connected_clients (metrics (fst (ingest_run sample_config sample_env (initial_state sample_config)
     (AudioConnect 1 False # [AudioListen (Inr ()), Datagram 0 [1, 2, 3]]))))"
  using audio_header_failure_leaks_queue [OF sample_config_ok ingest_reachable.start, where i = 1 and
      es = "[AudioListen (Inr ()), Datagram 0 [1, 2, 3]]", OF _ _ refl, of sample_env]
  by (simp add: initial_state_def del: ingest_run.simps)

end
