(* ===== verification/Iq_Plane.thy ===== *)
theory Iq_Plane
  imports Bounded_Queue Frame_Validation
begin

section \<open>The IQ data plane\<close>

text \<open>
  \<open>services/sdrangel/iq_pipeline.py\<close>: packets are validated and put into a bounded queue by one
  producer; a worker thread publishes them to a sink. The producer and the worker interleave:
  \<open>enqueue\<close> on a full queue takes three steps (the failed \<open>put_nowait\<close>, \<open>get_nowait\<close>, the second
  \<open>put_nowait\<close>), between which the worker may run. The sink's calls succeed or raise as the event
  says. The accounting invariant holds in every interleaving.
\<close>

subsection \<open>Packets and configuration\<close>

datatype plane_state = DISABLED | NOT_CONFIGURED | CONFIGURED_NOT_TESTED | CONNECTING | READY
  | DEGRADED | FAILED

record iq_packet =
  pk_protocol_version :: int
  pk_sample_format :: string
  pk_sample_rate_hz :: int
  pk_center_frequency_hz :: int
  pk_timestamp_ns :: int
  pk_sequence :: int
  pk_samples :: "(pyfloat \<times> pyfloat) list"
  pk_packet_loss :: int
  pk_overflow :: int

definition supported_formats :: "string list" where
  "supported_formats = [''cf32_le'', ''ci16_le'']"

definition validate_packet :: "nat \<Rightarrow> iq_packet \<Rightarrow> unit result" where
  "validate_packet max_samples p =
     (if pk_protocol_version p \<noteq> 1 then Inl (ValueError ''unsupported_iq_protocol_version'')
      else if pk_sample_format p \<notin> set supported_formats
      then Inl (ValueError ''unsupported_iq_sample_format'')
      else if pk_sample_rate_hz p \<le> 0 \<or> pk_center_frequency_hz p \<le> 0
      then Inl (ValueError ''invalid_iq_frequency_metadata'')
      else if pk_timestamp_ns p \<le> 0 \<or> pk_sequence p < 0
      then Inl (ValueError ''invalid_iq_sequence_metadata'')
      else if pk_samples p = [] \<or> max_samples < length (pk_samples p)
      then Inl (ValueError ''invalid_iq_sample_count'')
      else if pk_packet_loss p < 0 \<or> pk_overflow p < 0
      then Inl (ValueError ''negative_iq_quality_counter'')
      else if list_ex (\<lambda>(re, im). \<not> is_fin re \<or> \<not> is_fin im) (pk_samples p)
      then Inl (ValueError ''non_finite_iq_sample'')
      else Inr ())"

record iq_config =
  iq_enabled :: bool
  iq_mode :: string
  iq_endpoint :: string
  iq_sample_format :: string
  iq_sample_rate_hz :: int
  iq_queue_size :: nat
  iq_drop_policy :: string

text \<open>\<open>from_env\<close>: the environment's texts; \<open>int\<close> of a text is \<open>None\<close> where it raises.\<close>

definition iq_from_env ::
  "(string \<Rightarrow> int option) \<Rightarrow> string \<Rightarrow> string \<Rightarrow> string \<Rightarrow> string \<Rightarrow> string \<Rightarrow> string \<Rightarrow> string \<Rightarrow> iq_config" where
  "iq_from_env to_int enabled rate qsize policy mode endpoint format =
     (let policy = py_lower (py_strip policy) in
      \<lparr>iq_enabled = py_lower (py_strip enabled) \<in> {''1'', ''true'', ''yes'', ''on''},
       iq_mode = py_strip mode, iq_endpoint = py_strip endpoint, iq_sample_format = py_strip format,
       iq_sample_rate_hz = max 0 (case to_int rate of None \<Rightarrow> 0 | Some n \<Rightarrow> n),
       iq_queue_size = (case to_int qsize of None \<Rightarrow> 32 | Some n \<Rightarrow> nat (clamp 1 4096 n)),
       iq_drop_policy = (if policy \<in> {''drop_oldest'', ''drop_newest''} then policy else ''drop_oldest'')\<rparr>)"

definition iq_initial_state :: "iq_config \<Rightarrow> plane_state" where
  "iq_initial_state c =
     (if \<not> iq_enabled c then DISABLED
      else if iq_mode c \<in> {'''', ''not_configured''} \<or> iq_endpoint c = '''' \<or> iq_sample_rate_hz c \<le> 0
        \<or> iq_sample_format c \<notin> set supported_formats
      then NOT_CONFIGURED else CONFIGURED_NOT_TESTED)"

subsection \<open>The data plane\<close>

record iq_stats =
  packets_received :: int
  packets_published :: int
  packets_dropped :: int
  iq_sequence_gaps :: int
  packet_loss :: int
  overflows :: int
  reconnects :: int
  last_sequence :: "int option"
  iq_last_error :: "py_error option"
  last_packet_at_ns :: "int option"

text \<open>Where the producer stands in \<open>enqueue\<close>, and the worker in \<open>_worker\<close>.\<close>

datatype producer = Idle | Making_Room iq_packet | Putting iq_packet

datatype worker = No_Thread | Waiting | Busy iq_packet | Exited

record iq_plane =
  plane_config :: iq_config
  plane_state :: plane_state
  stats :: iq_stats
  plane_queue :: "iq_packet bqueue"
  unfinished_tasks :: int
  stop_event :: bool
  producer :: producer
  worker :: worker

definition iq_init :: "iq_config \<Rightarrow> iq_plane" where
  "iq_init c = \<lparr>plane_config = c, plane_state = iq_initial_state c,
     stats = \<lparr>packets_received = 0, packets_published = 0, packets_dropped = 0, iq_sequence_gaps = 0,
       packet_loss = 0, overflows = 0, reconnects = 0, last_sequence = None, iq_last_error = None,
       last_packet_at_ns = None\<rparr>,
     plane_queue = new_queue (iq_queue_size c), unfinished_tasks = 0, stop_event = False,
     producer = Idle, worker = No_Thread\<rparr>"

text \<open>The statistics that \<open>enqueue\<close> updates before it touches the queue.\<close>

definition note_packet :: "iq_packet \<Rightarrow> iq_stats \<Rightarrow> iq_stats" where
  "note_packet p s = s\<lparr>packets_received := packets_received s + 1,
     packet_loss := packet_loss s + pk_packet_loss p,
     overflows := overflows s + pk_overflow p,
     iq_sequence_gaps := (case last_sequence s of None \<Rightarrow> iq_sequence_gaps s
        | Some l \<Rightarrow> if l + 1 < pk_sequence p then iq_sequence_gaps s + (pk_sequence p - l - 1)
                    else iq_sequence_gaps s),
     last_sequence := Some (pk_sequence p),
     last_packet_at_ns := Some (pk_timestamp_ns p)\<rparr>"

text \<open>The result of one producer step: still running, returned, or raised.\<close>

datatype enqueue_status = Pending | Returned bool | Raises py_error

definition enqueue_begin :: "iq_packet \<Rightarrow> iq_plane \<Rightarrow> iq_plane \<times> enqueue_status" where
  "enqueue_begin p s =
     (case validate_packet 1048576 p of
        Inl e \<Rightarrow> (s, Raises e)
      | Inr _ \<Rightarrow>
          let s = s\<lparr>stats := note_packet p (stats s)\<rparr> in
          (case put_nowait (plane_queue s) p of
             Some q \<Rightarrow> (s\<lparr>plane_queue := q, unfinished_tasks := unfinished_tasks s + 1\<rparr>, Returned True)
           | None \<Rightarrow>
               let s = s\<lparr>stats := (stats s)\<lparr>packets_dropped := packets_dropped (stats s) + 1\<rparr>\<rparr> in
               if iq_drop_policy (plane_config s) = ''drop_newest'' then (s, Returned False)
               else (s\<lparr>producer := Making_Room p\<rparr>, Pending)))"

definition enqueue_make_room :: "iq_packet \<Rightarrow> iq_plane \<Rightarrow> iq_plane \<times> enqueue_status" where
  "enqueue_make_room p s =
     (case get_nowait (plane_queue s) of
        None \<Rightarrow> (s\<lparr>producer := Idle\<rparr>, Returned False)
      | Some (_, q) \<Rightarrow> (s\<lparr>plane_queue := q, unfinished_tasks := unfinished_tasks s - 1,
                          producer := Putting p\<rparr>, Pending))"

definition enqueue_finish :: "iq_packet \<Rightarrow> iq_plane \<Rightarrow> iq_plane \<times> enqueue_status" where
  "enqueue_finish p s =
     (case put_nowait (plane_queue s) p of
        Some q \<Rightarrow> (s\<lparr>plane_queue := q, unfinished_tasks := unfinished_tasks s + 1, producer := Idle\<rparr>,
                   Returned True)
      | None \<Rightarrow> (s\<lparr>producer := Idle\<rparr>, Raises (RuntimeError ''queue.Full'')))"

definition iq_start :: "bool \<Rightarrow> unit result \<Rightarrow> iq_plane \<Rightarrow> iq_plane \<times> unit result" where
  "iq_start allow_mock_ready connect s =
     (if worker s \<in> {Waiting} \<union> range Busy then (s, Inr ())
      else if plane_state s \<in> {DISABLED, NOT_CONFIGURED}
      then (s, Inl (RuntimeError ''iq_data_plane_state''))
      else if plane_state s = CONFIGURED_NOT_TESTED \<and> \<not> allow_mock_ready
      then (s, Inl (RuntimeError ''iq_data_plane_transport_not_verified''))
      else let s = s\<lparr>plane_state := CONNECTING\<rparr> in
        (case connect of
           Inl e \<Rightarrow> (s, Inl e)
         | Inr _ \<Rightarrow> (s\<lparr>plane_state := READY, stop_event := False, worker := Waiting\<rparr>, Inr ())))"

text \<open>One turn of the worker: leave the loop, take a packet, or finish the packet in hand.\<close>

definition worker_step :: "unit result \<Rightarrow> iq_plane \<Rightarrow> iq_plane" where
  "worker_step publish s =
     (case worker s of
        Waiting \<Rightarrow>
          if stop_event s \<and> items (plane_queue s) = [] then s\<lparr>worker := Exited\<rparr>
          else (case get_nowait (plane_queue s) of
              None \<Rightarrow> s
            | Some (p, q) \<Rightarrow> s\<lparr>plane_queue := q, worker := Busy p\<rparr>)
      | Busy p \<Rightarrow>
          let s = (case publish of
              Inr _ \<Rightarrow> s\<lparr>stats := (stats s)\<lparr>packets_published := packets_published (stats s) + 1\<rparr>\<rparr>
            | Inl e \<Rightarrow> s\<lparr>stats := (stats s)\<lparr>iq_last_error := Some e, reconnects := reconnects (stats s) + 1\<rparr>,
                        plane_state := DEGRADED\<rparr>)
          in s\<lparr>unfinished_tasks := unfinished_tasks s - 1, worker := Waiting\<rparr>
      | _ \<Rightarrow> s)"

definition iq_stop :: "iq_plane \<Rightarrow> iq_plane" where
  "iq_stop s = (let s = s\<lparr>stop_event := True\<rparr> in
     if plane_state s \<notin> {FAILED, DEGRADED}
     then s\<lparr>plane_state := iq_initial_state (plane_config s)\<rparr> else s)"

datatype iq_event = Enqueue iq_packet | Continue_Enqueue | Worker "unit result"
  | Start bool "unit result" | Stop

fun iq_step :: "iq_plane \<Rightarrow> iq_event \<Rightarrow> iq_plane \<times> enqueue_status option" where
  "iq_step s (Enqueue p) =
     (if producer s = Idle then (let (s', r) = enqueue_begin p s in (s', Some r)) else (s, None))"
| "iq_step s Continue_Enqueue =
     (case producer s of
        Idle \<Rightarrow> (s, None)
      | Making_Room p \<Rightarrow> (let (s', r) = enqueue_make_room p s in (s', Some r))
      | Putting p \<Rightarrow> (let (s', r) = enqueue_finish p s in (s', Some r)))"
| "iq_step s (Worker r) = (worker_step r s, None)"
| "iq_step s (Start allow c) = (fst (iq_start allow c s), None)"
| "iq_step s Stop = (iq_stop s, None)"

inductive iq_reachable :: "iq_config \<Rightarrow> iq_plane \<Rightarrow> bool" for c where
  init: "iq_reachable c (iq_init c)"
| step: "iq_reachable c s \<Longrightarrow> iq_reachable c (fst (iq_step s e))"

subsection \<open>Accounting\<close>

definition in_hand :: "worker \<Rightarrow> int" where
  "in_hand w = (case w of Busy _ \<Rightarrow> 1 | _ \<Rightarrow> 0)"

definition putting :: "producer \<Rightarrow> int" where
  "putting p = (case p of Putting _ \<Rightarrow> 1 | _ \<Rightarrow> 0)"

definition iq_inv :: "iq_config \<Rightarrow> iq_plane \<Rightarrow> bool" where
  "iq_inv c s = (plane_config s = c \<and> queue_ok (plane_queue s) \<and> maxsize (plane_queue s) = iq_queue_size c
     \<and> packets_received (stats s) = packets_published (stats s) + reconnects (stats s)
         + packets_dropped (stats s) + int (length (items (plane_queue s)))
         + in_hand (worker s) + putting (producer s)
     \<and> unfinished_tasks s = int (length (items (plane_queue s))) + in_hand (worker s)
     \<and> (putting (producer s) = 1 \<longrightarrow> length (items (plane_queue s)) < iq_queue_size c)
     \<and> 0 \<le> packets_published (stats s) \<and> 0 \<le> reconnects (stats s) \<and> 0 \<le> packets_dropped (stats s)
     \<and> (plane_state s = READY \<longrightarrow> iq_enabled c))"

lemma in_hand_simps [simp]:
  "in_hand No_Thread = 0" "in_hand Waiting = 0" "in_hand (Busy p) = 1" "in_hand Exited = 0"
  by (simp_all add: in_hand_def)

lemma putting_simps [simp]:
  "putting Idle = 0" "putting (Making_Room p) = 0" "putting (Putting p) = 1"
  by (simp_all add: putting_def)

lemma queue_put_cases:
  "put_nowait q x = None \<longleftrightarrow> q_full q"
  "put_nowait q x = Some q' \<longleftrightarrow> \<not> q_full q \<and> q' = q\<lparr>items := items q @ [x]\<rparr>"
  by (auto simp: put_nowait_def)

lemma note_packet_sel [simp]:
  "packets_received (note_packet p s) = packets_received s + 1"
  "packets_published (note_packet p s) = packets_published s"
  "packets_dropped (note_packet p s) = packets_dropped s"
  "reconnects (note_packet p s) = reconnects s"
  by (simp_all add: note_packet_def)

lemma enqueue_begin_inv:
  assumes "iq_inv c s" "producer s = Idle" shows "iq_inv c (fst (enqueue_begin p s))"
  using assms
  by (auto simp: enqueue_begin_def iq_inv_def queue_put_cases q_full_def queue_ok_def Let_def
      split: sum.splits option.splits)

lemma enqueue_make_room_inv:
  assumes "iq_inv c s" "producer s = Making_Room p" shows "iq_inv c (fst (enqueue_make_room p s))"
  using assms
  by (auto simp: enqueue_make_room_def iq_inv_def queue_ok_def get_nowait_def
      split: option.splits list.splits)

lemma enqueue_finish_inv:
  assumes "iq_inv c s" "producer s = Putting p"
  shows "iq_inv c (fst (enqueue_finish p s)) \<and> snd (enqueue_finish p s) = Returned True"
proof -
  have "\<not> q_full (plane_queue s)" using assms by (auto simp: iq_inv_def q_full_def)
  then show ?thesis
    using assms by (auto simp: enqueue_finish_def iq_inv_def queue_ok_def put_nowait_def)
qed

lemma worker_step_inv: "iq_inv c s \<Longrightarrow> iq_inv c (worker_step r s)"
  by (auto simp: worker_step_def iq_inv_def queue_ok_def get_nowait_def Let_def
      split: worker.splits option.splits list.splits sum.splits)

lemma iq_stop_inv: "iq_inv c s \<Longrightarrow> iq_inv c (iq_stop s)"
  by (auto simp: iq_stop_def iq_inv_def Let_def iq_initial_state_def)

lemma iq_init_inv: "0 < iq_queue_size c \<Longrightarrow> iq_inv c (iq_init c)"
  by (auto simp: iq_inv_def iq_init_def iq_initial_state_def)

text \<open>A disabled plane stays disabled: no operation changes the state to one that can start.\<close>

definition disabled_inv :: "iq_plane \<Rightarrow> bool" where
  "disabled_inv s = (iq_enabled (plane_config s) \<or> (plane_state s = DISABLED \<and> worker s = No_Thread))"

lemma iq_step_disabled: "disabled_inv s \<Longrightarrow> disabled_inv (fst (iq_step s e))"
  by (cases e) (auto simp: disabled_inv_def enqueue_begin_def enqueue_make_room_def enqueue_finish_def
      worker_step_def iq_start_def iq_stop_def iq_initial_state_def Let_def split_def
      split: producer.splits sum.splits option.splits worker.splits)

lemma iq_start_inv: "iq_inv c s \<Longrightarrow> disabled_inv s \<Longrightarrow> iq_inv c (fst (iq_start allow r s))"
  by (cases "worker s") (auto simp: iq_start_def iq_inv_def disabled_inv_def Let_def split: sum.splits)

lemma iq_step_inv:
  assumes "iq_inv c s" "disabled_inv s" shows "iq_inv c (fst (iq_step s e))"
proof (cases e)
  case (Enqueue p)
  then show ?thesis using assms enqueue_begin_inv by (auto simp: split_def Let_def)
next
  case Continue_Enqueue
  then show ?thesis using assms enqueue_make_room_inv enqueue_finish_inv
    by (auto simp: split_def Let_def split: producer.splits)
qed (use assms in \<open>auto simp: worker_step_inv iq_start_inv iq_stop_inv\<close>)

lemma iq_reachable_inv:
  assumes "iq_reachable c s" "0 < iq_queue_size c"
  shows "iq_inv c s \<and> disabled_inv s"
  using assms(1)
proof induction
  case init
  then show ?case using iq_init_inv [OF assms(2)]
    by (auto simp: disabled_inv_def iq_init_def iq_initial_state_def)
next
  case (step s e)
  then show ?case using iq_step_inv iq_step_disabled by blast
qed

subsection \<open>Sequence gaps\<close>

fun note_all :: "iq_packet list \<Rightarrow> iq_stats \<Rightarrow> iq_stats" where
  "note_all [] s = s"
| "note_all (p # ps) s = note_all ps (note_packet p s)"

lemma note_all_gaps:
  "last_sequence s = Some l \<Longrightarrow> sorted_wrt (<) (l # map pk_sequence ps) \<Longrightarrow>
    iq_sequence_gaps (note_all ps s) = iq_sequence_gaps s
      + (last (l # map pk_sequence ps) - l - int (length ps))"
proof (induction ps arbitrary: s l)
  case (Cons p ps)
  have "iq_sequence_gaps (note_packet p s) = iq_sequence_gaps s + (pk_sequence p - l - 1)"
    using Cons.prems by (auto simp: note_packet_def)
  moreover have "last_sequence (note_packet p s) = Some (pk_sequence p)" by (simp add: note_packet_def)
  ultimately show ?case using Cons.IH [of "note_packet p s" "pk_sequence p"] Cons.prems(2) by auto
qed simp

lemma card_missing:
  assumes "sorted_wrt (<) (l # xs)"
  shows "int (card ({l..last (l # xs)} - set (l # xs))) = last (l # xs) - l - int (length xs)"
proof -
  let ?xs = "l # xs"
  have ge: "l \<le> last ?xs" using assms by (cases xs) (auto simp: less_imp_le)
  have d: "distinct ?xs" using assms strict_sorted_iff by blast
  have "\<forall>x\<in>set ?xs. x \<le> last ?xs"
    using assms
  proof (induction xs arbitrary: l)
    case (Cons a xs)
    then show ?case by (metis (no_types, lifting) insert_iff last.simps list.discI list.set(2)
        order_less_imp_le order_trans sorted_wrt.simps(2) list.set_intros(1) sorted_simps(2) strict_sorted_simps(2))
  qed simp
  then have sub: "set ?xs \<subseteq> {l..last ?xs}" using assms by (auto simp: less_imp_le)
  have "card ({l..last ?xs} - set ?xs) = card {l..last ?xs} - card (set ?xs)"
    using sub by (simp add: card_Diff_subset)
  moreover have "card (set ?xs) = Suc (length xs)" using d distinct_card [of ?xs] by simp
  moreover have "card (set ?xs) \<le> card {l..last ?xs}" using sub by (intro card_mono) auto
  ultimately show ?thesis using ge by simp
qed

subsection \<open>Properties\<close>

definition sample_iq_config :: iq_config where
  "sample_iq_config = iq_from_env (\<lambda>s. if s = ''1'' then Some 1 else Some 48000) ''true'' ''48000'' ''1''
     ''drop_oldest'' ''mock'' ''mem'' ''cf32_le''"

definition sample_packet :: "int \<Rightarrow> iq_packet" where
  "sample_packet n = \<lparr>pk_protocol_version = 1, pk_sample_format = ''cf32_le'', pk_sample_rate_hz = 48000,
     pk_center_frequency_hz = 100, pk_timestamp_ns = 1, pk_sequence = n, pk_samples = [(Fin 0, Fin 1)],
     pk_packet_loss = 0, pk_overflow = 0\<rparr>"

lemma sample_iq_queue: "iq_queue_size sample_iq_config = 1"
  by (simp add: sample_iq_config_def iq_from_env_def clamp_def Let_def)

text \<open>
  C5: Accounting of the IQ data plane in every interleaving of one producer and the worker: each
  received packet is published, failed at the sink, was counted as dropped, waits in the queue,
  is in the worker's hands, or is about to be put by the producer; \<open>unfinished_tasks\<close> counts
  exactly the waiting packets and the one in hand; the queue stays within its size; and the
  second \<open>put_nowait\<close> of \<open>enqueue\<close> never finds the queue full.
\<close>

theorem iq_packets_accounted:
  assumes "iq_reachable c s" and "0 < iq_queue_size c"
  shows "packets_received (stats s) = packets_published (stats s) + reconnects (stats s)
      + packets_dropped (stats s) + int (length (items (plane_queue s)))
      + in_hand (worker s) + putting (producer s)
    \<and> unfinished_tasks s = int (length (items (plane_queue s))) + in_hand (worker s)
    \<and> length (items (plane_queue s)) \<le> iq_queue_size c
    \<and> (\<forall>p. producer s = Putting p \<longrightarrow> snd (enqueue_finish p s) = Returned True)"
proof -
  from iq_reachable_inv [OF assms] have inv: "iq_inv c s" by simp
  then show ?thesis using enqueue_finish_inv [OF inv] by (auto simp: iq_inv_def queue_ok_def)
qed

lemma iq_packets_accounted_witness:
  "packets_received (stats (fst (iq_step (iq_init sample_iq_config) (Enqueue (sample_packet 0))))) = 1"
proof -
  have "iq_reachable sample_iq_config (fst (iq_step (iq_init sample_iq_config) (Enqueue (sample_packet 0))))"
    by (intro iq_reachable.intros)
  from iq_packets_accounted [OF this] show ?thesis
    by (simp add: sample_iq_config_def iq_from_env_def clamp_def iq_init_def enqueue_begin_def
        validate_packet_def sample_packet_def supported_formats_def is_fin_def put_nowait_def q_full_def
        note_packet_def py_lower_def py_strip_def)
qed

text \<open>
  Gap accounting of the IQ data plane: for packets whose sequence numbers increase, the gap
  counter grows by the number of sequence numbers that never arrived between the first and the
  last packet.
\<close>

theorem iq_gaps_exact:
  assumes "last_sequence s = Some l" and "sorted_wrt (<) (l # map pk_sequence ps)"
  shows "iq_sequence_gaps (note_all ps s) = iq_sequence_gaps s
    + int (card ({l..last (l # map pk_sequence ps)} - set (l # map pk_sequence ps)))"
  using note_all_gaps [OF assms] card_missing [OF assms(2)] by simp

lemma iq_gaps_exact_witness:
  "iq_sequence_gaps (note_all [sample_packet 3, sample_packet 7] (note_packet (sample_packet 1) (stats (iq_init sample_iq_config))))
    = int (card ({1..7} - {1, 3, 7::int}))"
  using iq_gaps_exact [of "note_packet (sample_packet 1) (stats (iq_init sample_iq_config))" 1
      "[sample_packet 3, sample_packet 7]"]
  by (simp add: note_packet_def sample_packet_def iq_init_def)

text \<open>
  A late packet makes the gap counter overcount: it moves \<open>last_sequence\<close> backwards, so the
  numbers between it and the next packet are counted again although they arrived. For the
  numbers 0, 2, 1, 3 nothing is missing, and two gaps are counted.
\<close>

theorem iq_late_packet_overcounts:
  "iq_sequence_gaps (note_all (map sample_packet [0, 2, 1, 3]) (stats (iq_init c))) = 2"
  by (simp add: note_packet_def sample_packet_def iq_init_def)

text \<open>
  An untested transport needs the explicit permission: from its initial state the plane never
  becomes ready by \<open>start()\<close> without \<open>allow_mock_ready\<close>, and a disabled plane never leaves the
  state DISABLED, whatever is called.
\<close>

theorem iq_start_guarded:
  assumes "0 < iq_queue_size c"
  shows "plane_state (fst (iq_start False r (iq_init c))) \<noteq> READY
    \<and> (\<forall>s. iq_reachable c s \<longrightarrow> \<not> iq_enabled c \<longrightarrow> plane_state s = DISABLED \<and> worker s = No_Thread)"
proof -
  have "plane_state s = DISABLED \<and> worker s = No_Thread" if "iq_reachable c s" "\<not> iq_enabled c" for s
    using iq_reachable_inv [OF that(1) assms] that(2) by (auto simp: disabled_inv_def iq_inv_def)
  then show ?thesis by (auto simp: iq_start_def iq_init_def iq_initial_state_def Let_def)
qed

lemma iq_start_guarded_witness:
  "plane_state (fst (iq_start False (Inr ()) (iq_init sample_iq_config))) \<noteq> READY"
  using iq_start_guarded [of sample_iq_config "Inr ()"] sample_iq_queue by simp

end
