(* ===== verification/Spectrum_Detector.thy ===== *)
theory Spectrum_Detector
  imports Frame_Validation
begin

section \<open>The spectrum anomaly detector\<close>

text \<open>
  \<open>services/anomaly/spectrum.py\<close>: the rolling median/MAD detector with its history, sequence
  check, warm-up, six kinds of detection and the per-key cool-down. The element-wise operators of
  numpy are maps over lists; its reductions and \<open>allclose\<close> are the fields of an argument record.
  Arithmetic is exact. Explanations (texts) and time stamps of a detection are not modelled.
\<close>

subsection \<open>Configuration and state\<close>

record anomaly_config =
  history_frames :: nat
  warmup_frames :: nat
  peak_delta_db :: rat
  robust_sigma_multiplier :: rat
  noise_floor_shift_db :: rat
  occupancy_change_fraction :: rat
  narrowband_max_hz :: int
  persistence_frames :: nat
  bandwidth_ratio_change :: rat
  cooldown_frames :: int

text \<open>\<open>from_env\<close>: \<open>None\<close> stands for a text that \<open>int\<close> or \<open>float\<close> rejects.\<close>

definition env_number :: "'a::linorder option \<Rightarrow> 'a \<Rightarrow> 'a \<Rightarrow> 'a \<Rightarrow> 'a" where
  "env_number parsed dflt low high = (case parsed of None \<Rightarrow> dflt | Some x \<Rightarrow> clamp low high x)"

definition anomaly_from_env ::
  "(string \<Rightarrow> int option) \<Rightarrow> (string \<Rightarrow> rat option) \<Rightarrow> anomaly_config" where
  "anomaly_from_env get_int get_num =
     \<lparr>history_frames = nat (env_number (get_int ''ANOMALY_HISTORY_FRAMES'') 24 6 512),
      warmup_frames = nat (env_number (get_int ''ANOMALY_WARMUP_FRAMES'') 6 3 128),
      peak_delta_db = env_number (get_num ''ANOMALY_PEAK_DELTA_DB'') 8 1 60,
      robust_sigma_multiplier = env_number (get_num ''ANOMALY_MAD_MULTIPLIER'') 6 1 30,
      noise_floor_shift_db = env_number (get_num ''ANOMALY_NOISE_SHIFT_DB'') 5 1 40,
      occupancy_change_fraction = env_number (get_num ''ANOMALY_OCCUPANCY_CHANGE'') (12 / 100) (1 / 100) 1,
      narrowband_max_hz = env_number (get_int ''ANOMALY_NARROWBAND_MAX_HZ'') 200000 1000 100000000,
      persistence_frames = nat (env_number (get_int ''ANOMALY_PERSISTENCE_FRAMES'') 3 2 30),
      bandwidth_ratio_change = env_number (get_num ''ANOMALY_BANDWIDTH_RATIO_CHANGE'') (5 / 2) (11 / 10) 20,
      cooldown_frames = env_number (get_int ''ANOMALY_COOLDOWN_FRAMES'') 10 1 1000\<rparr>"

record spectrum_detection =
  entity_domain :: string
  class_name :: string
  severity :: string
  confidence :: rat
  start_hz :: "int option"
  stop_hz :: "int option"
  center_hz :: "int option"
  det_power_dbm :: "rat option"
  bandwidth_hz :: "int option"
  evidence :: "(string \<times> pyval) list"

datatype cooldown_key = Noise_Floor | Occupancy | New_Peak int | Persistent int | Bandwidth_Change
  | Drift | Burst

record detector =
  det_powers :: "rat list list"
  det_frequencies :: "rat list option"
  det_last_sequence :: "int option"
  last_dominant_hz :: "int option"
  last_bandwidth_hz :: "int option"
  dominant_history :: "int list"
  cooldowns :: "cooldown_key \<Rightarrow> int option"
  frames_processed :: nat

definition new_detector :: detector where
  "new_detector = \<lparr>det_powers = [], det_frequencies = None, det_last_sequence = None,
     last_dominant_hz = None, last_bandwidth_hz = None, dominant_history = [],
     cooldowns = (\<lambda>_. None), frames_processed = 0\<rparr>"

text \<open>The reductions of numpy that the code calls.\<close>

record numpy =
  np_median :: "rat list \<Rightarrow> rat"
  np_mean :: "rat list \<Rightarrow> rat"
  np_max :: "rat list \<Rightarrow> rat"
  np_argmax :: "rat list \<Rightarrow> nat"
  np_allclose :: "rat list \<Rightarrow> rat list \<Rightarrow> bool"

subsection \<open>Validation, groups and the cool-down\<close>

definition float_rat :: "pyfloat \<Rightarrow> rat" where
  "float_rat f = (case f of Fin r \<Rightarrow> r | _ \<Rightarrow> 0)"

definition diffs :: "rat list \<Rightarrow> rat list" where
  "diffs xs = map2 (-) (tl xs) (butlast xs)"

definition validate_spectrum :: "pyfloat list \<Rightarrow> pyfloat list \<Rightarrow> (rat list \<times> rat list) result" where
  "validate_spectrum frequencies powers =
     (if length frequencies \<noteq> length powers \<or> length powers < 2
      then Inl (ValueError ''invalid_spectrum_shape'')
      else if \<not> list_all is_fin frequencies \<or> \<not> list_all is_fin powers
      then Inl (ValueError ''non_finite_spectrum'')
      else let fs = map float_rat frequencies; ps = map float_rat powers in
        if list_ex (\<lambda>d. d \<le> 0) (diffs fs) \<or> hd fs < 0
        then Inl (ValueError ''non_monotonic_frequency_axis'')
        else Inr (fs, ps))"

fun groups_loop :: "nat \<Rightarrow> nat option \<Rightarrow> bool list \<Rightarrow> (nat \<times> nat) list" where
  "groups_loop i start [] = (case start of None \<Rightarrow> [] | Some s \<Rightarrow> [(s, i - 1)])"
| "groups_loop i start (active # bits) =
     (case start of
        None \<Rightarrow> groups_loop (i + 1) (if active then Some i else None) bits
      | Some s \<Rightarrow> if active then groups_loop (i + 1) (Some s) bits
                  else (s, i - 1) # groups_loop (i + 1) None bits)"

definition mask_groups :: "bool list \<Rightarrow> (nat \<times> nat) list" where
  "mask_groups bits = groups_loop 0 None bits"

definition tick_cooldowns :: "(cooldown_key \<Rightarrow> int option) \<Rightarrow> cooldown_key \<Rightarrow> int option" where
  "tick_cooldowns c k = (case c k of None \<Rightarrow> None | Some n \<Rightarrow> if n - 1 \<le> 0 then None else Some (n - 1))"

definition emit_once :: "anomaly_config \<Rightarrow> cooldown_key \<Rightarrow> detector \<Rightarrow> detector \<times> bool" where
  "emit_once cfg k d =
     (if (case cooldowns d k of None \<Rightarrow> 0 | Some n \<Rightarrow> n) > 0 then (d, False)
      else (d\<lparr>cooldowns := (cooldowns d)(k := Some (cooldown_frames cfg))\<rparr>, True))"

text \<open>\<open>if condition and self._emit_once(key): detections.append(...)\<close>\<close>

definition emit_if ::
  "anomaly_config \<Rightarrow> bool \<Rightarrow> cooldown_key \<Rightarrow> spectrum_detection \<Rightarrow> detector \<Rightarrow> detector \<times> spectrum_detection list" where
  "emit_if cfg condition k det d =
     (if condition then (let (d, fresh) = emit_once cfg k d in (d, if fresh then [det] else []))
      else (d, []))"

definition detection :: "string \<Rightarrow> string \<Rightarrow> string \<Rightarrow> rat \<Rightarrow> spectrum_detection" where
  "detection domain cls sev conf = \<lparr>entity_domain = domain, class_name = cls, severity = sev,
     confidence = conf, start_hz = None, stop_hz = None, center_hz = None, det_power_dbm = None,
     bandwidth_hz = None, evidence = []\<rparr>"

definition rat_val :: "rat \<Rightarrow> pyval" where
  "rat_val r = PFloat (Fin r)"

definition src_val :: "string option \<Rightarrow> pyval" where
  "src_val s = (case s of None \<Rightarrow> PNone | Some t \<Rightarrow> PStr t)"

subsection \<open>The stages of \<open>process\<close>\<close>

definition sequence_stage ::
  "int option \<Rightarrow> string option \<Rightarrow> detector \<Rightarrow> detector \<times> spectrum_detection list" where
  "sequence_stage sequence source_type d =
     (case sequence of
        None \<Rightarrow> (d, [])
      | Some s \<Rightarrow>
          (d\<lparr>det_last_sequence := Some s\<rparr>,
           case det_last_sequence d of
             None \<Rightarrow> []
           | Some l \<Rightarrow> if l + 1 < s
               then [(detection ''technical'' ''sequence_gap'' ''medium'' 1)
                      \<lparr>evidence := [(''previous_sequence'', PInt l), (''sequence'', PInt s),
                        (''gap'', PInt (s - l - 1)), (''source_type'', src_val source_type)]\<rparr>]
               else []))"

definition axis_stage :: "numpy \<Rightarrow> rat list \<Rightarrow> detector \<Rightarrow> detector" where
  "axis_stage np frequencies d =
     (if (case det_frequencies d of None \<Rightarrow> True
          | Some fs \<Rightarrow> length fs \<noteq> length frequencies \<or> \<not> np_allclose np fs frequencies)
      then d\<lparr>det_powers := [], dominant_history := [], last_dominant_hz := None,
             last_bandwidth_hz := None, det_frequencies := Some frequencies\<rparr>
      else d)"

text \<open>What the comparison stages read: the frame, the baseline and the derived numbers.\<close>

record frame_view =
  v_frequencies :: "rat list"
  v_powers :: "rat list"
  v_baseline :: "rat list"
  v_sigma :: "rat list"
  v_source :: string
  v_bin_hz :: rat
  v_floor :: rat
  v_baseline_floor :: rat
  v_groups :: "(nat \<times> nat) list"

definition column :: "nat \<Rightarrow> rat list list \<Rightarrow> rat list" where
  "column i rows = map (\<lambda>r. r ! i) rows"

definition rolling_baseline :: "numpy \<Rightarrow> nat \<Rightarrow> rat list list \<Rightarrow> rat list \<times> rat list" where
  "rolling_baseline np n history =
     (let baseline = map (\<lambda>i. np_median np (column i history)) [0..<n];
          mad = map (\<lambda>i. np_median np (map (\<lambda>x. \<bar>x - baseline ! i\<bar>) (column i history))) [0..<n]
      in (baseline, map (\<lambda>m. max (14826 / 10000 * m) (1 / 2)) mad))"

definition segment :: "nat \<Rightarrow> nat \<Rightarrow> 'a list \<Rightarrow> 'a list" where
  "segment start stop xs = take (stop + 1 - start) (drop start xs)"

definition view_of ::
  "numpy \<Rightarrow> anomaly_config \<Rightarrow> rat list \<Rightarrow> rat list \<Rightarrow> rat list \<times> rat list \<Rightarrow> string \<Rightarrow> frame_view" where
  "view_of np cfg frequencies powers bs source =
     (let (baseline, sigma) = bs;
          threshold = map2 (\<lambda>b s. b + max (peak_delta_db cfg) (robust_sigma_multiplier cfg * s)) baseline sigma;
          new_mask = map2 (\<lambda>p t. t < p) powers threshold;
          delta = map2 (-) powers baseline
      in \<lparr>v_frequencies = frequencies, v_powers = powers, v_baseline = baseline, v_sigma = sigma,
          v_source = source, v_bin_hz = np_median np (diffs frequencies),
          v_floor = np_median np powers, v_baseline_floor = np_median np baseline,
          v_groups = sort_key (\<lambda>(a, b). - np_max np (segment a b delta)) (mask_groups new_mask)\<rparr>)"

definition noise_stage :: "anomaly_config \<Rightarrow> frame_view \<Rightarrow> detector \<Rightarrow> detector \<times> spectrum_detection list" where
  "noise_stage cfg v =
     (let delta = v_floor v - v_baseline_floor v in
      emit_if cfg (noise_floor_shift_db cfg \<le> \<bar>delta\<bar>) Noise_Floor
        ((detection ''spectrum'' ''noise_floor_shift'' ''medium'' (min (99 / 100) (65 / 100 + \<bar>delta\<bar> / 40)))
           \<lparr>start_hz := Some (py_trunc (hd (v_frequencies v))),
            stop_hz := Some (py_trunc (last (v_frequencies v))),
            evidence := [(''current_median_dbm'', rat_val (v_floor v)),
              (''baseline_median_dbm'', rat_val (v_baseline_floor v)), (''delta_db'', rat_val delta),
              (''baseline_source'', PStr (v_source v))]\<rparr>))"

definition occupancy_above :: "numpy \<Rightarrow> rat \<Rightarrow> rat list \<Rightarrow> rat" where
  "occupancy_above np t xs = np_mean np (map (\<lambda>x. if t < x then 1 else 0) xs)"

definition occupancy_stage ::
  "numpy \<Rightarrow> anomaly_config \<Rightarrow> frame_view \<Rightarrow> detector \<Rightarrow> detector \<times> spectrum_detection list" where
  "occupancy_stage np cfg v =
     (let current = occupancy_above np (v_floor v + peak_delta_db cfg) (v_powers v);
          base = occupancy_above np (v_baseline_floor v + peak_delta_db cfg) (v_baseline v);
          delta = current - base in
      emit_if cfg (occupancy_change_fraction cfg \<le> \<bar>delta\<bar>) Occupancy
        ((detection ''spectrum'' ''occupancy_change'' ''medium'' (min (98 / 100) (60 / 100 + \<bar>delta\<bar>)))
           \<lparr>start_hz := Some (py_trunc (hd (v_frequencies v))),
            stop_hz := Some (py_trunc (last (v_frequencies v))),
            evidence := [(''current_occupancy'', rat_val current), (''baseline_occupancy'', rat_val base),
              (''delta'', rat_val delta), (''baseline_source'', PStr (v_source v))]\<rparr>))"

definition peak_stage ::
  "numpy \<Rightarrow> anomaly_config \<Rightarrow> frame_view \<Rightarrow> string option \<Rightarrow> nat \<times> nat \<Rightarrow> detector \<Rightarrow>
    detector \<times> spectrum_detection list" where
  "peak_stage np cfg v source_type g =
     (let (start, stop) = g;
          delta = map2 (-) (segment start stop (v_powers v)) (segment start stop (v_baseline v));
          relative = np_argmax np delta;
          peak = start + relative;
          bandwidth = max (py_round (of_nat (stop - start + 1) * v_bin_hz v)) (py_round (v_bin_hz v));
          center = py_round (v_frequencies v ! peak);
          delta_db = delta ! relative in
      emit_if cfg True (New_Peak (py_round (of_int center / max (v_bin_hz v) 1)))
        ((detection ''spectrum'' ''new_peak_above_reference'' (if 20 \<le> delta_db then ''high'' else ''medium'')
            (min (995 / 1000) (65 / 100 + delta_db / 60)))
           \<lparr>start_hz := Some (py_round (v_frequencies v ! start)),
            stop_hz := Some (py_round (v_frequencies v ! stop)), center_hz := Some center,
            det_power_dbm := Some (v_powers v ! peak), bandwidth_hz := Some bandwidth,
            evidence := [(''delta_db'', rat_val delta_db), (''baseline_dbm'', rat_val (v_baseline v ! peak)),
              (''robust_sigma_db'', rat_val (v_sigma v ! peak)), (''baseline_source'', PStr (v_source v)),
              (''source_type'', src_val source_type)]\<rparr>))"

fun run_stages ::
  "(detector \<Rightarrow> detector \<times> spectrum_detection list) list \<Rightarrow> detector \<Rightarrow> detector \<times> spectrum_detection list" where
  "run_stages [] d = (d, [])"
| "run_stages (f # fs) d = (let (d1, a) = f d; (d2, b) = run_stages fs d1 in (d2, a @ b))"

text \<open>The dominant signal of the frame.\<close>

record dominant =
  dom_index :: nat
  dom_hz :: int
  dom_power :: rat
  dom_group :: "nat \<times> nat"
  dom_bandwidth :: int
  dom_present :: bool

definition dominant_of :: "numpy \<Rightarrow> anomaly_config \<Rightarrow> frame_view \<Rightarrow> dominant" where
  "dominant_of np cfg v =
     (let i = np_argmax np (v_powers v); pw = v_powers v ! i;
          groups = mask_groups (map (\<lambda>p. v_floor v + peak_delta_db cfg < p) (v_powers v));
          g = (case find (\<lambda>(a, b). a \<le> i \<and> i \<le> b) groups of None \<Rightarrow> (i, i) | Some g \<Rightarrow> g)
      in \<lparr>dom_index = i, dom_hz = py_round (v_frequencies v ! i), dom_power = pw, dom_group = g,
          dom_bandwidth = max (py_round (of_nat (snd g - fst g + 1) * v_bin_hz v)) (py_round (v_bin_hz v)),
          dom_present = (peak_delta_db cfg \<le> pw - v_floor v)\<rparr>)"

definition dominant_bucket :: "frame_view \<Rightarrow> dominant \<Rightarrow> int" where
  "dominant_bucket v m = py_round (of_int (dom_hz m) / max (v_bin_hz v) 1)"

definition note_dominant :: "anomaly_config \<Rightarrow> int \<Rightarrow> detector \<Rightarrow> detector \<times> spectrum_detection list" where
  "note_dominant cfg bucket d =
     (d\<lparr>dominant_history := deque_append (persistence_frames cfg) (dominant_history d) bucket\<rparr>, [])"

definition persistent_stage ::
  "anomaly_config \<Rightarrow> frame_view \<Rightarrow> dominant \<Rightarrow> detector \<Rightarrow> detector \<times> spectrum_detection list" where
  "persistent_stage cfg v m d =
     emit_if cfg (dom_bandwidth m \<le> narrowband_max_hz cfg
         \<and> length (dominant_history d) = persistence_frames cfg
         \<and> length (remdups (dominant_history d)) = 1)
       (Persistent (dominant_bucket v m))
       ((detection ''spectrum'' ''persistent_narrowband'' ''medium'' (86 / 100))
          \<lparr>center_hz := Some (dom_hz m), det_power_dbm := Some (dom_power m),
           bandwidth_hz := Some (dom_bandwidth m),
           start_hz := Some (py_round (v_frequencies v ! fst (dom_group m))),
           stop_hz := Some (py_round (v_frequencies v ! snd (dom_group m))),
           evidence := [(''persistence_frames'', PInt (int (persistence_frames cfg))),
             (''noise_floor_dbm'', rat_val (v_floor v))]\<rparr>) d"

definition bandwidth_stage ::
  "anomaly_config \<Rightarrow> dominant \<Rightarrow> detector \<Rightarrow> detector \<times> spectrum_detection list" where
  "bandwidth_stage cfg m d =
     (case last_bandwidth_hz d of
        None \<Rightarrow> (d, [])
      | Some l \<Rightarrow>
          if l \<noteq> 0 \<and> 0 < min l (dom_bandwidth m)
          then (let ratio = of_int (max l (dom_bandwidth m)) / of_int (min l (dom_bandwidth m)) in
            emit_if cfg (bandwidth_ratio_change cfg \<le> ratio) Bandwidth_Change
              ((detection ''spectrum'' ''unexpected_bandwidth_change'' ''medium'' (min (98 / 100) (62 / 100 + ratio / 20)))
                 \<lparr>center_hz := Some (dom_hz m), det_power_dbm := Some (dom_power m),
                  bandwidth_hz := Some (dom_bandwidth m),
                  evidence := [(''previous_bandwidth_hz'', PInt l),
                    (''current_bandwidth_hz'', PInt (dom_bandwidth m)), (''ratio'', rat_val ratio)]\<rparr>) d)
          else (d, []))"

definition drift_stage ::
  "anomaly_config \<Rightarrow> frame_view \<Rightarrow> dominant \<Rightarrow> detector \<Rightarrow> detector \<times> spectrum_detection list" where
  "drift_stage cfg v m d =
     (case last_dominant_hz d of
        None \<Rightarrow> (d, [])
      | Some l \<Rightarrow>
          let drift = \<bar>dom_hz m - l\<bar> in
          emit_if cfg (max (py_round (3 * v_bin_hz v)) (narrowband_max_hz cfg) \<le> drift) Drift
            ((detection ''spectrum'' ''frequency_drift'' ''low'' (74 / 100))
               \<lparr>center_hz := Some (dom_hz m), det_power_dbm := Some (dom_power m),
                bandwidth_hz := Some (dom_bandwidth m),
                evidence := [(''previous_frequency_hz'', PInt l), (''current_frequency_hz'', PInt (dom_hz m)),
                  (''drift_hz'', PInt drift)]\<rparr>) d)"

definition clear_history :: "detector \<Rightarrow> detector \<times> spectrum_detection list" where
  "clear_history d = (d\<lparr>dominant_history := []\<rparr>, [])"

definition burst_stage ::
  "numpy \<Rightarrow> anomaly_config \<Rightarrow> frame_view \<Rightarrow> detector \<Rightarrow> detector \<times> spectrum_detection list" where
  "burst_stage np cfg v d =
     (if v_groups v \<noteq> [] \<and> det_powers d \<noteq> []
      then (let delta = map2 (-) (v_powers v) (last (det_powers d));
                i = np_argmax np delta in
        emit_if cfg (peak_delta_db cfg * (3 / 2) \<le> delta ! i) Burst
          ((detection ''spectrum'' ''short_burst'' ''medium'' (min (95 / 100) (65 / 100 + delta ! i / 60)))
             \<lparr>center_hz := Some (py_round (v_frequencies v ! i)), det_power_dbm := Some (v_powers v ! i),
              bandwidth_hz := Some (py_round (v_bin_hz v)),
              evidence := [(''frame_to_frame_delta_db'', rat_val (delta ! i))]\<rparr>) d)
      else (d, []))"

definition remember_frame ::
  "anomaly_config \<Rightarrow> frame_view \<Rightarrow> dominant \<Rightarrow> detector \<Rightarrow> detector \<times> spectrum_detection list" where
  "remember_frame cfg v m d =
     (d\<lparr>last_dominant_hz := (if dom_present m then Some (dom_hz m) else None),
        last_bandwidth_hz := (if dom_present m then Some (dom_bandwidth m) else None),
        det_powers := deque_append (history_frames cfg) (det_powers d) (v_powers v)\<rparr>, [])"

definition dominant_stages ::
  "anomaly_config \<Rightarrow> frame_view \<Rightarrow> dominant \<Rightarrow> (detector \<Rightarrow> detector \<times> spectrum_detection list) list" where
  "dominant_stages cfg v m =
     (if dom_present m
      then [note_dominant cfg (dominant_bucket v m), persistent_stage cfg v m, bandwidth_stage cfg m,
            drift_stage cfg v m]
      else [clear_history])"

definition compare_stages ::
  "numpy \<Rightarrow> anomaly_config \<Rightarrow> frame_view \<Rightarrow> string option \<Rightarrow>
    (detector \<Rightarrow> detector \<times> spectrum_detection list) list" where
  "compare_stages np cfg v source_type =
     (let m = dominant_of np cfg v in
      [noise_stage cfg v, occupancy_stage np cfg v]
      @ map (peak_stage np cfg v source_type) (take 5 (v_groups v))
      @ dominant_stages cfg v m
      @ [burst_stage np cfg v, remember_frame cfg v m])"

text \<open>The baseline that the frame is compared with: the reference, the history, or none yet.\<close>

definition choose_baseline ::
  "numpy \<Rightarrow> anomaly_config \<Rightarrow> rat list \<Rightarrow> pyfloat list option \<Rightarrow> detector \<Rightarrow>
    ((rat list \<times> rat list) \<times> string) option result" where
  "choose_baseline np cfg powers reference d =
     (case reference of
        Some r \<Rightarrow>
          if length r \<noteq> length powers \<or> \<not> list_all is_fin r
          then Inl (ValueError ''invalid_reference_shape'')
          else Inr (Some ((map float_rat r, replicate (length powers) (1 / 2)), ''versioned_reference''))
      | None \<Rightarrow>
          if warmup_frames cfg \<le> length (det_powers d)
          then Inr (Some (rolling_baseline np (length powers) (det_powers d), ''rolling_median_mad''))
          else Inr None)"

definition process_frame ::
  "numpy \<Rightarrow> anomaly_config \<Rightarrow> pyfloat list \<Rightarrow> pyfloat list \<Rightarrow> int option \<Rightarrow> string option \<Rightarrow>
    pyfloat list option \<Rightarrow> detector \<Rightarrow> detector \<times> spectrum_detection list result" where
  "process_frame np cfg frequencies_hz powers_dbm sequence source_type reference d =
     (case validate_spectrum frequencies_hz powers_dbm of
        Inl e \<Rightarrow> (d, Inl e)
      | Inr (frequencies, powers) \<Rightarrow>
          let d = d\<lparr>frames_processed := frames_processed d + 1, cooldowns := tick_cooldowns (cooldowns d)\<rparr>;
              (d, gaps) = sequence_stage sequence source_type d;
              d = axis_stage np frequencies d
          in (case choose_baseline np cfg powers reference d of
                Inl e \<Rightarrow> (d, Inl e)
              | Inr None \<Rightarrow>
                  (d\<lparr>det_powers := deque_append (history_frames cfg) (det_powers d) powers\<rparr>, Inr gaps)
              | Inr (Some (bs, source)) \<Rightarrow>
                  let (d, found) = run_stages
                        (compare_stages np cfg (view_of np cfg frequencies powers bs source) source_type) d
                  in (d, Inr (gaps @ found))))"

definition detector_status :: "anomaly_config \<Rightarrow> detector \<Rightarrow> string" where
  "detector_status cfg d =
     (if warmup_frames cfg \<le> length (det_powers d) then ''ready'' else ''warming_up'')"


subsection \<open>Groups are the maximal runs\<close>

definition maximal_run :: "bool list \<Rightarrow> nat \<Rightarrow> nat \<Rightarrow> bool" where
  "maximal_run bits a b = (a \<le> b \<and> b < length bits \<and> (\<forall>k. a \<le> k \<and> k \<le> b \<longrightarrow> bits ! k)
     \<and> (a = 0 \<or> \<not> bits ! (a - 1)) \<and> (b + 1 = length bits \<or> \<not> bits ! (b + 1)))"

definition open_run :: "bool list \<Rightarrow> nat \<Rightarrow> nat option \<Rightarrow> bool" where
  "open_run bits i start = (case start of
       None \<Rightarrow> i = 0 \<or> \<not> bits ! (i - 1)
     | Some s \<Rightarrow> s < i \<and> (\<forall>k. s \<le> k \<and> k < i \<longrightarrow> bits ! k) \<and> (s = 0 \<or> \<not> bits ! (s - 1)))"

lemma maximal_run_unique:
  assumes "maximal_run bits a b" "maximal_run bits a' b'" "a \<le> k" "k \<le> b" "a' \<le> k" "k \<le> b'"
  shows "a = a' \<and> b = b'"
proof -
  have l: "\<not> x < y" if r: "maximal_run bits x u" "maximal_run bits y v" "y \<le> k" "k \<le> u" for x y u v
  proof
    assume "x < y"
    then have "x \<le> y - 1 \<and> y - 1 \<le> u" using r by auto
    then have "bits ! (y - 1)" using r(1) by (simp add: maximal_run_def)
    then show False using r(2) \<open>x < y\<close> by (simp add: maximal_run_def)
  qed
  have h: "\<not> u < v" if r: "maximal_run bits x u" "maximal_run bits y v" "x \<le> k" "y \<le> k" "k \<le> u" for x y u v
  proof
    assume "u < v"
    then have "bits ! (u + 1)" using r by (auto simp: maximal_run_def)
    moreover have "u + 1 < length bits" using r(2) \<open>u < v\<close> by (auto simp: maximal_run_def)
    ultimately show False using r(1) by (auto simp: maximal_run_def)
  qed
  show ?thesis using l [OF assms(1,2)] l [OF assms(2,1)] h [OF assms(1,2)] h [OF assms(2,1)] assms(3-6)
    by (auto simp: not_less)
qed

lemma groups_loop_runs:
  assumes "i \<le> length bits" "open_run bits i start"
  shows "(a, b) \<in> set (groups_loop i start (drop i bits)) \<longleftrightarrow> maximal_run bits a b \<and> i \<le> b + 1"
  using assms
proof (induction "length bits - i" arbitrary: i start)
  case 0
  then have il: "i = length bits" by simp
  show ?case
  proof (cases start)
    case None
    have "\<not> (maximal_run bits a b \<and> i \<le> b + 1)"
    proof
      assume r: "maximal_run bits a b \<and> i \<le> b + 1"
      then have "b < i" "bits ! b" using il by (simp_all add: maximal_run_def)
      moreover have "b = i - 1" using r \<open>b < i\<close> by linarith
      ultimately show False using 0(3) None by (simp add: open_run_def)
    qed
    then show ?thesis using None il by simp
  next
    case (Some s)
    then have o: "s < i" "\<forall>k. s \<le> k \<and> k < i \<longrightarrow> bits ! k" "s = 0 \<or> \<not> bits ! (s - 1)"
      using 0(3) unfolding open_run_def by simp_all
    have "bits ! k" if "s \<le> k" "k \<le> i - 1" for k
    proof -
      have "k < i" using that o(1) by linarith
      then show ?thesis using that o(2) by blast
    qed
    then have s: "maximal_run bits s (i - 1)" using o(1,3) il by (auto simp: maximal_run_def)
    have 1: "a = s \<and> b = i - 1" if "maximal_run bits a b \<and> i \<le> b + 1"
    proof (rule maximal_run_unique [where k = "i - 1"])
      have "a \<le> b" "b < length bits" using that by (simp_all add: maximal_run_def)
      then show "a \<le> i - 1" "i - 1 \<le> b" "s \<le> i - 1" using that o(1) il by linarith+
    qed (use s that in simp_all)
    have 2: "maximal_run bits a b \<and> i \<le> b + 1" if "a = s \<and> b = i - 1" using that s o(1) by simp
    have "(a, b) \<in> set (groups_loop i start (drop i bits)) \<longleftrightarrow> a = s \<and> b = i - 1"
      using Some il by simp
    with 1 2 show ?thesis by blast
  qed
next
  case (Suc n)
  then have i: "i < length bits" by simp
  then have d: "drop i bits = bits ! i # drop (i + 1) bits" by (simp add: Cons_nth_drop_Suc)
  note IH = Suc.hyps(1) [of "i + 1"]
  show ?case
  proof (cases "bits ! i")
    case True
    have o: "open_run bits (i + 1) (Some (case start of None \<Rightarrow> i | Some s \<Rightarrow> s))"
      using Suc.prems(2) True by (auto simp: open_run_def less_Suc_eq split: option.splits)
    have "\<not> (maximal_run bits a b \<and> i = b + 1)" using True i by (auto simp: maximal_run_def)
    then have e: "maximal_run bits a b \<and> i \<le> b + 1 \<longleftrightarrow> maximal_run bits a b \<and> i + 1 \<le> b + 1" by auto
    show ?thesis unfolding e using IH [OF _ _ o] Suc.hyps(2) i True d by (cases start) auto
  next
    case False
    have o: "open_run bits (i + 1) None" using False by (simp add: open_run_def)
    have ih: "(a, b) \<in> set (groups_loop (i + 1) None (drop (i + 1) bits)) \<longleftrightarrow> maximal_run bits a b \<and> i + 1 \<le> b + 1"
      using IH [OF _ _ o] Suc.hyps(2) i by simp
    show ?thesis
    proof (cases start)
      case None
      have "bits ! b" if "maximal_run bits a b" using that by (simp add: maximal_run_def)
      then have "\<not> (maximal_run bits a b \<and> i = b + 1)"
        using None Suc.prems(2) by (auto simp: open_run_def)
      then show ?thesis using ih d False None by auto
    next
      case (Some s)
      have o: "s < i" "\<forall>k. s \<le> k \<and> k < i \<longrightarrow> bits ! k" "s = 0 \<or> \<not> bits ! (s - 1)"
        using Some Suc.prems(2) unfolding open_run_def by simp_all
      have "bits ! k" if "s \<le> k" "k \<le> i - 1" for k
      proof -
        have "k < i" using that o(1) by linarith
        then show ?thesis using that o(2) by blast
      qed
      then have s: "maximal_run bits s (i - 1)" using o(1,3) False i by (auto simp: maximal_run_def)
      have "a = s" if "maximal_run bits a b" "i = b + 1"
      proof -
        have "a \<le> i - 1" "i - 1 \<le> b" "s \<le> i - 1" using that o(1) by (auto simp: maximal_run_def)
        then show ?thesis using maximal_run_unique [OF that(1) s, where k = "i - 1"] by simp
      qed
      moreover have "0 < i" using o(1) by simp
      ultimately have "maximal_run bits a b \<and> i \<le> b + 1 \<longleftrightarrow> (a, b) = (s, i - 1) \<or> maximal_run bits a b \<and> i + 1 \<le> b + 1"
        using s by auto
      then show ?thesis using ih d False Some by simp
    qed
  qed
qed

lemma mask_groups_runs: "(a, b) \<in> set (mask_groups bits) \<longleftrightarrow> maximal_run bits a b"
  using groups_loop_runs [of 0 bits None a b] by (simp add: mask_groups_def open_run_def)

subsection \<open>The cool-down\<close>

definition free_key :: "detector \<Rightarrow> cooldown_key \<Rightarrow> bool" where
  "free_key d k = (case cooldowns d k of None \<Rightarrow> True | Some n \<Rightarrow> n \<le> 0)"

text \<open>The classes that have a single cool-down key.\<close>

definition class_key :: "string \<Rightarrow> cooldown_key option" where
  "class_key c = map_of [(''noise_floor_shift'', Noise_Floor), (''occupancy_change'', Occupancy),
     (''unexpected_bandwidth_change'', Bandwidth_Change), (''frequency_drift'', Drift),
     (''short_burst'', Burst)] c"

definition step_ok :: "anomaly_config \<Rightarrow> detector \<Rightarrow> detector \<times> spectrum_detection list \<Rightarrow> bool" where
  "step_ok cfg d r = ((\<forall>k. cooldowns (fst r) k = cooldowns d k
        \<or> (free_key d k \<and> cooldowns (fst r) k = Some (cooldown_frames cfg)))
     \<and> (\<forall>det k. det \<in> set (snd r) \<longrightarrow> class_key (class_name det) = Some k \<longrightarrow>
          free_key d k \<and> cooldowns (fst r) k = Some (cooldown_frames cfg)))"

definition stage_ok :: "anomaly_config \<Rightarrow> (detector \<Rightarrow> detector \<times> spectrum_detection list) \<Rightarrow> bool" where
  "stage_ok cfg f = (\<forall>d. step_ok cfg d (f d))"

lemma free_key_unchanged: "cooldowns d' k = cooldowns d k \<Longrightarrow> free_key d' k = free_key d k"
  by (simp add: free_key_def)

lemma step_ok_emit_if:
  assumes "class_key (class_name det) = None \<or> class_key (class_name det) = Some k"
  shows "step_ok cfg d (emit_if cfg c k det d)"
  using assms unfolding step_ok_def emit_if_def emit_once_def free_key_def
  by (auto simp: Let_def not_less split: option.splits)

lemma step_ok_nothing: "cooldowns d' = cooldowns d \<Longrightarrow> step_ok cfg d (d', [])"
  by (simp add: step_ok_def)

lemma stage_ok_run:
  assumes "list_all (stage_ok cfg) fs" "0 < cooldown_frames cfg"
  shows "stage_ok cfg (run_stages fs)"
  using assms(1)
proof (induction fs)
  case (Cons f fs)
  then have f: "stage_ok cfg f" and r: "stage_ok cfg (run_stages fs)" by auto
  have taken: "\<not> free_key e k" if "cooldowns e k = Some (cooldown_frames cfg)" for e k
    using that assms(2) by (simp add: free_key_def)
  have keep: "cooldowns (fst (run_stages fs e)) k = Some (cooldown_frames cfg)"
    if "cooldowns e k = Some (cooldown_frames cfg)" for e k
    using r taken [OF that] that unfolding stage_ok_def step_ok_def by metis
  have "step_ok cfg d (run_stages (f # fs) d)" for d
  proof -
    have 1: "step_ok cfg d (f d)" and 2: "step_ok cfg (fst (f d)) (run_stages fs (fst (f d)))"
      using f r by (simp_all add: stage_ok_def)
    let ?e = "fst (f d)" and ?r = "run_stages fs (fst (f d))"
    have eq: "run_stages (f # fs) d = (fst ?r, snd (f d) @ snd ?r)"
      by (simp add: Let_def split_def)
    have A: "cooldowns (fst ?r) k = cooldowns d k
        \<or> (free_key d k \<and> cooldowns (fst ?r) k = Some (cooldown_frames cfg))" for k
      using 1 2 keep free_key_unchanged unfolding step_ok_def by metis
    have B: "free_key d k \<and> cooldowns (fst ?r) k = Some (cooldown_frames cfg)"
      if "det \<in> set (snd (f d) @ snd ?r)" "class_key (class_name det) = Some k" for det k
    proof (cases "det \<in> set (snd (f d))")
      case True
      then show ?thesis using 1 keep that(2) unfolding step_ok_def by metis
    next
      case False
      then have "det \<in> set (snd ?r)" using that(1) by simp
      then show ?thesis using 1 2 taken free_key_unchanged that(2) unfolding step_ok_def by metis
    qed
    show ?thesis unfolding eq step_ok_def fst_conv snd_conv using A B by blast
  qed
  then show ?case by (simp add: stage_ok_def)
qed (simp add: stage_ok_def step_ok_def)

lemma class_key_simps [simp]:
  "class_key ''noise_floor_shift'' = Some Noise_Floor" "class_key ''occupancy_change'' = Some Occupancy"
  "class_key ''unexpected_bandwidth_change'' = Some Bandwidth_Change"
  "class_key ''frequency_drift'' = Some Drift" "class_key ''short_burst'' = Some Burst"
  "class_key ''new_peak_above_reference'' = None" "class_key ''persistent_narrowband'' = None"
  "class_key ''sequence_gap'' = None"
  by (simp_all add: class_key_def)

lemma detection_class [simp]: "class_name (detection a c s f) = c"
  by (simp add: detection_def)

lemma stages_ok:
  "stage_ok cfg (noise_stage cfg v)" "stage_ok cfg (occupancy_stage np cfg v)"
  "stage_ok cfg (peak_stage np cfg v st g)" "stage_ok cfg (persistent_stage cfg v m)"
  "stage_ok cfg (bandwidth_stage cfg m)" "stage_ok cfg (drift_stage cfg v m)"
  "stage_ok cfg (burst_stage np cfg v)" "stage_ok cfg (note_dominant cfg b)"
  "stage_ok cfg clear_history" "stage_ok cfg (remember_frame cfg v m)"
  unfolding stage_ok_def noise_stage_def occupancy_stage_def peak_stage_def persistent_stage_def
    bandwidth_stage_def drift_stage_def burst_stage_def note_dominant_def clear_history_def
    remember_frame_def Let_def split_def
  by (auto intro!: step_ok_emit_if step_ok_nothing split: option.splits)

lemma compare_stages_ok: "list_all (stage_ok cfg) (compare_stages np cfg v st)"
  by (auto simp: compare_stages_def dominant_stages_def Let_def list_all_iff stages_ok)

subsection \<open>Runs of the detector\<close>

record frame_input =
  in_frequencies :: "pyfloat list"
  in_powers :: "pyfloat list"
  in_sequence :: "int option"
  in_source :: "string option"
  in_reference :: "pyfloat list option"

definition process_input ::
  "numpy \<Rightarrow> anomaly_config \<Rightarrow> frame_input \<Rightarrow> detector \<Rightarrow> detector \<times> spectrum_detection list result" where
  "process_input np cfg x d = process_frame np cfg (in_frequencies x) (in_powers x) (in_sequence x)
     (in_source x) (in_reference x) d"

fun run_detector ::
  "numpy \<Rightarrow> anomaly_config \<Rightarrow> detector \<Rightarrow> frame_input list \<Rightarrow> spectrum_detection list result list" where
  "run_detector np cfg d [] = []"
| "run_detector np cfg d (x # xs) =
     (let (d', r) = process_input np cfg x d in r # run_detector np cfg d' xs)"

definition detects :: "cooldown_key \<Rightarrow> spectrum_detection list result \<Rightarrow> bool" where
  "detects k r = (case r of Inl _ \<Rightarrow> False
     | Inr dets \<Rightarrow> list_ex (\<lambda>det. class_key (class_name det) = Some k) dets)"

lemma length_run_detector [simp]: "length (run_detector np cfg d xs) = length xs"
  by (induction xs arbitrary: d) (simp_all add: Let_def split_def)

lemma sequence_stage_sel:
  "cooldowns (fst (sequence_stage s t d)) = cooldowns d" "det_powers (fst (sequence_stage s t d)) = det_powers d"
  "det \<in> set (snd (sequence_stage s t d)) \<Longrightarrow> class_key (class_name det) = None"
  by (auto simp: sequence_stage_def split: option.splits if_splits)

lemma axis_stage_sel: "cooldowns (axis_stage np fs d) = cooldowns d"
  by (simp add: axis_stage_def)

text \<open>One frame: rejected without effect, or the cool-downs tick and the stages run.\<close>

lemma process_input_cooldown:
  assumes pos: "0 < cooldown_frames cfg" and p: "process_input np cfg x d = (d', r)"
  obtains (rejected) "d' = d" "\<not> detects k r"
  | (quiet) "cooldowns d' k = tick_cooldowns (cooldowns d) k" "\<not> detects k r"
  | (emitted) "tick_cooldowns (cooldowns d) k = None \<or> (\<exists>n\<le>0. tick_cooldowns (cooldowns d) k = Some n)"
      "cooldowns d' k = Some (cooldown_frames cfg)"
proof (cases "validate_spectrum (in_frequencies x) (in_powers x)")
  case (Inl e)
  then have "d' = d" "r = Inl e" using p by (auto simp: process_input_def process_frame_def)
  then have "d' = d" "\<not> detects k r" by (simp_all add: detects_def)
  then show thesis by (rule rejected)
next
  case (Inr fp)
  obtain fs ps where fp: "fp = (fs, ps)" by fastforce
  define d1 where "d1 = d\<lparr>frames_processed := frames_processed d + 1, cooldowns := tick_cooldowns (cooldowns d)\<rparr>"
  define d2 where "d2 = axis_stage np fs (fst (sequence_stage (in_sequence x) (in_source x) d1))"
  define gaps where "gaps = snd (sequence_stage (in_sequence x) (in_source x) d1)"
  have c: "cooldowns d2 = tick_cooldowns (cooldowns d)"
    by (simp add: d2_def axis_stage_sel sequence_stage_sel d1_def)
  have g: "\<forall>det\<in>set gaps. class_key (class_name det) = None"
    using sequence_stage_sel(3) by (auto simp: gaps_def)
  have eq: "process_input np cfg x d = (case choose_baseline np cfg ps (in_reference x) d2 of
      Inl e \<Rightarrow> (d2, Inl e)
    | Inr None \<Rightarrow> (d2\<lparr>det_powers := deque_append (history_frames cfg) (det_powers d2) ps\<rparr>, Inr gaps)
    | Inr (Some (bs, source)) \<Rightarrow>
        let (d, found) = run_stages (compare_stages np cfg (view_of np cfg fs ps bs source) (in_source x)) d2
        in (d, Inr (gaps @ found)))"
    using Inr fp unfolding d2_def gaps_def d1_def
    by (simp add: process_input_def process_frame_def Let_def split_def split: sum.split option.split)
  show thesis
  proof (cases "choose_baseline np cfg ps (in_reference x) d2")
    case (Inl e)
    with eq p c have "cooldowns d' k = tick_cooldowns (cooldowns d) k" "\<not> detects k r"
      by (simp_all add: detects_def)
    then show thesis by (rule quiet)
  next
    case (Inr b)
    show thesis
    proof (cases b)
      case None
      with eq p c Inr g have "cooldowns d' k = tick_cooldowns (cooldowns d) k" "\<not> detects k r"
        by (auto simp: detects_def list_ex_iff)
      then show thesis by (rule quiet)
    next
      case (Some bsrc)
      obtain bs source where bsrc: "bsrc = (bs, source)" by fastforce
      define st where "st = run_stages (compare_stages np cfg (view_of np cfg fs ps bs source) (in_source x))"
      have ok: "step_ok cfg d2 (st d2)"
        using stage_ok_run [OF compare_stages_ok pos] by (simp add: st_def stage_ok_def)
      have d': "d' = fst (st d2)" "r = Inr (gaps @ snd (st d2))"
        using eq p Inr Some bsrc by (simp_all add: st_def split_def Let_def)
      show thesis
      proof (cases "detects k r")
        case True
        then obtain det where "det \<in> set (snd (st d2))" "class_key (class_name det) = Some k"
          using d' g by (auto simp: detects_def list_ex_iff)
        with ok have "free_key d2 k \<and> cooldowns d' k = Some (cooldown_frames cfg)"
          unfolding step_ok_def d' by blast
        then show thesis using c emitted by (auto simp: free_key_def split: option.splits)
      next
        case False
        from ok have "cooldowns d' k = cooldowns d2 k
            \<or> (free_key d2 k \<and> cooldowns d' k = Some (cooldown_frames cfg))"
          unfolding step_ok_def d' by blast
        then show thesis using c False emitted quiet by (auto simp: free_key_def split: option.splits)
      qed
    qed
  qed
qed

lemma cooldown_blocks:
  assumes "0 < cooldown_frames cfg" "cooldowns d k = Some n" "j < length xs"
    and "detects k (run_detector np cfg d xs ! j)"
  shows "n \<le> int j + 1"
  using assms(2-4)
proof (induction xs arbitrary: d j n)
  case (Cons x xs)
  obtain d' r where p: "process_input np cfg x d = (d', r)" by fastforce
  have run: "run_detector np cfg d (x # xs) = r # run_detector np cfg d' xs" using p by simp
  have tick: "tick_cooldowns (cooldowns d) k = (if n - 1 \<le> 0 then None else Some (n - 1))"
    using Cons.prems(1) by (simp add: tick_cooldowns_def)
  show ?case
    using assms(1) p
  proof (cases rule: process_input_cooldown [where k = k])
    case rejected
    then obtain i where i: "j = Suc i" using Cons.prems(3) run by (cases j) auto
    then show ?thesis using Cons.IH [of d n i] Cons.prems rejected run by auto
  next
    case quiet
    then obtain i where i: "j = Suc i" using Cons.prems(3) run by (cases j) auto
    show ?thesis
    proof (cases "n - 1 \<le> 0")
      case False
      then have "cooldowns d' k = Some (n - 1)" using quiet tick by simp
      then show ?thesis using Cons.IH [of d' "n - 1" i] Cons.prems run i by auto
    qed simp
  next
    case emitted
    then show ?thesis using tick by (auto split: if_splits)
  qed
qed simp

lemma detects_sets_cooldown:
  assumes "0 < cooldown_frames cfg" "process_input np cfg x d = (d', r)" "detects k r"
  shows "cooldowns d' k = Some (cooldown_frames cfg)"
  using assms(1,2) by (cases rule: process_input_cooldown [where k = k]) (use assms(3) in simp_all)

lemma run_cooldown:
  assumes "0 < cooldown_frames cfg" "i < j" "j < length xs"
    and "detects k (run_detector np cfg d xs ! i)" "detects k (run_detector np cfg d xs ! j)"
  shows "int i + cooldown_frames cfg \<le> int j"
  using assms(2-5)
proof (induction xs arbitrary: d i j)
  case (Cons x xs)
  obtain d' r where p: "process_input np cfg x d = (d', r)" by fastforce
  have run: "run_detector np cfg d (x # xs) = r # run_detector np cfg d' xs" using p by simp
  obtain j' where j': "j = Suc j'" using Cons.prems(1) by (cases j) auto
  show ?case
  proof (cases i)
    case 0
    then have "cooldowns d' k = Some (cooldown_frames cfg)"
      using detects_sets_cooldown [OF assms(1) p] Cons.prems(3) run by simp
    from cooldown_blocks [OF assms(1) this, of j' xs np] Cons.prems(2,4) run j'
    show ?thesis using 0 by simp
  next
    case (Suc i')
    then show ?thesis using Cons.IH [of i' j' d'] Cons.prems run j' by simp
  qed
qed simp

subsection \<open>Warm-up\<close>

lemma warmup_only_gaps:
  assumes "in_reference x = None" "length (det_powers d) < warmup_frames cfg"
    and "process_input np cfg x d = (d', Inr dets)"
  shows "length dets \<le> 1 \<and> (\<forall>det\<in>set dets. class_name det = ''sequence_gap'')
    \<and> length (det_powers d') \<le> length (det_powers d) + 1 \<and> length (det_powers d') \<le> history_frames cfg"
proof -
  have seq: "length (snd (sequence_stage s t e)) \<le> 1 \<and>
      (\<forall>det\<in>set (snd (sequence_stage s t e)). class_name det = ''sequence_gap'')" for s t e
    by (auto simp: sequence_stage_def split: option.splits if_splits)
  have short: "length (det_powers (axis_stage np fs (fst (sequence_stage s t e)))) \<le> length (det_powers e)"
    for fs s t e by (simp add: axis_stage_def sequence_stage_sel)
  obtain fs ps where v: "validate_spectrum (in_frequencies x) (in_powers x) = Inr (fs, ps)"
    using assms(3) by (auto simp: process_input_def process_frame_def split: sum.splits)
  define d1 where "d1 = d\<lparr>frames_processed := frames_processed d + 1, cooldowns := tick_cooldowns (cooldowns d)\<rparr>"
  define d2 where "d2 = axis_stage np fs (fst (sequence_stage (in_sequence x) (in_source x) d1))"
  have d2: "length (det_powers d2) \<le> length (det_powers d)"
    using short [of fs "in_sequence x" "in_source x" d1] by (simp add: d2_def d1_def)
  then have "choose_baseline np cfg ps (in_reference x) d2 = Inr None"
    using assms(1,2) by (simp add: choose_baseline_def)
  then have "d' = d2\<lparr>det_powers := deque_append (history_frames cfg) (det_powers d2) ps\<rparr>"
    "dets = snd (sequence_stage (in_sequence x) (in_source x) d1)"
    using assms(3) v unfolding d2_def d1_def
    by (simp_all add: process_input_def process_frame_def Let_def split_def)
  then show ?thesis
    using seq d2 length_deque_append [of "history_frames cfg" "det_powers d2" ps]
    by (simp add: deque_append_def)
qed

lemma short_history_never_detects:
  assumes "history_frames cfg < warmup_frames cfg" "\<forall>x\<in>set xs. in_reference x = None"
    and "length (det_powers d) < warmup_frames cfg"
    and "Inr dets \<in> set (run_detector np cfg d xs)" "det \<in> set dets"
  shows "class_name det = ''sequence_gap''"
  using assms(2-5)
proof (induction xs arbitrary: d)
  case (Cons x xs)
  obtain d' r where p: "process_input np cfg x d = (d', r)" by fastforce
  have len: "length (det_powers d') < warmup_frames cfg"
  proof (cases r)
    case (Inl e)
    have "length (det_powers d') \<le> length (det_powers d)"
      using p Inl Cons.prems(1,2)
      by (auto simp: process_input_def process_frame_def Let_def split_def choose_baseline_def
          axis_stage_def sequence_stage_sel split: sum.splits option.splits if_splits)
    then show ?thesis using Cons.prems(2) by simp
  next
    case (Inr ds)
    have "in_reference x = None" using Cons.prems(1) by simp
    from warmup_only_gaps [OF this Cons.prems(2) p [unfolded Inr]]
    have "length (det_powers d') \<le> history_frames cfg" by blast
    then show ?thesis using assms(1) by linarith
  qed
  have run: "run_detector np cfg d (x # xs) = r # run_detector np cfg d' xs" using p by simp
  show ?case
  proof (cases "r = Inr dets")
    case True
    have "in_reference x = None" using Cons.prems(1) by simp
    from warmup_only_gaps [OF this Cons.prems(2) p [unfolded True]] Cons.prems(4) show ?thesis by blast
  next
    case False
    then have "Inr dets \<in> set (run_detector np cfg d' xs)" using Cons.prems(3) unfolding run by auto
    then show ?thesis using Cons.IH [OF _ len] Cons.prems(1,4) by simp
  qed
qed simp

subsection \<open>Properties\<close>

definition sample_numpy :: numpy where
  "sample_numpy = \<lparr>np_median = (\<lambda>xs. sort xs ! (length xs div 2)), np_mean = (\<lambda>xs. sum_list xs / of_nat (length xs)),
     np_max = (\<lambda>xs. fold max xs (hd xs)), np_argmax = (\<lambda>xs. 0), np_allclose = (=)\<rparr>"

definition sample_anomaly_config :: anomaly_config where
  "sample_anomaly_config = anomaly_from_env (\<lambda>_. None) (\<lambda>_. None)"

text \<open>A frame with two bins whose level is given, compared with a reference of 0 dB.\<close>

definition sample_input :: "rat \<Rightarrow> frame_input" where
  "sample_input p = \<lparr>in_frequencies = [Fin 100, Fin 200], in_powers = [Fin p, Fin p], in_sequence = None,
     in_source = None, in_reference = Some [Fin 0, Fin 0]\<rparr>"

text \<open>
  \<open>_groups\<close> returns exactly the maximal runs of active bins: a pair is in the result iff all
  bins between its ends are active, both ends are inside the frame, and neither neighbour is
  active.
\<close>

theorem groups_are_maximal_runs:
  "(a, b) \<in> set (mask_groups bits) \<longleftrightarrow> maximal_run bits a b"
  by (rule mask_groups_runs)

text \<open>
  C6: Cool-down: in any run of frames (also rejected ones and frames of a changed axis), two
  detections of the same class among noise-floor shift, occupancy change, bandwidth change,
  frequency drift and burst are at least \<open>cooldown_frames\<close> frames apart.
\<close>

theorem cooldown_separates_detections:
  assumes "0 < cooldown_frames cfg" and "i < j" and "j < length xs"
    and "detects k (run_detector np cfg d xs ! i)" and "detects k (run_detector np cfg d xs ! j)"
  shows "int i + cooldown_frames cfg \<le> int j"
  using assms by (rule run_cooldown)

definition cooldown_one :: anomaly_config where
  "cooldown_one = sample_anomaly_config\<lparr>cooldown_frames := 1\<rparr>"

lemma sample_run_detects:
  "detects Noise_Floor (run_detector sample_numpy cooldown_one new_detector [sample_input 30, sample_input 30] ! 0)"
  "detects Noise_Floor (run_detector sample_numpy cooldown_one new_detector [sample_input 30, sample_input 30] ! 1)"
  by code_simp+

lemma cooldown_separates_detections_witness:
  "int 0 + cooldown_frames cooldown_one \<le> int 1"
  by (rule cooldown_separates_detections [OF _ _ _ sample_run_detects])
    (simp_all add: cooldown_one_def sample_anomaly_config_def)

text \<open>
  Warm-up: without a reference and with fewer than \<open>warmup_frames\<close> frames of history, an
  accepted frame yields at most one detection, and that is a sequence gap; the frame is added to
  the history, which never exceeds \<open>history_frames\<close>.
\<close>

theorem warmup_reports_only_gaps:
  assumes "in_reference x = None" and "length (det_powers d) < warmup_frames cfg"
    and "process_input np cfg x d = (d', Inr dets)"
  shows "length dets \<le> 1 \<and> (\<forall>det\<in>set dets. class_name det = ''sequence_gap'')
    \<and> length (det_powers d') \<le> length (det_powers d) + 1 \<and> length (det_powers d') \<le> history_frames cfg"
  using assms by (rule warmup_only_gaps)

lemma warmup_reports_only_gaps_witness:
  "\<exists>d' dets. process_input sample_numpy sample_anomaly_config (sample_input 30\<lparr>in_reference := None\<rparr>) new_detector
     = (d', Inr dets) \<and> length dets \<le> 1"
proof -
  let ?x = "sample_input 30\<lparr>in_reference := None\<rparr>"
  obtain d' dets where p: "process_input sample_numpy sample_anomaly_config ?x new_detector = (d', Inr dets)"
    by (simp add: process_input_def process_frame_def sample_input_def validate_spectrum_def is_fin_def
        float_rat_def diffs_def Let_def sequence_stage_def axis_stage_def new_detector_def
        choose_baseline_def sample_anomaly_config_def anomaly_from_env_def env_number_def)
  have "in_reference ?x = None" by simp
  moreover have "length (det_powers new_detector) < warmup_frames sample_anomaly_config"
    by (simp add: new_detector_def sample_anomaly_config_def anomaly_from_env_def env_number_def)
  ultimately show ?thesis using warmup_reports_only_gaps p by blast
qed

text \<open>
  The two limits of the environment contradict each other: \<open>from_env\<close> allows a history shorter
  than the warm-up (6 to 512 frames against 3 to 128), and then the detector without a reference
  stays in its warm-up for ever and reports nothing but sequence gaps.
\<close>

theorem short_history_disables_detector:
  assumes "history_frames cfg < warmup_frames cfg" and "\<forall>x\<in>set xs. in_reference x = None"
    and "Inr dets \<in> set (run_detector np cfg new_detector xs)" and "det \<in> set dets"
  shows "class_name det = ''sequence_gap''"
  using short_history_never_detects [OF assms(1,2) _ assms(3,4)] assms(1) by (simp add: new_detector_def)

lemma short_history_disables_detector_witness:
  "\<exists>cfg dets. cfg = anomaly_from_env (\<lambda>n. if n = ''ANOMALY_HISTORY_FRAMES'' then Some 6 else Some 7) (\<lambda>_. None)
     \<and> history_frames cfg < warmup_frames cfg \<and> (\<forall>det\<in>set dets. class_name det = ''sequence_gap'')
     \<and> dets \<noteq> [] \<and> Inr dets \<in> set (run_detector sample_numpy cfg new_detector
          [sample_input 0\<lparr>in_reference := None, in_sequence := Some 1\<rparr>,
           sample_input 30\<lparr>in_reference := None, in_sequence := Some 3\<rparr>])"
proof -
  let ?cfg = "anomaly_from_env (\<lambda>n. if n = ''ANOMALY_HISTORY_FRAMES'' then Some 6 else Some 7) (\<lambda>_. None)"
  let ?xs = "[sample_input 0\<lparr>in_reference := None, in_sequence := Some 1\<rparr>,
      sample_input 30\<lparr>in_reference := None, in_sequence := Some 3\<rparr>]"
  have c: "history_frames ?cfg < warmup_frames ?cfg"
    by (simp add: anomaly_from_env_def env_number_def clamp_def)
  obtain dets where d: "dets \<noteq> []" "Inr dets \<in> set (run_detector sample_numpy ?cfg new_detector ?xs)"
    by (simp add: process_input_def process_frame_def sample_input_def validate_spectrum_def is_fin_def
        float_rat_def diffs_def Let_def sequence_stage_def axis_stage_def new_detector_def sample_numpy_def
        choose_baseline_def anomaly_from_env_def env_number_def clamp_def deque_append_def take_last_def)
  have "\<forall>x\<in>set ?xs. in_reference x = None" by simp
  from short_history_disables_detector [OF c this d(2)] c d show ?thesis by blast
qed

end
