(* ===== verification/Passive_Detector.thy ===== *)
theory Passive_Detector
  imports Spectrum_Detector "HOL-Library.List_Lexorder" "HOL-Library.Char_ord"
begin

section \<open>The passive detectors for Wi-Fi and Bluetooth observations\<close>

text \<open>
  \<open>services/anomaly/passive.py\<close>: rules that compare one observation with the history of
  observations. An observation row is a record of its text fields (SQL NULL is \<open>None\<close>) and
  numbers. A detection keeps its domain, class, severity, confidence and evidence.
\<close>

subsection \<open>Rows\<close>

record passive_row =
  r_bssid :: "string option"
  r_mac_address :: "string option"
  r_mac :: "string option"
  r_ssid :: "string option"
  r_location_id :: "string option"
  r_location_name :: "string option"
  r_encryption :: "string option"
  r_vendor :: "string option"
  r_channel :: "rat option"
  r_rssi_dbm :: "rat option"
  r_service_uuids :: "string list"
  r_service_uuid :: "string option"
  r_manufacturer_data :: "string option"
  r_observation_count :: int
  r_presence_seconds :: rat

definition norm_text :: "string option \<Rightarrow> string" where
  "norm_text v = py_lower (py_strip (or_empty v))"

definition row_location :: "passive_row \<Rightarrow> string" where
  "row_location r = or_empty (or_else (r_location_id r) (r_location_name r))"

definition wifi_id :: "passive_row \<Rightarrow> string" where
  "wifi_id r = norm_text (or_else (r_bssid r) (r_mac_address r))"

definition bluetooth_id :: "passive_row \<Rightarrow> string" where
  "bluetooth_id r = norm_text (or_else (r_mac_address r) (r_mac r))"

text \<open>\<open>{_norm(row.get(k)) for row in rows if row.get(k)}\<close> as a list without duplicates.\<close>

definition norm_values :: "(passive_row \<Rightarrow> string option) \<Rightarrow> passive_row list \<Rightarrow> string list" where
  "norm_values field rows = remdups (map (\<lambda>r. norm_text (field r)) (filter (\<lambda>r. truthy (field r)) rows))"

definition known_locations :: "passive_row list \<Rightarrow> string list" where
  "known_locations rows = filter (\<lambda>l. l \<noteq> []) (remdups (map row_location rows))"

definition texts :: "string list \<Rightarrow> pyval" where
  "texts xs = PList (map PStr xs)"

text \<open>The usual channel numbers: 1 to 14, and 32 to 177.\<close>

definition usual_channel :: "int \<Rightarrow> bool" where
  "usual_channel c = ((1 \<le> c \<and> c < 15) \<or> (32 \<le> c \<and> c < 178))"

subsection \<open>The rules shared by both detectors\<close>

definition rssi_change :: "passive_row \<Rightarrow> passive_row list \<Rightarrow> (rat \<times> rat \<times> rat) option" where
  "rssi_change current same =
     (let rssis = List.map_filter r_rssi_dbm same in
      case r_rssi_dbm current of
        None \<Rightarrow> None
      | Some c \<Rightarrow>
          if rssis = [] then None
          else let baseline = sum_list rssis / of_nat (length rssis); delta = c - baseline
            in if 20 \<le> \<bar>delta\<bar> then Some (baseline, c, delta) else None)"

definition rssi_detection :: "string \<Rightarrow> string \<Rightarrow> rat \<Rightarrow> rat \<times> rat \<times> rat \<Rightarrow> spectrum_detection" where
  "rssi_detection domain cls conf bcd = (let (b, c, d) = bcd in
     (detection domain cls ''low'' conf)\<lparr>evidence := [(''baseline_rssi_dbm'', rat_val b),
       (''current_rssi_dbm'', rat_val c), (''delta_db'', rat_val d)]\<rparr>)"

definition opt_list :: "bool \<Rightarrow> 'a \<Rightarrow> 'a list" where
  "opt_list b x = (if b then [x] else [])"

subsection \<open>Wi-Fi\<close>

definition wifi_new_bssid :: "passive_row \<Rightarrow> passive_row list \<Rightarrow> bool" where
  "wifi_new_bssid current rows = (wifi_id current \<noteq> [] \<and>
     \<not> list_ex (\<lambda>r. wifi_id r = wifi_id current) (filter (\<lambda>r. row_location r = row_location current) rows))"

text \<open>The history of the same BSSID and of the same network name.\<close>

definition same_bssid :: "passive_row \<Rightarrow> passive_row list \<Rightarrow> passive_row list" where
  "same_bssid current rows = filter (\<lambda>r. wifi_id r = wifi_id current) rows"

definition visible_ssid :: "passive_row \<Rightarrow> string" where
  "visible_ssid current = py_strip (or_empty (r_ssid current))"

definition same_ssid :: "passive_row \<Rightarrow> passive_row list \<Rightarrow> passive_row list" where
  "same_ssid current rows =
     filter (\<lambda>r. norm_text (r_ssid r) = norm_text (Some (visible_ssid current)) \<and> visible_ssid current \<noteq> []) rows"

text \<open>A value that is known and not among the known earlier values.\<close>

definition deviates :: "string \<Rightarrow> string list \<Rightarrow> bool" where
  "deviates v previous = (previous \<noteq> [] \<and> v \<noteq> [] \<and> v \<notin> set previous)"

definition wifi_rule_new :: "passive_row \<Rightarrow> passive_row list \<Rightarrow> spectrum_detection list" where
  "wifi_rule_new current rows = opt_list (wifi_new_bssid current rows)
     ((detection ''wifi'' ''new_bssid'' ''low'' (85 / 100))
        \<lparr>evidence := [(''bssid'', PStr (wifi_id current)), (''ssid'', PStr (visible_ssid current)),
          (''location'', PStr (row_location current))]\<rparr>)"

definition wifi_rule_encryption :: "passive_row \<Rightarrow> passive_row list \<Rightarrow> spectrum_detection list" where
  "wifi_rule_encryption current rows =
     (let previous = norm_values r_encryption (same_ssid current rows);
          encryption = norm_text (r_encryption current) in
      opt_list (deviates encryption previous)
        ((detection ''wifi'' ''ssid_encryption_changed'' ''high'' (96 / 100))
           \<lparr>evidence := [(''ssid'', PStr (visible_ssid current)), (''previous'', texts (sort previous)),
             (''current'', PStr encryption)]\<rparr>))"

definition wifi_rule_hidden :: "passive_row \<Rightarrow> spectrum_detection list" where
  "wifi_rule_hidden current = opt_list (visible_ssid current = [])
     ((detection ''wifi'' ''hidden_ssid'' ''low'' (7 / 10))\<lparr>evidence := [(''bssid'', PStr (wifi_id current))]\<rparr>)"

definition wifi_rule_ssids :: "passive_row \<Rightarrow> passive_row list \<Rightarrow> spectrum_detection list" where
  "wifi_rule_ssids current rows =
     (let ssids = norm_values r_ssid (same_bssid current rows); ssid = visible_ssid current in
      opt_list (ssid \<noteq> [] \<and> ssids \<noteq> [] \<and> norm_text (Some ssid) \<notin> set ssids)
        ((detection ''wifi'' ''bssid_multiple_ssids'' ''medium'' (82 / 100))
           \<lparr>evidence := [(''bssid'', PStr (wifi_id current)), (''previous_ssids'', texts (sort ssids)),
             (''current_ssid'', PStr ssid)]\<rparr>))"

definition wifi_rule_channel :: "passive_row \<Rightarrow> spectrum_detection list" where
  "wifi_rule_channel current = (case r_channel current of
       None \<Rightarrow> []
     | Some c \<Rightarrow> opt_list (\<not> usual_channel (py_trunc c))
         ((detection ''wifi'' ''unusual_channel'' ''low'' (65 / 100))\<lparr>evidence := [(''channel'', rat_val c)]\<rparr>))"

definition rssi_rule :: "string \<Rightarrow> string \<Rightarrow> rat \<Rightarrow> passive_row \<Rightarrow> passive_row list \<Rightarrow> spectrum_detection list" where
  "rssi_rule domain cls conf current same = (case rssi_change current same of
       None \<Rightarrow> [] | Some bcd \<Rightarrow> [rssi_detection domain cls conf bcd])"

definition wifi_rule_vendor :: "passive_row \<Rightarrow> passive_row list \<Rightarrow> spectrum_detection list" where
  "wifi_rule_vendor current rows =
     (let vendors = norm_values r_vendor (same_bssid current rows); vendor = norm_text (r_vendor current) in
      opt_list (deviates vendor vendors)
        ((detection ''wifi'' ''vendor_property_mismatch'' ''low'' (55 / 100))
           \<lparr>evidence := [(''previous'', texts (sort vendors)), (''current'', PStr vendor),
             (''certainty'', PStr ''weak'')]\<rparr>))"

definition wifi_rule_location :: "passive_row \<Rightarrow> passive_row list \<Rightarrow> spectrum_detection list" where
  "wifi_rule_location current rows =
     (let locations = known_locations (same_bssid current rows) in
      opt_list (deviates (row_location current) locations)
        ((detection ''wifi'' ''device_seen_multiple_locations'' ''medium'' (8 / 10))
           \<lparr>evidence := [(''previous_locations'', texts (sort locations)),
             (''current_location'', PStr (row_location current))]\<rparr>))"

definition detect_wifi :: "passive_row \<Rightarrow> passive_row list \<Rightarrow> spectrum_detection list" where
  "detect_wifi current rows =
     wifi_rule_new current rows @ wifi_rule_encryption current rows @ wifi_rule_hidden current
     @ wifi_rule_ssids current rows @ wifi_rule_channel current
     @ rssi_rule ''wifi'' ''rssi_behavior_changed'' (72 / 100) current (same_bssid current rows)
     @ wifi_rule_vendor current rows @ wifi_rule_location current rows"

subsection \<open>Bluetooth\<close>

definition same_device :: "passive_row \<Rightarrow> passive_row list \<Rightarrow> passive_row list" where
  "same_device current rows = filter (\<lambda>r. bluetooth_id r = bluetooth_id current) rows"

definition bluetooth_rule_new :: "passive_row \<Rightarrow> passive_row list \<Rightarrow> spectrum_detection list" where
  "bluetooth_rule_new current rows =
     opt_list (bluetooth_id current \<noteq> [] \<and> \<not> list_ex (\<lambda>r. bluetooth_id r = bluetooth_id current)
         (filter (\<lambda>r. row_location r = row_location current) rows))
       ((detection ''bluetooth'' ''new_ble_device'' ''low'' (78 / 100))
          \<lparr>evidence := [(''mac'', PStr (bluetooth_id current)), (''location'', PStr (row_location current))]\<rparr>)"

definition services_of :: "passive_row \<Rightarrow> string list" where
  "services_of r = (if r_service_uuids r \<noteq> [] then r_service_uuids r
     else if truthy (r_service_uuid r) then [or_empty (r_service_uuid r)] else [])"

definition bluetooth_rule_services :: "passive_row \<Rightarrow> passive_row list \<Rightarrow> spectrum_detection list" where
  "bluetooth_rule_services current rows =
     (let previous = remdups (concat (map services_of (same_device current rows)));
          new = filter (\<lambda>u. u \<noteq> [] \<and> u \<notin> set previous) (remdups (services_of current)) in
      opt_list (previous \<noteq> [] \<and> new \<noteq> [])
        ((detection ''bluetooth'' ''new_service_uuid'' ''medium'' (84 / 100))
           \<lparr>evidence := [(''new_service_uuids'', texts (sort new))]\<rparr>))"

definition bluetooth_rule_manufacturer :: "passive_row \<Rightarrow> passive_row list \<Rightarrow> spectrum_detection list" where
  "bluetooth_rule_manufacturer current rows =
     (let previous = remdups (map (\<lambda>r. or_empty (r_manufacturer_data r))
            (filter (\<lambda>r. truthy (r_manufacturer_data r)) (same_device current rows)));
          manufacturer = or_empty (r_manufacturer_data current) in
      opt_list (deviates manufacturer previous)
        ((detection ''bluetooth'' ''manufacturer_data_changed'' ''medium'' (8 / 10))
           \<lparr>evidence := [(''previous_count'', PInt (int (length previous))),
             (''current'', PStr manufacturer)]\<rparr>))"

definition bluetooth_rule_location :: "passive_row \<Rightarrow> passive_row list \<Rightarrow> spectrum_detection list" where
  "bluetooth_rule_location current rows =
     (let locations = known_locations (same_device current rows) in
      opt_list (deviates (row_location current) locations)
        ((detection ''bluetooth'' ''ble_seen_multiple_locations'' ''medium'' (65 / 100))
           \<lparr>evidence := [(''previous_locations'', texts (sort locations)),
             (''current_location'', PStr (row_location current)), (''certainty'', PStr ''cautious'')]\<rparr>))"

definition bluetooth_rule_presence :: "passive_row \<Rightarrow> spectrum_detection list" where
  "bluetooth_rule_presence current =
     opt_list (100 \<le> r_observation_count current \<or> 3600 \<le> r_presence_seconds current)
       ((detection ''bluetooth'' ''unusually_persistent_presence'' ''low'' (72 / 100))
          \<lparr>evidence := [(''observation_count'', PInt (r_observation_count current)),
            (''presence_duration_seconds'', rat_val (r_presence_seconds current))]\<rparr>)"

definition detect_bluetooth :: "passive_row \<Rightarrow> passive_row list \<Rightarrow> spectrum_detection list" where
  "detect_bluetooth current rows =
     bluetooth_rule_new current rows @ bluetooth_rule_services current rows
     @ bluetooth_rule_manufacturer current rows
     @ rssi_rule ''bluetooth'' ''ble_rssi_behavior_changed'' (68 / 100) current (same_device current rows)
     @ bluetooth_rule_location current rows @ bluetooth_rule_presence current"

subsection \<open>Lemmas\<close>

lemma opt_list_simps [simp]:
  "set (opt_list b x) = (if b then {x} else {})" "opt_list False y = []" "opt_list True y = [y]"
  by (cases b; simp add: opt_list_def)+

lemma map_opt_list [simp]: "map f (opt_list b x) = opt_list b (f x)"
  by (simp add: opt_list_def)

lemma detection_sel [simp]:
  "class_name (detection a c s f\<lparr>evidence := e\<rparr>) = c" "severity (detection a c s f\<lparr>evidence := e\<rparr>) = s"
  "class_name (rssi_detection a c f bcd) = c" "severity (rssi_detection a c f bcd) = ''low''"
  by (simp_all add: detection_def rssi_detection_def Let_def split_def)

lemma norm_text_in_values:
  "r \<in> set rows \<Longrightarrow> truthy (field r) \<Longrightarrow> norm_text (field r) \<in> set (norm_values field rows)"
  by (auto simp: norm_values_def)

lemma norm_text_truthy: "norm_text v \<noteq> [] \<Longrightarrow> truthy v"
  by (cases v) (auto simp: norm_text_def py_strip_def)

lemma norm_text_strip [simp]: "norm_text (Some (py_strip (or_empty v))) = norm_text v"
  by (simp add: norm_text_def)

lemma py_strip_empty: "py_strip (or_empty v) \<noteq> [] \<Longrightarrow> norm_text v \<noteq> []"
  by (simp add: norm_text_def)

text \<open>The average of equal numbers, as the baseline of an unchanged device.\<close>

lemma sum_list_const: "\<forall>x\<in>set xs. x = (c::rat) \<Longrightarrow> sum_list xs = of_nat (length xs) * c"
  by (induction xs) (auto simp: algebra_simps)

lemma rssi_unchanged:
  assumes "\<forall>r\<in>set same. r_rssi_dbm r = r_rssi_dbm current"
  shows "rssi_change current same = None"
proof (cases "r_rssi_dbm current")
  case (Some c)
  let ?xs = "List.map_filter r_rssi_dbm same"
  have "\<forall>x\<in>set ?xs. x = c" using assms Some by (auto simp: List.map_filter_def)
  then have "sum_list ?xs = of_nat (length ?xs) * c" by (rule sum_list_const)
  then have "sum_list ?xs / of_nat (length ?xs) = c" if "?xs \<noteq> []" using that by simp
  then show ?thesis using Some by (auto simp: rssi_change_def Let_def)
qed (simp add: rssi_change_def Let_def)

lemmas bluetooth_rules = bluetooth_rule_new_def bluetooth_rule_services_def bluetooth_rule_manufacturer_def
  rssi_rule_def bluetooth_rule_location_def bluetooth_rule_presence_def

lemmas wifi_quiet_rules = wifi_rule_new_def wifi_rule_hidden_def wifi_rule_ssids_def wifi_rule_channel_def
  rssi_rule_def wifi_rule_vendor_def wifi_rule_location_def

lemma detect_bluetooth_severity:
  "det \<in> set (detect_bluetooth current rows) \<Longrightarrow> severity det = ''low'' \<or> severity det = ''medium''"
  unfolding detect_bluetooth_def set_append Un_iff
  by (elim disjE) (auto simp: bluetooth_rules Let_def split: if_splits option.splits)

lemma detect_wifi_high:
  assumes "det \<in> set (detect_wifi current rows)" "severity det = ''high''"
  shows "det \<in> set (wifi_rule_encryption current rows)"
  using assms unfolding detect_wifi_def set_append Un_iff
  by (elim disjE) (auto simp: wifi_quiet_rules Let_def split: if_splits option.splits)

lemma wifi_encryption_deviates:
  assumes "det \<in> set (wifi_rule_encryption current rows)"
  shows "class_name det = ''ssid_encryption_changed''
    \<and> (\<exists>r\<in>set rows. norm_text (r_ssid r) = norm_text (r_ssid current) \<and> truthy (r_encryption r)
         \<and> norm_text (r_encryption r) \<noteq> norm_text (r_encryption current))"
proof -
  let ?vs = "norm_values r_encryption (same_ssid current rows)"
  from assms have *: "class_name det = ''ssid_encryption_changed''"
    "deviates (norm_text (r_encryption current)) ?vs"
    by (auto simp: wifi_rule_encryption_def Let_def split: if_splits)
  then obtain e where "e \<in> set ?vs" by (cases ?vs) (auto simp: deviates_def)
  then obtain r where r: "r \<in> set (same_ssid current rows)" "truthy (r_encryption r)"
    "norm_text (r_encryption r) \<in> set ?vs"
    by (auto simp: norm_values_def)
  then have "r \<in> set rows" "norm_text (r_ssid r) = norm_text (r_ssid current)"
    by (auto simp: same_ssid_def visible_ssid_def)
  with * r show ?thesis by (metis deviates_def)
qed

lemma not_deviates: "(v \<noteq> [] \<Longrightarrow> v \<in> set previous) \<Longrightarrow> \<not> deviates v previous"
  by (auto simp: deviates_def)

lemma known_value_quiet: "current \<in> set rows \<Longrightarrow> \<not> deviates (norm_text (field current)) (norm_values field rows)"
  using norm_text_in_values norm_text_truthy by (intro not_deviates) blast

lemma known_location_quiet: "current \<in> set rows \<Longrightarrow> \<not> deviates (row_location current) (known_locations rows)"
  by (intro not_deviates) (auto simp: known_locations_def)

subsection \<open>Properties\<close>

definition sample_row :: passive_row where
  "sample_row = \<lparr>r_bssid = Some ''AA:BB'', r_mac_address = None, r_mac = None, r_ssid = Some ''net'',
     r_location_id = None, r_location_name = Some ''lab'', r_encryption = Some ''WPA2'', r_vendor = Some ''ACME'',
     r_channel = Some 6, r_rssi_dbm = Some (-60), r_service_uuids = [], r_service_uuid = None,
     r_manufacturer_data = None, r_observation_count = 1, r_presence_seconds = 0\<rparr>"

text \<open>
  An unchanged access point is quiet: when the history holds the very same observation (with a
  visible name, a usual channel, and every earlier row of the same BSSID at the same signal
  strength), the Wi-Fi detector reports nothing.
\<close>

theorem unchanged_wifi_is_quiet:
  assumes "current \<in> set rows" and "py_strip (or_empty (r_ssid current)) \<noteq> []"
    and "\<forall>c. r_channel current = Some c \<longrightarrow> usual_channel (py_trunc c)"
    and "\<forall>r\<in>set rows. wifi_id r = wifi_id current \<longrightarrow> r_rssi_dbm r = r_rssi_dbm current"
  shows "detect_wifi current rows = []"
proof -
  have sb: "current \<in> set (same_bssid current rows)" and ss: "current \<in> set (same_ssid current rows)"
    using assms(1,2) by (simp_all add: same_bssid_def same_ssid_def visible_ssid_def)
  have "wifi_rule_new current rows = []"
    using assms(1) by (auto simp: wifi_rule_new_def wifi_new_bssid_def list_ex_iff opt_list_def)
  moreover have "wifi_rule_encryption current rows = []" "wifi_rule_vendor current rows = []"
    "wifi_rule_location current rows = []"
    using known_value_quiet [OF ss, of r_encryption] known_value_quiet [OF sb, of r_vendor]
      known_location_quiet [OF sb]
    by (simp_all add: wifi_rule_encryption_def wifi_rule_vendor_def wifi_rule_location_def Let_def)
  moreover have "norm_text (r_ssid current) \<in> set (norm_values r_ssid (same_bssid current rows))"
    using norm_text_in_values [OF sb] norm_text_truthy py_strip_empty [OF assms(2)] by blast
  then have "wifi_rule_ssids current rows = []"
    by (simp add: wifi_rule_ssids_def Let_def visible_ssid_def)
  moreover have "wifi_rule_hidden current = []" "wifi_rule_channel current = []"
    using assms(2,3) by (auto simp: wifi_rule_hidden_def wifi_rule_channel_def visible_ssid_def split: option.splits)
  moreover have "rssi_change current (same_bssid current rows) = None"
    by (rule rssi_unchanged) (use assms(4) in \<open>simp add: same_bssid_def\<close>)
  then have "rssi_rule d c f current (same_bssid current rows) = []" for d c f by (simp add: rssi_rule_def)
  ultimately show ?thesis by (simp add: detect_wifi_def)
qed

lemma unchanged_wifi_is_quiet_witness: "detect_wifi sample_row [sample_row] = []"
  by (rule unchanged_wifi_is_quiet)
    (simp_all add: sample_row_def usual_channel_def py_trunc_def, simp add: py_strip_def is_space_def)

text \<open>
  The severity of the passive findings: a Bluetooth finding is never above medium (an address
  may be randomised), and a Wi-Fi finding is high only when an earlier observation of the same
  network name had a different, non-empty encryption.
\<close>

theorem passive_severity_justified:
  "(\<forall>det\<in>set (detect_bluetooth current rows). severity det = ''low'' \<or> severity det = ''medium'')
   \<and> (\<forall>det\<in>set (detect_wifi current rows). severity det = ''high'' \<longrightarrow>
        class_name det = ''ssid_encryption_changed''
        \<and> (\<exists>r\<in>set rows. norm_text (r_ssid r) = norm_text (r_ssid current) \<and> truthy (r_encryption r)
             \<and> norm_text (r_encryption r) \<noteq> norm_text (r_encryption current)))"
  using detect_bluetooth_severity detect_wifi_high wifi_encryption_deviates by blast

lemma passive_severity_justified_witness:
  "\<exists>det\<in>set (detect_wifi (sample_row\<lparr>r_encryption := Some ''open''\<rparr>) [sample_row]).
     severity det = ''high'' \<and> class_name det = ''ssid_encryption_changed''"
proof -
  let ?ds = "detect_wifi (sample_row\<lparr>r_encryption := Some ''open''\<rparr>) [sample_row]"
  have "list_ex (\<lambda>det. severity det = ''high'') ?ds" by code_simp
  then obtain det where "det \<in> set ?ds" "severity det = ''high''" by (auto simp: list_ex_iff)
  then show ?thesis using passive_severity_justified by blast
qed

end
