(* ===== verification/Store.thy ===== *)
theory Store
  imports Rf_Prelude "HOL-Library.Product_Lexorder"
begin

section \<open>Tables, identifiers and keyset pages\<close>

text \<open>
  The routers keep their state in SQL tables, reached through \<open>app/db.py\<close>. A table is the list of
  its rows; \<open>SELECT ... ORDER BY ... LIMIT\<close>, \<open>INSERT\<close> and \<open>UPDATE ... WHERE ... RETURNING\<close> are
  functions on it. One handler runs in one transaction: it returns the new tables, or an error
  and the tables are unchanged (no commit).

  The second half is the cursor pagination of \<open>utils/pagination.py\<close> and of the list endpoints:
  rows in descending order of (time, id), the cursor names the last row of a page.
\<close>

subsection \<open>Identifiers\<close>

text \<open>\<open>uuid.UUID\<close> is the argument \<open>parse\<close>: the canonical text, or \<open>None\<close> where it raises.\<close>

definition validated_optional_uuid ::
  "(string \<Rightarrow> string option) \<Rightarrow> string option \<Rightarrow> string \<Rightarrow> string option result" where
  "validated_optional_uuid parse v field =
     (case v of
        None \<Rightarrow> Inr None
      | Some s \<Rightarrow> if s = [] then Inr None
          else (case parse s of None \<Rightarrow> Inl (HTTPException 422 (''invalid_'' @ field)) | Some u \<Rightarrow> Inr (Some u)))"

definition bounded_limit :: "int \<Rightarrow> nat" where
  "bounded_limit l = nat (min (max l 1) 500)"

lemma bounded_limit_range: "1 \<le> bounded_limit l \<and> bounded_limit l \<le> 500"
  by (auto simp: bounded_limit_def)

subsection \<open>Rows\<close>

text \<open>\<open>UPDATE ... SET f WHERE p\<close>, and the rows it returns.\<close>

definition update_where :: "('r \<Rightarrow> bool) \<Rightarrow> ('r \<Rightarrow> 'r) \<Rightarrow> 'r list \<Rightarrow> 'r list" where
  "update_where p f rows = map (\<lambda>r. if p r then f r else r) rows"

definition returning :: "('r \<Rightarrow> bool) \<Rightarrow> ('r \<Rightarrow> 'r) \<Rightarrow> 'r list \<Rightarrow> 'r list" where
  "returning p f rows = map f (filter p rows)"

lemma length_update_where [simp]: "length (update_where p f rows) = length rows"
  by (simp add: update_where_def)

lemma in_update_where:
  "r \<in> set (update_where p f rows) \<longleftrightarrow> (\<exists>s\<in>set rows. r = (if p s then f s else s))"
  by (auto simp: update_where_def)

lemma update_where_untouched: "r \<in> set rows \<Longrightarrow> \<not> p r \<Longrightarrow> r \<in> set (update_where p f rows)"
  unfolding in_update_where by (intro bexI [of _ r]) simp_all

lemma update_where_touched: "r \<in> set rows \<Longrightarrow> p r \<Longrightarrow> f r \<in> set (update_where p f rows)"
  unfolding in_update_where by (intro bexI [of _ r]) simp_all

lemma map_update_where:
  "(\<And>r. p r \<Longrightarrow> g (f r) = g r) \<Longrightarrow> map g (update_where p f rows) = map g rows"
  by (simp add: update_where_def)

lemma filter_update_where_none: "filter p rows = [] \<Longrightarrow> update_where p f rows = rows"
  by (induction rows) (auto simp: update_where_def split: if_splits)

subsection \<open>Column values\<close>

text \<open>The value of a column as a statement writes it; \<open>SqlTime\<close> is a \<open>TIMESTAMPTZ\<close>, in seconds.\<close>

datatype sqlval =
    SqlNull
  | SqlText string
  | SqlInt int
  | SqlReal rat
  | SqlTime rat
  | SqlJson pyval

definition nullable :: "('a \<Rightarrow> sqlval) \<Rightarrow> 'a option \<Rightarrow> sqlval" where
  "nullable f x = (case x of None \<Rightarrow> SqlNull | Some y \<Rightarrow> f y)"

lemma nullable_simps [simp]: "nullable f None = SqlNull" "nullable f (Some y) = f y"
  by (simp_all add: nullable_def)

definition column :: "(string \<times> sqlval) list \<Rightarrow> string \<Rightarrow> sqlval" where
  "column cs k = (case map_of cs k of None \<Rightarrow> SqlNull | Some v \<Rightarrow> v)"

text \<open>\<open>jsonb || jsonb\<close> on objects: the right operand wins.\<close>

definition jsonb_concat :: "(string \<times> pyval) list \<Rightarrow> (string \<times> pyval) list \<Rightarrow> (string \<times> pyval) list" where
  "jsonb_concat a b = filter (\<lambda>(k, _). \<not> dict_has b k) a @ b"

subsection \<open>Keyset pages\<close>

definition keyset_page ::
  "('r \<Rightarrow> 'k::linorder) \<Rightarrow> ('r \<Rightarrow> bool) \<Rightarrow> nat \<Rightarrow> 'k option \<Rightarrow> 'r list \<Rightarrow> 'r list \<times> bool \<times> 'k option" where
  "keyset_page key p limit cursor table =
     (let matching = filter (\<lambda>r. p r \<and> (case cursor of None \<Rightarrow> True | Some c \<Rightarrow> key r < c)) table;
          fetched = take (limit + 1) (rev (sort_key key matching));
          has_more = limit < length fetched;
          rows = take limit fetched;
          next_cursor = (if has_more \<and> rows \<noteq> [] then Some (key (last rows)) else None)
      in (rows, has_more, next_cursor))"

text \<open>A client that follows the cursors.\<close>

fun keyset_walk ::
  "nat \<Rightarrow> ('r \<Rightarrow> 'k::linorder) \<Rightarrow> ('r \<Rightarrow> bool) \<Rightarrow> nat \<Rightarrow> 'k option \<Rightarrow> 'r list \<Rightarrow> 'r list" where
  "keyset_walk 0 key p limit cursor table = []"
| "keyset_walk (Suc n) key p limit cursor table =
     (let (rows, has_more, next_cursor) = keyset_page key p limit cursor table in
      rows @ (if has_more then keyset_walk n key p limit next_cursor table else []))"

definition listing :: "('r \<Rightarrow> 'k::linorder) \<Rightarrow> ('r \<Rightarrow> bool) \<Rightarrow> 'r list \<Rightarrow> 'r list" where
  "listing key p table = rev (sort_key key (filter p table))"

lemma listing_decreasing:
  assumes "distinct (map key table)"
  shows "sorted_wrt (\<lambda>a b. key b < key a) (listing key p table)"
proof -
  let ?s = "sort_key key (filter p table)"
  have "mset (map key ?s) = mset (map key (filter p table))"
    by (simp add: mset_map)
  moreover have "distinct (map key (filter p table))" using assms by (simp add: distinct_map_filter)
  ultimately have "distinct (map key ?s)" using mset_eq_imp_distinct_iff by blast
  then have "sorted_wrt (<) (map key ?s)" by (simp add: strict_sorted_iff)
  then have "sorted_wrt (\<lambda>a b. key a < key b) ?s" by (simp add: sorted_wrt_map)
  then show ?thesis by (simp add: listing_def sorted_wrt_rev)
qed

lemma decreasing_filter:
  "sorted_wrt (\<lambda>a b. key b < key a) xs \<Longrightarrow> 0 < i \<Longrightarrow> i \<le> length xs \<Longrightarrow>
     filter (\<lambda>r. key r < (key (xs ! (i - 1)) :: 'k::linorder)) xs = drop i xs"
proof (induction xs arbitrary: i)
  case (Cons x xs)
  show ?case
  proof (cases "i = 1")
    case True
    then have "filter (\<lambda>r. key r < key x) xs = xs" using Cons.prems(1) by (simp add: filter_id_conv)
    then show ?thesis using True by simp
  next
    case False
    then have i: "0 < i - 1" "i - 1 \<le> length xs" using Cons.prems by auto
    then have mem: "xs ! (i - 1 - 1) \<in> set xs" by (intro nth_mem) linarith
    then have "\<not> key x < key (xs ! (i - 1 - 1))" using Cons.prems(1) by (auto simp: not_less less_imp_le)
    moreover have "(x # xs) ! (i - 1) = xs ! (i - 1 - 1)" using i by (simp add: nth_Cons')
    moreover have "drop i (x # xs) = drop (i - 1) xs" using i by (cases i) auto
    ultimately show ?thesis using Cons.IH [OF _ i] Cons.prems(1) by simp
  qed
qed simp

lemma matching_listing:
  "rev (sort_key key (filter (\<lambda>r. p r \<and> q r) table)) = filter q (listing key p table)"
proof -
  have "filter (\<lambda>r. p r \<and> q r) table = filter q (filter p table)" by (simp add: conj_commute)
  then have "sort_key key (filter (\<lambda>r. p r \<and> q r) table) = filter q (sort_key key (filter p table))"
    by (simp only: filter_sort)
  then show ?thesis by (simp only: listing_def rev_filter)
qed

lemma keyset_walk_from:
  assumes d: "distinct (map key table)" and l: "0 < limit"
    and "i \<le> length (listing key p table)" "length (listing key p table) - i \<le> n"
    and "cursor = (if i = 0 then None else Some (key (listing key p table ! (i - 1))))"
    and "0 < n"
  shows "keyset_walk n key p limit cursor table = drop i (listing key p table)"
  using assms(3-)
proof (induction n arbitrary: i cursor)
  case (Suc n)
  let ?S = "listing key p table"
  have S: "rev (sort_key key (filter (\<lambda>r. p r \<and> (case cursor of None \<Rightarrow> True | Some c \<Rightarrow> key r < c)) table))
      = drop i ?S"
  proof (cases "i = 0")
    case True
    then show ?thesis using Suc.prems(3) matching_listing [of key p "\<lambda>_. True" table] by simp
  next
    case False
    then have c: "cursor = Some (key (?S ! (i - 1)))" using Suc.prems(3) by simp
    have "rev (sort_key key (filter (\<lambda>r. p r \<and> key r < key (?S ! (i - 1))) table))
        = filter (\<lambda>r. key r < key (?S ! (i - 1))) ?S" by (rule matching_listing)
    also have "\<dots> = drop i ?S"
      using decreasing_filter [OF listing_decreasing [OF d]] False Suc.prems(1) by simp
    finally show ?thesis using c by simp
  qed
  let ?rows = "take limit (drop i ?S)"
  have page: "keyset_page key p limit cursor table = (?rows, limit < length ?S - i,
      if limit < length ?S - i then Some (key (last ?rows)) else None)"
    unfolding keyset_page_def Let_def S using l by (cases "limit < length ?S - i") simp_all
  show ?case
  proof (cases "limit < length ?S - i")
    case False
    then show ?thesis using page by simp
  next
    case True
    then have len: "length ?rows = limit" by simp
    then have "last ?rows = ?rows ! (limit - 1)" using l by (metis last_conv_nth length_greater_0_conv)
    then have last: "last ?rows = ?S ! (i + limit - 1)" using True l by simp
    have "keyset_walk n key p limit (Some (key (last ?rows))) table = drop (i + limit) ?S"
      by (rule Suc.IH) (use True Suc.prems l last in auto)
    moreover have "?rows @ drop (i + limit) ?S = drop i ?S"
      using append_take_drop_id [of limit "drop i ?S"] by (simp add: add.commute)
    ultimately show ?thesis using page True by simp
  qed
qed simp

text \<open>
  A client that starts without a cursor and follows the cursors sees every matching row exactly
  once, newest first, whatever the page size is.
\<close>

lemma keyset_walk_complete:
  assumes "distinct (map key table)" and "0 < limit" and "length table < n"
  shows "keyset_walk n key p limit None table = listing key p table"
proof -
  have "length (listing key p table) \<le> length table"
    by (simp add: listing_def)
  then show ?thesis
    using keyset_walk_from [OF assms(1,2), of 0 p n None] assms(3) by simp
qed

subsection \<open>The text of a cursor\<close>

definition rstrip_eq :: "string \<Rightarrow> string" where
  "rstrip_eq s = rev (dropWhile (\<lambda>c. c = CHR ''='') (rev s))"

definition utc_to_Z :: "string \<Rightarrow> string" where
  "utc_to_Z s = (if 6 \<le> length s \<and> drop (length s - 6) s = ''+00:00'' then take (length s - 6) s @ ''Z'' else s)"

definition Z_to_utc :: "string \<Rightarrow> string" where
  "Z_to_utc s = (if s \<noteq> [] \<and> last s = CHR ''Z'' then butlast s @ ''+00:00'' else s)"

text \<open>
  The library functions: \<open>isoformat\<close> in UTC, \<open>json.dumps\<close>, \<open>urlsafe_b64encode\<close>, and their
  partial inverses, \<open>None\<close> where they raise.
\<close>

record cursor_codec =
  cc_iso :: "rat \<Rightarrow> string"
  cc_dumps :: "string \<times> string \<Rightarrow> string"
  cc_b64 :: "string \<Rightarrow> string"
  cc_unb64 :: "string \<Rightarrow> string option"
  cc_loads :: "string \<Rightarrow> (string \<times> string) option"
  cc_fromiso :: "string \<Rightarrow> py_datetime option"
  cc_uuid :: "string \<Rightarrow> string option"

definition encode_cursor :: "cursor_codec \<Rightarrow> rat \<Rightarrow> string \<Rightarrow> string" where
  "encode_cursor cc t i = rstrip_eq (cc_b64 cc (cc_dumps cc (utc_to_Z (cc_iso cc t), i)))"

definition decode_cursor :: "cursor_codec \<Rightarrow> string \<Rightarrow> (rat \<times> string) result" where
  "decode_cursor cc cursor =
     (let bad = Inl (ValueError ''invalid_pagination_cursor'');
          padding = replicate (nat ((- int (length cursor)) mod 4)) (CHR ''='') in
      case cc_unb64 cc (cursor @ padding) of
        None \<Rightarrow> bad
      | Some raw \<Rightarrow> (case cc_loads cc raw of
            None \<Rightarrow> bad
          | Some (t, i) \<Rightarrow> (case cc_fromiso cc (Z_to_utc t) of
                None \<Rightarrow> bad
              | Some d \<Rightarrow> if \<not> aware d then bad
                  else (case cc_uuid cc i of None \<Rightarrow> bad | Some u \<Rightarrow> Inr (utc_seconds d, u)))))"

lemma rstrip_eq_append: "CHR ''='' \<notin> set body \<Longrightarrow> rstrip_eq (body @ replicate k (CHR ''='')) = body"
proof -
  assume n: "CHR ''='' \<notin> set body"
  have 1: "rev body = [] \<or> \<not> hd (rev body) = CHR ''=''"
  proof (rule disjCI)
    assume "\<not> \<not> hd (rev body) = CHR ''=''"
    then have h: "hd (rev body) = CHR ''=''" by blast
    have "rev body \<noteq> [] \<Longrightarrow> hd (rev body) \<in> set body" by (metis hd_in_set set_rev)
    then show "rev body = []" using n unfolding h by blast
  qed
  have 2: "dropWhile (\<lambda>c. c = CHR ''='') (rev body) = rev body"
    using dropWhile_eq_self [where P = "\<lambda>c. c = CHR ''=''" and xs = "rev body"] 1 by blast
  have "dropWhile (\<lambda>c. c = CHR ''='') (replicate k (CHR ''='') @ xs) = dropWhile (\<lambda>c. c = CHR ''='') xs" for xs
    by (induction k) simp_all
  then show ?thesis by (simp only: rstrip_eq_def rev_append rev_replicate 2 rev_rev_ident)
qed

lemma padding_restored:
  assumes "length (body @ replicate k (CHR ''='')) mod 4 = 0" "k < 4"
  shows "nat ((- int (length body)) mod 4) = k"
proof -
  have "(length body + k) mod 4 = 0" using assms(1) by simp
  then have "(- int (length body)) mod 4 = int k" using assms(2) by presburger
  then show ?thesis by simp
qed

lemma Z_utc_roundtrip: "Z_to_utc (utc_to_Z (p @ ''+00:00'')) = p @ ''+00:00''"
  by (simp add: utc_to_Z_def Z_to_utc_def)

end
