(* ===== verification/Known_Signals.thy ===== *)
theory Known_Signals
  imports Store
begin

section \<open>Known signals and spectrum markers\<close>

text \<open>
  \<open>services/known_signals/matching.py\<close> (the comparison of a measurement with a profile) and
  \<open>routers/markers_known.py\<close> (the tables of known signals and of markers with their handlers).
  The table constraints of \<open>database/migrations\<close> 010 and 011 are part of the handlers: a row that
  violates one makes the statement raise.
\<close>

subsection \<open>Profiles and the comparison\<close>

datatype signal_status = Active | Disabled | Expired

record signal_profile =
  ks_id :: nat
  ks_location :: "string option"
  ks_center_hz :: int
  ks_tolerance_hz :: int
  ks_bandwidth_hz :: "int option"
  ks_power_min :: "rat option"
  ks_power_max :: "rat option"
  ks_modulation :: "string option"
  ks_protocol :: "string option"
  ks_source_type :: "string option"
  ks_label :: string
  ks_status :: signal_status
  ks_suppress :: bool
  ks_valid_from :: "rat option"
  ks_valid_until :: "rat option"
  ks_archived :: bool
  ks_updated_at :: rat

record measurement =
  ms_center_hz :: int
  ms_bandwidth_hz :: "int option"
  ms_power_dbm :: "rat option"
  ms_modulation :: "string option"
  ms_protocol :: "string option"
  ms_source_type :: "string option"
  ms_location :: "string option"

record signal_match =
  known_signal_id :: nat
  matched :: bool
  suppress_alert :: bool
  frequency_delta_hz :: int
  matched_attributes :: "string list"
  mismatches :: "string list"

text \<open>One attribute check: \<open>reason\<close> goes to the matches, to the mismatches, or nowhere.\<close>

definition attribute_check ::
  "string \<Rightarrow> ('a \<Rightarrow> 'b \<Rightarrow> bool) \<Rightarrow> 'b option \<Rightarrow> 'a option \<Rightarrow> string list \<times> string list" where
  "attribute_check reason compare target v =
     (case target of
        None \<Rightarrow> ([], [])
      | Some t \<Rightarrow> (case v of
            None \<Rightarrow> ([], [reason @ ''_missing''])
          | Some x \<Rightarrow> if compare x t then ([reason], []) else ([], [reason])))"

definition same_folded :: "string \<Rightarrow> string \<Rightarrow> bool" where
  "same_folded a b = (py_lower a = py_lower b)"

definition attribute_checks :: "signal_profile \<Rightarrow> measurement \<Rightarrow> (string list \<times> string list) list" where
  "attribute_checks p m =
     [attribute_check ''bandwidth''
        (\<lambda>v t. of_int \<bar>v - t\<bar> \<le> max (of_int t * (1 / 4)) (of_int (ks_tolerance_hz p) :: rat))
        (ks_bandwidth_hz p) (ms_bandwidth_hz m),
      attribute_check ''power_min'' (\<lambda>v t. t \<le> v) (ks_power_min p) (ms_power_dbm m),
      attribute_check ''power_max'' (\<lambda>v t. v \<le> t) (ks_power_max p) (ms_power_dbm m),
      attribute_check ''modulation'' same_folded (ks_modulation p) (ms_modulation m),
      attribute_check ''protocol'' same_folded (ks_protocol p) (ms_protocol m),
      attribute_check ''source_type'' same_folded (ks_source_type p) (ms_source_type m),
      attribute_check ''location'' (=) (ks_location p) (ms_location m)]"

definition evaluate_known_signal :: "signal_profile \<Rightarrow> measurement \<Rightarrow> signal_match" where
  "evaluate_known_signal p m =
     (let delta = \<bar>ms_center_hz m - ks_center_hz p\<bar>;
          freq = (if delta \<le> ks_tolerance_hz p then ([''frequency''], []) else ([], [''frequency'']));
          outcomes = freq # attribute_checks p m;
          reasons = concat (map fst outcomes); misses = concat (map snd outcomes);
          ok = (misses = [])
      in \<lparr>known_signal_id = ks_id p, matched = ok,
          suppress_alert = (ok \<and> ks_suppress p \<and> ks_status p = Active),
          frequency_delta_hz = delta, matched_attributes = reasons, mismatches = misses\<rparr>)"

text \<open>The candidates of a frequency: valid now, within their tolerance, nearest first, at most 20.\<close>

definition in_force :: "rat \<Rightarrow> signal_profile \<Rightarrow> bool" where
  "in_force now p = (\<not> ks_archived p \<and> ks_status p = Active
     \<and> (case ks_valid_from p of None \<Rightarrow> True | Some t \<Rightarrow> t \<le> now)
     \<and> (case ks_valid_until p of None \<Rightarrow> True | Some t \<Rightarrow> now < t))"

definition candidates :: "rat \<Rightarrow> int \<Rightarrow> (signal_profile \<Rightarrow> bool) \<Rightarrow> signal_profile list \<Rightarrow> signal_profile list" where
  "candidates now center extra table =
     take 20 (sort_key (\<lambda>p. \<bar>ks_center_hz p - center\<bar>) (sort_key (\<lambda>p. - ks_updated_at p)
       (filter (\<lambda>p. in_force now p \<and> \<bar>ks_center_hz p - center\<bar> \<le> ks_tolerance_hz p \<and> extra p) table)))"

definition match_known_signal ::
  "(string \<Rightarrow> string option) \<Rightarrow> rat \<Rightarrow> measurement \<Rightarrow> signal_profile list \<Rightarrow>
    (signal_match list \<times> bool \<times> bool) result" where
  "match_known_signal parse now m table =
     and_then (validated_optional_uuid parse (ms_location m) ''location_id'') (\<lambda>loc.
       let ms = map (\<lambda>p. evaluate_known_signal p m)
             (candidates now (ms_center_hz m) (\<lambda>p. ks_location p = None \<or> (loc \<noteq> None \<and> ks_location p = loc)) table)
       in Inr (ms, list_ex matched ms, list_ex suppress_alert ms))"

subsection \<open>The table of known signals\<close>

text \<open>The CHECK constraints of the table.\<close>

definition profile_constraints :: "signal_profile \<Rightarrow> bool" where
  "profile_constraints p = (0 < ks_center_hz p \<and> 0 < ks_tolerance_hz p
     \<and> (case ks_bandwidth_hz p of None \<Rightarrow> True | Some b \<Rightarrow> 0 < b)
     \<and> py_strip (ks_label p) \<noteq> [] \<and> length (py_strip (ks_label p)) \<le> 200
     \<and> (case (ks_power_min p, ks_power_max p) of (Some a, Some b) \<Rightarrow> a \<le> b | _ \<Rightarrow> True)
     \<and> (case (ks_valid_from p, ks_valid_until p) of (Some a, Some b) \<Rightarrow> a < b | _ \<Rightarrow> True))"

definition check_violation :: py_error where
  "check_violation = RuntimeError ''CheckViolation''"

text \<open>A request: the profile to be, with the status still a text.\<close>

definition status_of_text :: "string \<Rightarrow> signal_status option" where
  "status_of_text s = map_of [(''active'', Active), (''disabled'', Disabled), (''expired'', Expired)] s"

definition validate_create :: "signal_profile \<Rightarrow> string \<Rightarrow> signal_status result" where
  "validate_create p status =
     (if ks_center_hz p \<le> 0 \<or> ks_tolerance_hz p \<le> 0
      then Inl (HTTPException 422 ''invalid_known_signal_frequency'')
      else case status_of_text status of
        None \<Rightarrow> Inl (HTTPException 422 ''invalid_known_signal_status'')
      | Some st \<Rightarrow>
          if py_strip (ks_label p) = [] \<or> 200 < length (ks_label p)
          then Inl (HTTPException 422 ''invalid_known_signal_label'')
          else if (case (ks_power_min p, ks_power_max p) of (Some a, Some b) \<Rightarrow> b < a | _ \<Rightarrow> False)
          then Inl (HTTPException 422 ''invalid_known_signal_power_range'')
          else Inr st)"

definition create_known_signal ::
  "(string \<Rightarrow> string option) \<Rightarrow> nat \<Rightarrow> rat \<Rightarrow> signal_profile \<Rightarrow> string \<Rightarrow> signal_profile list \<Rightarrow>
    (signal_profile list \<times> signal_profile) result" where
  "create_known_signal parse fresh now p status table =
     and_then (validate_create p status) (\<lambda>st.
       and_then (validated_optional_uuid parse (ks_location p) ''location_id'') (\<lambda>loc.
         let row = p\<lparr>ks_id := fresh, ks_location := loc, ks_label := py_strip (ks_label p), ks_status := st,
             ks_archived := False, ks_updated_at := now\<rparr>
         in if profile_constraints row then Inr (table @ [row], row) else Inl check_violation))"

text \<open>A PATCH sets the fields that are present; \<open>None\<close> inside is an explicit null.\<close>

datatype signal_change =
    Set_Tolerance "int option"
  | Set_Bandwidth "int option"
  | Set_Power_Min "rat option"
  | Set_Power_Max "rat option"
  | Set_Modulation "string option"
  | Set_Protocol "string option"
  | Set_Source_Type "string option"
  | Set_Label "string option"
  | Set_Status "string option"
  | Set_Suppress "bool option"
  | Set_Valid_From "rat option"
  | Set_Valid_Until "rat option"

fun change_error :: "signal_change \<Rightarrow> py_error option" where
  "change_error (Set_Tolerance None) = Some (TypeError ''<= not supported between NoneType and int'')"
| "change_error (Set_Tolerance (Some t)) =
     (if t \<le> 0 then Some (HTTPException 422 ''invalid_known_signal_frequency'') else None)"
| "change_error (Set_Status s) =
     (if s \<in> Some ` {''active'', ''disabled'', ''expired''} then None
      else Some (HTTPException 422 ''invalid_known_signal_status''))"
| "change_error (Set_Label l) =
     (if l = None \<or> py_strip (or_empty l) = [] \<or> 200 < length (or_empty l)
      then Some (HTTPException 422 ''invalid_known_signal_label'') else None)"
| "change_error _ = None"

text \<open>The order of the tests in \<open>_validate_known_signal\<close>: frequency, status, label, power range.\<close>

definition first_error :: "signal_change list \<Rightarrow> py_error option" where
  "first_error cs =
     (case List.map_filter change_error (filter (\<lambda>c. case c of Set_Tolerance _ \<Rightarrow> True | _ \<Rightarrow> False) cs
         @ filter (\<lambda>c. case c of Set_Status _ \<Rightarrow> True | _ \<Rightarrow> False) cs
         @ filter (\<lambda>c. case c of Set_Label _ \<Rightarrow> True | _ \<Rightarrow> False) cs) of
        [] \<Rightarrow> None | e # _ \<Rightarrow> Some e)"

definition power_range_bad :: "signal_change list \<Rightarrow> bool" where
  "power_range_bad cs =
     list_ex (\<lambda>c. case c of
         Set_Power_Min (Some a) \<Rightarrow> list_ex (\<lambda>d. case d of Set_Power_Max (Some b) \<Rightarrow> b < a | _ \<Rightarrow> False) cs
       | _ \<Rightarrow> False) cs"

fun apply_change :: "signal_change \<Rightarrow> signal_profile \<Rightarrow> signal_profile result" where
  "apply_change (Set_Tolerance (Some t)) p = Inr (p\<lparr>ks_tolerance_hz := t\<rparr>)"
| "apply_change (Set_Tolerance None) p = Inl check_violation"
| "apply_change (Set_Bandwidth b) p = Inr (p\<lparr>ks_bandwidth_hz := b\<rparr>)"
| "apply_change (Set_Power_Min x) p = Inr (p\<lparr>ks_power_min := x\<rparr>)"
| "apply_change (Set_Power_Max x) p = Inr (p\<lparr>ks_power_max := x\<rparr>)"
| "apply_change (Set_Modulation x) p = Inr (p\<lparr>ks_modulation := x\<rparr>)"
| "apply_change (Set_Protocol x) p = Inr (p\<lparr>ks_protocol := x\<rparr>)"
| "apply_change (Set_Source_Type x) p = Inr (p\<lparr>ks_source_type := x\<rparr>)"
| "apply_change (Set_Label (Some l)) p = Inr (p\<lparr>ks_label := l\<rparr>)"
| "apply_change (Set_Label None) p = Inl check_violation"
| "apply_change (Set_Status s) p = (case status_of_text (or_empty s) of
     None \<Rightarrow> Inl check_violation | Some st \<Rightarrow> Inr (p\<lparr>ks_status := st\<rparr>))"
| "apply_change (Set_Suppress (Some b)) p = Inr (p\<lparr>ks_suppress := b\<rparr>)"
| "apply_change (Set_Suppress None) p = Inl check_violation"
| "apply_change (Set_Valid_From x) p = Inr (p\<lparr>ks_valid_from := x\<rparr>)"
| "apply_change (Set_Valid_Until x) p = Inr (p\<lparr>ks_valid_until := x\<rparr>)"

definition update_known_signal ::
  "rat \<Rightarrow> nat \<Rightarrow> signal_change list \<Rightarrow> signal_profile list \<Rightarrow> signal_profile list result" where
  "update_known_signal now i cs table =
     (case first_error cs of
        Some e \<Rightarrow> Inl e
      | None \<Rightarrow>
          if power_range_bad cs then Inl (HTTPException 422 ''invalid_known_signal_power_range'')
          else if cs = [] then Inl (HTTPException 422 ''empty_update'')
          else (case find (\<lambda>p. ks_id p = i) table of
              None \<Rightarrow> Inl (HTTPException 404 ''known_signal_not_found'')
            | Some p \<Rightarrow> and_then (fold_result (\<lambda>q c. apply_change c q) p cs) (\<lambda>q.
                if profile_constraints q
                then Inr (update_where (\<lambda>r. ks_id r = i) (\<lambda>_. q\<lparr>ks_updated_at := now\<rparr>) table)
                else Inl check_violation)))"

definition archive_known_signal :: "rat \<Rightarrow> nat \<Rightarrow> signal_profile list \<Rightarrow> signal_profile list result" where
  "archive_known_signal now i table =
     (let live = (\<lambda>p. ks_id p = i \<and> \<not> ks_archived p) in
      if list_ex live table
      then Inr (update_where live (\<lambda>p. p\<lparr>ks_archived := True, ks_status := Disabled, ks_updated_at := now\<rparr>) table)
      else Inl (HTTPException 404 ''known_signal_not_found_or_archived''))"

definition list_known_signals ::
  "int \<Rightarrow> string option \<Rightarrow> bool \<Rightarrow> signal_profile list \<Rightarrow> signal_profile list result" where
  "list_known_signals limit status include_archived table =
     (let query = (\<lambda>st. take (bounded_limit limit) (sort_key (\<lambda>p. - ks_updated_at p)
            (filter (\<lambda>p. (case st of None \<Rightarrow> True | Some s \<Rightarrow> ks_status p = s)
               \<and> (include_archived \<or> \<not> ks_archived p)) table)))
      in if truthy status
         then (case status_of_text (or_empty status) of
             None \<Rightarrow> Inl (HTTPException 422 ''invalid_known_signal_status'')
           | Some s \<Rightarrow> Inr (query (Some s)))
         else Inr (query None))"

subsection \<open>Spectrum markers\<close>

record marker =
  mk_id :: nat
  mk_location :: "string option"
  mk_session :: "string option"
  mk_recording :: "string option"
  mk_frequency_hz :: int
  mk_power_dbm :: "rat option"
  mk_label :: string
  mk_archived :: bool
  mk_created_at :: rat

definition recording_id_char :: "char \<Rightarrow> bool" where
  "recording_id_char c = (let n = (of_char c :: nat) in
     (48 \<le> n \<and> n \<le> 57) \<or> (65 \<le> n \<and> n \<le> 90) \<or> (97 \<le> n \<and> n \<le> 122) \<or> c \<in> {CHR ''.'', CHR ''_'', CHR ''-''})"

definition valid_recording_id :: "string \<Rightarrow> bool" where
  "valid_recording_id s = (1 \<le> length s \<and> length s \<le> 128 \<and> list_all recording_id_char s)"

definition create_marker ::
  "(string \<Rightarrow> string option) \<Rightarrow> nat \<Rightarrow> rat \<Rightarrow> marker \<Rightarrow> marker list \<Rightarrow> (marker list \<times> marker) result" where
  "create_marker parse fresh now r table =
     (if mk_frequency_hz r \<le> 0 then Inl (HTTPException 422 ''invalid_frequency_hz'')
      else let label = py_strip (mk_label r) in
      if label = [] \<or> 200 < length label then Inl (HTTPException 422 ''invalid_label'')
      else and_then (validated_optional_uuid parse (mk_session r) ''measurement_session_id'') (\<lambda>session.
        and_then (validated_optional_uuid parse (mk_location r) ''location_id'') (\<lambda>loc.
          let recording = (if truthy (mk_recording r) then Some (py_strip (or_empty (mk_recording r))) else None) in
          if truthy recording \<and> \<not> valid_recording_id (or_empty recording)
          then Inl (HTTPException 422 ''invalid_recording_id'')
          else let row = r\<lparr>mk_id := fresh, mk_location := loc, mk_session := session, mk_recording := recording,
                 mk_label := label, mk_archived := False, mk_created_at := now\<rparr>
            in Inr (table @ [row], row))))"

definition archive_marker :: "nat \<Rightarrow> marker list \<Rightarrow> marker list result" where
  "archive_marker i table =
     (let live = (\<lambda>m. mk_id m = i \<and> \<not> mk_archived m) in
      if list_ex live table then Inr (update_where live (\<lambda>m. m\<lparr>mk_archived := True\<rparr>) table)
      else Inl (HTTPException 404 ''marker_not_found_or_archived''))"

definition list_markers ::
  "(string \<Rightarrow> string option) \<Rightarrow> int \<Rightarrow> string option \<Rightarrow> bool \<Rightarrow> marker list \<Rightarrow> marker list result" where
  "list_markers parse limit session include_archived table =
     and_then (validated_optional_uuid parse session ''measurement_session_id'') (\<lambda>s.
       Inr (take (bounded_limit limit) (sort_key (\<lambda>m. - mk_created_at m)
         (filter (\<lambda>m. (s = None \<or> mk_session m = s) \<and> (include_archived \<or> \<not> mk_archived m)) table))))"

subsection \<open>Lemmas\<close>

lemma attribute_check_clean:
  "snd (attribute_check reason compare target v) = [] \<longleftrightarrow>
     (\<forall>t. target = Some t \<longrightarrow> (\<exists>x. v = Some x \<and> compare x t))"
  by (auto simp: attribute_check_def split: option.splits)

lemma matched_iff:
  "matched (evaluate_known_signal p m) \<longleftrightarrow>
     \<bar>ms_center_hz m - ks_center_hz p\<bar> \<le> ks_tolerance_hz p
     \<and> (\<forall>t. ks_bandwidth_hz p = Some t \<longrightarrow> (\<exists>x. ms_bandwidth_hz m = Some x \<and>
          of_int \<bar>x - t\<bar> \<le> max (of_int t * (1 / 4)) (of_int (ks_tolerance_hz p) :: rat)))
     \<and> (\<forall>t. ks_power_min p = Some t \<longrightarrow> (\<exists>x. ms_power_dbm m = Some x \<and> t \<le> x))
     \<and> (\<forall>t. ks_power_max p = Some t \<longrightarrow> (\<exists>x. ms_power_dbm m = Some x \<and> x \<le> t))
     \<and> (\<forall>t. ks_modulation p = Some t \<longrightarrow> (\<exists>x. ms_modulation m = Some x \<and> same_folded x t))
     \<and> (\<forall>t. ks_protocol p = Some t \<longrightarrow> (\<exists>x. ms_protocol m = Some x \<and> same_folded x t))
     \<and> (\<forall>t. ks_source_type p = Some t \<longrightarrow> (\<exists>x. ms_source_type m = Some x \<and> same_folded x t))
     \<and> (\<forall>t. ks_location p = Some t \<longrightarrow> ms_location m = Some t)"
  by (simp add: evaluate_known_signal_def attribute_checks_def attribute_check_clean Let_def)

lemma suppress_iff:
  "suppress_alert (evaluate_known_signal p m) \<longleftrightarrow>
     matched (evaluate_known_signal p m) \<and> ks_suppress p \<and> ks_status p = Active"
  by (simp add: evaluate_known_signal_def Let_def)

definition signals_ok :: "signal_profile list \<Rightarrow> bool" where
  "signals_ok table = (distinct (map ks_id table) \<and> list_all profile_constraints table)"

lemma apply_change_id: "apply_change c p = Inr q \<Longrightarrow> ks_id q = ks_id p"
  by (induction c p rule: apply_change.induct) (auto split: option.splits)

lemma apply_changes_id:
  assumes "fold_result (\<lambda>q c. apply_change c q) p cs = Inr q" shows "ks_id q = ks_id p"
  using fold_result_invariant [OF assms, of "\<lambda>r. ks_id r = ks_id p"] apply_change_id by fastforce

lemma constraints_updated [simp]: "profile_constraints (q\<lparr>ks_updated_at := t\<rparr>) = profile_constraints q"
  by (simp add: profile_constraints_def)

lemma constraints_archived [simp]:
  "profile_constraints (q\<lparr>ks_archived := b\<rparr>) = profile_constraints q"
  "profile_constraints (q\<lparr>ks_archived := b, ks_status := st\<rparr>) = profile_constraints q"
  by (simp_all add: profile_constraints_def)

lemma create_known_signal_ok:
  assumes "create_known_signal parse fresh now p status table = Inr (table', row)"
    and "signals_ok table" "fresh \<notin> ks_id ` set table"
  shows "signals_ok table'"
  using assms by (auto simp: create_known_signal_def signals_ok_def and_then_Inr_iff Let_def list_all_iff
      split: if_splits)

lemma update_known_signal_ok:
  assumes "update_known_signal now i cs table = Inr table'" and "signals_ok table"
  shows "signals_ok table'"
proof -
  from assms(1) obtain p q where q: "find (\<lambda>p. ks_id p = i) table = Some p"
    "fold_result (\<lambda>q c. apply_change c q) p cs = Inr q" "profile_constraints q"
    "table' = update_where (\<lambda>r. ks_id r = i) (\<lambda>_. q\<lparr>ks_updated_at := now\<rparr>) table"
    by (auto simp: update_known_signal_def and_then_Inr_iff split: option.splits if_splits)
  have id: "ks_id q = i" using apply_changes_id [OF q(2)] q(1) by (auto simp: find_Some_iff)
  then have "map ks_id table' = map ks_id table"
    unfolding q(4) by (intro map_update_where) auto
  moreover have "list_all profile_constraints table'"
    using assms(2) q(3,4) by (auto simp: signals_ok_def list_all_iff in_update_where)
  ultimately show ?thesis using assms(2) by (simp add: signals_ok_def)
qed

lemma archive_known_signal_ok:
  assumes "archive_known_signal now i table = Inr table'" and "signals_ok table"
  shows "signals_ok table'"
proof -
  from assms(1) have t: "table' = update_where (\<lambda>p. ks_id p = i \<and> \<not> ks_archived p)
      (\<lambda>p. p\<lparr>ks_archived := True, ks_status := Disabled, ks_updated_at := now\<rparr>) table"
    by (auto simp: archive_known_signal_def Let_def split: if_splits)
  have "map ks_id table' = map ks_id table" unfolding t by (intro map_update_where) auto
  moreover have "list_all profile_constraints table'"
    using assms(2) unfolding t by (auto simp: signals_ok_def list_all_iff in_update_where)
  ultimately show ?thesis using assms(2) by (simp add: signals_ok_def)
qed

lemma in_candidates: "p \<in> set (candidates now c extra table) \<Longrightarrow>
    p \<in> set table \<and> in_force now p \<and> \<bar>ks_center_hz p - c\<bar> \<le> ks_tolerance_hz p \<and> extra p"
  by (auto simp: candidates_def dest: in_set_takeD)

subsection \<open>Properties\<close>

definition sample_profile :: signal_profile where
  "sample_profile = \<lparr>ks_id = 1, ks_location = None, ks_center_hz = 433920000, ks_tolerance_hz = 1000,
     ks_bandwidth_hz = None, ks_power_min = None, ks_power_max = None, ks_modulation = None,
     ks_protocol = None, ks_source_type = None, ks_label = ''key fob'', ks_status = Active,
     ks_suppress = True, ks_valid_from = None, ks_valid_until = None, ks_archived = False, ks_updated_at = 0\<rparr>"

definition sample_measurement :: measurement where
  "sample_measurement = \<lparr>ms_center_hz = 433920500, ms_bandwidth_hz = None, ms_power_dbm = None,
     ms_modulation = None, ms_protocol = None, ms_source_type = Some ''usrp'', ms_location = None\<rparr>"

text \<open>
  A measurement matches a known-signal profile exactly when its frequency is within the
  tolerance and every attribute that the profile states is measured and agrees: the bandwidth
  within a quarter of the target or the tolerance, the power inside the stated bounds, the
  modulation, protocol and source type up to case, the location exactly; and an alert is
  suppressed exactly by a match of an active profile that asks for it.
\<close>

theorem known_signal_match_characterised:
  "suppress_alert (evaluate_known_signal p m) \<longleftrightarrow>
     \<bar>ms_center_hz m - ks_center_hz p\<bar> \<le> ks_tolerance_hz p
     \<and> (\<forall>t. ks_bandwidth_hz p = Some t \<longrightarrow> (\<exists>x. ms_bandwidth_hz m = Some x \<and>
          of_int \<bar>x - t\<bar> \<le> max (of_int t * (1 / 4)) (of_int (ks_tolerance_hz p) :: rat)))
     \<and> (\<forall>t. ks_power_min p = Some t \<longrightarrow> (\<exists>x. ms_power_dbm m = Some x \<and> t \<le> x))
     \<and> (\<forall>t. ks_power_max p = Some t \<longrightarrow> (\<exists>x. ms_power_dbm m = Some x \<and> x \<le> t))
     \<and> (\<forall>t. ks_modulation p = Some t \<longrightarrow> (\<exists>x. ms_modulation m = Some x \<and> same_folded x t))
     \<and> (\<forall>t. ks_protocol p = Some t \<longrightarrow> (\<exists>x. ms_protocol m = Some x \<and> same_folded x t))
     \<and> (\<forall>t. ks_source_type p = Some t \<longrightarrow> (\<exists>x. ms_source_type m = Some x \<and> same_folded x t))
     \<and> (\<forall>t. ks_location p = Some t \<longrightarrow> ms_location m = Some t)
     \<and> ks_suppress p \<and> ks_status p = Active"
  using suppress_iff matched_iff by simp

lemma known_signal_match_characterised_witness:
  "suppress_alert (evaluate_known_signal sample_profile sample_measurement)"
  using known_signal_match_characterised [of sample_profile sample_measurement]
  by (simp add: sample_profile_def sample_measurement_def)

text \<open>
  Frequency alone does suppress: for an active profile with \<open>suppress_alerts\<close> that states
  nothing but its frequency and tolerance (the API accepts such a profile), every measurement
  inside the tolerance is suppressed, whatever its power, bandwidth, source or location.
\<close>

theorem frequency_alone_suppresses:
  assumes "ks_suppress p" and "ks_status p = Active" and "ks_bandwidth_hz p = None"
    and "ks_power_min p = None" and "ks_power_max p = None" and "ks_modulation p = None"
    and "ks_protocol p = None" and "ks_source_type p = None" and "ks_location p = None"
    and "\<bar>ms_center_hz m - ks_center_hz p\<bar> \<le> ks_tolerance_hz p"
  shows "suppress_alert (evaluate_known_signal p m)"
  using assms suppress_iff matched_iff by simp

lemma frequency_alone_suppresses_witness:
  "(\<exists>r. create_known_signal (\<lambda>_. None) 1 0 sample_profile ''active'' [] = Inr r)
   \<and> suppress_alert (evaluate_known_signal sample_profile sample_measurement)"
proof
  show "\<exists>r. create_known_signal (\<lambda>_. None) 1 0 sample_profile ''active'' [] = Inr r"
    by (simp add: create_known_signal_def validate_create_def sample_profile_def status_of_text_def
        validated_optional_uuid_def profile_constraints_def py_strip_def is_space_def Let_def)
  show "suppress_alert (evaluate_known_signal sample_profile sample_measurement)"
    by (rule frequency_alone_suppresses) (simp_all add: sample_profile_def sample_measurement_def)
qed

text \<open>
  The table of known signals stays well-formed under create, update and archive: ids stay
  distinct and every row satisfies the table's constraints (positive frequency and tolerance, a
  label of 1 to 200 characters, ordered power and validity bounds); an archived or inactive signal
  is never a candidate for a match.
\<close>

theorem known_signals_table_invariant:
  assumes "signals_ok table"
  shows "(\<forall>parse fresh now p status table' row. fresh \<notin> ks_id ` set table \<longrightarrow>
        create_known_signal parse fresh now p status table = Inr (table', row) \<longrightarrow> signals_ok table')
    \<and> (\<forall>now i cs table'. update_known_signal now i cs table = Inr table' \<longrightarrow> signals_ok table')
    \<and> (\<forall>now i table'. archive_known_signal now i table = Inr table' \<longrightarrow> signals_ok table')
    \<and> (\<forall>now c extra p. p \<in> set (candidates now c extra table) \<longrightarrow> \<not> ks_archived p \<and> ks_status p = Active)"
  using assms create_known_signal_ok update_known_signal_ok archive_known_signal_ok in_candidates
  by (auto simp: in_force_def)

lemma known_signals_table_invariant_witness:
  "\<exists>table'. archive_known_signal 5 (ks_id sample_profile) [sample_profile] = Inr table' \<and> signals_ok table'"
proof -
  have ok: "signals_ok [sample_profile]"
    by (simp add: signals_ok_def profile_constraints_def sample_profile_def py_strip_def is_space_def)
  obtain table' where "archive_known_signal 5 (ks_id sample_profile) [sample_profile] = Inr table'"
    by (simp add: archive_known_signal_def sample_profile_def returning_def)
  then show ?thesis using known_signals_table_invariant [OF ok] by blast
qed

end
