(* ===== verification/Alerts.thy ===== *)
theory Alerts
  imports Store
begin

section \<open>The table of alerts\<close>

text \<open>
  The table \<open>system_alerts\<close> with the two upserts that write it (\<open>_persist_sync\<close> of
  \<open>services/anomaly/repository.py\<close>, \<open>_upsert_wifi_security_alert\<close> of
  \<open>routers/health_collectors.py\<close>) and the operator's transitions and listings of
  \<open>routers/anomalies_alerts.py\<close>. The partial unique index of migration 013 (one open or
  acknowledged row per deduplication key) is what \<open>ON CONFLICT\<close> refers to.
\<close>

datatype alert_status = Open | Acknowledged | Resolved

record alert =
  al_id :: nat
  al_severity :: string
  al_status :: alert_status
  al_source :: string
  al_code :: string
  al_message :: string
  al_entity_id :: "string option"
  al_metadata :: "(string \<times> pyval) list"
  al_domain :: string
  al_dedup :: "string option"
  al_occurrences :: nat
  al_last_seen :: rat
  al_detection :: "nat option"
  al_session :: "string option"
  al_acknowledged :: "(rat \<times> string \<times> string option) option"
  al_resolved :: "(rat \<times> string \<times> string option) option"

definition is_active :: "alert \<Rightarrow> bool" where
  "is_active a = (al_status a \<noteq> Resolved)"

text \<open>\<open>old || new\<close> of two JSON objects: the new one wins.\<close>

definition merge_json :: "(string \<times> pyval) list \<Rightarrow> (string \<times> pyval) list \<Rightarrow> (string \<times> pyval) list" where
  "merge_json old new = new @ filter (\<lambda>(k, v). k \<notin> fst ` set new) old"

text \<open>The common form of both upserts; they differ in what a conflict does to the row.\<close>

definition upsert_alert :: "(alert \<Rightarrow> alert \<Rightarrow> alert) \<Rightarrow> alert \<Rightarrow> alert list \<Rightarrow> alert list" where
  "upsert_alert on_conflict a table =
     (let hit = (\<lambda>r. is_active r \<and> al_dedup r \<noteq> None \<and> al_dedup r = al_dedup a) in
      if list_ex hit table then update_where hit (\<lambda>r. on_conflict r a) table else table @ [a])"

definition bump_alert :: "alert \<Rightarrow> alert \<Rightarrow> alert" where
  "bump_alert old new = old\<lparr>al_occurrences := al_occurrences old + 1, al_severity := al_severity new,
     al_message := al_message new, al_metadata := merge_json (al_metadata old) (al_metadata new)\<rparr>"

definition bump_rf_alert :: "alert \<Rightarrow> alert \<Rightarrow> alert" where
  "bump_rf_alert old new =
     (bump_alert old new)\<lparr>al_last_seen := al_last_seen new, al_detection := al_detection new\<rparr>"

definition bump_wifi_alert :: "alert \<Rightarrow> alert \<Rightarrow> alert" where
  "bump_wifi_alert old new =
     (bump_alert old new)\<lparr>al_last_seen := max (al_last_seen old) (al_last_seen new)\<rparr>"

definition upsert_rf_alert :: "alert \<Rightarrow> alert list \<Rightarrow> alert list" where
  "upsert_rf_alert = upsert_alert bump_rf_alert"

definition upsert_wifi_alert :: "alert \<Rightarrow> alert list \<Rightarrow> alert list" where
  "upsert_wifi_alert = upsert_alert bump_wifi_alert"

definition new_alert ::
  "nat \<Rightarrow> string \<Rightarrow> string \<Rightarrow> string \<Rightarrow> string \<Rightarrow> string option \<Rightarrow> (string \<times> pyval) list \<Rightarrow> string \<Rightarrow>
    string \<Rightarrow> rat \<Rightarrow> nat option \<Rightarrow> string option \<Rightarrow> alert" where
  "new_alert i sev source code message entity metadata domain dedup seen det session =
     \<lparr>al_id = i, al_severity = sev, al_status = Open, al_source = source, al_code = code,
      al_message = message, al_entity_id = entity, al_metadata = metadata, al_domain = domain,
      al_dedup = Some dedup, al_occurrences = 1, al_last_seen = seen, al_detection = det,
      al_session = session, al_acknowledged = None, al_resolved = None\<rparr>"

text \<open>\<open>_update_alert\<close>: the operator acknowledges or resolves an alert.\<close>

definition update_alert ::
  "rat \<Rightarrow> nat \<Rightarrow> string \<Rightarrow> string \<Rightarrow> string option \<Rightarrow> alert list \<Rightarrow> (alert list \<times> alert list) result" where
  "update_alert now i target operator note table =
     (let stamp = Some (now, operator, note);
          live = (\<lambda>a. al_id a = i \<and> al_status a \<noteq> Resolved) in
      if target \<notin> {''acknowledged'', ''resolved''} then Inl (ValueError ''unsupported alert transition'')
      else let set_row = (\<lambda>a. if target = ''acknowledged''
             then a\<lparr>al_status := Acknowledged, al_acknowledged := stamp\<rparr>
             else a\<lparr>al_status := Resolved, al_resolved := stamp\<rparr>)
      in if returning live set_row table = []
         then Inl (HTTPException 404 ''alert_not_found_or_already_resolved'')
         else Inr (update_where live set_row table, returning live set_row table))"

definition acknowledge_alert ::
  "rat \<Rightarrow> nat \<Rightarrow> string \<Rightarrow> string option \<Rightarrow> alert list \<Rightarrow> (alert list \<times> alert list) result" where
  "acknowledge_alert now i operator note table =
     update_alert now i ''acknowledged'' (take 200 (py_strip operator)) note table"

definition resolve_alert ::
  "rat \<Rightarrow> nat \<Rightarrow> string \<Rightarrow> string option \<Rightarrow> alert list \<Rightarrow> (alert list \<times> alert list) result" where
  "resolve_alert now i operator note table =
     update_alert now i ''resolved'' (take 200 (py_strip operator)) note table"

subsection \<open>Listings\<close>

definition status_text :: "alert_status \<Rightarrow> string" where
  "status_text s = (case s of Open \<Rightarrow> ''open'' | Acknowledged \<Rightarrow> ''acknowledged'' | Resolved \<Rightarrow> ''resolved'')"

text \<open>An optional filter: absent or empty means any, else it must be one of the known values.\<close>

definition optional_filter ::
  "string option \<Rightarrow> string list \<Rightarrow> string \<Rightarrow> (string \<Rightarrow> 'r \<Rightarrow> bool) \<Rightarrow> ('r \<Rightarrow> bool) result" where
  "optional_filter v allowed detail has =
     (if \<not> truthy v then Inr (\<lambda>_. True)
      else if or_empty v \<in> set allowed then Inr (has (or_empty v)) else Inl (HTTPException 422 detail))"

definition alert_key :: "alert \<Rightarrow> rat \<times> nat" where
  "alert_key a = (al_last_seen a, al_id a)"

definition list_alerts ::
  "nat \<Rightarrow> string option \<Rightarrow> string option \<Rightarrow> string option \<Rightarrow> (rat \<times> nat) result option \<Rightarrow> string option \<Rightarrow>
    alert list \<Rightarrow> (alert list \<times> bool \<times> (rat \<times> nat) option) result" where
  "list_alerts limit status domain severity cursor session table =
     and_then (optional_filter status [''open'', ''acknowledged'', ''resolved''] ''invalid_alert_status''
         (\<lambda>v a. status_text (al_status a) = v)) (\<lambda>p1.
     and_then (optional_filter domain [''technical'', ''rf_security'', ''wifi_security'', ''bluetooth_security'']
         ''invalid_alert_domain'' (\<lambda>v a. al_domain a = v)) (\<lambda>p2.
     and_then (optional_filter severity [''info'', ''warning'', ''error'', ''critical''] ''invalid_alert_severity''
         (\<lambda>v a. al_severity a = v)) (\<lambda>p3.
     and_then (case cursor of None \<Rightarrow> Inr None
         | Some (Inl e) \<Rightarrow> Inl (HTTPException 422 ''invalid_pagination_cursor'') | Some (Inr c) \<Rightarrow> Inr (Some c)) (\<lambda>c.
       Inr (keyset_page alert_key
         (\<lambda>a. (session = None \<or> al_session a = session) \<and> p1 a \<and> p2 a \<and> p3 a) limit c table)))))"

definition open_counts :: "alert list \<Rightarrow> (string \<times> nat) list" where
  "open_counts table = (let live = filter is_active table in
     map (\<lambda>s. (s, length (filter (\<lambda>a. al_severity a = s) live))) (remdups (map al_severity live)))"

subsection \<open>One Wi-Fi security event for the operator\<close>

definition blank :: "pyval \<Rightarrow> bool" where
  "blank v = (v = PNone \<or> v = PStr [])"

fun metadata_value :: "(string \<times> pyval) list \<Rightarrow> string list \<Rightarrow> pyval" where
  "metadata_value metadata [] = PNone"
| "metadata_value metadata (k # ks) =
     (if \<not> blank (dict_get metadata k) then dict_get metadata k
      else (case dict_get metadata ''evidence'' of
          PDict ev \<Rightarrow> if \<not> blank (dict_get ev k) then dict_get ev k else metadata_value metadata ks
        | _ \<Rightarrow> metadata_value metadata ks))"

definition wifi_security_event :: "alert \<Rightarrow> (string \<times> pyval) list" where
  "wifi_security_event a =
     (let md = al_metadata a; pick = metadata_value md in
      [(''alert_type'', PStr (al_code a)), (''severity'', PStr (al_severity a)),
       (''status'', PStr (status_text (al_status a))), (''source'', PStr (al_source a)),
       (''suspected_transmitter_mac'', pick [''suspected_transmitter_mac'', ''transmitter_mac'', ''source_mac'', ''src_mac'']),
       (''destination_mac'', pick [''destination_mac'', ''victim_mac'', ''dst_mac'']),
       (''bssid'', pick [''bssid'']), (''ssid'', pick [''ssid'']),
       (''frame_type'', pick [''frame_type'', ''management_frame_type'']),
       (''reason_code'', pick [''reason_code'']), (''channel'', pick [''channel'']),
       (''frequency_hz'', pick [''frequency_hz'']), (''rssi_dbm'', pick [''rssi_dbm'', ''signal_dbm'']),
       (''event_count'', if al_occurrences a \<noteq> 0 then PInt (int (al_occurrences a)) else pick [''event_count'']),
       (''description'', if \<not> blank (pick [''description'', ''explanation''])
          then pick [''description'', ''explanation''] else PStr (al_message a)),
       (''confidence'', pick [''confidence'']),
       (''review_state'', PStr (status_text (al_status a)))])"

subsection \<open>Invariant\<close>

definition alerts_ok :: "alert list \<Rightarrow> bool" where
  "alerts_ok table = (distinct (map al_id table)
     \<and> distinct (map al_dedup (filter (\<lambda>a. is_active a \<and> al_dedup a \<noteq> None) table))
     \<and> (\<forall>a\<in>set table. 0 < al_occurrences a))"

lemma bump_sel [simp]:
  "al_id (bump_rf_alert a b) = al_id a" "al_dedup (bump_rf_alert a b) = al_dedup a"
  "al_status (bump_rf_alert a b) = al_status a" "al_occurrences (bump_rf_alert a b) = al_occurrences a + 1"
  "al_id (bump_wifi_alert a b) = al_id a" "al_dedup (bump_wifi_alert a b) = al_dedup a"
  "al_status (bump_wifi_alert a b) = al_status a" "al_occurrences (bump_wifi_alert a b) = al_occurrences a + 1"
  by (simp_all add: bump_rf_alert_def bump_wifi_alert_def bump_alert_def)

lemma new_alert_sel [simp]:
  "al_id (new_alert i sv so c m e md do du se de ss) = i" "al_status (new_alert i sv so c m e md do du se de ss) = Open"
  "al_dedup (new_alert i sv so c m e md do du se de ss) = Some du"
  "al_occurrences (new_alert i sv so c m e md do du se de ss) = 1"
  by (simp_all add: new_alert_def)

text \<open>What an upsert needs of its conflict action.\<close>

definition keeps_identity :: "(alert \<Rightarrow> alert \<Rightarrow> alert) \<Rightarrow> bool" where
  "keeps_identity f = (\<forall>a b. al_id (f a b) = al_id a \<and> al_dedup (f a b) = al_dedup a
     \<and> al_status (f a b) = al_status a \<and> al_occurrences (f a b) = al_occurrences a + 1)"

lemma keeps_identity_bump: "keeps_identity bump_rf_alert" "keeps_identity bump_wifi_alert"
  by (simp_all add: keeps_identity_def)

lemma filter_update_where:
  "(\<And>r. p r \<Longrightarrow> q (f r) = q r) \<Longrightarrow> filter q (update_where p f rows) = update_where p f (filter q rows)"
  by (induction rows) (auto simp: update_where_def)

lemma upsert_alert_ok:
  assumes "keeps_identity f" "alerts_ok table" "is_active a" "0 < al_occurrences a" "al_id a \<notin> al_id ` set table"
  shows "alerts_ok (upsert_alert f a table)"
proof -
  let ?hit = "\<lambda>r. is_active r \<and> al_dedup r \<noteq> None \<and> al_dedup r = al_dedup a"
  let ?q = "\<lambda>r. is_active r \<and> al_dedup r \<noteq> None"
  show ?thesis
  proof (cases "list_ex ?hit table")
    case True
    have k: "al_id (f r a) = al_id r" "al_dedup (f r a) = al_dedup r" "is_active (f r a) = is_active r"
      "al_occurrences (f r a) = al_occurrences r + 1" for r
      using assms(1) by (simp_all add: keeps_identity_def is_active_def)
    have eq: "upsert_alert f a table = update_where ?hit (\<lambda>r. f r a) table"
      using True by (simp add: upsert_alert_def Let_def)
    have "map al_id (upsert_alert f a table) = map al_id table"
      unfolding eq by (intro map_update_where) (simp add: k)
    moreover have "map al_dedup (filter ?q (upsert_alert f a table)) = map al_dedup (filter ?q table)"
      unfolding eq by (subst filter_update_where) (simp_all add: k map_update_where)
    moreover have "\<forall>r\<in>set (upsert_alert f a table). 0 < al_occurrences r"
      using assms(2) unfolding eq by (auto simp: in_update_where k alerts_ok_def)
    ultimately show ?thesis using assms(2) by (simp add: alerts_ok_def)
  next
    case False
    then have "upsert_alert f a table = table @ [a]" by (simp add: upsert_alert_def Let_def)
    moreover have "is_active a \<and> al_dedup a \<noteq> None \<Longrightarrow> al_dedup a \<notin> set (map al_dedup (filter ?q table))"
      using False by (auto simp: list_ex_iff)
    ultimately show ?thesis using assms(2-5) by (auto simp: alerts_ok_def)
  qed
qed

lemma update_alert_rows:
  assumes "update_alert now i target operator note table = Inr (table', rows)"
  shows "(target = ''acknowledged'' \<or> target = ''resolved'') \<and> (\<exists>a\<in>set table. al_id a = i \<and> al_status a \<noteq> Resolved)
    \<and> table' = update_where (\<lambda>a. al_id a = i \<and> al_status a \<noteq> Resolved)
        (\<lambda>a. if target = ''acknowledged'' then a\<lparr>al_status := Acknowledged, al_acknowledged := Some (now, operator, note)\<rparr>
             else a\<lparr>al_status := Resolved, al_resolved := Some (now, operator, note)\<rparr>) table"
  using assms by (auto simp: update_alert_def returning_def Let_def filter_empty_conv split: if_splits)

definition active_keys :: "alert list \<Rightarrow> string option list" where
  "active_keys rs = map al_dedup (filter (\<lambda>a. is_active a \<and> al_dedup a \<noteq> None) rs)"

lemma active_keys_Cons:
  "active_keys (r # rs) = (if is_active r \<and> al_dedup r \<noteq> None then [al_dedup r] else []) @ active_keys rs"
  by (simp add: active_keys_def)

lemma active_keys_shrink:
  assumes "\<And>r. al_dedup (g r) = al_dedup r" "\<And>r. p r \<Longrightarrow> is_active r" "distinct (active_keys rs)"
  shows "distinct (active_keys (update_where p g rs)) \<and> set (active_keys (update_where p g rs)) \<subseteq> set (active_keys rs)"
  using assms(3)
proof (induction rs)
  case (Cons r rs)
  have u: "update_where p g (r # rs) = (if p r then g r else r) # update_where p g rs"
    by (simp add: update_where_def)
  have ih: "distinct (active_keys (update_where p g rs))" "set (active_keys (update_where p g rs)) \<subseteq> set (active_keys rs)"
    using Cons by (auto simp: active_keys_Cons split: if_splits)
  let ?r = "if p r then g r else r"
  have d: "al_dedup ?r = al_dedup r" "is_active ?r \<Longrightarrow> is_active r"
    using assms(1,2) by (auto split: if_splits)
  show ?case unfolding u active_keys_Cons d(1) using ih d(2) Cons.prems
    by (auto simp: active_keys_Cons split: if_splits)
qed (simp add: update_where_def active_keys_def)

lemma update_alert_ok:
  assumes u: "update_alert now i target operator note table = Inr (table', rows)" and ok: "alerts_ok table"
  shows "alerts_ok table'"
proof -
  let ?live = "\<lambda>a. al_id a = i \<and> al_status a \<noteq> Resolved"
  let ?set = "\<lambda>a. if target = ''acknowledged'' then a\<lparr>al_status := Acknowledged, al_acknowledged := Some (now, operator, note)\<rparr>
             else a\<lparr>al_status := Resolved, al_resolved := Some (now, operator, note)\<rparr>"
  let ?q = "\<lambda>a. is_active a \<and> al_dedup a \<noteq> None"
  have t: "table' = update_where ?live ?set table" using update_alert_rows [OF u] by blast
  have "map al_id table' = map al_id table" unfolding t by (intro map_update_where) simp
  moreover have "\<forall>r\<in>set table'. 0 < al_occurrences r"
    using ok unfolding t by (auto simp: in_update_where alerts_ok_def)
  moreover have "distinct (map al_dedup (filter ?q table'))"
    unfolding t active_keys_def [symmetric]
    by (rule active_keys_shrink [THEN conjunct1])
      (use ok in \<open>simp_all add: alerts_ok_def is_active_def active_keys_def\<close>)
  ultimately show ?thesis using ok by (simp add: alerts_ok_def)
qed

lemma resolved_unchanged_by_upsert:
  "r \<in> set table \<Longrightarrow> al_status r = Resolved \<Longrightarrow> r \<in> set (upsert_alert f a table)"
  by (simp add: upsert_alert_def is_active_def Let_def update_where_untouched)

lemma resolved_unchanged_by_update:
  assumes "update_alert now i target operator note table = Inr (table', rows)"
    and "r \<in> set table" "al_status r = Resolved"
  shows "r \<in> set table'"
  using update_alert_rows [OF assms(1)] assms(2,3) by (simp add: update_where_untouched)

text \<open>The number of events that the active row of a key has absorbed.\<close>

definition active_occurrences :: "string \<Rightarrow> alert list \<Rightarrow> nat" where
  "active_occurrences k table = (\<Sum>a\<leftarrow>filter (\<lambda>a. is_active a \<and> al_dedup a = Some k) table. al_occurrences a)"

lemma sum_update_one:
  assumes "distinct (map al_dedup (filter (\<lambda>a. is_active a \<and> al_dedup a \<noteq> None) rs))"
    and "list_ex (\<lambda>r. is_active r \<and> al_dedup r = Some k) rs"
    and "\<And>r. al_occurrences (g r) = al_occurrences r + 1 \<and> al_dedup (g r) = al_dedup r \<and> al_status (g r) = al_status r"
  shows "active_occurrences k (update_where (\<lambda>r. is_active r \<and> al_dedup r = Some k) g rs) = active_occurrences k rs + 1"
  using assms(1,2)
proof (induction rs)
  case (Cons r rs)
  have act: "is_active (g s) = is_active s" for s using assms(3) by (simp add: is_active_def)
  show ?case
  proof (cases "is_active r \<and> al_dedup r = Some k")
    case True
    then have "\<not> list_ex (\<lambda>r. is_active r \<and> al_dedup r = Some k) rs"
      using Cons.prems(1) by (force simp: list_ex_iff)
    then have n: "filter (\<lambda>r. is_active r \<and> al_dedup r = Some k) rs = []"
      by (auto simp: filter_empty_conv list_ex_iff)
    then have "update_where (\<lambda>r. is_active r \<and> al_dedup r = Some k) g rs = rs"
      by (rule filter_update_where_none)
    then show ?thesis using True n act assms(3) by (simp add: active_occurrences_def update_where_def)
  next
    case False
    have "distinct (map al_dedup (filter (\<lambda>a. is_active a \<and> al_dedup a \<noteq> None) rs))"
      using Cons.prems(1) by (auto split: if_splits)
    then show ?thesis using Cons.IH Cons.prems(2) False
      by (auto simp: active_occurrences_def update_where_def)
  qed
qed simp

lemma upsert_counts:
  assumes "keeps_identity f" "alerts_ok table" "is_active a" "al_dedup a = Some k" "al_occurrences a = 1"
  shows "active_occurrences k (upsert_alert f a table) = active_occurrences k table + 1"
proof -
  let ?hit = "\<lambda>r. is_active r \<and> al_dedup r = Some k"
  have h: "(\<lambda>r. is_active r \<and> al_dedup r \<noteq> None \<and> al_dedup r = al_dedup a) = ?hit"
    using assms(4) by auto
  show ?thesis
  proof (cases "list_ex ?hit table")
    case True
    then have eq: "upsert_alert f a table = update_where ?hit (\<lambda>r. f r a) table"
      unfolding upsert_alert_def Let_def h by simp
    show ?thesis unfolding eq
      by (rule sum_update_one) (use assms(1,2) True in \<open>auto simp: alerts_ok_def keeps_identity_def\<close>)
  next
    case False
    then have "filter ?hit table = []" by (auto simp: filter_empty_conv list_ex_iff)
    moreover have "upsert_alert f a table = table @ [a]"
      using False unfolding upsert_alert_def Let_def h by simp
    ultimately show ?thesis using assms(3-5) by (simp add: active_occurrences_def)
  qed
qed

lemma distinct_alert_key: "alerts_ok table \<Longrightarrow> distinct (map alert_key table)"
  by (auto simp: alerts_ok_def alert_key_def distinct_map inj_on_def)

subsection \<open>Properties\<close>

definition sample_alert :: "nat \<Rightarrow> alert" where
  "sample_alert i = new_alert i ''error'' ''anomaly_pipeline'' ''noise_floor_shift'' ''msg'' None [] ''rf_security''
     ''key'' (of_nat i) None None"

text \<open>
  Alert deduplication: starting from a well-formed table, an upsert of either kind keeps ids
  distinct and at most one open or acknowledged alert per deduplication key, and counts the event
  exactly once: the occurrences of the key's active alert grow by one (a first event opens an
  alert with one occurrence).
\<close>

theorem alert_upsert_deduplicates:
  assumes "alerts_ok table" and "is_active a" and "al_dedup a = Some k" and "al_occurrences a = 1"
    and "al_id a \<notin> al_id ` set table"
  shows "alerts_ok (upsert_rf_alert a table) \<and> alerts_ok (upsert_wifi_alert a table)
    \<and> active_occurrences k (upsert_rf_alert a table) = active_occurrences k table + 1
    \<and> active_occurrences k (upsert_wifi_alert a table) = active_occurrences k table + 1"
  using upsert_alert_ok [OF keeps_identity_bump(1) assms(1,2) _ assms(5)]
    upsert_alert_ok [OF keeps_identity_bump(2) assms(1,2) _ assms(5)]
    upsert_counts [OF keeps_identity_bump(1) assms(1-4)] upsert_counts [OF keeps_identity_bump(2) assms(1-4)]
    assms(4) by (simp add: upsert_rf_alert_def upsert_wifi_alert_def)

lemma alert_upsert_deduplicates_witness:
  "active_occurrences ''key'' (upsert_rf_alert (sample_alert 2) [sample_alert 1]) = active_occurrences ''key'' [sample_alert 1] + 1"
  by (rule alert_upsert_deduplicates [THEN conjunct2, THEN conjunct2, THEN conjunct1])
    (simp_all add: sample_alert_def alerts_ok_def is_active_def)

text \<open>
  The alert life cycle: only an open or acknowledged alert can be acknowledged or resolved, a
  transition keeps the table well-formed and changes no other alert, and a resolved alert is
  final: no later acknowledge, resolve or upsert changes it (a new event of its key opens a new
  alert).
\<close>

theorem alert_lifecycle:
  assumes "alerts_ok table" and "update_alert now i target operator note table = Inr (table', rows)"
  shows "alerts_ok table' \<and> (\<exists>a\<in>set table. al_id a = i \<and> al_status a \<noteq> Resolved)
    \<and> (\<forall>a\<in>set table. al_id a \<noteq> i \<longrightarrow> a \<in> set table')
    \<and> (\<forall>r\<in>set table. al_status r = Resolved \<longrightarrow> r \<in> set table'
         \<and> (\<forall>b. r \<in> set (upsert_rf_alert b table) \<and> r \<in> set (upsert_wifi_alert b table)))
    \<and> (target = ''resolved'' \<longrightarrow> (\<forall>a\<in>set table'. al_id a = i \<longrightarrow> al_status a = Resolved))"
proof -
  note u = update_alert_rows [OF assms(2)]
  have "a \<in> set table'" if "a \<in> set table" "al_id a \<noteq> i" for a
    using u that by (simp add: update_where_untouched)
  moreover have "al_status a = Resolved" if "target = ''resolved''" "a \<in> set table'" "al_id a = i" for a
  proof -
    have "target \<noteq> ''acknowledged''" using that(1) by simp
    with u have "table' = update_where (\<lambda>a. al_id a = i \<and> al_status a \<noteq> Resolved)
        (\<lambda>a. a\<lparr>al_status := Resolved, al_resolved := Some (now, operator, note)\<rparr>) table" by simp
    with that(2) obtain b where b: "a = (if al_id b = i \<and> al_status b \<noteq> Resolved
        then b\<lparr>al_status := Resolved, al_resolved := Some (now, operator, note)\<rparr> else b)"
      by (auto simp: in_update_where)
    then show ?thesis using that(3) by (cases "al_id b = i \<and> al_status b \<noteq> Resolved") auto
  qed
  ultimately show ?thesis
    using update_alert_ok [OF assms(2,1)] resolved_unchanged_by_update [OF assms(2)] u
    unfolding upsert_rf_alert_def upsert_wifi_alert_def
    by (blast intro: resolved_unchanged_by_upsert)
qed

lemma alert_lifecycle_witness:
  "\<exists>table' rows a. resolve_alert 5 1 ''op'' None [sample_alert 1] = Inr (table', rows)
     \<and> a \<in> set table' \<and> al_status a = Resolved"
proof -
  have ok: "alerts_ok [sample_alert 1]" by (simp add: sample_alert_def alerts_ok_def is_active_def)
  obtain table' rows where r: "update_alert 5 1 ''resolved'' (take 200 (py_strip ''op'')) None [sample_alert 1] = Inr (table', rows)"
    by (simp add: update_alert_def returning_def sample_alert_def Let_def)
  then have "map al_id table' = [1]"
    by (auto simp: update_alert_def update_where_def sample_alert_def Let_def split: if_splits)
  then obtain a where "a \<in> set table'" "al_id a = 1" by (cases table') auto
  with alert_lifecycle [OF ok r] r show ?thesis by (auto simp: resolve_alert_def)
qed

text \<open>
  Paging of the alert list is complete: a client that starts without a cursor and follows
  \<open>next_cursor\<close> gets every alert that passes the filter exactly once, ordered by
  \<open>(last_seen_at, id)\<close> descending, for every page size.
\<close>

theorem alert_paging_complete:
  assumes "alerts_ok table" and "0 < limit" and "length table < n"
  shows "keyset_walk n alert_key p limit None table = rev (sort_key alert_key (filter p table))
    \<and> mset (keyset_walk n alert_key p limit None table) = mset (filter p table)"
  using keyset_walk_complete [OF distinct_alert_key [OF assms(1)] assms(2,3)] by (simp add: listing_def)

lemma alert_paging_complete_witness:
  "mset (keyset_walk 3 alert_key is_active 1 None [sample_alert 1, sample_alert 2\<lparr>al_dedup := None\<rparr>])
     = mset (filter is_active [sample_alert 1, sample_alert 2\<lparr>al_dedup := None\<rparr>])"
  by (rule alert_paging_complete [THEN conjunct2])
    (simp_all add: sample_alert_def alerts_ok_def is_active_def)

end
