(* ===== verification/Anomaly_Pipeline.thy ===== *)
theory Anomaly_Pipeline
  imports Spectrum_Detector Bounded_Queue Known_Signals Alerts
begin

section \<open>The online anomaly pipeline\<close>

text \<open>
  \<open>services/anomaly/pipeline.py\<close> (the bounded queue, the worker and its counters) and
  \<open>services/anomaly/repository.py\<close> (known-signal matching, storing of detections and the
  deduplicated alerts of one frame, in one transaction). The digest of the deduplication key and
  the explanation texts are arguments.
\<close>

subsection \<open>Storing the detections of a frame\<close>

record envelope =
  env_frequencies :: "pyfloat list"
  env_powers :: "pyfloat list"
  env_sequence :: int
  env_timestamp :: string
  env_source_type :: string
  env_session :: "string option"
  env_recording :: "string option"

record stored_detection =
  sd_id :: nat
  sd_detection :: spectrum_detection
  sd_known_signal :: "nat option"
  sd_disposition :: string
  sd_suppression :: "string option"
  sd_matches :: "signal_match list"
  sd_session :: "string option"
  sd_recording :: "string option"
  sd_source_type :: string

record anomaly_db =
  db_detections :: "stored_detection list"
  db_alerts :: "alert list"
  db_signals :: "signal_profile list"
  db_next_id :: nat

definition severity_rank :: "string \<Rightarrow> nat option" where
  "severity_rank s = map_of [(''info'', 0), (''low'', 1), (''medium'', 2), (''high'', 3), (''critical'', 4)] s"

definition severity_to_alert :: "string \<Rightarrow> string" where
  "severity_to_alert s = (case map_of [(''info'', ''info''), (''low'', ''info''), (''medium'', ''warning''),
     (''high'', ''error''), (''critical'', ''critical'')] s of None \<Rightarrow> ''warning'' | Some a \<Rightarrow> a)"

definition alert_domain :: "string \<Rightarrow> string" where
  "alert_domain d = (case map_of [(''spectrum'', ''rf_security''), (''wifi'', ''wifi_security''),
     (''bluetooth'', ''bluetooth_security''), (''technical'', ''technical'')] d of
       None \<Rightarrow> ''technical'' | Some a \<Rightarrow> a)"

text \<open>\<open>a or b\<close> on optional integers: zero counts as absent.\<close>

definition int_or :: "int option \<Rightarrow> int option \<Rightarrow> int option" where
  "int_or a b = (case a of None \<Rightarrow> b | Some x \<Rightarrow> if x = 0 then b else Some x)"

definition nonzero :: "int option \<Rightarrow> bool" where
  "nonzero a = (case a of None \<Rightarrow> False | Some x \<Rightarrow> x \<noteq> 0)"

text \<open>The four parts of the key's raw text.\<close>

definition dedup_parts :: "spectrum_detection \<Rightarrow> string \<times> string \<times> int \<times> int" where
  "dedup_parts det =
     (let frequency = (case int_or (center_hz det) (start_hz det) of None \<Rightarrow> 0 | Some f \<Rightarrow> f);
          bandwidth = max (case bandwidth_hz det of None \<Rightarrow> 1 | Some b \<Rightarrow> if b = 0 then 1 else b) 1;
          bucket = (if frequency \<noteq> 0 then py_round (of_int frequency / of_int bandwidth) else 0)
      in (entity_domain det, class_name det, bucket, bandwidth))"

definition load_profiles :: "rat \<Rightarrow> spectrum_detection \<Rightarrow> signal_profile list \<Rightarrow> signal_profile list" where
  "load_profiles now det table =
     (if \<not> nonzero (center_hz det) then []
      else candidates now (case center_hz det of Some c \<Rightarrow> c | None \<Rightarrow> 0) (\<lambda>_. True) table)"

text \<open>The loop over the profiles: it stops at the first match.\<close>

fun match_loop :: "measurement \<Rightarrow> signal_profile list \<Rightarrow> signal_match list \<times> signal_match option" where
  "match_loop m [] = ([], None)"
| "match_loop m (p # ps) =
     (let r = evaluate_known_signal p m in
      if matched r then ([r], Some r) else (let (rs, hit) = match_loop m ps in (r # rs, hit)))"

definition detection_measurement :: "envelope \<Rightarrow> spectrum_detection \<Rightarrow> measurement" where
  "detection_measurement env det =
     \<lparr>ms_center_hz = (case int_or (center_hz det) (start_hz det) of None \<Rightarrow> 0 | Some f \<Rightarrow> f),
      ms_bandwidth_hz = bandwidth_hz det, ms_power_dbm = det_power_dbm det, ms_modulation = None,
      ms_protocol = None, ms_source_type = Some (env_source_type env), ms_location = None\<rparr>"

definition alerting :: "string \<Rightarrow> spectrum_detection \<Rightarrow> bool" where
  "alerting threshold det =
     ((case severity_rank threshold of None \<Rightarrow> 3 | Some r \<Rightarrow> r)
        \<le> (case severity_rank (severity det) of None \<Rightarrow> 0 | Some r \<Rightarrow> r))"

text \<open>What the transaction depends on from outside: the clock, the threshold, digest and texts.\<close>

record persist_env =
  pe_now :: rat
  pe_threshold :: string
  pe_digest :: "string \<times> string \<times> int \<times> int \<Rightarrow> string"
  pe_explain :: "spectrum_detection \<Rightarrow> string"
  pe_text :: "nat \<Rightarrow> string"

definition detection_row :: "persist_env \<Rightarrow> envelope \<Rightarrow> anomaly_db \<Rightarrow> spectrum_detection \<Rightarrow> stored_detection" where
  "detection_row pe env db det =
     (let profiles = (if nonzero (int_or (center_hz det) (start_hz det))
                      then load_profiles (pe_now pe) det (db_signals db) else []);
          (matches, hit) = match_loop (detection_measurement env det) profiles
      in \<lparr>sd_id = db_next_id db, sd_detection = det, sd_known_signal = map_option known_signal_id hit,
          sd_disposition = (case hit of Some _ \<Rightarrow> ''known'' | None \<Rightarrow> ''new''),
          sd_suppression = (case hit of None \<Rightarrow> None
             | Some r \<Rightarrow> if suppress_alert r then Some ''known_signal_profile_match'' else None),
          sd_matches = matches, sd_session = env_session env, sd_recording = env_recording env,
          sd_source_type = env_source_type env\<rparr>)"

definition detection_alert :: "persist_env \<Rightarrow> envelope \<Rightarrow> nat \<Rightarrow> spectrum_detection \<Rightarrow> alert" where
  "detection_alert pe env i det =
     new_alert (i + 1) (severity_to_alert (severity det)) ''anomaly_pipeline'' (class_name det)
       (pe_explain pe det) (Some (pe_text pe i))
       [(''evidence'', PDict (evidence det)), (''confidence'', PFloat (Fin (confidence det)))]
       (alert_domain (entity_domain det)) (pe_digest pe (dedup_parts det)) (pe_now pe) (Some i) (env_session env)"

definition persist_detection :: "persist_env \<Rightarrow> envelope \<Rightarrow> anomaly_db \<Rightarrow> spectrum_detection \<Rightarrow> anomaly_db" where
  "persist_detection pe env db det =
     (let row = detection_row pe env db det; i = db_next_id db;
          alerts = (if sd_suppression row = None \<and> alerting (pe_threshold pe) det
                    then upsert_rf_alert (detection_alert pe env i det) (db_alerts db) else db_alerts db)
      in db\<lparr>db_detections := db_detections db @ [row], db_alerts := alerts, db_next_id := i + 2\<rparr>)"

definition persist_batch :: "persist_env \<Rightarrow> envelope \<Rightarrow> spectrum_detection list \<Rightarrow> anomaly_db \<Rightarrow> anomaly_db" where
  "persist_batch pe env dets db = fold (\<lambda>det db. persist_detection pe env db det) dets db"

subsection \<open>The queue and the worker\<close>

record pipeline =
  pl_detector :: detector
  pl_queue :: "envelope bqueue"
  pl_recent :: "spectrum_detection list"
  pl_dropped_frames :: nat
  pl_processed_frames :: nat
  pl_detection_count :: nat
  pl_last_error :: "(string \<times> py_error) option"
  pl_running :: bool

definition new_pipeline :: "int \<Rightarrow> pipeline" where
  "new_pipeline queue_size = \<lparr>pl_detector = new_detector, pl_queue = new_queue (nat (max 1 queue_size)),
     pl_recent = [], pl_dropped_frames = 0, pl_processed_frames = 0, pl_detection_count = 0,
     pl_last_error = None, pl_running = False\<rparr>"

definition submit_nowait :: "envelope \<Rightarrow> pipeline \<Rightarrow> pipeline \<times> bool" where
  "submit_nowait env pl =
     (let (q, accepted) = offer_or_reject put_nowait (pl_queue pl) env in
      if accepted then (pl\<lparr>pl_queue := q\<rparr>, True)
      else (pl\<lparr>pl_dropped_frames := pl_dropped_frames pl + 1\<rparr>, False))"

text \<open>\<open>recent.appendleft\<close> on a deque of bounded length.\<close>

definition push_recent :: "nat \<Rightarrow> spectrum_detection list \<Rightarrow> spectrum_detection list \<Rightarrow> spectrum_detection list" where
  "push_recent limit dets recent = fold (\<lambda>det r. take limit (det # r)) dets recent"

text \<open>
  One turn of the worker, with the outcome of the persist callback (\<open>None\<close>: none is set). The
  database changes only when the callback's transaction succeeds.
\<close>

definition worker_turn ::
  "numpy \<Rightarrow> anomaly_config \<Rightarrow> nat \<Rightarrow> persist_env \<Rightarrow> unit result option \<Rightarrow> pipeline \<times> anomaly_db \<Rightarrow> pipeline \<times> anomaly_db" where
  "worker_turn np cfg limit pe outcome s =
     (let (pl, db) = s in
      if \<not> pl_running pl then (pl, db)
      else (case get_nowait (pl_queue pl) of
        None \<Rightarrow> (pl, db)
      | Some (env, q) \<Rightarrow>
          let pl = pl\<lparr>pl_queue := q\<rparr>;
              (d, r) = process_frame np cfg (env_frequencies env) (env_powers env) (Some (env_sequence env))
                (Some (env_source_type env)) None (pl_detector pl);
              pl = pl\<lparr>pl_detector := d\<rparr>
          in (case r of
                Inl e \<Rightarrow> (pl\<lparr>pl_last_error := Some (''process'', e)\<rparr>, db)
              | Inr dets \<Rightarrow>
                  let pl = pl\<lparr>pl_processed_frames := pl_processed_frames pl + 1,
                              pl_detection_count := pl_detection_count pl + length dets,
                              pl_recent := push_recent limit dets (pl_recent pl)\<rparr>
                  in if dets = [] then (pl, db)
                     else (case outcome of
                         None \<Rightarrow> (pl, db)
                       | Some (Inl e) \<Rightarrow> (pl\<lparr>pl_last_error := Some (''persist'', e)\<rparr>, db)
                       | Some (Inr _) \<Rightarrow> (pl, persist_batch pe env dets db)))))"

datatype pipeline_event = Submit envelope | Turn persist_env "unit result option" | Start_Worker | Stop_Worker

fun pipeline_step ::
  "numpy \<Rightarrow> anomaly_config \<Rightarrow> nat \<Rightarrow> pipeline \<times> anomaly_db \<Rightarrow> pipeline_event \<Rightarrow> pipeline \<times> anomaly_db" where
  "pipeline_step np cfg limit (pl, db) (Submit env) = (fst (submit_nowait env pl), db)"
| "pipeline_step np cfg limit (pl, db) (Turn pe outcome) = worker_turn np cfg limit pe outcome (pl, db)"
| "pipeline_step np cfg limit (pl, db) Start_Worker = (pl\<lparr>pl_running := True\<rparr>, db)"
| "pipeline_step np cfg limit (pl, db) Stop_Worker = (pl\<lparr>pl_running := False\<rparr>, db)"

fun submissions :: "pipeline_event list \<Rightarrow> nat" where
  "submissions [] = 0"
| "submissions (e # es) = (case e of Submit _ \<Rightarrow> 1 | _ \<Rightarrow> 0) + submissions es"

subsection \<open>Lemmas\<close>

lemma match_loop_hit:
  assumes "match_loop m ps = (rs, Some r)"
  shows "\<exists>p\<in>set ps. r = evaluate_known_signal p m \<and> matched r"
  using assms
proof (induction ps arbitrary: rs)
  case (Cons p ps)
  obtain rs' hit where ml: "match_loop m ps = (rs', hit)" by fastforce
  show ?case
  proof (cases "matched (evaluate_known_signal p m)")
    case True
    then show ?thesis using Cons.prems by (simp add: Let_def)
  next
    case False
    then have "hit = Some r" using Cons.prems ml by (simp add: Let_def)
    then show ?thesis using Cons.IH ml by auto
  qed
qed simp

text \<open>Identifiers come from one counter, so every stored id is below it.\<close>

definition anomaly_db_ok :: "anomaly_db \<Rightarrow> bool" where
  "anomaly_db_ok db = (alerts_ok (db_alerts db) \<and> distinct (map sd_id (db_detections db))
     \<and> (\<forall>r\<in>set (db_detections db). sd_id r < db_next_id db)
     \<and> (\<forall>a\<in>set (db_alerts db). al_id a < db_next_id db))"

lemma upsert_ids:
  assumes "keeps_identity f"
  shows "al_id ` set (upsert_alert f a table) \<subseteq> insert (al_id a) (al_id ` set table)"
  using assms by (auto simp: upsert_alert_def Let_def in_update_where keeps_identity_def split: if_splits)

lemma detection_alert_sel [simp]:
  "al_id (detection_alert pe env i det) = i + 1" "is_active (detection_alert pe env i det)"
  "0 < al_occurrences (detection_alert pe env i det)" "al_dedup (detection_alert pe env i det) \<noteq> None"
  "al_detection (detection_alert pe env i det) = Some i"
  by (simp_all add: detection_alert_def is_active_def) (simp add: new_alert_def)

lemma detection_row_sel [simp]: "sd_id (detection_row pe env db det) = db_next_id db"
  by (simp add: detection_row_def split_def Let_def)

lemma persist_detection_ok:
  assumes ok: "anomaly_db_ok db" shows "anomaly_db_ok (persist_detection pe env db det)"
proof -
  let ?a = "detection_alert pe env (db_next_id db) det"
  have below: "al_id b < db_next_id db" if "b \<in> set (db_alerts db)" for b
    using ok that by (simp add: anomaly_db_ok_def)
  then have fresh: "al_id ?a \<notin> al_id ` set (db_alerts db)" by fastforce
  have "alerts_ok (upsert_rf_alert ?a (db_alerts db))"
    unfolding upsert_rf_alert_def
    by (rule upsert_alert_ok [OF keeps_identity_bump(1) _ _ _ fresh]) (use ok in \<open>simp_all add: anomaly_db_ok_def\<close>)
  moreover have "al_id b < db_next_id db + 2" if "b \<in> set (upsert_rf_alert ?a (db_alerts db))" for b
  proof -
    have "al_id b \<in> insert (al_id ?a) (al_id ` set (db_alerts db))"
      using upsert_ids [OF keeps_identity_bump(1), of ?a "db_alerts db"] that
      unfolding upsert_rf_alert_def by blast
    then show ?thesis using below by fastforce
  qed
  moreover have "al_id b < db_next_id db + 2" if "b \<in> set (db_alerts db)" for b
    using below [OF that] by simp
  moreover have "distinct (map sd_id (db_detections db @ [detection_row pe env db det]))"
    "\<forall>r\<in>set (db_detections db @ [detection_row pe env db det]). sd_id r < db_next_id db + 2"
    using ok by (auto simp: anomaly_db_ok_def)
  ultimately show ?thesis
    using ok unfolding persist_detection_def Let_def anomaly_db_ok_def by (simp split: if_split)
qed

lemma persist_batch_ok: "anomaly_db_ok db \<Longrightarrow> anomaly_db_ok (persist_batch pe env dets db)"
  unfolding persist_batch_def by (induction dets arbitrary: db) (auto simp: persist_detection_ok)

lemma detection_row_suppression:
  "sd_detection (detection_row pe env db det) = det \<and>
    (sd_suppression (detection_row pe env db det) = None
     \<or> (\<exists>p\<in>set (db_signals db). in_force (pe_now pe) p \<and> ks_suppress p
          \<and> sd_known_signal (detection_row pe env db det) = Some (ks_id p)
          \<and> matched (evaluate_known_signal p (detection_measurement env det))))"
proof -
  define profiles where "profiles = (if nonzero (int_or (center_hz det) (start_hz det))
      then load_profiles (pe_now pe) det (db_signals db) else [])"
  obtain matches hit where ml: "match_loop (detection_measurement env det) profiles = (matches, hit)" by fastforce
  have mem: "p \<in> set profiles \<Longrightarrow> p \<in> set (db_signals db) \<and> in_force (pe_now pe) p" for p
    by (auto simp: profiles_def load_profiles_def dest: in_candidates split: if_splits)
  have row: "sd_detection (detection_row pe env db det) = det"
    "sd_known_signal (detection_row pe env db det) = map_option known_signal_id hit"
    "sd_suppression (detection_row pe env db det) = (case hit of None \<Rightarrow> None
             | Some r \<Rightarrow> if suppress_alert r then Some ''known_signal_profile_match'' else None)"
    using ml unfolding detection_row_def Let_def profiles_def [symmetric] by simp_all
  show ?thesis
  proof (cases hit)
    case (Some r)
    from match_loop_hit [OF ml [unfolded Some]] obtain p where
      p: "p \<in> set profiles" "r = evaluate_known_signal p (detection_measurement env det)" "matched r" by blast
    have id: "known_signal_id r = ks_id p" using p(2) by (simp add: evaluate_known_signal_def Let_def)
    show ?thesis
    proof (cases "suppress_alert r")
      case True
      then have "ks_suppress p" using p(2) suppress_iff by blast
      then show ?thesis using p mem [OF p(1)] id Some row by auto
    qed (simp add: row Some)
  qed (simp add: row)
qed

lemma upsert_rf_alert_active:
  assumes "is_active b" "al_dedup b \<noteq> None"
  shows "\<exists>a\<in>set (upsert_rf_alert b t). al_detection a = al_detection b \<and> is_active a"
proof (cases "list_ex (\<lambda>r. is_active r \<and> al_dedup r \<noteq> None \<and> al_dedup r = al_dedup b) t")
  case True
  then obtain r where r: "r \<in> set t" "is_active r \<and> al_dedup r \<noteq> None \<and> al_dedup r = al_dedup b"
    by (auto simp: list_ex_iff)
  then have "bump_rf_alert r b \<in> set (upsert_rf_alert b t)"
    using True unfolding upsert_rf_alert_def upsert_alert_def Let_def
    by (simp only: if_True) (rule update_where_touched [OF r(1)], simp add: r(2))
  moreover have "al_detection (bump_rf_alert r b) = al_detection b" "is_active (bump_rf_alert r b)"
    using r(2) by (simp_all add: is_active_def) (simp add: bump_rf_alert_def)
  ultimately show ?thesis by blast
qed (use assms in \<open>simp add: upsert_rf_alert_def upsert_alert_def\<close>)

lemma persist_detection_rows:
  "\<exists>row. db_detections (persist_detection pe env db det) = db_detections db @ [row] \<and> sd_detection row = det
     \<and> (sd_suppression row = None \<or> (\<exists>p\<in>set (db_signals db). in_force (pe_now pe) p \<and> ks_suppress p
          \<and> sd_known_signal row = Some (ks_id p) \<and> matched (evaluate_known_signal p (detection_measurement env det))))
     \<and> (sd_suppression row = None \<and> alerting (pe_threshold pe) det \<longrightarrow>
          (\<exists>a\<in>set (db_alerts (persist_detection pe env db det)). al_detection a = Some (sd_id row) \<and> is_active a))
     \<and> (sd_suppression row \<noteq> None \<or> \<not> alerting (pe_threshold pe) det \<longrightarrow>
          db_alerts (persist_detection pe env db det) = db_alerts db)"
proof -
  let ?row = "detection_row pe env db det" and ?a = "detection_alert pe env (db_next_id db) det"
  have 1: "db_detections (persist_detection pe env db det) = db_detections db @ [?row]"
    by (simp add: persist_detection_def Let_def)
  have 2: "db_alerts (persist_detection pe env db det) =
      (if sd_suppression ?row = None \<and> alerting (pe_threshold pe) det
       then upsert_rf_alert ?a (db_alerts db) else db_alerts db)"
    by (simp add: persist_detection_def Let_def)
  have 3: "\<exists>a\<in>set (upsert_rf_alert ?a (db_alerts db)). al_detection a = Some (sd_id ?row) \<and> is_active a"
    using upsert_rf_alert_active [of ?a "db_alerts db"] by simp
  show ?thesis
  proof (intro exI [of _ ?row] conjI impI)
    show "sd_detection ?row = det" using detection_row_suppression by blast
    show "sd_suppression ?row = None \<or> (\<exists>p\<in>set (db_signals db). in_force (pe_now pe) p \<and> ks_suppress p
          \<and> sd_known_signal ?row = Some (ks_id p) \<and> matched (evaluate_known_signal p (detection_measurement env det)))"
      using detection_row_suppression by blast
    show "\<exists>a\<in>set (db_alerts (persist_detection pe env db det)). al_detection a = Some (sd_id ?row) \<and> is_active a"
      if "sd_suppression ?row = None \<and> alerting (pe_threshold pe) det" using that 2 3 by simp
    show "db_alerts (persist_detection pe env db det) = db_alerts db"
      if "sd_suppression ?row \<noteq> None \<or> \<not> alerting (pe_threshold pe) det" using that 2 by auto
  qed (rule 1)
qed

definition pipeline_inv :: "nat \<Rightarrow> nat \<Rightarrow> pipeline \<times> anomaly_db \<Rightarrow> bool" where
  "pipeline_inv limit n s = (let (pl, db) = s in
     queue_ok (pl_queue pl) \<and> length (pl_recent pl) \<le> limit \<and> anomaly_db_ok db
     \<and> pl_dropped_frames pl + pl_processed_frames pl + length (items (pl_queue pl)) \<le> n)"

lemma length_push_recent: "length r \<le> limit \<Longrightarrow> length (push_recent limit dets r) \<le> limit"
  unfolding push_recent_def by (induction dets arbitrary: r) auto

lemma submit_inv:
  assumes "pipeline_inv limit n (pl, db)"
  shows "pipeline_inv limit (n + 1) (fst (submit_nowait env pl), db)"
proof -
  have q: "queue_ok (pl_queue pl)" using assms by (simp add: pipeline_inv_def)
  from bq.offer_or_reject_spec [OF q, of env] obtain q' where
    "offer_or_reject put_nowait (pl_queue pl) env = (q', \<not> q_full (pl_queue pl))" "queue_ok q'"
    "items q' = (if q_full (pl_queue pl) then items (pl_queue pl) else items (pl_queue pl) @ [env])" by blast
  then show ?thesis using assms by (auto simp: pipeline_inv_def submit_nowait_def)
qed

lemma worker_turn_inv:
  assumes "pipeline_inv limit n (pl, db)"
  shows "pipeline_inv limit n (worker_turn np cfg limit pe outcome (pl, db))"
proof (cases "pl_running pl")
  case run: True
  show ?thesis
  proof (cases "get_nowait (pl_queue pl)")
    case (Some eq)
    obtain env q where eq: "eq = (env, q)" by fastforce
    note it = get_nowait_items [OF Some [unfolded eq]]
    have q: "queue_ok q" using get_nowait_ok [OF Some [unfolded eq]] assms by (simp add: pipeline_inv_def)
    obtain d r where pf: "process_frame np cfg (env_frequencies env) (env_powers env) (Some (env_sequence env))
                (Some (env_source_type env)) None (pl_detector pl) = (d, r)" by fastforce
    show ?thesis
      using assms run Some eq it q pf persist_batch_ok length_push_recent
      by (auto simp: worker_turn_def pipeline_inv_def Let_def split: sum.split option.split)
  qed (use assms run in \<open>simp add: worker_turn_def\<close>)
qed (use assms in \<open>simp add: worker_turn_def\<close>)

lemma pipeline_step_inv:
  "pipeline_inv limit n s \<Longrightarrow> pipeline_inv limit (n + submissions [e]) (pipeline_step np cfg limit s e)"
  using submit_inv worker_turn_inv by (cases s; cases e) (auto simp: pipeline_inv_def)

lemma pipeline_run_inv:
  "pipeline_inv limit n s \<Longrightarrow>
    pipeline_inv limit (n + submissions es) (fold (\<lambda>e s. pipeline_step np cfg limit s e) es s)"
proof (induction es arbitrary: s n)
  case (Cons e es)
  from Cons.IH [OF pipeline_step_inv [OF Cons.prems, of e np cfg]] show ?case
    by (simp add: add.assoc)
qed simp

subsection \<open>Properties\<close>

definition empty_db :: anomaly_db where
  "empty_db = \<lparr>db_detections = [], db_alerts = [], db_signals = [], db_next_id = 0\<rparr>"

definition sample_persist_env :: persist_env where
  "sample_persist_env = \<lparr>pe_now = 0, pe_threshold = ''high'', pe_digest = (\<lambda>(d, c, b, w). d @ c),
     pe_explain = class_name, pe_text = (\<lambda>_. [])\<rparr>"

definition sample_envelope :: envelope where
  "sample_envelope = \<lparr>env_frequencies = [Fin 100, Fin 200], env_powers = [Fin 0, Fin 0], env_sequence = 1,
     env_timestamp = [], env_source_type = ''usrp'', env_session = None, env_recording = None\<rparr>"

text \<open>
  Storing a detection: exactly one row is added for it; its alert is suppressed only by a
  profile of the table that is in force, asks for suppression and matches; a detection at or
  above the alert threshold that is not suppressed leaves an active alert that names its row, and
  any other detection leaves the alerts as they were.
\<close>

theorem persist_detection_alerts:
  "\<exists>row. db_detections (persist_detection pe env db det) = db_detections db @ [row] \<and> sd_detection row = det
     \<and> (sd_suppression row = None \<or> (\<exists>p\<in>set (db_signals db). in_force (pe_now pe) p \<and> ks_suppress p
          \<and> sd_known_signal row = Some (ks_id p) \<and> matched (evaluate_known_signal p (detection_measurement env det))))
     \<and> (sd_suppression row = None \<and> alerting (pe_threshold pe) det \<longrightarrow>
          (\<exists>a\<in>set (db_alerts (persist_detection pe env db det)). al_detection a = Some (sd_id row) \<and> is_active a))
     \<and> (sd_suppression row \<noteq> None \<or> \<not> alerting (pe_threshold pe) det \<longrightarrow>
          db_alerts (persist_detection pe env db det) = db_alerts db)"
  by (rule persist_detection_rows)

lemma persist_detection_alerts_witness:
  "\<exists>a. a \<in> set (db_alerts (persist_detection sample_persist_env sample_envelope empty_db
     (detection ''spectrum'' ''new_peak_above_reference'' ''high'' 1)))"
proof -
  let ?det = "detection ''spectrum'' ''new_peak_above_reference'' ''high'' 1"
  have "alerting (pe_threshold sample_persist_env) ?det"
    by (simp add: alerting_def severity_rank_def sample_persist_env_def detection_def)
  moreover have "db_signals empty_db = []" by (simp add: empty_db_def)
  ultimately show ?thesis
    using persist_detection_alerts [of sample_persist_env sample_envelope empty_db ?det] by auto
qed

text \<open>
  A profile that states a location, a modulation or a protocol never matches a detection of
  the pipeline, and so never suppresses one: the pipeline's measurement carries none of the three,
  and a stated attribute that is not measured counts as a mismatch.
\<close>

theorem pipeline_ignores_located_profiles:
  assumes "ks_location p \<noteq> None \<or> ks_modulation p \<noteq> None \<or> ks_protocol p \<noteq> None"
  shows "\<not> matched (evaluate_known_signal p (detection_measurement env det))
    \<and> \<not> suppress_alert (evaluate_known_signal p (detection_measurement env det))"
  using assms by (auto simp: matched_iff suppress_iff detection_measurement_def)

lemma pipeline_ignores_located_profiles_witness:
  "\<not> matched (evaluate_known_signal (sample_profile\<lparr>ks_location := Some ''lab''\<rparr>)
     (detection_measurement sample_envelope (detection ''spectrum'' ''short_burst'' ''medium'' 1)))"
  by (rule pipeline_ignores_located_profiles [THEN conjunct1]) simp



end
