(* ===== verification/Device_Baseline.thy ===== *)
theory Device_Baseline
  imports Store "HOL-Library.List_Lexorder" "HOL-Library.Char_ord"
begin

section \<open>Device baselines\<close>

text \<open>
  \<open>services/baseline.py\<close>: the snapshot of the devices seen at a place, its storing as the next
  version of the baseline of that place, and the comparison of the present snapshot with the
  active baseline. The tables \<open>wifi_devices\<close>, \<open>bluetooth_devices\<close>, their observations and
  \<open>device_baselines\<close> are lists of rows; the aggregates of the two snapshot queries are written
  out. All columns of time are in UTC (\<open>TIMESTAMPTZ\<close>), so the branch for a naive \<open>last_seen\<close> is
  never taken. SQL \<open>lower\<close> and Python \<open>lower\<close> agree on the ASCII text of the model.
\<close>

subsection \<open>Tables\<close>

datatype protocol = Wifi | Bluetooth

record known_device =
  kd_mac :: string
  kd_name :: "string option"
  kd_ssid :: "string option"
  kd_vendor :: "string option"
  kd_encryption :: "string option"
  kd_device_type :: "string option"
  kd_bluetooth_type :: "string option"
  kd_company_id :: "int option"
  kd_manufacturer_hash :: "string option"
  kd_stable_identity :: "string option"
  kd_identity_confidence :: "string option"
  kd_first_seen :: "rat option"
  kd_last_seen :: "rat option"
  kd_columns :: "(string \<times> sqlval) list"
  kd_metadata :: "(string \<times> pyval) list"

record device_observation =
  ob_mac :: string
  ob_location_name :: "string option"
  ob_session :: "nat option"
  ob_at :: rat
  ob_channel :: "int option"
  ob_frequency_hz :: "int option"
  ob_signal_dbm :: "rat option"
  ob_rssi_dbm :: "rat option"
  ob_service_uuids :: "string list"
  ob_location_id :: "nat option"
  ob_source_type :: "string option"
  ob_columns :: "(string \<times> sqlval) list"

text \<open>\<open>kd_columns\<close>, \<open>ob_columns\<close> hold the columns that only the listings of the dashboard read.\<close>

text \<open>One row of a snapshot query.\<close>

record snapshot_row =
  sn_device :: known_device
  sn_count :: nat
  sn_channel :: "int option"
  sn_frequency_hz :: "int option"
  sn_rssi_min :: "rat option"
  sn_rssi_max :: "rat option"
  sn_service_uuids :: "string list"

record baseline_row =
  bl_location_id :: "nat option"
  bl_location_name :: string
  bl_protocol :: protocol
  bl_stable_identity :: string
  bl_identity_confidence :: string
  bl_mac_address :: "string option"
  bl_device_name :: "string option"
  bl_vendor :: "string option"
  bl_device_type :: "string option"
  bl_ssid :: "string option"
  bl_encryption :: "string option"
  bl_typical_channel :: "int option"
  bl_typical_frequency_hz :: "int option"
  bl_rssi_min :: "rat option"
  bl_rssi_max :: "rat option"
  bl_company_id :: "int option"
  bl_service_fingerprint :: "string option"
  bl_manufacturer_hash :: "string option"
  bl_first_seen :: "rat option"
  bl_last_seen :: "rat option"
  bl_notes :: "string option"
  bl_expected_state :: string
  bl_version :: nat
  bl_is_active :: bool
  bl_deactivated_at :: "rat option"
  bl_created_by :: "string option"
  bl_reference_set_id :: "nat option"
  bl_source_session :: "nat option"

record device_db =
  db_wifi_devices :: "known_device list"
  db_wifi_observations :: "device_observation list"
  db_bluetooth_devices :: "known_device list"
  db_bluetooth_observations :: "device_observation list"
  db_baselines :: "baseline_row list"

definition normalize_protocol :: "string \<Rightarrow> protocol result" where
  "normalize_protocol p =
     (let cleaned = py_lower (py_strip p) in
      if cleaned = ''wifi'' then Inr Wifi
      else if cleaned = ''bluetooth'' then Inr Bluetooth
      else Inl (HTTPException 422 ''invalid_baseline_protocol''))"

fun join_comma :: "string list \<Rightarrow> string" where
  "join_comma [] = []"
| "join_comma [s] = s"
| "join_comma (s # t # ss) = s @ '','' @ join_comma (t # ss)"

definition service_uuid_fingerprint :: "string list \<Rightarrow> string option" where
  "service_uuid_fingerprint uuids =
     (let values = sort (remdups (map (\<lambda>u. py_lower (py_strip u)) (filter (\<lambda>u. u \<noteq> []) uuids))) in
      if values = [] then None else Some (join_comma values))"

subsection \<open>The snapshot of a place\<close>

definition observed_here :: "string \<Rightarrow> nat option \<Rightarrow> string \<Rightarrow> device_observation \<Rightarrow> bool" where
  "observed_here location session mac ob \<longleftrightarrow> ob_mac ob = mac
     \<and> (case ob_location_name ob of None \<Rightarrow> False | Some l \<Rightarrow> py_lower l = py_lower location)
     \<and> (case session of None \<Rightarrow> True | Some s \<Rightarrow> ob_session ob = Some s)"

text \<open>\<open>(ARRAY_AGG(f ORDER BY at DESC))[1]\<close>, \<open>MIN\<close> and \<open>MAX\<close> over the values that are not null.\<close>

definition latest :: "(device_observation \<Rightarrow> 'a option) \<Rightarrow> device_observation list \<Rightarrow> 'a option" where
  "latest f obs = (case sort_key (\<lambda>ob. - ob_at ob) obs of [] \<Rightarrow> None | ob # _ \<Rightarrow> f ob)"

definition non_null :: "'a option list \<Rightarrow> 'a list" where
  "non_null xs = map the (filter (\<lambda>x. x \<noteq> None) xs)"

definition sql_min :: "rat option list \<Rightarrow> rat option" where
  "sql_min xs = (case non_null xs of [] \<Rightarrow> None | y # ys \<Rightarrow> Some (fold min ys y))"

definition sql_max :: "rat option list \<Rightarrow> rat option" where
  "sql_max xs = (case non_null xs of [] \<Rightarrow> None | y # ys \<Rightarrow> Some (fold max ys y))"

definition coalesce :: "'a option \<Rightarrow> 'a option \<Rightarrow> 'a option" where
  "coalesce x y = (case x of None \<Rightarrow> y | Some _ \<Rightarrow> x)"

definition snapshot_of :: "(device_observation \<Rightarrow> rat option) \<Rightarrow> known_device \<Rightarrow> device_observation list \<Rightarrow> snapshot_row" where
  "snapshot_of level d obs =
     \<lparr>sn_device = d, sn_count = length obs, sn_channel = latest ob_channel obs,
      sn_frequency_hz = latest ob_frequency_hz obs,
      sn_rssi_min = sql_min (map level obs), sn_rssi_max = sql_max (map level obs),
      sn_service_uuids = (case latest (\<lambda>ob. Some (ob_service_uuids ob)) obs of None \<Rightarrow> [] | Some us \<Rightarrow> us)\<rparr>"

definition fetch_current_wifi_snapshot :: "device_db \<Rightarrow> string \<Rightarrow> nat option \<Rightarrow> snapshot_row list" where
  "fetch_current_wifi_snapshot db location session =
     (let seen = (\<lambda>d. filter (observed_here location session (kd_mac d)) (db_wifi_observations db)) in
      map (\<lambda>d. snapshot_of (\<lambda>ob. coalesce (ob_signal_dbm ob) (ob_rssi_dbm ob)) d (seen d))
        (filter (\<lambda>d. seen d \<noteq> []) (db_wifi_devices db)))"

definition fetch_current_bluetooth_snapshot :: "device_db \<Rightarrow> string \<Rightarrow> nat option \<Rightarrow> snapshot_row list" where
  "fetch_current_bluetooth_snapshot db location session =
     (let seen = (\<lambda>d. filter (observed_here location session (kd_mac d)) (db_bluetooth_observations db)) in
      map (\<lambda>d. snapshot_of ob_rssi_dbm d (seen d)) (filter (\<lambda>d. seen d \<noteq> []) (db_bluetooth_devices db)))"

definition fetch_snapshot :: "device_db \<Rightarrow> protocol \<Rightarrow> string \<Rightarrow> nat option \<Rightarrow> snapshot_row list" where
  "fetch_snapshot db p location session =
     (case p of Wifi \<Rightarrow> fetch_current_wifi_snapshot db location session
        | Bluetooth \<Rightarrow> fetch_current_bluetooth_snapshot db location session)"

text \<open>\<open>device.get("stable_identity") or device.get("mac_address")\<close>\<close>

definition device_identity :: "known_device \<Rightarrow> string" where
  "device_identity d = (case kd_stable_identity d of None \<Rightarrow> kd_mac d
     | Some s \<Rightarrow> if s = [] then kd_mac d else s)"

subsection \<open>Saving and deactivating\<close>

record save_request =
  sv_protocol :: string
  sv_location_name :: string
  sv_location_id :: "nat option"
  sv_session :: "nat option"
  sv_operator :: "string option"
  sv_notes :: "string option"
  sv_reference_set_id :: "nat option"

definition in_scope :: "protocol \<Rightarrow> string \<Rightarrow> baseline_row \<Rightarrow> bool" where
  "in_scope p location r \<longleftrightarrow> py_lower (bl_location_name r) = py_lower location \<and> bl_protocol r = p"

definition max_version :: "protocol \<Rightarrow> string \<Rightarrow> baseline_row list \<Rightarrow> nat" where
  "max_version p location rows = fold max (map bl_version (filter (in_scope p location) rows)) 0"

definition deactivate_scope :: "rat \<Rightarrow> protocol \<Rightarrow> string \<Rightarrow> baseline_row list \<Rightarrow> baseline_row list" where
  "deactivate_scope now p location =
     update_where (\<lambda>r. in_scope p location r \<and> bl_is_active r)
       (\<lambda>r. r\<lparr>bl_is_active := False, bl_deactivated_at := Some now\<rparr>)"

definition baseline_of ::
  "protocol \<Rightarrow> string \<Rightarrow> save_request \<Rightarrow> nat \<Rightarrow> snapshot_row \<Rightarrow> baseline_row" where
  "baseline_of p location rq version s =
     (let d = sn_device s; wifi = (p = Wifi) in
      \<lparr>bl_location_id = sv_location_id rq, bl_location_name = location, bl_protocol = p,
       bl_stable_identity = device_identity d,
       bl_identity_confidence = (case kd_identity_confidence d of None \<Rightarrow> ''unknown''
          | Some c \<Rightarrow> if c = [] then ''unknown'' else c),
       bl_mac_address = Some (kd_mac d), bl_device_name = (if wifi then None else kd_name d),
       bl_vendor = kd_vendor d,
       bl_device_type = (if wifi then kd_device_type d else kd_bluetooth_type d),
       bl_ssid = (if wifi then kd_ssid d else None), bl_encryption = (if wifi then kd_encryption d else None),
       bl_typical_channel = (if wifi then sn_channel s else None),
       bl_typical_frequency_hz = (if wifi then sn_frequency_hz s else None),
       bl_rssi_min = sn_rssi_min s, bl_rssi_max = sn_rssi_max s,
       bl_company_id = (if wifi then None else kd_company_id d),
       bl_service_fingerprint = (if wifi then None else service_uuid_fingerprint (sn_service_uuids s)),
       bl_manufacturer_hash = (if wifi then None else kd_manufacturer_hash d),
       bl_first_seen = kd_first_seen d, bl_last_seen = kd_last_seen d, bl_notes = sv_notes rq,
       bl_expected_state = ''expected'', bl_version = version, bl_is_active = True,
       bl_deactivated_at = None, bl_created_by = sv_operator rq,
       bl_reference_set_id = sv_reference_set_id rq, bl_source_session = sv_session rq\<rparr>)"

text \<open>The new table, the version and the number of saved entries.\<close>

definition save_baseline :: "rat \<Rightarrow> save_request \<Rightarrow> device_db \<Rightarrow> (device_db \<times> nat \<times> nat) result" where
  "save_baseline now rq db =
     and_then (normalize_protocol (sv_protocol rq)) (\<lambda>p.
     let location = py_strip (sv_location_name rq) in
     if location = [] then Inl (HTTPException 400 ''location_name_required'')
     else let snapshot = fetch_snapshot db p location (sv_session rq) in
     if snapshot = [] then Inl (HTTPException 409 ''no_current_devices_for_location'')
     else let version = max_version p location (db_baselines db) + 1;
              new_rows = map (baseline_of p location rq version)
                (filter (\<lambda>s. device_identity (sn_device s) \<noteq> []) snapshot);
              rows = deactivate_scope now p location (db_baselines db) @ new_rows in
       Inr (db\<lparr>db_baselines := rows\<rparr>, version, length new_rows))"

definition deactivate_baseline :: "rat \<Rightarrow> string \<Rightarrow> string \<Rightarrow> device_db \<Rightarrow> (device_db \<times> nat) result" where
  "deactivate_baseline now protocol location_name db =
     and_then (normalize_protocol protocol) (\<lambda>p.
     let location = py_strip location_name in
     if location = [] then Inl (HTTPException 400 ''location_name_required'')
     else Inr (db\<lparr>db_baselines := deactivate_scope now p location (db_baselines db)\<rparr>,
       length (filter (\<lambda>r. in_scope p location r \<and> bl_is_active r) (db_baselines db))))"

subsection \<open>Comparison\<close>

datatype comparison_state = Known | New | Changed | Missing | Uncertain_Match | Ignored

definition baseline_rows_for ::
  "protocol \<Rightarrow> string \<Rightarrow> nat option \<Rightarrow> baseline_row list \<Rightarrow> baseline_row list" where
  "baseline_rows_for p location reference_set rows =
     (case reference_set of
        Some rs \<Rightarrow> filter (\<lambda>r. bl_reference_set_id r = Some rs \<and> bl_protocol r = p) rows
      | None \<Rightarrow> filter (\<lambda>r. in_scope p location r \<and> bl_is_active r) rows)"

text \<open>\<open>{row["stable_identity"]: row for row in rows}\<close>: the last row of an identity wins, the keys keep the order of their first row.\<close>

definition by_identity :: "baseline_row list \<Rightarrow> string \<Rightarrow> baseline_row option" where
  "by_identity rows i = map_of (rev (map (\<lambda>r. (bl_stable_identity r, r)) rows)) i"

definition identity_keys :: "baseline_row list \<Rightarrow> string list" where
  "identity_keys rows = rev (remdups (rev (map bl_stable_identity rows)))"

definition soft_candidate ::
  "protocol \<Rightarrow> string list \<Rightarrow> known_device \<Rightarrow> baseline_row \<Rightarrow> bool" where
  "soft_candidate p matched d c \<longleftrightarrow>
     bl_stable_identity c \<notin> set matched \<and> truthy (kd_vendor d) \<and> truthy (bl_vendor c)
     \<and> py_lower (py_strip (or_empty (kd_vendor d))) = py_lower (py_strip (or_empty (bl_vendor c)))
     \<and> (p = Bluetooth \<longrightarrow> kd_identity_confidence d \<in> {Some ''low'', Some ''unknown''})"

definition device_state ::
  "protocol \<Rightarrow> baseline_row list \<Rightarrow> string list \<Rightarrow> known_device \<Rightarrow> comparison_state" where
  "device_state p rows matched d =
     (case by_identity rows (device_identity d) of
        Some b \<Rightarrow>
          if bl_expected_state b = ''ignored'' then Ignored
          else (let changed = (case p of
                  Wifi \<Rightarrow> or_empty (bl_ssid b) \<noteq> or_empty (kd_ssid d)
                    \<or> or_empty (bl_encryption b) \<noteq> or_empty (kd_encryption d)
                | Bluetooth \<Rightarrow> or_empty (bl_vendor b) \<noteq> or_empty (kd_vendor d))
                in if changed then Changed else Known)
      | None \<Rightarrow> if list_ex (soft_candidate p matched d) rows then Uncertain_Match else New)"

fun compare_devices ::
  "protocol \<Rightarrow> baseline_row list \<Rightarrow> string list \<Rightarrow> snapshot_row list
     \<Rightarrow> (snapshot_row \<times> comparison_state \<times> baseline_row option) list \<times> string list" where
  "compare_devices p rows matched [] = ([], matched)"
| "compare_devices p rows matched (s # ss) =
     (let i = device_identity (sn_device s); b = by_identity rows i;
          matched' = (if b \<noteq> None then i # matched else matched);
          state = device_state p rows matched' (sn_device s);
          (items, m) = compare_devices p rows matched' ss in
      ((s, state, b) # items, m))"

fun missing_entries ::
  "rat \<Rightarrow> rat \<Rightarrow> baseline_row list \<Rightarrow> string list \<Rightarrow> string list \<Rightarrow> (baseline_row \<times> comparison_state) list" where
  "missing_entries now grace rows matched [] = []"
| "missing_entries now grace rows matched (i # is) =
     (let rest = missing_entries now grace rows matched is in
      if i \<in> set matched then rest
      else (case by_identity rows i of None \<Rightarrow> rest
        | Some b \<Rightarrow> if bl_expected_state b = ''ignored'' then (b, Ignored) # rest
            else (case bl_last_seen b of
                    Some t \<Rightarrow> if now - t < grace then rest else (b, Missing) # rest
                  | None \<Rightarrow> (b, Missing) # rest)))"

record comparison =
  cp_active_version :: "nat option"
  cp_items :: "(snapshot_row \<times> comparison_state \<times> baseline_row option) list"
  cp_missing :: "(baseline_row \<times> comparison_state) list"
  cp_summary :: "comparison_state \<Rightarrow> nat"
  cp_total_active :: nat

definition count_state :: "comparison_state list \<Rightarrow> comparison_state \<Rightarrow> nat" where
  "count_state states st = length (filter (\<lambda>x. x = st) states)"

definition compute_baseline_comparison ::
  "rat \<Rightarrow> rat \<Rightarrow> string \<Rightarrow> string \<Rightarrow> nat option \<Rightarrow> nat option \<Rightarrow> device_db \<Rightarrow> comparison result" where
  "compute_baseline_comparison now grace protocol location_name session reference_set db =
     and_then (normalize_protocol protocol) (\<lambda>p.
     let location = py_strip location_name in
     if location = [] then Inl (HTTPException 400 ''location_name_required'')
     else let rows = baseline_rows_for p location reference_set (db_baselines db);
              (items, matched) = compare_devices p rows [] (fetch_snapshot db p location session);
              missing = missing_entries now grace rows matched (identity_keys rows) in
       Inr \<lparr>cp_active_version = (if rows = [] then None else Some (bl_version (hd rows))),
            cp_items = items, cp_missing = missing,
            cp_summary = count_state (map (fst \<circ> snd) items @ map snd missing),
            cp_total_active = length items\<rparr>)"

definition baseline_status_lookup ::
  "rat \<Rightarrow> rat \<Rightarrow> string \<Rightarrow> string \<Rightarrow> nat option \<Rightarrow> device_db \<Rightarrow> string \<Rightarrow> comparison_state option" where
  "baseline_status_lookup now grace protocol location_name session db =
     (case compute_baseline_comparison now grace protocol location_name session None db of
        Inl _ \<Rightarrow> (\<lambda>_. None)
      | Inr c \<Rightarrow> map_of (rev (map (\<lambda>(s, st, _). (device_identity (sn_device s), st)) (cp_items c))))"

subsection \<open>Versions\<close>

lemma fold_max_ge: "a \<le> fold max xs (a::nat)" "x \<in> set xs \<Longrightarrow> x \<le> fold max xs a"
proof -
  have ge: "b \<le> fold max ys b" for b and ys :: "nat list"
    by (induction ys arbitrary: b) (auto intro: order_trans [OF max.cobounded2])
  show "a \<le> fold max xs a" by (rule ge)
  show "x \<in> set xs \<Longrightarrow> x \<le> fold max xs a"
  proof (induction xs arbitrary: a)
    case (Cons y ys)
    have "y \<le> fold max ys (max y a)" using ge [of "max y a"] by (rule order_trans [OF max.cobounded1])
    then show ?case using Cons by auto
  qed simp
qed

lemma fold_max_le: "a \<le> m \<Longrightarrow> \<forall>x\<in>set xs. x \<le> m \<Longrightarrow> fold max xs a \<le> (m::nat)"
  by (induction xs arbitrary: a) auto

lemma max_version_ge: "r \<in> set rows \<Longrightarrow> in_scope p l r \<Longrightarrow> bl_version r \<le> max_version p l rows"
  unfolding max_version_def by (rule fold_max_ge) auto

lemma max_version_eqI:
  assumes "r \<in> set rows" "in_scope p l r" "bl_version r = m"
    and "\<And>r. r \<in> set rows \<Longrightarrow> in_scope p l r \<Longrightarrow> bl_version r \<le> m"
  shows "max_version p l rows = m"
proof (rule antisym)
  show "max_version p l rows \<le> m"
    unfolding max_version_def using assms(4) by (intro fold_max_le) auto
  show "m \<le> max_version p l rows" using max_version_ge [OF assms(1,2)] assms(3) by simp
qed

lemma max_version_cong:
  "map bl_version (filter (in_scope p l) rows) = map bl_version (filter (in_scope p l) rows') \<Longrightarrow>
     max_version p l rows = max_version p l rows'"
  by (simp add: max_version_def)

lemma in_scope_lower: "py_lower l = py_lower l' \<Longrightarrow> in_scope p l = in_scope p l'"
  by (auto simp: in_scope_def)

text \<open>The active rows of a place and protocol are the ones of its highest version.\<close>

definition baselines_ok :: "baseline_row list \<Rightarrow> bool" where
  "baselines_ok rows \<longleftrightarrow> (\<forall>r\<in>set rows. bl_is_active r \<longrightarrow>
     bl_version r = max_version (bl_protocol r) (bl_location_name r) rows)"

lemma deactivate_scope_sel:
  "map bl_version (filter (in_scope q l) (deactivate_scope now p loc rows)) = map bl_version (filter (in_scope q l) rows)"
  by (induction rows) (auto simp: deactivate_scope_def update_where_def in_scope_def)

lemma deactivate_scope_cases:
  assumes "r \<in> set (deactivate_scope now p loc rows)"
  obtains "r \<in> set rows" "\<not> (in_scope p loc r \<and> bl_is_active r)"
  | s where "s \<in> set rows" "in_scope p loc s" "r = s\<lparr>bl_is_active := False, bl_deactivated_at := Some now\<rparr>"
  using assms by (auto simp: deactivate_scope_def in_update_where split: if_splits)

lemma deactivate_scope_ok: "baselines_ok rows \<Longrightarrow> baselines_ok (deactivate_scope now p loc rows)"
  unfolding baselines_ok_def
proof
  fix r assume ok: "\<forall>r\<in>set rows. bl_is_active r \<longrightarrow> bl_version r = max_version (bl_protocol r) (bl_location_name r) rows"
    and r: "r \<in> set (deactivate_scope now p loc rows)"
  have "max_version q l (deactivate_scope now p loc rows) = max_version q l rows" for q l
    by (rule max_version_cong) (rule deactivate_scope_sel)
  then show "bl_is_active r \<longrightarrow> bl_version r = max_version (bl_protocol r) (bl_location_name r) (deactivate_scope now p loc rows)"
    using r ok by (elim deactivate_scope_cases) auto
qed

lemma deactivate_scope_inactive:
  "filter (\<lambda>r. in_scope p loc r \<and> bl_is_active r) (deactivate_scope now p loc rows) = []"
  by (auto simp: filter_empty_conv in_scope_def elim!: deactivate_scope_cases)

lemma deactivate_scope_other: "r \<in> set rows \<Longrightarrow> \<not> in_scope p loc r \<Longrightarrow> r \<in> set (deactivate_scope now p loc rows)"
  by (simp add: deactivate_scope_def update_where_untouched)

lemma baseline_of_sel [simp]:
  "bl_location_name (baseline_of p loc rq v s) = loc" "bl_protocol (baseline_of p loc rq v s) = p"
  "bl_stable_identity (baseline_of p loc rq v s) = device_identity (sn_device s)"
  "bl_version (baseline_of p loc rq v s) = v" "bl_is_active (baseline_of p loc rq v s)"
  "bl_expected_state (baseline_of p loc rq v s) = ''expected''"
  "bl_vendor (baseline_of p loc rq v s) = kd_vendor (sn_device s)"
  "bl_ssid (baseline_of Wifi loc rq v s) = kd_ssid (sn_device s)"
  "bl_encryption (baseline_of Wifi loc rq v s) = kd_encryption (sn_device s)"
  by (simp_all add: baseline_of_def Let_def)

lemma in_scope_baseline_of [simp]: "in_scope p loc (baseline_of p loc rq v s)"
  by (simp add: in_scope_def)

lemma save_baseline_rows:
  assumes "save_baseline now rq db = Inr (db', v, n)" and "normalize_protocol (sv_protocol rq) = Inr p"
    and "loc = py_strip (sv_location_name rq)"
  shows "loc \<noteq> []" "v = max_version p loc (db_baselines db) + 1"
    "db' = db\<lparr>db_baselines := deactivate_scope now p loc (db_baselines db)
       @ map (baseline_of p loc rq v) (filter (\<lambda>s. device_identity (sn_device s) \<noteq> []) (fetch_snapshot db p loc (sv_session rq)))\<rparr>"
    "n = length (filter (\<lambda>s. device_identity (sn_device s) \<noteq> []) (fetch_snapshot db p loc (sv_session rq)))"
  using assms by (auto simp: save_baseline_def Let_def split: if_splits)

lemma append_new_version_ok:
  assumes ok: "baselines_ok rows" and none: "\<And>r. r \<in> set rows \<Longrightarrow> in_scope p loc r \<Longrightarrow> \<not> bl_is_active r"
    and v: "v = max_version p loc rows + 1"
    and new: "\<And>r. r \<in> set new \<Longrightarrow> bl_location_name r = loc \<and> bl_protocol r = p \<and> bl_version r = v"
  shows "baselines_ok (rows @ new)"
  unfolding baselines_ok_def
proof (intro ballI impI)
  fix r assume r: "r \<in> set (rows @ new)" and a: "bl_is_active r"
  show "bl_version r = max_version (bl_protocol r) (bl_location_name r) (rows @ new)"
  proof (cases "r \<in> set new")
    case True
    then have n: "bl_location_name r = loc" "bl_protocol r = p" "bl_version r = v" using new by auto
    have "max_version p loc (rows @ new) = v"
    proof (rule max_version_eqI [of r])
      fix q assume "q \<in> set (rows @ new)" "in_scope p loc q"
      then show "bl_version q \<le> v" using new v max_version_ge [of q rows p loc] by fastforce
    qed (use True n in \<open>auto simp: in_scope_def\<close>)
    then show ?thesis using n by simp
  next
    case False
    then have old: "r \<in> set rows" using r by simp
    then have other: "\<not> in_scope p loc r" using none a by blast
    have "filter (in_scope (bl_protocol r) (bl_location_name r)) new = []"
      using other new by (auto simp: filter_empty_conv in_scope_def)
    then have "max_version (bl_protocol r) (bl_location_name r) (rows @ new)
        = max_version (bl_protocol r) (bl_location_name r) rows"
      by (intro max_version_cong) simp
    then show ?thesis using ok old a by (simp add: baselines_ok_def)
  qed
qed

lemma deactivate_max_version [simp]:
  "max_version q l (deactivate_scope now p loc rows) = max_version q l rows"
  by (rule max_version_cong) (rule deactivate_scope_sel)

subsection \<open>Comparison lemmas\<close>

definition note_match :: "baseline_row list \<Rightarrow> string list \<Rightarrow> snapshot_row \<Rightarrow> string list" where
  "note_match rows matched s =
     (let i = device_identity (sn_device s) in if by_identity rows i \<noteq> None then i # matched else matched)"

lemma compare_devices_Cons:
  "fst (compare_devices p rows matched (s # ss)) =
     (s, device_state p rows (note_match rows matched s) (sn_device s), by_identity rows (device_identity (sn_device s)))
     # fst (compare_devices p rows (note_match rows matched s) ss)"
  "snd (compare_devices p rows matched (s # ss)) = snd (compare_devices p rows (note_match rows matched s) ss)"
  by (simp_all add: Let_def note_match_def split: prod.splits)

declare compare_devices.simps(2) [simp del]

lemma compare_devices_items:
  "map fst (fst (compare_devices p rows matched ss)) = ss"
  "length (fst (compare_devices p rows matched ss)) = length ss"
  by (induction ss arbitrary: matched) (simp_all add: compare_devices_Cons)

lemma compare_devices_matched:
  "set (snd (compare_devices p rows matched ss))
     = set matched \<union> {i. i \<in> (\<lambda>s. device_identity (sn_device s)) ` set ss \<and> by_identity rows i \<noteq> None}"
  by (induction ss arbitrary: matched) (auto simp: compare_devices_Cons note_match_def Let_def)

lemma device_state_cases:
  "device_state p rows m d \<in> {Known, Changed, Ignored, New, Uncertain_Match}
   \<and> (by_identity rows (device_identity d) = None \<longleftrightarrow> device_state p rows m d \<in> {New, Uncertain_Match})"
  by (auto simp: device_state_def Let_def split: option.splits protocol.splits)

lemma compare_devices_states:
  "x \<in> set (fst (compare_devices p rows matched ss)) \<Longrightarrow>
     \<exists>m. x = (fst x, device_state p rows m (sn_device (fst x)), by_identity rows (device_identity (sn_device (fst x))))"
  by (induction ss arbitrary: matched) (auto simp: compare_devices_Cons)

lemma missing_entries_iff:
  "(b, st) \<in> set (missing_entries now grace rows matched is) \<longleftrightarrow>
     (\<exists>i\<in>set is. i \<notin> set matched \<and> by_identity rows i = Some b
        \<and> (if bl_expected_state b = ''ignored'' then st = Ignored
           else st = Missing \<and> (\<forall>t. bl_last_seen b = Some t \<longrightarrow> grace \<le> now - t)))"
  by (induction "is") (auto simp: Let_def split: option.splits if_splits)

lemma by_identity_Some: "by_identity rows i = Some b \<Longrightarrow> b \<in> set rows \<and> bl_stable_identity b = i"
  unfolding by_identity_def by (drule map_of_SomeD) auto

lemma by_identity_None: "by_identity rows i = None \<longleftrightarrow> i \<notin> bl_stable_identity ` set rows"
  by (auto simp: by_identity_def map_of_eq_None_iff image_image)

lemma set_identity_keys [simp]: "set (identity_keys rows) = bl_stable_identity ` set rows"
  by (simp add: identity_keys_def)

lemma by_identity_distinct:
  "distinct (map bl_stable_identity rows) \<Longrightarrow> r \<in> set rows \<Longrightarrow> by_identity rows (bl_stable_identity r) = Some r"
  by (auto simp: by_identity_def rev_map distinct_map inj_on_def comp_def intro!: map_of_is_SomeI)

lemma count_states_total:
  "(\<Sum>st\<in>{Known, New, Changed, Missing, Uncertain_Match, Ignored}. count_state states st) = length states"
proof (induction states)
  case (Cons a states)
  then show ?case by (cases a) (simp_all add: count_state_def)
qed (simp add: count_state_def)

lemma compare_devices_same:
  assumes "\<And>s. s \<in> set ss \<Longrightarrow> by_identity rows (device_identity (sn_device s)) = Some (baseline_of p loc rq v s)"
  shows "fst (compare_devices p rows matched ss) = map (\<lambda>s. (s, Known, Some (baseline_of p loc rq v s))) ss"
  using assms
proof (induction ss arbitrary: matched)
  case (Cons s ss)
  have "device_state p rows m (sn_device s) = Known" for m
    using Cons.prems [of s] by (cases p) (simp_all add: device_state_def)
  then show ?case using Cons by (simp add: compare_devices_Cons)
qed simp

lemma missing_entries_all_matched:
  "set is \<subseteq> set matched \<Longrightarrow> missing_entries now grace rows matched is = []"
  by (induction "is") (simp_all add: Let_def)

lemma save_then_fetch: "fetch_snapshot (db\<lparr>db_baselines := rows\<rparr>) p loc session = fetch_snapshot db p loc session"
  by (simp add: fetch_snapshot_def fetch_current_wifi_snapshot_def fetch_current_bluetooth_snapshot_def split: protocol.splits)

lemma comparison_result:
  assumes "normalize_protocol pr = Inr p" "py_strip location_name \<noteq> []"
    and "rows = baseline_rows_for p (py_strip location_name) reference_set (db_baselines db)"
    and "run = compare_devices p rows [] (fetch_snapshot db p (py_strip location_name) session)"
  shows "\<exists>c. compute_baseline_comparison now grace pr location_name session reference_set db = Inr c
     \<and> cp_items c = fst run
     \<and> cp_missing c = missing_entries now grace rows (snd run) (identity_keys rows)
     \<and> cp_summary c = count_state (map (fst \<circ> snd) (cp_items c) @ map snd (cp_missing c))
     \<and> cp_total_active c = length (cp_items c)"
  using assms by (simp add: compute_baseline_comparison_def Let_def split: prod.splits)

subsection \<open>Properties\<close>

definition sample_known_device :: "string \<Rightarrow> known_device" where
  "sample_known_device mac = \<lparr>kd_mac = mac, kd_name = None, kd_ssid = Some ''net'', kd_vendor = Some ''ACME'',
     kd_encryption = Some ''WPA2'', kd_device_type = Some ''ap'', kd_bluetooth_type = None,
     kd_company_id = None, kd_manufacturer_hash = None, kd_stable_identity = None,
     kd_identity_confidence = Some ''high'', kd_first_seen = Some 1, kd_last_seen = Some 2,
     kd_columns = [], kd_metadata = []\<rparr>"

definition sample_device_db :: device_db where
  "sample_device_db = \<lparr>db_wifi_devices = [sample_known_device ''A'', sample_known_device ''B''],
     db_wifi_observations = map (\<lambda>mac. \<lparr>ob_mac = mac, ob_location_name = Some ''Lab'', ob_session = Some 7,
        ob_at = 2, ob_channel = Some 6, ob_frequency_hz = None, ob_signal_dbm = Some (-50), ob_rssi_dbm = None,
        ob_service_uuids = [], ob_location_id = Some 1, ob_source_type = Some ''kismet'', ob_columns = []\<rparr>) [''A'', ''B''],
     db_bluetooth_devices = [], db_bluetooth_observations = [], db_baselines = []\<rparr>"

definition sample_save :: save_request where
  "sample_save = \<lparr>sv_protocol = ''wifi'', sv_location_name = ''lab'', sv_location_id = None, sv_session = Some 7,
     sv_operator = None, sv_notes = None, sv_reference_set_id = None\<rparr>"

lemma sample_snapshot:
  "map (\<lambda>s. device_identity (sn_device s)) (fetch_snapshot sample_device_db Wifi ''lab'' (Some 7)) = [''A'', ''B'']"
  by code_simp

lemma sample_save_protocol [simp]: "normalize_protocol (sv_protocol sample_save) = Inr Wifi"
  "py_strip (sv_location_name sample_save) = ''lab''"
  by code_simp+



text \<open>
  C9: A baseline recognises the environment it was saved from: when the devices of a place have
  distinct identities, the comparison made right after saving reports every device as known,
  none as new, changed or missing, whatever the grace time is.
\<close>

theorem saved_baseline_recognised:
  assumes "save_baseline now rq db = Inr (db', v, n)" and "normalize_protocol (sv_protocol rq) = Inr p"
  defines "snapshot \<equiv> fetch_snapshot db p (py_strip (sv_location_name rq)) (sv_session rq)"
  assumes "distinct (map (\<lambda>s. device_identity (sn_device s)) snapshot)"
    and "[] \<notin> set (map (\<lambda>s. device_identity (sn_device s)) snapshot)"
  shows "\<exists>c. compute_baseline_comparison later grace (sv_protocol rq) (sv_location_name rq) (sv_session rq) None db' = Inr c
     \<and> map (fst \<circ> snd) (cp_items c) = replicate (length snapshot) Known \<and> cp_missing c = []
     \<and> cp_summary c Known = length snapshot \<and> cp_summary c New = 0"
proof -
  let ?loc = "py_strip (sv_location_name rq)"
  note save = save_baseline_rows [OF assms(1,2) refl]
  let ?rows = "map (baseline_of p ?loc rq v) snapshot"
  have all: "filter (\<lambda>s. device_identity (sn_device s) \<noteq> []) snapshot = snapshot"
    using assms(5) by (auto simp: filter_id_conv image_iff intro: sym)
  have db': "db' = db\<lparr>db_baselines := deactivate_scope now p ?loc (db_baselines db) @ ?rows\<rparr>"
    using save(3) all unfolding snapshot_def by simp
  have rows: "baseline_rows_for p ?loc None (db_baselines db') = ?rows"
    using deactivate_scope_inactive [of p ?loc now "db_baselines db"]
    by (simp add: db' baseline_rows_for_def filter_map o_def)
  have ids: "map bl_stable_identity ?rows = map (\<lambda>s. device_identity (sn_device s)) snapshot" by simp
  have found: "by_identity ?rows (device_identity (sn_device s)) = Some (baseline_of p ?loc rq v s)"
    if "s \<in> set snapshot" for s
    using by_identity_distinct [of ?rows "baseline_of p ?loc rq v s"] that assms(4) unfolding ids by simp
  have fetch: "fetch_snapshot db' p ?loc (sv_session rq) = snapshot" by (simp add: db' save_then_fetch snapshot_def)
  note run = compare_devices_same [where matched = "[]", OF found]
  have "set (identity_keys ?rows) \<subseteq> set (snd (compare_devices p ?rows [] snapshot))"
    using found by (auto simp: compare_devices_matched)
  then have missing: "missing_entries later grace ?rows (snd (compare_devices p ?rows [] snapshot)) (identity_keys ?rows) = []"
    by (rule missing_entries_all_matched)
  obtain c where c: "compute_baseline_comparison later grace (sv_protocol rq) (sv_location_name rq) (sv_session rq) None db' = Inr c"
    "cp_items c = map (\<lambda>s. (s, Known, Some (baseline_of p ?loc rq v s))) snapshot" "cp_missing c = []"
    "cp_summary c = count_state (map (fst \<circ> snd) (cp_items c) @ map snd (cp_missing c))"
    using comparison_result [OF assms(2) save(1) refl refl, of later grace "sv_session rq" None db'] run missing
    unfolding rows fetch by auto
  have states: "map (fst \<circ> snd) (cp_items c) = replicate (length snapshot) Known"
    by (simp add: c(2) o_def map_replicate_const)
  then show ?thesis using c by (auto simp: count_state_def filter_replicate)
qed

lemma saved_baseline_recognised_witness:
  "\<exists>db' v n c. save_baseline 3 sample_save sample_device_db = Inr (db', v, n)
     \<and> compute_baseline_comparison 9 0 ''wifi'' ''lab'' (Some 7) None db' = Inr c \<and> cp_missing c = []"
proof -
  have "is_ok (save_baseline 3 sample_save sample_device_db)" by code_simp
  then obtain db' v n where s: "save_baseline 3 sample_save sample_device_db = Inr (db', v, n)"
    by (auto simp: is_ok_iff)
  have rq: "sv_session sample_save = Some 7" "sv_protocol sample_save = ''wifi''" "sv_location_name sample_save = ''lab''"
    by (simp_all add: sample_save_def)
  have loc: "py_strip ''lab'' = ''lab''" by code_simp
  have d: "distinct (map (\<lambda>s. device_identity (sn_device s)) (fetch_snapshot sample_device_db Wifi ''lab'' (Some 7)))"
    "[] \<notin> set (map (\<lambda>s. device_identity (sn_device s)) (fetch_snapshot sample_device_db Wifi ''lab'' (Some 7)))"
    by (simp_all only: sample_snapshot) simp_all
  from saved_baseline_recognised [OF s sample_save_protocol(1), of 9 0, unfolded rq loc, OF d] s
  show ?thesis by blast
qed

end
