(* ===== verification/Reference_Match.thy ===== *)
theory Reference_Match
  imports Device_Baseline
begin

section \<open>Matching the devices of a session with a reference set\<close>

text \<open>
  \<open>services/reference_match.py\<close>: each device of a session list is matched with at most one row of
  the loaded reference, or is new; the rows nobody matched are missing. The two list endpoints
  give a device the columns of \<open>session_item\<close> (a Wi-Fi item has \<open>channel\<close> and \<open>frequency_hz\<close>, a
  baseline row only the \<open>typical_\<close> columns; a Bluetooth item has \<open>service_uuids\<close>, a baseline row
  the stored fingerprint; the baseline table has no \<open>address_type\<close> and no \<open>bluetooth_type\<close>), so the
  tests \<open>"channel" in source\<close> of the code are decided by which of the two a value is read from.

  What the two matchers promise to \<open>annotate_devices\<close> is the locale \<open>identity_matcher\<close>.
\<close>

subsection \<open>Confidence\<close>

datatype confidence = Low | Medium | High | Certain

fun confidence_rank :: "confidence \<Rightarrow> nat" where
  "confidence_rank Low = 1"
| "confidence_rank Medium = 2"
| "confidence_rank High = 3"
| "confidence_rank Certain = 4"

instantiation confidence :: linorder
begin

definition less_eq_confidence :: "confidence \<Rightarrow> confidence \<Rightarrow> bool" where
  "less_eq_confidence a b = (confidence_rank a \<le> confidence_rank b)"

definition less_confidence :: "confidence \<Rightarrow> confidence \<Rightarrow> bool" where
  "less_confidence a b = (confidence_rank a < confidence_rank b)"

instance
proof
  fix x y :: confidence
  show "x \<le> y \<Longrightarrow> y \<le> x \<Longrightarrow> x = y"
    by (cases x; cases y) (simp_all add: less_eq_confidence_def)
qed (auto simp: less_eq_confidence_def less_confidence_def)

end

lemma confidence_order [simp]:
  "Low < Medium" "Medium < High" "High < Certain" "Medium < Certain" "\<not> Medium \<le> Low"
  "Medium \<le> High" "Medium \<le> Certain" "c \<le> Certain" "\<not> Certain < c"
  by (cases c; simp_all add: less_confidence_def less_eq_confidence_def)+

subsection \<open>Items\<close>

record session_item =
  it_stable_identity :: "string option"
  it_bssid :: "string option"
  it_mac :: "string option"
  it_ssid :: "string option"
  it_encryption :: "string option"
  it_device_type :: "string option"
  it_vendor :: "string option"
  it_device_name :: "string option"
  it_address_type :: "string option"
  it_bluetooth_type :: "string option"
  it_manufacturer_hash :: "string option"
  it_channel :: "int option"
  it_frequency_hz :: "int option"
  it_company_id :: "int option"
  it_service_uuids :: "string list"

datatype field_value = Text "string option" | Number "int option"

definition normalize_value :: "field_value \<Rightarrow> string" where
  "normalize_value v = (case v of Text (Some s) \<Rightarrow> py_lower (py_strip s) | Number (Some n) \<Rightarrow> int_text n | _ \<Rightarrow> [])"

type_synonym match_result = "(baseline_row \<times> string \<times> confidence) option"

definition wifi_identity :: "session_item \<Rightarrow> string option" where
  "wifi_identity d = or_else (it_stable_identity d) (it_bssid d)"

definition bluetooth_identity :: "session_item \<Rightarrow> string option" where
  "bluetooth_identity d = or_else (it_stable_identity d) (it_mac d)"

fun first_exact :: "string \<Rightarrow> baseline_row list \<Rightarrow> string list \<Rightarrow> match_result" where
  "first_exact i [] ids = None"
| "first_exact i (b # bs) ids =
     (if bl_stable_identity b \<in> set ids then first_exact i bs ids
      else if bl_stable_identity b = i then Some (b, ''stable_identity'', Certain)
      else first_exact i bs ids)"

definition match_wifi_identity :: "session_item \<Rightarrow> baseline_row list \<Rightarrow> string list \<Rightarrow> match_result" where
  "match_wifi_identity d rows ids =
     (if truthy (wifi_identity d) then first_exact (or_empty (wifi_identity d)) rows ids else None)"

definition bluetooth_match_candidate :: "session_item \<Rightarrow> baseline_row \<Rightarrow> (string \<times> confidence) option" where
  "bluetooth_match_candidate d b =
     (let i = bluetooth_identity d; fp = service_uuid_fingerprint (it_service_uuids d) in
      if truthy i \<and> bl_stable_identity b = or_empty i then Some (''stable_identity'', Certain)
      else if normalize_value (Text (it_address_type d)) \<in> {''public'', ''static''}
          \<and> truthy (it_mac d) \<and> truthy (bl_mac_address b)
          \<and> py_upper (py_strip (or_empty (it_mac d))) = py_upper (py_strip (or_empty (bl_mac_address b)))
        then Some (''public_mac'', High)
      else if it_company_id d \<noteq> None \<and> truthy (it_manufacturer_hash d)
          \<and> it_company_id d = bl_company_id b \<and> it_manufacturer_hash d = bl_manufacturer_hash b
        then Some (''company_id_manufacturer_hash'', Medium)
      else if truthy fp \<and> fp = bl_service_fingerprint b
        then Some (''service_uuid_fingerprint'', Medium)
      else if truthy (it_device_name d) \<and> truthy (it_vendor d)
          \<and> normalize_value (Text (it_device_name d)) = normalize_value (Text (bl_device_name b))
          \<and> normalize_value (Text (it_vendor d)) = normalize_value (Text (bl_vendor b))
        then Some (''device_name_vendor'', Low)
      else None)"

fun best_match :: "session_item \<Rightarrow> match_result \<Rightarrow> baseline_row list \<Rightarrow> string list \<Rightarrow> match_result" where
  "best_match d best [] ids = best"
| "best_match d best (b # bs) ids =
     (if bl_stable_identity b \<in> set ids then best_match d best bs ids
      else (case bluetooth_match_candidate d b of
          None \<Rightarrow> best_match d best bs ids
        | Some (m, c) \<Rightarrow>
            if (case best of None \<Rightarrow> True | Some (_, _, c') \<Rightarrow> c' < c)
            then (if c = Certain then Some (b, m, c) else best_match d (Some (b, m, c)) bs ids)
            else best_match d best bs ids))"

definition match_bluetooth_identity :: "session_item \<Rightarrow> baseline_row list \<Rightarrow> string list \<Rightarrow> match_result" where
  "match_bluetooth_identity d rows ids =
     (case best_match d None rows ids of
        Some (b, m, c) \<Rightarrow> if c \<in> {Certain, High, Medium} then Some (b, m, c) else None
      | None \<Rightarrow> None)"

subsection \<open>Differences\<close>

definition differing :: "(string \<times> field_value \<times> field_value) list \<Rightarrow> (string \<times> field_value \<times> field_value) list" where
  "differing fvs = filter (\<lambda>(_, r, c). normalize_value r \<noteq> normalize_value c) fvs"

definition wifi_differences :: "baseline_row \<Rightarrow> session_item \<Rightarrow> (string \<times> field_value \<times> field_value) list" where
  "wifi_differences b d = differing
     [(''ssid'', Text (bl_ssid b), Text (it_ssid d)),
      (''encryption'', Text (bl_encryption b), Text (it_encryption d)),
      (''device_type'', Text (bl_device_type b), Text (it_device_type d)),
      (''channel'', Number (bl_typical_channel b), Number (it_channel d)),
      (''frequency'', Number (bl_typical_frequency_hz b), Number (it_frequency_hz d)),
      (''vendor'', Text (bl_vendor b), Text (it_vendor d))]"

definition bluetooth_differences :: "baseline_row \<Rightarrow> session_item \<Rightarrow> (string \<times> field_value \<times> field_value) list" where
  "bluetooth_differences b d = differing
     [(''device_name'', Text (bl_device_name b), Text (it_device_name d)),
      (''vendor'', Text (bl_vendor b), Text (it_vendor d)),
      (''address_type'', Text None, Text (it_address_type d)),
      (''bluetooth_type'', Text None, Text (it_bluetooth_type d)),
      (''company_id'', Number (bl_company_id b), Number (it_company_id d)),
      (''service_uuid_fingerprint'', Text (bl_service_fingerprint b),
         Text (service_uuid_fingerprint (it_service_uuids d))),
      (''manufacturer_data_hash'', Text (bl_manufacturer_hash b), Text (it_manufacturer_hash d))]"

subsection \<open>Annotating a list\<close>

datatype reference_status = Not_Compared | In_Reference | New_Device

record annotation =
  an_item :: session_item
  an_status :: reference_status
  an_differences :: "(string \<times> field_value \<times> field_value) list"
  an_method :: "string option"
  an_confidence :: "confidence option"
  an_no_match_detail :: bool
  an_reference :: "baseline_row option"
  an_has_current_values :: bool

definition has_differences :: "annotation \<Rightarrow> bool" where
  "has_differences a = (an_differences a \<noteq> [])"

record reference_result =
  rr_items :: "annotation list"
  rr_in_reference :: nat
  rr_new :: nat
  rr_missing :: "baseline_row list"
  rr_total_active :: nat

record reference_set =
  rs_id :: nat
  rs_location_name :: string
  rs_source_session :: "nat option"
  rs_archived :: bool

definition reference_rows :: "nat \<Rightarrow> protocol \<Rightarrow> reference_set list \<Rightarrow> baseline_row list \<Rightarrow> baseline_row list" where
  "reference_rows i p sets rows =
     (let linked = filter (\<lambda>r. bl_reference_set_id r = Some i \<and> bl_protocol r = p) rows in
      if linked \<noteq> [] then linked
      else (case filter (\<lambda>s. rs_id s = i \<and> \<not> rs_archived s) sets of
          [] \<Rightarrow> []
        | s # _ \<Rightarrow>
            (let here = filter (\<lambda>r. in_scope p (rs_location_name s) r \<and> bl_is_active r) rows in
             if here \<noteq> [] then here
             else (case rs_source_session s of
                 None \<Rightarrow> []
               | Some sid \<Rightarrow> filter (\<lambda>r. bl_source_session r = Some sid \<and> bl_protocol r = p \<and> bl_is_active r) rows))))"

fun annotate_loop ::
  "(session_item \<Rightarrow> baseline_row list \<Rightarrow> string list \<Rightarrow> match_result)
     \<Rightarrow> (baseline_row \<Rightarrow> session_item \<Rightarrow> (string \<times> field_value \<times> field_value) list) \<Rightarrow> bool
     \<Rightarrow> baseline_row list \<Rightarrow> string list \<Rightarrow> session_item list \<Rightarrow> annotation list" where
  "annotate_loop matcher diff detail rows ids [] = []"
| "annotate_loop matcher diff detail rows ids (d # ds) =
     (case matcher d rows ids of
        Some (b, m, c) \<Rightarrow>
          \<lparr>an_item = d, an_status = In_Reference, an_differences = diff b d, an_method = Some m,
           an_confidence = Some c, an_no_match_detail = False, an_reference = Some b, an_has_current_values = True\<rparr>
          # annotate_loop matcher diff detail rows (bl_stable_identity b # ids) ds
      | None \<Rightarrow>
          \<lparr>an_item = d, an_status = New_Device, an_differences = [], an_method = None,
           an_confidence = None, an_no_match_detail = detail, an_reference = None, an_has_current_values = True\<rparr>
          # annotate_loop matcher diff detail rows ids ds)"

definition references_used :: "annotation list \<Rightarrow> baseline_row list" where
  "references_used as = map (\<lambda>a. the (an_reference a)) (filter (\<lambda>a. an_reference a \<noteq> None) as)"

lemma references_used_simps [simp]:
  "references_used [] = []"
  "references_used (a # as) = (case an_reference a of None \<Rightarrow> references_used as | Some b \<Rightarrow> b # references_used as)"
  by (simp_all add: references_used_def split: option.splits)

definition annotate_with ::
  "(session_item \<Rightarrow> baseline_row list \<Rightarrow> string list \<Rightarrow> match_result)
     \<Rightarrow> (baseline_row \<Rightarrow> session_item \<Rightarrow> (string \<times> field_value \<times> field_value) list) \<Rightarrow> bool
     \<Rightarrow> baseline_row list \<Rightarrow> session_item list \<Rightarrow> reference_result" where
  "annotate_with matcher diff detail rows items =
     (let as = annotate_loop matcher diff detail rows [] items;
          matched = map bl_stable_identity (references_used as) in
      \<lparr>rr_items = as,
       rr_in_reference = length (filter (\<lambda>a. an_status a = In_Reference) as),
       rr_new = length (filter (\<lambda>a. an_status a = New_Device) as),
       rr_missing = filter (\<lambda>b. bl_stable_identity b \<notin> set matched \<and> bl_expected_state b \<noteq> ''ignored'') rows,
       rr_total_active = length items\<rparr>)"

definition annotate_devices ::
  "nat \<Rightarrow> protocol \<Rightarrow> reference_set list \<Rightarrow> baseline_row list \<Rightarrow> session_item list \<Rightarrow> reference_result" where
  "annotate_devices i p sets baselines items =
     (let rows = reference_rows i p sets baselines in
      case p of
        Wifi \<Rightarrow> annotate_with match_wifi_identity wifi_differences False rows items
      | Bluetooth \<Rightarrow> annotate_with match_bluetooth_identity bluetooth_differences True rows items)"

definition stamp_not_compared :: "session_item list \<Rightarrow> reference_result" where
  "stamp_not_compared items =
     \<lparr>rr_items = map (\<lambda>d. \<lparr>an_item = d, an_status = Not_Compared, an_differences = [], an_method = None,
        an_confidence = None, an_no_match_detail = False, an_reference = None, an_has_current_values = False\<rparr>) items,
      rr_in_reference = 0, rr_new = 0, rr_missing = [], rr_total_active = length items\<rparr>"

subsection \<open>The contract of a matcher\<close>

locale identity_matcher =
  fixes matcher :: "session_item \<Rightarrow> baseline_row list \<Rightarrow> string list \<Rightarrow> match_result"
    and ident :: "session_item \<Rightarrow> string option"
  assumes match_free: "matcher d rows ids = Some (b, m, c) \<Longrightarrow> b \<in> set rows \<and> bl_stable_identity b \<notin> set ids"
    and match_promotable: "matcher d rows ids = Some (b, m, c) \<Longrightarrow> Medium \<le> c"
    and match_exact: "b \<in> set rows \<Longrightarrow> bl_stable_identity b \<notin> set ids \<Longrightarrow> truthy (ident d)
       \<Longrightarrow> bl_stable_identity b = or_empty (ident d)
       \<Longrightarrow> \<exists>b'. matcher d rows ids = Some (b', ''stable_identity'', Certain) \<and> bl_stable_identity b' = or_empty (ident d)"
begin

lemma loop_items: "map an_item (annotate_loop matcher diff detail rows ids ds) = ds"
  by (induction ds arbitrary: ids) (auto split: option.splits prod.splits)

lemma loop_reference:
  "a \<in> set (annotate_loop matcher diff detail rows ids ds) \<Longrightarrow>
     (case an_reference a of
        None \<Rightarrow> an_status a = New_Device \<and> an_differences a = []
      | Some b \<Rightarrow> an_status a = In_Reference \<and> b \<in> set rows \<and> an_differences a = diff b (an_item a)
          \<and> (\<exists>c. an_confidence a = Some c \<and> Medium \<le> c))"
proof (induction ds arbitrary: ids)
  case (Cons d ds)
  show ?case
  proof (cases "matcher d rows ids")
    case None
    then show ?thesis using Cons by auto
  next
    case (Some r)
    obtain b m c where r: "r = (b, m, c)" by (cases r)
    show ?thesis using Cons Some match_free [of d rows ids b m c] match_promotable [of d rows ids b m c]
      by (auto simp: r)
  qed
qed simp

lemma loop_distinct:
  "distinct (map bl_stable_identity (references_used (annotate_loop matcher diff detail rows ids ds)))
   \<and> bl_stable_identity ` set (references_used (annotate_loop matcher diff detail rows ids ds)) \<inter> set ids = {}"
proof (induction ds arbitrary: ids)
  case (Cons d ds)
  show ?case
  proof (cases "matcher d rows ids")
    case None
    then show ?thesis using Cons by (simp add: references_used_def)
  next
    case (Some r)
    obtain b m c where r: "r = (b, m, c)" by (cases r)
    show ?thesis using Cons [of "bl_stable_identity b # ids"] Some match_free [of d rows ids b m c]
      by (auto simp: r references_used_def)
  qed
qed (simp add: references_used_def)

lemma accounts:
  fixes rows items diff detail
  defines "r \<equiv> annotate_with matcher diff detail rows items"
  shows "map an_item (rr_items r) = items
    \<and> rr_in_reference r + rr_new r = rr_total_active r
    \<and> distinct (map bl_stable_identity (references_used (rr_items r)))
    \<and> set (references_used (rr_items r)) \<subseteq> set rows
    \<and> rr_in_reference r = length (references_used (rr_items r))
    \<and> (\<forall>b\<in>set rows. bl_expected_state b = ''ignored'' \<or> (b \<in> set (rr_missing r)) \<noteq>
         (bl_stable_identity b \<in> bl_stable_identity ` set (references_used (rr_items r))))"
proof -
  let ?as = "annotate_loop matcher diff detail rows [] items"
  have r: "rr_items r = ?as" by (simp add: r_def annotate_with_def Let_def)
  have status: "an_status a = (if an_reference a = None then New_Device else In_Reference)"
    and mem: "an_reference a = Some b \<Longrightarrow> b \<in> set rows" if "a \<in> set ?as" for a b
    using loop_reference [OF that] by (auto split: option.splits)
  have len: "length ?as = length items" using arg_cong [OF loop_items, of length] by simp
  have 1: "filter (\<lambda>a. an_status a = In_Reference) ?as = filter (\<lambda>a. an_reference a \<noteq> None) ?as"
    by (rule filter_cong) (auto simp: status)
  have 2: "filter (\<lambda>a. an_status a = New_Device) ?as = filter (\<lambda>a. \<not> an_reference a \<noteq> None) ?as"
    by (rule filter_cong) (auto simp: status)
  have "rr_in_reference r + rr_new r = rr_total_active r"
    using sum_length_filter_compl [of "\<lambda>a. an_reference a \<noteq> None" ?as] len
    by (simp only: r_def annotate_with_def Let_def 1 2 reference_result.simps)
  moreover have "set (references_used ?as) \<subseteq> set rows" using mem by (auto simp: references_used_def)
  moreover have "rr_in_reference r = length (references_used ?as)"
    by (simp add: r_def annotate_with_def Let_def 1 references_used_def)
  moreover have "\<forall>b\<in>set rows. bl_expected_state b = ''ignored'' \<or> (b \<in> set (rr_missing r)) \<noteq>
      (bl_stable_identity b \<in> bl_stable_identity ` set (references_used ?as))"
    by (auto simp: r_def annotate_with_def Let_def)
  ultimately show ?thesis using loop_items loop_distinct unfolding r by blast
qed

lemma exact_first:
  assumes "b \<in> set rows" "truthy (ident d)" "bl_stable_identity b = or_empty (ident d)"
  shows "\<exists>a as. rr_items (annotate_with matcher diff detail rows (d # ds)) = a # as
    \<and> an_status a = In_Reference \<and> an_confidence a = Some Certain
    \<and> (case an_reference a of None \<Rightarrow> False | Some b' \<Rightarrow> bl_stable_identity b' = or_empty (ident d))"
  using match_exact [OF assms(1) _ assms(2,3), of "[]"] by (auto simp: annotate_with_def Let_def)

end

subsection \<open>Both matchers keep it\<close>

lemma first_exact_Some:
  "first_exact i rows ids = Some (b, m, c) \<Longrightarrow>
     b \<in> set rows \<and> bl_stable_identity b \<notin> set ids \<and> bl_stable_identity b = i \<and> m = ''stable_identity'' \<and> c = Certain"
  by (induction rows) (auto split: if_splits)

lemma first_exact_None:
  "first_exact i rows ids = None \<Longrightarrow> b \<in> set rows \<Longrightarrow> bl_stable_identity b \<notin> set ids \<Longrightarrow> bl_stable_identity b \<noteq> i"
  by (induction rows) (auto split: if_splits)

lemma best_match_free:
  "best_match d best rows ids = Some (b, m, c) \<Longrightarrow>
     best = Some (b, m, c) \<or> (b \<in> set rows \<and> bl_stable_identity b \<notin> set ids)"
  by (induction rows arbitrary: best) (auto split: if_splits option.splits prod.splits)

lemma candidate_certain:
  "bluetooth_match_candidate d b = Some (m, Certain) \<longleftrightarrow>
     truthy (bluetooth_identity d) \<and> bl_stable_identity b = or_empty (bluetooth_identity d) \<and> m = ''stable_identity''"
  by (auto simp: bluetooth_match_candidate_def Let_def)

lemma best_match_certain:
  assumes "b \<in> set rows" "bl_stable_identity b \<notin> set ids"
    "truthy (bluetooth_identity d)" "bl_stable_identity b = or_empty (bluetooth_identity d)"
    "case best of None \<Rightarrow> True | Some (_, _, c) \<Rightarrow> c < Certain"
  shows "\<exists>b'. best_match d best rows ids = Some (b', ''stable_identity'', Certain)
    \<and> bl_stable_identity b' = or_empty (bluetooth_identity d)"
  using assms(1,5)
proof (induction rows arbitrary: best)
  case (Cons x xs)
  show ?case
  proof (cases "bl_stable_identity x \<in> set ids")
    case True
    then show ?thesis using Cons assms(2) by auto
  next
    case free: False
    show ?thesis
    proof (cases "bluetooth_match_candidate d x")
      case None
      then have "x \<noteq> b" using candidate_certain [of d b] assms(3,4) by fastforce
      then show ?thesis using Cons None free by auto
    next
      case (Some r)
      obtain m c where r: "r = (m, c)" by (cases r)
      show ?thesis
      proof (cases "c = Certain")
        case True
        then show ?thesis using Some r free Cons.prems(2) candidate_certain [of d x m]
          by (auto split: option.splits prod.splits)
      next
        case False
        then have "x \<noteq> b" using candidate_certain [of d b] assms(3,4) Some r by fastforce
        moreover have "c < Certain" using False by (cases c) (simp_all add: less_confidence_def)
        ultimately show ?thesis using Cons Some r free False by auto
      qed
    qed
  qed
qed simp

interpretation wifi_matcher: identity_matcher match_wifi_identity wifi_identity
proof
  fix d rows ids b m c
  assume "match_wifi_identity d rows ids = Some (b, m, c)"
  then have "first_exact (or_empty (wifi_identity d)) rows ids = Some (b, m, c)"
    by (simp add: match_wifi_identity_def split: if_splits)
  note f = first_exact_Some [OF this]
  then show "b \<in> set rows \<and> bl_stable_identity b \<notin> set ids" and "Medium \<le> c" by auto
next
  fix b :: baseline_row and rows ids d
  assume a: "b \<in> set rows" "bl_stable_identity b \<notin> set ids" "truthy (wifi_identity d)"
    "bl_stable_identity b = or_empty (wifi_identity d)"
  show "\<exists>b'. match_wifi_identity d rows ids = Some (b', ''stable_identity'', Certain)
      \<and> bl_stable_identity b' = or_empty (wifi_identity d)"
  proof (cases "first_exact (or_empty (wifi_identity d)) rows ids")
    case None
    then show ?thesis using first_exact_None [OF None a(1,2)] a(4) by simp
  next
    case (Some r)
    then show ?thesis using a(3) first_exact_Some [of _ rows ids] by (cases r) (auto simp: match_wifi_identity_def)
  qed
qed

interpretation bluetooth_matcher: identity_matcher match_bluetooth_identity bluetooth_identity
proof
  fix d rows ids b m c
  assume "match_bluetooth_identity d rows ids = Some (b, m, c)"
  then have "best_match d None rows ids = Some (b, m, c)" "c \<in> {Certain, High, Medium}"
    by (auto simp: match_bluetooth_identity_def split: option.splits prod.splits if_splits)
  then show "b \<in> set rows \<and> bl_stable_identity b \<notin> set ids" and "Medium \<le> c"
    using best_match_free [of d None rows ids b m c] by auto
next
  fix b :: baseline_row and rows ids d
  assume a: "b \<in> set rows" "bl_stable_identity b \<notin> set ids" "truthy (bluetooth_identity d)"
    "bl_stable_identity b = or_empty (bluetooth_identity d)"
  from best_match_certain [OF a, of None]
  show "\<exists>b'. match_bluetooth_identity d rows ids = Some (b', ''stable_identity'', Certain)
      \<and> bl_stable_identity b' = or_empty (bluetooth_identity d)"
    by (auto simp: match_bluetooth_identity_def)
qed

subsection \<open>Properties\<close>

lemma annotate_devices_items:
  "rr_items (annotate_devices i p sets baselines items) =
     (case p of
        Wifi \<Rightarrow> annotate_loop match_wifi_identity wifi_differences False (reference_rows i p sets baselines) [] items
      | Bluetooth \<Rightarrow> annotate_loop match_bluetooth_identity bluetooth_differences True (reference_rows i p sets baselines) [] items)"
  by (simp add: annotate_devices_def annotate_with_def Let_def split: protocol.splits)

lemma address_type_differs:
  "normalize_value (Text (it_address_type d)) \<noteq> [] \<Longrightarrow> bluetooth_differences b d \<noteq> []"
  by (auto simp: bluetooth_differences_def differing_def normalize_value_def filter_empty_conv)

lemma no_free_row:
  "\<forall>b\<in>set rows. bl_stable_identity b \<in> set ids \<Longrightarrow> match_bluetooth_identity d rows ids = None"
proof -
  assume a: "\<forall>b\<in>set rows. bl_stable_identity b \<in> set ids"
  then have "best_match d best rows ids = best" for best by (induction rows) auto
  then show ?thesis by (simp add: match_bluetooth_identity_def)
qed

definition sample_item :: "string \<Rightarrow> session_item" where
  "sample_item i = \<lparr>it_stable_identity = Some i, it_bssid = None, it_mac = Some ''42:00:00:00:00:01'', it_ssid = None,
     it_encryption = None, it_device_type = None, it_vendor = None, it_device_name = None,
     it_address_type = Some ''random'', it_bluetooth_type = Some ''ble'', it_manufacturer_hash = None,
     it_channel = None, it_frequency_hz = None, it_company_id = None, it_service_uuids = []\<rparr>"

definition sample_reference :: "string \<Rightarrow> baseline_row" where
  "sample_reference i = (baseline_of Bluetooth ''lab'' (sample_save\<lparr>sv_reference_set_id := Some 4\<rparr>) 1
     (snapshot_of ob_rssi_dbm ((sample_known_device ''M'')\<lparr>kd_stable_identity := Some i\<rparr>) []))"

lemma sample_reference_sel [simp]:
  "bl_stable_identity (sample_reference (c # i)) = c # i" "bl_protocol (sample_reference i) = Bluetooth"
  "bl_reference_set_id (sample_reference i) = Some 4" "bl_expected_state (sample_reference i) = ''expected''"
  by (simp_all add: sample_reference_def device_identity_def snapshot_of_def baseline_of_def sample_save_def Let_def)

lemma sample_reference_rows:
  "reference_rows 4 Bluetooth [] [sample_reference ''fp'', sample_reference ''fp''] = [sample_reference ''fp'', sample_reference ''fp'']"
  by (simp add: reference_rows_def)

text \<open>
  Accounting of a comparison with a reference set, for both protocols: the annotated list is
  the given list in its order, each device is in the reference or new and the two counts add up,
  a device in the reference names a row of the loaded set, no two devices share an identity of
  it, and a row (not marked ignored) is missing exactly when no device was matched with its
  identity.
\<close>

theorem reference_annotation_accounts:
  fixes i p sets baselines items
  defines "r \<equiv> annotate_devices i p sets baselines items" and "rows \<equiv> reference_rows i p sets baselines"
  shows "map an_item (rr_items r) = items
    \<and> rr_in_reference r + rr_new r = rr_total_active r
    \<and> distinct (map bl_stable_identity (references_used (rr_items r)))
    \<and> set (references_used (rr_items r)) \<subseteq> set rows
    \<and> rr_in_reference r = length (references_used (rr_items r))
    \<and> (\<forall>b\<in>set rows. bl_expected_state b = ''ignored'' \<or> (b \<in> set (rr_missing r)) \<noteq>
         (bl_stable_identity b \<in> bl_stable_identity ` set (references_used (rr_items r))))"
proof (cases p)
  case Wifi
  then show ?thesis unfolding r_def rows_def annotate_devices_def Let_def Wifi protocol.case
    by (intro wifi_matcher.accounts)
next
  case Bluetooth
  then show ?thesis unfolding r_def rows_def annotate_devices_def Let_def Bluetooth protocol.case
    by (intro bluetooth_matcher.accounts)
qed

lemma reference_annotation_accounts_witness:
  "sample_reference ''other'' \<in> set (rr_missing (annotate_devices 4 Bluetooth []
      [sample_reference ''fp'', sample_reference ''other''] []))"
proof -
  let ?bs = "[sample_reference ''fp'', sample_reference ''other'']"
  let ?r = "annotate_devices 4 Bluetooth [] ?bs []"
  have rows: "reference_rows 4 Bluetooth [] ?bs = ?bs" by (simp add: reference_rows_def)
  have none: "references_used (rr_items ?r) = []"
    by (simp add: annotate_devices_items references_used_def)
  have "bl_expected_state (sample_reference ''other'') = ''ignored'' \<or> (sample_reference ''other'' \<in> set (rr_missing ?r)) \<noteq>
      (bl_stable_identity (sample_reference ''other'') \<in> bl_stable_identity ` set (references_used (rr_items ?r)))"
    using reference_annotation_accounts [of 4 Bluetooth "[]" ?bs "[]"] unfolding rows by auto
  then show ?thesis by (simp add: none)
qed

text \<open>
  Two devices that share a fingerprint identity are never both recognised: the rows of one
  identity are used up by the first device, so the second one is reported as new (and no row as
  missing), although the reference was saved from exactly these two devices.
\<close>

theorem shared_fingerprint_reported_new:
  assumes "reference_rows i Bluetooth sets baselines = rows" and "rows \<noteq> []"
    and "\<forall>b\<in>set rows. bl_stable_identity b = fp" and "fp \<noteq> []"
    and "it_stable_identity d1 = Some fp" and "it_stable_identity d2 = Some fp"
  shows "map an_status (rr_items (annotate_devices i Bluetooth sets baselines [d1, d2])) = [In_Reference, New_Device]
    \<and> rr_missing (annotate_devices i Bluetooth sets baselines [d1, d2]) = []"
proof -
  obtain b where b: "b \<in> set rows" "bl_stable_identity b = fp" using assms(2,3) by (cases rows) auto
  have ident: "truthy (bluetooth_identity d1)" "bl_stable_identity b = or_empty (bluetooth_identity d1)"
    using assms(4,5) b(2) by (simp_all add: bluetooth_identity_def or_else_def)
  obtain b' where m: "match_bluetooth_identity d1 rows [] = Some (b', ''stable_identity'', Certain)"
    "bl_stable_identity b' = fp"
    using bluetooth_matcher.match_exact [OF b(1) _ ident, of "[]"] ident b(2) by auto
  have n: "match_bluetooth_identity d2 rows [fp] = None" by (rule no_free_row) (use assms(3) in simp)
  have "filter (\<lambda>b. bl_stable_identity b \<noteq> fp \<and> bl_expected_state b \<noteq> ''ignored'') rows = []"
    using assms(3) by (simp add: filter_empty_conv)
  then show ?thesis using m n
    by (simp add: assms(1) annotate_devices_def annotate_with_def Let_def)
qed

lemma shared_fingerprint_reported_new_witness:
  "map an_status (rr_items (annotate_devices 4 Bluetooth [] [sample_reference ''fp'', sample_reference ''fp'']
     [sample_item ''fp'', sample_item ''fp''])) = [In_Reference, New_Device]"
  by (rule shared_fingerprint_reported_new [OF sample_reference_rows, THEN conjunct1])
    (simp_all add: sample_item_def)

text \<open>
  An unchanged Bluetooth device is reported as changed: the baseline table stores no address
  type, so a device of the reference whose address type is known always has a difference.
\<close>

theorem bluetooth_address_type_always_differs:
  assumes "a \<in> set (rr_items (annotate_devices i Bluetooth sets baselines items))"
    and "an_status a = In_Reference" and "normalize_value (Text (it_address_type (an_item a))) \<noteq> []"
  shows "has_differences a"
proof -
  have "a \<in> set (annotate_loop match_bluetooth_identity bluetooth_differences True (reference_rows i Bluetooth sets baselines) [] items)"
    using assms(1) by (simp add: annotate_devices_items)
  from bluetooth_matcher.loop_reference [OF this] assms(2,3) show ?thesis
    by (auto simp: has_differences_def address_type_differs split: option.splits)
qed

lemma bluetooth_address_type_always_differs_witness:
  "has_differences (hd (rr_items (annotate_devices 4 Bluetooth [] [sample_reference ''fp'', sample_reference ''fp''] [sample_item ''fp''])))"
    (is "has_differences (hd (rr_items ?r))")
proof -
  let ?rows = "[sample_reference ''fp'', sample_reference ''fp'']"
  have i: "bluetooth_identity (sample_item ''fp'') = Some ''fp''"
    by (simp add: bluetooth_identity_def or_else_def sample_item_def)
  obtain a as where r: "rr_items (annotate_with match_bluetooth_identity bluetooth_differences True ?rows [sample_item ''fp'']) = a # as"
    and st: "an_status a = In_Reference"
    using bluetooth_matcher.exact_first [of "sample_reference ''fp''" ?rows "sample_item ''fp''" bluetooth_differences True "[]"] i by auto
  have eq: "rr_items ?r = a # as" using r by (simp add: annotate_devices_def sample_reference_rows)
  have item: "an_item a = sample_item ''fp''"
    using bluetooth_matcher.loop_items [of bluetooth_differences True ?rows "[]" "[sample_item ''fp'']"] r
    by (auto simp: annotate_with_def Let_def)
  show ?thesis unfolding eq list.sel
    by (rule bluetooth_address_type_always_differs [of a 4 "[]" ?rows "[sample_item ''fp'']"])
      (use eq st item in \<open>simp_all add: sample_item_def normalize_value_def\<close>, code_simp)
qed

end
