(* ===== verification/Field_Parsing.thy ===== *)
theory Field_Parsing
  imports Rf_Prelude "HOL-Library.List_Lexorder" "HOL-Library.Char_ord"
begin

section \<open>Reading the fields of imported rows\<close>

text \<open>
  The scalar half of \<open>utils/parsing.py\<close>: what a Kismet or Bettercap row holds under a key, and the
  readings of numbers, frequencies, addresses, times, company identifiers and service UUIDs from
  it. A row is a JSON object (\<open>(string \<times> pyval) list\<close> with distinct keys). The regular expressions
  are written out as searches over ASCII text; a number keeps its exact decimal value. The
  conversions of the standard library that are not written out (the text of a float, the \<open>repr\<close>
  and the JSON text of a container, \<open>json.loads\<close>, \<open>fromisoformat\<close>, a SHA-256 digest) are the
  argument \<open>lib\<close>.
\<close>

record text_lib =
  tl_float_text :: "pyfloat \<Rightarrow> string"
  tl_repr :: "pyval \<Rightarrow> string"
  tl_dumps :: "pyval \<Rightarrow> string"
  tl_loads :: "string \<Rightarrow> pyval option"
  tl_fromiso :: "string \<Rightarrow> py_datetime option"
  tl_sha256 :: "pyval \<Rightarrow> string"

type_synonym row = "(string \<times> pyval) list"

definition py_str :: "text_lib \<Rightarrow> pyval \<Rightarrow> string" where
  "py_str lib v = (case v of PStr s \<Rightarrow> s | PInt n \<Rightarrow> int_text n | PNone \<Rightarrow> ''None''
     | PBool b \<Rightarrow> (if b then ''True'' else ''False'') | PFloat f \<Rightarrow> tl_float_text lib f | _ \<Rightarrow> tl_repr lib v)"

definition py_truthy :: "pyval \<Rightarrow> bool" where
  "py_truthy v = (case v of PNone \<Rightarrow> False | PBool b \<Rightarrow> b | PInt n \<Rightarrow> n \<noteq> 0 | PFloat f \<Rightarrow> f \<noteq> Fin 0
     | PStr s \<Rightarrow> s \<noteq> [] | PList xs \<Rightarrow> xs \<noteq> [] | PDict d \<Rightarrow> d \<noteq> [])"

text \<open>\<open>value in (None, "")\<close>\<close>

definition absent :: "pyval \<Rightarrow> bool" where
  "absent v = (v = PNone \<or> v = PStr [])"

lemma py_str_PStr [simp]: "py_str lib (PStr s) = s" "py_str lib (PInt n) = int_text n"
  by (simp_all add: py_str_def)

lemma absent_simps [simp]:
  "absent PNone" "absent (PStr s) = (s = [])" "\<not> absent (PInt n)" "\<not> absent (PList xs)" "\<not> absent (PDict d)"
  by (simp_all add: absent_def)

subsection \<open>Keys\<close>

definition is_lower_alnum :: "char \<Rightarrow> bool" where
  "is_lower_alnum c = (let n = (of_char c :: nat) in (97 \<le> n \<and> n \<le> 122) \<or> is_digit c)"

lemma is_lower_alnum_code [code]:
  "is_lower_alnum (Char b0 b1 b2 b3 b4 b5 b6 b7) =
     (\<not> b7 \<and> b5 \<and> (if b6 then (b4 \<or> b3 \<or> b2 \<or> b1 \<or> b0) \<and> \<not> (b4 \<and> b3 \<and> (b2 \<or> b1 \<and> b0))
        else b4 \<and> (\<not> b3 \<or> \<not> b2 \<and> \<not> b1)))"
  unfolding is_lower_alnum_def is_digit_code of_char_bits Let_def
  by (cases b7; cases b6; cases b5; cases b4; cases b3; cases b2; cases b1; cases b0; simp)
definition normalize_key :: "string \<Rightarrow> string" where
  "normalize_key k = filter is_lower_alnum (py_lower (py_strip k))"

definition row_get :: "row \<Rightarrow> string list \<Rightarrow> pyval" where
  "row_get row keys =
     (let normalized = map_of (rev (map (\<lambda>(k, v). (normalize_key k, v)) row));
          found = filter (\<lambda>v. \<not> absent v)
            (map (\<lambda>k. case normalized (normalize_key k) of None \<Rightarrow> PNone | Some v \<Rightarrow> v) keys) in
      case found of [] \<Rightarrow> PNone | v # _ \<Rightarrow> v)"

subsection \<open>Numbers\<close>

text \<open>Digits, then optionally a point and digits, at the start of a text that begins with a digit.\<close>

definition number_at :: "string \<Rightarrow> rat" where
  "number_at s =
     (let whole = of_nat (digits_value (takeWhile is_digit s)) in
      case dropWhile is_digit s of
        [] \<Rightarrow> whole
      | c # t \<Rightarrow> (let f = takeWhile is_digit t in
          if c = CHR ''.'' \<and> f \<noteq> [] then whole + of_nat (digits_value f) / 10 ^ length f else whole))"

fun find_number :: "string \<Rightarrow> rat option" where
  "find_number [] = None"
| "find_number (c # s) =
     (if c = CHR ''-'' \<and> s \<noteq> [] \<and> is_digit (hd s) then Some (- number_at s)
      else if is_digit c then Some (number_at (c # s))
      else find_number s)"

definition parse_float :: "text_lib \<Rightarrow> pyval \<Rightarrow> rat option" where
  "parse_float lib v =
     (if absent v then None
      else find_number (map (\<lambda>c. if c = CHR '','' then CHR ''.'' else c) (py_strip (py_str lib v))))"

definition parse_int :: "text_lib \<Rightarrow> pyval \<Rightarrow> int option" where
  "parse_int lib v = map_option py_trunc (parse_float lib v)"

definition parse_frequency_hz :: "text_lib \<Rightarrow> pyval \<Rightarrow> int option" where
  "parse_frequency_hz lib v =
     (case parse_float lib v of
        None \<Rightarrow> None
      | Some x \<Rightarrow>
          (let t = py_lower (py_strip (py_str lib v)) in
           Some (if contains ''ghz'' t then py_trunc (x * 1000000000)
             else if contains ''mhz'' t then py_trunc (x * 1000000)
             else if contains ''khz'' t then py_trunc (x * 1000)
             else if x \<le> 30000 then py_trunc (x * 1000000)
             else py_trunc x)))"

definition parse_kismet_frequency_hz :: "text_lib \<Rightarrow> pyval \<Rightarrow> int option" where
  "parse_kismet_frequency_hz lib v =
     (if absent v then None
      else case parse_float lib v of
        None \<Rightarrow> None
      | Some x \<Rightarrow>
          (let t = py_lower (py_strip (py_str lib v)) in
           Some (if contains ''ghz'' t then py_trunc (x * 1000000000)
             else if contains ''mhz'' t then py_trunc (x * 1000000)
             else if contains ''khz'' t then py_trunc (x * 1000)
             else if x \<le> 30000 then py_trunc (x * 1000000)
             else if x < 100000000 then py_trunc (x * 1000)
             else py_trunc x)))"

definition parse_kismet_dbm :: "text_lib \<Rightarrow> pyval \<Rightarrow> rat option" where
  "parse_kismet_dbm lib v = (case parse_float lib v of None \<Rightarrow> None | Some x \<Rightarrow> if x < 0 then Some x else None)"

subsection \<open>Times\<close>

definition replace_Z :: "string \<Rightarrow> string" where
  "replace_Z s = concat (map (\<lambda>c. if c = CHR ''Z'' then ''+00:00'' else [c]) s)"

text \<open>\<open>datetime.fromtimestamp(n, tz=utc)\<close> raises after the year 9999.\<close>

definition max_timestamp :: int where
  "max_timestamp = 253402300799"

definition utc_datetime :: "rat \<Rightarrow> py_datetime" where
  "utc_datetime t = \<lparr>aware = True, utc_seconds = t\<rparr>"

definition parse_datetime_value :: "text_lib \<Rightarrow> pyval \<Rightarrow> py_datetime option result" where
  "parse_datetime_value lib v =
     (let t = py_strip (py_str lib v) in
      if absent v \<or> t = [] then Inr None
      else if list_all is_digit t then
        (let n = int (digits_value t); n = (if 10000000000 < n then n div 1000 else n) in
         if max_timestamp < n then Inl (ValueError ''year is out of range'')
         else Inr (Some (utc_datetime (of_int n))))
      else Inr (tl_fromiso lib (replace_Z t)))"

definition as_utc :: "py_datetime option \<Rightarrow> py_datetime option" where
  "as_utc d = map_option (\<lambda>x. if aware x then x else x\<lparr>aware := True\<rparr>) d"

text \<open>Numbers of Bettercap are read directly (\<open>bool\<close> is an \<open>int\<close> in Python); a year below 1 or above 9999 gives \<open>None\<close>.\<close>

definition min_timestamp :: int where
  "min_timestamp = -62135596800"

definition parse_bettercap_datetime :: "text_lib \<Rightarrow> pyval \<Rightarrow> py_datetime option result" where
  "parse_bettercap_datetime lib v =
     (case num_of v of
        Some (Fin x) \<Rightarrow>
          (let x = (if 10000000000 < x then x / 1000 else x) in
           Inr (if of_int min_timestamp \<le> x \<and> x < of_int max_timestamp + 1 then Some (utc_datetime x) else None))
      | Some _ \<Rightarrow> Inr None
      | None \<Rightarrow> and_then (parse_datetime_value lib v) (\<lambda>d. Inr (as_utc d)))"

subsection \<open>Addresses\<close>

definition is_word :: "char \<Rightarrow> bool" where
  "is_word c = (is_lower_alnum (char_lower c) \<or> c = CHR ''_'')"

definition is_hex :: "char \<Rightarrow> bool" where
  "is_hex c = (let n = (of_char (char_lower c) :: nat) in is_digit c \<or> (97 \<le> n \<and> n \<le> 102))"

lemma is_hex_code [code]:
  "is_hex (Char b0 b1 b2 b3 b4 b5 b6 b7) =
     (is_digit (Char b0 b1 b2 b3 b4 b5 b6 b7)
      \<or> \<not> b7 \<and> b6 \<and> \<not> b4 \<and> \<not> b3 \<and> (b2 \<or> b1 \<or> b0) \<and> \<not> (b2 \<and> b1 \<and> b0))"
  unfolding is_hex_def is_digit_code char_lower_code Let_def
  by (cases b7; cases b6; cases b5; cases b4; cases b3; cases b2; cases b1; cases b0; simp add: of_char_bits)

definition mac_char :: "nat \<Rightarrow> char \<Rightarrow> bool" where
  "mac_char i c = (if i mod 3 = 2 then c = CHR '':'' \<or> c = CHR ''-'' else is_hex c)"

fun mac_chars :: "nat \<Rightarrow> string \<Rightarrow> bool" where
  "mac_chars i [] = True"
| "mac_chars i (c # s) = (mac_char i c \<and> mac_chars (Suc i) s)"

text \<open>The search of \<open>MAC_RE\<close>; \<open>word\<close> tells whether the character before is a word character.\<close>

fun mac_search :: "bool \<Rightarrow> string \<Rightarrow> string option" where
  "mac_search word [] = None"
| "mac_search word (c # s) =
     (if \<not> word \<and> 17 \<le> length (c # s) \<and> mac_chars 0 (take 17 (c # s))
         \<and> (case drop 17 (c # s) of [] \<Rightarrow> True | d # _ \<Rightarrow> \<not> is_word d)
      then Some (take 17 (c # s))
      else mac_search (is_word c) s)"

definition canonical_mac :: "string \<Rightarrow> string" where
  "canonical_mac m = map (\<lambda>c. if c = CHR ''-'' then CHR '':'' else c) (py_upper m)"

definition parse_mac :: "text_lib \<Rightarrow> pyval \<Rightarrow> string option" where
  "parse_mac lib v = (if absent v then None else map_option canonical_mac (mac_search False (py_str lib v)))"

definition hex_digit :: "char \<Rightarrow> nat" where
  "hex_digit c = (if is_digit c then digit_value c else of_char (char_lower c) - 87)"

definition hex_value :: "string \<Rightarrow> nat" where
  "hex_value s = foldl (\<lambda>n c. 16 * n + hex_digit c) 0 s"

text \<open>Its callers pass the result of \<open>parse_mac\<close>, so the first octet is two hexadecimal digits.\<close>

definition mac_is_locally_administered :: "string option \<Rightarrow> bool" where
  "mac_is_locally_administered mac =
     (let octet = takeWhile (\<lambda>c. c \<noteq> CHR '':'') (or_empty mac) in
      truthy mac \<and> octet \<noteq> [] \<and> list_all is_hex octet \<and> odd (hex_value octet div 2))"

subsection \<open>Texts\<close>

definition kismet_text :: "text_lib \<Rightarrow> pyval \<Rightarrow> string option" where
  "kismet_text lib v =
     (if absent v \<or> eq_int v 0 \<or> v = PStr ''0'' then None
      else case v of PDict _ \<Rightarrow> Some (tl_dumps lib v) | PList _ \<Rightarrow> Some (tl_dumps lib v)
        | _ \<Rightarrow> (let t = py_strip (py_str lib v) in if t = [] then None else Some t))"

definition normalized_vendor_text :: "text_lib \<Rightarrow> pyval \<Rightarrow> string option" where
  "normalized_vendor_text lib v =
     (case kismet_text lib v of
        None \<Rightarrow> None
      | Some t \<Rightarrow> if t = [] \<or> py_lower (py_strip t) \<in> {''unknown'', ''ismeretlen'', ''n/a'', ''na'', ''none'', ''null''}
          then None else Some t)"

definition manufacturer_data_hash :: "text_lib \<Rightarrow> pyval \<Rightarrow> string option" where
  "manufacturer_data_hash lib v = (if absent v \<or> v = PList [] \<or> v = PDict [] then None else Some (tl_sha256 lib v))"

subsection \<open>Company identifiers\<close>

text \<open>The search for four hexadecimal digits, after an optional \<open>0x\<close> and before a word boundary, in lower-case text.\<close>

definition hex4_at :: "string \<Rightarrow> string option" where
  "hex4_at s =
     (if 4 \<le> length s \<and> list_all is_hex (take 4 s) \<and> (case drop 4 s of [] \<Rightarrow> True | d # _ \<Rightarrow> \<not> is_word d)
      then Some (take 4 s) else None)"

fun hex4_search :: "string \<Rightarrow> string option" where
  "hex4_search [] = None"
| "hex4_search (c # s) =
     (case (if startswith (c # s) ''0x'' then hex4_at (drop 2 (c # s)) else None) of
        Some h \<Rightarrow> Some h
      | None \<Rightarrow> (case hex4_at (c # s) of Some h \<Rightarrow> Some h | None \<Rightarrow> hex4_search s))"

definition company_id_of_text :: "text_lib \<Rightarrow> string \<Rightarrow> int option" where
  "company_id_of_text lib t =
     (case hex4_search t of
        Some h \<Rightarrow> Some (int (hex_value h))
      | None \<Rightarrow> (case parse_int lib (PStr t) of
          Some n \<Rightarrow> if 0 \<le> n \<and> n \<le> 65535 then Some n else None
        | None \<Rightarrow> None))"

fun first_some :: "('a \<Rightarrow> 'b option) \<Rightarrow> 'a list \<Rightarrow> 'b option" where
  "first_some f [] = None"
| "first_some f (x # xs) = (case f x of Some y \<Rightarrow> Some y | None \<Rightarrow> first_some f xs)"

lemma first_some_cong [fundef_cong]:
  "xs = ys \<Longrightarrow> (\<And>x. x \<in> set ys \<Longrightarrow> f x = g x) \<Longrightarrow> first_some f xs = first_some g ys"
  by (induction ys arbitrary: xs) (auto split: option.splits)

lemma dict_get_size: "size (dict_get d k) < size (PDict d)"
proof (cases "map_of d k")
  case None
  then show ?thesis by (simp add: dict_get_def)
next
  case (Some v)
  then have "(k, v) \<in> set d" by (rule map_of_SomeD)
  then have "size_prod (\<lambda>_. 0) size (k, v) \<le> size_list (size_prod (\<lambda>_. 0) size) d"
    by (intro size_list_estimation' [where y = "size_prod (\<lambda>_. 0) size (k, v)"]) auto
  then show ?thesis using Some by (simp add: dict_get_def)
qed

function parse_bluetooth_company_id :: "text_lib \<Rightarrow> pyval \<Rightarrow> int option" where
  "parse_bluetooth_company_id lib v =
     (if absent v then None
      else case v of
        PDict d \<Rightarrow> first_some (parse_bluetooth_company_id lib)
          (map (dict_get d) [''company_id'', ''company'', ''id'', ''uuid''])
      | PList xs \<Rightarrow> first_some (parse_bluetooth_company_id lib) xs
      | _ \<Rightarrow> company_id_of_text lib (py_lower (py_strip (py_str lib v))))"
  by auto

termination
proof (relation "measure (\<lambda>(lib, v). size v)")
  fix lib v d x
  assume "v = PDict d" "x \<in> set (map (dict_get d) [''company_id'', ''company'', ''id'', ''uuid''])"
  then show "((lib, x), (lib, v)) \<in> measure (\<lambda>(lib, v). size v)" using dict_get_size [of d] by auto
next
  fix lib v xs x
  assume "v = PList xs" "x \<in> set xs"
  then show "((lib, x), (lib, v)) \<in> measure (\<lambda>(lib, v). size v)"
    using size_list_estimation' [of x xs "size x" size] by auto
qed simp

declare parse_bluetooth_company_id.simps [simp del]

subsection \<open>Service UUIDs\<close>

definition is_separator :: "char \<Rightarrow> bool" where
  "is_separator c = (c = CHR '','' \<or> c = CHR '';'' \<or> is_space c)"

text \<open>\<open>re.split\<close> at runs of separators.\<close>

function split_runs :: "string \<Rightarrow> string list" where
  "split_runs s =
     (let w = takeWhile (\<lambda>c. \<not> is_separator c) s; r = dropWhile (\<lambda>c. \<not> is_separator c) s in
      if r = [] then [w] else w # split_runs (dropWhile is_separator r))"
  by auto
termination
proof (relation "measure length", goal_cases)
  case (2 s w r)
  have "length (dropWhile is_separator r) < length r"
  proof (cases r)
    case (Cons c t)
    then have "is_separator c" using hd_dropWhile [of "\<lambda>c. \<not> is_separator c" s] 2 by simp
    then show ?thesis using Cons length_dropWhile_le [of is_separator t] by simp
  qed (use 2 in simp)
  then show ?case using 2 length_dropWhile_le [of "\<lambda>c. \<not> is_separator c" s] by simp
qed simp

declare split_runs.simps [simp del]

fun collect_uuids ::
  "text_lib \<Rightarrow> (pyval \<Rightarrow> string list option) \<Rightarrow> pyval list \<Rightarrow> string list \<Rightarrow> string list option" where
  "collect_uuids lib rec [] acc = Some acc"
| "collect_uuids lib rec (v # vs) acc =
     (case v of
        PDict d \<Rightarrow>
          (let nested = row_get d [''uuid'', ''service_uuid'', ''service'', ''id''] in
           if absent nested then collect_uuids lib rec vs acc
           else (case rec nested of None \<Rightarrow> None | Some us \<Rightarrow> collect_uuids lib rec vs (acc @ us)))
      | _ \<Rightarrow>
          (let t = py_strip (py_str lib v) in
           collect_uuids lib rec vs (if t \<noteq> [] \<and> t \<notin> set acc then acc @ [t] else acc)))"

text \<open>
  The recursion through \<open>json.loads\<close> is bounded by the fuel; \<open>None\<close> means it ran out
  (\<open>normalize_service_uuids_total\<close> shows how much is enough).
\<close>

primrec normalize_service_uuids :: "text_lib \<Rightarrow> nat \<Rightarrow> pyval \<Rightarrow> string list option" where
  "normalize_service_uuids lib 0 = (\<lambda>v. None)"
| "normalize_service_uuids lib (Suc n) = (\<lambda>v.
     let rec = normalize_service_uuids lib n in
     if absent v then Some []
     else case v of
       PStr s \<Rightarrow>
         (let t = py_strip s in
          if t = [] then Some []
          else (case (if hd t = CHR ''['' \<or> hd t = CHR ''{'' then tl_loads lib t else None) of
              Some w \<Rightarrow> rec w
            | None \<Rightarrow> collect_uuids lib rec (map PStr (split_runs t)) []))
     | PDict d \<Rightarrow>
         (let direct = row_get d [''uuid'', ''service_uuid'', ''service'', ''id''] in
          collect_uuids lib rec (if py_truthy direct then [direct] else map snd d) [])
     | PList xs \<Rightarrow> collect_uuids lib rec xs []
     | _ \<Rightarrow> collect_uuids lib rec [v] [])"

subsection \<open>Identity and vendor of a device\<close>

definition wifi_identity_metadata :: "string option \<Rightarrow> string option \<Rightarrow> string option \<times> string" where
  "wifi_identity_metadata mac device_type =
     (if \<not> truthy mac then (None, ''unknown'')
      else (let t = py_lower (if truthy device_type then or_empty device_type else ''unknown'');
                local = mac_is_locally_administered mac in
        (mac, if t = ''ap'' then (if local then ''medium'' else ''high'')
              else if local then ''low'' else ''medium'')))"

definition is_private_address :: "string option \<Rightarrow> bool" where
  "is_private_address address_type =
     (let t = py_lower (or_empty address_type) in
      list_ex (\<lambda>token. contains token t) [''random'', ''private'', ''resolvable'', ''non-resolvable''])"

definition str_or_null :: "string option \<Rightarrow> pyval" where
  "str_or_null x = (case x of None \<Rightarrow> PNone | Some s \<Rightarrow> PStr s)"

definition fingerprint_parts ::
  "string option \<Rightarrow> string option \<Rightarrow> string option \<Rightarrow> int option \<Rightarrow> string list \<Rightarrow> string option \<Rightarrow> pyval" where
  "fingerprint_parts device_name address_type bluetooth_type company_id uuids manufacturer_hash =
     PDict [(''name'', PStr (or_empty device_name)),
       (''company_id'', case company_id of None \<Rightarrow> PNone | Some n \<Rightarrow> PInt n),
       (''service_uuids'', PList (map PStr (sort (filter (\<lambda>u. u \<noteq> []) uuids)))),
       (''manufacturer_data_hash'', PStr (or_empty manufacturer_hash)),
       (''address_type'', PStr (or_empty address_type)),
       (''bluetooth_type'', PStr (or_empty bluetooth_type))]"

definition bluetooth_identity_metadata ::
  "text_lib \<Rightarrow> string option \<Rightarrow> string option \<Rightarrow> string option \<Rightarrow> string option \<Rightarrow> int option \<Rightarrow> string list
     \<Rightarrow> string option \<Rightarrow> string option \<times> string" where
  "bluetooth_identity_metadata lib mac device_name address_type bluetooth_type company_id uuids manufacturer_hash =
     (if \<not> truthy mac then (None, ''unknown'')
      else if \<not> is_private_address address_type \<and> \<not> mac_is_locally_administered mac then (mac, ''high'')
      else (let strong = (company_id \<noteq> None \<and> company_id \<noteq> Some 0) \<or> truthy manufacturer_hash
                  \<or> filter (\<lambda>u. u \<noteq> []) uuids \<noteq> [] in
        (Some (''blefp:'' @ tl_sha256 lib
           (fingerprint_parts device_name address_type bluetooth_type company_id uuids manufacturer_hash)),
         if strong then ''low'' else ''unknown'')))"

record vendor_metadata =
  vm_vendor :: "string option"
  vm_method :: string
  vm_confidence :: string
  vm_company_id :: "int option"
  vm_manufacturer_hash :: "string option"

definition bluetooth_vendor_metadata ::
  "string option \<Rightarrow> string \<Rightarrow> string option \<Rightarrow> int option \<Rightarrow> string option \<Rightarrow> vendor_metadata" where
  "bluetooth_vendor_metadata vendor source address_type company_id manufacturer_hash =
     (if company_id \<noteq> None then
        \<lparr>vm_vendor = vendor, vm_method = ''bluetooth_company_id'', vm_confidence = ''high'',
         vm_company_id = company_id, vm_manufacturer_hash = manufacturer_hash\<rparr>
      else if truthy vendor then
        (let t = py_lower (or_empty address_type) in
         \<lparr>vm_vendor = vendor, vm_method = source,
          vm_confidence = (if list_ex (\<lambda>token. contains token t) [''random'', ''private'', ''resolvable'']
            then ''low'' else ''medium''),
          vm_company_id = None, vm_manufacturer_hash = manufacturer_hash\<rparr>)
      else
        \<lparr>vm_vendor = None, vm_method = ''unknown'', vm_confidence = ''unknown'',
         vm_company_id = company_id, vm_manufacturer_hash = manufacturer_hash\<rparr>)"

subsection \<open>Digit texts\<close>

lemma digit_facts:
  assumes "is_digit c"
  shows "\<not> is_space c" "char_lower c = c" "is_hex c" "is_word c" "c \<noteq> CHR ''-''" "c \<noteq> CHR '',''" "c \<noteq> CHR ''x''"
    "hex_digit c = digit_value c" "digit_value c < 10"
  using assms
  by (auto simp: is_digit_def is_space_def char_lower_def is_hex_def is_word_def is_lower_alnum_def hex_digit_def
      digit_value_def Let_def)

lemma py_strip_id: "s = [] \<or> \<not> is_space (hd s) \<and> \<not> is_space (last s) \<Longrightarrow> py_strip s = s"
proof -
  assume a: "s = [] \<or> \<not> is_space (hd s) \<and> \<not> is_space (last s)"
  have "dropWhile is_space s = s" by (rule dropWhile_eq_self) (use a in auto)
  moreover have "dropWhile is_space (rev s) = rev s"
    by (rule dropWhile_eq_self) (use a in \<open>auto simp: hd_rev\<close>)
  ultimately show ?thesis by (simp add: py_strip_def)
qed

lemma py_strip_no_space: "(\<And>c. c \<in> set s \<Longrightarrow> \<not> is_space c) \<Longrightarrow> py_strip s = s"
  by (rule py_strip_id) (metis hd_in_set last_in_set)

lemma number_at_digits: "list_all is_digit s \<Longrightarrow> number_at s = of_nat (digits_value s)"
proof -
  assume "list_all is_digit s"
  then have t: "takeWhile is_digit s = s" and d: "dropWhile is_digit s = []" by (auto simp: list_all_iff)
  show ?thesis unfolding number_at_def t d Let_def by simp
qed

lemma find_number_digits: "s \<noteq> [] \<Longrightarrow> list_all is_digit s \<Longrightarrow> find_number s = Some (of_nat (digits_value s))"
  using number_at_digits [of s] digit_facts(5) by (cases s) auto

lemma int_text_chars: "c \<in> set (int_text n) \<Longrightarrow> c = CHR ''-'' \<or> is_digit c"
  by (auto simp: int_text_def dest: nat_text_digits split: if_splits)

lemma int_text_nonempty [simp]: "int_text n \<noteq> []"
  by (simp add: int_text_def)

lemma int_text_plain:
  "py_strip (int_text n) = int_text n" "py_lower (int_text n) = int_text n"
  "map (\<lambda>c. if c = CHR '','' then CHR ''.'' else c) (int_text n) = int_text n"
proof -
  have c: "\<not> is_space c \<and> char_lower c = c \<and> c \<noteq> CHR '',''" if "c \<in> set (int_text n)" for c
  proof -
    have "\<not> is_space (CHR ''-'') \<and> char_lower (CHR ''-'') = CHR ''-''"
      by (simp add: is_space_def char_lower_def)
    then show ?thesis using int_text_chars [OF that] digit_facts [of c] by auto
  qed
  then show "py_strip (int_text n) = int_text n" by (intro py_strip_no_space) blast
  show "py_lower (int_text n) = int_text n" using c by (simp add: py_lower_def map_idI)
  show "map (\<lambda>c. if c = CHR '','' then CHR ''.'' else c) (int_text n) = int_text n" using c by (intro map_idI) auto
qed

lemma nat_text_all_digits: "list_all is_digit (nat_text n)"
  by (auto simp: list_all_iff nat_text_digits)

lemma find_number_int_text: "find_number (int_text n) = Some (of_int n)"
proof (cases "n < 0")
  case True
  have "is_digit (hd (nat_text (nat (- n))))" by (rule nat_text_digits [of _ "nat (- n)"]) simp
  then show ?thesis using True number_at_digits [OF nat_text_all_digits, of "nat (- n)"] by (simp add: int_text_def)
next
  case False
  then show ?thesis using find_number_digits [OF nat_text_nonempty nat_text_all_digits, of "nat n"]
    by (simp add: int_text_def)
qed

lemma parse_int_text [simp]: "parse_int lib (PInt n) = Some n" "parse_int lib (PStr (int_text n)) = Some n"
  by (simp_all add: parse_int_def parse_float_def int_text_plain find_number_int_text py_trunc_def)

subsection \<open>Hexadecimal readings of digits\<close>

lemma hex4_search_short: "length s < 4 \<Longrightarrow> CHR ''x'' \<notin> set s \<Longrightarrow> hex4_search s = None"
proof (induction s)
  case (Cons c s)
  then have "\<not> startswith (c # s) ''0x''" by (cases s) auto
  then show ?case using Cons by (simp add: hex4_at_def)
qed simp

lemma hex4_search_four:
  assumes "length s = 4" "list_all is_digit s"
  shows "hex4_search s = Some s"
proof -
  obtain a b t where s: "s = a # b # t" using assms(1) by (cases s rule: remdups_adj.cases) auto
  have "\<not> startswith s ''0x''" using assms(2) digit_facts(7) [of b] by (auto simp: s)
  moreover have "hex4_at s = Some s" using assms digit_facts(3) by (auto simp: hex4_at_def list_all_iff)
  ultimately show ?thesis by (auto simp: s)
qed

lemma hex_value_ge: "list_all is_digit s \<Longrightarrow> digits_value s \<le> hex_value s"
proof (induction s rule: rev_induct)
  case (snoc c s)
  then show ?case using digit_facts(8) [of c] by (simp add: digits_value_snoc hex_value_def)
qed (simp add: digits_value_def hex_value_def)

lemma hex_value_gt:
  assumes "list_all is_digit s" "10 \<le> digits_value s"
  shows "digits_value s < hex_value s"
proof (cases s rule: rev_cases)
  case Nil
  then show ?thesis using assms(2) by (simp add: digits_value_def)
next
  case (snoc t c)
  have c: "digit_value c < 10" "hex_digit c = digit_value c" using assms(1) digit_facts snoc by auto
  then have "0 < digits_value t" using assms(2) by (simp add: snoc digits_value_snoc)
  then show ?thesis using hex_value_ge [of t] assms(1) c by (simp add: snoc digits_value_snoc hex_value_def)
qed

lemma length_nat_text:
  "n < 10 \<Longrightarrow> length (nat_text n) = 1" "10 \<le> n \<Longrightarrow> length (nat_text n) = Suc (length (nat_text (n div 10)))"
  by (subst nat_text.simps, simp)+

lemma length_nat_text_cases:
  "n < 1000 \<Longrightarrow> length (nat_text n) < 4" "1000 \<le> n \<Longrightarrow> n < 10000 \<Longrightarrow> length (nat_text n) = 4"
proof -
  have 1: "n < 10 \<Longrightarrow> length (nat_text n) \<le> 1" for n using length_nat_text(1) [of n] by simp
  have 2: "n < 100 \<Longrightarrow> length (nat_text n) \<le> 2" for n
    using 1 [of n] 1 [of "n div 10"] length_nat_text(2) [of n] by linarith
  show "length (nat_text n) < 4" if "n < 1000"
    using that 2 [of n] 2 [of "n div 10"] length_nat_text(2) [of n] by linarith
  assume n: "1000 \<le> n" "n < 10000"
  then have r: "n div 10 div 10 div 10 < 10" "10 \<le> n div 10 div 10" "10 \<le> n div 10" "10 \<le> n"
    by (simp_all add: div_mult2_eq [symmetric])
  show "length (nat_text n) = 4"
    unfolding length_nat_text(2) [OF r(4)] length_nat_text(2) [OF r(3)] length_nat_text(2) [OF r(2)]
      length_nat_text(1) [OF r(1)] by simp
qed

lemma company_id_of_int: "parse_bluetooth_company_id lib (PInt n) = company_id_of_text lib (int_text n)"
  by (subst parse_bluetooth_company_id.simps) (simp add: int_text_plain)

subsection \<open>Addresses\<close>

lemma mac_chars_iff: "mac_chars i s \<longleftrightarrow> (\<forall>j<length s. mac_char (i + j) (s ! j))"
proof (induction s arbitrary: i)
  case (Cons c s)
  show ?case unfolding mac_chars.simps Cons by (auto simp: nth_Cons' less_Suc_eq_0_disj split: nat.splits)
qed simp

lemma mac_search_Some:
  "mac_search w s = Some m \<Longrightarrow> length m = 17 \<and> mac_chars 0 m"
  by (induction w s rule: mac_search.induct) (auto split: if_splits)

lemma mac_search_self: "length m = 17 \<Longrightarrow> mac_chars 0 m \<Longrightarrow> mac_search False m = Some m"
  by (cases m) auto

definition upper_hex :: "char \<Rightarrow> bool" where
  "upper_hex c = (is_digit c \<or> (let n = (of_char c :: nat) in 65 \<le> n \<and> n \<le> 70))"

definition canonical_char :: "char \<Rightarrow> char" where
  "canonical_char c = (let u = hd (py_upper [c]) in if u = CHR ''-'' then CHR '':'' else u)"

lemma canonical_mac_map: "canonical_mac m = map canonical_char m"
  by (simp add: canonical_mac_def py_upper_def canonical_char_def)

lemma char_of_dash: "char_of n = CHR ''-'' \<Longrightarrow> n mod 256 = (45::nat)"
proof -
  assume "char_of n = CHR ''-''"
  then have "(of_char (char_of n) :: nat) = of_char (CHR ''-'')" by (rule arg_cong)
  then show "n mod 256 = 45" by (simp only: of_char_of) simp
qed

lemma canonical_char_hex:
  "is_hex c \<Longrightarrow> is_hex (canonical_char c) \<and> upper_hex (canonical_char c) \<and> canonical_char (canonical_char c) = canonical_char c"
proof -
  assume h: "is_hex c"
  define n :: nat where "n = of_char c"
  have c: "c = char_of n" "n < 256" by (simp_all add: n_def)
  have n: "48 \<le> n \<and> n \<le> 57 \<or> 65 \<le> n \<and> n \<le> 70 \<or> 97 \<le> n \<and> n \<le> 102"
    using h c(2) by (auto simp: c(1) is_hex_def is_digit_def char_lower_def of_char_of Let_def split: if_splits)
  define u where "u = (if 97 \<le> n then n - 32 else n)"
  have u: "48 \<le> u \<and> u \<le> 57 \<or> 65 \<le> u \<and> u \<le> 70" "u < 256" using n by (auto simp: u_def)
  have dash: "char_of u \<noteq> CHR ''-''" using char_of_dash [of u] u by auto
  have "canonical_char c = char_of u" using n c(2) dash
    by (auto simp: canonical_char_def py_upper_def c(1) u_def of_char_of Let_def split: if_splits)
  moreover have "canonical_char (char_of u) = char_of u" using u dash
    by (auto simp: canonical_char_def py_upper_def of_char_of Let_def)
  moreover have "is_hex (char_of u)" "upper_hex (char_of u)"
    using u by (auto simp: is_hex_def upper_hex_def is_digit_def char_lower_def of_char_of Let_def)
  ultimately show ?thesis by simp
qed

lemma canonical_char_mac:
  "mac_char i c \<Longrightarrow> mac_char i (canonical_char c)
    \<and> (if i mod 3 = 2 then canonical_char c = CHR '':'' else upper_hex (canonical_char c))
    \<and> canonical_char (canonical_char c) = canonical_char c"
proof -
  have "canonical_char (CHR '':'') = CHR '':''" "canonical_char (CHR ''-'') = CHR '':''" by code_simp+
  then show "mac_char i c \<Longrightarrow> ?thesis" using canonical_char_hex [of c] by (auto simp: mac_char_def)
qed

subsection \<open>Enough fuel for the service UUIDs\<close>

text \<open>The number of characters and containers in a value.\<close>

fun weight :: "pyval \<Rightarrow> nat" where
  "weight (PStr s) = Suc (length s)"
| "weight (PList xs) = Suc (sum_list (map weight xs))"
| "weight (PDict d) = Suc (sum_list (map (\<lambda>kv. weight (snd kv)) d))"
| "weight v = 1"

lemma weight_pos: "0 < weight v"
  by (cases v) auto

lemma member_le_sum: "x \<in> set xs \<Longrightarrow> f x \<le> sum_list (map f xs :: nat list)"
  by (induction xs) auto

lemma row_get_member: "row_get d keys = PNone \<or> row_get d keys \<in> snd ` set d"
proof -
  let ?m = "map_of (rev (map (\<lambda>(k, v). (normalize_key k, v)) d))"
  let ?found = "filter (\<lambda>v. \<not> absent v) (map (\<lambda>k. case ?m (normalize_key k) of None \<Rightarrow> PNone | Some v \<Rightarrow> v) keys)"
  have m: "?m k = Some v \<Longrightarrow> v \<in> snd ` set d" for k v by (drule map_of_SomeD) force
  show ?thesis
  proof (cases ?found)
    case (Cons v vs)
    then have "v \<in> set ?found" by (metis list.set_intros(1))
    then have "v \<in> snd ` set d" using m by (auto split: option.splits)
    then show ?thesis using Cons by (simp add: row_get_def Let_def)
  qed (simp add: row_get_def Let_def)
qed

lemma weight_row_get: "weight (row_get d keys) < weight (PDict d) \<or> row_get d keys = PNone"
  using row_get_member [of d keys] member_le_sum [of _ d "\<lambda>kv. weight (snd kv)"] by fastforce

lemma collect_uuids_total:
  "(\<And>v d. v \<in> set vs \<Longrightarrow> v = PDict d \<Longrightarrow> row_get d [''uuid'', ''service_uuid'', ''service'', ''id''] \<noteq> PNone
      \<Longrightarrow> rec (row_get d [''uuid'', ''service_uuid'', ''service'', ''id'']) \<noteq> None)
   \<Longrightarrow> collect_uuids lib rec vs acc \<noteq> None"
proof (induction vs arbitrary: acc)
  case (Cons v vs)
  have IH: "collect_uuids lib rec vs a \<noteq> None" for a using Cons by (meson list.set_intros(2))
  show ?case
  proof (cases v)
    case (PDict d)
    then have "absent (row_get d [''uuid'', ''service_uuid'', ''service'', ''id''])
        \<or> rec (row_get d [''uuid'', ''service_uuid'', ''service'', ''id'']) \<noteq> None"
      using Cons.prems [of v d] by (auto simp: absent_def)
    then show ?thesis using PDict IH by (auto simp: Let_def)
  qed (use IH in \<open>simp_all add: Let_def\<close>)
qed simp

lemma collect_nested_total:
  assumes "\<And>w. weight w < m \<Longrightarrow> rec w \<noteq> None" "\<And>v. v \<in> set vs \<Longrightarrow> weight v \<le> m"
  shows "collect_uuids lib rec vs acc \<noteq> None"
proof (rule collect_uuids_total)
  fix v d assume v: "v \<in> set vs" "v = PDict d"
    and n: "row_get d [''uuid'', ''service_uuid'', ''service'', ''id''] \<noteq> PNone"
  then have "weight (row_get d [''uuid'', ''service_uuid'', ''service'', ''id'']) < weight (PDict d)"
    using weight_row_get by blast
  moreover have "weight (PDict d) \<le> m" using assms(2) [OF v(1)] v(2) by simp
  ultimately show "rec (row_get d [''uuid'', ''service_uuid'', ''service'', ''id'']) \<noteq> None"
    by (intro assms(1)) (rule order_less_le_trans)
qed

lemma normalize_service_uuids_fuel:
  assumes loads: "\<And>s w. tl_loads lib s = Some w \<Longrightarrow> weight w \<le> length s"
  shows "weight v \<le> n \<Longrightarrow> normalize_service_uuids lib n v \<noteq> None"
proof (induction n arbitrary: v)
  case (Suc n)
  have IH: "weight w < Suc n \<Longrightarrow> normalize_service_uuids lib n w \<noteq> None" for w using Suc.IH by simp
  show ?case
  proof (cases v)
    case (PStr s)
    have small: "tl_loads lib (py_strip s) = Some w \<Longrightarrow> normalize_service_uuids lib n w \<noteq> None" for w
    proof -
      assume "tl_loads lib (py_strip s) = Some w"
      then have "weight w \<le> length s" using loads length_py_strip [of s] le_trans by blast
      then show ?thesis using Suc.prems PStr by (intro IH) simp
    qed
    have "collect_uuids lib (normalize_service_uuids lib n) (map PStr (split_runs t)) [] \<noteq> None" for t
      by (rule collect_uuids_total) auto
    then show ?thesis using PStr small by (auto simp: Let_def split: option.splits)
  next
    case (PList xs)
    have "w \<in> set xs \<Longrightarrow> weight w \<le> Suc n" for w
      using member_le_sum [of w xs weight] Suc.prems PList by simp
    then have "collect_uuids lib (normalize_service_uuids lib n) xs [] \<noteq> None"
      by (intro collect_nested_total [where m = "Suc n"] IH)
    then show ?thesis using PList by simp
  next
    case (PDict d)
    have item: "w \<in> snd ` set d \<Longrightarrow> weight w \<le> Suc n" for w
      using member_le_sum [of _ d "\<lambda>kv. weight (snd kv)"] Suc.prems PDict by fastforce
    have "py_truthy (row_get d ks) \<Longrightarrow> row_get d ks \<in> snd ` set d" for ks
      using row_get_member [of d ks] by (auto simp: py_truthy_def)
    then have "collect_uuids lib (normalize_service_uuids lib n)
        (if py_truthy (row_get d ks) then [row_get d ks] else map snd d) [] \<noteq> None" for ks
      using item by (intro collect_nested_total [where m = "Suc n"] IH) (auto split: if_splits)
    then show ?thesis using PDict by (simp add: Let_def)
  qed (simp_all add: Let_def)
next
  case 0
  then show ?case using weight_pos [of v] by simp
qed

subsection \<open>Properties\<close>

definition sample_lib :: text_lib where
  "sample_lib = \<lparr>tl_float_text = (\<lambda>_. ''1.0''), tl_repr = (\<lambda>_. ''{}''), tl_dumps = (\<lambda>_. ''{}''), tl_loads = (\<lambda>_. None),
     tl_fromiso = (\<lambda>_. None), tl_sha256 = (\<lambda>_. ''0'')\<rparr>"

text \<open>
  C10: \<open>normalize_service_uuids\<close> terminates on every value, although it calls itself on the result
  of \<open>json.loads\<close>: when parsing a text never gives a value with more characters and containers
  than the text has characters, as many calls as the value has are enough.
\<close>

theorem normalize_service_uuids_total:
  assumes "\<And>s w. tl_loads lib s = Some w \<Longrightarrow> weight w \<le> length s"
  shows "\<exists>uuids. normalize_service_uuids lib (weight v) v = Some uuids"
  using normalize_service_uuids_fuel [OF assms, where v = v and n = "weight v"] by auto

lemma normalize_service_uuids_total_witness:
  "\<exists>uuids. normalize_service_uuids (sample_lib\<lparr>tl_loads := (\<lambda>s. if s = ''[{}]'' then Some (PList [PDict []]) else None)\<rparr>)
     (weight (PStr ''[{}]'')) (PStr ''[{}]'') = Some uuids"
  by (rule normalize_service_uuids_total) (auto split: if_splits)

text \<open>
  \<open>parse_mac\<close> returns a canonical address and is idempotent: 17 characters, every third one a
  colon and the others upper-case hexadecimal digits, and parsing the result again returns it.
\<close>

theorem parse_mac_canonical:
  assumes "parse_mac lib v = Some m"
  shows "length m = 17 \<and> (\<forall>i<17. if i mod 3 = 2 then m ! i = CHR '':'' else upper_hex (m ! i))
    \<and> parse_mac lib (PStr m) = Some m"
proof -
  obtain r where r: "mac_search False (py_str lib v) = Some r" and m: "m = map canonical_char r"
    using assms by (auto simp: parse_mac_def canonical_mac_map split: if_splits)
  have len: "length r = 17" and chars: "mac_char i (r ! i)" if "i < 17" for i
    using mac_search_Some [OF r] that by (auto simp: mac_chars_iff)
  have lm: "length m = 17" using len [of 0] m by simp
  have c: "mac_char i (m ! i)" "if i mod 3 = 2 then m ! i = CHR '':'' else upper_hex (m ! i)"
    "canonical_char (m ! i) = m ! i" if "i < 17" for i
    using canonical_char_mac [OF chars [OF that]] that len m by auto
  have "mac_search False m = Some m" by (rule mac_search_self) (use lm c(1) in \<open>auto simp: mac_chars_iff\<close>)
  moreover have "map canonical_char m = m" by (rule nth_equalityI) (use lm c(3) in auto)
  ultimately show ?thesis using lm c(2) by (auto simp: parse_mac_def canonical_mac_map)
qed

lemma parse_mac_canonical_witness:
  "parse_mac sample_lib (PStr ''AA:BB:CC:00:11:22'') = Some ''AA:BB:CC:00:11:22''"
proof -
  have "parse_mac sample_lib (PStr ''mac aa-bb-cc-00-11-22.'') = Some ''AA:BB:CC:00:11:22''" by code_simp
  from parse_mac_canonical [OF this] show ?thesis by blast
qed

text \<open>
  A numeric company identifier of four decimal digits is read as hexadecimal: up to 999
  \<open>parse_bluetooth_company_id\<close> returns the number itself, from 1000 to 9999 a strictly larger one.
\<close>

theorem decimal_company_id_misread:
  assumes "0 \<le> n" and "n < 10000"
  shows "if n < 1000 then parse_bluetooth_company_id lib (PInt n) = Some n
    else \<exists>m. parse_bluetooth_company_id lib (PInt n) = Some m \<and> n < m"
proof -
  have t: "int_text n = nat_text (nat n)" using assms(1) by (simp add: int_text_def)
  have x: "CHR ''x'' \<notin> set (nat_text (nat n))"
    using nat_text_digits [of "CHR ''x''" "nat n"] digit_facts(7) by blast
  show ?thesis
  proof (cases "n < 1000")
    case True
    then have "hex4_search (int_text n) = None"
      using length_nat_text_cases(1) [of "nat n"] x by (simp add: t hex4_search_short)
    then show ?thesis using assms True by (simp add: company_id_of_int company_id_of_text_def)
  next
    case False
    then have "hex4_search (int_text n) = Some (nat_text (nat n))"
      using length_nat_text_cases(2) [of "nat n"] assms nat_text_all_digits by (simp add: t hex4_search_four)
    moreover have "nat n < hex_value (nat_text (nat n))"
      using hex_value_gt [OF nat_text_all_digits, of "nat n"] False by simp
    ultimately show ?thesis using False by (simp add: company_id_of_int company_id_of_text_def)
  qed
qed

lemma decimal_company_id_misread_witness:
  "\<exists>m. parse_bluetooth_company_id sample_lib (PInt 1494) = Some m \<and> 1494 < m"
  using decimal_company_id_misread [of 1494 sample_lib] by simp

end
