(* ===== verification/Device_Rows.thy ===== *)
theory Device_Rows
  imports Field_Parsing
begin

section \<open>Normalised rows of imported devices\<close>

text \<open>
  The second half of \<open>utils/parsing.py\<close>: the flattening of nested Kismet and Bettercap objects, the
  classification of a Wi-Fi device and of a Bluetooth row, and the normalised Wi-Fi, Bluetooth and
  alert records the import routes store. Dictionaries keep their insertion order; a time that
  \<open>datetime\<close> cannot hold makes the whole row raise.
\<close>

subsection \<open>Flattening\<close>

definition add_missing :: "string \<Rightarrow> pyval \<Rightarrow> row \<Rightarrow> row" where
  "add_missing k v flat = (if dict_has flat k then flat else flat @ [(k, v)])"

definition join_path :: "string \<Rightarrow> string \<Rightarrow> string" where
  "join_path prefix k = (if prefix = [] then k else prefix @ ''.'' @ k)"

function visit_kismet :: "row \<Rightarrow> string \<Rightarrow> row \<Rightarrow> row" where
  "visit_kismet flat prefix [] = flat"
| "visit_kismet flat prefix ((k, v) # rest) =
     (let path = join_path prefix k;
          flat1 = add_missing path v flat;
          flat2 = (if prefix \<noteq> [] \<and> CHR ''.'' \<in> set k then add_missing k v flat1 else flat1);
          flat3 = (case v of PDict d \<Rightarrow> visit_kismet flat2 path d | _ \<Rightarrow> flat2) in
      visit_kismet flat3 prefix rest)"
  by pat_completeness auto
termination
  by (relation "measure (\<lambda>(flat, prefix, d). size (PDict d))") simp_all

function visit_bettercap :: "row \<Rightarrow> string \<Rightarrow> row \<Rightarrow> row" where
  "visit_bettercap flat prefix [] = flat"
| "visit_bettercap flat prefix ((k, v) # rest) =
     (let path = join_path prefix k;
          flat1 = add_missing path v flat;
          flat2 = (case v of PDict d \<Rightarrow> visit_bettercap flat1 path d | _ \<Rightarrow> flat1) in
      visit_bettercap flat2 prefix rest)"
  by pat_completeness auto
termination
  by (relation "measure (\<lambda>(flat, prefix, d). size (PDict d))") simp_all

definition flatten_kismet_row :: "row \<Rightarrow> row" where
  "flatten_kismet_row row = visit_kismet row [] row"

definition flatten_bettercap_row :: "row \<Rightarrow> row" where
  "flatten_bettercap_row row = visit_bettercap row [] row"

subsection \<open>Kinds of rows\<close>

text \<open>The search for \<open>ap\<close> between word boundaries; \<open>word\<close> tells whether the character before is a word character.\<close>

fun search_word :: "string \<Rightarrow> bool \<Rightarrow> string \<Rightarrow> bool" where
  "search_word w word [] = False"
| "search_word w word (c # s) =
     (if \<not> word \<and> startswith (c # s) w
         \<and> (case drop (length w) (c # s) of [] \<Rightarrow> True | d # _ \<Rightarrow> \<not> is_word d)
      then True else search_word w (is_word c) s)"

fun join_space :: "string list \<Rightarrow> string" where
  "join_space [] = []"
| "join_space [s] = s"
| "join_space (s # t # ss) = s @ '' '' @ join_space (t # ss)"

definition any_token :: "string list \<Rightarrow> string \<Rightarrow> bool" where
  "any_token tokens t = list_ex (\<lambda>token. contains token t) tokens"

definition type_text :: "text_lib \<Rightarrow> row \<Rightarrow> string" where
  "type_text lib flat =
     (let candidates = row_get flat [''device_type'', ''type'', ''role'', ''kismet.device.base.type'',
            ''kismet.device.base.basic_type_set'', ''dot11.device.type'', ''dot11.device.role'',
            ''dot11.device/dot11.device.type'', ''dot11.device/dot11.device.role'']
          # map snd (filter (\<lambda>(k, v). any_token [''type'', ''role''] (py_lower k)) flat) in
      join_space (map (\<lambda>v. py_lower (py_str lib v)) (filter (\<lambda>v. \<not> absent v) candidates)))"

definition normalize_wifi_device_type :: "text_lib \<Rightarrow> row \<Rightarrow> string" where
  "normalize_wifi_device_type lib row =
     (let flat = flatten_kismet_row row; t = type_text lib flat in
      if any_token [''mesh'', ''bridge'', ''wds''] t then ''bridge/mesh''
      else if any_token [''ad-hoc'', ''adhoc'', ''ibss''] t then ''ad-hoc''
      else if any_token [''access point'', ''base station'', ''infrastructure''] t \<or> search_word ''ap'' False t then ''AP''
      else if any_token [''client'', ''station'', '' sta'', ''probe''] t then ''client''
      else if py_truthy (row_get flat [''dot11.device.last_beaconed_ssid'']) then ''AP''
      else if py_truthy (row_get flat [''dot11.device.last_probed_ssid'']) then ''client''
      else ''unknown'')"

text \<open>\<open>str(value or "").lower().strip()\<close>\<close>

definition lower_text :: "text_lib \<Rightarrow> pyval \<Rightarrow> string" where
  "lower_text lib v = py_strip (py_lower (if py_truthy v then py_str lib v else []))"

definition is_kismet_bluetooth_row :: "text_lib \<Rightarrow> row \<Rightarrow> bool" where
  "is_kismet_bluetooth_row lib row =
     (let flat = flatten_kismet_row row;
          phy = lower_text lib (row_get flat [''kismet.device.base.phyname'', ''phyname'', ''phy'']);
          kind = lower_text lib (row_get flat [''kismet.device.base.type'', ''type'', ''device_type'']) in
      if any_token [''802.11'', ''wi-fi'', ''wifi''] phy then False
      else if any_token [''wi-fi'', ''wifi''] kind then False
      else if phy \<in> {''bluetooth'', ''btle'', ''ble'', ''br/edr''} then True
      else if kind \<in> {''bluetooth'', ''btle'', ''ble'', ''br/edr''} then True
      else if dict_has flat ''bluetooth_rssi_last'' \<or> dict_has flat ''bluetooth_rssi_avg'' then True
      else list_ex (\<lambda>(k, v). contains ''bluetooth.device'' k) flat)"

subsection \<open>Wi-Fi rows\<close>

record wifi_row =
  wr_bssid :: "string option"
  wr_ssid :: "string option"
  wr_channel :: "int option"
  wr_frequency_hz :: "int option"
  wr_signal_dbm :: "rat option"
  wr_noise_dbm :: "rat option"
  wr_encryption :: "string option"
  wr_vendor :: "string option"
  wr_device_type :: string
  wr_stable_identity :: "string option"
  wr_identity_confidence :: string
  wr_first_seen :: py_datetime
  wr_last_seen :: py_datetime
  wr_observed_at :: py_datetime
  wr_packet_count :: "int option"

definition or_default :: "'a option \<Rightarrow> 'a \<Rightarrow> 'a" where
  "or_default x d = (case x of None \<Rightarrow> d | Some y \<Rightarrow> y)"

definition normalize_kismet_row :: "text_lib \<Rightarrow> row \<Rightarrow> py_datetime \<Rightarrow> wifi_row result" where
  "normalize_kismet_row lib row fallback =
     (let flat = flatten_kismet_row row; g = row_get flat in
      and_then (parse_datetime_value lib (g [''first_seen'', ''first_time'', ''kismet.device.base.first_time'',
          ''kismet.device.base.first_time_sec''])) (\<lambda>first.
      and_then (parse_datetime_value lib (g [''last_seen'', ''last_time'', ''kismet.device.base.last_time'',
          ''kismet.device.base.last_time_sec'', ''timestamp''])) (\<lambda>last.
      let first = as_utc first; last = as_utc last;
          observed = or_default last (or_default first fallback);
          bssid = parse_mac lib (g [''bssid'', ''mac'', ''mac_address'', ''kismet.device.base.macaddr'']);
          device_type = normalize_wifi_device_type lib row;
          (identity, conf) = wifi_identity_metadata bssid (Some device_type) in
      Inr \<lparr>wr_bssid = bssid,
        wr_ssid = kismet_text lib (g [''ssid'', ''essid'', ''network'', ''kismet.device.base.name'',
          ''dot11.device.last_beaconed_ssid'', ''dot11.device.last_probed_ssid'']),
        wr_channel = parse_int lib (g [''channel'', ''chan'', ''kismet.device.base.channel'']),
        wr_frequency_hz = parse_kismet_frequency_hz lib (g [''frequency_hz'', ''frequency'', ''freq'',
          ''kismet.device.base.frequency'']),
        wr_signal_dbm = parse_kismet_dbm lib (g [''device_last_signal'',
          ''kismet.device.base.signal/kismet.common.signal.last_signal'', ''kismet.common.signal.last_signal'',
          ''kismet.device.base.signal.kismet.common.signal.last_signal'', ''kismet.device.base.signal.last_signal'',
          ''kismet.device.base.signal.last_signal_dbm'', ''signal_dbm'', ''rssi_dbm'', ''rssi'', ''signal'']),
        wr_noise_dbm = parse_kismet_dbm lib (g [''device_last_noise'',
          ''kismet.device.base.signal/kismet.common.signal.last_noise'', ''kismet.common.signal.last_noise'',
          ''kismet.device.base.signal.kismet.common.signal.last_noise'', ''kismet.device.base.signal.last_noise'',
          ''noise_dbm'', ''noise'']),
        wr_encryption = kismet_text lib (g [''encryption'', ''security'', ''privacy'', ''crypt'']),
        wr_vendor = kismet_text lib (g [''vendor'', ''manufacturer'', ''manuf'', ''kismet.device.base.manuf'']),
        wr_device_type = device_type, wr_stable_identity = identity, wr_identity_confidence = conf,
        wr_first_seen = or_default first observed, wr_last_seen = or_default last observed,
        wr_observed_at = observed,
        wr_packet_count = parse_int lib (g [''packet_count'', ''packets'', ''kismet.device.base.packets.total''])\<rparr>)))"

subsection \<open>Bluetooth rows\<close>

record bluetooth_row =
  br_mac :: "string option"
  br_device_name :: "string option"
  br_rssi_dbm :: "rat option"
  br_vendor_meta :: vendor_metadata
  br_stable_identity :: "string option"
  br_identity_confidence :: string
  br_service_uuids :: "string list"
  br_address_type :: "string option"
  br_bluetooth_type :: string
  br_first_seen :: py_datetime
  br_last_seen :: py_datetime
  br_observed_at :: py_datetime
  br_observation_count :: int

text \<open>The list of UUIDs of a value; its weight is enough fuel (\<open>normalize_service_uuids_total\<close>).\<close>

definition uuids_of :: "text_lib \<Rightarrow> pyval \<Rightarrow> string list" where
  "uuids_of lib v = (case normalize_service_uuids lib (weight v) v of Some us \<Rightarrow> us | None \<Rightarrow> [])"

text \<open>\<open>max(1, parse_int(value) or 1)\<close>\<close>

definition count_of :: "text_lib \<Rightarrow> pyval \<Rightarrow> int" where
  "count_of lib v = (case parse_int lib v of None \<Rightarrow> 1 | Some n \<Rightarrow> if n = 0 then 1 else max 1 n)"

definition finish_bluetooth_row ::
  "text_lib \<Rightarrow> string \<Rightarrow> string option \<Rightarrow> string option \<Rightarrow> rat option \<Rightarrow> string option \<Rightarrow> pyval \<Rightarrow> pyval
     \<Rightarrow> string option \<Rightarrow> string \<Rightarrow> string list \<Rightarrow> py_datetime option \<Rightarrow> py_datetime option \<Rightarrow> py_datetime \<Rightarrow> pyval
     \<Rightarrow> bluetooth_row" where
  "finish_bluetooth_row lib source mac name rssi vendor company manufacturer_data address_type bluetooth_type uuids
     first_seen last_seen fallback count_value =
     (let meta = bluetooth_vendor_metadata vendor source address_type
            (parse_bluetooth_company_id lib (if py_truthy company then company else manufacturer_data))
            (manufacturer_data_hash lib manufacturer_data);
          (identity, conf) = bluetooth_identity_metadata lib mac name address_type (Some bluetooth_type)
            (vm_company_id meta) uuids (vm_manufacturer_hash meta);
          observed = or_default last_seen (or_default first_seen fallback) in
      \<lparr>br_mac = mac, br_device_name = name, br_rssi_dbm = rssi, br_vendor_meta = meta,
       br_stable_identity = identity, br_identity_confidence = conf, br_service_uuids = uuids,
       br_address_type = address_type, br_bluetooth_type = bluetooth_type,
       br_first_seen = or_default first_seen observed, br_last_seen = or_default last_seen observed,
       br_observed_at = observed, br_observation_count = count_of lib count_value\<rparr>)"

definition normalize_kismet_bluetooth_row :: "text_lib \<Rightarrow> row \<Rightarrow> py_datetime \<Rightarrow> bluetooth_row result" where
  "normalize_kismet_bluetooth_row lib row fallback =
     (let flat = flatten_kismet_row row; g = row_get flat in
      and_then (parse_datetime_value lib (g [''first_seen'', ''first_time'', ''kismet.device.base.first_time'',
          ''kismet.device.base.first_time_sec''])) (\<lambda>first.
      and_then (parse_datetime_value lib (g [''last_seen'', ''last_time'', ''timestamp'', ''kismet.device.base.last_time'',
          ''kismet.device.base.last_time_sec''])) (\<lambda>last.
      Inr (finish_bluetooth_row lib ''kismet''
        (parse_mac lib (g [''mac'', ''mac_address'', ''address'', ''addr'', ''kismet.device.base.macaddr'',
          ''bluetooth.device.address'']))
        (kismet_text lib (g [''name'', ''device_name'', ''alias'', ''local_name'', ''kismet.device.base.name'',
          ''bluetooth.device.name'', ''bluetooth.device.alias'']))
        (parse_kismet_dbm lib (g [''bluetooth_rssi_last'', ''bluetooth_rssi_avg'', ''bluetooth.device/bluetooth.device.rssi_last'',
          ''bluetooth.device/bluetooth.device.rssi_avg'', ''bluetooth.device.rssi_last'',
          ''bluetooth.device.rssi_avg'', ''bluetooth.device.bluetooth.device.rssi_last'',
          ''bluetooth.device.bluetooth.device.rssi_avg'', ''device_last_signal'',
          ''kismet.device.base.signal/kismet.common.signal.last_signal'',
          ''kismet.common.signal.last_signal'',
          ''kismet.device.base.signal.kismet.common.signal.last_signal'',
          ''kismet.device.base.signal.last_signal'', ''rssi_dbm'', ''rssi'', ''signal_dbm'', ''signal'']))
        (normalized_vendor_text lib (g [''vendor'', ''manufacturer'', ''manuf'', ''kismet.device.base.manuf'', ''bluetooth.device.vendor'']))
        (g [''company_id'', ''company_identifier'', ''bluetooth_company_id''])
        (g [''manufacturer_data'', ''manufacturerdata'', ''manufacturer_specific_data'',
          ''bluetooth.device.manufacturer_data'', ''bluetooth.device.manufacturerdata''])
        (kismet_text lib (g [''address_type'', ''addr_type'', ''bluetooth.device.address_type'']))
        (or_default (kismet_text lib (g [''bluetooth_type'', ''kismet.device.base.type'', ''bluetooth.device.type'',
          ''kismet.device.base.phyname''])) ''bluetooth'')
        (uuids_of lib (g [''service_uuids'', ''services'', ''uuids'', ''service_uuid'', ''bluetooth.device.service_uuids'',
          ''bluetooth.device.services'']))
        (as_utc first) (as_utc last) fallback
        (g [''observation_count'', ''count'', ''seen_count'', ''kismet.device.base.packets.total''])))))"

definition normalize_bettercap_row :: "text_lib \<Rightarrow> row \<Rightarrow> py_datetime \<Rightarrow> bluetooth_row result" where
  "normalize_bettercap_row lib row fallback =
     (let flat = flatten_bettercap_row row; g = row_get flat in
      and_then (parse_bettercap_datetime lib (g [''first_seen'', ''firstseen'', ''first'', ''ble.first_seen'', ''data.first_seen''])) (\<lambda>first.
      and_then (parse_bettercap_datetime lib (g [''last_seen'', ''lastseen'', ''seen'', ''timestamp'', ''time'', ''observed_at'', ''ble.last_seen'',
          ''data.last_seen'', ''data.timestamp''])) (\<lambda>last.
      Inr (finish_bluetooth_row lib ''bettercap''
        (parse_mac lib (g [''mac'', ''mac_address'', ''address'', ''addr'', ''device_mac'', ''device.address'', ''ble.mac'',
          ''data.mac'', ''data.address'']))
        (kismet_text lib (g [''name'', ''device_name'', ''alias'', ''local_name'', ''ble.name'', ''data.name'',
          ''data.local_name'']))
        (parse_float lib (g [''rssi_dbm'', ''rssi'', ''signal'', ''signal_dbm'', ''ble.rssi'', ''data.rssi'', ''data.signal'']))
        (normalized_vendor_text lib (g [''vendor'', ''manufacturer'', ''manuf'', ''company'', ''ble.vendor'', ''data.vendor'',
          ''data.manufacturer'']))
        (g [''company_id'', ''company_identifier'', ''bluetooth_company_id'', ''data.company_id''])
        (g [''manufacturer_data'', ''manufacturerdata'', ''manufacturer_specific_data'',
          ''ble.manufacturer_data'', ''data.manufacturer_data''])
        (kismet_text lib (g [''address_type'', ''addr_type'', ''addressType'', ''ble.address_type'', ''data.address_type'']))
        (or_default (kismet_text lib (g [''bluetooth_type'', ''device_type'', ''type'', ''technology'', ''ble.type''])) ''ble'')
        (uuids_of lib (g [''service_uuids'', ''services'', ''uuids'', ''service_uuid'', ''service'', ''uuid'',
          ''ble.services'', ''data.services'', ''data.uuids'']))
        first last fallback
        (g [''observation_count'', ''count'', ''seen_count''])))))"

subsection \<open>Management frames and alerts\<close>

fun underscore_runs :: "bool \<Rightarrow> string \<Rightarrow> string" where
  "underscore_runs inside [] = []"
| "underscore_runs inside (c # s) =
     (if is_lower_alnum c then c # underscore_runs False s
      else if inside then underscore_runs True s
      else CHR ''_'' # underscore_runs True s)"

definition strip_underscores :: "string \<Rightarrow> string" where
  "strip_underscores s = rev (dropWhile (\<lambda>c. c = CHR ''_'') (rev (dropWhile (\<lambda>c. c = CHR ''_'') s)))"

definition frame_type_aliases :: "(string \<times> string) list" where
  "frame_type_aliases = [(''beacon'', ''beacon''), (''probe_req'', ''probe_request''), (''probereq'', ''probe_request''),
     (''probe_request'', ''probe_request''), (''probe-request'', ''probe_request''), (''probe_resp'',
     ''probe_response''), (''proberesp'', ''probe_response''), (''probe_response'', ''probe_response''),
     (''probe-response'', ''probe_response''), (''auth'', ''authentication''), (''authentication'',
     ''authentication''), (''assoc_req'', ''association_request''), (''assocreq'', ''association_request''),
     (''association_request'', ''association_request''), (''association-request'', ''association_request''),
     (''assoc_resp'', ''association_response''), (''assocresp'', ''association_response''),
     (''association_response'', ''association_response''), (''association-response'',
     ''association_response''), (''reassoc'', ''reassociation''), (''reassociation'', ''reassociation''),
     (''reassociation_request'', ''reassociation''), (''reassociation_response'', ''reassociation''),
     (''disassoc'', ''disassociation''), (''disassociation'', ''disassociation''), (''deauth'',
     ''deauthentication''), (''deauthentication'', ''deauthentication''), (''deauthflood'',
     ''deauthentication''), (''bcastdiscon'', ''disassociation''), (''disassoctraffic'', ''disassociation''),
     (''action'', ''action'')]"

definition normalize_wifi_management_frame_type :: "text_lib \<Rightarrow> pyval \<Rightarrow> string option" where
  "normalize_wifi_management_frame_type lib v =
     (case kismet_text lib v of
        None \<Rightarrow> None
      | Some t \<Rightarrow> map_of frame_type_aliases (strip_underscores (underscore_runs False (py_lower (py_strip t)))))"

record kismet_alert =
  ka_observed_at :: py_datetime
  ka_alert_type :: string
  ka_severity :: string
  ka_message :: string
  ka_source_mac :: "string option"
  ka_destination_mac :: "string option"
  ka_bssid :: "string option"
  ka_ssid :: "string option"
  ka_frame_type :: "string option"
  ka_reason_code :: "int option"
  ka_channel :: "int option"
  ka_frequency_hz :: "int option"
  ka_rssi_dbm :: "rat option"
  ka_confidence :: string
  ka_event_count :: "int option"
  ka_deduplication_key :: string

definition alert_severity :: "string \<Rightarrow> string" where
  "alert_severity raw =
     (if raw \<in> {''critical'', ''crit'', ''5''} then ''critical''
      else if raw \<in> {''error'', ''err'', ''high'', ''4''} then ''error''
      else if raw \<in> {''warning'', ''warn'', ''medium'', ''3'', ''2''} then ''warning''
      else ''info'')"

fun join_colon :: "string list \<Rightarrow> string" where
  "join_colon [] = []"
| "join_colon [s] = s"
| "join_colon (s # t # ss) = s @ '':'' @ join_colon (t # ss)"

definition normalize_kismet_alert_row :: "text_lib \<Rightarrow> row \<Rightarrow> py_datetime \<Rightarrow> kismet_alert result" where
  "normalize_kismet_alert_row lib row fallback =
     (let flat = flatten_kismet_row row; g = row_get flat in
      and_then (parse_datetime_value lib (g [''timestamp'', ''time'', ''first_time'', ''last_time'', ''kismet.alert.timestamp'',
          ''kismet.alert.time'', ''kismet.alert.last_time''])) (\<lambda>t.
      let observed = or_default (as_utc (Some (or_default t fallback))) fallback;
          raw = g [''severity'', ''priority'', ''kismet.alert.severity''];
          alert_type = or_default (kismet_text lib (g [''alert_type'', ''type'', ''class'', ''code'', ''kismet.alert.class'', ''kismet.alert.alert''])) ''kismet_alert'';
          source = parse_mac lib (g [''source_mac'', ''src_mac'', ''transmitter_mac'', ''kismet.alert.source_mac'']);
          destination = parse_mac lib (g [''destination_mac'', ''dst_mac'', ''victim_mac'', ''kismet.alert.dest_mac'']);
          bssid = parse_mac lib (g [''bssid'', ''kismet.alert.bssid'']);
          frame = kismet_text lib (g [''frame_type'', ''management_frame_type'', ''subtype'']);
          reason = parse_int lib (g [''reason_code'', ''reason'']) in
      Inr \<lparr>ka_observed_at = observed, ka_alert_type = alert_type,
        ka_severity = alert_severity (py_lower (if py_truthy raw then py_str lib raw else [])),
        ka_message = or_default (kismet_text lib (g [''message'', ''description'', ''text'', ''kismet.alert.text'', ''kismet.alert.message''])) alert_type,
        ka_source_mac = source, ka_destination_mac = destination, ka_bssid = bssid,
        ka_ssid = kismet_text lib (g [''ssid'', ''network'', ''kismet.alert.ssid'']),
        ka_frame_type = frame, ka_reason_code = reason,
        ka_channel = parse_int lib (g [''channel'', ''chan'']),
        ka_frequency_hz = parse_kismet_frequency_hz lib (g [''frequency_hz'', ''frequency'', ''freq'']),
        ka_rssi_dbm = parse_kismet_dbm lib (g [''rssi_dbm'', ''signal_dbm'', ''signal'', ''rssi'']),
        ka_confidence = or_default (kismet_text lib (g [''confidence'', ''kismet.alert.confidence''])) ''low'',
        ka_event_count = parse_int lib (g [''count'', ''event_count'', ''kismet.alert.count'']),
        ka_deduplication_key = join_colon [''kismet_alert'', alert_type, or_empty source, or_empty destination,
          or_empty bssid, or_empty frame,
          case reason of None \<Rightarrow> [] | Some n \<Rightarrow> if n = 0 then [] else int_text n]\<rparr>))"

subsection \<open>What flattening keeps\<close>

text \<open>Every value of an object, at any depth.\<close>

function nested_values :: "row \<Rightarrow> pyval set" where
  "nested_values [] = {}"
| "nested_values ((k, v) # rest) =
     insert v ((case v of PDict d \<Rightarrow> nested_values d | _ \<Rightarrow> {}) \<union> nested_values rest)"
  by pat_completeness auto
termination
  by (relation "measure (\<lambda>d. size (PDict d))") simp_all

definition extends :: "row \<Rightarrow> row \<Rightarrow> bool" where
  "extends flat flat' \<longleftrightarrow> (\<exists>more. flat' = flat @ more) \<and> (distinct (map fst flat) \<longrightarrow> distinct (map fst flat'))"

lemma extends_refl [simp]: "extends flat flat"
  by (simp add: extends_def)

lemma extends_trans: "extends a b \<Longrightarrow> extends b c \<Longrightarrow> extends a c"
  by (auto simp: extends_def)

lemma extends_add_missing: "extends flat (add_missing k v flat)"
  by (auto simp: extends_def add_missing_def dict_has_def map_of_eq_None_iff)

lemma extends_lookup: "extends a b \<Longrightarrow> map_of a k = Some v \<Longrightarrow> map_of b k = Some v"
  by (auto simp: extends_def map_add_def split: option.splits)

lemma extends_has: "extends a b \<Longrightarrow> dict_has a k \<Longrightarrow> dict_has b k"
  by (auto simp: dict_has_def dest: extends_lookup)

lemma has_add_missing [simp]: "dict_has (add_missing k v flat) k"
  by (simp add: add_missing_def dict_has_def map_add_def split: option.splits)

lemma values_add_missing: "snd ` set (add_missing k v flat) \<subseteq> insert v (snd ` set flat)"
  by (auto simp: add_missing_def)

lemma visit_kismet_extends: "extends flat (visit_kismet flat prefix d)"
proof (induction flat prefix d rule: visit_kismet.induct)
  case (2 flat prefix k v rest)
  let ?f1 = "add_missing (join_path prefix k) v flat"
  let ?f2 = "if prefix \<noteq> [] \<and> CHR ''.'' \<in> set k then add_missing k v ?f1 else ?f1"
  let ?f3 = "case v of PDict d \<Rightarrow> visit_kismet ?f2 (join_path prefix k) d | _ \<Rightarrow> ?f2"
  have "extends flat ?f2" using extends_trans [OF extends_add_missing extends_add_missing] extends_add_missing by simp
  moreover have "extends ?f2 ?f3" using 2(1) [OF refl refl refl] by (cases v) simp_all
  moreover have "extends ?f3 (visit_kismet ?f3 prefix rest)" by (rule 2(2) [OF refl refl refl refl])
  ultimately show ?case by (simp only: visit_kismet.simps Let_def) (blast intro: extends_trans)
qed simp

lemma visit_bettercap_extends: "extends flat (visit_bettercap flat prefix d)"
proof (induction flat prefix d rule: visit_bettercap.induct)
  case (2 flat prefix k v rest)
  let ?f1 = "add_missing (join_path prefix k) v flat"
  let ?f2 = "case v of PDict d \<Rightarrow> visit_bettercap ?f1 (join_path prefix k) d | _ \<Rightarrow> ?f1"
  have "extends ?f1 ?f2" using 2(1) [OF refl refl] by (cases v) simp_all
  moreover have "extends ?f2 (visit_bettercap ?f2 prefix rest)" by (rule 2(2) [OF refl refl refl])
  ultimately show ?case
    by (simp only: visit_bettercap.simps Let_def) (blast intro: extends_trans extends_add_missing)
qed simp

lemma visit_kismet_paths: "(k, v) \<in> set d \<Longrightarrow> dict_has (visit_kismet flat prefix d) (join_path prefix k)"
proof (induction d arbitrary: flat)
  case (Cons kv rest)
  obtain k' v' where kv: "kv = (k', v')" by (cases kv)
  let ?f1 = "add_missing (join_path prefix k') v' flat"
  let ?f2 = "if prefix \<noteq> [] \<and> CHR ''.'' \<in> set k' then add_missing k' v' ?f1 else ?f1"
  let ?f3 = "case v' of PDict d \<Rightarrow> visit_kismet ?f2 (join_path prefix k') d | _ \<Rightarrow> ?f2"
  have "extends ?f1 ?f2" using extends_add_missing by simp
  moreover have "extends ?f2 ?f3" using visit_kismet_extends by (cases v') simp_all
  ultimately have "extends ?f1 (visit_kismet ?f3 prefix rest)"
    using visit_kismet_extends by (blast intro: extends_trans)
  then have "dict_has (visit_kismet flat prefix (kv # rest)) (join_path prefix k')"
    unfolding kv visit_kismet.simps Let_def by (rule extends_has) simp
  moreover have "dict_has (visit_kismet flat prefix (kv # rest)) (join_path prefix k)" if "(k, v) \<in> set rest"
    unfolding kv visit_kismet.simps Let_def by (rule Cons.IH) (rule that)
  ultimately show ?case using Cons.prems kv by auto
qed simp

lemma visit_bettercap_paths: "(k, v) \<in> set d \<Longrightarrow> dict_has (visit_bettercap flat prefix d) (join_path prefix k)"
proof (induction d arbitrary: flat)
  case (Cons kv rest)
  obtain k' v' where kv: "kv = (k', v')" by (cases kv)
  let ?f1 = "add_missing (join_path prefix k') v' flat"
  let ?f2 = "case v' of PDict d \<Rightarrow> visit_bettercap ?f1 (join_path prefix k') d | _ \<Rightarrow> ?f1"
  have "extends ?f1 ?f2" using visit_bettercap_extends by (cases v') simp_all
  then have "extends ?f1 (visit_bettercap ?f2 prefix rest)"
    using visit_bettercap_extends by (blast intro: extends_trans)
  then have "dict_has (visit_bettercap flat prefix (kv # rest)) (join_path prefix k')"
    unfolding kv visit_bettercap.simps Let_def by (rule extends_has) simp
  moreover have "dict_has (visit_bettercap flat prefix (kv # rest)) (join_path prefix k)" if "(k, v) \<in> set rest"
    unfolding kv visit_bettercap.simps Let_def by (rule Cons.IH) (rule that)
  ultimately show ?case using Cons.prems kv by auto
qed simp

text \<open>The entries of a nested object are found under their dotted path.\<close>

lemma visit_kismet_nested:
  "(k, PDict d) \<in> set row \<Longrightarrow> (k', v) \<in> set d \<Longrightarrow>
     dict_has (visit_kismet flat prefix row) (join_path (join_path prefix k) k')"
proof (induction row arbitrary: flat)
  case (Cons kv rest)
  show ?case
  proof (cases "kv = (k, PDict d)")
    case True
    let ?f1 = "add_missing (join_path prefix k) (PDict d) flat"
    let ?f2 = "if prefix \<noteq> [] \<and> CHR ''.'' \<in> set k then add_missing k (PDict d) ?f1 else ?f1"
    have "dict_has (visit_kismet ?f2 (join_path prefix k) d) (join_path (join_path prefix k) k')"
      by (rule visit_kismet_paths) (rule Cons.prems(2))
    then show ?thesis
      unfolding True visit_kismet.simps Let_def pyval.case by (rule extends_has [OF visit_kismet_extends])
  next
    case False
    then have "(k, PDict d) \<in> set rest" using Cons.prems(1) by simp
    then show ?thesis using Cons.IH [OF _ Cons.prems(2)] by (cases kv) (simp add: Let_def)
  qed
qed simp

lemma visit_bettercap_nested:
  "(k, PDict d) \<in> set row \<Longrightarrow> (k', v) \<in> set d \<Longrightarrow>
     dict_has (visit_bettercap flat prefix row) (join_path (join_path prefix k) k')"
proof (induction row arbitrary: flat)
  case (Cons kv rest)
  show ?case
  proof (cases "kv = (k, PDict d)")
    case True
    let ?f1 = "add_missing (join_path prefix k) (PDict d) flat"
    have "dict_has (visit_bettercap ?f1 (join_path prefix k) d) (join_path (join_path prefix k) k')"
      by (rule visit_bettercap_paths) (rule Cons.prems(2))
    then show ?thesis
      unfolding True visit_bettercap.simps Let_def pyval.case by (rule extends_has [OF visit_bettercap_extends])
  next
    case False
    then have "(k, PDict d) \<in> set rest" using Cons.prems(1) by simp
    then show ?thesis using Cons.IH [OF _ Cons.prems(2)] by (cases kv) (simp add: Let_def)
  qed
qed simp

lemma values_case:
  assumes "snd ` set f \<subseteq> insert v A" and "\<And>d. v = PDict d \<Longrightarrow> snd ` set (g d) \<subseteq> snd ` set f \<union> nested_values d"
  shows "snd ` set (case v of PDict d \<Rightarrow> g d | _ \<Rightarrow> f) \<subseteq> A \<union> nested_values ((k, v) # rest)"
proof (cases v)
  case (PDict d)
  have "snd ` set (g d) \<subseteq> snd ` set f \<union> nested_values d" by (rule assms(2)) (rule PDict)
  then show ?thesis using assms(1) by (simp add: PDict) blast
qed (use assms(1) in \<open>simp, blast\<close>)+

lemma visit_kismet_values: "snd ` set (visit_kismet flat prefix d) \<subseteq> snd ` set flat \<union> nested_values d"
proof (induction flat prefix d rule: visit_kismet.induct)
  case (2 flat prefix k v rest)
  let ?f1 = "add_missing (join_path prefix k) v flat"
  let ?f2 = "if prefix \<noteq> [] \<and> CHR ''.'' \<in> set k then add_missing k v ?f1 else ?f1"
  let ?f3 = "case v of PDict d \<Rightarrow> visit_kismet ?f2 (join_path prefix k) d | _ \<Rightarrow> ?f2"
  have "snd ` set ?f2 \<subseteq> insert v (snd ` set flat)"
    using values_add_missing [of k v ?f1] values_add_missing [of "join_path prefix k" v flat] by auto
  then have "snd ` set ?f3 \<subseteq> snd ` set flat \<union> nested_values ((k, v) # rest)"
    by (rule values_case) (rule 2(1) [OF refl refl refl])
  moreover have "snd ` set (visit_kismet ?f3 prefix rest) \<subseteq> snd ` set ?f3 \<union> nested_values rest"
    by (rule 2(2) [OF refl refl refl refl])
  moreover have "nested_values rest \<subseteq> nested_values ((k, v) # rest)" by auto
  ultimately show ?case unfolding visit_kismet.simps Let_def by blast
qed simp

lemma visit_bettercap_values: "snd ` set (visit_bettercap flat prefix d) \<subseteq> snd ` set flat \<union> nested_values d"
proof (induction flat prefix d rule: visit_bettercap.induct)
  case (2 flat prefix k v rest)
  let ?f1 = "add_missing (join_path prefix k) v flat"
  let ?f2 = "case v of PDict d \<Rightarrow> visit_bettercap ?f1 (join_path prefix k) d | _ \<Rightarrow> ?f1"
  have "snd ` set ?f2 \<subseteq> snd ` set flat \<union> nested_values ((k, v) # rest)"
    by (rule values_case [OF values_add_missing]) (rule 2(1) [OF refl refl])
  moreover have "snd ` set (visit_bettercap ?f2 prefix rest) \<subseteq> snd ` set ?f2 \<union> nested_values rest"
    by (rule 2(2) [OF refl refl refl])
  moreover have "nested_values rest \<subseteq> nested_values ((k, v) # rest)" by auto
  ultimately show ?case unfolding visit_bettercap.simps Let_def by blast
qed simp

lemma row_values_nested: "snd ` set row \<subseteq> nested_values row"
  by (induction row rule: nested_values.induct) auto

subsection \<open>Properties\<close>

text \<open>
  Flattening adds and loses nothing of a row, for both collectors: the entries of the row stay
  as they are, the entries of a nested object are found under their dotted path, keys stay
  distinct, and every value of the result is a value of the row at some depth.
\<close>

theorem flatten_rows_complete:
  assumes "flatten \<in> {flatten_kismet_row, flatten_bettercap_row}" and "distinct (map fst row)"
  shows "(\<forall>k v. map_of row k = Some v \<longrightarrow> map_of (flatten row) k = Some v)
    \<and> (\<forall>k d k' v. (k, PDict d) \<in> set row \<and> (k', v) \<in> set d \<and> k \<noteq> [] \<longrightarrow> dict_has (flatten row) (k @ ''.'' @ k'))
    \<and> distinct (map fst (flatten row)) \<and> snd ` set (flatten row) \<subseteq> nested_values row"
proof -
  have e: "extends row (flatten row)"
    using assms(1) visit_kismet_extends visit_bettercap_extends by (auto simp: flatten_kismet_row_def flatten_bettercap_row_def)
  have n: "dict_has (flatten row) (k @ ''.'' @ k')" if "(k, PDict d) \<in> set row" "(k', v) \<in> set d" "k \<noteq> []" for k d k' v
    using assms(1) visit_kismet_nested [OF that(1,2), of row "[]"] visit_bettercap_nested [OF that(1,2), of row "[]"] that(3)
    by (auto simp: flatten_kismet_row_def flatten_bettercap_row_def join_path_def)
  have "snd ` set (flatten row) \<subseteq> snd ` set row \<union> nested_values row"
    using assms(1) visit_kismet_values [of row "[]" row] visit_bettercap_values [of row "[]" row]
    by (elim insertE emptyE) (simp_all only: flatten_kismet_row_def flatten_bettercap_row_def)
  then have "snd ` set (flatten row) \<subseteq> nested_values row" using row_values_nested by blast
  then show ?thesis using e n extends_lookup [OF e] assms(2) by (auto simp: extends_def)
qed

lemma flatten_rows_complete_witness:
  "dict_has (flatten_kismet_row [(''a'', PDict [(''b'', PInt 1)])]) ''a.b''"
  using flatten_rows_complete [of flatten_kismet_row "[(''a'', PDict [(''b'', PInt 1)])]"] by simp

text \<open>
  The bounds of a numeric time stamp: a non-negative integer up to 10000000000 is read as seconds
  and a larger one as milliseconds; when the resulting second lies after the year 9999 (as for any
  time stamp in micro- or nanoseconds), the reading raises instead of returning \<open>None\<close>, and with it
  the normalisation of a whole Kismet row.
\<close>

theorem epoch_timestamp_bounds:
  assumes "0 \<le> n" and "s = (if 10000000000 < n then n div 1000 else n)"
  shows "parse_datetime_value lib (PInt n) =
      (if s \<le> max_timestamp then Inr (Some (utc_datetime (of_int s))) else Inl (ValueError ''year is out of range''))
    \<and> (max_timestamp < s \<longrightarrow> normalize_kismet_row lib [(''last_seen'', PInt n)] fallback = Inl (ValueError ''year is out of range''))"
proof -
  have t: "int_text n = nat_text (nat n)" using assms(1) by (simp add: int_text_def)
  have strip: "py_strip (nat_text (nat n)) = nat_text (nat n)" using int_text_plain(1) [of n] by (simp add: t)
  have p: "parse_datetime_value lib (PInt n) =
      (if s \<le> max_timestamp then Inr (Some (utc_datetime (of_int s))) else Inl (ValueError ''year is out of range''))"
    using assms nat_text_all_digits [of "nat n"]
    by (simp add: parse_datetime_value_def t strip Let_def not_le)
  have "flatten_kismet_row [(''last_seen'', PInt n)] = [(''last_seen'', PInt n)]"
    by (simp add: flatten_kismet_row_def add_missing_def join_path_def dict_has_def)
  moreover have "row_get [(''last_seen'', PInt n)] [''first_seen'', ''first_time'', ''kismet.device.base.first_time'',
      ''kismet.device.base.first_time_sec''] = PNone"
    "row_get [(''last_seen'', PInt n)] [''last_seen'', ''last_time'', ''kismet.device.base.last_time'',
      ''kismet.device.base.last_time_sec'', ''timestamp''] = PInt n"
    by (simp_all add: row_get_def normalize_key_def py_strip_def is_space_def py_lower_def char_lower_def
      is_lower_alnum_def is_digit_def)
  moreover have "parse_datetime_value lib PNone = Inr None" by (simp add: parse_datetime_value_def)
  ultimately show ?thesis using p by (simp add: normalize_kismet_row_def)
qed

lemma epoch_timestamp_bounds_witness:
  "normalize_kismet_row sample_lib [(''last_seen'', PInt 1700000000000000)] (utc_datetime 0)
     = Inl (ValueError ''year is out of range'')"
  using epoch_timestamp_bounds [of 1700000000000000 1700000000000 sample_lib "utc_datetime 0"]
  by (simp add: max_timestamp_def)

end
