(* ===== verification/Recordings.thy ===== *)
theory Recordings
  imports Field_Parsing
begin

section \<open>Recordings on disk\<close>

text \<open>
  \<open>services/recordings/\<close>: the guardrails of the storage, the atomic writers of IQ and audio
  recordings, the reader of IQ recordings, the catalogue and the retention plan. The recording
  root is an association list from directory names to directories; a file is raw bytes, a JSON
  object, or a text that is not JSON. A writer keeps what it wrote through its handle; two writers
  of one identifier are never open at the same time. \<open>round\<close> is exact on the rational value of a
  float. Arguments of the model: SHA-256, the encoding of a 32-bit float, the bytes of a WAV
  container, the clock and \<open>shutil.disk_usage\<close>.
\<close>

subsection \<open>Configuration and guardrails\<close>

record recording_settings =
  st_quarantine :: string
  st_min_free_bytes :: int
  st_max_recording_bytes :: int
  st_max_duration_seconds :: int
  st_retention_days :: int

text \<open>\<open>int(raw)\<close> is the argument \<open>to_int\<close>, \<open>None\<close> where it raises.\<close>

definition positive_int :: "(string \<Rightarrow> int option) \<Rightarrow> string \<Rightarrow> string option \<Rightarrow> int \<Rightarrow> int result" where
  "positive_int to_int name raw dflt =
     (case (case raw of None \<Rightarrow> Some dflt | Some s \<Rightarrow> to_int (py_strip s)) of
        None \<Rightarrow> Inl (ValueError (name @ '' must be an integer''))
      | Some v \<Rightarrow> if v \<le> 0 then Inl (ValueError (name @ '' must be positive'')) else Inr v)"

definition settings_from_env ::
  "(string \<Rightarrow> int option) \<Rightarrow> (string \<Rightarrow> string option) \<Rightarrow> string \<Rightarrow> recording_settings result" where
  "settings_from_env to_int env quarantine =
     and_then (positive_int to_int ''RECORDINGS_MIN_FREE_BYTES'' (env ''RECORDINGS_MIN_FREE_BYTES'') (5 * 1024 ^ 3)) (\<lambda>free.
     and_then (positive_int to_int ''RECORDINGS_MAX_BYTES'' (env ''RECORDINGS_MAX_BYTES'') (20 * 1024 ^ 3)) (\<lambda>bytes.
     and_then (positive_int to_int ''RECORDINGS_MAX_DURATION_SECONDS'' (env ''RECORDINGS_MAX_DURATION_SECONDS'') 3600) (\<lambda>secs.
     and_then (positive_int to_int ''RECORDINGS_RETENTION_DAYS'' (env ''RECORDINGS_RETENTION_DAYS'') 30) (\<lambda>days.
     Inr \<lparr>st_quarantine = quarantine, st_min_free_bytes = free, st_max_recording_bytes = bytes,
          st_max_duration_seconds = secs, st_retention_days = days\<rparr>))))"

record disk_usage =
  du_total :: int
  du_used :: int
  du_free :: int
  du_writable :: bool

record storage_status =
  ss_usage :: disk_usage
  ss_min_free_bytes :: int
  ss_low_disk :: bool

definition storage_status_of :: "recording_settings \<Rightarrow> disk_usage \<Rightarrow> storage_status" where
  "storage_status_of cfg usage = \<lparr>ss_usage = usage, ss_min_free_bytes = st_min_free_bytes cfg,
     ss_low_disk = (du_free usage < st_min_free_bytes cfg)\<rparr>"

definition assert_can_start :: "recording_settings \<Rightarrow> disk_usage \<Rightarrow> int \<Rightarrow> storage_status result" where
  "assert_can_start cfg usage expected_bytes =
     (if expected_bytes < 0 then Inl (ValueError ''expected_bytes must not be negative'')
      else if st_max_recording_bytes cfg < expected_bytes then Inl (RuntimeError ''recording_size_limit_exceeded'')
      else if \<not> du_writable usage then Inl (RuntimeError ''recording_root_not_writable'')
      else if du_free usage - expected_bytes < st_min_free_bytes cfg then Inl (RuntimeError ''recording_low_disk'')
      else Inr (storage_status_of cfg usage))"

definition assert_limits :: "recording_settings \<Rightarrow> int \<Rightarrow> rat \<Rightarrow> unit result" where
  "assert_limits cfg byte_count duration =
     (if st_max_recording_bytes cfg < byte_count then Inl (RuntimeError ''recording_size_limit_exceeded'')
      else if of_int (st_max_duration_seconds cfg) < duration then Inl (RuntimeError ''recording_duration_limit_exceeded'')
      else Inr ())"

subsection \<open>Identifiers and directories\<close>

definition safe_id_char :: "char \<Rightarrow> bool" where
  "safe_id_char c \<longleftrightarrow> is_lower_alnum (char_lower c) \<or> c = CHR ''.'' \<or> c = CHR ''_'' \<or> c = CHR ''-''"

definition safe_recording_id :: "string \<Rightarrow> string option \<Rightarrow> string result" where
  "safe_recording_id fresh v =
     (let candidate = (if truthy v then or_empty v else fresh) in
      if 1 \<le> length candidate \<and> length candidate \<le> 128 \<and> list_all safe_id_char candidate
      then Inr candidate else Inl (ValueError ''invalid_recording_id''))"

datatype stored_file = Bytes "byte list" | Json row | Not_Json

record directory =
  dr_files :: "(string \<times> stored_file) list"
  dr_mtime :: rat

type_synonym disk = "(string \<times> directory) list"

definition staging_name :: "string \<Rightarrow> string" where
  "staging_name i = ''.'' @ i @ ''.partial''"

definition cleanup_staging :: "string \<Rightarrow> disk \<Rightarrow> disk" where
  "cleanup_staging name d = filter (\<lambda>(n, _). n \<noteq> name) d"

definition make_directory :: "rat \<Rightarrow> string \<Rightarrow> disk \<Rightarrow> disk" where
  "make_directory now name d = d @ [(name, \<lparr>dr_files = [], dr_mtime = now\<rparr>)]"

text \<open>\<open>.\<close> and \<open>..\<close> of the root always exist.\<close>

definition path_exists :: "string \<Rightarrow> disk \<Rightarrow> bool" where
  "path_exists name d \<longleftrightarrow> name \<in> {''.'', ''..''} \<or> map_of d name \<noteq> None"

definition put_files :: "string \<Rightarrow> (string \<times> stored_file) list \<Rightarrow> disk \<Rightarrow> disk" where
  "put_files name fs d = map (\<lambda>(n, dir). (n, if n = name then dir\<lparr>dr_files := dr_files dir @ fs\<rparr> else dir)) d"

definition finalize_directory :: "string \<Rightarrow> string \<Rightarrow> disk \<Rightarrow> disk result" where
  "finalize_directory staging destination d =
     (if path_exists destination d then Inl (OSError (''recording_exists:'' @ destination))
      else Inr (map (\<lambda>(n, dir). (if n = staging then destination else n, dir)) d))"

subsection \<open>Samples\<close>

text \<open>\<open>struct.pack("<h", n)\<close> and its inverse.\<close>

definition pack_i16 :: "int \<Rightarrow> byte list" where
  "pack_i16 n = (let w = (word_of_int n :: 16 word) in [ucast w, ucast (drop_bit 8 w)])"

definition unpack_i16 :: "byte list \<Rightarrow> int" where
  "unpack_i16 bs = sint (or (ucast (bs ! 0) :: 16 word) (push_bit 8 (ucast (bs ! 1))))"

definition clamp_i16 :: "int \<Rightarrow> int" where
  "clamp_i16 n = max (-32768) (min 32767 n)"

datatype datatype_name = Cf32_Le | Ci16_Le

definition sample_size :: "datatype_name \<Rightarrow> nat" where
  "sample_size dt = (case dt of Cf32_Le \<Rightarrow> 8 | Ci16_Le \<Rightarrow> 4)"

definition datatype_text :: "datatype_name \<Rightarrow> string" where
  "datatype_text dt = (case dt of Cf32_Le \<Rightarrow> ''cf32_le'' | Ci16_Le \<Rightarrow> ''ci16_le'')"

definition datatype_of_text :: "string \<Rightarrow> datatype_name option" where
  "datatype_of_text s = (if s = ''cf32_le'' then Some Cf32_Le else if s = ''ci16_le'' then Some Ci16_Le else None)"

text \<open>The 32-bit float codec: packing gives \<open>None\<close> where the value is too large.\<close>

record float_codec =
  fc_pack :: "rat \<Rightarrow> byte list option"
  fc_unpack :: "byte list \<Rightarrow> rat"

datatype iq_value = Complex pyfloat pyfloat | Sequence "pyfloat list"

definition finite_value :: "pyfloat \<Rightarrow> rat option" where
  "finite_value f = (case f of Fin x \<Rightarrow> Some x | _ \<Rightarrow> None)"

definition pack_sample :: "float_codec \<Rightarrow> datatype_name \<Rightarrow> rat \<Rightarrow> rat \<Rightarrow> byte list result" where
  "pack_sample fc dt i q =
     (case dt of
        Cf32_Le \<Rightarrow> (case (fc_pack fc i, fc_pack fc q) of
            (Some a, Some b) \<Rightarrow> Inr (a @ b)
          | _ \<Rightarrow> Inl (OverflowError ''float too large to pack with f format''))
      | Ci16_Le \<Rightarrow> Inr (pack_i16 (clamp_i16 (py_round i)) @ pack_i16 (clamp_i16 (py_round q))))"

definition encode_value :: "float_codec \<Rightarrow> datatype_name \<Rightarrow> iq_value \<Rightarrow> byte list result" where
  "encode_value fc dt v =
     (case (case v of Complex i q \<Rightarrow> [i, q] | Sequence xs \<Rightarrow> xs) of
        [i, q] \<Rightarrow> (case (finite_value i, finite_value q) of
            (Some x, Some y) \<Rightarrow> pack_sample fc dt x y
          | _ \<Rightarrow> Inl (ValueError ''non_finite_iq_sample''))
      | _ \<Rightarrow> Inl (ValueError ''iq_sample_requires_two_components''))"

text \<open>The loop of \<open>write\<close>: what reached the file, and the exception that stopped it.\<close>

fun encode_values :: "float_codec \<Rightarrow> datatype_name \<Rightarrow> iq_value list \<Rightarrow> byte list \<times> py_error option" where
  "encode_values fc dt [] = ([], None)"
| "encode_values fc dt (v # vs) =
     (case encode_value fc dt v of
        Inl e \<Rightarrow> ([], Some e)
      | Inr bs \<Rightarrow> (let (rest, err) = encode_values fc dt vs in (bs @ rest, err)))"

subsection \<open>The IQ writer\<close>

record recorder_env =
  re_settings :: recording_settings
  re_usage :: disk_usage
  re_fresh_id :: string
  re_now :: rat
  re_now_text :: string
  re_float :: float_codec
  re_sha256 :: "byte list \<Rightarrow> string"
  re_size :: "stored_file \<Rightarrow> int"

record iq_request =
  rq_recording_id :: "string option"
  rq_datatype :: string
  rq_sample_rate :: pyfloat
  rq_center_hz :: int
  rq_source :: string
  rq_device :: string
  rq_timestamp :: "string option"
  rq_session_id :: "string option"
  rq_antenna :: "string option"
  rq_downconverter :: "string option"
  rq_packet_loss :: int
  rq_overflow_count :: int

record iq_writer =
  iw_id :: string
  iw_datatype :: datatype_name
  iw_rate :: rat
  iw_center_hz :: int
  iw_source :: string
  iw_device :: string
  iw_timestamp :: string
  iw_session_id :: "string option"
  iw_antenna :: "string option"
  iw_downconverter :: "string option"
  iw_packet_loss :: int
  iw_overflow_count :: int
  iw_sample_count :: nat
  iw_closed :: bool
  iw_started_at :: string
  iw_data :: "byte list"

definition data_name :: "string \<Rightarrow> string" where
  "data_name i = i @ ''.sigmf-data''"

definition meta_name :: "string \<Rightarrow> string" where
  "meta_name i = i @ ''.sigmf-meta''"

definition open_iq_writer :: "recorder_env \<Rightarrow> iq_request \<Rightarrow> disk \<Rightarrow> (disk \<times> iq_writer) result" where
  "open_iq_writer env rq d =
     (case datatype_of_text (rq_datatype rq) of
        None \<Rightarrow> Inl (ValueError ''unsupported_sigmf_datatype'')
      | Some dt \<Rightarrow>
     (case finite_value (rq_sample_rate rq) of
        None \<Rightarrow> Inl (ValueError ''invalid_sample_rate'')
      | Some rate \<Rightarrow>
     if rate \<le> 0 then Inl (ValueError ''invalid_sample_rate'')
     else if rq_center_hz rq \<le> 0 then Inl (ValueError ''invalid_center_frequency'')
     else if rq_packet_loss rq < 0 \<or> rq_overflow_count rq < 0 then Inl (ValueError ''negative_quality_counter'')
     else and_then (safe_recording_id (re_fresh_id env) (rq_recording_id rq)) (\<lambda>i.
       and_then (assert_can_start (re_settings env) (re_usage env) 0) (\<lambda>_.
       Inr (make_directory (re_now env) (staging_name i) (cleanup_staging (staging_name i) d),
         \<lparr>iw_id = i, iw_datatype = dt, iw_rate = rate, iw_center_hz = rq_center_hz rq, iw_source = rq_source rq,
          iw_device = rq_device rq,
          iw_timestamp = (if truthy (rq_timestamp rq) then or_empty (rq_timestamp rq) else re_now_text env),
          iw_session_id = rq_session_id rq, iw_antenna = rq_antenna rq, iw_downconverter = rq_downconverter rq,
          iw_packet_loss = rq_packet_loss rq, iw_overflow_count = rq_overflow_count rq,
          iw_sample_count = 0, iw_closed = False, iw_started_at = re_now_text env, iw_data = []\<rparr>)))))"

text \<open>The new writer, and the number of written samples or the exception.\<close>

definition write_iq :: "recorder_env \<Rightarrow> iq_value list \<Rightarrow> iq_writer \<Rightarrow> iq_writer \<times> nat result" where
  "write_iq env values w =
     (if iw_closed w then (w, Inl (RuntimeError ''recording_already_closed''))
      else case encode_values (re_float env) (iw_datatype w) values of
        (bs, Some e) \<Rightarrow> (w\<lparr>iw_data := iw_data w @ bs\<rparr>, Inl e)
      | (bs, None) \<Rightarrow>
          (let w' = w\<lparr>iw_data := iw_data w @ bs, iw_sample_count := iw_sample_count w + length values\<rparr>;
               count = iw_sample_count w' in
           (w', and_then (assert_limits (re_settings env) (int (count * sample_size (iw_datatype w)))
                   (of_nat count / iw_rate w)) (\<lambda>_. Inr (length values)))))"

definition iq_summary :: "recorder_env \<Rightarrow> iq_writer \<Rightarrow> row" where
  "iq_summary env w =
     [(''schema_version'', PInt 1), (''recording_id'', PStr (iw_id w)), (''recording_type'', PStr ''iq''),
      (''status'', PStr ''completed''), (''source'', PStr (iw_source w)), (''source_device'', PStr (iw_device w)),
      (''started_at'', PStr (iw_started_at w)), (''ended_at'', PStr (re_now_text env)),
      (''datatype'', PStr (datatype_text (iw_datatype w))), (''sample_rate'', PFloat (Fin (iw_rate w))),
      (''center_frequency_hz'', PInt (iw_center_hz w)), (''sample_count'', PInt (int (iw_sample_count w))),
      (''duration_seconds'', PFloat (Fin (of_nat (iw_sample_count w) / iw_rate w))),
      (''data_file'', PStr (data_name (iw_id w))), (''metadata_file'', PStr (meta_name (iw_id w))),
      (''size_bytes'', PInt (int (length (iw_data w)))), (''checksum_algorithm'', PStr ''sha256''),
      (''checksum_sha256'', PStr (re_sha256 env (iw_data w))), (''checksum_status'', PStr ''valid''),
      (''packet_loss'', PInt (iw_packet_loss w)), (''overflow_count'', PInt (iw_overflow_count w)),
      (''mock'', PBool (iw_source w = ''mock''))]"

definition sigmf_metadata :: "recorder_env \<Rightarrow> iq_writer \<Rightarrow> row" where
  "sigmf_metadata env w =
     [(''global'', PDict [(''core:datatype'', PStr (datatype_text (iw_datatype w))),
         (''core:sample_rate'', PFloat (Fin (iw_rate w))), (''core:version'', PStr ''1.0.0''),
         (''core:recorder'', PStr ''DM RF/TSCM platform''),
         (''core:description'', PStr ''IQ recording; mock-only unless source metadata states hardware''),
         (''dm:recording_id'', PStr (iw_id w)), (''dm:recording_type'', PStr ''iq''),
         (''dm:session_id'', str_or_null (iw_session_id w)),
         (''dm:source'', PStr (iw_source w)), (''dm:device'', PStr (iw_device w)),
         (''dm:antenna'', str_or_null (iw_antenna w)), (''dm:downconverter'', str_or_null (iw_downconverter w)),
         (''dm:checksum_algorithm'', PStr ''sha256''),
         (''dm:checksum_sha256'', PStr (re_sha256 env (iw_data w))),
         (''dm:packet_loss'', PInt (iw_packet_loss w)), (''dm:overflow_count'', PInt (iw_overflow_count w)),
         (''dm:status'', PStr ''completed'')]),
      (''captures'', PList [PDict [(''core:sample_start'', PInt 0), (''core:frequency'', PInt (iw_center_hz w)),
         (''core:datetime'', PStr (iw_timestamp w))]]),
      (''annotations'', PList [])]"

definition close_iq :: "recorder_env \<Rightarrow> iq_writer \<Rightarrow> disk \<Rightarrow> disk \<times> iq_writer \<times> row result" where
  "close_iq env w d =
     (if iw_closed w then (d, w, Inl (RuntimeError ''recording_already_closed''))
      else
        let w' = w\<lparr>iw_closed := True\<rparr>; staging = staging_name (iw_id w); summary = iq_summary env w in
        if map_of d staging = None then (d, w', Inl (OSError ''FileNotFoundError''))
        else
          let d1 = put_files staging
                [(data_name (iw_id w), Bytes (iw_data w)), (meta_name (iw_id w), Json (sigmf_metadata env w)),
                 (''checksum.sha256'', Not_Json), (''metadata.json'', Json summary)] d in
          case finalize_directory staging (iw_id w) d1 of
            Inl e \<Rightarrow> (cleanup_staging staging d1, w', Inl e)
          | Inr d2 \<Rightarrow> (d2, w', Inr summary))"

definition abort_iq :: "iq_writer \<Rightarrow> disk \<Rightarrow> disk \<times> iq_writer" where
  "abort_iq w d = (cleanup_staging (staging_name (iw_id w)) d, w\<lparr>iw_closed := True\<rparr>)"

text \<open>\<open>with SigMfRecordingWriter(...) as w: for values in batches: w.write(values)\<close>\<close>

fun write_batches :: "recorder_env \<Rightarrow> iq_value list list \<Rightarrow> iq_writer \<Rightarrow> iq_writer \<times> unit result" where
  "write_batches env [] w = (w, Inr ())"
| "write_batches env (b # bs) w =
     (case write_iq env b w of
        (w', Inl e) \<Rightarrow> (w', Inl e)
      | (w', Inr _) \<Rightarrow> write_batches env bs w')"

definition record_iq ::
  "recorder_env \<Rightarrow> iq_request \<Rightarrow> iq_value list list \<Rightarrow> disk \<Rightarrow> disk \<times> row result" where
  "record_iq env rq batches d =
     (case open_iq_writer env rq d of
        Inl e \<Rightarrow> (d, Inl e)
      | Inr (d1, w) \<Rightarrow>
          (case write_batches env batches w of
             (w', Inl e) \<Rightarrow> (fst (abort_iq w' d1), Inl e)
           | (w', Inr _) \<Rightarrow> (case close_iq env w' d1 of (d2, _, r) \<Rightarrow> (d2, r))))"

subsection \<open>The IQ reader\<close>

record iq_reader =
  ir_summary :: row
  ir_data :: "byte list"
  ir_datatype :: datatype_name

definition file_of :: "string \<Rightarrow> directory \<Rightarrow> stored_file option" where
  "file_of name dir = map_of (dr_files dir) name"

text \<open>Names and the data type are texts in every \<open>metadata.json\<close> the writers produce (\<open>str\<close> is the identity).\<close>

definition text_field :: "row \<Rightarrow> string \<Rightarrow> string" where
  "text_field r k = (case dict_get r k of PStr s \<Rightarrow> s | _ \<Rightarrow> [])"

definition open_iq_reader :: "directory \<Rightarrow> iq_reader result" where
  "open_iq_reader dir =
     (case file_of ''metadata.json'' dir of
        None \<Rightarrow> Inl (ValueError ''missing_recording_metadata'')
      | Some (Json summary) \<Rightarrow>
          if dict_get summary ''recording_type'' \<noteq> PStr ''iq'' then Inl (ValueError ''not_iq_recording'')
          else (case (file_of (text_field summary ''data_file'') dir, file_of (text_field summary ''metadata_file'') dir) of
              (Some (Bytes data), Some (Json meta)) \<Rightarrow>
                (case datatype_of_text (text_field summary ''datatype'') of
                   None \<Rightarrow> Inl (ValueError ''unsupported_sigmf_datatype'')
                 | Some dt \<Rightarrow> Inr \<lparr>ir_summary = summary, ir_data = data, ir_datatype = dt\<rparr>)
            | (None, _) \<Rightarrow> Inl (ValueError ''incomplete_iq_recording'')
            | (_, None) \<Rightarrow> Inl (ValueError ''incomplete_iq_recording'')
            | _ \<Rightarrow> Inl (ValueError ''JSONDecodeError''))
      | Some _ \<Rightarrow> Inl (ValueError ''JSONDecodeError''))"

definition verify_iq_checksum :: "(byte list \<Rightarrow> string) \<Rightarrow> iq_reader \<Rightarrow> bool" where
  "verify_iq_checksum sha r =
     (let expected = text_field (ir_summary r) ''checksum_sha256'' in
      length expected = 64 \<and> sha (ir_data r) = expected)"

definition unpack_sample :: "float_codec \<Rightarrow> datatype_name \<Rightarrow> byte list \<Rightarrow> rat \<times> rat" where
  "unpack_sample fc dt bs =
     (case dt of
        Cf32_Le \<Rightarrow> (fc_unpack fc (take 4 bs), fc_unpack fc (drop 4 bs))
      | Ci16_Le \<Rightarrow> (of_int (unpack_i16 (take 2 bs)), of_int (unpack_i16 (drop 2 bs))))"

text \<open>The generator \<open>samples\<close>: what it yields, and the exception that ends it.\<close>

function read_samples :: "float_codec \<Rightarrow> datatype_name \<Rightarrow> byte list \<Rightarrow> (rat \<times> rat) list \<times> py_error option" where
  "read_samples fc dt bs =
     (if bs = [] then ([], None)
      else if length bs < sample_size dt then ([], Some (ValueError ''truncated_iq_recording''))
      else (let (rest, err) = read_samples fc dt (drop (sample_size dt) bs) in
        (unpack_sample fc dt (take (sample_size dt) bs) # rest, err)))"
  by auto
termination
  by (relation "measure (\<lambda>(fc, dt, bs). length bs)") (auto simp: sample_size_def split: datatype_name.splits)

declare read_samples.simps [simp del]

subsection \<open>The audio writer\<close>

datatype audio_value = Float_Sample pyfloat | Int_Sample int

definition pcm_value :: "audio_value \<Rightarrow> int result" where
  "pcm_value v =
     (case v of
        Float_Sample f \<Rightarrow> (case finite_value f of
            None \<Rightarrow> Inl (ValueError ''non_finite_audio_sample'')
          | Some x \<Rightarrow> Inr (py_round (max (-1) (min 1 x) * 32767)))
      | Int_Sample n \<Rightarrow> Inr (clamp_i16 n))"

record audio_writer =
  aw_id :: string
  aw_rate :: int
  aw_channels :: nat
  aw_source :: string
  aw_demodulation :: string
  aw_center_hz :: "int option"
  aw_session_id :: "string option"
  aw_frame_count :: nat
  aw_closed :: bool
  aw_started_at :: string
  aw_data :: "byte list"

definition open_audio_writer ::
  "recorder_env \<Rightarrow> string option \<Rightarrow> int \<Rightarrow> nat \<Rightarrow> string \<Rightarrow> string \<Rightarrow> int option \<Rightarrow> string option \<Rightarrow> disk
     \<Rightarrow> (disk \<times> audio_writer) result" where
  "open_audio_writer env recording_id rate channels source demodulation center session d =
     (if rate \<le> 0 then Inl (ValueError ''invalid_audio_sample_rate'')
      else if channels \<notin> {1, 2} then Inl (ValueError ''unsupported_audio_channel_count'')
      else and_then (safe_recording_id (re_fresh_id env) recording_id) (\<lambda>i.
        and_then (assert_can_start (re_settings env) (re_usage env) 0) (\<lambda>_.
        Inr (make_directory (re_now env) (staging_name i) (cleanup_staging (staging_name i) d),
          \<lparr>aw_id = i, aw_rate = rate, aw_channels = channels, aw_source = source, aw_demodulation = demodulation,
           aw_center_hz = center, aw_session_id = session, aw_frame_count = 0, aw_closed = False,
           aw_started_at = re_now_text env, aw_data = []\<rparr>))))"

definition write_audio :: "recorder_env \<Rightarrow> audio_value list \<Rightarrow> audio_writer \<Rightarrow> audio_writer \<times> nat result" where
  "write_audio env values w =
     (if aw_closed w then (w, Inl (RuntimeError ''recording_already_closed''))
      else case fold_result (\<lambda>acc v. and_then (pcm_value v) (\<lambda>n. Inr (acc @ pack_i16 n))) [] values of
        Inl e \<Rightarrow> (w, Inl e)
      | Inr bs \<Rightarrow>
          if length values mod aw_channels w \<noteq> 0 then (w, Inl (ValueError ''audio_samples_not_aligned_to_channels''))
          else (let frames = length values div aw_channels w;
                    w' = w\<lparr>aw_data := aw_data w @ bs, aw_frame_count := aw_frame_count w + frames\<rparr> in
            (w', and_then (assert_limits (re_settings env) (int (aw_frame_count w' * aw_channels w * 2))
                    (of_nat (aw_frame_count w') / of_int (aw_rate w))) (\<lambda>_. Inr frames))))"

text \<open>The bytes of the WAV file: the argument \<open>wav channels rate data\<close>.\<close>

definition audio_summary :: "recorder_env \<Rightarrow> audio_writer \<Rightarrow> byte list \<Rightarrow> row" where
  "audio_summary env w wav =
     [(''schema_version'', PInt 1), (''recording_id'', PStr (aw_id w)), (''recording_type'', PStr ''audio''),
      (''status'', PStr ''completed''), (''source'', PStr (aw_source w)), (''session_id'', str_or_null (aw_session_id w)),
      (''started_at'', PStr (aw_started_at w)), (''ended_at'', PStr (re_now_text env)),
      (''audio_file'', PStr ''audio.wav''), (''format'', PStr ''wav_pcm_s16le''), (''sample_rate'', PInt (aw_rate w)),
      (''channels'', PInt (int (aw_channels w))), (''frame_count'', PInt (int (aw_frame_count w))),
      (''duration_seconds'', PFloat (Fin (of_nat (aw_frame_count w) / of_int (aw_rate w)))),
      (''demodulation'', PStr (aw_demodulation w)),
      (''center_frequency_hz'', case aw_center_hz w of None \<Rightarrow> PNone | Some n \<Rightarrow> PInt n),
      (''size_bytes'', PInt (int (length wav))), (''checksum_algorithm'', PStr ''sha256''),
      (''checksum_sha256'', PStr (re_sha256 env wav)), (''checksum_status'', PStr ''valid''),
      (''mock'', PBool (aw_source w = ''mock'')), (''hardware_tested'', PBool False)]"

definition close_audio ::
  "recorder_env \<Rightarrow> (nat \<Rightarrow> int \<Rightarrow> byte list \<Rightarrow> byte list) \<Rightarrow> audio_writer \<Rightarrow> disk \<Rightarrow> disk \<times> audio_writer \<times> row result" where
  "close_audio env wav w d =
     (if aw_closed w then (d, w, Inl (RuntimeError ''recording_already_closed''))
      else
        let w' = w\<lparr>aw_closed := True\<rparr>; staging = staging_name (aw_id w);
            bytes = wav (aw_channels w) (aw_rate w) (aw_data w); summary = audio_summary env w bytes in
        if map_of d staging = None then (d, w', Inl (OSError ''FileNotFoundError''))
        else
          let d1 = put_files staging [(''audio.wav'', Bytes bytes), (''metadata.json'', Json summary),
                (''checksum.sha256'', Not_Json)] d in
          case finalize_directory staging (aw_id w) d1 of
            Inl e \<Rightarrow> (cleanup_staging staging d1, w', Inl e)
          | Inr d2 \<Rightarrow> (d2, w', Inr summary))"

definition abort_audio :: "audio_writer \<Rightarrow> disk \<Rightarrow> disk \<times> audio_writer" where
  "abort_audio w d = (cleanup_staging (staging_name (aw_id w)) d, w\<lparr>aw_closed := True\<rparr>)"

subsection \<open>Catalogue and retention\<close>

definition set_default :: "string \<Rightarrow> pyval \<Rightarrow> row \<Rightarrow> row" where
  "set_default k v r = (if dict_has r k then r else r @ [(k, v)])"

definition set_key :: "string \<Rightarrow> pyval \<Rightarrow> row \<Rightarrow> row" where
  "set_key k v r = (if dict_has r k then map (\<lambda>(k', v'). (k', if k' = k then v else v')) r else r @ [(k, v)])"

definition verify_recording :: "text_lib \<Rightarrow> (byte list \<Rightarrow> string) \<Rightarrow> directory \<Rightarrow> row \<Rightarrow> string" where
  "verify_recording lib sha dir metadata =
     (let c = dict_get metadata ''checksum_sha256'';
          checksum = (if py_truthy c then py_str lib c else []);
          kind = (if dict_has metadata ''recording_type'' then dict_get metadata ''recording_type'' else PStr ''spectrum'');
          name = dict_get metadata (if kind = PStr ''iq'' then ''data_file''
            else if kind = PStr ''audio'' then ''audio_file'' else ''frame_file'') in
      if length checksum \<noteq> 64 then ''missing''
      else if \<not> py_truthy name then ''missing''
      else case file_of (py_str lib name) dir of
          Some (Bytes bs) \<Rightarrow> if sha bs = checksum then ''valid'' else ''invalid''
        | Some _ \<Rightarrow> ''invalid''
        | None \<Rightarrow> ''missing'')"

definition hidden :: "string \<Rightarrow> bool" where
  "hidden name = startswith name ''.''"

definition catalog_item :: "text_lib \<Rightarrow> (byte list \<Rightarrow> string) \<Rightarrow> bool \<Rightarrow> string \<Rightarrow> directory \<Rightarrow> row" where
  "catalog_item lib sha verify name dir =
     (case file_of ''metadata.json'' dir of
        None \<Rightarrow> [(''recording_id'', PStr name), (''recording_type'', PStr ''unknown''),
          (''status'', PStr ''incomplete''), (''checksum_status'', PStr ''not_checked''), (''path'', PStr name)]
      | Some (Json metadata) \<Rightarrow>
          (let r = set_default ''status'' (PStr ''completed'')
                (set_default ''recording_type'' (PStr ''spectrum'') (set_default ''recording_id'' (PStr name) metadata)) in
           set_key ''checksum_status'' (PStr (if verify then verify_recording lib sha dir r else ''not_checked'')) r)
      | Some _ \<Rightarrow> [(''recording_id'', PStr name), (''recording_type'', PStr ''unknown''),
          (''status'', PStr ''corrupt_metadata''), (''checksum_status'', PStr ''not_checked''),
          (''error'', PStr ''JSONDecodeError'')])"

text \<open>A stable sort with \<open>reverse=True\<close>.\<close>

definition sort_reverse :: "('a \<Rightarrow> 'k::linorder) \<Rightarrow> 'a list \<Rightarrow> 'a list" where
  "sort_reverse f xs = rev (sort_key f (rev xs))"

definition started_text :: "text_lib \<Rightarrow> row \<Rightarrow> string" where
  "started_text lib r = (let v = dict_get r ''started_at'' in if py_truthy v then py_str lib v else [])"

definition list_recordings :: "text_lib \<Rightarrow> (byte list \<Rightarrow> string) \<Rightarrow> bool \<Rightarrow> int \<Rightarrow> disk \<Rightarrow> row list" where
  "list_recordings lib sha verify limit d =
     take (nat (max 1 (min limit 1000)))
       (sort_reverse (started_text lib)
         (map (\<lambda>(n, dir). catalog_item lib sha verify n dir) (filter (\<lambda>(n, _). \<not> hidden n) d)))"

record retention_item =
  ri_recording_id :: string
  ri_modified_at :: rat
  ri_size_bytes :: int

definition retention_plan :: "recorder_env \<Rightarrow> disk \<Rightarrow> retention_item list" where
  "retention_plan env d =
     (let cutoff = re_now env - of_int (st_retention_days (re_settings env)) * 86400 in
      map (\<lambda>(n, dir). \<lparr>ri_recording_id = n, ri_modified_at = dr_mtime dir,
             ri_size_bytes = sum_list (map (re_size env \<circ> snd) (dr_files dir))\<rparr>)
        (filter (\<lambda>(n, dir). n \<noteq> st_quarantine (re_settings env) \<and> \<not> hidden n \<and> dr_mtime dir < cutoff)
          (sort_key fst d)))"

subsection \<open>The contract of a sample codec\<close>

locale sample_codec =
  fixes enc :: "'a \<Rightarrow> byte list" and dec :: "byte list \<Rightarrow> 'b" and quantized :: "'a \<Rightarrow> 'b"
    and good :: "'a \<Rightarrow> bool" and width :: nat
  assumes width_pos: "0 < width"
    and enc_width: "good x \<Longrightarrow> length (enc x) = width"
    and dec_enc: "good x \<Longrightarrow> dec (enc x) = quantized x"
begin

lemma length_stream: "\<forall>x\<in>set xs. good x \<Longrightarrow> length (concat (map enc xs)) = length xs * width"
  by (induction xs) (auto simp: enc_width)

lemma first_sample:
  "good x \<Longrightarrow> take width (enc x @ rest) = enc x \<and> drop width (enc x @ rest) = rest \<and> enc x @ rest \<noteq> []"
  using enc_width [of x] width_pos by auto

lemma decode_stream:
  assumes "\<And>bs. read bs = (if bs = [] then ([], None) else if length bs < width then ([], Some err)
      else (let (rest, e) = read (drop width bs) in (dec (take width bs) # rest, e)))"
    and "\<forall>x\<in>set xs. good x"
  shows "read (concat (map enc xs)) = (map quantized xs, None)"
  using assms(2)
proof (induction xs)
  case Nil
  then show ?case by (subst assms(1)) simp
next
  case (Cons x xs)
  then have x: "good x" by simp
  have "\<not> length (enc x @ concat (map enc xs)) < width" using enc_width [OF x] by simp
  then show ?case using Cons first_sample [OF x, of "concat (map enc xs)"] dec_enc [OF x]
    by (simp only: list.map concat.simps) (subst assms(1), simp)
qed

end

lemma length_pack_i16 [simp]: "length (pack_i16 n) = 2"
  by (simp add: pack_i16_def Let_def)

lemma word16_bytes:
  fixes w :: "16 word"
  shows "or (ucast (ucast w :: 8 word)) (push_bit 8 (ucast (ucast (drop_bit 8 w) :: 8 word))) = w"
  by (rule bit_word_eqI) (auto simp: bit_simps)

lemma unpack_pack_i16: "-32768 \<le> n \<Longrightarrow> n \<le> 32767 \<Longrightarrow> unpack_i16 (pack_i16 n) = n"
  unfolding unpack_i16_def pack_i16_def Let_def nth_Cons_0 nth_Cons_Suc One_nat_def word16_bytes
  by (simp add: sint_sbintrunc' signed_take_bit_int_eq_self)

lemma clamp_i16_range: "-32768 \<le> clamp_i16 n \<and> clamp_i16 n \<le> 32767"
  by (auto simp: clamp_i16_def)

lemma unpack_pack_clamp [simp]: "unpack_i16 (pack_i16 (clamp_i16 n)) = clamp_i16 n"
  using clamp_i16_range [of n] by (simp add: unpack_pack_i16)

text \<open>What reading a written sample gives.\<close>

definition quantized_sample :: "float_codec \<Rightarrow> datatype_name \<Rightarrow> rat \<times> rat \<Rightarrow> rat \<times> rat" where
  "quantized_sample fc dt s =
     (case dt of
        Ci16_Le \<Rightarrow> (of_int (clamp_i16 (py_round (fst s))), of_int (clamp_i16 (py_round (snd s))))
      | Cf32_Le \<Rightarrow> (fc_unpack fc (the (fc_pack fc (fst s))), fc_unpack fc (the (fc_pack fc (snd s)))))"

definition packed :: "float_codec \<Rightarrow> datatype_name \<Rightarrow> rat \<times> rat \<Rightarrow> byte list" where
  "packed fc dt s = (case pack_sample fc dt (fst s) (snd s) of Inr bs \<Rightarrow> bs | Inl _ \<Rightarrow> [])"

interpretation ci16: sample_codec "packed fc Ci16_Le" "unpack_sample fc Ci16_Le" "quantized_sample fc Ci16_Le" "\<lambda>_. True" "sample_size Ci16_Le"
  by unfold_locales (simp_all add: packed_def pack_sample_def unpack_sample_def quantized_sample_def sample_size_def)

interpretation pcm16: sample_codec "\<lambda>n. pack_i16 (clamp_i16 n)" unpack_i16 clamp_i16 "\<lambda>_. True" 2
  by unfold_locales simp_all

lemma cf32_codec:
  assumes "\<And>x bs. fc_pack fc x = Some bs \<Longrightarrow> length bs = 4"
  shows "sample_codec (packed fc Cf32_Le) (unpack_sample fc Cf32_Le) (quantized_sample fc Cf32_Le)
    (\<lambda>s. fc_pack fc (fst s) \<noteq> None \<and> fc_pack fc (snd s) \<noteq> None) (sample_size Cf32_Le)"
  using assms
  by unfold_locales (auto simp: packed_def pack_sample_def unpack_sample_def quantized_sample_def sample_size_def)

lemma encodable_good:
  assumes "\<And>x bs. fc_pack fc x = Some bs \<Longrightarrow> length bs = 4"
    and "\<forall>s\<in>set xs. is_ok (pack_sample fc dt (fst s) (snd s))"
  shows "read_samples fc dt (concat (map (packed fc dt) xs)) = (map (quantized_sample fc dt) xs, None)"
    and "length (concat (map (packed fc dt) xs)) = length xs * sample_size dt"
proof -
  have "read_samples fc dt (concat (map (packed fc dt) xs)) = (map (quantized_sample fc dt) xs, None)
    \<and> length (concat (map (packed fc dt) xs)) = length xs * sample_size dt"
  proof (cases dt)
    case Ci16_Le
    then show ?thesis
      using ci16.decode_stream [where read = "read_samples fc Ci16_Le" and fc = fc, OF read_samples.simps]
        ci16.length_stream [where fc = fc] by simp
  next
    case Cf32_Le
    have good: "\<forall>s\<in>set xs. fc_pack fc (fst s) \<noteq> None \<and> fc_pack fc (snd s) \<noteq> None"
      using assms(2) by (auto simp: Cf32_Le pack_sample_def is_ok_def split: option.splits sum.splits)
    note codec = cf32_codec [of fc, OF assms(1)]
    show ?thesis using Cf32_Le sample_codec.length_stream [OF codec good]
      sample_codec.decode_stream [OF codec read_samples.simps [where fc = fc and dt = Cf32_Le] good] by simp
  qed
  then show "read_samples fc dt (concat (map (packed fc dt) xs)) = (map (quantized_sample fc dt) xs, None)"
    "length (concat (map (packed fc dt) xs)) = length xs * sample_size dt" by simp_all
qed

subsection \<open>Directories\<close>

lemma map_of_cleanup: "map_of (cleanup_staging name d) n = (if n = name then None else map_of d n)"
  by (induction d) (auto simp: cleanup_staging_def)

lemma map_of_make: "map_of (make_directory now name d) n =
    (case map_of d n of Some x \<Rightarrow> Some x | None \<Rightarrow> if n = name then Some \<lparr>dr_files = [], dr_mtime = now\<rparr> else None)"
  by (auto simp: make_directory_def map_add_def split: option.splits)

lemma map_of_put: "map_of (put_files name fs d) n =
    (if n = name then map_option (\<lambda>dir. dir\<lparr>dr_files := dr_files dir @ fs\<rparr>) (map_of d n) else map_of d n)"
  by (induction d) (auto simp: put_files_def)

lemma staging_fresh [simp]: "staging_name i \<noteq> i" "i \<noteq> staging_name i"
proof -
  have "length (staging_name i) \<noteq> length i" by (simp add: staging_name_def)
  then show "staging_name i \<noteq> i" "i \<noteq> staging_name i" by (auto simp del: length_append)
qed

lemma finalize_lookup:
  assumes "finalize_directory staging destination d = Inr d'" and "staging \<noteq> destination"
  shows "map_of d' n = (if n = destination then map_of d staging else if n = staging then None else map_of d n)"
proof -
  have "map_of d destination = None"
    and d': "d' = map (\<lambda>(n, dir). (if n = staging then destination else n, dir)) d"
    using assms(1) by (auto simp: finalize_directory_def path_exists_def split: if_splits)
  have "map_of (map (\<lambda>(n, dir). (if n = staging then destination else n, dir)) e) n
      = (if n = destination then map_of e staging else if n = staging then None else map_of e n)"
    if "map_of e destination = None" for e
    using that assms(2) by (induction e) (auto split: if_splits)
  then show ?thesis using \<open>map_of d destination = None\<close> d' by blast
qed

lemma open_iq_writer_ok:
  assumes "open_iq_writer env rq d = Inr (d', w)"
  shows "d' = make_directory (re_now env) (staging_name (iw_id w)) (cleanup_staging (staging_name (iw_id w)) d)"
    "iw_data w = []" "iw_sample_count w = 0" "\<not> iw_closed w" "datatype_of_text (rq_datatype rq) = Some (iw_datatype w)"
    "safe_recording_id (re_fresh_id env) (rq_recording_id rq) = Inr (iw_id w)"
  using assms by (auto simp: open_iq_writer_def and_then_Inr_iff split: option.splits if_splits)

lemma write_iq_keeps:
  "iw_id (fst (write_iq env vs w)) = iw_id w \<and> iw_datatype (fst (write_iq env vs w)) = iw_datatype w
   \<and> iw_closed (fst (write_iq env vs w)) = iw_closed w"
  by (auto simp: write_iq_def Let_def split: prod.splits option.splits)

lemma write_batches_keeps:
  "iw_id (fst (write_batches env bs w)) = iw_id w \<and> iw_datatype (fst (write_batches env bs w)) = iw_datatype w
   \<and> iw_closed (fst (write_batches env bs w)) = iw_closed w"
proof (induction bs arbitrary: w)
  case (Cons b bs)
  show ?case using Cons [of "fst (write_iq env b w)"] write_iq_keeps [of env b w]
    by (auto split: prod.splits sum.splits)
qed simp

lemma close_iq_cases:
  assumes "\<not> iw_closed w" and "map_of d (staging_name (iw_id w)) = Some dir" and "dr_files dir = []"
    and "close_iq env w d = (d', w', r)"
  shows "(\<exists>e. r = Inl e \<and> path_exists (iw_id w) d \<and> (\<forall>n. map_of d' n = (if n = staging_name (iw_id w) then None else map_of d n)))
    \<or> (r = Inr (iq_summary env w) \<and> \<not> path_exists (iw_id w) d \<and>
        (\<forall>n. map_of d' n = (if n = iw_id w then Some (dir\<lparr>dr_files := [(data_name (iw_id w), Bytes (iw_data w)),
            (meta_name (iw_id w), Json (sigmf_metadata env w)), (''checksum.sha256'', Not_Json),
            (''metadata.json'', Json (iq_summary env w))]\<rparr>)
          else if n = staging_name (iw_id w) then None else map_of d n)))"
proof -
  let ?st = "staging_name (iw_id w)"
  let ?fs = "[(data_name (iw_id w), Bytes (iw_data w)), (meta_name (iw_id w), Json (sigmf_metadata env w)),
      (''checksum.sha256'', Not_Json), (''metadata.json'', Json (iq_summary env w))]"
  let ?d1 = "put_files ?st ?fs d"
  have ex: "path_exists (iw_id w) ?d1 = path_exists (iw_id w) d"
    by (simp add: path_exists_def map_of_put)
  show ?thesis
  proof (cases "finalize_directory ?st (iw_id w) ?d1")
    case (Inl e)
    then have "path_exists (iw_id w) d" by (auto simp: finalize_directory_def ex split: if_splits)
    then show ?thesis using assms Inl by (auto simp: close_iq_def Let_def map_of_cleanup map_of_put)
  next
    case (Inr d2)
    then have "\<not> path_exists (iw_id w) d" by (auto simp: finalize_directory_def ex split: if_splits)
    then show ?thesis using assms Inr finalize_lookup [OF Inr staging_fresh(1)]
      by (auto simp: close_iq_def Let_def map_of_put)
  qed
qed

lemma opened_staging:
  assumes "open_iq_writer env rq d = Inr (d1, w)"
  shows "map_of d1 (staging_name (iw_id w)) = Some \<lparr>dr_files = [], dr_mtime = re_now env\<rparr>"
    "n \<noteq> staging_name (iw_id w) \<Longrightarrow> map_of d1 n = map_of d n"
  unfolding open_iq_writer_ok(1) [OF assms]
  by (simp_all add: map_of_make map_of_cleanup split: option.splits)

lemma record_iq_cases:
  assumes "record_iq env rq batches d = (d', r)"
  shows "(\<exists>e. r = Inl e \<and> open_iq_writer env rq d = Inl e \<and> d' = d)
    \<or> (\<exists>d1 w w'. open_iq_writer env rq d = Inr (d1, w) \<and> w' = fst (write_batches env batches w) \<and>
        ((\<exists>e. r = Inl e \<and> (\<forall>n. map_of d' n = (if n = staging_name (iw_id w) then None else map_of d n)))
         \<or> (r = Inr (iq_summary env w') \<and> snd (write_batches env batches w) = Inr () \<and> \<not> path_exists (iw_id w) d \<and>
            (\<forall>n. map_of d' n = (if n = iw_id w then Some \<lparr>dr_files = [(data_name (iw_id w), Bytes (iw_data w')),
                (meta_name (iw_id w), Json (sigmf_metadata env w')), (''checksum.sha256'', Not_Json),
                (''metadata.json'', Json (iq_summary env w'))], dr_mtime = re_now env\<rparr>
              else if n = staging_name (iw_id w) then None else map_of d n)))))"
proof (cases "open_iq_writer env rq d")
  case (Inl e)
  then show ?thesis using assms by (simp add: record_iq_def)
next
  case (Inr p)
  obtain d1 w where p: "p = (d1, w)" by (cases p)
  note op = Inr [unfolded p]
  obtain w' e where wb: "write_batches env batches w = (w', e)" by (cases "write_batches env batches w")
  have keep: "iw_id w' = iw_id w" "\<not> iw_closed w'"
    using write_batches_keeps [of env batches w] open_iq_writer_ok(4) [OF op] by (simp_all add: wb)
  note st = opened_staging [OF op]
  have same: "path_exists (iw_id w) d1 = path_exists (iw_id w) d" using st(2) by (simp add: path_exists_def)
  show ?thesis
  proof (cases e)
    case (Inl x)
    then show ?thesis using assms op wb st(2) by (auto simp: record_iq_def abort_iq_def keep map_of_cleanup)
  next
    case (Inr u)
    obtain d2 w2 r2 where c: "close_iq env w' d1 = (d2, w2, r2)" by (metis prod_cases3)
    have "d' = d2 \<and> r = r2" using assms op wb Inr c by (simp add: record_iq_def)
    then show ?thesis
      using close_iq_cases [OF keep(2) _ _ c, unfolded keep(1), OF st(1)] op wb Inr same st(2) by auto
  qed
qed

subsection \<open>What a recording holds\<close>

definition sample_pair :: "iq_value \<Rightarrow> rat \<times> rat" where
  "sample_pair v = (case (case v of Complex i q \<Rightarrow> [i, q] | Sequence xs \<Rightarrow> xs) of
     [Fin x, Fin y] \<Rightarrow> (x, y) | _ \<Rightarrow> (0, 0))"

lemma encode_value_ok:
  assumes "encode_value fc dt v = Inr bs"
  shows "bs = packed fc dt (sample_pair v) \<and> is_ok (pack_sample fc dt (fst (sample_pair v)) (snd (sample_pair v)))"
proof -
  obtain i q where iq: "(case v of Complex i q \<Rightarrow> [i, q] | Sequence xs \<Rightarrow> xs) = [i, q]"
    using assms by (auto simp: encode_value_def split: list.splits)
  with assms obtain x y where "finite_value i = Some x" "finite_value q = Some y" "pack_sample fc dt x y = Inr bs"
    by (auto simp: encode_value_def split: option.splits)
  then show ?thesis
    by (auto simp: sample_pair_def iq packed_def finite_value_def split: pyfloat.splits)
qed

lemma encode_values_ok:
  "encode_values fc dt vs = (bs, None) \<Longrightarrow>
     bs = concat (map (packed fc dt) (map sample_pair vs))
     \<and> (\<forall>s\<in>set (map sample_pair vs). is_ok (pack_sample fc dt (fst s) (snd s)))"
proof (induction vs arbitrary: bs)
  case (Cons v vs)
  then obtain b rest where b: "encode_value fc dt v = Inr b" "encode_values fc dt vs = (rest, None)" "bs = b @ rest"
    by (auto split: sum.splits prod.splits)
  show ?case using Cons.IH [OF b(2)] encode_value_ok [OF b(1)] b(3) by auto
qed simp

lemma write_batches_data:
  assumes "snd (write_batches env bs w) = Inr ()"
  shows "iw_data (fst (write_batches env bs w)) =
      iw_data w @ concat (map (packed (re_float env) (iw_datatype w)) (map sample_pair (concat bs)))
    \<and> iw_sample_count (fst (write_batches env bs w)) = iw_sample_count w + length (concat bs)
    \<and> (\<forall>s\<in>set (map sample_pair (concat bs)). is_ok (pack_sample (re_float env) (iw_datatype w) (fst s) (snd s)))"
  using assms
proof (induction bs arbitrary: w)
  case (Cons b bs)
  obtain w' n where w': "write_iq env b w = (w', Inr n)"
    using Cons.prems by (cases "write_iq env b w") (auto split: sum.splits)
  then obtain data where enc: "encode_values (re_float env) (iw_datatype w) b = (data, None)"
    and st: "w' = w\<lparr>iw_data := iw_data w @ data, iw_sample_count := iw_sample_count w + length b\<rparr>"
    by (auto simp: write_iq_def Let_def split: if_splits prod.splits option.splits)
  have "snd (write_batches env bs w') = Inr ()" using Cons.prems w' by simp
  from Cons.IH [OF this] encode_values_ok [OF enc] show ?case by (auto simp: w' st)
qed simp

lemma file_of_stored:
  "file_of (data_name i) \<lparr>dr_files = [(data_name i, a), (meta_name i, b), (''checksum.sha256'', c), (''metadata.json'', e)], dr_mtime = t\<rparr> = Some a"
  "file_of (meta_name i) \<lparr>dr_files = [(data_name i, a), (meta_name i, b), (''checksum.sha256'', c), (''metadata.json'', e)], dr_mtime = t\<rparr> = Some b"
  "file_of ''metadata.json'' \<lparr>dr_files = [(data_name i, a), (meta_name i, b), (''checksum.sha256'', c), (''metadata.json'', e)], dr_mtime = t\<rparr> = Some e"
proof -
  have last: "last (data_name i) = CHR ''a'' \<and> last (meta_name i) = CHR ''a''" by (simp add: data_name_def meta_name_def)
  have "rev (data_name i) \<noteq> rev (meta_name i)" by (simp add: data_name_def meta_name_def)
  then have "data_name i \<noteq> meta_name i" by auto
  moreover have "data_name i \<noteq> ''metadata.json''" "meta_name i \<noteq> ''metadata.json''"
    using last by (auto dest: arg_cong [where f = last])
  moreover have "meta_name i \<noteq> ''checksum.sha256''" using last by (auto dest: arg_cong [where f = last])
  ultimately show
    "file_of (data_name i) \<lparr>dr_files = [(data_name i, a), (meta_name i, b), (''checksum.sha256'', c), (''metadata.json'', e)], dr_mtime = t\<rparr> = Some a"
    "file_of (meta_name i) \<lparr>dr_files = [(data_name i, a), (meta_name i, b), (''checksum.sha256'', c), (''metadata.json'', e)], dr_mtime = t\<rparr> = Some b"
    "file_of ''metadata.json'' \<lparr>dr_files = [(data_name i, a), (meta_name i, b), (''checksum.sha256'', c), (''metadata.json'', e)], dr_mtime = t\<rparr> = Some e"
    by (auto simp: file_of_def)
qed

lemma iq_summary_fields [simp]:
  "dict_get (iq_summary env w) ''recording_type'' = PStr ''iq''"
  "text_field (iq_summary env w) ''recording_id'' = iw_id w"
  "text_field (iq_summary env w) ''data_file'' = data_name (iw_id w)"
  "text_field (iq_summary env w) ''metadata_file'' = meta_name (iw_id w)"
  "text_field (iq_summary env w) ''datatype'' = datatype_text (iw_datatype w)"
  "text_field (iq_summary env w) ''checksum_sha256'' = re_sha256 env (iw_data w)"
  "dict_get (iq_summary env w) ''sample_count'' = PInt (int (iw_sample_count w))"
  "dict_get (iq_summary env w) ''size_bytes'' = PInt (int (length (iw_data w)))"
  by (simp_all add: iq_summary_def dict_get_def text_field_def)

lemma datatype_of_text_text [simp]: "datatype_of_text (datatype_text dt) = Some dt"
  by (cases dt) (simp_all add: datatype_of_text_def datatype_text_def)

subsection \<open>Properties\<close>

definition sample_recorder :: recorder_env where
  "sample_recorder = \<lparr>re_settings = \<lparr>st_quarantine = ''.quarantine'', st_min_free_bytes = 1, st_max_recording_bytes = 100,
     st_max_duration_seconds = 10, st_retention_days = 30\<rparr>,
     re_usage = \<lparr>du_total = 1000, du_used = 0, du_free = 1000, du_writable = True\<rparr>, re_fresh_id = ''fresh'', re_now = 5,
     re_now_text = ''now'', re_float = \<lparr>fc_pack = (\<lambda>_. None), fc_unpack = (\<lambda>_. 0)\<rparr>,
     re_sha256 = (\<lambda>_. replicate 64 (CHR ''0'')), re_size = (\<lambda>_. 0)\<rparr>"

definition sample_request :: "string \<Rightarrow> iq_request" where
  "sample_request i = \<lparr>rq_recording_id = Some i, rq_datatype = ''ci16_le'', rq_sample_rate = Fin 10, rq_center_hz = 100,
     rq_source = ''mock'', rq_device = ''gen'', rq_timestamp = None, rq_session_id = None, rq_antenna = None,
     rq_downconverter = None, rq_packet_loss = 0, rq_overflow_count = 0\<rparr>"

text \<open>
  C11: What was recorded is what is read: after a successful IQ recording the directory named by the
  summary holds a recording that the reader opens with a valid checksum, its samples are the
  written ones in their order, each quantised by its data type (rounded and clamped to 16 bits for
  \<open>ci16_le\<close>, through the 32-bit float codec for \<open>cf32_le\<close>), the stream ends without an error, and
  the sample count and the size of the summary are exact.
\<close>

theorem iq_recording_roundtrip:
  assumes "record_iq env rq batches d = (d', Inr summary)"
    and "\<And>x bs. fc_pack (re_float env) x = Some bs \<Longrightarrow> length bs = 4"
    and "\<And>bs. length (re_sha256 env bs) = 64"
  shows "\<exists>dir r dt. map_of d' (text_field summary ''recording_id'') = Some dir \<and> open_iq_reader dir = Inr r
    \<and> datatype_of_text (rq_datatype rq) = Some dt \<and> verify_iq_checksum (re_sha256 env) r
    \<and> read_samples (re_float env) (ir_datatype r) (ir_data r)
        = (map (quantized_sample (re_float env) dt \<circ> sample_pair) (concat batches), None)
    \<and> dict_get summary ''sample_count'' = PInt (int (length (concat batches)))
    \<and> dict_get summary ''size_bytes'' = PInt (int (length (concat batches) * sample_size dt))"
proof -
  from record_iq_cases [OF assms(1)] obtain d1 w w' dir where op: "open_iq_writer env rq d = Inr (d1, w)"
    and w': "w' = fst (write_batches env batches w)" and ok: "snd (write_batches env batches w) = Inr ()"
    and sum: "summary = iq_summary env w'"
    and dir: "map_of d' (iw_id w) = Some dir" "dir = \<lparr>dr_files = [(data_name (iw_id w), Bytes (iw_data w')),
        (meta_name (iw_id w), Json (sigmf_metadata env w')), (''checksum.sha256'', Not_Json),
        (''metadata.json'', Json (iq_summary env w'))], dr_mtime = re_now env\<rparr>"
    by auto
  note keep = write_batches_keeps [of env batches w, folded w']
  note start = open_iq_writer_ok [OF op]
  let ?dt = "iw_datatype w" and ?xs = "map sample_pair (concat batches)"
  have data: "iw_data w' = concat (map (packed (re_float env) ?dt) ?xs)" "iw_sample_count w' = length (concat batches)"
    and good: "\<forall>s\<in>set ?xs. is_ok (pack_sample (re_float env) ?dt (fst s) (snd s))"
    using write_batches_data [OF ok] start by (simp_all add: w')
  have opened: "open_iq_reader dir = Inr \<lparr>ir_summary = summary, ir_data = iw_data w', ir_datatype = ?dt\<rparr>"
    using keep by (simp add: open_iq_reader_def dir(2) file_of_stored sum)
  show ?thesis
    using dir(1) opened start(5) keep data encodable_good [OF assms(2) good] assms(3)
    by (auto simp: sum verify_iq_checksum_def Let_def)
qed

lemma sample_recording_ok:
  "is_ok (snd (record_iq sample_recorder (sample_request ''x'') [[Complex (Fin 1) (Fin (-2))], [Sequence [Fin 40000, Fin 0]]] []))"
  by (simp add: record_iq_def open_iq_writer_def sample_request_def sample_recorder_def datatype_of_text_def
      finite_value_def safe_recording_id_def safe_id_char_def is_lower_alnum_def is_digit_def char_lower_def
      assert_can_start_def make_directory_def cleanup_staging_def write_iq_def encode_value_def pack_sample_def
      assert_limits_def sample_size_def close_iq_def put_files_def finalize_directory_def path_exists_def
      staging_name_def Let_def)

lemma iq_recording_roundtrip_witness:
  "\<exists>d' summary. record_iq sample_recorder (sample_request ''x'') [[Complex (Fin 1) (Fin (-2))], [Sequence [Fin 40000, Fin 0]]] []
       = (d', Inr summary)
     \<and> dict_get summary ''sample_count'' = PInt 2 \<and> dict_get summary ''size_bytes'' = PInt 8"
proof -
  let ?b = "[[Complex (Fin 1) (Fin (-2))], [Sequence [Fin 40000, Fin 0]]]"
  obtain d' summary where r: "record_iq sample_recorder (sample_request ''x'') ?b [] = (d', Inr summary)"
    using sample_recording_ok by (metis is_ok_iff prod.collapse)
  have "datatype_of_text (rq_datatype (sample_request ''x'')) = Some Ci16_Le"
    by (simp add: sample_request_def datatype_of_text_def)
  then have "dict_get summary ''sample_count'' = PInt 2 \<and> dict_get summary ''size_bytes'' = PInt 8"
    using iq_recording_roundtrip [OF r] by (auto simp: sample_recorder_def sample_size_def)
  then show ?thesis using r by blast
qed


lemma sample_writer_opened:
  "\<exists>d1 w. open_iq_writer sample_recorder (sample_request ''x'') d = Inr (d1, w) \<and> iw_id w = ''x''"
  by (simp add: open_iq_writer_def sample_request_def sample_recorder_def datatype_of_text_def
      finite_value_def safe_recording_id_def safe_id_char_def is_lower_alnum_def is_digit_def char_lower_def
      assert_can_start_def Let_def)


text \<open>
  A finished recording can be destroyed by starting another one: the identifier
  \<open>.x.partial\<close> is a valid one (for every valid \<open>x\<close> of at most 119 characters), it is the staging
  directory of \<open>x\<close>, and opening a writer for \<open>x\<close> empties it.
\<close>

theorem staging_name_destroys_recording:
  assumes "safe_recording_id fresh (Some i) = Inr i" and "length i \<le> 119" and "i \<noteq> []"
    and "open_iq_writer env rq d = Inr (d', w)" and "iw_id w = i"
  shows "safe_recording_id fresh (Some (staging_name i)) = Inr (staging_name i)
    \<and> map_of d' (staging_name i) = Some \<lparr>dr_files = [], dr_mtime = re_now env\<rparr>"
proof -
  have "list_all safe_id_char (staging_name i)"
    using assms(1,3) by (auto simp: safe_recording_id_def staging_name_def Let_def safe_id_char_def is_lower_alnum_def
        char_lower_def is_digit_def list_all_iff split: if_splits)
  moreover have "length (staging_name i) = length i + 9" by (simp add: staging_name_def)
  ultimately have "safe_recording_id fresh (Some (staging_name i)) = Inr (staging_name i)"
    using assms(2) by (simp add: safe_recording_id_def staging_name_def)
  then show ?thesis using opened_staging(1) [OF assms(4)] assms(5) by simp
qed

lemma staging_name_destroys_recording_witness:
  "\<exists>d' w. open_iq_writer sample_recorder (sample_request ''x'')
       [(staging_name ''x'', \<lparr>dr_files = [(''metadata.json'', Json [])], dr_mtime = 1\<rparr>)] = Inr (d', w)
     \<and> map_of d' (staging_name ''x'') = Some \<lparr>dr_files = [], dr_mtime = 5\<rparr>"
proof -
  let ?d = "[(staging_name ''x'', \<lparr>dr_files = [(''metadata.json'', Json [])], dr_mtime = 1\<rparr>)] :: disk"
  obtain d' w where op: "open_iq_writer sample_recorder (sample_request ''x'') ?d = Inr (d', w)" "iw_id w = ''x''"
    using sample_writer_opened by blast
  have "safe_recording_id [] (Some ''x'') = Inr ''x''"
    by (simp add: safe_recording_id_def safe_id_char_def is_lower_alnum_def is_digit_def char_lower_def)
  from staging_name_destroys_recording [OF this _ _ op] op show ?thesis
    by (auto simp: sample_recorder_def)
qed

end
