(* ===== verification/Sessions.thy ===== *)
theory Sessions
  imports Store
begin

section \<open>Measurement sessions, places and sources\<close>

text \<open>
  \<open>routers/sessions_imports.py\<close> (the session handlers) and \<open>services/persistence.py\<close> (the place, the
  session of an import, the sources of the two file imports). The tables \<open>locations\<close>,
  \<open>measurement_sessions\<close> and \<open>measurement_sources\<close> are lists of rows; an UUID is a natural number,
  and a row is inserted under the identifier the server draws, which the primary key checks.
  A handler returns the new tables, or an error with nothing committed. SQL \<open>lower\<close> and Python
  \<open>lower\<close> agree on the ASCII text of the model. \<open>now()\<close> and the drawn identifiers are arguments.
\<close>

subsection \<open>Tables\<close>

record location_row =
  lo_id :: nat
  lo_name :: string

record session_row =
  se_id :: nat
  se_location_id :: "nat option"
  se_location_name :: string
  se_started :: rat
  se_ended :: "rat option"
  se_operator :: "string option"
  se_notes :: "string option"
  se_environment :: "string option"
  se_status :: string
  se_created :: rat
  se_updated :: rat

record source_row =
  so_id :: nat
  so_type :: string
  so_session :: "nat option"
  so_name :: string
  so_device :: "string option"
  so_adapter :: "string option"
  so_status :: string
  so_config :: "(string \<times> pyval) list"
  so_created :: rat

record session_db =
  sd_locations :: "location_row list"
  sd_sessions :: "session_row list"
  sd_sources :: "source_row list"

text \<open>What the server supplies to one request: the time and the identifiers it draws.\<close>

record sql_env =
  ev_now :: rat
  ev_location_id :: nat
  ev_row_id :: nat

definition insert_pk :: "('r \<Rightarrow> nat) \<Rightarrow> 'r \<Rightarrow> 'r list \<Rightarrow> 'r list result" where
  "insert_pk key r rows =
     (if key r \<in> set (map key rows) then Inl (RuntimeError ''UniqueViolation'') else Inr (rows @ [r]))"

subsection \<open>Places\<close>

definition same_place :: "string \<Rightarrow> string \<Rightarrow> bool" where
  "same_place a b \<longleftrightarrow> py_lower a = py_lower b"

text \<open>The query has no order: with several rows of one name the model takes the first.\<close>

definition ensure_location :: "sql_env \<Rightarrow> string \<Rightarrow> session_db \<Rightarrow> (session_db \<times> nat) result" where
  "ensure_location ev name db =
     (let cleaned = py_strip name in
      if cleaned = [] then Inl (HTTPException 400 ''A helyszin megadasa kotelezo.'')
      else (case filter (\<lambda>l. same_place (lo_name l) cleaned) (sd_locations db) of
              l # _ \<Rightarrow> Inr (db, lo_id l)
            | [] \<Rightarrow> and_then (insert_pk lo_id \<lparr>lo_id = ev_location_id ev, lo_name = cleaned\<rparr> (sd_locations db)) (\<lambda>rows.
                Inr (db\<lparr>sd_locations := rows\<rparr>, ev_location_id ev))))"

subsection \<open>Sessions\<close>

definition is_active :: "session_row \<Rightarrow> bool" where
  "is_active s \<longleftrightarrow> se_status s = ''active'' \<and> se_ended s = None"

record start_request =
  sq_location_name :: string
  sq_operator :: "string option"
  sq_notes :: "string option"
  sq_environment :: "string option"

text \<open>\<open>value.strip() if value else None\<close>\<close>

definition strip_optional :: "string option \<Rightarrow> string option" where
  "strip_optional v = (if truthy v then Some (py_strip (or_empty v)) else None)"

definition active_sessions :: "(session_row \<Rightarrow> bool) \<Rightarrow> session_db \<Rightarrow> session_row list" where
  "active_sessions p db = listing se_started (\<lambda>s. p s \<and> is_active s) (sd_sessions db)"

definition start_measurement_session ::
  "bool \<Rightarrow> sql_env \<Rightarrow> start_request \<Rightarrow> session_db \<Rightarrow> (session_db \<times> session_row) result" where
  "start_measurement_session single ev rq db =
     (let location = py_strip (sq_location_name rq) in
      if location = [] then Inl (HTTPException 400 ''A location_name megadasa kotelezo.'')
      else if single \<and> active_sessions (\<lambda>_. True) db \<noteq> []
        then Inl (HTTPException 409 ''active_measurement_session_exists'')
      else if active_sessions (\<lambda>s. same_place (se_location_name s) location) db \<noteq> []
        then Inl (HTTPException 409 ''Ezen a helyszinen mar van aktiv meresi munkamenet.'')
      else and_then (ensure_location ev location db) (\<lambda>(db, lid).
        let s = \<lparr>se_id = ev_row_id ev, se_location_id = Some lid, se_location_name = location,
                 se_started = ev_now ev, se_ended = None, se_operator = strip_optional (sq_operator rq),
                 se_notes = strip_optional (sq_notes rq), se_environment = strip_optional (sq_environment rq),
                 se_status = ''active'', se_created = ev_now ev, se_updated = ev_now ev\<rparr> in
        and_then (insert_pk se_id s (sd_sessions db)) (\<lambda>rows. Inr (db\<lparr>sd_sessions := rows\<rparr>, s))))"

text \<open>\<open>value.strip() if value and value.strip() else None\<close>\<close>

definition location_filter :: "string option \<Rightarrow> string option" where
  "location_filter v = (if py_strip (or_empty v) = [] then None else Some (py_strip (or_empty v)))"

definition at_filter :: "string option \<Rightarrow> session_row \<Rightarrow> bool" where
  "at_filter f s \<longleftrightarrow> (case f of None \<Rightarrow> True | Some l \<Rightarrow> same_place (se_location_name s) l)"

definition list_measurement_sessions ::
  "string option \<Rightarrow> string option \<Rightarrow> int \<Rightarrow> session_db \<Rightarrow> (session_row list \<times> int) result" where
  "list_measurement_sessions location status limit db =
     (let lf = location_filter location; sf = map_option py_lower (location_filter status) in
      if sf \<noteq> None \<and> or_empty sf \<notin> {''active'', ''stopped'', ''archived''}
        then Inl (HTTPException 400 ''Ervenytelen session status.'')
      else let safe_limit = max 1 (min limit 200) in
        Inr (take (nat safe_limit) (listing se_started
               (\<lambda>s. at_filter lf s \<and> (case sf of None \<Rightarrow> True | Some st \<Rightarrow> se_status s = st)) (sd_sessions db)),
             safe_limit))"

definition list_active_measurement_sessions :: "string option \<Rightarrow> session_db \<Rightarrow> session_row list" where
  "list_active_measurement_sessions location db = active_sessions (at_filter (location_filter location)) db"

definition get_measurement_session :: "nat \<Rightarrow> session_db \<Rightarrow> session_row result" where
  "get_measurement_session i db =
     (case filter (\<lambda>s. se_id s = i) (sd_sessions db) of
        [] \<Rightarrow> Inl (HTTPException 404 ''A meresi munkamenet nem talalhato.'') | s # _ \<Rightarrow> Inr s)"

definition stopped :: "rat \<Rightarrow> session_row \<Rightarrow> session_row" where
  "stopped now s = s\<lparr>se_ended := Some (case se_ended s of None \<Rightarrow> now | Some t \<Rightarrow> t),
     se_status := ''stopped'', se_updated := now\<rparr>"

definition stop_measurement_session :: "rat \<Rightarrow> nat \<Rightarrow> session_db \<Rightarrow> (session_db \<times> session_row) result" where
  "stop_measurement_session now i db =
     (case returning (\<lambda>s. se_id s = i) (stopped now) (sd_sessions db) of
        [] \<Rightarrow> Inl (HTTPException 404 ''A meresi munkamenet nem talalhato.'')
      | s # _ \<Rightarrow> Inr (db\<lparr>sd_sessions := update_where (\<lambda>s. se_id s = i) (stopped now) (sd_sessions db)\<rparr>, s))"

subsection \<open>Sources\<close>

record source_request =
  rq_source_type :: string
  rq_source_name :: string
  rq_device_name :: "string option"
  rq_adapter_name :: "string option"
  rq_status :: string
  rq_config :: "(string \<times> pyval) list"

definition session_exists :: "nat \<Rightarrow> session_db \<Rightarrow> bool" where
  "session_exists i db \<longleftrightarrow> i \<in> set (map se_id (sd_sessions db))"

definition add_measurement_source ::
  "sql_env \<Rightarrow> nat \<Rightarrow> source_request \<Rightarrow> session_db \<Rightarrow> (session_db \<times> source_row) result" where
  "add_measurement_source ev i rq db =
     (let source_type = py_lower (py_strip (rq_source_type rq)); name = py_strip (rq_source_name rq);
          status = py_lower (py_strip (rq_status rq)) in
      if source_type = [] \<or> name = [] \<or> status = []
        then Inl (HTTPException 400 ''A source_type, source_name es status kotelezo.'')
      else if \<not> session_exists i db then Inl (HTTPException 404 ''A meresi munkamenet nem talalhato.'')
      else let r = \<lparr>so_id = ev_row_id ev, so_type = source_type, so_session = Some i, so_name = name,
                    so_device = strip_optional (rq_device_name rq), so_adapter = strip_optional (rq_adapter_name rq),
                    so_status = status, so_config = rq_config rq, so_created = ev_now ev\<rparr> in
        and_then (insert_pk so_id r (sd_sources db)) (\<lambda>rows. Inr (db\<lparr>sd_sources := rows\<rparr>, r)))"

definition list_measurement_sources :: "nat \<Rightarrow> session_db \<Rightarrow> source_row list result" where
  "list_measurement_sources i db =
     (if \<not> session_exists i db then Inl (HTTPException 404 ''A meresi munkamenet nem talalhato.'')
      else Inr (sort_key so_created (sort_key so_id (filter (\<lambda>r. so_session r = Some i) (sd_sources db)))))"

definition ensure_import_source ::
  "string \<Rightarrow> string \<Rightarrow> sql_env \<Rightarrow> nat option \<Rightarrow> string \<Rightarrow> session_db \<Rightarrow> (session_db \<times> nat option) result" where
  "ensure_import_source source_type endpoint ev session name db =
     (case session of
        None \<Rightarrow> Inr (db, None)
      | Some i \<Rightarrow>
          (case sort_key so_created (filter (\<lambda>r. so_session r = Some i \<and> so_type r = source_type
                  \<and> same_place (so_name r) name) (sd_sources db)) of
             r # _ \<Rightarrow> Inr (db, Some (so_id r))
           | [] \<Rightarrow> and_then (insert_pk so_id \<lparr>so_id = ev_row_id ev, so_type = source_type, so_session = Some i,
                 so_name = name, so_device = None, so_adapter = None, so_status = ''configured'',
                 so_config = [(''integration'', PStr ''passive_file_import''), (''endpoint'', PStr endpoint)],
                 so_created = ev_now ev\<rparr> (sd_sources db)) (\<lambda>rows.
               Inr (db\<lparr>sd_sources := rows\<rparr>, Some (ev_row_id ev)))))"

definition ensure_kismet_measurement_source ::
  "sql_env \<Rightarrow> nat option \<Rightarrow> string \<Rightarrow> session_db \<Rightarrow> (session_db \<times> nat option) result" where
  "ensure_kismet_measurement_source = ensure_import_source ''kismet'' ''/api/import/kismet''"

definition ensure_bettercap_measurement_source ::
  "sql_env \<Rightarrow> nat option \<Rightarrow> string \<Rightarrow> session_db \<Rightarrow> (session_db \<times> nat option) result" where
  "ensure_bettercap_measurement_source = ensure_import_source ''bettercap_ble'' ''/api/import/bettercap-ble''"

subsection \<open>The session of an import\<close>

text \<open>
  \<open>uuid.UUID\<close> is the argument \<open>parse\<close>. The result is the session, the name of the place and its
  identifier. The two 409 answers for several active sessions carry the same code.
\<close>

definition session_target ::
  "sql_env \<Rightarrow> session_row \<Rightarrow> session_db \<Rightarrow> (session_db \<times> nat option \<times> string \<times> nat) result" where
  "session_target ev s db =
     (case se_location_id s of
        Some l \<Rightarrow> Inr (db, Some (se_id s), se_location_name s, l)
      | None \<Rightarrow> and_then (ensure_location ev (se_location_name s) db) (\<lambda>(db, l).
          Inr (db, Some (se_id s), se_location_name s, l)))"

definition resolve_at_location ::
  "sql_env \<Rightarrow> bool \<Rightarrow> string \<Rightarrow> session_db \<Rightarrow> (session_db \<times> nat option \<times> string \<times> nat) result" where
  "resolve_at_location ev allow location db =
     (case active_sessions (\<lambda>s. same_place (se_location_name s) location) db of
        s # t # _ \<Rightarrow> Inl (HTTPException 409 ''ambiguous_active_sessions'')
      | [s] \<Rightarrow> session_target ev s db
      | [] \<Rightarrow> if \<not> allow then Inl (HTTPException 409 ''Nincs aktiv meresi munkamenet ezen a helyszinen.'')
          else and_then (ensure_location ev location db) (\<lambda>(db, l). Inr (db, None, location, l)))"

definition resolve_import_session ::
  "(string \<Rightarrow> nat option) \<Rightarrow> sql_env \<Rightarrow> string option \<Rightarrow> string option \<Rightarrow> bool \<Rightarrow> session_db
     \<Rightarrow> (session_db \<times> nat option \<times> string \<times> nat) result" where
  "resolve_import_session parse ev session_id location_name allow db =
     (let cleaned = location_filter location_name in
      if truthy session_id then
        (case parse (py_strip (or_empty session_id)) of
           None \<Rightarrow> Inl (HTTPException 400 ''Ervenytelen measurement_session_id.'')
         | Some i \<Rightarrow> and_then (get_measurement_session i db) (\<lambda>s.
             if cleaned \<noteq> None \<and> \<not> same_place (or_empty cleaned) (se_location_name s)
             then Inl (HTTPException 400 ''A location_name nem egyezik a megadott meresi munkamenet helyszinevel.'')
             else session_target ev s db))
      else (case cleaned of
          Some location \<Rightarrow> resolve_at_location ev allow location db
        | None \<Rightarrow> (case active_sessions (\<lambda>_. True) db of
              s # t # _ \<Rightarrow> Inl (HTTPException 409 ''ambiguous_active_sessions'')
            | [s] \<Rightarrow> session_target ev s db
            | [] \<Rightarrow> if allow then resolve_at_location ev allow ''Kismet live background'' db
                else Inl (HTTPException 400 ''measurement_session_id vagy location_name megadasa kotelezo.''))))"

subsection \<open>The invariant\<close>

definition one_active :: "bool \<Rightarrow> session_row list \<Rightarrow> bool" where
  "one_active single rows \<longleftrightarrow> (\<forall>s\<in>set rows. \<forall>t\<in>set rows. is_active s \<longrightarrow> is_active t \<longrightarrow>
     single \<or> same_place (se_location_name s) (se_location_name t) \<longrightarrow> s = t)"

definition session_located :: "location_row list \<Rightarrow> session_row \<Rightarrow> bool" where
  "session_located locs s \<longleftrightarrow>
     (\<exists>l\<in>set locs. se_location_id s = Some (lo_id l) \<and> same_place (lo_name l) (se_location_name s))"

definition locations_ok :: "location_row list \<Rightarrow> bool" where
  "locations_ok locs \<longleftrightarrow> distinct (map lo_id locs) \<and> distinct (map (\<lambda>l. py_lower (lo_name l)) locs)
     \<and> (\<forall>l\<in>set locs. lo_name l \<noteq> [])"

definition sessions_ok :: "bool \<Rightarrow> session_db \<Rightarrow> bool" where
  "sessions_ok single db \<longleftrightarrow> locations_ok (sd_locations db)
     \<and> distinct (map se_id (sd_sessions db)) \<and> distinct (map so_id (sd_sources db))
     \<and> one_active single (sd_sessions db)
     \<and> (\<forall>s\<in>set (sd_sessions db). session_located (sd_locations db) s
          \<and> (is_active s \<and> se_status s = ''active'' \<or> \<not> is_active s \<and> se_status s = ''stopped'' \<and> se_ended s \<noteq> None))
     \<and> (\<forall>r\<in>set (sd_sources db). \<exists>i. so_session r = Some i \<and> session_exists i db)"

lemma same_place_refl [simp]: "same_place a a"
  by (simp add: same_place_def)

lemma same_place_sym: "same_place a b \<Longrightarrow> same_place b a"
  by (simp add: same_place_def)

lemma same_place_trans: "same_place a b \<Longrightarrow> same_place b c \<Longrightarrow> same_place a c"
  by (simp add: same_place_def)

lemma insert_pk_Inr: "insert_pk key r rows = Inr rows' \<longleftrightarrow> key r \<notin> set (map key rows) \<and> rows' = rows @ [r]"
  by (auto simp: insert_pk_def)

lemma session_located_mono: "set locs \<subseteq> set locs' \<Longrightarrow> session_located locs s \<Longrightarrow> session_located locs' s"
  unfolding session_located_def by blast

lemma set_active_sessions [simp]: "set (active_sessions p db) = {s \<in> set (sd_sessions db). p s \<and> is_active s}"
  by (auto simp: active_sessions_def listing_def)

lemma active_sessions_empty: "active_sessions p db = [] \<longleftrightarrow> (\<forall>t\<in>set (sd_sessions db). is_active t \<longrightarrow> \<not> p t)"
  unfolding set_empty [symmetric] set_active_sessions by auto

lemma distinct_listing: "distinct rows \<Longrightarrow> distinct (listing key p rows)"
  by (simp add: listing_def)

lemma sessions_distinct: "sessions_ok single db \<Longrightarrow> distinct (sd_sessions db)"
  by (auto simp: sessions_ok_def distinct_map)

text \<open>A place is found or added; either way the tables stay well formed.\<close>

lemma ensure_location_result:
  assumes "ensure_location ev name db = Inr (db', i)"
  shows "sd_sessions db' = sd_sessions db" "sd_sources db' = sd_sources db"
    "set (sd_locations db) \<subseteq> set (sd_locations db')"
    "\<exists>l\<in>set (sd_locations db'). lo_id l = i \<and> same_place (lo_name l) (py_strip name)"
    "locations_ok (sd_locations db) \<Longrightarrow> locations_ok (sd_locations db')"
proof -
  let ?hits = "filter (\<lambda>l. same_place (lo_name l) (py_strip name)) (sd_locations db)"
  have ne: "py_strip name \<noteq> []" using assms by (auto simp: ensure_location_def Let_def)
  consider (found) l ls where "?hits = l # ls" "db' = db" "i = lo_id l"
    | (new) "?hits = []" "db' = db\<lparr>sd_locations := sd_locations db @ [\<lparr>lo_id = i, lo_name = py_strip name\<rparr>]\<rparr>"
        "i \<notin> set (map lo_id (sd_locations db))"
    using assms by (auto simp: ensure_location_def Let_def and_then_Inr_iff insert_pk_Inr split: list.splits if_splits)
  then have "sd_sessions db' = sd_sessions db \<and> sd_sources db' = sd_sources db
    \<and> set (sd_locations db) \<subseteq> set (sd_locations db')
    \<and> (\<exists>l\<in>set (sd_locations db'). lo_id l = i \<and> same_place (lo_name l) (py_strip name))
    \<and> (locations_ok (sd_locations db) \<longrightarrow> locations_ok (sd_locations db'))"
  proof cases
    case found
    then have "l \<in> set ?hits" by simp
    then have "l \<in> set (sd_locations db)" "same_place (lo_name l) (py_strip name)" by simp_all
    then show ?thesis using found by blast
  next
    case new
    then have "py_lower (py_strip name) \<notin> (\<lambda>l. py_lower (lo_name l)) ` set (sd_locations db)"
      by (auto simp: filter_empty_conv same_place_def)
    then show ?thesis using new ne by (auto simp: locations_ok_def)
  qed
  then show "sd_sessions db' = sd_sessions db" "sd_sources db' = sd_sources db"
    "set (sd_locations db) \<subseteq> set (sd_locations db')"
    "\<exists>l\<in>set (sd_locations db'). lo_id l = i \<and> same_place (lo_name l) (py_strip name)"
    "locations_ok (sd_locations db) \<Longrightarrow> locations_ok (sd_locations db')" by blast+
qed

lemma ensure_location_total:
  "py_strip name \<noteq> [] \<Longrightarrow> ev_location_id ev \<notin> set (map lo_id (sd_locations db)) \<Longrightarrow> is_ok (ensure_location ev name db)"
  by (cases "filter (\<lambda>l. same_place (lo_name l) (py_strip name)) (sd_locations db)")
    (simp_all add: ensure_location_def insert_pk_def)

lemma ensure_location_ok [rf_inv]:
  assumes "ensure_location ev name db = Inr (db', i)" "sessions_ok single db"
  shows "sessions_ok single db'"
  using ensure_location_result [OF assms(1)] assms(2)
  unfolding sessions_ok_def session_exists_def by (auto intro: session_located_mono)

lemma session_target_ok [rf_inv]:
  "session_target ev s db = Inr (db', t) \<Longrightarrow> sessions_ok single db \<Longrightarrow> sessions_ok single db'"
  by (auto simp: session_target_def and_then_Inr_iff split: option.splits intro: ensure_location_ok)

lemma resolve_at_location_ok [rf_inv]:
  "resolve_at_location ev allow l db = Inr (db', t) \<Longrightarrow> sessions_ok single db \<Longrightarrow> sessions_ok single db'"
  by (auto simp: resolve_at_location_def and_then_Inr_iff split: list.splits if_splits
      intro: ensure_location_ok session_target_ok)

lemma resolve_import_session_ok [rf_inv]:
  "resolve_import_session parse ev sid l allow db = Inr (db', t) \<Longrightarrow> sessions_ok single db \<Longrightarrow> sessions_ok single db'"
  by (auto simp: resolve_import_session_def Let_def and_then_Inr_iff split: list.splits if_splits option.splits
      intro: session_target_ok resolve_at_location_ok)

lemma ensure_import_source_ok [rf_inv]:
  assumes "ensure_import_source ty ep ev sid name db = Inr (db', r)" "sessions_ok single db"
    and "\<forall>i. sid = Some i \<longrightarrow> session_exists i db"
  shows "sessions_ok single db'"
  using assms by (auto simp: ensure_import_source_def and_then_Inr_iff insert_pk_Inr sessions_ok_def session_exists_def
      split: option.splits list.splits)

lemma add_measurement_source_ok [rf_inv]:
  "add_measurement_source ev i rq db = Inr (db', r) \<Longrightarrow> sessions_ok single db \<Longrightarrow> sessions_ok single db'"
  by (auto simp: add_measurement_source_def Let_def and_then_Inr_iff insert_pk_Inr sessions_ok_def session_exists_def
      split: if_splits)

lemma stopped_sel [simp]:
  "se_id (stopped now s) = se_id s" "se_location_id (stopped now s) = se_location_id s"
  "se_location_name (stopped now s) = se_location_name s" "\<not> is_active (stopped now s)"
  "se_status (stopped now s) = ''stopped''" "se_ended (stopped now s) \<noteq> None"
  "session_located locs (stopped now s) = session_located locs s"
  by (simp_all add: stopped_def is_active_def session_located_def)

lemma stop_result:
  assumes "stop_measurement_session now i db = Inr (db', s)"
  shows "db' = db\<lparr>sd_sessions := update_where (\<lambda>s. se_id s = i) (stopped now) (sd_sessions db)\<rparr>"
    "session_exists i db"
  using assms by (auto simp: stop_measurement_session_def returning_def session_exists_def filter_eq_Cons_iff
      map_eq_Cons_conv split: list.splits)

lemma stop_ok [rf_inv]:
  assumes "stop_measurement_session now i db = Inr (db', s)" "sessions_ok single db"
  shows "sessions_ok single db'"
proof -
  let ?rows = "update_where (\<lambda>s. se_id s = i) (stopped now) (sd_sessions db)"
  have ids: "map se_id ?rows = map se_id (sd_sessions db)" by (rule map_update_where) simp
  have active: "s \<in> set (sd_sessions db) \<and> is_active s" if "s \<in> set ?rows" "is_active s" for s
    using that by (auto simp: in_update_where)
  have one: "one_active single ?rows"
    using assms(2) active unfolding sessions_ok_def one_active_def by blast
  have all: "session_located (sd_locations db) s \<and> (is_active s \<and> se_status s = ''active''
      \<or> \<not> is_active s \<and> se_status s = ''stopped'' \<and> se_ended s \<noteq> None)" if s: "s \<in> set ?rows" for s
  proof -
    obtain t where t: "t \<in> set (sd_sessions db)" "s = (if se_id t = i then stopped now t else t)"
      using s by (auto simp: in_update_where)
    have old: "session_located (sd_locations db) t \<and> (is_active t \<and> se_status t = ''active''
      \<or> \<not> is_active t \<and> se_status t = ''stopped'' \<and> se_ended t \<noteq> None)"
      using assms(2) t(1) unfolding sessions_ok_def by blast
    show ?thesis by (cases "se_id t = i") (use t(2) old in \<open>simp_all\<close>)
  qed
  show ?thesis
    using assms(2) one all unfolding stop_result(1) [OF assms(1)] sessions_ok_def session_exists_def
    by (simp add: ids)
qed

lemma new_session_active:
  "is_active \<lparr>se_id = i, se_location_id = l, se_location_name = n, se_started = t, se_ended = None,
     se_operator = o', se_notes = k, se_environment = e, se_status = ''active'', se_created = c, se_updated = u\<rparr>"
  by (simp add: is_active_def)

lemma start_result:
  assumes "start_measurement_session single ev rq db = Inr (db', s)"
  defines "loc \<equiv> py_strip (sq_location_name rq)"
  obtains db1 l where "ensure_location ev loc db = Inr (db1, l)" "loc \<noteq> []" "se_location_name s = loc"
    "is_active s" "se_location_id s = Some l" "se_id s = ev_row_id ev" "se_started s = ev_now ev"
    "single \<Longrightarrow> \<forall>t\<in>set (sd_sessions db). \<not> is_active t"
    "\<forall>t\<in>set (sd_sessions db). is_active t \<longrightarrow> \<not> same_place (se_location_name t) loc"
    "db' = db1\<lparr>sd_sessions := sd_sessions db1 @ [s]\<rparr>" "se_id s \<notin> set (map se_id (sd_sessions db1))"
  using assms(1) that unfolding start_measurement_session_def Let_def loc_def [symmetric]
  by (auto simp: and_then_Inr_iff insert_pk_Inr active_sessions_empty new_session_active split: if_splits)

lemma start_ok [rf_inv]:
  assumes "start_measurement_session single ev rq db = Inr (db', s)" "sessions_ok single db"
  shows "sessions_ok single db'"
proof -
  let ?loc = "py_strip (sq_location_name rq)"
  obtain db1 l where st: "ensure_location ev ?loc db = Inr (db1, l)" "?loc \<noteq> []" "se_location_name s = ?loc"
    "is_active s" "se_location_id s = Some l" "single \<Longrightarrow> \<forall>t\<in>set (sd_sessions db). \<not> is_active t"
    "\<forall>t\<in>set (sd_sessions db). is_active t \<longrightarrow> \<not> same_place (se_location_name t) ?loc"
    "db' = db1\<lparr>sd_sessions := sd_sessions db1 @ [s]\<rparr>" "se_id s \<notin> set (map se_id (sd_sessions db1))"
    using start_result [OF assms(1)] by metis
  note el = ensure_location_result [OF st(1)]
  have ok: "sessions_ok single db1" by (rule ensure_location_ok [OF st(1) assms(2)])
  have located: "session_located (sd_locations db1) s" using el(4) st(3,5) by (auto simp: session_located_def)
  have one: "one_active single (sd_sessions db1 @ [s])"
    using ok st(3,6,7) unfolding sessions_ok_def one_active_def el(1) by (auto dest: same_place_sym)
  show ?thesis using ok one located st(4,9) unfolding st(8) sessions_ok_def
    by (auto simp: session_exists_def is_active_def)
qed

subsection \<open>Runs of the handlers\<close>

definition empty_sessions :: session_db where
  "empty_sessions = \<lparr>sd_locations = [], sd_sessions = [], sd_sources = []\<rparr>"

inductive session_step :: "bool \<Rightarrow> (string \<Rightarrow> nat option) \<Rightarrow> session_db \<Rightarrow> session_db \<Rightarrow> bool" for single parse where
  start: "start_measurement_session single ev rq db = Inr (db', s) \<Longrightarrow> session_step single parse db db'"
| stop: "stop_measurement_session now i db = Inr (db', s) \<Longrightarrow> session_step single parse db db'"
| source: "add_measurement_source ev i rq db = Inr (db', r) \<Longrightarrow> session_step single parse db db'"
| kismet: "resolve_import_session parse ev sid l allow db = Inr (db1, session, name, lid) \<Longrightarrow>
    ensure_kismet_measurement_source ev session src db1 = Inr (db', r) \<Longrightarrow> session_step single parse db db'"
| bettercap: "resolve_import_session parse ev sid l allow db = Inr (db1, session, name, lid) \<Longrightarrow>
    ensure_bettercap_measurement_source ev session src db1 = Inr (db', r) \<Longrightarrow> session_step single parse db db'"

inductive_cases session_stepE: "session_step single parse db db'"

lemma session_target_result:
  assumes "session_target ev s db = Inr (db', sid, name, lid)" "s \<in> set (sd_sessions db)" "sessions_ok single db"
  shows "db' = db \<and> sid = Some (se_id s) \<and> name = se_location_name s
    \<and> (\<exists>l\<in>set (sd_locations db). lo_id l = lid \<and> same_place (lo_name l) name)"
proof -
  have "session_located (sd_locations db) s" using assms(2,3) by (simp add: sessions_ok_def)
  then show ?thesis using assms(1) by (auto simp: session_target_def session_located_def)
qed

lemma session_target_total: "s \<in> set (sd_sessions db) \<Longrightarrow> sessions_ok single db \<Longrightarrow> is_ok (session_target ev s db)"
  by (auto simp: session_target_def session_located_def sessions_ok_def)

lemma get_measurement_session_Inr:
  "get_measurement_session i db = Inr s \<Longrightarrow> s \<in> set (sd_sessions db) \<and> se_id s = i"
  by (auto simp: get_measurement_session_def filter_eq_Cons_iff split: list.splits)

text \<open>What a resolved target of an import is, over the three ways to get one.\<close>

definition target_ok :: "session_db \<Rightarrow> session_db \<Rightarrow> nat option \<Rightarrow> string \<Rightarrow> nat \<Rightarrow> bool" where
  "target_ok db db' sid name lid \<longleftrightarrow> sd_sessions db' = sd_sessions db
     \<and> (\<exists>l\<in>set (sd_locations db'). lo_id l = lid \<and> same_place (lo_name l) name)
     \<and> (case sid of
          Some i \<Rightarrow> \<exists>s\<in>set (sd_sessions db). se_id s = i \<and> se_location_name s = name
        | None \<Rightarrow> active_sessions (\<lambda>s. same_place (se_location_name s) name) db = [])"

lemma session_target_ok':
  "session_target ev s db = Inr (db', sid, name, lid) \<Longrightarrow> s \<in> set (sd_sessions db) \<Longrightarrow> sessions_ok single db \<Longrightarrow>
     target_ok db db' sid name lid \<and> sid = Some (se_id s)"
  by (auto simp: target_ok_def dest!: session_target_result)

lemma active_sessions_member: "active_sessions p db = s # ss \<Longrightarrow> s \<in> set (sd_sessions db) \<and> p s \<and> is_active s"
  using set_active_sessions [of p db] by auto

lemma resolve_at_location_result:
  assumes "resolve_at_location ev allow location db = Inr (db', sid, name, lid)" "sessions_ok single db"
    and "py_strip location = location"
  shows "target_ok db db' sid name lid
    \<and> (case sid of Some i \<Rightarrow> (\<exists>s\<in>set (sd_sessions db). se_id s = i \<and> is_active s \<and> same_place (se_location_name s) location)
        | None \<Rightarrow> allow \<and> name = location)"
proof (cases "active_sessions (\<lambda>s. same_place (se_location_name s) location) db")
  case Nil
  have at: "and_then (ensure_location ev location db) (\<lambda>(db, l). Inr (db, None, location, l)) = Inr (db', sid, name, lid)"
    and "allow"
    using assms(1) Nil by (simp_all add: resolve_at_location_def split: if_splits)
  then have l: "ensure_location ev location db = Inr (db', lid)" "sid = None" "name = location"
    by (cases "ensure_location ev location db"; simp add: case_prod_beta prod_eq_iff)+
  note el = ensure_location_result [OF l(1), unfolded assms(3)]
  have "target_ok db db' None location lid"
    unfolding target_ok_def using el(1,4) Nil by simp
  then show ?thesis using l(2,3) \<open>allow\<close> by simp
next
  case (Cons s ss)
  then have "session_target ev s db = Inr (db', sid, name, lid)"
    using assms(1) by (cases ss) (simp_all add: resolve_at_location_def)
  from session_target_ok' [OF this _ assms(2)] show ?thesis using active_sessions_member [OF Cons] by auto
qed

lemma resolve_result:
  assumes "resolve_import_session parse ev session_id location_name allow db = Inr (db', sid, name, lid)"
    and "sessions_ok single db"
  shows "target_ok db db' sid name lid
    \<and> (case sid of
          Some i \<Rightarrow> truthy session_id \<and> parse (py_strip (or_empty session_id)) = Some i
            \<or> \<not> truthy session_id \<and> (\<exists>s\<in>set (sd_sessions db). se_id s = i \<and> is_active s \<and> at_filter (location_filter location_name) s)
        | None \<Rightarrow> allow \<and> \<not> truthy session_id)"
proof (cases "truthy session_id")
  case True
  then obtain i s where s: "parse (py_strip (or_empty session_id)) = Some i" "get_measurement_session i db = Inr s"
    "session_target ev s db = Inr (db', sid, name, lid)"
    using assms(1) by (auto simp: resolve_import_session_def Let_def and_then_Inr_iff split: option.splits if_splits)
  then show ?thesis using get_measurement_session_Inr [OF s(2)] session_target_ok' [OF s(3) _ assms(2)] True by auto
next
  case noid: False
  show ?thesis
  proof (cases "location_filter location_name")
    case (Some loc)
    then have loc: "py_strip loc = loc" by (auto simp: location_filter_def split: if_splits)
    have "resolve_at_location ev allow loc db = Inr (db', sid, name, lid)"
      using assms(1) noid Some by (simp add: resolve_import_session_def)
    from resolve_at_location_result [OF this assms(2) loc] show ?thesis using noid Some
      by (auto simp: at_filter_def split: option.splits)
  next
    case None
    have bg: "py_strip ''Kismet live background'' = ''Kismet live background''" by code_simp
    show ?thesis
    proof (cases "active_sessions (\<lambda>_. True) db")
      case Nil
      then have "resolve_at_location ev allow ''Kismet live background'' db = Inr (db', sid, name, lid)"
        using assms(1) noid None by (auto simp: resolve_import_session_def split: if_splits)
      from resolve_at_location_result [OF this assms(2) bg] show ?thesis using noid None
        by (auto simp: at_filter_def split: option.splits)
    next
      case (Cons s ss)
      then have "session_target ev s db = Inr (db', sid, name, lid)"
        using assms(1) noid None by (cases ss) (simp_all add: resolve_import_session_def)
      from session_target_ok' [OF this _ assms(2)] show ?thesis using active_sessions_member [OF Cons] noid None
        by (auto simp: at_filter_def)
    qed
  qed
qed

lemma resolve_exists:
  "resolve_import_session parse ev sid l allow db = Inr (db', Some i, name, lid) \<Longrightarrow> sessions_ok single db \<Longrightarrow>
     session_exists i db'"
  by (drule (1) resolve_result) (auto simp: target_ok_def session_exists_def)

lemma session_step_ok: "session_step single parse db db' \<Longrightarrow> sessions_ok single db \<Longrightarrow> sessions_ok single db'"
proof (induction rule: session_step.induct)
  case (kismet ev sid l allow db db1 session name lid src db' r)
  then show ?case unfolding ensure_kismet_measurement_source_def
    by (intro ensure_import_source_ok [OF kismet(2) [unfolded ensure_kismet_measurement_source_def]])
      (auto intro: resolve_import_session_ok resolve_exists)
next
  case (bettercap ev sid l allow db db1 session name lid src db' r)
  then show ?case
    by (intro ensure_import_source_ok [OF bettercap(2) [unfolded ensure_bettercap_measurement_source_def]])
      (auto intro: resolve_import_session_ok resolve_exists)
qed (auto intro: start_ok stop_ok add_measurement_source_ok)

lemma sessions_ok_empty [simp]: "sessions_ok single empty_sessions"
  by (simp add: empty_sessions_def sessions_ok_def locations_ok_def one_active_def)

lemma reachable_sessions_ok: "(session_step single parse)\<^sup>*\<^sup>* empty_sessions db \<Longrightarrow> sessions_ok single db"
  by (induction rule: rtranclp_induct) (auto intro: session_step_ok)

lemma unique_filter:
  assumes "distinct xs" "\<And>x y. x \<in> set xs \<Longrightarrow> y \<in> set xs \<Longrightarrow> P x \<Longrightarrow> P y \<Longrightarrow> x = y"
  shows "length (filter P xs) \<le> 1"
proof -
  have "card (set (filter P xs)) \<le> 1"
    by (rule card_le_Suc0_iff_eq [THEN iffD2, unfolded One_nat_def [symmetric]]) (use assms(2) in auto)
  then show ?thesis using assms(1) by (simp add: distinct_card del: set_filter)
qed

lemma active_at_most_one:
  assumes "sessions_ok single db"
    and "\<And>s t. p s \<Longrightarrow> p t \<Longrightarrow> single \<or> same_place (se_location_name s) (se_location_name t)"
  shows "length (active_sessions p db) \<le> 1"
proof -
  have "length (filter (\<lambda>s. p s \<and> is_active s) (sd_sessions db)) \<le> 1"
    by (rule unique_filter [OF sessions_distinct [OF assms(1)]])
      (use assms in \<open>auto simp: sessions_ok_def one_active_def\<close>)
  then show ?thesis by (simp add: active_sessions_def listing_def)
qed

lemma active_at_place: "sessions_ok single db \<Longrightarrow> length (active_sessions (\<lambda>s. same_place (se_location_name s) l) db) \<le> 1"
  by (erule active_at_most_one) (simp add: same_place_def)

lemma resolve_at_location_unambiguous:
  assumes "sessions_ok single db"
  shows "resolve_at_location ev allow l db \<noteq> Inl (HTTPException 409 ''ambiguous_active_sessions'')"
proof (cases "active_sessions (\<lambda>s. same_place (se_location_name s) l) db")
  case Nil
  then show ?thesis by (auto simp: resolve_at_location_def and_then_Inl_iff ensure_location_def insert_pk_def Let_def
      split: list.splits if_splits)
next
  case (Cons s ss)
  then have "ss = []" using active_at_place [OF assms, of l] by (cases ss) simp_all
  then show ?thesis
    using Cons session_target_total [OF _ assms, of s ev] active_sessions_member [OF Cons]
    by (auto simp: resolve_at_location_def is_ok_iff)
qed

lemma active_sole: "sessions_ok True db \<Longrightarrow> length (active_sessions (\<lambda>_. True) db) \<le> 1"
  by (erule active_at_most_one) simp

subsection \<open>Properties\<close>

definition sample_start :: "string \<Rightarrow> start_request" where
  "sample_start l = \<lparr>sq_location_name = l, sq_operator = None, sq_notes = None, sq_environment = None\<rparr>"

definition sample_env :: "nat \<Rightarrow> sql_env" where
  "sample_env n = \<lparr>ev_now = of_nat n, ev_location_id = n, ev_row_id = n\<rparr>"

definition sample_sessions :: session_db where
  "sample_sessions = (case start_measurement_session True (sample_env 1) (sample_start '' Lab '') empty_sessions of
     Inr (db, _) \<Rightarrow> db | Inl _ \<Rightarrow> empty_sessions)"

lemma sample_sessions_step: "session_step True parse empty_sessions sample_sessions"
proof -
  have "is_ok (start_measurement_session True (sample_env 1) (sample_start '' Lab '') empty_sessions)" by code_simp
  then obtain db s where s: "start_measurement_session True (sample_env 1) (sample_start '' Lab '') empty_sessions = Inr (db, s)"
    by (auto simp: is_ok_iff)
  then show ?thesis by (auto simp: sample_sessions_def intro: session_step.start)
qed



text \<open>
  Where an import goes. A resolved import is bound to an existing place of the resolved name
  and leaves the sessions as they are. With an explicit identifier it goes to that session,
  whatever its status; without one only to an active session, at the named place if a place is
  named; and it stays without a session only when the caller allows it and no session is active
  at that place. With a named place and no identifier the answer is never that several sessions
  are active.
\<close>

theorem import_target_resolved:
  fixes parse :: "string \<Rightarrow> nat option" and ev session_id location_name allow
  assumes "sessions_ok single db"
  defines "r \<equiv> resolve_import_session parse ev session_id location_name allow db"
  shows "(\<forall>db' sid name lid. r = Inr (db', sid, name, lid) \<longrightarrow>
       sd_sessions db' = sd_sessions db \<and> sessions_ok single db'
       \<and> (\<exists>l\<in>set (sd_locations db'). lo_id l = lid \<and> same_place (lo_name l) name)
       \<and> (case sid of
            Some i \<Rightarrow> (\<exists>s\<in>set (sd_sessions db). se_id s = i \<and> se_location_name s = name)
              \<and> (truthy session_id \<and> parse (py_strip (or_empty session_id)) = Some i
                 \<or> \<not> truthy session_id \<and> (\<exists>s\<in>set (sd_sessions db). se_id s = i \<and> is_active s
                     \<and> at_filter (location_filter location_name) s))
          | None \<Rightarrow> allow \<and> \<not> truthy session_id
              \<and> active_sessions (\<lambda>s. same_place (se_location_name s) name) db = []))
     \<and> (\<not> truthy session_id \<and> location_filter location_name \<noteq> None \<longrightarrow>
          r \<noteq> Inl (HTTPException 409 ''ambiguous_active_sessions''))"
proof -
  have first: "sd_sessions db' = sd_sessions db \<and> sessions_ok single db'
       \<and> (\<exists>l\<in>set (sd_locations db'). lo_id l = lid \<and> same_place (lo_name l) name)
       \<and> (case sid of
            Some i \<Rightarrow> (\<exists>s\<in>set (sd_sessions db). se_id s = i \<and> se_location_name s = name)
              \<and> (truthy session_id \<and> parse (py_strip (or_empty session_id)) = Some i
                 \<or> \<not> truthy session_id \<and> (\<exists>s\<in>set (sd_sessions db). se_id s = i \<and> is_active s
                     \<and> at_filter (location_filter location_name) s))
          | None \<Rightarrow> allow \<and> \<not> truthy session_id
              \<and> active_sessions (\<lambda>s. same_place (se_location_name s) name) db = [])"
    if "r = Inr (db', sid, name, lid)" for db' sid name lid
    using resolve_result [OF that [unfolded r_def] assms(1)] resolve_import_session_ok [OF that [unfolded r_def] assms(1)]
    by (cases sid) (simp_all add: target_ok_def)
  have second: "r \<noteq> Inl (HTTPException 409 ''ambiguous_active_sessions'')"
    if "\<not> truthy session_id" "location_filter location_name \<noteq> None"
    using that resolve_at_location_unambiguous [OF assms(1)] by (auto simp: r_def resolve_import_session_def)
  show ?thesis using first second by blast
qed

lemma import_target_resolved_witness:
  "\<exists>db' lid. resolve_import_session (\<lambda>_. None) (sample_env 2) None (Some '' LAB'') False sample_sessions
      = Inr (db', Some 1, ''Lab'', lid) \<and> sd_sessions db' = sd_sessions sample_sessions"
proof -
  have "resolve_import_session (\<lambda>_. None) (sample_env 2) None (Some '' LAB'') False sample_sessions
      = Inr (sample_sessions, Some 1, ''Lab'', 1)" by code_simp
  with import_target_resolved [OF session_step_ok [OF sample_sessions_step sessions_ok_empty]] show ?thesis by blast
qed



end
