(* ===== verification/Upload_Files.thy ===== *)
theory Upload_Files
  imports Device_Baseline Device_Rows
begin

section \<open>Uploaded files\<close>

text \<open>
  \<open>utils/uploads.py\<close> (size limit, rejection of binary data, detection of images), the file formats
  of \<open>utils/parsing.py\<close> (CSV, the JSON shapes of Kismet and Bettercap) and the fields a CSV row
  has for a device (\<open>extract_common_fields\<close> of \<open>services/persistence.py\<close>). An upload is its bytes;
  a decoded text is a list of 8-bit characters.
\<close>

subsection \<open>Uploads\<close>

definition read_bounded_upload :: "byte list \<Rightarrow> int \<Rightarrow> string \<Rightarrow> string \<Rightarrow> byte list result" where
  "read_bounded_upload content max_bytes empty_detail too_large_detail =
     (if max_bytes \<le> 0 then Inl (ValueError ''max_bytes must be positive'')
      else let payload = take (nat (max_bytes + 1)) content in
        if payload = [] then Inl (HTTPException 400 empty_detail)
        else if max_bytes < int (length payload) then Inl (HTTPException 413 too_large_detail)
        else Inr payload)"

definition default_import_limit :: int where
  "default_import_limit = 50 * (1024 * 1024)"

definition reject_binary_text_payload :: "byte list \<Rightarrow> string \<Rightarrow> unit result" where
  "reject_binary_text_payload payload label =
     require (0 \<notin> set (take 8192 payload)) (HTTPException 415 (label @ '' nem szoveges CSV/JSON allomany.''))"

text \<open>\<open>Path(name).name\<close> and \<open>Path(name).suffix\<close> on POSIX.\<close>

fun split_slash :: "string \<Rightarrow> string list" where
  "split_slash [] = [[]]"
| "split_slash (c # cs) = (if c = CHR ''/'' then [] # split_slash cs
     else (case split_slash cs of [] \<Rightarrow> [[c]] | p # ps \<Rightarrow> (c # p) # ps))"

definition path_name :: "string \<Rightarrow> string" where
  "path_name s = (case rev (filter (\<lambda>p. p \<noteq> [] \<and> p \<noteq> ''.'') (split_slash s)) of [] \<Rightarrow> [] | p # _ \<Rightarrow> p)"

definition path_suffix :: "string \<Rightarrow> string" where
  "path_suffix s =
     (let n = path_name s; after = takeWhile (\<lambda>c. c \<noteq> CHR ''.'') (rev n);
          before = drop (length after + 1) (rev n) in
      if length after < length n \<and> after \<noteq> [] \<and> before \<noteq> [] then CHR ''.'' # rev after else [])"

datatype detected_image = Png | Bmp

definition detect_reference_image :: "byte list \<Rightarrow> string \<Rightarrow> detected_image result" where
  "detect_reference_image payload filename =
     (if startswith payload [0x89, 0x50, 0x4E, 0x47, 0x0D, 0x0A, 0x1A, 0x0A] then Inr Png
      else if startswith payload [0x42, 0x4D] then Inr Bmp
      else Inl (HTTPException 415 (let suffix = py_lower (path_suffix filename) in
        if suffix = [] then ''ismeretlen'' else suffix)))"

subsection \<open>File formats\<close>

text \<open>
  The decoders of Python's standard library the parsers call: strict UTF-8 (a leading byte order
  mark removed), \<open>csv.DictReader\<close> under the sniffed dialect (the header, \<open>None\<close> without one, and
  the rows), \<open>json.loads\<close>. Latin-1 maps every byte to a character.
\<close>

record file_lib =
  fl_utf8_sig :: "byte list \<Rightarrow> string option"
  fl_csv :: "string \<Rightarrow> string list option \<times> row list"
  fl_json :: "string \<Rightarrow> pyval option"

definition latin1 :: "byte list \<Rightarrow> string" where
  "latin1 bs = map (\<lambda>b. char_of (unat b)) bs"

definition parse_csv_bytes :: "file_lib \<Rightarrow> byte list \<Rightarrow> row list result" where
  "parse_csv_bytes fl bs =
     (let text' = (case fl_utf8_sig fl bs of Some t \<Rightarrow> t | None \<Rightarrow> latin1 bs) in
      if text' = [] then Inl (HTTPException 400 ''A CSV fajl nem olvashato.'')
      else (case fl_csv fl text' of
          (None, _) \<Rightarrow> Inl (HTTPException 400 ''A CSV fejlec hianyzik.'')
        | (Some header, rows) \<Rightarrow>
            if header = [] then Inl (HTTPException 400 ''A CSV fejlec hianyzik.'') else Inr rows))"

definition json_type :: "string option \<Rightarrow> bool" where
  "json_type content_type \<longleftrightarrow> py_lower (or_empty content_type) \<in> {''application/json'', ''text/json''}"

definition dict_rows :: "pyval list \<Rightarrow> row list" where
  "dict_rows vs = List.map_filter (\<lambda>v. case v of PDict d \<Rightarrow> Some d | _ \<Rightarrow> None) vs"

definition first_list :: "row \<Rightarrow> string list \<Rightarrow> pyval list" where
  "first_list d keys = (case first_some (\<lambda>k. case dict_get d k of PList vs \<Rightarrow> Some vs | _ \<Rightarrow> None) keys of
     Some vs \<Rightarrow> vs | None \<Rightarrow> [PDict d])"

definition parse_json_rows :: "file_lib \<Rightarrow> string \<Rightarrow> string list \<Rightarrow> byte list \<Rightarrow> (row list \<times> nat \<times> string) result" where
  "parse_json_rows fl label keys bs =
     (case (case fl_utf8_sig fl bs of None \<Rightarrow> None | Some t \<Rightarrow> fl_json fl t) of
        None \<Rightarrow> Inl (HTTPException 400 (''A '' @ label @ '' JSON nem olvashato''))
      | Some payload \<Rightarrow>
          and_then (case payload of
              PList vs \<Rightarrow> Inr vs
            | PDict d \<Rightarrow> Inr (first_list d keys)
            | _ \<Rightarrow> Inl (HTTPException 400 (''A '' @ label @ '' JSON objektumot vagy listat kell tartalmazzon.''))) (\<lambda>values.
          let rows = dict_rows values in
          if rows = [] then Inl (HTTPException 400 (''A '' @ label @ '' JSON nem tartalmaz importalhato objektumot.''))
          else Inr (rows, 1, ''json'')))"

definition parse_kismet_upload ::
  "file_lib \<Rightarrow> byte list \<Rightarrow> string \<Rightarrow> string option \<Rightarrow> (row list \<times> nat \<times> string) result" where
  "parse_kismet_upload fl bs filename content_type =
     (if \<not> (py_lower (path_suffix filename) = ''.json'' \<or> json_type content_type)
      then and_then (parse_csv_bytes fl bs) (\<lambda>rows. Inr (rows, 2, ''csv''))
      else parse_json_rows fl ''Kismet'' [''observations'', ''devices'', ''rows'', ''data''] bs)"

text \<open>\<open>bytes.lstrip()\<close> removes the six ASCII white-space bytes.\<close>

definition byte_lstrip :: "byte list \<Rightarrow> byte list" where
  "byte_lstrip = dropWhile (\<lambda>b. b \<in> {0x20, 0x09, 0x0A, 0x0D, 0x0B, 0x0C})"

definition parse_bettercap_upload ::
  "file_lib \<Rightarrow> byte list \<Rightarrow> string \<Rightarrow> string option \<Rightarrow> (row list \<times> nat \<times> string) result" where
  "parse_bettercap_upload fl bs filename content_type =
     (let stripped = byte_lstrip bs in
      if \<not> (py_lower (path_suffix filename) = ''.json'' \<or> json_type content_type
            \<or> startswith stripped [0x7B] \<or> startswith stripped [0x5B])
      then and_then (parse_csv_bytes fl bs) (\<lambda>rows. Inr (rows, 2, ''csv''))
      else parse_json_rows fl ''Bettercap BLE'' [''devices'', ''observations'', ''rows'', ''events'', ''data''] bs)"

subsection \<open>The fields of a CSV row\<close>

record common_fields =
  cf_measured_at :: "py_datetime option"
  cf_frequency_hz :: "int option"
  cf_power_dbm :: "rat option"
  cf_mac_address :: "string option"
  cf_rssi_dbm :: "rat option"
  cf_vendor :: "string option"
  cf_bandwidth_hz :: "int option"
  cf_signal_label :: "string option"
  cf_azimuth_deg :: "rat option"
  cf_bearing_deg :: "rat option"
  cf_modulation :: "string option"
  cf_classification :: "string option"
  cf_ssid :: "string option"
  cf_channel :: "int option"
  cf_encryption :: "string option"
  cf_device_name :: "string option"
  cf_service_uuid :: "string option"

text \<open>A cell of a CSV file is a text or, in a short row, missing.\<close>

definition row_text :: "row \<Rightarrow> string list \<Rightarrow> string option" where
  "row_text row keys = (case row_get row keys of PStr s \<Rightarrow> Some s | _ \<Rightarrow> None)"

definition get_row_measured_at :: "text_lib \<Rightarrow> row \<Rightarrow> py_datetime option \<Rightarrow> py_datetime option result" where
  "get_row_measured_at lib row fallback =
     and_then (parse_datetime_value lib (row_get row [''measured_at'', ''timestamp'', ''time'', ''date'',
       ''first_seen'', ''last_seen''])) (\<lambda>t. Inr (coalesce t fallback))"

definition extract_common_fields ::
  "text_lib \<Rightarrow> string \<Rightarrow> row \<Rightarrow> py_datetime option \<Rightarrow> common_fields result" where
  "extract_common_fields lib device_type row fallback =
     and_then (get_row_measured_at lib row fallback) (\<lambda>measured_at.
     let g = row_get row; t = row_text row;
         on = (\<lambda>ds v. if device_type \<in> set ds then v else None);
         on_int = (\<lambda>ds v. if device_type \<in> set ds then v else None) in
     Inr \<lparr>cf_measured_at = measured_at,
       cf_frequency_hz = parse_frequency_hz lib (g [''frequency'', ''freq'', ''frequency_hz'', ''freq_hz'',
         ''frequency_mhz'', ''freq_mhz'', ''channel_frequency'']),
       cf_power_dbm = parse_float lib (g [''power'', ''power_dbm'', ''dbm'', ''level'', ''rssi'', ''signal'', ''signal_dbm'']),
       cf_mac_address = parse_mac lib (g [''mac'', ''mac_address'', ''bssid'', ''address'', ''device'', ''device_mac'']),
       cf_rssi_dbm = parse_float lib (g [''rssi'', ''signal'', ''signal_dbm'', ''power_dbm'', ''dbm'']),
       cf_vendor = t [''vendor'', ''manufacturer'', ''manuf''],
       cf_bandwidth_hz = on_int [''oscor'', ''pr100''] (parse_frequency_hz lib (g [''bandwidth'', ''bw'', ''bandwidth_hz''])),
       cf_signal_label = on [''oscor'', ''mesa''] (t [''label'', ''signal'', ''name'', ''description'']),
       cf_azimuth_deg = (if device_type = ''ddf'' then parse_float lib (g [''azimuth'', ''azimuth_deg'', ''aoa'']) else None),
       cf_bearing_deg = (if device_type = ''ddf'' then parse_float lib (g [''bearing'', ''bearing_deg'', ''direction'']) else None),
       cf_modulation = on [''pr100''] (t [''modulation'', ''mod'', ''demod'']),
       cf_classification = on [''mesa''] (t [''classification'', ''class'', ''type'']),
       cf_ssid = on [''kismet''] (t [''ssid'', ''network'', ''essid'', ''name'']),
       cf_channel = on_int [''kismet''] (parse_int lib (g [''channel'', ''chan''])),
       cf_encryption = on [''kismet''] (t [''encryption'', ''privacy'', ''security'', ''crypt'']),
       cf_device_name = on [''bettercap_ble''] (t [''name'', ''device_name'', ''alias'']),
       cf_service_uuid = on [''bettercap_ble''] (t [''service_uuid'', ''uuid'', ''service''])\<rparr>)"

definition field_value :: "common_fields \<Rightarrow> string \<Rightarrow> sqlval" where
  "field_value f c = column
     [(''frequency_hz'', nullable SqlInt (cf_frequency_hz f)), (''power_dbm'', nullable SqlReal (cf_power_dbm f)),
      (''bandwidth_hz'', nullable SqlInt (cf_bandwidth_hz f)), (''signal_label'', nullable SqlText (cf_signal_label f)),
      (''azimuth_deg'', nullable SqlReal (cf_azimuth_deg f)), (''bearing_deg'', nullable SqlReal (cf_bearing_deg f)),
      (''modulation'', nullable SqlText (cf_modulation f)), (''classification'', nullable SqlText (cf_classification f)),
      (''mac_address'', nullable SqlText (cf_mac_address f)), (''ssid'', nullable SqlText (cf_ssid f)),
      (''channel'', nullable SqlInt (cf_channel f)), (''rssi_dbm'', nullable SqlReal (cf_rssi_dbm f)),
      (''vendor'', nullable SqlText (cf_vendor f)), (''encryption'', nullable SqlText (cf_encryption f)),
      (''device_name'', nullable SqlText (cf_device_name f)), (''service_uuid'', nullable SqlText (cf_service_uuid f))] c"

definition device_import_types :: "string list" where
  "device_import_types = [''oscor'', ''ddf'', ''pr100'', ''mesa'', ''kismet'', ''bettercap_ble'']"

definition allowed_by_device :: "string \<Rightarrow> string list" where
  "allowed_by_device device_type =
     (if device_type = ''oscor'' then [''frequency_hz'', ''power_dbm'', ''bandwidth_hz'', ''signal_label'']
      else if device_type = ''ddf'' then [''frequency_hz'', ''power_dbm'', ''azimuth_deg'', ''bearing_deg'']
      else if device_type = ''pr100'' then [''frequency_hz'', ''power_dbm'', ''modulation'', ''bandwidth_hz'']
      else if device_type = ''mesa'' then [''frequency_hz'', ''power_dbm'', ''signal_label'', ''classification'']
      else if device_type = ''kismet'' then [''mac_address'', ''ssid'', ''channel'', ''frequency_hz'', ''rssi_dbm'', ''vendor'', ''encryption'']
      else [''mac_address'', ''device_name'', ''rssi_dbm'', ''vendor'', ''service_uuid''])"

end
