(* ===== verification/Imports.thy ===== *)
theory Imports
  imports Sessions Upload_Files
begin

section \<open>Importing device files\<close>

text \<open>
  The three import handlers of \<open>routers/sessions_imports.py\<close> and the row statements of
  \<open>services/persistence.py\<close>. A statement is a value; \<open>apply_statement\<close> is what it does to the
  tables, and the server's answer to it (accepted, refused by the client library before it is
  sent, refused by the server) is the argument \<open>srv\<close>: column types, encodings and constraints
  are the server's. What the code relies on is the documented behaviour of a transaction: after
  a refused statement every further one fails until the transaction or the innermost savepoint
  is rolled back; an uncommitted transaction leaves no trace. The statements before the rows
  (place, session, import record) are taken as accepted.
\<close>

subsection \<open>Tables and statements\<close>

record import_row =
  ir_table :: string
  ir_import :: nat
  ir_location :: nat
  ir_session :: "nat option"
  ir_measured_at :: "rat option"
  ir_row_number :: nat
  ir_columns :: "(string \<times> sqlval) list"
  ir_raw :: row

record error_row =
  er_import :: nat
  er_type :: string
  er_row_number :: nat
  er_message :: string
  er_raw :: row

record csv_import =
  ci_id :: nat
  ci_filename :: string
  ci_type :: string
  ci_status :: string
  ci_total :: nat
  ci_processed :: nat
  ci_failed :: nat
  ci_errors :: "(nat \<times> string) list"

record stored_file =
  sf_id :: nat
  sf_import :: nat
  sf_filename :: string
  sf_path :: string
  sf_content_type :: "string option"
  sf_size :: nat
  sf_sha256 :: string

record import_db =
  im_sessions :: session_db
  im_devices :: device_db
  im_imports :: "csv_import list"
  im_files :: "stored_file list"
  im_rows :: "import_row list"
  im_errors :: "error_row list"

datatype statement =
    Insert_Import import_row
  | Upsert_Wifi_Csv known_device
  | Upsert_Bluetooth_Csv known_device
  | Upsert_Wifi known_device
  | Upsert_Bluetooth known_device
  | Insert_Wifi device_observation
  | Insert_Bluetooth device_observation
  | Insert_Error error_row
  | Finish_Import csv_import

text \<open>\<open>GREATEST(COALESCE(old, new), new)\<close> and \<open>LEAST\<close> likewise; both ignore nulls.\<close>

definition later_seen :: "rat option \<Rightarrow> rat option \<Rightarrow> rat option" where
  "later_seen old new = sql_max [coalesce old new, new]"

definition earlier_seen :: "rat option \<Rightarrow> rat option \<Rightarrow> rat option" where
  "earlier_seen old new = sql_min [coalesce old new, new]"

definition merge_columns :: "(string \<times> sqlval) list \<Rightarrow> (string \<times> sqlval) list \<Rightarrow> (string \<times> sqlval) list" where
  "merge_columns old new = map (\<lambda>(k, v). (k, if v = SqlNull then column old k else v)) new
     @ filter (\<lambda>(k, _). k \<notin> set (map fst new)) old"

definition merge_wifi_csv :: "known_device \<Rightarrow> known_device \<Rightarrow> known_device" where
  "merge_wifi_csv new old = old\<lparr>kd_ssid := coalesce (kd_ssid new) (kd_ssid old),
     kd_vendor := coalesce (kd_vendor new) (kd_vendor old),
     kd_encryption := coalesce (kd_encryption new) (kd_encryption old),
     kd_last_seen := later_seen (kd_last_seen old) (kd_last_seen new)\<rparr>"

definition merge_bluetooth_csv :: "known_device \<Rightarrow> known_device \<Rightarrow> known_device" where
  "merge_bluetooth_csv new old = old\<lparr>kd_name := coalesce (kd_name new) (kd_name old),
     kd_vendor := coalesce (kd_vendor new) (kd_vendor old),
     kd_last_seen := later_seen (kd_last_seen old) (kd_last_seen new)\<rparr>"

definition merge_wifi :: "known_device \<Rightarrow> known_device \<Rightarrow> known_device" where
  "merge_wifi new old = old\<lparr>kd_ssid := coalesce (kd_ssid new) (kd_ssid old),
     kd_vendor := coalesce (kd_vendor new) (kd_vendor old),
     kd_encryption := coalesce (kd_encryption new) (kd_encryption old),
     kd_device_type := (if kd_device_type new \<noteq> None \<and> kd_device_type new \<noteq> Some ''unknown''
       then kd_device_type new else kd_device_type old),
     kd_stable_identity := coalesce (kd_stable_identity new) (kd_stable_identity old),
     kd_identity_confidence := coalesce (kd_identity_confidence new) (kd_identity_confidence old),
     kd_first_seen := earlier_seen (kd_first_seen old) (kd_first_seen new),
     kd_last_seen := later_seen (kd_last_seen old) (kd_last_seen new),
     kd_metadata := jsonb_concat (kd_metadata old) (kd_metadata new)\<rparr>"

definition merge_bluetooth :: "known_device \<Rightarrow> known_device \<Rightarrow> known_device" where
  "merge_bluetooth new old = old\<lparr>kd_name := coalesce (kd_name new) (kd_name old),
     kd_vendor := coalesce (kd_vendor new) (kd_vendor old),
     kd_bluetooth_type := coalesce (kd_bluetooth_type new) (kd_bluetooth_type old),
     kd_company_id := coalesce (kd_company_id new) (kd_company_id old),
     kd_manufacturer_hash := coalesce (kd_manufacturer_hash new) (kd_manufacturer_hash old),
     kd_stable_identity := coalesce (kd_stable_identity new) (kd_stable_identity old),
     kd_identity_confidence := coalesce (kd_identity_confidence new) (kd_identity_confidence old),
     kd_first_seen := earlier_seen (kd_first_seen old) (kd_first_seen new),
     kd_last_seen := later_seen (kd_last_seen old) (kd_last_seen new),
     kd_columns := merge_columns (kd_columns old) (kd_columns new),
     kd_metadata := jsonb_concat (kd_metadata old) (kd_metadata new)\<rparr>"

text \<open>\<open>INSERT ... ON CONFLICT (mac) DO UPDATE\<close>\<close>

definition upsert_device ::
  "(known_device \<Rightarrow> known_device \<Rightarrow> known_device) \<Rightarrow> known_device \<Rightarrow> known_device list \<Rightarrow> known_device list" where
  "upsert_device merge d rows =
     (if kd_mac d \<in> set (map kd_mac rows) then update_where (\<lambda>r. kd_mac r = kd_mac d) (merge d) rows else rows @ [d])"

definition on_devices :: "(device_db \<Rightarrow> device_db) \<Rightarrow> import_db \<Rightarrow> import_db" where
  "on_devices f db = db\<lparr>im_devices := f (im_devices db)\<rparr>"

definition upsert_wifi :: "(known_device \<Rightarrow> known_device \<Rightarrow> known_device) \<Rightarrow> known_device \<Rightarrow> import_db \<Rightarrow> import_db" where
  "upsert_wifi merge d = on_devices (\<lambda>v. v\<lparr>db_wifi_devices := upsert_device merge d (db_wifi_devices v)\<rparr>)"

definition upsert_bluetooth :: "(known_device \<Rightarrow> known_device \<Rightarrow> known_device) \<Rightarrow> known_device \<Rightarrow> import_db \<Rightarrow> import_db" where
  "upsert_bluetooth merge d = on_devices (\<lambda>v. v\<lparr>db_bluetooth_devices := upsert_device merge d (db_bluetooth_devices v)\<rparr>)"

fun apply_statement :: "statement \<Rightarrow> import_db \<Rightarrow> import_db" where
  "apply_statement (Insert_Import r) db = db\<lparr>im_rows := im_rows db @ [r]\<rparr>"
| "apply_statement (Upsert_Wifi_Csv d) db = upsert_wifi merge_wifi_csv d db"
| "apply_statement (Upsert_Bluetooth_Csv d) db = upsert_bluetooth merge_bluetooth_csv d db"
| "apply_statement (Upsert_Wifi d) db = upsert_wifi merge_wifi d db"
| "apply_statement (Upsert_Bluetooth d) db = upsert_bluetooth merge_bluetooth d db"
| "apply_statement (Insert_Wifi ob) db = on_devices (\<lambda>v. v\<lparr>db_wifi_observations := db_wifi_observations v @ [ob]\<rparr>) db"
| "apply_statement (Insert_Bluetooth ob) db =
     on_devices (\<lambda>v. v\<lparr>db_bluetooth_observations := db_bluetooth_observations v @ [ob]\<rparr>) db"
| "apply_statement (Insert_Error e) db = db\<lparr>im_errors := im_errors db @ [e]\<rparr>"
| "apply_statement (Finish_Import c) db = db\<lparr>im_imports := update_where (\<lambda>r. ci_id r = ci_id c)
     (\<lambda>r. r\<lparr>ci_status := ci_status c, ci_total := ci_total c, ci_processed := ci_processed c,
        ci_failed := ci_failed c, ci_errors := ci_errors c\<rparr>) (im_imports db)\<rparr>"

subsection \<open>Transactions\<close>

datatype verdict = Accepted | Client_Error string | Server_Error string

type_synonym server = "statement \<Rightarrow> verdict"

record tx =
  tx_db :: import_db
  tx_aborted :: bool

text \<open>\<open>cur.execute\<close>: the text of the exception it raises, if any, and the transaction after it.\<close>

definition execute :: "server \<Rightarrow> statement \<Rightarrow> tx \<Rightarrow> string option \<times> tx" where
  "execute srv st tx =
     (if tx_aborted tx then (Some ''current transaction is aborted'', tx)
      else (case srv st of
          Accepted \<Rightarrow> (None, tx\<lparr>tx_db := apply_statement st (tx_db tx)\<rparr>)
        | Client_Error e \<Rightarrow> (Some e, tx)
        | Server_Error e \<Rightarrow> (Some e, tx\<lparr>tx_aborted := True\<rparr>)))"

fun execute_all :: "server \<Rightarrow> statement list \<Rightarrow> tx \<Rightarrow> string option \<times> tx" where
  "execute_all srv [] tx = (None, tx)"
| "execute_all srv (st # sts) tx =
     (case execute srv st tx of (Some e, tx') \<Rightarrow> (Some e, tx') | (None, tx') \<Rightarrow> execute_all srv sts tx')"

text \<open>\<open>with conn.transaction():\<close> inside a transaction is a savepoint, rolled back when the body raises.\<close>

definition savepoint :: "server \<Rightarrow> statement list \<Rightarrow> tx \<Rightarrow> string option \<times> tx" where
  "savepoint srv sts tx =
     (if tx_aborted tx then (Some ''current transaction is aborted'', tx)
      else (case execute_all srv sts tx of (Some e, _) \<Rightarrow> (Some e, tx) | (None, tx') \<Rightarrow> (None, tx')))"

text \<open>\<open>str(exc)\<close>\<close>

fun error_text :: "py_error \<Rightarrow> string" where
  "error_text (ValueError m) = m" | "error_text (RuntimeError m) = m" | "error_text (TypeError m) = m"
| "error_text (KeyError m) = m" | "error_text (OSError m) = m" | "error_text (AssertionError m) = m"
| "error_text (AttributeError m) = m" | "error_text (OverflowError m) = m" | "error_text (HTTPException c m) = m"

subsection \<open>The three importers, row by row\<close>

text \<open>
  A row of the plain CSV importer: the fields, the row of the device's table, and for the two
  device families their device and observation. The columns the statement leaves out take their
  defaults.
\<close>

definition seen_at :: "py_datetime option \<Rightarrow> py_datetime \<Rightarrow> rat" where
  "seen_at t now = utc_seconds (or_default t now)"

definition upsert_kismet_observation :: "nat \<Rightarrow> py_datetime \<Rightarrow> common_fields \<Rightarrow> statement list" where
  "upsert_kismet_observation location now f =
     (case cf_mac_address f of
        None \<Rightarrow> []
      | Some mac \<Rightarrow> let t = seen_at (cf_measured_at f) now in
          [Upsert_Wifi_Csv \<lparr>kd_mac = mac, kd_name = None, kd_ssid = cf_ssid f, kd_vendor = cf_vendor f,
             kd_encryption = cf_encryption f, kd_device_type = Some ''unknown'', kd_bluetooth_type = None,
             kd_company_id = None, kd_manufacturer_hash = None, kd_stable_identity = None,
             kd_identity_confidence = Some ''unknown'', kd_first_seen = Some t, kd_last_seen = Some t,
             kd_columns = [], kd_metadata = []\<rparr>,
           Insert_Wifi \<lparr>ob_mac = mac, ob_location_name = None, ob_session = None, ob_at = t,
             ob_channel = cf_channel f, ob_frequency_hz = cf_frequency_hz f, ob_signal_dbm = None,
             ob_rssi_dbm = cf_rssi_dbm f, ob_service_uuids = [], ob_location_id = Some location,
             ob_source_type = None,
             ob_columns = [(''ssid'', nullable SqlText (cf_ssid f)), (''capture_source'', SqlText ''kismet_csv'')]\<rparr>])"

definition upsert_bluetooth_observation :: "nat \<Rightarrow> py_datetime \<Rightarrow> common_fields \<Rightarrow> statement list" where
  "upsert_bluetooth_observation location now f =
     (case cf_mac_address f of
        None \<Rightarrow> []
      | Some mac \<Rightarrow> let t = seen_at (cf_measured_at f) now in
          [Upsert_Bluetooth_Csv \<lparr>kd_mac = mac, kd_name = cf_device_name f, kd_ssid = None, kd_vendor = cf_vendor f,
             kd_encryption = None, kd_device_type = None, kd_bluetooth_type = None,
             kd_company_id = None, kd_manufacturer_hash = None, kd_stable_identity = None,
             kd_identity_confidence = Some ''unknown'', kd_first_seen = Some t, kd_last_seen = Some t,
             kd_columns = [(''vendor_resolution_method'', SqlText ''unknown''), (''vendor_confidence'', SqlText ''unknown'')],
             kd_metadata = []\<rparr>,
           Insert_Bluetooth \<lparr>ob_mac = mac, ob_location_name = None, ob_session = None, ob_at = t,
             ob_channel = None, ob_frequency_hz = None, ob_signal_dbm = None,
             ob_rssi_dbm = cf_rssi_dbm f, ob_service_uuids = [], ob_location_id = Some location,
             ob_source_type = None,
             ob_columns = [(''device_name'', nullable SqlText (cf_device_name f)),
               (''service_uuid'', nullable SqlText (cf_service_uuid f)), (''capture_source'', SqlText ''bettercap_ble_csv'')]\<rparr>])"

definition insert_device_import_row ::
  "string \<Rightarrow> nat \<Rightarrow> nat \<Rightarrow> nat \<Rightarrow> row \<Rightarrow> common_fields \<Rightarrow> statement" where
  "insert_device_import_row device_type import_id location n row f =
     Insert_Import \<lparr>ir_table = device_type, ir_import = import_id, ir_location = location, ir_session = None,
       ir_measured_at = map_option utc_seconds (cf_measured_at f), ir_row_number = n,
       ir_columns = map (\<lambda>c. (c, field_value f c)) (allowed_by_device device_type), ir_raw = row\<rparr>"

definition csv_row_statements ::
  "string \<Rightarrow> nat \<Rightarrow> nat \<Rightarrow> py_datetime \<Rightarrow> nat \<Rightarrow> row \<Rightarrow> common_fields \<Rightarrow> statement list" where
  "csv_row_statements device_type import_id location now n row f =
     insert_device_import_row device_type import_id location n row f #
     (if device_type = ''kismet'' then upsert_kismet_observation location now f
      else if device_type = ''bettercap_ble'' then upsert_bluetooth_observation location now f else [])"

definition csv_row_step ::
  "server \<Rightarrow> text_lib \<Rightarrow> string \<Rightarrow> nat \<Rightarrow> nat \<Rightarrow> py_datetime \<Rightarrow> py_datetime option
     \<Rightarrow> tx \<times> nat \<times> nat \<Rightarrow> nat \<times> row \<Rightarrow> (tx \<times> nat \<times> nat) result" where
  "csv_row_step srv lib device_type import_id location now fallback run item =
     (let (tx, processed, failed) = run; (n, row) = item in
      case (case extract_common_fields lib device_type row fallback of
              Inl e \<Rightarrow> (Some (error_text e), tx)
            | Inr f \<Rightarrow> execute_all srv (csv_row_statements device_type import_id location now n row f) tx) of
        (None, tx) \<Rightarrow> Inr (tx, processed + 1, failed)
      | (Some e, tx) \<Rightarrow>
          (case execute srv (Insert_Error \<lparr>er_import = import_id, er_type = device_type, er_row_number = n,
                  er_message = e, er_raw = row\<rparr>) tx of
             (None, tx) \<Rightarrow> Inr (tx, processed, failed + 1)
           | (Some e, _) \<Rightarrow> Inl (RuntimeError e)))"

text \<open>The two file importers of a session: what stays fixed during the loop, and its variables.\<close>

record import_context =
  cx_import :: nat
  cx_session :: "nat option"
  cx_location_name :: string
  cx_location :: nat
  cx_source_id :: "nat option"
  cx_source_name :: string
  cx_file :: string
  cx_imported_at :: py_datetime

record import_run =
  ru_tx :: tx
  ru_imported :: nat
  ru_skipped :: nat
  ru_observations :: nat
  ru_keys :: "string set"
  ru_errors :: "(nat \<times> string) list"

definition skip_row ::
  "server \<Rightarrow> string \<Rightarrow> import_context \<Rightarrow> nat \<Rightarrow> row \<Rightarrow> string \<Rightarrow> import_run \<Rightarrow> import_run result" where
  "skip_row srv device_type cx n row msg run =
     (case execute srv (Insert_Error \<lparr>er_import = cx_import cx, er_type = device_type, er_row_number = n,
             er_message = msg, er_raw = row\<rparr>) (ru_tx run) of
        (Some e, _) \<Rightarrow> Inl (RuntimeError e)
      | (None, tx) \<Rightarrow> Inr (run\<lparr>ru_tx := tx, ru_skipped := ru_skipped run + 1, ru_errors := ru_errors run @ [(n, msg)]\<rparr>))"

definition store_device ::
  "server \<Rightarrow> string \<Rightarrow> import_context \<Rightarrow> nat \<Rightarrow> row \<Rightarrow> string \<Rightarrow> statement list \<Rightarrow> import_run \<Rightarrow> import_run result" where
  "store_device srv device_type cx n row key sts run =
     (case savepoint srv sts (ru_tx run) of
        (Some e, tx) \<Rightarrow> skip_row srv device_type cx n row e (run\<lparr>ru_tx := tx\<rparr>)
      | (None, tx) \<Rightarrow> Inr (run\<lparr>ru_tx := tx, ru_imported := ru_imported run + 1,
          ru_observations := ru_observations run + 1, ru_keys := insert key (ru_keys run)\<rparr>))"

definition kismet_import_row :: "import_context \<Rightarrow> nat \<Rightarrow> row \<Rightarrow> wifi_row \<Rightarrow> import_row" where
  "kismet_import_row cx n row f =
     \<lparr>ir_table = ''kismet'', ir_import = cx_import cx, ir_location = cx_location cx, ir_session = cx_session cx,
      ir_measured_at = Some (utc_seconds (wr_observed_at f)), ir_row_number = n,
      ir_columns = [(''location_name'', SqlText (cx_location_name cx)), (''source_name'', SqlText (cx_source_name cx)),
        (''source_type'', SqlText ''kismet''), (''source_file'', SqlText (cx_file cx)),
        (''imported_at'', SqlTime (utc_seconds (cx_imported_at cx))),
        (''mac_address'', nullable SqlText (wr_bssid f)), (''bssid'', nullable SqlText (wr_bssid f)),
        (''ssid'', nullable SqlText (wr_ssid f)), (''channel'', nullable SqlInt (wr_channel f)),
        (''frequency_hz'', nullable SqlInt (wr_frequency_hz f)), (''rssi_dbm'', nullable SqlReal (wr_signal_dbm f)),
        (''signal_dbm'', nullable SqlReal (wr_signal_dbm f)), (''noise_dbm'', nullable SqlReal (wr_noise_dbm f)),
        (''encryption'', nullable SqlText (wr_encryption f)), (''vendor'', nullable SqlText (wr_vendor f)),
        (''first_seen'', SqlTime (utc_seconds (wr_first_seen f))), (''last_seen'', SqlTime (utc_seconds (wr_last_seen f))),
        (''packet_count'', nullable SqlInt (wr_packet_count f))], ir_raw = row\<rparr>"

definition kismet_device :: "import_context \<Rightarrow> string \<Rightarrow> wifi_row \<Rightarrow> known_device" where
  "kismet_device cx bssid f =
     \<lparr>kd_mac = bssid, kd_name = None, kd_ssid = wr_ssid f, kd_vendor = wr_vendor f, kd_encryption = wr_encryption f,
      kd_device_type = Some (wr_device_type f), kd_bluetooth_type = None, kd_company_id = None,
      kd_manufacturer_hash = None, kd_stable_identity = wr_stable_identity f,
      kd_identity_confidence = Some (wr_identity_confidence f), kd_first_seen = Some (utc_seconds (wr_first_seen f)),
      kd_last_seen = Some (utc_seconds (wr_last_seen f)), kd_columns = [],
      kd_metadata = [(''last_kismet_import_id'', PInt (int (cx_import cx)))]\<rparr>"

definition kismet_observation :: "import_context \<Rightarrow> row \<Rightarrow> string \<Rightarrow> wifi_row \<Rightarrow> device_observation" where
  "kismet_observation cx row bssid f =
     \<lparr>ob_mac = bssid, ob_location_name = Some (cx_location_name cx), ob_session = cx_session cx,
      ob_at = utc_seconds (wr_observed_at f), ob_channel = wr_channel f, ob_frequency_hz = wr_frequency_hz f,
      ob_signal_dbm = wr_signal_dbm f, ob_rssi_dbm = wr_signal_dbm f, ob_service_uuids = [],
      ob_location_id = Some (cx_location cx), ob_source_type = Some ''kismet'',
      ob_columns = [(''source_id'', nullable (\<lambda>i. SqlInt (int i)) (cx_source_id cx)),
        (''source_name'', SqlText (cx_source_name cx)), (''ssid'', nullable SqlText (wr_ssid f)),
        (''noise_dbm'', nullable SqlReal (wr_noise_dbm f)), (''encryption'', nullable SqlText (wr_encryption f)),
        (''device_type'', SqlText (wr_device_type f)), (''stable_identity'', nullable SqlText (wr_stable_identity f)),
        (''identity_confidence'', SqlText (wr_identity_confidence f)),
        (''packet_count'', nullable SqlInt (wr_packet_count f)), (''observation_count'', SqlInt 1),
        (''capture_source'', SqlText (cx_source_name cx)), (''raw_payload'', SqlJson (PDict row)),
        (''metadata'', SqlJson (PDict [(''kismet_import_id'', PInt (int (cx_import cx))), (''source_file'', PStr (cx_file cx))]))]\<rparr>"

definition kismet_row_step ::
  "server \<Rightarrow> text_lib \<Rightarrow> import_context \<Rightarrow> import_run \<Rightarrow> nat \<times> row \<Rightarrow> import_run result" where
  "kismet_row_step srv lib cx run item =
     (let (n, row) = item in
      and_then (normalize_kismet_row lib row (cx_imported_at cx)) (\<lambda>f.
      case execute srv (Insert_Import (kismet_import_row cx n row f)) (ru_tx run) of
        (Some e, _) \<Rightarrow> Inl (RuntimeError e)
      | (None, tx) \<Rightarrow>
          (let run = run\<lparr>ru_tx := tx\<rparr> in
           case wr_bssid f of
             None \<Rightarrow> skip_row srv ''kismet'' cx n row ''Hianyzo vagy hibas BSSID/MAC cim.'' run
           | Some bssid \<Rightarrow> store_device srv ''kismet'' cx n row bssid
               [Upsert_Wifi (kismet_device cx bssid f), Insert_Wifi (kismet_observation cx row bssid f)] run)))"

definition first_uuid :: "bluetooth_row \<Rightarrow> sqlval" where
  "first_uuid f = (case br_service_uuids f of [] \<Rightarrow> SqlNull | u # _ \<Rightarrow> SqlText u)"

definition uuid_list :: "bluetooth_row \<Rightarrow> sqlval" where
  "uuid_list f = SqlJson (PList (map PStr (br_service_uuids f)))"

definition bettercap_import_row :: "import_context \<Rightarrow> nat \<Rightarrow> row \<Rightarrow> bluetooth_row \<Rightarrow> import_row" where
  "bettercap_import_row cx n row f =
     \<lparr>ir_table = ''bettercap_ble'', ir_import = cx_import cx, ir_location = cx_location cx, ir_session = cx_session cx,
      ir_measured_at = Some (utc_seconds (br_observed_at f)), ir_row_number = n,
      ir_columns = [(''location_name'', SqlText (cx_location_name cx)), (''source_name'', SqlText (cx_source_name cx)),
        (''source_file'', SqlText (cx_file cx)), (''imported_at'', SqlTime (utc_seconds (cx_imported_at cx))),
        (''mac_address'', nullable SqlText (br_mac f)), (''device_name'', nullable SqlText (br_device_name f)),
        (''rssi_dbm'', nullable SqlReal (br_rssi_dbm f)), (''vendor'', nullable SqlText (vm_vendor (br_vendor_meta f))),
        (''service_uuid'', first_uuid f), (''service_uuids'', uuid_list f),
        (''address_type'', nullable SqlText (br_address_type f)), (''bluetooth_type'', SqlText (br_bluetooth_type f)),
        (''first_seen'', SqlTime (utc_seconds (br_first_seen f))), (''last_seen'', SqlTime (utc_seconds (br_last_seen f)))],
      ir_raw = row\<rparr>"

definition bettercap_device :: "import_context \<Rightarrow> string \<Rightarrow> bluetooth_row \<Rightarrow> known_device" where
  "bettercap_device cx mac f =
     \<lparr>kd_mac = mac, kd_name = br_device_name f, kd_ssid = None, kd_vendor = vm_vendor (br_vendor_meta f),
      kd_encryption = None, kd_device_type = None, kd_bluetooth_type = Some (br_bluetooth_type f),
      kd_company_id = vm_company_id (br_vendor_meta f), kd_manufacturer_hash = vm_manufacturer_hash (br_vendor_meta f),
      kd_stable_identity = br_stable_identity f, kd_identity_confidence = Some (br_identity_confidence f),
      kd_first_seen = Some (utc_seconds (br_first_seen f)), kd_last_seen = Some (utc_seconds (br_last_seen f)),
      kd_columns = [(''address_type'', nullable SqlText (br_address_type f)),
        (''vendor_resolution_method'', SqlText (vm_method (br_vendor_meta f))),
        (''vendor_confidence'', SqlText (vm_confidence (br_vendor_meta f)))],
      kd_metadata = [(''last_bettercap_import_id'', PInt (int (cx_import cx)))]\<rparr>"

definition bettercap_observation :: "import_context \<Rightarrow> row \<Rightarrow> string \<Rightarrow> bluetooth_row \<Rightarrow> device_observation" where
  "bettercap_observation cx row mac f =
     \<lparr>ob_mac = mac, ob_location_name = Some (cx_location_name cx), ob_session = cx_session cx,
      ob_at = utc_seconds (br_observed_at f), ob_channel = None, ob_frequency_hz = None,
      ob_signal_dbm = None, ob_rssi_dbm = br_rssi_dbm f, ob_service_uuids = br_service_uuids f,
      ob_location_id = Some (cx_location cx), ob_source_type = Some ''bettercap_ble'',
      ob_columns = [(''source_id'', nullable (\<lambda>i. SqlInt (int i)) (cx_source_id cx)),
        (''source_name'', SqlText (cx_source_name cx)), (''device_name'', nullable SqlText (br_device_name f)),
        (''service_uuid'', first_uuid f), (''vendor'', nullable SqlText (vm_vendor (br_vendor_meta f))),
        (''address_type'', nullable SqlText (br_address_type f)), (''bluetooth_type'', SqlText (br_bluetooth_type f)),
        (''vendor_resolution_method'', SqlText (vm_method (br_vendor_meta f))),
        (''vendor_confidence'', SqlText (vm_confidence (br_vendor_meta f))),
        (''bluetooth_company_id'', nullable SqlInt (vm_company_id (br_vendor_meta f))),
        (''manufacturer_data_hash'', nullable SqlText (vm_manufacturer_hash (br_vendor_meta f))),
        (''stable_identity'', nullable SqlText (br_stable_identity f)),
        (''identity_confidence'', SqlText (br_identity_confidence f)),
        (''observation_count'', SqlInt (br_observation_count f)), (''capture_source'', SqlText (cx_source_name cx)),
        (''raw_payload'', SqlJson (PDict row)),
        (''metadata'', SqlJson (PDict [(''bettercap_import_id'', PInt (int (cx_import cx))), (''source_file'', PStr (cx_file cx))]))]\<rparr>"

definition bettercap_row_step ::
  "server \<Rightarrow> text_lib \<Rightarrow> import_context \<Rightarrow> import_run \<Rightarrow> nat \<times> row \<Rightarrow> import_run result" where
  "bettercap_row_step srv lib cx run item =
     (let (n, row) = item in
      and_then (normalize_bettercap_row lib row (cx_imported_at cx)) (\<lambda>f.
      case execute srv (Insert_Import (bettercap_import_row cx n row f)) (ru_tx run) of
        (Some e, _) \<Rightarrow> Inl (RuntimeError e)
      | (None, tx) \<Rightarrow>
          (let run = run\<lparr>ru_tx := tx\<rparr> in
           case br_mac f of
             None \<Rightarrow> skip_row srv ''bettercap_ble'' cx n row ''Hianyzo vagy hibas Bluetooth MAC cim.'' run
           | Some mac \<Rightarrow> store_device srv ''bettercap_ble'' cx n row mac
               [Upsert_Bluetooth (bettercap_device cx mac f), Insert_Bluetooth (bettercap_observation cx row mac f)] run)))"

subsection \<open>The handlers\<close>

text \<open>The committed tables and the files of the upload directory.\<close>

record world =
  wd_db :: import_db
  wd_disk :: "(string \<times> byte list) list"

record upload =
  up_filename :: "string option"
  up_content :: "byte list"
  up_content_type :: "string option"

text \<open>What a request draws from its surroundings; \<open>ie_sha256\<close> is \<open>hashlib.sha256(...).hexdigest()\<close>.\<close>

record import_env =
  ie_sql :: sql_env
  ie_import_id :: nat
  ie_file_id :: nat
  ie_now :: py_datetime
  ie_sha256 :: "byte list \<Rightarrow> string"

record import_response =
  rp_import :: nat
  rp_file :: nat
  rp_format :: string
  rp_location_name :: string
  rp_session :: "nat option"
  rp_total :: nat
  rp_imported :: nat
  rp_skipped :: nat
  rp_devices :: nat
  rp_observations :: nat
  rp_errors :: "(nat \<times> string) list"

definition create_csv_import :: "nat \<Rightarrow> string \<Rightarrow> string \<Rightarrow> import_db \<Rightarrow> import_db result" where
  "create_csv_import i filename device_type db =
     and_then (insert_pk ci_id \<lparr>ci_id = i, ci_filename = filename, ci_type = device_type, ci_status = ''processing'',
       ci_total = 0, ci_processed = 0, ci_failed = 0, ci_errors = []\<rparr> (im_imports db)) (\<lambda>rows.
     Inr (db\<lparr>im_imports := rows\<rparr>))"

definition upload_path :: "nat \<Rightarrow> string \<Rightarrow> string" where
  "upload_path import_id filename =
     (let safe_name = path_name filename in
      ''uploads/'' @ nat_text import_id @ ''_'' @ (if safe_name = [] then ''upload.csv'' else safe_name))"

text \<open>\<open>save_uploaded_file\<close> writes the file first (the first part) and then its record.\<close>

definition write_upload :: "nat \<Rightarrow> string \<Rightarrow> byte list \<Rightarrow> world \<Rightarrow> world" where
  "write_upload import_id filename bs w =
     w\<lparr>wd_disk := (upload_path import_id filename, bs) # filter (\<lambda>(p, _). p \<noteq> upload_path import_id filename) (wd_disk w)\<rparr>"

definition save_uploaded_file :: "import_env \<Rightarrow> string \<Rightarrow> upload \<Rightarrow> byte list \<Rightarrow> import_db \<Rightarrow> import_db result" where
  "save_uploaded_file ie filename up bs db =
     and_then (insert_pk sf_id \<lparr>sf_id = ie_file_id ie, sf_import = ie_import_id ie, sf_filename = filename,
       sf_path = upload_path (ie_import_id ie) filename, sf_content_type = up_content_type up, sf_size = length bs,
       sf_sha256 = ie_sha256 ie bs\<rparr>
       (im_files db)) (\<lambda>rows. Inr (db\<lparr>im_files := rows\<rparr>))"

definition upload_name :: "upload \<Rightarrow> string \<Rightarrow> string" where
  "upload_name up fallback = path_name (if truthy (up_filename up) then or_empty (up_filename up) else fallback)"

definition read_upload :: "upload \<Rightarrow> string \<Rightarrow> string \<Rightarrow> string \<Rightarrow> byte list result" where
  "read_upload up empty_detail too_large_detail label =
     and_then (read_bounded_upload (up_content up) default_import_limit empty_detail too_large_detail) (\<lambda>bs.
     and_then (reject_binary_text_payload bs label) (\<lambda>_. Inr bs))"

definition finish_csv ::
  "server \<Rightarrow> import_env \<Rightarrow> nat \<Rightarrow> tx \<times> nat \<times> nat \<Rightarrow> (import_db \<times> nat \<times> nat) result" where
  "finish_csv srv ie n_rows run =
     (let (tx, processed, failed) = run in
      case execute srv (Finish_Import \<lparr>ci_id = ie_import_id ie, ci_filename = [], ci_type = [],
          ci_status = (if failed = 0 then ''completed'' else ''completed_with_errors''), ci_total = n_rows,
          ci_processed = processed, ci_failed = failed, ci_errors = []\<rparr>) tx of
        (None, tx) \<Rightarrow> Inr (tx_db tx, processed, failed)
      | (Some e, _) \<Rightarrow> Inl (RuntimeError e))"

definition import_device_csv ::
  "server \<Rightarrow> text_lib \<Rightarrow> file_lib \<Rightarrow> import_env \<Rightarrow> string \<Rightarrow> upload \<Rightarrow> string \<Rightarrow> pyval \<Rightarrow> world
     \<Rightarrow> world \<times> (nat \<times> nat \<times> nat) result" where
  "import_device_csv srv lib fl ie device_type up location_name measured_at w =
     (let device_type = py_lower (py_strip device_type); filename = upload_name up ''upload.csv'' in
      case (if device_type \<notin> set device_import_types then Inl (HTTPException 400 (''Nem tamogatott eszkoztipus: '' @ device_type))
            else and_then (read_upload up ''Ures fajl nem importalhato.'' ''Az import fajl legfeljebb 50 MiB lehet.'' ''Az import fajl'') (\<lambda>bs.
                 and_then (parse_csv_bytes fl bs) (\<lambda>rows.
                 and_then (parse_datetime_value lib measured_at) (\<lambda>fallback.
                 and_then (ensure_location (ie_sql ie) location_name (im_sessions (wd_db w))) (\<lambda>(sdb, location).
                 and_then (create_csv_import (ie_import_id ie) filename device_type ((wd_db w)\<lparr>im_sessions := sdb\<rparr>)) (\<lambda>db.
                 Inr (bs, rows, fallback, location, db))))))) of
        Inl e \<Rightarrow> (w, Inl e)
      | Inr (bs, rows, fallback, location, db) \<Rightarrow>
          (let w = write_upload (ie_import_id ie) filename bs w in
           case and_then (save_uploaded_file ie filename up bs db) (\<lambda>db.
                and_then (fold_result (csv_row_step srv lib device_type (ie_import_id ie) location (ie_now ie) fallback)
                   (\<lparr>tx_db = db, tx_aborted = False\<rparr>, 0, 0) (enumerate 2 rows)) (\<lambda>run.
                finish_csv srv ie (length rows) run)) of
             Inl e \<Rightarrow> (w, Inl e)
           | Inr (db, processed, failed) \<Rightarrow> (w\<lparr>wd_db := db\<rparr>, Inr (length rows, processed, failed))))"

text \<open>
  The two file imports: the session, place and source of the import, its record and stored file,
  the rows, and the closing statement. \<open>errors[:20]\<close> goes to the record, \<open>errors[:100]\<close> to the
  answer.
\<close>

definition open_import ::
  "(string \<Rightarrow> nat option) \<Rightarrow> (sql_env \<Rightarrow> nat option \<Rightarrow> string \<Rightarrow> session_db \<Rightarrow> (session_db \<times> nat option) result)
     \<Rightarrow> import_env \<Rightarrow> string \<Rightarrow> string \<Rightarrow> string option \<Rightarrow> string option \<Rightarrow> string \<Rightarrow> bool \<Rightarrow> import_db
     \<Rightarrow> (import_db \<times> import_context) result" where
  "open_import parse ensure_source ie device_type filename session_id location_name source_name allow db =
     and_then (resolve_import_session parse (ie_sql ie) session_id location_name allow (im_sessions db)) (\<lambda>(sdb, sid, lname, lid).
     and_then (ensure_source (ie_sql ie) sid source_name sdb) (\<lambda>(sdb, src).
     and_then (create_csv_import (ie_import_id ie) filename device_type (db\<lparr>im_sessions := sdb\<rparr>)) (\<lambda>db.
     Inr (db, \<lparr>cx_import = ie_import_id ie, cx_session = sid, cx_location_name = lname, cx_location = lid,
       cx_source_id = src, cx_source_name = source_name, cx_file = filename, cx_imported_at = ie_now ie\<rparr>))))"

definition start_run :: "import_db \<Rightarrow> import_run" where
  "start_run db = \<lparr>ru_tx = \<lparr>tx_db = db, tx_aborted = False\<rparr>, ru_imported = 0, ru_skipped = 0,
     ru_observations = 0, ru_keys = {}, ru_errors = []\<rparr>"

definition finish_run ::
  "server \<Rightarrow> import_env \<Rightarrow> import_context \<Rightarrow> string \<Rightarrow> nat \<Rightarrow> import_run \<Rightarrow> (import_db \<times> import_response) result" where
  "finish_run srv ie cx file_format n_rows run =
     (case execute srv (Finish_Import \<lparr>ci_id = cx_import cx, ci_filename = [], ci_type = [],
         ci_status = (if ru_skipped run = 0 then ''completed'' else ''completed_with_errors''), ci_total = n_rows,
         ci_processed = ru_imported run, ci_failed = ru_skipped run, ci_errors = take 20 (ru_errors run)\<rparr>) (ru_tx run) of
        (Some e, _) \<Rightarrow> Inl (RuntimeError e)
      | (None, tx) \<Rightarrow> Inr (tx_db tx,
          \<lparr>rp_import = cx_import cx, rp_file = ie_file_id ie, rp_format = file_format,
           rp_location_name = cx_location_name cx, rp_session = cx_session cx, rp_total = n_rows,
           rp_imported = ru_imported run, rp_skipped = ru_skipped run, rp_devices = card (ru_keys run),
           rp_observations = ru_observations run, rp_errors = take 100 (ru_errors run)\<rparr>))"

definition run_file_import ::
  "server \<Rightarrow> (import_context \<Rightarrow> import_run \<Rightarrow> nat \<times> row \<Rightarrow> import_run result) \<Rightarrow> import_env \<Rightarrow> string \<Rightarrow> upload
     \<Rightarrow> (byte list \<times> (row list \<times> nat \<times> string) \<times> import_db \<times> import_context) result \<Rightarrow> world
     \<Rightarrow> world \<times> import_response result" where
  "run_file_import srv row_step ie filename up prepared w =
     (case prepared of
        Inl e \<Rightarrow> (w, Inl e)
      | Inr (bs, (rows, first_number, file_format), db, cx) \<Rightarrow>
          (let w = write_upload (ie_import_id ie) filename bs w in
           case and_then (save_uploaded_file ie filename up bs db) (\<lambda>db.
                and_then (fold_result (row_step cx) (start_run db) (enumerate first_number rows)) (\<lambda>run.
                finish_run srv ie cx file_format (length rows) run)) of
             Inl e \<Rightarrow> (w, Inl e)
           | Inr (db, response) \<Rightarrow> (w\<lparr>wd_db := db\<rparr>, Inr response)))"

definition cleaned_source_name :: "string \<Rightarrow> string \<Rightarrow> string" where
  "cleaned_source_name name fallback = (if py_strip name = [] then fallback else py_strip name)"

definition import_kismet_file ::
  "server \<Rightarrow> text_lib \<Rightarrow> file_lib \<Rightarrow> (string \<Rightarrow> nat option) \<Rightarrow> import_env \<Rightarrow> upload \<Rightarrow> string option \<Rightarrow> string option
     \<Rightarrow> string \<Rightarrow> bool \<Rightarrow> world \<Rightarrow> world \<times> import_response result" where
  "import_kismet_file srv lib fl parse ie up session_id location_name source_name allow w =
     (let filename = upload_name up ''kismet_import.csv'' in
      run_file_import srv (kismet_row_step srv lib) ie filename up
        (and_then (read_upload up ''Ures Kismet fajl nem importalhato.''
            ''A Kismet import fajl legfeljebb 50 MiB lehet.'' ''A Kismet import fajl'') (\<lambda>bs.
         and_then (parse_kismet_upload fl bs filename (up_content_type up)) (\<lambda>parsed.
         and_then (open_import parse ensure_kismet_measurement_source ie ''kismet'' filename session_id location_name
            (cleaned_source_name source_name ''kismet_file_import'') allow (wd_db w)) (\<lambda>(db, cx).
         Inr (bs, parsed, db, cx))))) w)"

definition import_bettercap_ble_file ::
  "server \<Rightarrow> text_lib \<Rightarrow> file_lib \<Rightarrow> (string \<Rightarrow> nat option) \<Rightarrow> import_env \<Rightarrow> upload \<Rightarrow> string option \<Rightarrow> string option
     \<Rightarrow> string \<Rightarrow> bool \<Rightarrow> world \<Rightarrow> world \<times> import_response result" where
  "import_bettercap_ble_file srv lib fl parse ie up session_id location_name source_name allow w =
     (let filename = upload_name up ''bettercap_ble_import.json'' in
      run_file_import srv (bettercap_row_step srv lib) ie filename up
        (and_then (read_upload up ''Ures Bettercap BLE fajl nem importalhato.''
            ''A Bettercap BLE import fajl legfeljebb 50 MiB lehet.'' ''A Bettercap BLE import fajl'') (\<lambda>bs.
         and_then (parse_bettercap_upload fl bs filename (up_content_type up)) (\<lambda>parsed.
         and_then (open_import parse ensure_bettercap_measurement_source ie ''bettercap_ble'' filename session_id location_name
            (cleaned_source_name source_name ''bettercap_ble_file_import'') allow (wd_db w)) (\<lambda>(db, cx).
         Inr (bs, parsed, db, cx))))) w)"

subsection \<open>Devices seen at several places\<close>

text \<open>The sightings of the four tables, as (kind, address, place).\<close>

definition observation_sightings :: "string \<Rightarrow> device_observation list \<Rightarrow> (string \<times> string \<times> nat) list" where
  "observation_sightings kind obs = List.map_filter (\<lambda>ob. case ob_location_id ob of
     None \<Rightarrow> None | Some l \<Rightarrow> Some (or_default (ob_source_type ob) kind, ob_mac ob, l)) obs"

definition row_mac :: "import_row \<Rightarrow> string option" where
  "row_mac r = (case column (ir_columns r) ''bssid'' of SqlText m \<Rightarrow> Some m
     | _ \<Rightarrow> (case column (ir_columns r) ''mac_address'' of SqlText m \<Rightarrow> Some m | _ \<Rightarrow> None))"

definition import_sightings :: "string \<Rightarrow> string \<Rightarrow> import_row list \<Rightarrow> (string \<times> string \<times> nat) list" where
  "import_sightings device_table kind rows = List.map_filter (\<lambda>r. if ir_table r = device_table
     then map_option (\<lambda>m. (kind, m, ir_location r)) (row_mac r) else None) rows"

definition sightings :: "import_db \<Rightarrow> (string \<times> string \<times> nat) list" where
  "sightings db = observation_sightings ''wifi'' (db_wifi_observations (im_devices db))
     @ observation_sightings ''bluetooth'' (db_bluetooth_observations (im_devices db))
     @ import_sightings ''kismet'' ''kismet_import'' (im_rows db)
     @ import_sightings ''bettercap_ble'' ''bettercap_ble_import'' (im_rows db)"

record repeated_mac =
  rm_mac :: string
  rm_observations :: nat
  rm_locations :: nat
  rm_location_names :: "string list"
  rm_sources :: "string list"

text \<open>The join drops sightings of places that are no more; then the aggregates per address.\<close>

definition mac_sightings :: "import_db \<Rightarrow> string \<Rightarrow> (string \<times> string \<times> nat) list" where
  "mac_sightings db m = filter (\<lambda>(_, mac, l). mac = m \<and> l \<in> set (map lo_id (sd_locations (im_sessions db)))) (sightings db)"

definition repeated_of :: "import_db \<Rightarrow> string \<Rightarrow> repeated_mac" where
  "repeated_of db m =
     (let ss = mac_sightings db m; places = remdups (map (\<lambda>(_, _, l). l) ss) in
      \<lparr>rm_mac = m, rm_observations = length ss, rm_locations = length places,
       rm_location_names = sort (remdups (List.map_filter (\<lambda>l. if lo_id l \<in> set places then Some (lo_name l) else None)
         (sd_locations (im_sessions db)))),
       rm_sources = sort (remdups (map fst ss))\<rparr>)"

definition fetch_repeated_macs :: "nat \<Rightarrow> import_db \<Rightarrow> repeated_mac list" where
  "fetch_repeated_macs min_locations db =
     sort_key (\<lambda>r. (- int (rm_locations r), - int (rm_observations r), rm_mac r))
       (filter (\<lambda>r. min_locations \<le> rm_locations r \<and> 0 < rm_observations r)
         (map (repeated_of db) (remdups (map (fst \<circ> snd) (sightings db)))))"

end
