(* ===== verification/Import_Properties.thy ===== *)
theory Import_Properties
  imports Imports
begin

section \<open>Properties of the imports\<close>

text \<open>
  What a statement, a savepoint and a row do to the tables; the contract of a row of the two file
  imports as the locale \<open>row_importer\<close>, interpreted on both; the properties of the handlers.
\<close>

subsection \<open>Statements and transactions: lemmas\<close>

text \<open>
  Every observation has its device, which was last seen not before the observation; device
  addresses are unique.
\<close>

definition seen_by :: "known_device list \<Rightarrow> device_observation \<Rightarrow> bool" where
  "seen_by devs ob \<longleftrightarrow> (\<exists>d\<in>set devs. kd_mac d = ob_mac ob \<and> (\<exists>t. kd_last_seen d = Some t \<and> ob_at ob \<le> t))"

definition devices_ok :: "known_device list \<Rightarrow> device_observation list \<Rightarrow> bool" where
  "devices_ok devs obs \<longleftrightarrow> distinct (map kd_mac devs) \<and> (\<forall>ob\<in>set obs. seen_by devs ob)"

definition tables_ok :: "import_db \<Rightarrow> bool" where
  "tables_ok db \<longleftrightarrow> devices_ok (db_wifi_devices (im_devices db)) (db_wifi_observations (im_devices db))
     \<and> devices_ok (db_bluetooth_devices (im_devices db)) (db_bluetooth_observations (im_devices db))"

lemma later_seen_Some: "\<exists>u. later_seen old (Some t) = Some u \<and> t \<le> u \<and> (\<forall>o'. old = Some o' \<longrightarrow> u = max o' t)"
  by (cases old) (auto simp: later_seen_def sql_max_def non_null_def coalesce_def max.commute)

definition keeps_seen :: "(known_device \<Rightarrow> known_device \<Rightarrow> known_device) \<Rightarrow> bool" where
  "keeps_seen merge \<longleftrightarrow> (\<forall>new old. kd_mac (merge new old) = kd_mac old
     \<and> kd_last_seen (merge new old) = later_seen (kd_last_seen old) (kd_last_seen new))"

lemma keeps_seen_merges [simp]:
  "keeps_seen merge_wifi_csv" "keeps_seen merge_bluetooth_csv" "keeps_seen merge_wifi" "keeps_seen merge_bluetooth"
  by (simp_all add: keeps_seen_def merge_wifi_csv_def merge_bluetooth_csv_def merge_wifi_def merge_bluetooth_def)

lemma upsert_device_macs:
  "keeps_seen merge \<Longrightarrow> map kd_mac (upsert_device merge d rows)
     = map kd_mac rows @ (if kd_mac d \<in> set (map kd_mac rows) then [] else [kd_mac d])"
  by (auto simp: upsert_device_def keeps_seen_def map_update_where)

lemma upsert_device_seen:
  assumes "keeps_seen merge" "kd_last_seen d = Some t"
  shows "\<exists>d'\<in>set (upsert_device merge d rows). kd_mac d' = kd_mac d \<and> (\<exists>u. kd_last_seen d' = Some u \<and> t \<le> u)"
proof (cases "kd_mac d \<in> set (map kd_mac rows)")
  case True
  then obtain r where r: "r \<in> set rows" "kd_mac r = kd_mac d" by auto
  have "merge d r \<in> set (upsert_device merge d rows)"
    using True r by (simp add: upsert_device_def update_where_touched)
  moreover obtain u where "later_seen (kd_last_seen r) (Some t) = Some u" "t \<le> u" using later_seen_Some by blast
  ultimately show ?thesis using assms r(2) by (auto simp: keeps_seen_def intro!: bexI [of _ "merge d r"])
qed (auto simp: upsert_device_def assms(2))

lemma upsert_device_keeps:
  assumes "keeps_seen merge" "kd_last_seen d = Some t" "seen_by rows ob"
  shows "seen_by (upsert_device merge d rows) ob"
proof -
  obtain r u where r: "r \<in> set rows" "kd_mac r = ob_mac ob" "kd_last_seen r = Some u" "ob_at ob \<le> u"
    using assms(3) by (auto simp: seen_by_def)
  show ?thesis
  proof (cases "kd_mac d \<in> set (map kd_mac rows)")
    case True
    let ?r = "if kd_mac r = kd_mac d then merge d r else r"
    have "?r \<in> set (upsert_device merge d rows)"
      using True r(1) by (auto simp: upsert_device_def intro: update_where_touched update_where_untouched)
    moreover have "\<exists>v. kd_last_seen ?r = Some v \<and> u \<le> v"
      using later_seen_Some [of "Some u" t] assms(1,2) r(3) by (auto simp: keeps_seen_def)
    moreover have "kd_mac ?r = ob_mac ob" using assms(1) r(2) by (simp add: keeps_seen_def)
    ultimately show ?thesis unfolding seen_by_def using r(4) order_trans by blast
  qed (use r in \<open>auto simp: upsert_device_def seen_by_def\<close>)
qed

lemma upsert_device_ok:
  assumes "keeps_seen merge" "kd_last_seen d = Some t" "devices_ok devs obs"
  shows "devices_ok (upsert_device merge d devs) obs"
  using assms upsert_device_keeps [OF assms(1,2)] upsert_device_macs [OF assms(1), of d devs]
  by (auto simp: devices_ok_def)

text \<open>The statements of the loops: an upsert carries a time, an observation has its device.\<close>

fun statement_fits :: "import_db \<Rightarrow> statement \<Rightarrow> bool" where
  "statement_fits db (Upsert_Wifi_Csv d) = (kd_last_seen d \<noteq> None)"
| "statement_fits db (Upsert_Wifi d) = (kd_last_seen d \<noteq> None)"
| "statement_fits db (Upsert_Bluetooth_Csv d) = (kd_last_seen d \<noteq> None)"
| "statement_fits db (Upsert_Bluetooth d) = (kd_last_seen d \<noteq> None)"
| "statement_fits db (Insert_Wifi ob) = seen_by (db_wifi_devices (im_devices db)) ob"
| "statement_fits db (Insert_Bluetooth ob) = seen_by (db_bluetooth_devices (im_devices db)) ob"
| "statement_fits db _ = True"

lemma devices_ok_snoc [simp]: "devices_ok devs (obs @ [ob]) \<longleftrightarrow> devices_ok devs obs \<and> seen_by devs ob"
  by (auto simp: devices_ok_def)

lemma apply_statement_tables_ok: "tables_ok db \<Longrightarrow> statement_fits db st \<Longrightarrow> tables_ok (apply_statement st db)"
  by (cases st) (auto simp: tables_ok_def upsert_wifi_def upsert_bluetooth_def on_devices_def intro: upsert_device_ok)

lemma apply_statement_sessions [simp]: "im_sessions (apply_statement st db) = im_sessions db"
  by (cases st) (simp_all add: upsert_wifi_def upsert_bluetooth_def on_devices_def)

lemma execute_cases:
  assumes "execute srv st tx = (r, tx')"
  obtains (accepted) "r = None" "\<not> tx_aborted tx" "tx' = tx\<lparr>tx_db := apply_statement st (tx_db tx)\<rparr>" "srv st = Accepted"
  | (client) e where "r = Some e" "tx' = tx"
  | (server) e where "r = Some e" "tx_aborted tx'" "tx_db tx' = tx_db tx"
  using assms by (auto simp: execute_def split: if_splits verdict.splits)

lemma execute_None: "execute srv st tx = (None, tx') \<longleftrightarrow>
    \<not> tx_aborted tx \<and> srv st = Accepted \<and> tx' = tx\<lparr>tx_db := apply_statement st (tx_db tx)\<rparr>"
  by (auto simp: execute_def split: verdict.splits)

lemma execute_all_None: "execute_all srv sts tx = (None, tx') \<Longrightarrow> \<not> tx_aborted tx \<Longrightarrow>
    tx' = tx\<lparr>tx_db := fold apply_statement sts (tx_db tx)\<rparr> \<and> (\<forall>st\<in>set sts. srv st = Accepted)"
proof (induction sts arbitrary: tx)
  case (Cons st sts)
  then have st: "srv st = Accepted" "execute_all srv sts (tx\<lparr>tx_db := apply_statement st (tx_db tx)\<rparr>) = (None, tx')"
    by (auto simp: execute_None split: prod.splits option.splits)
  from Cons.IH [OF st(2)] Cons.prems(2) st(1) show ?case by simp
qed simp

lemma savepoint_None: "savepoint srv sts tx = (None, tx') \<Longrightarrow>
    \<not> tx_aborted tx \<and> tx' = tx\<lparr>tx_db := fold apply_statement sts (tx_db tx)\<rparr>"
  by (auto simp: savepoint_def dest: execute_all_None split: if_splits prod.splits option.splits)

lemma savepoint_Some: "savepoint srv sts tx = (Some e, tx') \<Longrightarrow> tx' = tx"
  by (auto simp: savepoint_def split: if_splits prod.splits option.splits)

subsection \<open>The contract of a row\<close>

definition observed_for :: "import_context \<Rightarrow> device_observation \<Rightarrow> bool" where
  "observed_for cx ob \<longleftrightarrow> ob_session ob = cx_session cx \<and> ob_location_name ob = Some (cx_location_name cx)
     \<and> ob_location_id ob = Some (cx_location cx)"

definition row_imported ::
  "(import_db \<Rightarrow> device_observation list) \<Rightarrow> import_context \<Rightarrow> import_run \<Rightarrow> import_run \<Rightarrow> bool" where
  "row_imported obs cx run run' \<longleftrightarrow>
     ru_imported run' = ru_imported run + 1 \<and> ru_observations run' = ru_observations run + 1
     \<and> ru_skipped run' = ru_skipped run \<and> ru_errors run' = ru_errors run
     \<and> im_errors (tx_db (ru_tx run')) = im_errors (tx_db (ru_tx run))
     \<and> (\<exists>ob. obs (tx_db (ru_tx run')) = obs (tx_db (ru_tx run)) @ [ob] \<and> observed_for cx ob
          \<and> ru_keys run' = insert (ob_mac ob) (ru_keys run))"

definition row_skipped :: "import_context \<Rightarrow> nat \<Rightarrow> import_run \<Rightarrow> import_run \<Rightarrow> bool" where
  "row_skipped cx n run run' \<longleftrightarrow>
     ru_imported run' = ru_imported run \<and> ru_observations run' = ru_observations run
     \<and> ru_skipped run' = ru_skipped run + 1 \<and> ru_keys run' = ru_keys run
     \<and> im_devices (tx_db (ru_tx run')) = im_devices (tx_db (ru_tx run))
     \<and> (\<exists>e. im_errors (tx_db (ru_tx run')) = im_errors (tx_db (ru_tx run)) @ [e] \<and> er_row_number e = n
          \<and> ru_errors run' = ru_errors run @ [(n, er_message e)])"

definition row_done ::
  "(import_db \<Rightarrow> device_observation list) \<Rightarrow> import_context \<Rightarrow> nat \<times> row \<Rightarrow> import_run \<Rightarrow> import_run \<Rightarrow> bool" where
  "row_done obs cx item run run' \<longleftrightarrow> \<not> tx_aborted (ru_tx run')
     \<and> im_sessions (tx_db (ru_tx run')) = im_sessions (tx_db (ru_tx run))
     \<and> im_imports (tx_db (ru_tx run')) = im_imports (tx_db (ru_tx run))
     \<and> im_files (tx_db (ru_tx run')) = im_files (tx_db (ru_tx run))
     \<and> (tables_ok (tx_db (ru_tx run)) \<longrightarrow> tables_ok (tx_db (ru_tx run')))
     \<and> (\<exists>r. im_rows (tx_db (ru_tx run')) = im_rows (tx_db (ru_tx run)) @ [r]
          \<and> ir_row_number r = fst item \<and> ir_raw r = snd item \<and> ir_import r = cx_import cx)
     \<and> (row_imported obs cx run run' \<or> row_skipped cx (fst item) run run')"

lemma skip_row_Inr:
  assumes "skip_row srv ty cx n row msg run = Inr run'"
  shows "run' = run\<lparr>ru_tx := (ru_tx run)\<lparr>tx_db := (tx_db (ru_tx run))\<lparr>im_errors := im_errors (tx_db (ru_tx run))
      @ [\<lparr>er_import = cx_import cx, er_type = ty, er_row_number = n, er_message = msg, er_raw = row\<rparr>]\<rparr>\<rparr>,
      ru_skipped := ru_skipped run + 1, ru_errors := ru_errors run @ [(n, msg)]\<rparr> \<and> \<not> tx_aborted (ru_tx run)"
  using assms by (auto simp: skip_row_def execute_None split: prod.splits option.splits)

lemma store_device_Inr:
  assumes "store_device srv ty cx n row key sts run = Inr run'"
  obtains (stored) "\<not> tx_aborted (ru_tx run)"
      "run' = run\<lparr>ru_tx := (ru_tx run)\<lparr>tx_db := fold apply_statement sts (tx_db (ru_tx run))\<rparr>,
         ru_imported := ru_imported run + 1, ru_observations := ru_observations run + 1,
         ru_keys := insert key (ru_keys run)\<rparr>"
    | (refused) e where "skip_row srv ty cx n row e run = Inr run'"
proof (cases "savepoint srv sts (ru_tx run)")
  case (Pair r tx')
  show thesis
  proof (cases r)
    case None
    then show thesis using Pair assms savepoint_None [of srv sts "ru_tx run" tx'] stored by (auto simp: store_device_def)
  next
    case (Some e)
    then have "run\<lparr>ru_tx := tx'\<rparr> = run" using Pair savepoint_Some by fastforce
    then show thesis using Pair Some assms refused by (simp add: store_device_def)
  qed
qed

lemma skip_row_done:
  assumes "skip_row srv ty cx n row msg (run\<lparr>ru_tx := (ru_tx run)\<lparr>tx_db := (tx_db (ru_tx run))\<lparr>im_rows :=
      im_rows (tx_db (ru_tx run)) @ [r]\<rparr>\<rparr>\<rparr>) = Inr run'"
    and "ir_row_number r = n" "ir_raw r = row" "ir_import r = cx_import cx"
  shows "row_done obs cx (n, row) run run'"
  using skip_row_Inr [OF assms(1)] assms(2-4) by (auto simp: row_done_def row_skipped_def tables_ok_def)

definition run_summary ::
  "(import_db \<Rightarrow> device_observation list) \<Rightarrow> import_context \<Rightarrow> import_db \<Rightarrow> (nat \<times> row) list \<Rightarrow> import_run \<Rightarrow> bool" where
  "run_summary obs cx db items run \<longleftrightarrow> \<not> tx_aborted (ru_tx run)
     \<and> im_sessions (tx_db (ru_tx run)) = im_sessions db \<and> im_imports (tx_db (ru_tx run)) = im_imports db
     \<and> im_files (tx_db (ru_tx run)) = im_files db
     \<and> (tables_ok db \<longrightarrow> tables_ok (tx_db (ru_tx run)))
     \<and> ru_observations run = ru_imported run \<and> ru_imported run + ru_skipped run = length items
     \<and> (\<exists>rs. im_rows (tx_db (ru_tx run)) = im_rows db @ rs \<and> map ir_row_number rs = map fst items
          \<and> map ir_raw rs = map snd items \<and> (\<forall>r\<in>set rs. ir_import r = cx_import cx))
     \<and> (\<exists>os. obs (tx_db (ru_tx run)) = obs db @ os \<and> length os = ru_imported run
          \<and> ru_keys run = ob_mac ` set os \<and> (\<forall>ob\<in>set os. observed_for cx ob))
     \<and> (\<exists>es. im_errors (tx_db (ru_tx run)) = im_errors db @ es \<and> length es = ru_skipped run
          \<and> ru_errors run = map (\<lambda>e. (er_row_number e, er_message e)) es)"

locale row_importer =
  fixes row_step :: "import_context \<Rightarrow> import_run \<Rightarrow> nat \<times> row \<Rightarrow> import_run result"
    and observed :: "import_db \<Rightarrow> device_observation list"
  assumes observed_devices: "im_devices db = im_devices db' \<Longrightarrow> observed db = observed db'"
    and step: "row_step cx run item = Inr run' \<Longrightarrow> \<not> tx_aborted (ru_tx run) \<Longrightarrow> row_done observed cx item run run'"
begin

lemma summary_start: "run_summary observed cx db [] (start_run db)"
  by (simp add: run_summary_def start_run_def)

lemma summary_snoc:
  assumes "run_summary observed cx db items run" "row_done observed cx item run run'"
  shows "run_summary observed cx db (items @ [item]) run'"
proof -
  let ?d = "tx_db (ru_tx run)" and ?d' = "tx_db (ru_tx run')"
  obtain rs where rs: "im_rows ?d = im_rows db @ rs" "map ir_row_number rs = map fst items"
    "map ir_raw rs = map snd items" "\<forall>r\<in>set rs. ir_import r = cx_import cx"
    using assms(1) unfolding run_summary_def by blast
  obtain os where os: "observed ?d = observed db @ os" "length os = ru_imported run" "ru_keys run = ob_mac ` set os"
    "\<forall>ob\<in>set os. observed_for cx ob"
    using assms(1) unfolding run_summary_def by blast
  obtain es where es: "im_errors ?d = im_errors db @ es" "length es = ru_skipped run"
    "ru_errors run = map (\<lambda>e. (er_row_number e, er_message e)) es"
    using assms(1) unfolding run_summary_def by blast
  obtain r where r: "im_rows ?d' = im_rows ?d @ [r]" "ir_row_number r = fst item" "ir_raw r = snd item" "ir_import r = cx_import cx"
    using assms(2) unfolding row_done_def by blast
  have rows: "\<exists>rs. im_rows ?d' = im_rows db @ rs \<and> map ir_row_number rs = map fst (items @ [item])
      \<and> map ir_raw rs = map snd (items @ [item]) \<and> (\<forall>r\<in>set rs. ir_import r = cx_import cx)"
    by (rule exI [of _ "rs @ [r]"]) (use rs r in simp)
  note base = assms [unfolded run_summary_def row_done_def]
  consider (imported) "row_imported observed cx run run'" | (skipped) "row_skipped cx (fst item) run run'"
    using assms(2) unfolding row_done_def by blast
  then show ?thesis
  proof cases
    case imported
    then obtain ob where ob: "observed ?d' = observed ?d @ [ob]" "observed_for cx ob" "ru_keys run' = insert (ob_mac ob) (ru_keys run)"
      unfolding row_imported_def by blast
    have "\<exists>os. observed ?d' = observed db @ os \<and> length os = ru_imported run'
        \<and> ru_keys run' = ob_mac ` set os \<and> (\<forall>ob\<in>set os. observed_for cx ob)"
      by (rule exI [of _ "os @ [ob]"]) (use os ob imported in \<open>simp add: row_imported_def\<close>)
    moreover have "\<exists>es. im_errors ?d' = im_errors db @ es \<and> length es = ru_skipped run'
        \<and> ru_errors run' = map (\<lambda>e. (er_row_number e, er_message e)) es"
      by (rule exI [of _ es]) (use es imported in \<open>simp add: row_imported_def\<close>)
    ultimately show ?thesis using base rows imported unfolding run_summary_def row_imported_def by simp
  next
    case skipped
    then obtain e where e: "im_errors ?d' = im_errors ?d @ [e]" "er_row_number e = fst item"
      "ru_errors run' = ru_errors run @ [(fst item, er_message e)]"
      unfolding row_skipped_def by blast
    have "observed ?d' = observed ?d" using skipped observed_devices unfolding row_skipped_def by metis
    then have "\<exists>os. observed ?d' = observed db @ os \<and> length os = ru_imported run'
        \<and> ru_keys run' = ob_mac ` set os \<and> (\<forall>ob\<in>set os. observed_for cx ob)"
      by (intro exI [of _ os]) (use os skipped in \<open>simp add: row_skipped_def\<close>)
    moreover have "\<exists>es. im_errors ?d' = im_errors db @ es \<and> length es = ru_skipped run'
        \<and> ru_errors run' = map (\<lambda>e. (er_row_number e, er_message e)) es"
      by (rule exI [of _ "es @ [e]"]) (use es e skipped in \<open>simp add: row_skipped_def\<close>)
    ultimately show ?thesis using base rows skipped unfolding run_summary_def row_skipped_def by simp
  qed
qed

lemma summary: "fold_result (row_step cx) (start_run db) items = Inr run \<Longrightarrow> run_summary observed cx db items run"
proof (induction items arbitrary: run rule: rev_induct)
  case (snoc item items)
  then obtain run1 where run1: "fold_result (row_step cx) (start_run db) items = Inr run1" "row_step cx run1 item = Inr run"
    by (auto simp: fold_result_append and_then_Inr_iff)
  then have sum: "run_summary observed cx db items run1" by (simp add: snoc.IH)
  then have "\<not> tx_aborted (ru_tx run1)" by (simp add: run_summary_def)
  from summary_snoc [OF sum step [OF run1(2) this]] show ?case .
qed (simp add: summary_start)

end

subsection \<open>The two importers\<close>

abbreviation wifi_observed :: "import_db \<Rightarrow> device_observation list" where
  "wifi_observed db \<equiv> db_wifi_observations (im_devices db)"

abbreviation bluetooth_observed :: "import_db \<Rightarrow> device_observation list" where
  "bluetooth_observed db \<equiv> db_bluetooth_observations (im_devices db)"

lemma or_default_twice [simp]: "or_default x (or_default x y) = or_default x y"
  by (cases x) (simp_all add: or_default_def)

lemma wifi_row_times: "normalize_kismet_row lib row fallback = Inr f \<Longrightarrow> wr_last_seen f = wr_observed_at f"
  by (auto simp: normalize_kismet_row_def Let_def and_then_Inr_iff case_prod_beta)

lemma bettercap_row_times: "normalize_bettercap_row lib row fallback = Inr f \<Longrightarrow> br_last_seen f = br_observed_at f"
  by (auto simp: normalize_bettercap_row_def finish_bluetooth_row_def Let_def and_then_Inr_iff case_prod_beta)

lemma seen_by_upsert:
  "keeps_seen merge \<Longrightarrow> kd_last_seen d = Some (ob_at ob) \<Longrightarrow> kd_mac d = ob_mac ob \<Longrightarrow> seen_by (upsert_device merge d devs) ob"
  using upsert_device_seen [of merge d "ob_at ob" devs] by (auto simp: seen_by_def)

lemma kismet_row_done:
  assumes "kismet_row_step srv lib cx run item = Inr run'"
  shows "row_done wifi_observed cx item run run'"
proof -
  obtain n row where item: "item = (n, row)" by force
  obtain f where f: "normalize_kismet_row lib row (cx_imported_at cx) = Inr f"
    using assms item by (auto simp: kismet_row_step_def and_then_Inr_iff)
  let ?r = "kismet_import_row cx n row f"
  let ?run = "run\<lparr>ru_tx := (ru_tx run)\<lparr>tx_db := (tx_db (ru_tx run))\<lparr>im_rows := im_rows (tx_db (ru_tx run)) @ [?r]\<rparr>\<rparr>\<rparr>"
  have r: "ir_row_number ?r = n" "ir_raw ?r = row" "ir_import ?r = cx_import cx" by (simp_all add: kismet_import_row_def)
  have ins: "\<not> tx_aborted (ru_tx run)"
    and body: "(case wr_bssid f of
        None \<Rightarrow> skip_row srv ''kismet'' cx n row ''Hianyzo vagy hibas BSSID/MAC cim.'' ?run
      | Some bssid \<Rightarrow> store_device srv ''kismet'' cx n row bssid
          [Upsert_Wifi (kismet_device cx bssid f), Insert_Wifi (kismet_observation cx row bssid f)] ?run) = Inr run'"
    using assms f item by (auto simp: kismet_row_step_def execute_None Let_def split: prod.splits option.splits)
  show ?thesis
  proof (cases "wr_bssid f")
    case None
    then show ?thesis using body item by (auto intro: skip_row_done [OF _ r])
  next
    case (Some m)
    let ?d = "kismet_device cx m f" and ?ob = "kismet_observation cx row m f"
    have seen: "kd_last_seen ?d = Some (ob_at ?ob)" "kd_mac ?d = ob_mac ?ob"
      using wifi_row_times [OF f] by (simp_all add: kismet_device_def kismet_observation_def)
    from body Some have "store_device srv ''kismet'' cx n row m [Upsert_Wifi ?d, Insert_Wifi ?ob] ?run = Inr run'" by simp
    then show ?thesis
    proof (cases rule: store_device_Inr)
      case stored
      have "observed_for cx ?ob" "ob_mac ?ob = m" by (simp_all add: observed_for_def kismet_observation_def)
      then show ?thesis using stored item r seen upsert_device_ok [OF keeps_seen_merges(3) seen(1)]
        by (auto simp: row_done_def row_imported_def upsert_wifi_def on_devices_def tables_ok_def intro!: seen_by_upsert)
    next
      case (refused e)
      then show ?thesis using item by (auto intro: skip_row_done [OF _ r])
    qed
  qed
qed

lemma bettercap_row_done:
  assumes "bettercap_row_step srv lib cx run item = Inr run'"
  shows "row_done bluetooth_observed cx item run run'"
proof -
  obtain n row where item: "item = (n, row)" by force
  obtain f where f: "normalize_bettercap_row lib row (cx_imported_at cx) = Inr f"
    using assms item by (auto simp: bettercap_row_step_def and_then_Inr_iff)
  let ?r = "bettercap_import_row cx n row f"
  let ?run = "run\<lparr>ru_tx := (ru_tx run)\<lparr>tx_db := (tx_db (ru_tx run))\<lparr>im_rows := im_rows (tx_db (ru_tx run)) @ [?r]\<rparr>\<rparr>\<rparr>"
  have r: "ir_row_number ?r = n" "ir_raw ?r = row" "ir_import ?r = cx_import cx" by (simp_all add: bettercap_import_row_def)
  have ins: "\<not> tx_aborted (ru_tx run)"
    and body: "(case br_mac f of
        None \<Rightarrow> skip_row srv ''bettercap_ble'' cx n row ''Hianyzo vagy hibas Bluetooth MAC cim.'' ?run
      | Some mac \<Rightarrow> store_device srv ''bettercap_ble'' cx n row mac
          [Upsert_Bluetooth (bettercap_device cx mac f), Insert_Bluetooth (bettercap_observation cx row mac f)] ?run) = Inr run'"
    using assms f item by (auto simp: bettercap_row_step_def execute_None Let_def split: prod.splits option.splits)
  show ?thesis
  proof (cases "br_mac f")
    case None
    then show ?thesis using body item by (auto intro: skip_row_done [OF _ r])
  next
    case (Some m)
    let ?d = "bettercap_device cx m f" and ?ob = "bettercap_observation cx row m f"
    have seen: "kd_last_seen ?d = Some (ob_at ?ob)" "kd_mac ?d = ob_mac ?ob"
      using bettercap_row_times [OF f] by (simp_all add: bettercap_device_def bettercap_observation_def)
    from body Some have "store_device srv ''bettercap_ble'' cx n row m [Upsert_Bluetooth ?d, Insert_Bluetooth ?ob] ?run = Inr run'" by simp
    then show ?thesis
    proof (cases rule: store_device_Inr)
      case stored
      have "observed_for cx ?ob" "ob_mac ?ob = m" by (simp_all add: observed_for_def bettercap_observation_def)
      then show ?thesis using stored item r seen upsert_device_ok [OF keeps_seen_merges(4) seen(1)]
        by (auto simp: row_done_def row_imported_def upsert_bluetooth_def on_devices_def tables_ok_def intro!: seen_by_upsert)
    next
      case (refused e)
      then show ?thesis using item by (auto intro: skip_row_done [OF _ r])
    qed
  qed
qed

interpretation kismet: row_importer "kismet_row_step srv lib" wifi_observed
  by unfold_locales (simp_all add: kismet_row_done)

interpretation bettercap: row_importer "bettercap_row_step srv lib" bluetooth_observed
  by unfold_locales (simp_all add: bettercap_row_done)

subsection \<open>The handlers\<close>

definition opened :: "import_env \<Rightarrow> import_db \<Rightarrow> import_db \<Rightarrow> import_context \<Rightarrow> bool" where
  "opened ie db0 db cx \<longleftrightarrow> im_rows db = im_rows db0 \<and> im_errors db = im_errors db0 \<and> im_devices db = im_devices db0
     \<and> cx_import cx = ie_import_id ie \<and> (\<exists>c\<in>set (im_imports db). ci_id c = cx_import cx)
     \<and> (\<forall>single. sessions_ok single (im_sessions db0) \<longrightarrow> sessions_ok single (im_sessions db))"

definition import_accounted ::
  "(import_db \<Rightarrow> device_observation list) \<Rightarrow> import_db \<Rightarrow> import_db \<Rightarrow> import_response \<Rightarrow> bool" where
  "import_accounted obs db db' rsp \<longleftrightarrow>
     rp_imported rsp + rp_skipped rsp = rp_total rsp \<and> rp_observations rsp = rp_imported rsp
     \<and> (\<exists>rs. im_rows db' = im_rows db @ rs \<and> length rs = rp_total rsp \<and> (\<forall>r\<in>set rs. ir_import r = rp_import rsp))
     \<and> (\<exists>os. obs db' = obs db @ os \<and> length os = rp_imported rsp \<and> rp_devices rsp = card (ob_mac ` set os)
          \<and> (\<forall>ob\<in>set os. ob_session ob = rp_session rsp \<and> ob_location_name ob = Some (rp_location_name rsp)))
     \<and> (\<exists>es. im_errors db' = im_errors db @ es \<and> length es = rp_skipped rsp
          \<and> rp_errors rsp = take 100 (map (\<lambda>e. (er_row_number e, er_message e)) es))
     \<and> (\<exists>c\<in>set (im_imports db'). ci_id c = rp_import rsp \<and> ci_total c = rp_total rsp
          \<and> ci_processed c = rp_imported rsp \<and> ci_failed c = rp_skipped rsp
          \<and> ci_status c = (if rp_skipped rsp = 0 then ''completed'' else ''completed_with_errors''))
     \<and> (tables_ok db \<longrightarrow> tables_ok db')
     \<and> (\<forall>single. sessions_ok single (im_sessions db) \<longrightarrow> sessions_ok single (im_sessions db'))"

lemma run_file_import_Inr:
  assumes "run_file_import srv row_step ie fn up prepared w = (w', Inr rsp)"
  obtains bs rows first fmt db cx db1 run where
    "prepared = Inr (bs, (rows, first, fmt), db, cx)" "save_uploaded_file ie fn up bs db = Inr db1"
    "fold_result (row_step cx) (start_run db1) (enumerate first rows) = Inr run"
    "finish_run srv ie cx fmt (length rows) run = Inr (wd_db w', rsp)"
proof (cases prepared)
  case (Inl e)
  then show thesis using assms by (simp add: run_file_import_def)
next
  case (Inr p)
  obtain bs rows first fmt db cx where p: "p = (bs, (rows, first, fmt), db, cx)" by (metis prod_cases3)
  show thesis using assms Inr p that
    by (auto simp: run_file_import_def Let_def and_then_Inr_iff and_then_def split: sum.splits)
qed

lemma run_file_import_Inl: "run_file_import srv row_step ie fn up prepared w = (w', Inl e) \<Longrightarrow> wd_db w' = wd_db w"
  by (auto simp: run_file_import_def write_upload_def Let_def split: sum.splits prod.splits)

lemma save_uploaded_file_Inr: "save_uploaded_file ie fn up bs db = Inr db1 \<Longrightarrow>
    im_rows db1 = im_rows db \<and> im_errors db1 = im_errors db \<and> im_devices db1 = im_devices db
    \<and> im_imports db1 = im_imports db \<and> im_sessions db1 = im_sessions db"
  by (auto simp: save_uploaded_file_def and_then_Inr_iff)

lemma finish_run_Inr:
  assumes "finish_run srv ie cx fmt n run = Inr (db, rsp)" "\<exists>c\<in>set (im_imports (tx_db (ru_tx run))). ci_id c = cx_import cx"
  shows "im_rows db = im_rows (tx_db (ru_tx run)) \<and> im_errors db = im_errors (tx_db (ru_tx run))
    \<and> im_devices db = im_devices (tx_db (ru_tx run)) \<and> im_sessions db = im_sessions (tx_db (ru_tx run))
    \<and> rp_import rsp = cx_import cx \<and> rp_location_name rsp = cx_location_name cx \<and> rp_session rsp = cx_session cx
    \<and> rp_total rsp = n \<and> rp_imported rsp = ru_imported run \<and> rp_skipped rsp = ru_skipped run
    \<and> rp_devices rsp = card (ru_keys run) \<and> rp_observations rsp = ru_observations run
    \<and> rp_errors rsp = take 100 (ru_errors run)
    \<and> (\<exists>c\<in>set (im_imports db). ci_id c = cx_import cx \<and> ci_total c = n \<and> ci_processed c = ru_imported run
         \<and> ci_failed c = ru_skipped run
         \<and> ci_status c = (if ru_skipped run = 0 then ''completed'' else ''completed_with_errors''))"
proof -
  obtain c where c: "c \<in> set (im_imports (tx_db (ru_tx run)))" "ci_id c = cx_import cx" using assms(2) by blast
  let ?f = "\<lambda>r. r\<lparr>ci_status := if ru_skipped run = 0 then ''completed'' else ''completed_with_errors'',
     ci_total := n, ci_processed := ru_imported run, ci_failed := ru_skipped run, ci_errors := take 20 (ru_errors run)\<rparr>"
  have db: "db = (tx_db (ru_tx run))\<lparr>im_imports := update_where (\<lambda>r. ci_id r = cx_import cx) ?f (im_imports (tx_db (ru_tx run)))\<rparr>"
    using assms(1) by (auto simp: finish_run_def execute_None split: prod.splits option.splits)
  have "?f c \<in> set (update_where (\<lambda>r. ci_id r = cx_import cx) ?f (im_imports (tx_db (ru_tx run))))"
    by (rule update_where_touched [OF c(1)]) (rule c(2))
  then have "?f c \<in> set (im_imports db)" by (subst db) simp
  then have "\<exists>c\<in>set (im_imports db). ci_id c = cx_import cx \<and> ci_total c = n \<and> ci_processed c = ru_imported run
         \<and> ci_failed c = ru_skipped run
         \<and> ci_status c = (if ru_skipped run = 0 then ''completed'' else ''completed_with_errors'')"
    by (rule bexI [rotated]) (simp add: c(2))
  then show ?thesis using db assms(1) by (simp add: finish_run_def split: prod.splits option.splits) auto
qed

context row_importer
begin

lemma accounted:
  assumes "run_file_import srv row_step ie fn up prepared w = (w', Inr rsp)"
    and "\<And>bs parsed db cx. prepared = Inr (bs, parsed, db, cx) \<Longrightarrow> opened ie (wd_db w) db cx"
  shows "import_accounted observed (wd_db w) (wd_db w') rsp"
proof -
  obtain bs rows first fmt db cx db1 run where r: "prepared = Inr (bs, (rows, first, fmt), db, cx)"
    "save_uploaded_file ie fn up bs db = Inr db1"
    "fold_result (row_step cx) (start_run db1) (enumerate first rows) = Inr run"
    "finish_run srv ie cx fmt (length rows) run = Inr (wd_db w', rsp)"
    by (rule run_file_import_Inr [OF assms(1)])
  note op = assms(2) [OF r(1), unfolded opened_def]
  note sv = save_uploaded_file_Inr [OF r(2)]
  note sum = summary [OF r(3), unfolded run_summary_def]
  have "im_imports (tx_db (ru_tx run)) = im_imports db" using sv sum by simp
  then have "\<exists>c\<in>set (im_imports (tx_db (ru_tx run))). ci_id c = cx_import cx" using op by metis
  note fin = finish_run_Inr [OF r(4) this]
  have obs: "observed (wd_db w') = observed (tx_db (ru_tx run))" "observed db1 = observed (wd_db w)"
    using fin op sv by (auto intro: observed_devices)
  have tables: "tables_ok (wd_db w) = tables_ok db1" "tables_ok (wd_db w') = tables_ok (tx_db (ru_tx run))"
    using fin op sv by (simp_all add: tables_ok_def)
  obtain rs where rs: "im_rows (tx_db (ru_tx run)) = im_rows db1 @ rs" "map ir_row_number rs = map fst (enumerate first rows)"
    "\<forall>r\<in>set rs. ir_import r = cx_import cx" using sum by blast
  have len: "length rs = length rows" using arg_cong [OF rs(2), of length] by simp
  have a: "rp_imported rsp + rp_skipped rsp = rp_total rsp \<and> rp_observations rsp = rp_imported rsp" using fin sum by simp
  have b: "\<exists>rs. im_rows (wd_db w') = im_rows (wd_db w) @ rs \<and> length rs = rp_total rsp \<and> (\<forall>r\<in>set rs. ir_import r = rp_import rsp)"
    by (rule exI [of _ rs]) (use rs len fin op sv in simp)
  obtain os where os: "observed (tx_db (ru_tx run)) = observed db1 @ os" "length os = ru_imported run"
    "ru_keys run = ob_mac ` set os" "\<forall>ob\<in>set os. observed_for cx ob" using sum by blast
  have c: "\<exists>os. observed (wd_db w') = observed (wd_db w) @ os \<and> length os = rp_imported rsp \<and> rp_devices rsp = card (ob_mac ` set os)
      \<and> (\<forall>ob\<in>set os. ob_session ob = rp_session rsp \<and> ob_location_name ob = Some (rp_location_name rsp))"
    by (rule exI [of _ os]) (use os obs fin in \<open>simp add: observed_for_def\<close>)
  obtain es where es: "im_errors (tx_db (ru_tx run)) = im_errors db1 @ es" "length es = ru_skipped run"
    "ru_errors run = map (\<lambda>e. (er_row_number e, er_message e)) es" using sum by blast
  have d: "\<exists>es. im_errors (wd_db w') = im_errors (wd_db w) @ es \<and> length es = rp_skipped rsp
      \<and> rp_errors rsp = take 100 (map (\<lambda>e. (er_row_number e, er_message e)) es)"
    by (rule exI [of _ es]) (use es fin op sv in simp)
  show ?thesis unfolding import_accounted_def using a b c d fin sum op sv tables by simp
qed

end

lemma open_import_opened:
  assumes "open_import parse ensure_source ie ty fn sid place src allow db0 = Inr (db, cx)"
    and "\<exists>ep t. ensure_source = ensure_import_source t ep"
  shows "opened ie db0 db cx"
proof -
  obtain t ep where src: "ensure_source = ensure_import_source t ep" using assms(2) by blast
  obtain sdb i lname lid sdb' so where s: "resolve_import_session parse (ie_sql ie) sid place allow (im_sessions db0) = Inr (sdb, i, lname, lid)"
    "ensure_source (ie_sql ie) i src sdb = Inr (sdb', so)"
    "create_csv_import (ie_import_id ie) fn ty (db0\<lparr>im_sessions := sdb'\<rparr>) = Inr db" "cx_import cx = ie_import_id ie"
    using assms(1) by (auto simp: open_import_def and_then_Inr_iff)
  have "sessions_ok single sdb'" if ok: "sessions_ok single (im_sessions db0)" for single
    by (rule ensure_import_source_ok [OF s(2) [unfolded src] resolve_import_session_ok [OF s(1) ok]])
      (use resolve_exists [OF _ ok] s(1) in blast)
  then show ?thesis using s(3,4) by (auto simp: opened_def create_csv_import_def and_then_Inr_iff insert_pk_Inr)
qed

subsection \<open>The plain CSV import\<close>

text \<open>Tables that differ by statements of the plain CSV import: its observations name no place.\<close>

definition unlocated_from :: "device_observation list \<Rightarrow> device_observation list \<Rightarrow> bool" where
  "unlocated_from obs obs' \<longleftrightarrow> (\<exists>os. obs' = obs @ os \<and> (\<forall>ob\<in>set os. ob_location_name ob = None))"

definition csv_from :: "import_db \<Rightarrow> import_db \<Rightarrow> bool" where
  "csv_from db db' \<longleftrightarrow> unlocated_from (wifi_observed db) (wifi_observed db')
     \<and> unlocated_from (bluetooth_observed db) (bluetooth_observed db') \<and> (tables_ok db \<longrightarrow> tables_ok db')
     \<and> im_sessions db' = im_sessions db"

lemma unlocated_from_simps [simp]:
  "unlocated_from obs obs" "unlocated_from obs (obs @ [ob]) \<longleftrightarrow> ob_location_name ob = None"
  by (auto simp: unlocated_from_def)

lemma unlocated_from_trans: "unlocated_from a b \<Longrightarrow> unlocated_from b c \<Longrightarrow> unlocated_from a c"
  by (auto simp: unlocated_from_def)

lemma csv_from_refl [simp]: "csv_from db db"
  by (simp add: csv_from_def)

lemma csv_from_trans: "csv_from a b \<Longrightarrow> csv_from b c \<Longrightarrow> csv_from a c"
  unfolding csv_from_def using unlocated_from_trans by (metis (no_types, lifting))

fun csv_statement :: "statement \<Rightarrow> bool" where
  "csv_statement (Insert_Wifi ob) = (ob_location_name ob = None)"
| "csv_statement (Insert_Bluetooth ob) = (ob_location_name ob = None)"
| "csv_statement _ = True"

lemma csv_from_apply: "csv_statement st \<Longrightarrow> statement_fits db st \<Longrightarrow> csv_from db (apply_statement st db)"
  using apply_statement_tables_ok [of db st]
  by (cases st) (auto simp: csv_from_def upsert_wifi_def upsert_bluetooth_def on_devices_def)

fun csv_statements :: "import_db \<Rightarrow> statement list \<Rightarrow> bool" where
  "csv_statements db [] = True"
| "csv_statements db (st # sts) = (csv_statement st \<and> statement_fits db st \<and> csv_statements (apply_statement st db) sts)"

lemma execute_csv_from:
  "execute srv st tx = (r, tx') \<Longrightarrow> csv_statement st \<Longrightarrow> statement_fits (tx_db tx) st \<Longrightarrow> csv_from (tx_db tx) (tx_db tx')"
  by (erule execute_cases) (auto intro: csv_from_apply)

lemma execute_all_csv_from:
  "execute_all srv sts tx = (r, tx') \<Longrightarrow> csv_statements (tx_db tx) sts \<Longrightarrow> csv_from (tx_db tx) (tx_db tx')"
proof (induction sts arbitrary: tx)
  case (Cons st sts)
  obtain r1 tx1 where e: "execute srv st tx = (r1, tx1)" by force
  have one: "csv_from (tx_db tx) (tx_db tx1)" using execute_csv_from [OF e] Cons.prems(2) by simp
  show ?case
  proof (cases r1)
    case None
    then have "tx_db tx1 = apply_statement st (tx_db tx)" using e by (simp add: execute_None)
    moreover have "execute_all srv sts tx1 = (r, tx')" using None e Cons.prems(1) by simp
    ultimately show ?thesis using Cons.IH Cons.prems(2) one csv_from_trans by force
  next
    case (Some x)
    then show ?thesis using e Cons.prems(1) one by simp
  qed
qed simp

lemma csv_row_statements_fit: "csv_statements db (csv_row_statements ty i l now n row f)"
proof (cases "cf_mac_address f")
  case None
  then show ?thesis
    by (simp add: csv_row_statements_def insert_device_import_row_def upsert_kismet_observation_def upsert_bluetooth_observation_def)
next
  case (Some m)
  then show ?thesis
    by (auto simp: csv_row_statements_def insert_device_import_row_def upsert_kismet_observation_def
        upsert_bluetooth_observation_def Let_def upsert_wifi_def upsert_bluetooth_def on_devices_def intro!: seen_by_upsert)
qed

lemma csv_row_step_from:
  assumes "csv_row_step srv lib ty i l now fb (tx, p, k) item = Inr (tx', p', k')"
  shows "csv_from (tx_db tx) (tx_db tx') \<and> \<not> tx_aborted tx \<and> \<not> tx_aborted tx' \<and> p' + k' = p + k + 1"
proof -
  obtain n row where item: "item = (n, row)" by force
  obtain r tx1 where body: "(case extract_common_fields lib ty row fb of Inl e \<Rightarrow> (Some (error_text e), tx)
      | Inr f \<Rightarrow> execute_all srv (csv_row_statements ty i l now n row f) tx) = (r, tx1)" by force
  then have one: "csv_from (tx_db tx) (tx_db tx1)"
    by (auto split: sum.splits intro: execute_all_csv_from csv_row_statements_fit)
  have ab: "tx_aborted tx \<Longrightarrow> tx_aborted tx1 \<and> r \<noteq> None"
    using body by (auto simp: csv_row_statements_def execute_def split: sum.splits)
  show ?thesis
  proof (cases r)
    case None
    then have "tx' = tx1" "p' = p + 1" "k' = k" using assms body item by (simp_all add: csv_row_step_def)
    moreover have "\<not> tx_aborted tx" using None ab by blast
    moreover have "\<not> tx_aborted tx1"
      using body None \<open>\<not> tx_aborted tx\<close> by (auto split: sum.splits dest: execute_all_None)
    ultimately show ?thesis using one by simp
  next
    case (Some e)
    let ?st = "Insert_Error \<lparr>er_import = i, er_type = ty, er_row_number = n, er_message = e, er_raw = row\<rparr>"
    have ex: "execute srv ?st tx1 = (None, tx')" and n: "p' = p" "k' = k + 1"
      using assms body item Some by (auto simp: csv_row_step_def split: prod.splits option.splits)
    then show ?thesis using one ab csv_from_trans execute_csv_from [OF ex] by (auto simp: execute_None)
  qed
qed

lemma csv_row_step_refused:
  assumes "extract_common_fields lib ty row fb = Inr f"
    and "srv (insert_device_import_row ty i l n row f) = Server_Error e"
  shows "\<exists>m. csv_row_step srv lib ty i l now fb run (n, row) = Inl (RuntimeError m)"
proof -
  obtain tx p k where run: "run = (tx, p, k)" by (cases run)
  have "\<exists>m tx1. execute_all srv (csv_row_statements ty i l now n row f) tx = (Some m, tx1) \<and> tx_aborted tx1"
    using assms(2) by (auto simp: csv_row_statements_def execute_def)
  then show ?thesis using assms(1) run by (auto simp: csv_row_step_def execute_def)
qed

lemma fold_result_fails:
  "(\<And>s. \<exists>m. f s x = Inl (RuntimeError m)) \<Longrightarrow> x \<in> set xs \<Longrightarrow> (\<And>s y e. f s y = Inl e \<Longrightarrow> \<exists>m. e = RuntimeError m) \<Longrightarrow>
     \<exists>m. fold_result f s xs = Inl (RuntimeError m)"
proof (induction xs arbitrary: s)
  case (Cons y ys)
  show ?case
  proof (cases "f s y")
    case (Inl e)
    then show ?thesis using Cons.prems(3) by (auto simp: and_then_def)
  next
    case (Inr s')
    then have "x \<noteq> y" using Cons.prems(1) [of s] by auto
    then show ?thesis using Cons Inr by simp
  qed
qed simp

lemma csv_row_step_Inl: "csv_row_step srv lib ty i l now fb run item = Inl e \<Longrightarrow> \<exists>m. e = RuntimeError m"
  by (auto simp: csv_row_step_def Let_def split: prod.splits option.splits)

lemma fold_csv_from:
  assumes "fold_result (csv_row_step srv lib ty i l now fb) (tx, p, k) items = Inr (tx', p', k')" "\<not> tx_aborted tx"
  shows "csv_from (tx_db tx) (tx_db tx') \<and> \<not> tx_aborted tx' \<and> p' + k' = p + k + length items"
  using assms
proof (induction items arbitrary: tx p k)
  case (Cons x xs)
  then obtain tx1 p1 k1 where one: "csv_row_step srv lib ty i l now fb (tx, p, k) x = Inr (tx1, p1, k1)"
    and rest: "fold_result (csv_row_step srv lib ty i l now fb) (tx1, p1, k1) xs = Inr (tx', p', k')"
    by (auto simp: and_then_Inr_iff)
  then show ?case using csv_row_step_from [OF one] Cons.IH [OF rest] csv_from_trans by auto
qed simp

lemma finish_csv_Inr: "finish_csv srv ie n (tx, p, k) = Inr (db, p', k') \<Longrightarrow>
    p' = p \<and> k' = k \<and> im_devices db = im_devices (tx_db tx) \<and> im_sessions db = im_sessions (tx_db tx)"
  by (auto simp: finish_csv_def execute_None split: prod.splits option.splits)

lemma import_device_csv_Inr:
  assumes "import_device_csv srv lib fl ie ty up place at_text w = (w', Inr (n, p, k))"
  shows "csv_from (wd_db w) ((wd_db w')\<lparr>im_sessions := im_sessions (wd_db w)\<rparr>) \<and> p + k = n
    \<and> (\<forall>single. sessions_ok single (im_sessions (wd_db w)) \<longrightarrow> sessions_ok single (im_sessions (wd_db w')))"
proof -
  let ?ty = "py_lower (py_strip ty)" and ?fn = "upload_name up ''upload.csv''"
  obtain sdb l db db1 bs rows fb tx p1 k1 db2 where s: "ensure_location (ie_sql ie) place (im_sessions (wd_db w)) = Inr (sdb, l)"
    "create_csv_import (ie_import_id ie) ?fn ?ty ((wd_db w)\<lparr>im_sessions := sdb\<rparr>) = Inr db"
    "save_uploaded_file ie ?fn up bs db = Inr db1"
    "fold_result (csv_row_step srv lib ?ty (ie_import_id ie) l (ie_now ie) fb) (\<lparr>tx_db = db1, tx_aborted = False\<rparr>, 0, 0)
       (enumerate 2 rows) = Inr (tx, p1, k1)"
    "finish_csv srv ie (length rows) (tx, p1, k1) = Inr (db2, p, k)" "n = length rows" "wd_db w' = db2"
    using assms
    by (auto simp: import_device_csv_def Let_def and_then_Inr_iff split: sum.splits if_splits)
  note fc = finish_csv_Inr [OF s(5)]
  have fold: "csv_from db1 (tx_db tx) \<and> p + k = n" using fold_csv_from [OF s(4)] s(6) fc by simp
  have start: "im_devices db1 = im_devices (wd_db w)" "im_sessions db1 = sdb"
    using s(2) save_uploaded_file_Inr [OF s(3)] by (auto simp: create_csv_import_def and_then_Inr_iff)
  have fin: "im_devices (wd_db w') = im_devices (tx_db tx)" "im_sessions (wd_db w') = im_sessions (tx_db tx)"
    using fc s(7) by simp_all
  have "csv_from (wd_db w) ((wd_db w')\<lparr>im_sessions := im_sessions (wd_db w)\<rparr>)"
    using fold start fin by (simp add: csv_from_def tables_ok_def)
  moreover have "im_sessions (wd_db w') = sdb" using fold start fin by (simp add: csv_from_def)
  ultimately show ?thesis using fold ensure_location_ok [OF s(1)] by simp
qed

lemma import_device_csv_Inl: "import_device_csv srv lib fl ie ty up place at_text w = (w', Inl e) \<Longrightarrow> wd_db w' = wd_db w"
  by (auto simp: import_device_csv_def write_upload_def Let_def split: sum.splits prod.splits)

lemma wifi_snapshot_macs:
  assumes "devices_ok (db_wifi_devices db) (db_wifi_observations db)"
  shows "(\<lambda>s. kd_mac (sn_device s)) ` set (fetch_current_wifi_snapshot db place session)
    = {m. \<exists>ob\<in>set (db_wifi_observations db). observed_here place session m ob}"
proof -
  have "ob_mac ob \<in> kd_mac ` set (db_wifi_devices db)" if "ob \<in> set (db_wifi_observations db)" for ob
    using assms that by (force simp: devices_ok_def seen_by_def)
  then show ?thesis
    by (force simp: fetch_current_wifi_snapshot_def Let_def snapshot_of_def filter_empty_conv observed_here_def image_iff)
qed

lemma unlocated_not_here: "ob_location_name ob = None \<Longrightarrow> \<not> observed_here place session m ob"
  by (simp add: observed_here_def)

subsection \<open>Properties\<close>

definition sample_files :: file_lib where
  "sample_files = \<lparr>fl_utf8_sig = \<lambda>_. Some ''csv'',
     fl_csv = \<lambda>_. (Some [''bssid'', ''channel''],
       [[(''bssid'', PStr ''aa:bb:cc:dd:ee:01''), (''channel'', PStr ''6'')], [(''bssid'', PStr ''none'')]]),
     fl_json = \<lambda>_. None\<rparr>"

definition sample_import_env :: import_env where
  "sample_import_env = \<lparr>ie_sql = sample_env 5, ie_import_id = 7, ie_file_id = 9,
     ie_now = \<lparr>aware = True, utc_seconds = 100\<rparr>, ie_sha256 = \<lambda>_. ''00''\<rparr>"

definition sample_upload :: upload where
  "sample_upload = \<lparr>up_filename = Some ''scan.csv'', up_content = [0x61], up_content_type = None\<rparr>"

definition sample_world :: world where
  "sample_world = \<lparr>wd_db = \<lparr>im_sessions = sample_sessions, im_devices = \<lparr>db_wifi_devices = [], db_wifi_observations = [],
       db_bluetooth_devices = [], db_bluetooth_observations = [], db_baselines = []\<rparr>,
     im_imports = [], im_files = [], im_rows = [], im_errors = []\<rparr>, wd_disk = []\<rparr>"

text \<open>A server that checks the type of the channel column.\<close>

definition integer_server :: server where
  "integer_server st = (case st of
     Insert_Import r \<Rightarrow> (case column (ir_columns r) ''channel'' of
         SqlInt n \<Rightarrow> if - 2147483648 \<le> n \<and> n \<le> 2147483647 then Accepted else Server_Error ''integer out of range''
       | _ \<Rightarrow> Accepted)
   | _ \<Rightarrow> Accepted)"

lemma sample_world_ok: "tables_ok (wd_db sample_world)"
  by (simp add: sample_world_def tables_ok_def devices_ok_def)

lemma read_upload_ok:
  assumes "up_content up \<noteq> []" "int (length (up_content up)) \<le> default_import_limit" "0 \<notin> set (up_content up)"
  shows "read_upload up a b c = Inr (up_content up)"
proof -
  have "take (nat (default_import_limit + 1)) (up_content up) = up_content up" using assms(2) by simp
  moreover have "0 \<notin> set (take 8192 (up_content up))" using assms(3) in_set_takeD by metis
  ultimately show ?thesis using assms(1,2)
    by (simp add: read_upload_def read_bounded_upload_def Let_def reject_binary_text_payload_def default_import_limit_def)
qed

lemma sample_read [simp]: "read_upload sample_upload a b c = Inr [0x61]"
  using read_upload_ok [of sample_upload] by (simp add: sample_upload_def default_import_limit_def)

definition sample_import_run :: "world \<times> import_response result" where
  "sample_import_run = run_file_import integer_server (kismet_row_step integer_server sample_lib) sample_import_env
     (upload_name sample_upload ''kismet_import.csv'') sample_upload
     (and_then (parse_kismet_upload sample_files [0x61] (upload_name sample_upload ''kismet_import.csv'') (up_content_type sample_upload)) (\<lambda>parsed.
      and_then (open_import (\<lambda>_. None) ensure_kismet_measurement_source sample_import_env ''kismet''
         (upload_name sample_upload ''kismet_import.csv'') None (Some ''lab'')
         (cleaned_source_name ''src'' ''kismet_file_import'') False (wd_db sample_world)) (\<lambda>(db, cx).
      Inr ([0x61], parsed, db, cx)))) sample_world"

lemma sample_import: "\<exists>w' rsp. import_kismet_file integer_server sample_lib sample_files (\<lambda>_. None) sample_import_env sample_upload
    None (Some ''lab'') ''src'' False sample_world = (w', Inr rsp) \<and> rp_imported rsp = 1 \<and> rp_skipped rsp = 1
    \<and> rp_location_name rsp = ''Lab'' \<and> rp_session rsp = Some 1"
proof -
  have "(case snd sample_import_run of Inl _ \<Rightarrow> False | Inr rsp \<Rightarrow> rp_imported rsp = 1 \<and> rp_skipped rsp = 1
    \<and> rp_location_name rsp = ''Lab'' \<and> rp_session rsp = Some 1)" by code_simp
  then show ?thesis by (cases sample_import_run) (auto simp: import_kismet_file_def sample_import_run_def split: sum.splits)
qed

lemma kismet_import_accounted:
  "import_kismet_file srv lib fl parse ie up sid place src allow w = (w', Inr rsp) \<Longrightarrow>
     import_accounted wifi_observed (wd_db w) (wd_db w') rsp"
  unfolding import_kismet_file_def Let_def
  by (rule kismet.accounted) (auto simp: and_then_Inr_iff ensure_kismet_measurement_source_def intro!: open_import_opened)

lemma bettercap_import_accounted:
  "import_bettercap_ble_file srv lib fl parse ie up sid place src allow w = (w', Inr rsp) \<Longrightarrow>
     import_accounted bluetooth_observed (wd_db w) (wd_db w') rsp"
  unfolding import_bettercap_ble_file_def Let_def
  by (rule bettercap.accounted) (auto simp: and_then_Inr_iff ensure_bettercap_measurement_source_def intro!: open_import_opened)



text \<open>
  A plain CSV import cannot report a row the server refuses. The handler means to record such a
  row as an error row and go on, but without a savepoint the refusal aborts the transaction and
  the error row is refused too: if the server refuses the insertion of one row of an accepted
  file, the whole request fails, nothing of the file is stored, only the uploaded file stays on
  the disk.
\<close>

theorem csv_refused_row_loses_import:
  assumes "py_lower (py_strip ty) \<in> set device_import_types"
    and "read_upload up ''Ures fajl nem importalhato.'' ''Az import fajl legfeljebb 50 MiB lehet.'' ''Az import fajl'' = Inr bs"
    and "parse_csv_bytes fl bs = Inr rows" "parse_datetime_value lib at_text = Inr fallback"
    and "(n, row) \<in> set (enumerate 2 rows)" "extract_common_fields lib (py_lower (py_strip ty)) row fallback = Inr f"
    and "\<And>l. \<exists>e. srv (insert_device_import_row (py_lower (py_strip ty)) (ie_import_id ie) l n row f) = Server_Error e"
  shows "\<exists>w' e. import_device_csv srv lib fl ie ty up place at_text w = (w', Inl e) \<and> wd_db w' = wd_db w"
proof -
  let ?ty = "py_lower (py_strip ty)"
  have fails: "\<exists>m. fold_result (csv_row_step srv lib ?ty (ie_import_id ie) l (ie_now ie) fallback) run (enumerate 2 rows)
      = Inl (RuntimeError m)" for l run
  proof (rule fold_result_fails [OF _ assms(5)])
    show "\<exists>m. csv_row_step srv lib ?ty (ie_import_id ie) l (ie_now ie) fallback s (n, row) = Inl (RuntimeError m)" for s
      using csv_row_step_refused [OF assms(6)] assms(7) by metis
  qed (rule csv_row_step_Inl)
  have "is_ok (snd (import_device_csv srv lib fl ie ty up place at_text w)) = False"
    using assms(1-4) fails
    by (auto simp: import_device_csv_def Let_def and_then_def is_ok_def split: sum.splits) (metis Inl_Inr_False)+
  then obtain w' e where r: "import_device_csv srv lib fl ie ty up place at_text w = (w', Inl e)"
    by (cases "import_device_csv srv lib fl ie ty up place at_text w") (auto simp: is_ok_def split: sum.splits)
  with import_device_csv_Inl [OF r] show ?thesis by blast
qed

definition sample_wide_row :: row where
  "sample_wide_row = [(''channel'', PStr (int_text 99999999999))]"

definition sample_wide_files :: file_lib where
  "sample_wide_files = \<lparr>fl_utf8_sig = \<lambda>_. Some ''csv'', fl_csv = \<lambda>_. (Some [''channel''], [sample_wide_row]), fl_json = \<lambda>_. None\<rparr>"

lemma csv_refused_row_loses_import_witness:
  "\<exists>w' e. import_device_csv integer_server sample_lib sample_wide_files sample_import_env '' Kismet '' sample_upload ''Lab'' PNone sample_world
     = (w', Inl e) \<and> wd_db w' = wd_db sample_world"
proof -
  have ty: "py_lower (py_strip '' Kismet '') = ''kismet''" by code_simp
  have cell: "row_get sample_wide_row [''channel'', ''chan''] = PStr (int_text 99999999999)"
    "row_get sample_wide_row [''measured_at'', ''timestamp'', ''time'', ''date'', ''first_seen'', ''last_seen''] = PNone"
    by (simp_all add: sample_wide_row_def row_get_def normalize_key_def py_strip_def is_space_code py_lower_def
        char_lower_code is_lower_alnum_code absent_def)
  obtain f where f: "extract_common_fields sample_lib ''kismet'' sample_wide_row None = Inr f" "cf_channel f = Some 99999999999"
    by (simp add: extract_common_fields_def get_row_measured_at_def cell coalesce_def parse_datetime_value_def Let_def)
  have srv: "\<exists>e. integer_server (insert_device_import_row ''kismet'' i l n row f) = Server_Error e" for i l n row
    using f(2) by (simp add: insert_device_import_row_def integer_server_def allowed_by_device_def field_value_def column_def)
  show ?thesis
    by (rule csv_refused_row_loses_import [where n = 2 and row = sample_wide_row and bs = "[0x61]" and rows = "[sample_wide_row]"
          and fallback = None and f = f]; (unfold ty)?)
      (use f srv in \<open>simp_all add: device_import_types_def parse_csv_bytes_def sample_wide_files_def parse_datetime_value_def\<close>)
qed

text \<open>
  Which imports a baseline can see. After a successful Kismet import the addresses in the
  snapshot of the place and session of the answer are the ones before and those of the imported
  rows. A successful plain CSV import of the same devices, although it stores them with a place,
  changes no snapshot of any place or session: its observations carry no place name. Both keep
  the tables in order; the processed and failed rows of the CSV import add up to its rows.
\<close>

theorem import_visibility:
  assumes "tables_ok (wd_db w)"
  shows "(import_kismet_file srv lib fl parse ie up sid place src allow w = (w', Inr rsp) \<longrightarrow>
      (\<exists>os. wifi_observed (wd_db w') = wifi_observed (wd_db w) @ os \<and> length os = rp_imported rsp
        \<and> (\<lambda>s. kd_mac (sn_device s)) ` set (fetch_current_wifi_snapshot (im_devices (wd_db w')) (rp_location_name rsp) (rp_session rsp))
          = (\<lambda>s. kd_mac (sn_device s)) ` set (fetch_current_wifi_snapshot (im_devices (wd_db w)) (rp_location_name rsp) (rp_session rsp))
            \<union> ob_mac ` set os))
    \<and> (import_device_csv srv lib fl ie ty up name at_text w = (w'', Inr (n, p, k)) \<longrightarrow>
       tables_ok (wd_db w'') \<and> p + k = n
       \<and> (\<lambda>s. kd_mac (sn_device s)) ` set (fetch_current_wifi_snapshot (im_devices (wd_db w'')) l session)
         = (\<lambda>s. kd_mac (sn_device s)) ` set (fetch_current_wifi_snapshot (im_devices (wd_db w)) l session))"
proof (intro conjI impI)
  assume "import_kismet_file srv lib fl parse ie up sid place src allow w = (w', Inr rsp)"
  from kismet_import_accounted [OF this] obtain os where os: "wifi_observed (wd_db w') = wifi_observed (wd_db w) @ os"
    "length os = rp_imported rsp" "tables_ok (wd_db w')"
    "\<forall>ob\<in>set os. ob_session ob = rp_session rsp \<and> ob_location_name ob = Some (rp_location_name rsp)"
    using assms unfolding import_accounted_def by blast
  have here: "observed_here (rp_location_name rsp) (rp_session rsp) m ob \<longleftrightarrow> ob_mac ob = m" if "ob \<in> set os" for ob m
    using os(4) that by (auto simp: observed_here_def split: option.splits)
  have "(\<lambda>s. kd_mac (sn_device s)) ` set (fetch_current_wifi_snapshot (im_devices (wd_db w')) (rp_location_name rsp) (rp_session rsp))
      = (\<lambda>s. kd_mac (sn_device s)) ` set (fetch_current_wifi_snapshot (im_devices (wd_db w)) (rp_location_name rsp) (rp_session rsp))
        \<union> ob_mac ` set os"
    using assms os(3) here by (auto simp: wifi_snapshot_macs tables_ok_def os(1))
  then show "\<exists>os. wifi_observed (wd_db w') = wifi_observed (wd_db w) @ os \<and> length os = rp_imported rsp
        \<and> (\<lambda>s. kd_mac (sn_device s)) ` set (fetch_current_wifi_snapshot (im_devices (wd_db w')) (rp_location_name rsp) (rp_session rsp))
          = (\<lambda>s. kd_mac (sn_device s)) ` set (fetch_current_wifi_snapshot (im_devices (wd_db w)) (rp_location_name rsp) (rp_session rsp))
            \<union> ob_mac ` set os"
    using os(1,2) by blast
next
  assume "import_device_csv srv lib fl ie ty up name at_text w = (w'', Inr (n, p, k))"
  note csv = import_device_csv_Inr [OF this, unfolded csv_from_def unlocated_from_def, simplified]
  obtain os where os: "wifi_observed (wd_db w'') = wifi_observed (wd_db w) @ os" "\<forall>ob\<in>set os. ob_location_name ob = None"
    using csv by blast
  show ok: "tables_ok (wd_db w'')" using csv assms by (simp add: tables_ok_def)
  show "p + k = n" using csv by simp
  show "(\<lambda>s. kd_mac (sn_device s)) ` set (fetch_current_wifi_snapshot (im_devices (wd_db w'')) l session)
      = (\<lambda>s. kd_mac (sn_device s)) ` set (fetch_current_wifi_snapshot (im_devices (wd_db w)) l session)"
    using assms ok os unlocated_not_here by (auto simp: wifi_snapshot_macs tables_ok_def)
qed

lemma import_visibility_witness:
  "\<exists>(w' :: world) os. wifi_observed (wd_db w') = os \<and> length os = 1
     \<and> (\<lambda>s. kd_mac (sn_device s)) ` set (fetch_current_wifi_snapshot (im_devices (wd_db w')) ''Lab'' (Some 1)) = ob_mac ` set os"
proof -
  obtain w' rsp where s: "import_kismet_file integer_server sample_lib sample_files (\<lambda>_. None) sample_import_env sample_upload
      None (Some ''lab'') ''src'' False sample_world = (w', Inr rsp)" "rp_imported rsp = 1" "rp_location_name rsp = ''Lab''" "rp_session rsp = Some 1"
    using sample_import by blast
  have none: "wifi_observed (wd_db sample_world) = []" "fetch_current_wifi_snapshot (im_devices (wd_db sample_world)) l i = []" for l i
    by (simp_all add: sample_world_def fetch_current_wifi_snapshot_def)
  from import_visibility [OF sample_world_ok, THEN conjunct1, rule_format, OF s(1)]
  show ?thesis unfolding s(2-4) none by auto
qed

subsection \<open>Devices seen at several places\<close>

lemma card_set_remdups: "length (remdups xs) = card (set xs)"
  by (simp add: length_remdups_card_conv)

text \<open>
  \<open>fetch_repeated_macs\<close> is exact: an address is reported if and only if it was sighted at no fewer
  different places (of those that still exist) than asked, the reported number of places is that
  number, and no address is reported twice. An imported row counts twice: its observation and its
  import row are both sightings.
\<close>

theorem repeated_macs_exact:
  "(\<forall>r. r \<in> set (fetch_repeated_macs n db) \<longleftrightarrow> r = repeated_of db (rm_mac r) \<and> mac_sightings db (rm_mac r) \<noteq> []
       \<and> n \<le> card {l. (\<exists>kind. (kind, rm_mac r, l) \<in> set (sightings db)) \<and> l \<in> lo_id ` set (sd_locations (im_sessions db))})
   \<and> (\<forall>m. rm_locations (repeated_of db m)
       = card {l. (\<exists>kind. (kind, m, l) \<in> set (sightings db)) \<and> l \<in> lo_id ` set (sd_locations (im_sessions db))})
   \<and> distinct (map rm_mac (fetch_repeated_macs n db))"
proof -
  have mac [simp]: "rm_mac (repeated_of db m) = m" for m by (simp add: repeated_of_def Let_def)
  have places: "(\<lambda>(_, _, l). l) ` set (mac_sightings db m)
      = {l. (\<exists>kind. (kind, m, l) \<in> set (sightings db)) \<and> l \<in> lo_id ` set (sd_locations (im_sessions db))}" for m
    by (force simp: mac_sightings_def)
  have count: "rm_locations (repeated_of db m)
      = card {l. (\<exists>kind. (kind, m, l) \<in> set (sightings db)) \<and> l \<in> lo_id ` set (sd_locations (im_sessions db))}" for m
    unfolding places [symmetric] by (simp add: repeated_of_def Let_def card_set_remdups)
  have obs: "0 < rm_observations (repeated_of db m) \<longleftrightarrow> mac_sightings db m \<noteq> []" for m
    by (simp add: repeated_of_def Let_def)
  have listed: "m \<in> (fst \<circ> snd) ` set (sightings db)" if "mac_sightings db m \<noteq> []" for m
  proof -
    obtain s where "s \<in> set (mac_sightings db m)" using \<open>mac_sightings db m \<noteq> []\<close> by (cases "mac_sightings db m") auto
    then show ?thesis by (force simp: mac_sightings_def)
  qed
  have iff: "r \<in> set (fetch_repeated_macs n db) \<longleftrightarrow> r = repeated_of db (rm_mac r) \<and> mac_sightings db (rm_mac r) \<noteq> []
      \<and> n \<le> rm_locations (repeated_of db (rm_mac r))" for r
  proof
    assume "r \<in> set (fetch_repeated_macs n db)"
    then obtain m where "r = repeated_of db m" "n \<le> rm_locations r" "0 < rm_observations r"
      by (auto simp: fetch_repeated_macs_def)
    then show "r = repeated_of db (rm_mac r) \<and> mac_sightings db (rm_mac r) \<noteq> []
      \<and> n \<le> rm_locations (repeated_of db (rm_mac r))" using obs by simp
  next
    assume r: "r = repeated_of db (rm_mac r) \<and> mac_sightings db (rm_mac r) \<noteq> []
      \<and> n \<le> rm_locations (repeated_of db (rm_mac r))"
    then have "r \<in> repeated_of db ` (fst \<circ> snd) ` set (sightings db)" "0 < rm_observations r"
      using listed [of "rm_mac r"] obs [of "rm_mac r"] by (metis image_eqI, metis)
    moreover have "n \<le> rm_locations r" using r by metis
    ultimately show "r \<in> set (fetch_repeated_macs n db)" by (simp add: fetch_repeated_macs_def)
  qed
  have d: "distinct (map rm_mac (filter P (map (repeated_of db) xs)))" if "distinct xs" for P xs
    using that by (induction xs) auto
  have m: "mset (map rm_mac (sort_key k xs)) = mset (map rm_mac xs)" for k :: "repeated_mac \<Rightarrow> int \<times> int \<times> string" and xs
    by (simp add: mset_map)
  have "distinct (map rm_mac (fetch_repeated_macs n db))"
    unfolding fetch_repeated_macs_def using mset_eq_imp_distinct_iff [OF m] d by simp
  then show ?thesis using iff count by simp
qed

subsection \<open>Where uploads are stored\<close>

lemma split_slash_parts: "p \<in> set (split_slash s) \<Longrightarrow> CHR ''/'' \<notin> set p"
  by (induction s arbitrary: p) (auto split: if_splits list.splits)

lemma path_name_no_slash: "CHR ''/'' \<notin> set (path_name s)"
proof (cases "rev (filter (\<lambda>p. p \<noteq> [] \<and> p \<noteq> ''.'') (split_slash s))")
  case (Cons p ps)
  then have "p \<in> set (split_slash s)" by (metis filter_is_subset list.set_intros(1) set_rev subsetD)
  then show ?thesis using Cons split_slash_parts by (simp add: path_name_def)
qed (simp add: path_name_def)

lemma digit_not_special: "is_digit c \<Longrightarrow> c \<noteq> CHR ''/'' \<and> c \<noteq> CHR ''_'' \<and> c \<noteq> CHR ''.''"
  by (auto simp: is_digit_code)

lemma digits_prefix: "takeWhile is_digit (nat_text n @ CHR ''_'' # s) = nat_text n"
  using nat_text_digits by (simp add: takeWhile_append is_digit_code)

text \<open>
  Uploads stay in their directory: whatever file name the client sends, the stored path is the
  upload directory followed by one path component, which is no parent reference, and the uploads
  of different imports never share a path.
\<close>

theorem upload_stays_in_directory:
  "\<exists>component. upload_path i filename = ''uploads/'' @ component \<and> CHR ''/'' \<notin> set component
     \<and> component \<noteq> [] \<and> component \<noteq> ''.'' \<and> component \<noteq> ''..''
     \<and> (upload_path j other = upload_path i filename \<longrightarrow> j = i)"
proof -
  let ?safe = "\<lambda>f. if path_name f = [] then ''upload.csv'' else path_name f"
  have path: "upload_path k f = ''uploads/'' @ nat_text k @ CHR ''_'' # ?safe f" for k f
    by (simp add: upload_path_def Let_def)
  let ?c = "nat_text i @ CHR ''_'' # ?safe filename"
  have safe: "CHR ''/'' \<notin> set (?safe filename)" using path_name_no_slash [of filename] by simp
  have digits: "CHR ''/'' \<notin> set (nat_text i)" using digit_not_special nat_text_digits by blast
  have "CHR ''/'' \<notin> set ?c" using safe digits by (simp del: if_split_asm split del: if_split)
  moreover have "c \<noteq> ''.'' \<and> c \<noteq> ''..''" if "CHR ''_'' \<in> set c" for c using that by auto
  then have "?c \<noteq> ''.''" "?c \<noteq> ''..''" by (metis in_set_conv_decomp)+
  moreover have "j = i" if "upload_path j other = upload_path i filename"
  proof -
    have "nat_text j @ CHR ''_'' # ?safe other = ?c" using that unfolding path by simp
    then have "nat_text j = nat_text i" using digits_prefix by metis
    then show ?thesis using digits_value_nat_text by metis
  qed
  ultimately show ?thesis by (intro exI [of _ ?c]) (simp add: path)
qed

lemma upload_stays_in_directory_witness:
  "\<exists>c. upload_path 7 ''../../etc/passwd'' = ''uploads/'' @ c \<and> CHR ''/'' \<notin> set c"
  using upload_stays_in_directory [of 7 "''../../etc/passwd''" 7] by blast

end
