(* ===== verification/Live_Import.thy ===== *)
theory Live_Import
  imports Import_Properties Alerts
begin

section \<open>Live imports of the collectors\<close>

text \<open>
  The import half of \<open>routers/health_collectors.py\<close>: the rows a Kismet or Bettercap server returns go
  into the tables of devices and observations, changes of an access point and Kismet's own alerts go
  into the table of alerts. An import is one transaction without savepoints; each row runs under a
  \<open>try\<close> that catches everything. The statements, the server's verdict and a transaction after a
  refused statement are those of \<open>Imports\<close>; what is new is that the handler goes on after an
  exception and that \<open>commit\<close> of an aborted transaction is a rollback, which the client library does
  not report. Accents in messages are dropped.
\<close>

subsection \<open>Statements and transactions\<close>

record live_db =
  lv_imports :: import_db
  lv_alerts :: "alert list"

datatype live_statement =
    Import_Statement statement
  | Upsert_Live_Bluetooth known_device
  | Upsert_Alert alert
  | Count_Frame string string int

definition merge_live_bluetooth :: "known_device \<Rightarrow> known_device \<Rightarrow> known_device" where
  "merge_live_bluetooth new old = old\<lparr>kd_name := coalesce (kd_name new) (kd_name old), kd_vendor := kd_vendor new,
     kd_bluetooth_type := coalesce (kd_bluetooth_type new) (kd_bluetooth_type old),
     kd_company_id := kd_company_id new, kd_manufacturer_hash := kd_manufacturer_hash new,
     kd_stable_identity := coalesce (kd_stable_identity new) (kd_stable_identity old),
     kd_identity_confidence := coalesce (kd_identity_confidence new) (kd_identity_confidence old),
     kd_first_seen := earlier_seen (kd_first_seen old) (kd_first_seen new),
     kd_last_seen := later_seen (kd_last_seen old) (kd_last_seen new),
     kd_columns := merge_columns (kd_columns old) (kd_columns new),
     kd_metadata := jsonb_concat (kd_metadata old) (kd_metadata new)\<rparr>"

definition bare_device :: "string \<Rightarrow> known_device" where
  "bare_device mac = \<lparr>kd_mac = mac, kd_name = None, kd_ssid = None, kd_vendor = None, kd_encryption = None,
     kd_device_type = Some ''unknown'', kd_bluetooth_type = None, kd_company_id = None, kd_manufacturer_hash = None,
     kd_stable_identity = None, kd_identity_confidence = Some ''unknown'', kd_first_seen = None, kd_last_seen = None,
     kd_columns = [], kd_metadata = []\<rparr>"

text \<open>The column \<open>management_frame_counts\<close> of a device.\<close>

definition frame_counts :: "known_device \<Rightarrow> row" where
  "frame_counts d = (case column (kd_columns d) ''management_frame_counts'' of SqlJson (PDict c) \<Rightarrow> c | _ \<Rightarrow> [])"

definition set_frame_counts :: "row \<Rightarrow> known_device \<Rightarrow> known_device" where
  "set_frame_counts c d = d\<lparr>kd_columns :=
     (''management_frame_counts'', SqlJson (PDict c)) # filter (\<lambda>(k, _). k \<noteq> ''management_frame_counts'') (kd_columns d)\<rparr>"

definition bump_frame_count :: "string \<Rightarrow> int \<Rightarrow> known_device \<Rightarrow> known_device" where
  "bump_frame_count frame_type n d =
     (let c = frame_counts d; old = (case dict_get c frame_type of PInt m \<Rightarrow> m | _ \<Rightarrow> 0) in
      set_frame_counts (jsonb_concat c [(frame_type, PInt (old + n))]) d)"

definition count_frame :: "string \<Rightarrow> string \<Rightarrow> int \<Rightarrow> known_device list \<Rightarrow> known_device list" where
  "count_frame bssid frame_type n rows =
     (if bssid \<in> set (map kd_mac rows) then update_where (\<lambda>d. kd_mac d = bssid) (bump_frame_count frame_type n) rows
      else rows @ [set_frame_counts [(frame_type, PInt n)] (bare_device bssid)])"

definition fresh_alert_id :: "alert list \<Rightarrow> nat" where
  "fresh_alert_id table = fold max (map al_id table) 0 + 1"

definition on_imports :: "(import_db \<Rightarrow> import_db) \<Rightarrow> live_db \<Rightarrow> live_db" where
  "on_imports f db = db\<lparr>lv_imports := f (lv_imports db)\<rparr>"

fun apply_live :: "live_statement \<Rightarrow> live_db \<Rightarrow> live_db" where
  "apply_live (Import_Statement st) db = on_imports (apply_statement st) db"
| "apply_live (Upsert_Live_Bluetooth d) db = on_imports (upsert_bluetooth merge_live_bluetooth d) db"
| "apply_live (Upsert_Alert a) db =
     db\<lparr>lv_alerts := upsert_wifi_alert (a\<lparr>al_id := fresh_alert_id (lv_alerts db)\<rparr>) (lv_alerts db)\<rparr>"
| "apply_live (Count_Frame bssid frame_type n) db = on_imports (on_devices (\<lambda>v. v\<lparr>db_wifi_devices :=
     count_frame bssid frame_type n (db_wifi_devices v)\<rparr>)) db"

type_synonym live_server = "live_statement \<Rightarrow> verdict"

record live_tx =
  lt_db :: live_db
  lt_aborted :: bool

text \<open>Code that talks to the server and may raise: the text of the exception or a value, and the transaction after it.\<close>

type_synonym 'a live = "live_tx \<Rightarrow> (string + 'a) \<times> live_tx"

definition live_bind :: "'a live \<Rightarrow> ('a \<Rightarrow> 'b live) \<Rightarrow> 'b live" where
  "live_bind m f tx = (case m tx of (Inl e, tx) \<Rightarrow> (Inl e, tx) | (Inr x, tx) \<Rightarrow> f x tx)"

definition live_return :: "'a \<Rightarrow> 'a live" where
  "live_return x tx = (Inr x, tx)"

definition live_result :: "'a result \<Rightarrow> 'a live" where
  "live_result r tx = (case r of Inl e \<Rightarrow> (Inl (error_text e), tx) | Inr x \<Rightarrow> (Inr x, tx))"

definition live_read :: "(live_db \<Rightarrow> 'a) \<Rightarrow> 'a live" where
  "live_read q tx = (if lt_aborted tx then (Inl ''current transaction is aborted'', tx) else (Inr (q (lt_db tx)), tx))"

definition live_write :: "live_server \<Rightarrow> live_statement \<Rightarrow> unit live" where
  "live_write srv st tx =
     (if lt_aborted tx then (Inl ''current transaction is aborted'', tx)
      else (case srv st of
          Accepted \<Rightarrow> (Inr (), tx\<lparr>lt_db := apply_live st (lt_db tx)\<rparr>)
        | Client_Error e \<Rightarrow> (Inl e, tx)
        | Server_Error e \<Rightarrow> (Inl e, tx\<lparr>lt_aborted := True\<rparr>)))"

fun live_writes :: "live_server \<Rightarrow> live_statement list \<Rightarrow> unit live" where
  "live_writes srv [] = live_return ()"
| "live_writes srv (st # sts) = live_bind (live_write srv st) (\<lambda>_. live_writes srv sts)"

text \<open>\<open>conn.commit()\<close>\<close>

definition commit :: "live_db \<Rightarrow> live_tx \<Rightarrow> live_db" where
  "commit before tx = (if lt_aborted tx then before else lt_db tx)"

subsection \<open>Is a new observation worth a row?\<close>

record live_env =
  le_sql :: sql_env
  le_now :: py_datetime
  le_iso :: string
  le_uuid_text :: "nat \<Rightarrow> string"
  le_rssi_delta :: rat
  le_heartbeat :: rat

definition same_text :: "string option \<Rightarrow> string option \<Rightarrow> bool" where
  "same_text l r \<longleftrightarrow> py_strip (or_empty l) = py_strip (or_empty r)"

definition same_int :: "int option \<Rightarrow> int option \<Rightarrow> bool" where
  "same_int l r \<longleftrightarrow> l = r"

definition rssi_changed :: "rat \<Rightarrow> rat option \<Rightarrow> rat option \<Rightarrow> bool" where
  "rssi_changed delta previous current = (case (previous, current) of
     (None, None) \<Rightarrow> False | (Some p, Some c) \<Rightarrow> delta \<le> abs (c - p) | _ \<Rightarrow> True)"

definition heartbeat_due :: "rat \<Rightarrow> rat \<Rightarrow> py_datetime \<Rightarrow> bool" where
  "heartbeat_due heartbeat previous current \<longleftrightarrow> heartbeat \<le> utc_seconds current - previous"

definition column_text :: "(string \<times> sqlval) list \<Rightarrow> string \<Rightarrow> string option" where
  "column_text cs k = (case column cs k of SqlText s \<Rightarrow> Some s | _ \<Rightarrow> None)"

definition column_int :: "(string \<times> sqlval) list \<Rightarrow> string \<Rightarrow> int option" where
  "column_int cs k = (case column cs k of SqlInt n \<Rightarrow> Some n | _ \<Rightarrow> None)"

text \<open>The newest observation of the same device, session and place.\<close>

definition previous_observation ::
  "nat option \<Rightarrow> string option \<Rightarrow> string \<Rightarrow> device_observation list \<Rightarrow> device_observation option" where
  "previous_observation session location mac obs =
     (case sort_key (\<lambda>ob. - ob_at ob) (filter (\<lambda>ob. ob_mac ob = mac \<and> ob_session ob = session \<and> ob_location_name ob = location) obs) of
        [] \<Rightarrow> None | ob # _ \<Rightarrow> Some ob)"

definition wifi_history_needed ::
  "live_env \<Rightarrow> nat option \<Rightarrow> string option \<Rightarrow> string \<Rightarrow> wifi_row \<Rightarrow> device_observation list \<Rightarrow> bool" where
  "wifi_history_needed le session location bssid f obs =
     (case previous_observation session location bssid obs of
        None \<Rightarrow> True
      | Some p \<Rightarrow> let text' = column_text (ob_columns p) in
          heartbeat_due (le_heartbeat le) (ob_at p) (wr_observed_at f)
          \<or> rssi_changed (le_rssi_delta le) (coalesce (ob_signal_dbm p) (ob_rssi_dbm p)) (wr_signal_dbm f)
          \<or> \<not> (same_text (text' ''ssid'') (wr_ssid f) \<and> same_int (ob_channel p) (wr_channel f)
               \<and> same_int (ob_frequency_hz p) (wr_frequency_hz f) \<and> same_text (text' ''encryption'') (wr_encryption f)
               \<and> same_text (text' ''device_type'') (Some (wr_device_type f))
               \<and> same_text (text' ''stable_identity'') (wr_stable_identity f)
               \<and> same_text (text' ''identity_confidence'') (Some (wr_identity_confidence f))))"

definition bluetooth_history_needed ::
  "live_env \<Rightarrow> nat option \<Rightarrow> string option \<Rightarrow> string \<Rightarrow> bluetooth_row \<Rightarrow> device_observation list \<Rightarrow> bool" where
  "bluetooth_history_needed le session location mac f obs =
     (case previous_observation session location mac obs of
        None \<Rightarrow> True
      | Some p \<Rightarrow> let text' = column_text (ob_columns p); m = br_vendor_meta f in
          heartbeat_due (le_heartbeat le) (ob_at p) (br_observed_at f)
          \<or> rssi_changed (le_rssi_delta le) (ob_rssi_dbm p) (br_rssi_dbm f)
          \<or> \<not> (same_text (text' ''device_name'') (br_device_name f) \<and> same_text (text' ''vendor'') (vm_vendor m)
               \<and> sort (ob_service_uuids p) = sort (br_service_uuids f)
               \<and> same_text (text' ''address_type'') (br_address_type f)
               \<and> same_text (text' ''bluetooth_type'') (Some (br_bluetooth_type f))
               \<and> same_text (text' ''vendor_resolution_method'') (Some (vm_method m))
               \<and> same_text (text' ''vendor_confidence'') (Some (vm_confidence m))
               \<and> same_int (column_int (ob_columns p) ''bluetooth_company_id'') (vm_company_id m)
               \<and> same_text (text' ''manufacturer_data_hash'') (vm_manufacturer_hash m)
               \<and> same_text (text' ''stable_identity'') (br_stable_identity f)
               \<and> same_text (text' ''identity_confidence'') (Some (br_identity_confidence f))))"

subsection \<open>Whose vendor wins\<close>

definition vendor_rank :: "string option \<Rightarrow> nat" where
  "vendor_rank m = (let t = py_lower (py_strip (or_empty m)) in
     if t = ''bluetooth_company_id'' then 4 else if t = ''bettercap'' then 3 else if t = ''kismet'' then 2
     else if t = ''oui'' then 1 else 0)"

definition vendor_method :: "known_device \<Rightarrow> string option" where
  "vendor_method d = column_text (kd_columns d) ''vendor_resolution_method''"

text \<open>\<open>_merge_bluetooth_vendor_fields\<close> on the row to be written: a lower rank keeps the stored vendor columns.\<close>

definition keep_vendor :: "known_device \<Rightarrow> known_device \<Rightarrow> known_device" where
  "keep_vendor old d = d\<lparr>kd_vendor := kd_vendor old, kd_company_id := kd_company_id old,
     kd_manufacturer_hash := kd_manufacturer_hash old,
     kd_columns := map (\<lambda>(k, v). (k, if k \<in> {''vendor_resolution_method'', ''vendor_confidence''}
        then column (kd_columns old) k else v)) (kd_columns d)\<rparr>"

definition merge_vendor_fields :: "known_device \<Rightarrow> known_device list \<Rightarrow> known_device" where
  "merge_vendor_fields d rows =
     (case filter (\<lambda>r. kd_mac r = kd_mac d) rows of
        [] \<Rightarrow> d
      | old # _ \<Rightarrow> if vendor_rank (vendor_method old) \<le> vendor_rank (vendor_method d) then d else keep_vendor old d)"

subsection \<open>Changes of an access point\<close>

definition json_text :: "string option \<Rightarrow> pyval" where
  "json_text v = (case v of None \<Rightarrow> PNone | Some s \<Rightarrow> PStr s)"

definition json_int :: "int option \<Rightarrow> pyval" where
  "json_int v = (case v of None \<Rightarrow> PNone | Some n \<Rightarrow> PInt n)"

definition json_rat :: "rat option \<Rightarrow> pyval" where
  "json_rat v = (case v of None \<Rightarrow> PNone | Some r \<Rightarrow> PFloat (Fin r))"

record security_alert =
  sa_type :: string
  sa_severity :: string
  sa_confidence :: string
  sa_message :: string
  sa_dedup :: string
  sa_common :: row

definition common_evidence :: "string \<Rightarrow> wifi_row \<Rightarrow> row" where
  "common_evidence bssid f =
     [(''suspected_transmitter_mac'', PStr bssid), (''destination_mac'', PNone), (''bssid'', PStr bssid),
      (''ssid'', json_text (wr_ssid f)), (''channel'', json_int (wr_channel f)),
      (''frequency_hz'', json_int (wr_frequency_hz f)), (''rssi_dbm'', json_rat (wr_signal_dbm f))]"

definition is_open_encryption :: "string \<Rightarrow> bool" where
  "is_open_encryption e \<longleftrightarrow> e \<in> {[], ''open'', ''none'', ''opn''}"

definition wifi_security_change_alerts :: "known_device option \<Rightarrow> wifi_row \<Rightarrow> string \<Rightarrow> security_alert list" where
  "wifi_security_change_alerts previous f bssid =
     (let encryption = py_lower (py_strip (or_empty (wr_encryption f))); common = common_evidence bssid f in
      case previous of
        None \<Rightarrow> if is_open_encryption encryption then
          [\<lparr>sa_type = ''new_open_ap'', sa_severity = ''warning'',
            sa_confidence = (if mac_is_locally_administered (Some bssid) then ''low'' else ''medium''),
            sa_message = ''Uj, titkositas nelkuli AP jelent meg: '' @ (if truthy (wr_ssid f) then or_empty (wr_ssid f) else bssid),
            sa_dedup = ''wifi_security:new_open_ap:'' @ bssid, sa_common = common\<rparr>] else []
      | Some p \<Rightarrow>
         (let old_encryption = py_lower (py_strip (or_empty (kd_encryption p)));
              old_ssid = py_strip (or_empty (kd_ssid p)); ssid = py_strip (or_empty (wr_ssid f)) in
          (if old_encryption \<noteq> [] \<and> encryption \<noteq> [] \<and> old_encryption \<noteq> encryption then
             [\<lparr>sa_type = ''ap_security_changed'', sa_severity = (if is_open_encryption encryption then ''warning'' else ''info''),
               sa_confidence = ''high'',
               sa_message = ''Ismert AP ('' @ bssid @ '') titkositasa megvaltozott: '' @ old_encryption @ '' -> '' @ encryption,
               sa_dedup = ''wifi_security:ap_security_changed:'' @ bssid @ '':'' @ encryption, sa_common = common\<rparr>] else [])
          @ (if old_ssid \<noteq> [] \<and> ssid \<noteq> [] \<and> old_ssid \<noteq> ssid then
             [\<lparr>sa_type = ''bssid_fingerprint_changed'', sa_severity = ''warning'', sa_confidence = ''medium'',
               sa_message = ''Azonos BSSID ('' @ bssid @ '') mas SSID-vel jelent meg: '' @ old_ssid @ '' -> '' @ ssid,
               sa_dedup = ''wifi_security:bssid_fingerprint_changed:'' @ bssid @ '':'' @ ssid, sa_common = common\<rparr>] else [])))"

text \<open>The row \<open>_upsert_wifi_security_alert\<close> writes; its identifier is drawn when it is inserted.\<close>

definition wifi_security_alert ::
  "live_env \<Rightarrow> string \<Rightarrow> string \<Rightarrow> string \<Rightarrow> string option \<Rightarrow> row \<Rightarrow> string \<Rightarrow> py_datetime \<Rightarrow> string \<Rightarrow> string option \<Rightarrow> alert" where
  "wifi_security_alert le severity alert_type message entity metadata dedup observed source session =
     new_alert 0 severity source alert_type message entity metadata ''wifi_security'' dedup (utc_seconds observed) None session"

definition change_alert :: "live_env \<Rightarrow> nat option \<Rightarrow> string \<Rightarrow> wifi_row \<Rightarrow> security_alert \<Rightarrow> alert" where
  "change_alert le session bssid f a = wifi_security_alert le (sa_severity a) (sa_type a) (sa_message a) (Some bssid)
     ([(''alert_type'', PStr (sa_type a)), (''severity'', PStr (sa_severity a)), (''confidence'', PStr (sa_confidence a)),
       (''message'', PStr (sa_message a)), (''dedup_key'', PStr (sa_dedup a))] @ sa_common a
      @ [(''kismet_live_device_change'', PBool True)])
     (sa_dedup a) (wr_observed_at f) ''kismet_live_api'' (map_option (le_uuid_text le) session)"

subsection \<open>One row\<close>

record live_context =
  lc_session :: "nat option"
  lc_location_name :: string
  lc_location :: nat
  lc_source_id :: "nat option"
  lc_source_name :: string
  lc_url :: pyval
  lc_fetched_at :: pyval

datatype live_outcome = Stored protocol | Suppressed protocol | Rejected string

definition live_metadata :: "live_context \<Rightarrow> sqlval" where
  "live_metadata lc = SqlJson (PDict [(''source_url'', lc_url lc), (''fetched_at'', lc_fetched_at lc)])"

definition live_wifi_device :: "live_env \<Rightarrow> live_context \<Rightarrow> string \<Rightarrow> wifi_row \<Rightarrow> known_device" where
  "live_wifi_device le lc bssid f =
     \<lparr>kd_mac = bssid, kd_name = None, kd_ssid = wr_ssid f, kd_vendor = wr_vendor f, kd_encryption = wr_encryption f,
      kd_device_type = Some (wr_device_type f), kd_bluetooth_type = None, kd_company_id = None,
      kd_manufacturer_hash = None, kd_stable_identity = wr_stable_identity f,
      kd_identity_confidence = Some (wr_identity_confidence f), kd_first_seen = Some (utc_seconds (wr_first_seen f)),
      kd_last_seen = Some (utc_seconds (wr_last_seen f)), kd_columns = [],
      kd_metadata = [(''last_source'', PStr (lc_source_name lc)), (''last_kismet_live_import'', PStr (le_iso le))]\<rparr>"

definition live_wifi_observation :: "live_context \<Rightarrow> row \<Rightarrow> string \<Rightarrow> wifi_row \<Rightarrow> device_observation" where
  "live_wifi_observation lc row bssid f =
     \<lparr>ob_mac = bssid, ob_location_name = Some (lc_location_name lc), ob_session = lc_session lc,
      ob_at = utc_seconds (wr_observed_at f), ob_channel = wr_channel f, ob_frequency_hz = wr_frequency_hz f,
      ob_signal_dbm = wr_signal_dbm f, ob_rssi_dbm = wr_signal_dbm f, ob_service_uuids = [],
      ob_location_id = Some (lc_location lc), ob_source_type = Some ''kismet'',
      ob_columns = [(''source_id'', nullable (\<lambda>i. SqlInt (int i)) (lc_source_id lc)),
        (''source_name'', SqlText (lc_source_name lc)), (''ssid'', nullable SqlText (wr_ssid f)),
        (''noise_dbm'', nullable SqlReal (wr_noise_dbm f)), (''encryption'', nullable SqlText (wr_encryption f)),
        (''device_type'', SqlText (wr_device_type f)), (''stable_identity'', nullable SqlText (wr_stable_identity f)),
        (''identity_confidence'', SqlText (wr_identity_confidence f)),
        (''packet_count'', nullable SqlInt (wr_packet_count f)), (''observation_count'', SqlInt 1),
        (''capture_source'', SqlText (lc_source_name lc)), (''raw_payload'', SqlJson (PDict row)),
        (''metadata'', live_metadata lc)]\<rparr>"

definition live_bluetooth_device :: "live_env \<Rightarrow> live_context \<Rightarrow> string \<Rightarrow> string \<Rightarrow> bluetooth_row \<Rightarrow> known_device" where
  "live_bluetooth_device le lc import_key mac f = (let m = br_vendor_meta f in
     \<lparr>kd_mac = mac, kd_name = br_device_name f, kd_ssid = None, kd_vendor = vm_vendor m,
      kd_encryption = None, kd_device_type = None, kd_bluetooth_type = Some (br_bluetooth_type f),
      kd_company_id = vm_company_id m, kd_manufacturer_hash = vm_manufacturer_hash m,
      kd_stable_identity = br_stable_identity f, kd_identity_confidence = Some (br_identity_confidence f),
      kd_first_seen = Some (utc_seconds (br_first_seen f)), kd_last_seen = Some (utc_seconds (br_last_seen f)),
      kd_columns = [(''address_type'', nullable SqlText (br_address_type f)),
        (''vendor_resolution_method'', SqlText (vm_method m)), (''vendor_confidence'', SqlText (vm_confidence m))],
      kd_metadata = [(''last_source'', PStr (lc_source_name lc)), (import_key, PStr (le_iso le))]\<rparr>)"

definition live_bluetooth_observation :: "live_context \<Rightarrow> string \<Rightarrow> row \<Rightarrow> string \<Rightarrow> bluetooth_row \<Rightarrow> device_observation" where
  "live_bluetooth_observation lc source_type row mac f =
     \<lparr>ob_mac = mac, ob_location_name = Some (lc_location_name lc), ob_session = lc_session lc,
      ob_at = utc_seconds (br_observed_at f), ob_channel = None, ob_frequency_hz = None,
      ob_signal_dbm = None, ob_rssi_dbm = br_rssi_dbm f, ob_service_uuids = br_service_uuids f,
      ob_location_id = Some (lc_location lc), ob_source_type = Some source_type,
      ob_columns = [(''source_id'', nullable (\<lambda>i. SqlInt (int i)) (lc_source_id lc)),
        (''source_name'', SqlText (lc_source_name lc)), (''device_name'', nullable SqlText (br_device_name f)),
        (''service_uuid'', first_uuid f), (''vendor'', nullable SqlText (vm_vendor (br_vendor_meta f))),
        (''address_type'', nullable SqlText (br_address_type f)), (''bluetooth_type'', SqlText (br_bluetooth_type f)),
        (''vendor_resolution_method'', SqlText (vm_method (br_vendor_meta f))),
        (''vendor_confidence'', SqlText (vm_confidence (br_vendor_meta f))),
        (''bluetooth_company_id'', nullable SqlInt (vm_company_id (br_vendor_meta f))),
        (''manufacturer_data_hash'', nullable SqlText (vm_manufacturer_hash (br_vendor_meta f))),
        (''stable_identity'', nullable SqlText (br_stable_identity f)),
        (''identity_confidence'', SqlText (br_identity_confidence f)),
        (''observation_count'', SqlInt (br_observation_count f)), (''capture_source'', SqlText (lc_source_name lc)),
        (''raw_payload'', SqlJson (PDict row)), (''metadata'', live_metadata lc)]\<rparr>"

definition wifi_devices :: "live_db \<Rightarrow> known_device list" where
  "wifi_devices db = db_wifi_devices (im_devices (lv_imports db))"

definition bluetooth_devices :: "live_db \<Rightarrow> known_device list" where
  "bluetooth_devices db = db_bluetooth_devices (im_devices (lv_imports db))"

definition wifi_observations :: "live_db \<Rightarrow> device_observation list" where
  "wifi_observations db = db_wifi_observations (im_devices (lv_imports db))"

definition bluetooth_observations :: "live_db \<Rightarrow> device_observation list" where
  "bluetooth_observations db = db_bluetooth_observations (im_devices (lv_imports db))"

text \<open>The history is consulted, and the observation is stored or suppressed.\<close>

definition store_observation ::
  "live_server \<Rightarrow> protocol \<Rightarrow> (live_db \<Rightarrow> bool) \<Rightarrow> statement \<Rightarrow> live_outcome live" where
  "store_observation srv p needed st =
     live_bind (live_read needed) (\<lambda>n.
     if n then live_bind (live_write srv (Import_Statement st)) (\<lambda>_. live_return (Stored p))
     else live_return (Suppressed p))"

definition live_wifi_row ::
  "live_server \<Rightarrow> text_lib \<Rightarrow> live_env \<Rightarrow> live_context \<Rightarrow> row \<Rightarrow> live_outcome live" where
  "live_wifi_row srv lib le lc row =
     live_bind (live_result (normalize_kismet_row lib row (le_now le))) (\<lambda>f.
     case wr_bssid f of
       None \<Rightarrow> live_return (Rejected ''Hianyzo Wi-Fi BSSID/MAC cim.'')
     | Some bssid \<Rightarrow>
         live_bind (live_read (\<lambda>db. find (\<lambda>d. kd_mac d = bssid) (wifi_devices db))) (\<lambda>previous.
         live_bind (live_write srv (Import_Statement (Upsert_Wifi (live_wifi_device le lc bssid f)))) (\<lambda>_.
         live_bind (live_writes srv (map (\<lambda>a. Upsert_Alert (change_alert le (lc_session lc) bssid f a))
             (wifi_security_change_alerts previous f bssid))) (\<lambda>_.
         store_observation srv Wifi
           (\<lambda>db. wifi_history_needed le (lc_session lc) (Some (lc_location_name lc)) bssid f (wifi_observations db))
           (Insert_Wifi (live_wifi_observation lc row bssid f))))))"

definition live_bluetooth_row ::
  "live_server \<Rightarrow> live_env \<Rightarrow> live_context \<Rightarrow> string \<Rightarrow> string \<Rightarrow> row \<Rightarrow> bluetooth_row \<Rightarrow> live_outcome live" where
  "live_bluetooth_row srv le lc import_key source_type row f =
     (case br_mac f of
       None \<Rightarrow> live_return (Rejected ''Hianyzo Bluetooth MAC cim.'')
     | Some mac \<Rightarrow>
         live_bind (live_read (\<lambda>db. merge_vendor_fields (live_bluetooth_device le lc import_key mac f) (bluetooth_devices db))) (\<lambda>d.
         live_bind (live_write srv (Upsert_Live_Bluetooth d)) (\<lambda>_.
         store_observation srv Bluetooth
           (\<lambda>db. bluetooth_history_needed le (lc_session lc) (Some (lc_location_name lc)) mac f (bluetooth_observations db))
           (Insert_Bluetooth (live_bluetooth_observation lc source_type row mac f)))))"

definition kismet_live_row ::
  "live_server \<Rightarrow> text_lib \<Rightarrow> live_env \<Rightarrow> live_context \<Rightarrow> row \<Rightarrow> live_outcome live" where
  "kismet_live_row srv lib le lc row =
     (if is_kismet_bluetooth_row lib row then
        live_bind (live_result (normalize_kismet_bluetooth_row lib row (le_now le)))
          (live_bluetooth_row srv le lc ''last_kismet_live_import'' ''kismet'' row)
      else live_wifi_row srv lib le lc row)"

definition bettercap_live_row ::
  "live_server \<Rightarrow> text_lib \<Rightarrow> live_env \<Rightarrow> live_context \<Rightarrow> row \<Rightarrow> live_outcome live" where
  "bettercap_live_row srv lib le lc row =
     live_bind (live_result (normalize_bettercap_row lib row (le_now le)))
       (live_bluetooth_row srv le lc ''last_bettercap_live_import'' ''bettercap_ble'' row)"

subsection \<open>The loop over the rows\<close>

record live_run =
  lr_tx :: live_tx
  lr_wifi :: nat
  lr_bluetooth :: nat
  lr_suppressed_wifi :: nat
  lr_suppressed_bluetooth :: nat
  lr_skipped :: nat
  lr_errors :: "(nat \<times> string) list"

definition start_live :: "live_db \<Rightarrow> live_run" where
  "start_live db = \<lparr>lr_tx = \<lparr>lt_db = db, lt_aborted = False\<rparr>, lr_wifi = 0, lr_bluetooth = 0, lr_suppressed_wifi = 0,
     lr_suppressed_bluetooth = 0, lr_skipped = 0, lr_errors = []\<rparr>"

definition live_skip :: "nat \<Rightarrow> string \<Rightarrow> live_run \<Rightarrow> live_run" where
  "live_skip n message run = run\<lparr>lr_skipped := lr_skipped run + 1, lr_errors := lr_errors run @ [(n, message)]\<rparr>"

definition live_count :: "nat \<Rightarrow> live_outcome \<Rightarrow> live_run \<Rightarrow> live_run" where
  "live_count n outcome run = (case outcome of
     Stored Wifi \<Rightarrow> run\<lparr>lr_wifi := lr_wifi run + 1\<rparr>
   | Stored Bluetooth \<Rightarrow> run\<lparr>lr_bluetooth := lr_bluetooth run + 1\<rparr>
   | Suppressed Wifi \<Rightarrow> run\<lparr>lr_suppressed_wifi := lr_suppressed_wifi run + 1\<rparr>
   | Suppressed Bluetooth \<Rightarrow> run\<lparr>lr_suppressed_bluetooth := lr_suppressed_bluetooth run + 1\<rparr>
   | Rejected message \<Rightarrow> live_skip n message run)"

definition live_step :: "(row \<Rightarrow> live_outcome live) \<Rightarrow> string \<Rightarrow> nat \<times> pyval \<Rightarrow> live_run \<Rightarrow> live_run" where
  "live_step import_row not_object item run =
     (case item of
        (n, PDict row) \<Rightarrow> (case import_row row (lr_tx run) of
            (Inl e, tx) \<Rightarrow> live_skip n e (run\<lparr>lr_tx := tx\<rparr>)
          | (Inr outcome, tx) \<Rightarrow> live_count n outcome (run\<lparr>lr_tx := tx\<rparr>))
      | (n, _) \<Rightarrow> live_skip n not_object run)"

text \<open>The answer of an import; \<open>errors[:100]\<close> is reported.\<close>

record live_response =
  lp_location_name :: "string option"
  lp_session :: "nat option"
  lp_total :: nat
  lp_wifi :: nat
  lp_bluetooth :: nat
  lp_suppressed_wifi :: nat
  lp_suppressed_bluetooth :: nat
  lp_skipped :: nat
  lp_errors :: "(nat \<times> string) list"

definition empty_response :: live_response where
  "empty_response = \<lparr>lp_location_name = None, lp_session = None, lp_total = 0, lp_wifi = 0, lp_bluetooth = 0,
     lp_suppressed_wifi = 0, lp_suppressed_bluetooth = 0, lp_skipped = 0, lp_errors = []\<rparr>"

definition live_answer :: "live_context \<Rightarrow> nat \<Rightarrow> live_run \<Rightarrow> live_response" where
  "live_answer lc n run = \<lparr>lp_location_name = Some (lc_location_name lc), lp_session = lc_session lc, lp_total = n,
     lp_wifi = lr_wifi run, lp_bluetooth = lr_bluetooth run, lp_suppressed_wifi = lr_suppressed_wifi run,
     lp_suppressed_bluetooth = lr_suppressed_bluetooth run, lp_skipped = lr_skipped run, lp_errors = take 100 (lr_errors run)\<rparr>"

definition result_rows :: "row \<Rightarrow> string \<Rightarrow> pyval list" where
  "result_rows result key = (case dict_get result key of PList vs \<Rightarrow> vs | _ \<Rightarrow> [])"

text \<open>
  The common frame of the two device imports: the session and the source, the rows from number one,
  the commit. The statements before the rows are taken as accepted.
\<close>

definition import_live_rows ::
  "(live_context \<Rightarrow> row \<Rightarrow> live_outcome live) \<Rightarrow> string
     \<Rightarrow> (sql_env \<Rightarrow> nat option \<Rightarrow> string \<Rightarrow> session_db \<Rightarrow> (session_db \<times> nat option) result)
     \<Rightarrow> (string \<Rightarrow> nat option) \<Rightarrow> live_env \<Rightarrow> row \<Rightarrow> string option \<Rightarrow> string option \<Rightarrow> string \<Rightarrow> bool \<Rightarrow> live_db
     \<Rightarrow> (live_db \<times> live_response) result" where
  "import_live_rows import_row not_object ensure_source parse le result session_id location_name source_name allow db =
     (let rows = result_rows result ''devices'' in
      if rows = [] then Inr (db, empty_response)
      else and_then (resolve_import_session parse (le_sql le) session_id location_name allow (im_sessions (lv_imports db)))
        (\<lambda>(sdb, sid, lname, lid).
      and_then (ensure_source (le_sql le) sid source_name sdb) (\<lambda>(sdb, src).
      let lc = \<lparr>lc_session = sid, lc_location_name = lname, lc_location = lid, lc_source_id = src,
               lc_source_name = source_name, lc_url = dict_get result ''url'', lc_fetched_at = dict_get result ''fetched_at''\<rparr>;
          opened = on_imports (\<lambda>i. i\<lparr>im_sessions := sdb\<rparr>) db;
          run = fold (live_step (import_row lc) not_object) (enumerate 1 rows) (start_live opened) in
      Inr (commit db (lr_tx run), live_answer lc (length rows) run))))"

definition import_kismet_device_rows ::
  "live_server \<Rightarrow> text_lib \<Rightarrow> (string \<Rightarrow> nat option) \<Rightarrow> live_env \<Rightarrow> row \<Rightarrow> string option \<Rightarrow> string option \<Rightarrow> string \<Rightarrow> bool
     \<Rightarrow> live_db \<Rightarrow> (live_db \<times> live_response) result" where
  "import_kismet_device_rows srv lib parse le result session_id location_name source_name =
     import_live_rows (kismet_live_row srv lib le) ''Nem objektum tipusu Kismet sor.'' ensure_kismet_measurement_source
       parse le result session_id location_name (cleaned_source_name source_name ''kismet_live_api'')"

definition import_bettercap_ble_rows ::
  "live_server \<Rightarrow> text_lib \<Rightarrow> (string \<Rightarrow> nat option) \<Rightarrow> live_env \<Rightarrow> row \<Rightarrow> string option \<Rightarrow> string option \<Rightarrow> string \<Rightarrow> bool
     \<Rightarrow> live_db \<Rightarrow> (live_db \<times> live_response) result" where
  "import_bettercap_ble_rows srv lib parse le result session_id location_name source_name =
     import_live_rows (bettercap_live_row srv lib le) ''Nem objektum tipusu Bettercap BLE sor.'' ensure_bettercap_measurement_source
       parse le result session_id location_name (cleaned_source_name source_name ''bettercap_ble_live_api'')"

subsection \<open>Kismet's own alerts\<close>

definition alert_metadata :: "row \<Rightarrow> row \<Rightarrow> kismet_alert \<Rightarrow> row" where
  "alert_metadata result row a =
     [(''kismet_alert'', PBool True), (''source_url'', dict_get result ''url''), (''fetched_at'', dict_get result ''fetched_at''),
      (''suspected_transmitter_mac'', json_text (ka_source_mac a)), (''destination_mac'', json_text (ka_destination_mac a)),
      (''bssid'', json_text (ka_bssid a)), (''ssid'', json_text (ka_ssid a)), (''frame_type'', json_text (ka_frame_type a)),
      (''reason_code'', json_int (ka_reason_code a)), (''channel'', json_int (ka_channel a)),
      (''frequency_hz'', json_int (ka_frequency_hz a)), (''rssi_dbm'', json_rat (ka_rssi_dbm a)),
      (''confidence'', PStr (ka_confidence a)), (''event_count'', json_int (ka_event_count a)), (''raw_alert'', PDict row)]"

text \<open>Addresses come from \<open>parse_mac\<close> and are never empty.\<close>

definition frame_count_statements :: "text_lib \<Rightarrow> string option \<Rightarrow> kismet_alert \<Rightarrow> live_statement list" where
  "frame_count_statements lib bssid a =
     (case (bssid, coalesce (normalize_wifi_management_frame_type lib (json_text (ka_frame_type a)))
                     (normalize_wifi_management_frame_type lib (PStr (ka_alert_type a)))) of
        (Some mac, Some frame_type) \<Rightarrow>
          [Count_Frame mac frame_type (case ka_event_count a of Some n \<Rightarrow> if 0 < n then n else 1 | None \<Rightarrow> 1)]
      | _ \<Rightarrow> [])"

definition kismet_alert_row ::
  "live_server \<Rightarrow> text_lib \<Rightarrow> live_env \<Rightarrow> row \<Rightarrow> string option \<Rightarrow> row \<Rightarrow> live_outcome live" where
  "kismet_alert_row srv lib le result session row =
     live_bind (live_result (normalize_kismet_alert_row lib row (le_now le))) (\<lambda>a.
     let transmitter = coalesce (ka_bssid a) (ka_source_mac a) in
     live_bind (live_writes srv
       (Upsert_Alert (wifi_security_alert le (ka_severity a) (ka_alert_type a) (ka_message a)
          (coalesce transmitter (ka_destination_mac a)) (alert_metadata result row a) (ka_deduplication_key a)
          (ka_observed_at a) ''kismet_alert_api'' session)
        # frame_count_statements lib transmitter a)) (\<lambda>_. live_return (Stored Wifi)))"

text \<open>\<open>lp_wifi\<close> of the answer is the number of imported alerts.\<close>

definition import_kismet_alert_rows ::
  "live_server \<Rightarrow> text_lib \<Rightarrow> live_env \<Rightarrow> row \<Rightarrow> string option \<Rightarrow> live_db \<Rightarrow> live_db \<times> live_response" where
  "import_kismet_alert_rows srv lib le result session db =
     (let rows = result_rows result ''alerts'';
          run = fold (live_step (kismet_alert_row srv lib le result session) ''Nem objektum tipusu Kismet alert sor.'')
            (enumerate 1 rows) (start_live db) in
      (commit db (lr_tx run), empty_response\<lparr>lp_total := length rows, lp_wifi := lr_wifi run, lp_skipped := lr_skipped run,
         lp_errors := take 100 (lr_errors run)\<rparr>))"

subsection \<open>The state of the pollers\<close>

text \<open>\<open>KISMET_IMPORT_STATE\<close> and \<open>BETTERCAP_IMPORT_STATE\<close>; the locks run one import of a collector at a time.\<close>

record collector_state =
  st_last_poll :: "rat option"
  st_last_import :: "rat option"
  st_total :: pyval
  st_wifi :: nat
  st_bluetooth :: nat
  st_alerts :: nat
  st_suppressed_wifi :: nat
  st_suppressed_bluetooth :: nat
  st_skipped :: nat
  st_error :: "string option"

definition initial_collector_state :: collector_state where
  "initial_collector_state = \<lparr>st_last_poll = None, st_last_import = None, st_total = PInt 0, st_wifi = 0, st_bluetooth = 0,
     st_alerts = 0, st_suppressed_wifi = 0, st_suppressed_bluetooth = 0, st_skipped = 0, st_error = None\<rparr>"

text \<open>The error of a fetch is a text; \<open>now\<close> is the time of the poll, \<open>later\<close> of the end of the import.\<close>

definition fetch_error :: "row \<Rightarrow> string option" where
  "fetch_error result = (if dict_has result ''error'' then Some (case dict_get result ''error'' of PStr e \<Rightarrow> e | _ \<Rightarrow> []) else None)"

definition run_live_import ::
  "string \<Rightarrow> rat \<Rightarrow> rat \<Rightarrow> row \<Rightarrow> (live_db \<times> live_response) result \<Rightarrow> collector_state \<times> live_db
     \<Rightarrow> (collector_state \<times> live_db) \<times> live_response result" where
  "run_live_import label now later result imported s =
     (let (st, db) = s;
          st = st\<lparr>st_last_poll := Some now, st_total := (if dict_has result ''total_devices'' then dict_get result ''total_devices'' else PInt 0)\<rparr> in
      case fetch_error result of
        Some e \<Rightarrow> ((st\<lparr>st_error := Some e\<rparr>, db), Inl (HTTPException 503 (label @ '' API hiba: '' @ e)))
      | None \<Rightarrow> (case imported of
          Inl e \<Rightarrow> ((st\<lparr>st_error := Some (error_text e)\<rparr>, db), Inl e)
        | Inr (db', r) \<Rightarrow> ((st\<lparr>st_last_import := Some later, st_wifi := lp_wifi r, st_bluetooth := lp_bluetooth r,
            st_suppressed_wifi := lp_suppressed_wifi r, st_suppressed_bluetooth := lp_suppressed_bluetooth r,
            st_skipped := lp_skipped r, st_error := None\<rparr>, db'), Inr r)))"

definition run_kismet_live_import ::
  "live_server \<Rightarrow> text_lib \<Rightarrow> (string \<Rightarrow> nat option) \<Rightarrow> live_env \<Rightarrow> rat \<Rightarrow> rat \<Rightarrow> row \<Rightarrow> string option \<Rightarrow> string option \<Rightarrow> string \<Rightarrow> bool
     \<Rightarrow> collector_state \<times> live_db \<Rightarrow> (collector_state \<times> live_db) \<times> live_response result" where
  "run_kismet_live_import srv lib parse le now later result session_id location_name source_name allow s =
     run_live_import ''Kismet'' now later result
       (import_kismet_device_rows srv lib parse le result session_id location_name source_name allow (snd s)) s"

definition run_bettercap_live_import ::
  "live_server \<Rightarrow> text_lib \<Rightarrow> (string \<Rightarrow> nat option) \<Rightarrow> live_env \<Rightarrow> rat \<Rightarrow> rat \<Rightarrow> row \<Rightarrow> string option \<Rightarrow> string option \<Rightarrow> string \<Rightarrow> bool
     \<Rightarrow> collector_state \<times> live_db \<Rightarrow> (collector_state \<times> live_db) \<times> live_response result" where
  "run_bettercap_live_import srv lib parse le now later result session_id location_name source_name allow s =
     run_live_import ''Bettercap'' now later result
       (import_bettercap_ble_rows srv lib parse le result session_id location_name source_name allow (snd s)) s"

definition import_kismet_alerts ::
  "live_server \<Rightarrow> text_lib \<Rightarrow> live_env \<Rightarrow> row \<Rightarrow> string option \<Rightarrow> collector_state \<times> live_db
     \<Rightarrow> (collector_state \<times> live_db) \<times> live_response result" where
  "import_kismet_alerts srv lib le result session s =
     (let (st, db) = s in
      case fetch_error result of
        Some e \<Rightarrow> ((st\<lparr>st_error := Some e\<rparr>, db), Inl (HTTPException 503 (''Kismet alert API hiba: '' @ e)))
      | None \<Rightarrow> (let (db', r) = import_kismet_alert_rows srv lib le result session db in
          ((st\<lparr>st_alerts := lp_wifi r, st_error := None\<rparr>, db'), Inr r)))"

end
