(* ===== verification/Live_Properties.thy ===== *)
theory Live_Properties
  imports Live_Import
begin

section \<open>Properties of the live imports\<close>

text \<open>
  What a row of a live import may do is the contract \<open>live_importer\<close>, interpreted on the rows of both
  collectors; the accounting of an import, what a refused statement does to it, the priority of the
  vendors, and the suppression of repeated observations.
\<close>

subsection \<open>The contract of a row\<close>

definition same_observations :: "live_db \<Rightarrow> live_db \<Rightarrow> bool" where
  "same_observations a b \<longleftrightarrow> wifi_observations b = wifi_observations a \<and> bluetooth_observations b = bluetooth_observations a"

definition adds_one :: "'a list \<Rightarrow> 'a list \<Rightarrow> bool" where
  "adds_one xs ys \<longleftrightarrow> (\<exists>x. ys = xs @ [x])"

text \<open>What a row leaves behind: one observation when it says so, none otherwise.\<close>

definition observation_step :: "string + live_outcome \<Rightarrow> live_db \<Rightarrow> live_db \<Rightarrow> bool" where
  "observation_step r a b = (case r of
     Inr (Stored Wifi) \<Rightarrow> adds_one (wifi_observations a) (wifi_observations b) \<and> bluetooth_observations b = bluetooth_observations a
   | Inr (Stored Bluetooth) \<Rightarrow> adds_one (bluetooth_observations a) (bluetooth_observations b) \<and> wifi_observations b = wifi_observations a
   | _ \<Rightarrow> same_observations a b)"

definition skipped :: "string + live_outcome \<Rightarrow> bool" where
  "skipped r = (case r of Inl _ \<Rightarrow> True | Inr (Rejected _) \<Rightarrow> True | _ \<Rightarrow> False)"

lemma skipped_simps [simp]: "skipped (Inl e)" "skipped (Inr (Rejected m))" "\<not> skipped (Inr (Stored p))" "\<not> skipped (Inr (Suppressed p))"
  by (simp_all add: skipped_def)

locale live_importer =
  fixes import_row :: "row \<Rightarrow> live_outcome live"
  assumes effect: "import_row row tx = (r, tx') \<Longrightarrow> observation_step r (lt_db tx) (lt_db tx')"
    and aborted: "lt_aborted tx \<Longrightarrow> import_row row tx = (r, tx') \<Longrightarrow> tx' = tx \<and> skipped r"
begin

definition summary :: "live_db \<Rightarrow> nat \<Rightarrow> live_run \<Rightarrow> bool" where
  "summary db n run \<longleftrightarrow>
     lr_wifi run + lr_bluetooth run + lr_suppressed_wifi run + lr_suppressed_bluetooth run + lr_skipped run = n
     \<and> length (lr_errors run) = lr_skipped run
     \<and> length (wifi_observations (lt_db (lr_tx run))) = length (wifi_observations db) + lr_wifi run
     \<and> length (bluetooth_observations (lt_db (lr_tx run))) = length (bluetooth_observations db) + lr_bluetooth run
     \<and> take (length (wifi_observations db)) (wifi_observations (lt_db (lr_tx run))) = wifi_observations db
     \<and> take (length (bluetooth_observations db)) (bluetooth_observations (lt_db (lr_tx run))) = bluetooth_observations db"

lemma summary_start: "summary db 0 (start_live db)"
  by (simp add: summary_def start_live_def)

lemma summary_step: "summary db n run \<Longrightarrow> summary db (Suc n) (live_step import_row no item run)"
proof -
  assume s: "summary db n run"
  obtain k v where item: "item = (k, v)" by (cases item)
  show ?thesis
  proof (cases "\<exists>row. v = PDict row")
    case False
    then show ?thesis using s by (cases v) (auto simp: item live_step_def live_skip_def summary_def)
  next
    case True
    then obtain row where v: "v = PDict row" ..
    obtain r tx where run: "import_row row (lr_tx run) = (r, tx)" by (cases "import_row row (lr_tx run)")
    then have e: "observation_step r (lt_db (lr_tx run)) (lt_db tx)" by (rule effect)
    show ?thesis using s e run
      by (auto simp: item v live_step_def live_skip_def live_count_def summary_def observation_step_def same_observations_def
          adds_one_def split: sum.splits live_outcome.splits protocol.splits)
  qed
qed

lemma summary_fold: "summary db n run \<Longrightarrow> summary db (n + length items) (fold (live_step import_row no) items run)"
proof (induction items arbitrary: run n)
  case (Cons item items)
  show ?case using Cons.IH [OF summary_step [OF Cons.prems]] by simp
qed simp

text \<open>Once the transaction is aborted every row is skipped and nothing changes.\<close>

lemma aborted_step:
  assumes "lt_aborted (lr_tx run)"
  shows "lr_tx (live_step import_row no item run) = lr_tx run \<and> lr_skipped (live_step import_row no item run) = lr_skipped run + 1
    \<and> lr_wifi (live_step import_row no item run) = lr_wifi run \<and> lr_bluetooth (live_step import_row no item run) = lr_bluetooth run"
proof -
  obtain k v where item: "item = (k, v)" by (cases item)
  show ?thesis
  proof (cases "\<exists>row. v = PDict row")
    case False
    then show ?thesis by (cases v) (auto simp: item live_step_def live_skip_def)
  next
    case True
    then obtain row where v: "v = PDict row" ..
    obtain r tx where run: "import_row row (lr_tx run) = (r, tx)" by (cases "import_row row (lr_tx run)")
    with aborted [OF assms] have "tx = lr_tx run \<and> skipped r" by blast
    then show ?thesis using run
      by (auto simp: item v live_step_def live_skip_def live_count_def skipped_def split: sum.splits live_outcome.splits)
  qed
qed

lemma aborted_fold:
  "lt_aborted (lr_tx run) \<Longrightarrow> lr_tx (fold (live_step import_row no) items run) = lr_tx run
     \<and> lr_skipped (fold (live_step import_row no) items run) = lr_skipped run + length items
     \<and> lr_wifi (fold (live_step import_row no) items run) = lr_wifi run
     \<and> lr_bluetooth (fold (live_step import_row no) items run) = lr_bluetooth run"
proof (induction items arbitrary: run)
  case (Cons item items)
  show ?case using Cons.IH [of "live_step import_row no item run"] aborted_step [OF Cons.prems, of no item] Cons.prems by simp
qed simp

end

subsection \<open>The rows of the collectors\<close>

definition contract :: "live_outcome live \<Rightarrow> bool" where
  "contract m \<longleftrightarrow> (\<forall>tx r tx'. m tx = (r, tx') \<longrightarrow> observation_step r (lt_db tx) (lt_db tx')
     \<and> (lt_aborted tx \<longrightarrow> tx' = tx \<and> skipped r))"

definition quiet :: "'a live \<Rightarrow> bool" where
  "quiet m \<longleftrightarrow> (\<forall>tx r tx'. m tx = (r, tx') \<longrightarrow> same_observations (lt_db tx) (lt_db tx') \<and> (lt_aborted tx \<longrightarrow> tx' = tx))"

lemma same_observations_refl [simp]: "same_observations a a"
  by (simp add: same_observations_def)

lemma observation_step_after: "same_observations a b \<Longrightarrow> observation_step r b c \<Longrightarrow> observation_step r a c"
  by (auto simp: observation_step_def same_observations_def split: sum.splits live_outcome.splits protocol.splits)

lemma observation_step_Inl: "observation_step (Inl e) a b \<longleftrightarrow> same_observations a b"
  by (simp add: observation_step_def)

lemma contract_bind: "quiet m \<Longrightarrow> (\<And>x. contract (f x)) \<Longrightarrow> contract (live_bind m f)"
  unfolding contract_def
proof (intro allI impI)
  fix tx r tx'
  assume q: "quiet m" and f: "\<And>x. \<forall>tx r tx'. f x tx = (r, tx') \<longrightarrow> observation_step r (lt_db tx) (lt_db tx')
      \<and> (lt_aborted tx \<longrightarrow> tx' = tx \<and> skipped r)"
    and run: "live_bind m f tx = (r, tx')"
  obtain r1 tx1 where m: "m tx = (r1, tx1)" by (cases "m tx")
  then have s: "same_observations (lt_db tx) (lt_db tx1)" "lt_aborted tx \<longrightarrow> tx1 = tx" using q by (auto simp: quiet_def)
  show "observation_step r (lt_db tx) (lt_db tx') \<and> (lt_aborted tx \<longrightarrow> tx' = tx \<and> skipped r)"
  proof (cases r1)
    case (Inl e)
    then have "r = Inl e" "tx' = tx1" using run m by (auto simp: live_bind_def)
    then show ?thesis using s by (simp add: observation_step_Inl)
  next
    case (Inr x)
    then have "f x tx1 = (r, tx')" using run m by (simp add: live_bind_def)
    then have "observation_step r (lt_db tx1) (lt_db tx')" "lt_aborted tx1 \<longrightarrow> tx' = tx1 \<and> skipped r" using f by blast+
    then show ?thesis using s observation_step_after by auto
  qed
qed

lemma contract_reject: "contract (live_return (Rejected m))"
  by (simp add: contract_def live_return_def observation_step_def)

lemma quiet_basic: "quiet (live_return x)" "quiet (live_result e)" "quiet (live_read q)"
  by (auto simp: quiet_def live_return_def live_result_def live_read_def split: sum.splits if_splits)

lemma quiet_bind: "quiet m \<Longrightarrow> (\<And>x. quiet (f x)) \<Longrightarrow> quiet (live_bind m f)"
  unfolding quiet_def live_bind_def same_observations_def
  by (auto split: prod.splits sum.splits) metis+

text \<open>The statements that leave the observations alone.\<close>

fun quiet_statement :: "live_statement \<Rightarrow> bool" where
  "quiet_statement (Import_Statement (Insert_Wifi _)) = False"
| "quiet_statement (Import_Statement (Insert_Bluetooth _)) = False"
| "quiet_statement _ = True"

lemmas table_defs = wifi_observations_def bluetooth_observations_def wifi_devices_def bluetooth_devices_def
  on_imports_def on_devices_def upsert_wifi_def upsert_bluetooth_def

lemma quiet_apply: "quiet_statement st \<Longrightarrow> same_observations db (apply_live st db)"
  by (cases st rule: quiet_statement.cases) (auto simp: same_observations_def table_defs)

lemma quiet_write: "quiet_statement st \<Longrightarrow> quiet (live_write srv st)"
  using quiet_apply by (auto simp: quiet_def live_write_def split: if_splits verdict.splits)

lemma quiet_writes: "list_all quiet_statement sts \<Longrightarrow> quiet (live_writes srv sts)"
  by (induction sts) (auto intro: quiet_basic quiet_bind quiet_write)

lemma contract_store:
  "contract (store_observation srv Wifi needed (Insert_Wifi ob))"
  "contract (store_observation srv Bluetooth needed (Insert_Bluetooth ob))"
  by (auto simp: contract_def store_observation_def live_bind_def live_read_def live_write_def live_return_def
      observation_step_def same_observations_def adds_one_def table_defs split: if_splits verdict.splits sum.splits prod.splits)

lemma live_wifi_contract: "contract (live_wifi_row srv lib le lc row)"
  unfolding live_wifi_row_def
  by (auto intro!: contract_bind contract_reject contract_store quiet_basic quiet_write quiet_writes
      simp: list_all_iff split: option.split)

lemma live_bluetooth_contract: "contract (live_bluetooth_row srv le lc key ty row f)"
  unfolding live_bluetooth_row_def
  by (auto intro!: contract_bind contract_reject contract_store quiet_basic quiet_write split: option.split)

lemma kismet_live_contract: "contract (kismet_live_row srv lib le lc row)"
  by (auto simp: kismet_live_row_def intro: contract_bind quiet_basic live_bluetooth_contract live_wifi_contract)

lemma bettercap_live_contract: "contract (bettercap_live_row srv lib le lc row)"
  by (auto simp: bettercap_live_row_def intro: contract_bind quiet_basic live_bluetooth_contract)

interpretation kismet_rows: live_importer "kismet_live_row srv lib le lc" for srv lib le lc
  using kismet_live_contract [of srv lib le lc, unfolded contract_def] by unfold_locales blast+

interpretation bettercap_rows: live_importer "bettercap_live_row srv lib le lc" for srv lib le lc
  using bettercap_live_contract [of srv lib le lc, unfolded contract_def] by unfold_locales blast+

subsection \<open>What a statement may not undo\<close>

text \<open>\<open>keeps P m\<close>: running \<open>m\<close> does not lose \<open>P\<close> of the transaction.\<close>

definition keeps :: "(live_tx \<Rightarrow> bool) \<Rightarrow> 'a live \<Rightarrow> bool" where
  "keeps P m \<longleftrightarrow> (\<forall>tx r tx'. m tx = (r, tx') \<longrightarrow> P tx \<longrightarrow> P tx')"

lemma keeps_basic: "keeps P (live_return x)" "keeps P (live_result e)" "keeps P (live_read q)"
  by (auto simp: keeps_def live_return_def live_result_def live_read_def split: sum.splits if_splits)

lemma keeps_bind: "keeps P m \<Longrightarrow> (\<And>x. keeps P (f x)) \<Longrightarrow> keeps P (live_bind m f)"
  unfolding keeps_def live_bind_def by (fastforce split: prod.splits sum.splits)

lemma keeps_writes: "(\<And>st. st \<in> set sts \<Longrightarrow> keeps P (live_write srv st)) \<Longrightarrow> keeps P (live_writes srv sts)"
  by (induction sts) (auto intro: keeps_basic keeps_bind)

lemma keeps_store: "keeps P (live_write srv (Import_Statement st)) \<Longrightarrow> keeps P (store_observation srv p needed st)"
  by (auto simp: store_observation_def intro!: keeps_bind keeps_basic)

lemma keeps_wifi_row:
  assumes "\<And>d. keeps P (live_write srv (Import_Statement (Upsert_Wifi d)))" "\<And>a. keeps P (live_write srv (Upsert_Alert a))"
    and "\<And>ob. keeps P (live_write srv (Import_Statement (Insert_Wifi ob)))"
  shows "keeps P (live_wifi_row srv lib le lc row)"
  unfolding live_wifi_row_def
  by (auto intro!: keeps_bind keeps_basic keeps_store keeps_writes assms split: option.split)

lemma keeps_bluetooth_row:
  assumes "\<And>d. keeps P (live_write srv (Upsert_Live_Bluetooth d))"
    and "\<And>ob. keeps P (live_write srv (Import_Statement (Insert_Bluetooth ob)))"
  shows "keeps P (live_bluetooth_row srv le lc key ty row f)"
  unfolding live_bluetooth_row_def
  by (auto intro!: keeps_bind keeps_basic keeps_store assms split: option.split)

definition collector_row :: "(row \<Rightarrow> live_outcome live) \<Rightarrow> live_server \<Rightarrow> text_lib \<Rightarrow> live_env \<Rightarrow> live_context \<Rightarrow> bool" where
  "collector_row ir srv lib le lc \<longleftrightarrow> ir = kismet_live_row srv lib le lc \<or> ir = bettercap_live_row srv lib le lc"

lemma collector_row_keeps:
  assumes "collector_row ir srv lib le lc" "\<And>row. keeps P (live_wifi_row srv lib le lc row)"
    and "\<And>key ty row f. keeps P (live_bluetooth_row srv le lc key ty row f)"
  shows "keeps P (ir row)"
  using assms(1)
  by (auto simp: collector_row_def kismet_live_row_def bettercap_live_row_def intro!: keeps_bind keeps_basic assms(2,3))

lemma keeps_step: "(\<And>row. keeps P (ir row)) \<Longrightarrow> P (lr_tx run) \<Longrightarrow> P (lr_tx (live_step ir no item run))"
  unfolding keeps_def live_step_def live_skip_def live_count_def
  by (auto split: prod.splits pyval.splits sum.splits live_outcome.splits protocol.splits)

lemma keeps_fold: "(\<And>row. keeps P (ir row)) \<Longrightarrow> P (lr_tx run) \<Longrightarrow> P (lr_tx (fold (live_step ir no) items run))"
  by (induction items arbitrary: run) (simp_all add: keeps_step)

definition live_result_of ::
  "(row \<Rightarrow> live_outcome live) \<Rightarrow> string \<Rightarrow> pyval list \<Rightarrow> session_db \<Rightarrow> live_db \<Rightarrow> live_run" where
  "live_result_of ir no rows sdb db =
     fold (live_step ir no) (enumerate 1 rows) (start_live (on_imports (\<lambda>i. i\<lparr>im_sessions := sdb\<rparr>) db))"

lemma import_live_rows_cases:
  assumes "import_live_rows import_row no ensure parse le result sid lname sname allow db = Inr (db', r)"
  obtains (empty) "result_rows result ''devices'' = []" "db' = db" "r = empty_response"
  | (rows) lc sdb where "result_rows result ''devices'' \<noteq> []"
      "db' = commit db (lr_tx (live_result_of (import_row lc) no (result_rows result ''devices'') sdb db))"
      "r = live_answer lc (length (result_rows result ''devices'')) (live_result_of (import_row lc) no (result_rows result ''devices'') sdb db)"
  using assms unfolding import_live_rows_def Let_def live_result_of_def
  by (auto simp del: One_nat_def simp add: and_then_Inr_iff split: if_splits prod.splits)

lemma device_import_cases:
  assumes "import = import_kismet_device_rows \<or> import = import_bettercap_ble_rows"
    and "import srv lib parse le result sid lname sname allow db = Inr (db', r)"
  obtains (empty) "result_rows result ''devices'' = []" "db' = db" "r = empty_response"
  | (rows) ir no lc sdb where "collector_row ir srv lib le lc" "result_rows result ''devices'' \<noteq> []"
      "db' = commit db (lr_tx (live_result_of ir no (result_rows result ''devices'') sdb db))"
      "r = live_answer lc (length (result_rows result ''devices'')) (live_result_of ir no (result_rows result ''devices'') sdb db)"
proof -
  from assms obtain import_row no ensure source where i: "import_live_rows import_row no ensure parse le result sid lname source allow db = Inr (db', r)"
    and c: "\<And>lc. collector_row (import_row lc) srv lib le lc"
    by (auto simp: import_kismet_device_rows_def import_bettercap_ble_rows_def collector_row_def)
  show thesis
    using i
  proof (cases rule: import_live_rows_cases)
    case empty
    then show thesis by (rule that(1))
  next
    case (rows lc sdb)
    then show thesis by (intro that(2) [OF c])
  qed
qed

lemma collector_row_contract: "collector_row ir srv lib le lc \<Longrightarrow> live_importer ir"
  unfolding collector_row_def using kismet_rows.live_importer_axioms bettercap_rows.live_importer_axioms by blast

subsection \<open>Accounting\<close>

definition lenient :: "live_server \<Rightarrow> bool" where
  "lenient srv \<longleftrightarrow> (\<forall>st e. srv st \<noteq> Server_Error e)"

lemma lenient_write: "lenient srv \<Longrightarrow> keeps (\<lambda>tx. \<not> lt_aborted tx) (live_write srv st)"
  by (auto simp: lenient_def keeps_def live_write_def split: verdict.splits)

lemma lenient_rows: "lenient srv \<Longrightarrow> collector_row ir srv lib le lc \<Longrightarrow> keeps (\<lambda>tx. \<not> lt_aborted tx) (ir row)"
  by (erule collector_row_keeps) (simp_all add: keeps_wifi_row keeps_bluetooth_row lenient_write)

lemma keeps_result:
  assumes "\<And>row. keeps P (ir row)" "P \<lparr>lt_db = on_imports (\<lambda>i. i\<lparr>im_sessions := sdb\<rparr>) db, lt_aborted = False\<rparr>"
  shows "P (lr_tx (live_result_of ir no rows sdb db))"
  unfolding live_result_of_def by (rule keeps_fold [OF assms(1)]) (use assms(2) in \<open>simp add: start_live_def\<close>)

lemma lenient_result:
  assumes "lenient srv" "collector_row ir srv lib le lc"
  shows "\<not> lt_aborted (lr_tx (live_result_of ir no rows sdb db))"
  by (rule keeps_result [of "\<lambda>tx. \<not> lt_aborted tx", OF lenient_rows [OF assms]]) simp

lemma list_grows: "take (length xs) ys = xs \<Longrightarrow> length ys = length xs + n \<Longrightarrow> \<exists>zs. ys = xs @ zs \<and> length zs = n"
  by (intro exI [of _ "drop (length xs) ys"]) (metis append_take_drop_id length_drop diff_add_inverse)

lemma summary_result:
  assumes "collector_row ir srv lib le lc"
  shows "live_importer.summary db (length rows) (live_result_of ir no rows sdb db)"
proof -
  have i: "live_importer ir" by (rule collector_row_contract [OF assms])
  have "live_importer.summary db 0 (start_live (on_imports (\<lambda>i. i\<lparr>im_sessions := sdb\<rparr>) db))"
    by (simp add: live_importer.summary_def [OF i] start_live_def table_defs)
  from live_importer.summary_fold [OF i this, where no = no and items = "enumerate 1 rows"] show ?thesis by (simp add: live_result_of_def)
qed


text \<open>A server that checks the type of the channel column, and three rows of Kismet, the second with a channel it refuses.\<close>

definition sample_live_server :: live_server where
  "sample_live_server st = (case st of
     Import_Statement (Insert_Wifi ob) \<Rightarrow> if ob_mac ob = ''AA:BB:CC:DD:EE:02'' then Server_Error ''integer out of range'' else Accepted
   | _ \<Rightarrow> Accepted)"

definition sample_live_env :: live_env where
  "sample_live_env = \<lparr>le_sql = sample_env 5, le_now = \<lparr>aware = True, utc_seconds = 100\<rparr>, le_iso = ''now'', le_uuid_text = (\<lambda>_. ''id''),
     le_rssi_delta = 5, le_heartbeat = 60\<rparr>"

definition sample_live_db :: live_db where
  "sample_live_db = \<lparr>lv_imports = wd_db sample_world, lv_alerts = []\<rparr>"

definition sample_ap :: "string \<Rightarrow> pyval" where
  "sample_ap mac = PDict [(''bssid'', PStr mac), (''signal'', PInt (- 60))]"

definition sample_first_rows :: "pyval list" where
  "sample_first_rows = [sample_ap ''AA:BB:CC:DD:EE:01'', PNone]"

definition sample_live_result :: row where
  "sample_live_result = [(''devices'', PList (sample_first_rows @ [sample_ap ''AA:BB:CC:DD:EE:02'', sample_ap ''AA:BB:CC:DD:EE:03'']))]"

definition sample_live :: "live_server \<Rightarrow> (live_db \<times> live_response) result" where
  "sample_live srv = import_kismet_device_rows srv sample_lib (\<lambda>_. None) sample_live_env sample_live_result
     None (Some ''lab'') ''src'' False sample_live_db"

lemma sample_live_run: "\<exists>db' r. sample_live (\<lambda>_. Accepted) = Inr (db', r) \<and> lp_wifi r = 3 \<and> lp_skipped r = 1 \<and> lp_total r = 4"
proof -
  have "(case sample_live (\<lambda>_. Accepted) of Inl _ \<Rightarrow> False | Inr (_, r) \<Rightarrow> lp_wifi r = 3 \<and> lp_skipped r = 1 \<and> lp_total r = 4)"
    by code_simp
  then show ?thesis by (cases "sample_live (\<lambda>_. Accepted)") auto
qed


subsection \<open>A statement the server refuses\<close>

definition refuses_observations_of :: "string \<Rightarrow> live_server \<Rightarrow> bool" where
  "refuses_observations_of bssid srv \<longleftrightarrow>
     (\<forall>ob. ob_mac ob = bssid \<longrightarrow> (\<exists>e. srv (Import_Statement (Insert_Wifi ob)) = Server_Error e))
     \<and> (\<forall>st. srv st \<noteq> Accepted \<longrightarrow> (\<exists>ob. st = Import_Statement (Insert_Wifi ob) \<and> ob_mac ob = bssid))"

definition unseen :: "string \<Rightarrow> live_tx \<Rightarrow> bool" where
  "unseen bssid tx \<longleftrightarrow> lt_aborted tx \<or> (\<forall>ob\<in>set (wifi_observations (lt_db tx)). ob_mac ob \<noteq> bssid)"

lemma accepted_write: "srv st = Accepted \<Longrightarrow> \<not> lt_aborted tx \<Longrightarrow> live_write srv st tx = (Inr (), tx\<lparr>lt_db := apply_live st (lt_db tx)\<rparr>)"
  by (simp add: live_write_def)

lemma accepted_writes:
  "\<forall>st\<in>set sts. srv st = Accepted \<Longrightarrow> \<not> lt_aborted tx \<Longrightarrow> \<exists>tx'. live_writes srv sts tx = (Inr (), tx') \<and> \<not> lt_aborted tx'"
  by (induction sts arbitrary: tx) (simp_all add: live_return_def live_bind_def accepted_write)

lemma quiet_keeps_unseen: "quiet_statement st \<Longrightarrow> keeps (unseen bssid) (live_write srv st)"
  using quiet_write [of st srv] unfolding quiet_def keeps_def unseen_def same_observations_def by fastforce

lemma insert_keeps_unseen: "refuses_observations_of bssid srv \<Longrightarrow> keeps (unseen bssid) (live_write srv (Import_Statement (Insert_Wifi ob)))"
  by (cases "ob_mac ob = bssid")
     (auto simp: keeps_def live_write_def unseen_def refuses_observations_of_def table_defs split: verdict.splits if_splits)

lemma insert_bluetooth_keeps_unseen: "keeps (unseen bssid) (live_write srv (Import_Statement (Insert_Bluetooth ob)))"
  by (auto simp: keeps_def live_write_def unseen_def table_defs split: verdict.splits if_splits)

lemma rows_keep_unseen: "refuses_observations_of bssid srv \<Longrightarrow> collector_row ir srv lib le lc \<Longrightarrow> keeps (unseen bssid) (ir row)"
  by (erule collector_row_keeps)
     (simp_all add: keeps_wifi_row keeps_bluetooth_row quiet_keeps_unseen insert_keeps_unseen insert_bluetooth_keeps_unseen)

lemma live_wifi_observation_mac: "ob_mac (live_wifi_observation lc row bssid f) = bssid"
  by (simp add: live_wifi_observation_def)

lemma wifi_row_reaches_history:
  assumes "normalize_kismet_row lib row (le_now le) = Inr f" "wr_bssid f = Some bssid"
    and "\<And>st. quiet_statement st \<Longrightarrow> srv st = Accepted" "\<not> lt_aborted tx"
  obtains tx2 where "live_wifi_row srv lib le lc row tx = store_observation srv Wifi
      (\<lambda>db. wifi_history_needed le (lc_session lc) (Some (lc_location_name lc)) bssid f (wifi_observations db))
      (Insert_Wifi (live_wifi_observation lc row bssid f)) tx2"
    "\<not> lt_aborted tx2" "same_observations (lt_db tx) (lt_db tx2)"
proof -
  define previous where "previous = find (\<lambda>d. kd_mac d = bssid) (wifi_devices (lt_db tx))"
  define up where "up = Import_Statement (Upsert_Wifi (live_wifi_device le lc bssid f))"
  define tx1 where "tx1 = tx\<lparr>lt_db := apply_live up (lt_db tx)\<rparr>"
  define sts where "sts = map (\<lambda>a. Upsert_Alert (change_alert le (lc_session lc) bssid f a)) (wifi_security_change_alerts previous f bssid)"
  have ok: "srv up = Accepted" "\<forall>st\<in>set sts. srv st = Accepted" using assms(3) by (simp_all add: up_def sts_def)
  obtain tx2 where w: "live_writes srv sts tx1 = (Inr (), tx2)" "\<not> lt_aborted tx2"
    using accepted_writes [of sts srv tx1, OF ok(2)] assms(4) by (auto simp: tx1_def)
  have "same_observations (lt_db tx) (lt_db tx1)" using quiet_apply [of up "lt_db tx"] by (simp add: tx1_def up_def)
  moreover have "same_observations (lt_db tx1) (lt_db tx2)"
    using quiet_writes [of sts srv] w(1) by (auto simp: quiet_def sts_def list_all_iff)
  ultimately have o: "same_observations (lt_db tx) (lt_db tx2)" by (simp add: same_observations_def)
  have "live_wifi_row srv lib le lc row tx = store_observation srv Wifi
      (\<lambda>db. wifi_history_needed le (lc_session lc) (Some (lc_location_name lc)) bssid f (wifi_observations db))
      (Insert_Wifi (live_wifi_observation lc row bssid f)) tx2"
    unfolding live_wifi_row_def live_bind_def live_result_def live_read_def assms(1) sum.case prod.case
    using assms(2,4) w(1) accepted_write [of srv up tx, OF ok(1) assms(4)]
    by (simp add: previous_def [symmetric] sts_def [symmetric] up_def [symmetric] tx1_def [symmetric])
  from that [OF this w(2) o] show thesis .
qed

lemma refused_wifi_row:
  assumes "normalize_kismet_row lib row (le_now le) = Inr f" "wr_bssid f = Some bssid"
    and "refuses_observations_of bssid srv" "\<not> lt_aborted tx" "unseen bssid tx"
  shows "\<exists>e tx'. live_wifi_row srv lib le lc row tx = (Inl e, tx') \<and> lt_aborted tx'"
proof -
  have "srv st = Accepted" if "quiet_statement st" for st
    using assms(3) that unfolding refuses_observations_of_def by force
  from wifi_row_reaches_history [where srv = srv and lc = lc, OF assms(1,2) this assms(4)] obtain tx2 where
    row: "live_wifi_row srv lib le lc row tx = store_observation srv Wifi
      (\<lambda>db. wifi_history_needed le (lc_session lc) (Some (lc_location_name lc)) bssid f (wifi_observations db))
      (Insert_Wifi (live_wifi_observation lc row bssid f)) tx2" and w: "\<not> lt_aborted tx2"
    and o: "same_observations (lt_db tx) (lt_db tx2)" by blast
  have "filter (\<lambda>ob. ob_mac ob = bssid \<and> P ob) (wifi_observations (lt_db tx2)) = []" for P
    using assms(4,5) o by (auto simp: same_observations_def unseen_def filter_empty_conv)
  then have needed: "wifi_history_needed le (lc_session lc) (Some (lc_location_name lc)) bssid f (wifi_observations (lt_db tx2))"
    by (simp add: wifi_history_needed_def previous_observation_def sort_key_def)
  obtain e where "srv (Import_Statement (Insert_Wifi (live_wifi_observation lc row bssid f))) = Server_Error e"
    using assms(3) unfolding refuses_observations_of_def by (metis live_wifi_observation_mac)
  with needed w show ?thesis
    by (simp add: row store_observation_def live_bind_def live_read_def live_write_def)
qed

lemma refused_row_aborts:
  assumes "kismet_live_row srv lib le lc row = live_wifi_row srv lib le lc row" "unseen bssid (lr_tx run)"
    and "normalize_kismet_row lib row (le_now le) = Inr f" "wr_bssid f = Some bssid" "refuses_observations_of bssid srv"
  shows "lt_aborted (lr_tx (live_step (kismet_live_row srv lib le lc) no (n, PDict row) run))
    \<and> lr_wifi (live_step (kismet_live_row srv lib le lc) no (n, PDict row) run) = lr_wifi run
    \<and> lr_bluetooth (live_step (kismet_live_row srv lib le lc) no (n, PDict row) run) = lr_bluetooth run"
proof (cases "lt_aborted (lr_tx run)")
  case True
  from kismet_rows.aborted_step [OF this] True show ?thesis by simp
next
  case False
  from refused_wifi_row [OF assms(3,4,5) False assms(2), of lc]
  obtain e tx' where "live_wifi_row srv lib le lc row (lr_tx run) = (Inl e, tx')" "lt_aborted tx'" by blast
  then show ?thesis by (simp add: assms(1) live_step_def live_skip_def)
qed

lemma result_split:
  "live_result_of ir no (xs @ v # ys) sdb db =
     fold (live_step ir no) (enumerate (1 + length xs + 1) ys) (live_step ir no (1 + length xs, v) (live_result_of ir no xs sdb db))"
  by (simp add: live_result_of_def enumerate_append_eq)

lemma refused_result:
  assumes "\<not> is_kismet_bluetooth_row lib row" "normalize_kismet_row lib row (le_now le) = Inr f" "wr_bssid f = Some bssid"
    and "refuses_observations_of bssid srv" "\<forall>ob\<in>set (wifi_observations db). ob_mac ob \<noteq> bssid"
  shows "lt_aborted (lr_tx (live_result_of (kismet_live_row srv lib le lc) no (xs @ PDict row # ys) sdb db))
    \<and> lr_wifi (live_result_of (kismet_live_row srv lib le lc) no (xs @ PDict row # ys) sdb db)
        = lr_wifi (live_result_of (kismet_live_row srv lib le lc) no xs sdb db)
    \<and> lr_bluetooth (live_result_of (kismet_live_row srv lib le lc) no (xs @ PDict row # ys) sdb db)
        = lr_bluetooth (live_result_of (kismet_live_row srv lib le lc) no xs sdb db)"
proof -
  let ?ir = "kismet_live_row srv lib le lc"
  have "collector_row ?ir srv lib le lc" by (simp add: collector_row_def)
  from rows_keep_unseen [OF assms(4) this] have "unseen bssid (lr_tx (live_result_of ?ir no xs sdb db))"
    by (rule keeps_result) (use assms(5) in \<open>simp add: unseen_def table_defs\<close>)
  from refused_row_aborts [OF _ this assms(2,3,4), of lc no "1 + length xs"] assms(1)
  have "lt_aborted (lr_tx (live_step ?ir no (1 + length xs, PDict row) (live_result_of ?ir no xs sdb db)))
      \<and> lr_wifi (live_step ?ir no (1 + length xs, PDict row) (live_result_of ?ir no xs sdb db)) = lr_wifi (live_result_of ?ir no xs sdb db)
      \<and> lr_bluetooth (live_step ?ir no (1 + length xs, PDict row) (live_result_of ?ir no xs sdb db)) = lr_bluetooth (live_result_of ?ir no xs sdb db)"
    by (simp add: kismet_live_row_def fun_eq_iff)
  then show ?thesis unfolding result_split
    using kismet_rows.aborted_fold [of "live_step ?ir no (1 + length xs, PDict row) (live_result_of ?ir no xs sdb db)" srv lib le lc no
        "enumerate (1 + length xs + 1) ys"] by simp
qed

text \<open>Two answers of a collector that differ in their rows only are imported in the same context.\<close>

definition same_fetch :: "row \<Rightarrow> row \<Rightarrow> bool" where
  "same_fetch a b \<longleftrightarrow> dict_get a ''url'' = dict_get b ''url'' \<and> dict_get a ''fetched_at'' = dict_get b ''fetched_at''"

lemma import_live_rows_twice:
  assumes "import_live_rows import_row no ensure parse le result sid lname sname allow db = Inr (db', r)"
    and "import_live_rows import_row no ensure parse le result0 sid lname sname allow db = Inr (db0, r0)"
    and "same_fetch result result0" "result_rows result ''devices'' \<noteq> []"
  obtains lc sdb where "db' = commit db (lr_tx (live_result_of (import_row lc) no (result_rows result ''devices'') sdb db))"
      "r = live_answer lc (length (result_rows result ''devices'')) (live_result_of (import_row lc) no (result_rows result ''devices'') sdb db)"
      "lp_wifi r0 = lr_wifi (live_result_of (import_row lc) no (result_rows result0 ''devices'') sdb db)"
      "lp_bluetooth r0 = lr_bluetooth (live_result_of (import_row lc) no (result_rows result0 ''devices'') sdb db)"
proof (cases "result_rows result0 ''devices'' = []")
  case True
  from assms(1) show thesis
  proof (cases rule: import_live_rows_cases)
    case (rows lc sdb)
    have "r0 = empty_response" using assms(2) True by (simp add: import_live_rows_def)
    then show thesis by (intro that [OF rows(2,3)]) (simp_all add: True empty_response_def live_result_of_def start_live_def)
  qed (use assms(4) in simp)
next
  case False
  show thesis
    using assms(1,2,3) unfolding import_live_rows_def Let_def
    by (auto simp del: One_nat_def simp add: and_then_Inr_iff assms(4) False same_fetch_def live_answer_def
        live_result_of_def [symmetric] intro!: that)
qed

text \<open>
  A row the server refuses loses a whole live import, which is then reported as done. When the
  server refuses the observation of one access point that has none yet (a column out of its range, a
  character JSONB does not take), the transaction is aborted: nothing of the import is committed,
  the sessions it opened included. But the answer is a success, whose counts of stored rows are
  those of the rows before the refused one (of an import of those rows alone), and the other rows are
  reported as skipped. The imports of files put a savepoint around every row.\<close>

theorem refused_row_loses_live_import:
  assumes "refuses_observations_of bssid srv" "\<forall>ob\<in>set (wifi_observations db). ob_mac ob \<noteq> bssid"
    and "result_rows result ''devices'' = xs @ PDict row # ys" "\<not> is_kismet_bluetooth_row lib row"
    and "normalize_kismet_row lib row (le_now le) = Inr f" "wr_bssid f = Some bssid"
    and "import_kismet_device_rows srv lib parse le result sid lname sname allow db = Inr (db', r)"
    and "result_rows result0 ''devices'' = xs" "same_fetch result result0"
    and "import_kismet_device_rows srv lib parse le result0 sid lname sname allow db = Inr (db0, r0)"
  shows "db' = db \<and> lp_wifi r = lp_wifi r0 \<and> lp_bluetooth r = lp_bluetooth r0 \<and> lp_total r = length xs + 1 + length ys"
proof -
  from assms(3) have "result_rows result ''devices'' \<noteq> []" by simp
  from import_live_rows_twice [OF assms(7,10) [unfolded import_kismet_device_rows_def] assms(9) this] obtain lc sdb no where
    "db' = commit db (lr_tx (live_result_of (kismet_live_row srv lib le lc) no (result_rows result ''devices'') sdb db))"
      "r = live_answer lc (length (result_rows result ''devices'')) (live_result_of (kismet_live_row srv lib le lc) no (result_rows result ''devices'') sdb db)"
      "lp_wifi r0 = lr_wifi (live_result_of (kismet_live_row srv lib le lc) no (result_rows result0 ''devices'') sdb db)"
      "lp_bluetooth r0 = lr_bluetooth (live_result_of (kismet_live_row srv lib le lc) no (result_rows result0 ''devices'') sdb db)"
    by metis
  with refused_result [OF assms(4,5,6,1,2), of lc no xs ys sdb] show ?thesis
    by (simp add: commit_def live_answer_def assms(3,8))
qed

lemma sample_refused_run: "\<exists>db' r. sample_live sample_live_server = Inr (db', r) \<and> lp_wifi r = 1 \<and> lp_total r = 4"
proof -
  have "(case sample_live sample_live_server of Inl _ \<Rightarrow> False | Inr (_, r) \<Rightarrow> lp_wifi r = 1 \<and> lp_total r = 4)"
    by code_simp
  then show ?thesis by (cases "sample_live sample_live_server") auto
qed

definition sample_prefix_result :: row where
  "sample_prefix_result = [(''devices'', PList sample_first_rows)]"

definition sample_ap_row :: "string \<Rightarrow> row" where
  "sample_ap_row mac = [(''bssid'', PStr mac), (''signal'', PInt (- 60))]"

lemma sample_prefix_run: "is_ok (import_kismet_device_rows sample_live_server sample_lib (\<lambda>_. None) sample_live_env sample_prefix_result
     None (Some ''lab'') ''src'' False sample_live_db)"
  by code_simp

lemma sample_ap_normalised: "\<not> is_kismet_bluetooth_row sample_lib (sample_ap_row ''AA:BB:CC:DD:EE:02'')
  \<and> (case normalize_kismet_row sample_lib (sample_ap_row ''AA:BB:CC:DD:EE:02'') (le_now sample_live_env) of Inl _ \<Rightarrow> False
     | Inr f \<Rightarrow> wr_bssid f = Some ''AA:BB:CC:DD:EE:02'')"
  by code_simp

lemma refused_row_loses_live_import_witness:
  "\<exists>db' r. sample_live sample_live_server = Inr (db', r) \<and> lp_wifi r = 1 \<and> lp_total r = 4 \<and> db' = sample_live_db"
proof -
  obtain db' r where s: "sample_live sample_live_server = Inr (db', r)" "lp_wifi r = 1" "lp_total r = 4" using sample_refused_run by blast
  obtain db0 r0 where p: "import_kismet_device_rows sample_live_server sample_lib (\<lambda>_. None) sample_live_env sample_prefix_result
     None (Some ''lab'') ''src'' False sample_live_db = Inr (db0, r0)"
    using sample_prefix_run by (auto simp: is_ok_def split: sum.splits)
  obtain f where f: "normalize_kismet_row sample_lib (sample_ap_row ''AA:BB:CC:DD:EE:02'') (le_now sample_live_env) = Inr f"
      "wr_bssid f = Some ''AA:BB:CC:DD:EE:02''"
    using sample_ap_normalised by (auto split: sum.splits)
  have refuses: "refuses_observations_of ''AA:BB:CC:DD:EE:02'' sample_live_server"
    by (auto simp: refuses_observations_of_def sample_live_server_def split: live_statement.splits statement.splits)
  have unseen: "\<forall>ob\<in>set (wifi_observations sample_live_db). ob_mac ob \<noteq> ''AA:BB:CC:DD:EE:02''"
    by (simp add: table_defs sample_live_db_def sample_world_def)
  have rows: "result_rows sample_live_result ''devices'' = sample_first_rows @ PDict (sample_ap_row ''AA:BB:CC:DD:EE:02'')
      # [sample_ap ''AA:BB:CC:DD:EE:03'']" "result_rows sample_prefix_result ''devices'' = sample_first_rows"
      "same_fetch sample_live_result sample_prefix_result"
    by code_simp+
  have "db' = sample_live_db"
    by (rule refused_row_loses_live_import [OF refuses unseen rows(1) conjunct1 [OF sample_ap_normalised] f s(1) [unfolded sample_live_def] rows(2,3) p,
        THEN conjunct1])
  with s show ?thesis by blast
qed

subsection \<open>The vendor of a Bluetooth device\<close>

definition stored_rank :: "string \<Rightarrow> known_device list \<Rightarrow> nat" where
  "stored_rank mac rows = (case find (\<lambda>d. kd_mac d = mac) rows of None \<Rightarrow> 0 | Some d \<Rightarrow> vendor_rank (vendor_method d))"

lemma column_map: "k \<in> set (map fst cs) \<Longrightarrow> column (map (\<lambda>(k, v). (k, g k v)) cs) k = g k (column cs k)"
  by (induction cs) (auto simp: column_def)

lemma column_append: "k \<in> set (map fst cs) \<Longrightarrow> column (cs @ ds) k = column cs k"
  by (induction cs) (auto simp: column_def)

lemma keys_map: "map fst (map (\<lambda>(k, v). (k, g k v)) cs) = map fst cs"
  by (simp add: split_def)

lemma column_merged:
  assumes "k \<in> set (map fst new)"
  shows "column (merge_columns old new) k = (if column new k = SqlNull then column old k else column new k)"
proof -
  let ?m = "map (\<lambda>(k, v). (k, if v = SqlNull then column old k else v)) new"
  have "k \<in> set (map fst ?m)" unfolding keys_map by (rule assms)
  from column_append [OF this] have "column (merge_columns old new) k = column ?m k" unfolding merge_columns_def .
  also have "\<dots> = (if column new k = SqlNull then column old k else column new k)" by (rule column_map [OF assms])
  finally show ?thesis .
qed

lemma merged_method:
  assumes "''vendor_resolution_method'' \<in> set (map fst (kd_columns d))"
  shows "vendor_method (merge_live_bluetooth d old) =
    (if column (kd_columns d) ''vendor_resolution_method'' = SqlNull then vendor_method old else vendor_method d)"
  using assms by (simp add: vendor_method_def column_text_def merge_live_bluetooth_def column_merged)

lemma vendor_rank_None [simp]: "vendor_rank None = 0"
  by code_simp

lemma kept_method:
  assumes "''vendor_resolution_method'' \<in> set (map fst (kd_columns d))"
  shows "column (kd_columns (keep_vendor old d)) ''vendor_resolution_method'' = column (kd_columns old) ''vendor_resolution_method''"
    and "''vendor_resolution_method'' \<in> set (map fst (kd_columns (keep_vendor old d)))"
proof -
  let ?g = "\<lambda>k v. if k \<in> {''vendor_resolution_method'', ''vendor_confidence''} then column (kd_columns old) k else v"
  have c: "kd_columns (keep_vendor old d) = map (\<lambda>(k, v). (k, ?g k v)) (kd_columns d)" by (simp add: keep_vendor_def)
  show "''vendor_resolution_method'' \<in> set (map fst (kd_columns (keep_vendor old d)))" unfolding c keys_map by (rule assms)
  show "column (kd_columns (keep_vendor old d)) ''vendor_resolution_method'' = column (kd_columns old) ''vendor_resolution_method''"
    unfolding c by (subst column_map [OF assms]) simp
qed

lemma find_update_where:
  "(\<And>r. p r \<Longrightarrow> kd_mac (f r) = kd_mac r) \<Longrightarrow>
     find (\<lambda>d. kd_mac d = mac) (update_where p f rows) = map_option (\<lambda>d. if p d then f d else d) (find (\<lambda>d. kd_mac d = mac) rows)"
  by (induction rows) (auto simp: update_where_def)

lemma find_filter: "find p rows = (case filter p rows of [] \<Rightarrow> None | r # _ \<Rightarrow> Some r)"
  by (induction rows) auto

lemma find_holds: "find p xs = Some x \<Longrightarrow> p x"
  by (induction xs) (auto split: if_splits)

lemma rank_of_upsert:
  assumes "''vendor_resolution_method'' \<in> set (map fst (kd_columns d))"
  shows "stored_rank mac rows \<le> stored_rank mac (upsert_device merge_live_bluetooth (merge_vendor_fields d rows) rows)"
proof -
  let ?e = "merge_vendor_fields d rows"
  have mac: "kd_mac ?e = kd_mac d" by (simp add: merge_vendor_fields_def keep_vendor_def split: list.split)
  show ?thesis
  proof (cases "find (\<lambda>r. kd_mac r = kd_mac d) rows")
    case None
    then have "kd_mac d \<notin> set (map kd_mac rows)" by (auto simp: find_None_iff)
    then show ?thesis by (auto simp: upsert_device_def mac stored_rank_def find_filter split: list.split)
  next
    case (Some old)
    then have known: "kd_mac d \<in> set (map kd_mac rows)" using find_None_iff [of "\<lambda>r. kd_mac r = kd_mac d" rows] by (simp add: image_iff) metis
    from Some obtain more where old: "filter (\<lambda>r. kd_mac r = kd_mac d) rows = old # more"
      by (auto simp: find_filter split: list.splits)
    have e: "?e = (if vendor_rank (vendor_method old) \<le> vendor_rank (vendor_method d) then d else keep_vendor old d)"
      by (simp add: merge_vendor_fields_def old)
    have up: "vendor_rank (vendor_method old) \<le> vendor_rank (vendor_method (merge_live_bluetooth ?e old))"
      using kept_method(1) [OF assms, of old]
      by (simp add: e merged_method [OF assms] merged_method [OF kept_method(2) [OF assms]])
         (simp add: vendor_method_def column_text_def)
    have "find (\<lambda>r. kd_mac r = mac) (upsert_device merge_live_bluetooth ?e rows)
        = map_option (\<lambda>r. if kd_mac r = kd_mac d then merge_live_bluetooth ?e r else r) (find (\<lambda>r. kd_mac r = mac) rows)"
      using known by (simp add: upsert_device_def mac find_update_where merge_live_bluetooth_def)
    then show ?thesis using up Some by (cases "mac = kd_mac d") (auto simp: stored_rank_def dest: find_holds split: option.split)
  qed
qed

definition ranks_kept :: "live_db \<Rightarrow> live_tx \<Rightarrow> bool" where
  "ranks_kept db tx \<longleftrightarrow> (\<forall>mac. stored_rank mac (bluetooth_devices db) \<le> stored_rank mac (bluetooth_devices (lt_db tx)))"

lemma ranks_kept_same: "bluetooth_devices (apply_live st db') = bluetooth_devices db' \<Longrightarrow>
  ranks_kept db \<lparr>lt_db = apply_live st db', lt_aborted = b\<rparr> = ranks_kept db \<lparr>lt_db = db', lt_aborted = b\<rparr>"
  by (simp add: ranks_kept_def)

lemma ranks_kept_write:
  "(\<And>db'. bluetooth_devices (apply_live st db') = bluetooth_devices db') \<Longrightarrow> keeps (ranks_kept db) (live_write srv st)"
  by (auto simp: keeps_def live_write_def ranks_kept_def split: if_splits verdict.splits)

lemmas device_tables = bluetooth_devices_def table_defs

lemma ranks_kept_wifi_row: "keeps (ranks_kept db) (live_wifi_row srv lib le lc row)"
  by (intro keeps_wifi_row ranks_kept_write) (simp_all add: device_tables)

lemma ranks_kept_bluetooth_row: "keeps (ranks_kept db) (live_bluetooth_row srv le lc key ty row f)"
proof (cases "br_mac f")
  case None
  then show ?thesis by (simp add: live_bluetooth_row_def keeps_basic)
next
  case (Some mac)
  let ?d = "live_bluetooth_device le lc key mac f"
  have up: "ranks_kept db tx \<Longrightarrow>
      ranks_kept db (tx\<lparr>lt_db := apply_live (Upsert_Live_Bluetooth (merge_vendor_fields ?d (bluetooth_devices (lt_db tx)))) (lt_db tx)\<rparr>)" for tx
    using rank_of_upsert [of ?d] order_trans
    by (fastforce simp: ranks_kept_def device_tables live_bluetooth_device_def Let_def)
  have store: "keeps (ranks_kept db) (store_observation srv Bluetooth n (Insert_Bluetooth ob))" for n ob
    by (intro keeps_store ranks_kept_write) (simp add: device_tables)
  have step: "keeps (ranks_kept db) (live_bind (live_read (\<lambda>db. merge_vendor_fields ?d (bluetooth_devices db)))
      (\<lambda>d. live_write srv (Upsert_Live_Bluetooth d)))"
    using up by (auto simp: keeps_def live_bind_def live_read_def live_write_def split: if_splits verdict.splits)
       (auto simp: ranks_kept_def)
  have "live_bluetooth_row srv le lc key ty row f =
      live_bind (live_bind (live_read (\<lambda>db. merge_vendor_fields ?d (bluetooth_devices db)))
      (\<lambda>d. live_write srv (Upsert_Live_Bluetooth d))) (\<lambda>_. store_observation srv Bluetooth
           (\<lambda>db. bluetooth_history_needed le (lc_session lc) (Some (lc_location_name lc)) mac f (bluetooth_observations db))
           (Insert_Bluetooth (live_bluetooth_observation lc ty row mac f)))"
    unfolding live_bluetooth_row_def Some option.case
    by (auto simp: fun_eq_iff live_bind_def split: prod.split sum.split)
  then show ?thesis using keeps_bind [OF step store] by simp
qed

text \<open>
  C20: The vendor of a known Bluetooth device is never replaced by a worse source: over a live import
  of either collector, whatever the rows and whatever the server refuses, the rank of the stored
  resolution method (company identifier above Bettercap above Kismet above OUI above anything else)
  does not fall for any address.\<close>

theorem vendor_rank_never_falls:
  assumes "import = import_kismet_device_rows \<or> import = import_bettercap_ble_rows"
    and "import srv lib parse le result sid lname sname allow db = Inr (db', r)"
  shows "stored_rank mac (bluetooth_devices db) \<le> stored_rank mac (bluetooth_devices db')"
  using assms
proof (cases rule: device_import_cases)
  case (rows ir no lc sdb)
  have "ranks_kept db (lr_tx (live_result_of ir no (result_rows result ''devices'') sdb db))"
    by (rule keeps_result [OF collector_row_keeps [OF rows(1) ranks_kept_wifi_row ranks_kept_bluetooth_row]])
       (simp add: ranks_kept_def device_tables)
  then show ?thesis by (simp add: rows commit_def ranks_kept_def)
qed simp

definition set_method :: "string \<Rightarrow> known_device \<Rightarrow> known_device" where
  "set_method m d = d\<lparr>kd_columns := (''vendor_resolution_method'', SqlText m) # kd_columns d\<rparr>"

definition sample_ble_db :: live_db where
  "sample_ble_db = on_imports (on_devices (\<lambda>v. v\<lparr>db_bluetooth_devices :=
     [set_method ''bluetooth_company_id'' (bare_device ''AA:BB:CC:DD:EE:04'')]\<rparr>)) sample_live_db"

definition sample_ble_import :: "(live_db \<times> live_response) result" where
  "sample_ble_import = import_bettercap_ble_rows (\<lambda>_. Accepted) sample_lib (\<lambda>_. None) sample_live_env
     [(''devices'', PList [PDict [(''mac'', PStr ''AA:BB:CC:DD:EE:04''), (''vendor'', PStr ''Acme'')]])]
     None (Some ''lab'') ''src'' False sample_ble_db"

lemma sample_ble_run: "\<exists>db' r. sample_ble_import = Inr (db', r) \<and> lp_bluetooth r = 1"
proof -
  have "(case sample_ble_import of Inl _ \<Rightarrow> False | Inr (_, r) \<Rightarrow> lp_bluetooth r = 1)" by code_simp
  then show ?thesis by (auto split: sum.splits)
qed

lemma sample_ble_rank: "stored_rank ''AA:BB:CC:DD:EE:04'' (bluetooth_devices sample_ble_db) = 4"
  by code_simp

lemma vendor_rank_never_falls_witness:
  "\<exists>db' r. sample_ble_import = Inr (db', r) \<and> lp_bluetooth r = 1 \<and> 4 \<le> stored_rank ''AA:BB:CC:DD:EE:04'' (bluetooth_devices db')"
proof -
  obtain db' r where s: "sample_ble_import = Inr (db', r)" "lp_bluetooth r = 1" using sample_ble_run by blast
  from vendor_rank_never_falls [where import = import_bettercap_ble_rows, OF disjI2 [OF refl], OF s(1) [unfolded sample_ble_import_def],
      of "''AA:BB:CC:DD:EE:04''"] s show ?thesis unfolding sample_ble_rank by blast
qed

subsection \<open>Repetitions\<close>

text \<open>What the history compares of two normalised access points.\<close>

definition same_wifi :: "wifi_row \<Rightarrow> wifi_row \<Rightarrow> bool" where
  "same_wifi f g \<longleftrightarrow> wr_bssid f = wr_bssid g \<and> wr_ssid f = wr_ssid g \<and> wr_channel f = wr_channel g
     \<and> wr_frequency_hz f = wr_frequency_hz g \<and> wr_encryption f = wr_encryption g \<and> wr_device_type f = wr_device_type g
     \<and> wr_stable_identity f = wr_stable_identity g \<and> wr_identity_confidence f = wr_identity_confidence g"

definition close_level :: "rat \<Rightarrow> rat option \<Rightarrow> rat option \<Rightarrow> bool" where
  "close_level delta a b = (case (a, b) of (None, None) \<Rightarrow> True | (Some x, Some y) \<Rightarrow> \<bar>x - y\<bar> < delta | _ \<Rightarrow> False)"

lemma insort_key_all: "\<forall>x\<in>set xs. (f :: 'a \<Rightarrow> 'b :: linorder) p < f x \<Longrightarrow> insort_key f p xs = p # xs"
  by (cases xs) auto

lemma sort_key_append_newest:
  "\<forall>x\<in>set xs. (f :: 'a \<Rightarrow> 'b :: linorder) p < f x \<Longrightarrow> sort_key f (xs @ [p]) = p # sort_key f xs"
  by (induction xs) (auto simp: sort_key_def dest: leD)

lemma newest_last:
  assumes "\<forall>ob\<in>set obs. ob_mac ob = mac \<longrightarrow> ob_at ob < ob_at p" "ob_mac p = mac" "ob_session p = s" "ob_location_name p = l"
  shows "previous_observation s l mac (obs @ [p]) = Some p"
proof -
  let ?q = "\<lambda>ob. ob_mac ob = mac \<and> ob_session ob = s \<and> ob_location_name ob = l"
  have "\<forall>ob\<in>set (filter ?q obs). - ob_at p < - ob_at ob" using assms(1) by simp
  then have "sort_key (\<lambda>ob. - ob_at ob) (filter ?q obs @ [p]) = p # sort_key (\<lambda>ob. - ob_at ob) (filter ?q obs)"
    by (simp add: sort_key_append_newest)
  then show ?thesis using assms(2-4) by (simp add: previous_observation_def)
qed

lemma column_text_nullable: "(case nullable SqlText v of SqlText s \<Rightarrow> Some s | _ \<Rightarrow> None) = v"
  by (cases v) simp_all

lemma repeated_not_needed:
  assumes "same_wifi f g" "wr_bssid f = Some bssid" "close_level (le_rssi_delta le) (wr_signal_dbm f) (wr_signal_dbm g)"
    and "utc_seconds (wr_observed_at g) - utc_seconds (wr_observed_at f) < le_heartbeat le"
    and "\<forall>ob\<in>set obs. ob_mac ob = bssid \<longrightarrow> ob_at ob < utc_seconds (wr_observed_at f)"
  shows "\<not> wifi_history_needed le (lc_session lc) (Some (lc_location_name lc)) bssid g
           (obs @ [live_wifi_observation lc row bssid f])"
proof -
  let ?p = "live_wifi_observation lc row bssid f"
  have p: "previous_observation (lc_session lc) (Some (lc_location_name lc)) bssid (obs @ [?p]) = Some ?p"
    by (rule newest_last) (use assms(5) in \<open>simp_all add: live_wifi_observation_def\<close>)
  have columns: "column_text (ob_columns ?p) ''ssid'' = wr_ssid f" "column_text (ob_columns ?p) ''encryption'' = wr_encryption f"
      "column_text (ob_columns ?p) ''device_type'' = Some (wr_device_type f)" "column_text (ob_columns ?p) ''stable_identity'' = wr_stable_identity f"
      "column_text (ob_columns ?p) ''identity_confidence'' = Some (wr_identity_confidence f)"
    by (simp_all add: column_text_def column_def live_wifi_observation_def column_text_nullable)
  have other: "ob_channel ?p = wr_channel f" "ob_frequency_hz ?p = wr_frequency_hz f" "ob_at ?p = utc_seconds (wr_observed_at f)"
      "coalesce (ob_signal_dbm ?p) (ob_rssi_dbm ?p) = wr_signal_dbm f"
    by (simp_all add: live_wifi_observation_def coalesce_def split: option.split)
  have "\<not> rssi_changed (le_rssi_delta le) (wr_signal_dbm f) (wr_signal_dbm g)"
    using assms(3) by (auto simp: close_level_def rssi_changed_def abs_minus_commute split: option.splits)
  moreover have "\<not> heartbeat_due (le_heartbeat le) (utc_seconds (wr_observed_at f)) (wr_observed_at g)"
    using assms(4) by (simp add: heartbeat_due_def)
  ultimately show ?thesis using assms(1)
    by (simp add: wifi_history_needed_def p columns other Let_def same_wifi_def same_text_def same_int_def)
qed

lemma live_bind_Inr:
  "live_bind m f tx = (Inr x, tx') \<longleftrightarrow> (\<exists>y tx1. m tx = (Inr y, tx1) \<and> f y tx1 = (Inr x, tx'))"
  by (auto simp: live_bind_def split: prod.splits sum.splits)

lemma stored_observation:
  assumes "store_observation srv Wifi needed (Insert_Wifi ob) tx = (Inr (Stored Wifi), tx')"
  shows "wifi_observations (lt_db tx') = wifi_observations (lt_db tx) @ [ob] \<and> \<not> lt_aborted tx'"
  using assms
  by (auto simp: store_observation_def live_bind_Inr live_read_def live_write_def live_return_def table_defs split: if_splits verdict.splits)

lemma stored_wifi_tables:
  assumes "live_wifi_row srv lib le lc row tx = (Inr (Stored Wifi), tx')" "normalize_kismet_row lib row (le_now le) = Inr f"
    and "wr_bssid f = Some bssid"
  shows "wifi_observations (lt_db tx') = wifi_observations (lt_db tx) @ [live_wifi_observation lc row bssid f] \<and> \<not> lt_aborted tx'"
proof -
  from assms obtain previous sts u tx1 tx2 tx3 where
      r: "live_read (\<lambda>db. find (\<lambda>d. kd_mac d = bssid) (wifi_devices db)) tx = (Inr previous, tx1)"
    and u: "live_write srv (Import_Statement (Upsert_Wifi (live_wifi_device le lc bssid f))) tx1 = (Inr u, tx2)"
    and w: "live_writes srv (map (\<lambda>a. Upsert_Alert (change_alert le (lc_session lc) bssid f a)) sts) tx2 = (Inr (), tx3)"
    and s: "store_observation srv Wifi
      (\<lambda>db. wifi_history_needed le (lc_session lc) (Some (lc_location_name lc)) bssid f (wifi_observations db))
      (Insert_Wifi (live_wifi_observation lc row bssid f)) tx3 = (Inr (Stored Wifi), tx')"
    unfolding live_wifi_row_def live_bind_Inr by (auto simp: live_result_def live_bind_Inr)
  have "same_observations (lt_db tx) (lt_db tx1)" using quiet_basic(3) r by (auto simp: quiet_def)
  moreover have "same_observations (lt_db tx1) (lt_db tx2)"
    using quiet_write [of "Import_Statement (Upsert_Wifi (live_wifi_device le lc bssid f))" srv] u by (auto simp: quiet_def)
  moreover have "same_observations (lt_db tx2) (lt_db tx3)"
    using quiet_writes [of "map (\<lambda>a. Upsert_Alert (change_alert le (lc_session lc) bssid f a)) sts" srv] w
    by (auto simp: quiet_def list_all_iff)
  ultimately have "wifi_observations (lt_db tx3) = wifi_observations (lt_db tx)" by (simp add: same_observations_def)
  with stored_observation [OF s] show ?thesis by simp
qed

lemma suppressed_wifi_row:
  assumes "\<And>st. srv st = Accepted" "\<not> lt_aborted tx" "normalize_kismet_row lib row (le_now le) = Inr g" "wr_bssid g = Some bssid"
    and "\<not> wifi_history_needed le (lc_session lc) (Some (lc_location_name lc)) bssid g (wifi_observations (lt_db tx))"
  shows "\<exists>tx'. live_wifi_row srv lib le lc row tx = (Inr (Suppressed Wifi), tx') \<and> same_observations (lt_db tx) (lt_db tx')"
proof -
  from wifi_row_reaches_history [where srv = srv and lc = lc, OF assms(3,4) assms(1) assms(2)] obtain tx2 where
    row: "live_wifi_row srv lib le lc row tx = store_observation srv Wifi
      (\<lambda>db. wifi_history_needed le (lc_session lc) (Some (lc_location_name lc)) bssid g (wifi_observations db))
      (Insert_Wifi (live_wifi_observation lc row bssid g)) tx2" and w: "\<not> lt_aborted tx2"
    and o: "same_observations (lt_db tx) (lt_db tx2)" by blast
  have "live_wifi_row srv lib le lc row tx = (Inr (Suppressed Wifi), tx2)"
    using assms(5) w o by (simp add: row store_observation_def live_bind_def live_read_def live_return_def same_observations_def)
  with o show ?thesis by blast
qed

text \<open>
  The history keeps no repetitions. After an access point was stored as its newest observation, a
  later row of it in the same session and place (the next poll) leaves the tables of observations
  alone and is counted as suppressed, when it reports the same network, channel, frequency,
  encryption and identity, a level that moved less than the configured change, and less than a heartbeat has passed.\<close>

theorem repeated_wifi_suppressed:
  assumes "live_wifi_row srv lib le lc row tx = (Inr (Stored Wifi), tx')"
    and "normalize_kismet_row lib row (le_now le) = Inr f" "wr_bssid f = Some bssid"
    and "\<forall>ob\<in>set (wifi_observations (lt_db tx)). ob_mac ob = bssid \<longrightarrow> ob_at ob < utc_seconds (wr_observed_at f)"
    and "normalize_kismet_row lib row2 (le_now le2) = Inr g" "same_wifi f g"
    and "close_level (le_rssi_delta le2) (wr_signal_dbm f) (wr_signal_dbm g)"
    and "utc_seconds (wr_observed_at g) - utc_seconds (wr_observed_at f) < le_heartbeat le2"
    and "\<And>st. srv2 st = Accepted"
  shows "\<exists>tx2. live_wifi_row srv2 lib le2 lc row2 tx' = (Inr (Suppressed Wifi), tx2) \<and> same_observations (lt_db tx') (lt_db tx2)"
proof (rule suppressed_wifi_row [OF assms(9) _ assms(5)])
  note stored = stored_wifi_tables [OF assms(1-3)]
  show "\<not> lt_aborted tx'" using stored by blast
  show "wr_bssid g = Some bssid" using assms(3,6) by (simp add: same_wifi_def)
  show "\<not> wifi_history_needed le2 (lc_session lc) (Some (lc_location_name lc)) bssid g (wifi_observations (lt_db tx'))"
    using stored repeated_not_needed [OF assms(6,3,7,8,4)] by metis
qed

definition sample_live_context :: live_context where
  "sample_live_context = \<lparr>lc_session = Some 1, lc_location_name = ''Lab'', lc_location = 1, lc_source_id = Some 1,
     lc_source_name = ''src'', lc_url = PNone, lc_fetched_at = PNone\<rparr>"

definition later_live_env :: live_env where
  "later_live_env = sample_live_env\<lparr>le_now := \<lparr>aware = True, utc_seconds = 130\<rparr>\<rparr>"

definition sample_ap_fields :: "live_env \<Rightarrow> wifi_row result" where
  "sample_ap_fields le = normalize_kismet_row sample_lib (sample_ap_row ''AA:BB:CC:DD:EE:01'') (le_now le)"

definition sample_tx :: live_tx where
  "sample_tx = \<lparr>lt_db = sample_live_db, lt_aborted = False\<rparr>"

lemma sample_repetition:
  "case (sample_ap_fields sample_live_env, sample_ap_fields later_live_env) of
     (Inr f, Inr g) \<Rightarrow> wr_bssid f = Some ''AA:BB:CC:DD:EE:01'' \<and> same_wifi f g
       \<and> close_level (le_rssi_delta later_live_env) (wr_signal_dbm f) (wr_signal_dbm g)
       \<and> utc_seconds (wr_observed_at g) - utc_seconds (wr_observed_at f) < le_heartbeat later_live_env
   | _ \<Rightarrow> False"
  by code_simp

lemma sample_first_time: "fst (live_wifi_row (\<lambda>_. Accepted) sample_lib sample_live_env sample_live_context
    (sample_ap_row ''AA:BB:CC:DD:EE:01'') sample_tx) = Inr (Stored Wifi)"
  by code_simp

lemma repeated_wifi_suppressed_witness:
  "\<exists>tx' tx2. live_wifi_row (\<lambda>_. Accepted) sample_lib sample_live_env sample_live_context (sample_ap_row ''AA:BB:CC:DD:EE:01'') sample_tx
      = (Inr (Stored Wifi), tx')
    \<and> live_wifi_row (\<lambda>_. Accepted) sample_lib later_live_env sample_live_context (sample_ap_row ''AA:BB:CC:DD:EE:01'') tx'
      = (Inr (Suppressed Wifi), tx2)"
proof -
  obtain f g where fields: "normalize_kismet_row sample_lib (sample_ap_row ''AA:BB:CC:DD:EE:01'') (le_now sample_live_env) = Inr f"
      "normalize_kismet_row sample_lib (sample_ap_row ''AA:BB:CC:DD:EE:01'') (le_now later_live_env) = Inr g"
    and same: "wr_bssid f = Some ''AA:BB:CC:DD:EE:01''" "same_wifi f g"
      "close_level (le_rssi_delta later_live_env) (wr_signal_dbm f) (wr_signal_dbm g)"
      "utc_seconds (wr_observed_at g) - utc_seconds (wr_observed_at f) < le_heartbeat later_live_env"
    using sample_repetition unfolding sample_ap_fields_def by (auto split: sum.splits)
  obtain tx' where first: "live_wifi_row (\<lambda>_. Accepted) sample_lib sample_live_env sample_live_context
      (sample_ap_row ''AA:BB:CC:DD:EE:01'') sample_tx = (Inr (Stored Wifi), tx')"
    using sample_first_time by (metis prod.collapse)
  have none: "\<forall>ob\<in>set (wifi_observations (lt_db sample_tx)). ob_mac ob = ''AA:BB:CC:DD:EE:01'' \<longrightarrow> ob_at ob < utc_seconds (wr_observed_at f)"
    by (simp add: sample_tx_def sample_live_db_def sample_world_def table_defs)
  from repeated_wifi_suppressed [OF first fields(1) same(1) none fields(2) same(2-4), of "\<lambda>_. Accepted"] first show ?thesis by blast
qed

text \<open>
  Counting the frames of an unknown access point makes it known. Kismet's alerts about management
  frames write a bare row of the access point, without its name and encryption; the live import
  that sees the access point next raises no alert for it, whatever it reports, although an unknown
  access point without encryption is otherwise reported as new and open.\<close>

theorem counted_ap_is_never_new:
  assumes "bssid \<notin> set (map kd_mac (wifi_devices db))" "is_open_encryption (py_lower (py_strip (or_empty (wr_encryption f))))"
  shows "wifi_security_change_alerts (find (\<lambda>d. kd_mac d = bssid) (wifi_devices (apply_live (Count_Frame bssid frame_type n) db))) f bssid = []
    \<and> map sa_type (wifi_security_change_alerts (find (\<lambda>d. kd_mac d = bssid) (wifi_devices db)) f bssid) = [''new_open_ap'']"
proof -
  have none: "find (\<lambda>d. kd_mac d = bssid) (wifi_devices db) = None" using assms(1) by (auto simp: find_None_iff)
  have "find (\<lambda>d. kd_mac d = bssid) (xs @ [y]) = (if kd_mac y = bssid then Some y else None)"
    if "find (\<lambda>d. kd_mac d = bssid) xs = None" for xs y using that by (induction xs) auto
  from this [OF none]
  have "find (\<lambda>d. kd_mac d = bssid) (wifi_devices (apply_live (Count_Frame bssid frame_type n) db))
      = Some (set_frame_counts [(frame_type, PInt n)] (bare_device bssid))"
    using assms(1) by (simp add: wifi_devices_def count_frame_def on_imports_def on_devices_def set_frame_counts_def bare_device_def)
  moreover have "py_lower (py_strip (or_empty None)) = []" "py_strip (or_empty None) = []" by code_simp+
  ultimately show ?thesis using assms(2) none
    by (simp add: wifi_security_change_alerts_def Let_def set_frame_counts_def bare_device_def)
qed

lemma counted_ap_is_never_new_witness:
  "\<exists>f. normalize_kismet_row sample_lib (sample_ap_row ''AA:BB:CC:DD:EE:01'') (le_now sample_live_env) = Inr f
    \<and> map sa_type (wifi_security_change_alerts (find (\<lambda>d. kd_mac d = ''AA:BB:CC:DD:EE:01'') (wifi_devices sample_live_db)) f ''AA:BB:CC:DD:EE:01'')
      = [''new_open_ap'']"
proof -
  have "(case sample_ap_fields sample_live_env of Inl _ \<Rightarrow> False | Inr f \<Rightarrow> is_open_encryption (py_lower (py_strip (or_empty (wr_encryption f)))))"
    by code_simp
  then obtain f where f: "sample_ap_fields sample_live_env = Inr f" "is_open_encryption (py_lower (py_strip (or_empty (wr_encryption f))))"
    by (auto split: sum.splits)
  have "''AA:BB:CC:DD:EE:01'' \<notin> set (map kd_mac (wifi_devices sample_live_db))"
    by (simp add: wifi_devices_def sample_live_db_def sample_world_def)
  from counted_ap_is_never_new [OF this f(2), of "''beacon''" 1] f(1) show ?thesis
    by (intro exI [of _ f]) (simp only: sample_ap_fields_def simp_thms)
qed

end
