(* ===== verification/Reference_Points.thy ===== *)
theory Reference_Points
  imports Upload_Files
begin

section \<open>Imported reference points\<close>

text \<open>
  \<open>services/references/importers.py\<close>: the choice of an importer, the CSV and the JSON importer, the
  validation of the points and the resampling that keeps the peaks. Levels are exact rationals
  once validated; \<open>float(text)\<close> and the decoders of the standard library are arguments: strict UTF-8
  and UTF-8 with errors ignored, \<open>csv.DictReader\<close> (\<open>None\<close> where it raises), \<open>json.loads\<close> of bytes and of
  the decoded text.
\<close>

datatype import_error = Import_Error string | Raised py_error

type_synonym 'a imported = "import_error + 'a"

record reference_lib =
  rl_files :: file_lib
  rl_csv :: "string \<Rightarrow> (string list option \<times> row list) option"
  rl_utf8_ignore :: "byte list \<Rightarrow> string"
  rl_loads :: "byte list \<Rightarrow> pyval option"
  rl_loads_utf8 :: "byte list \<Rightarrow> pyval option"
  rl_float :: "string \<Rightarrow> pyfloat option"

type_synonym raw_point = "int \<times> pyfloat"
type_synonym ref_point = "int \<times> rat"

record imported_reference =
  im_points :: "ref_point list"
  im_metadata :: row
  im_format :: string

subsection \<open>Validation\<close>

definition invalid_points :: "'a imported" where
  "invalid_points = Inl (Import_Error ''invalid_reference_points'')"

fun check_points :: "int \<Rightarrow> raw_point list \<Rightarrow> ref_point list imported" where
  "check_points previous [] = Inr []"
| "check_points previous ((f, p) # ps) =
     (if f \<le> previous \<or> f < 0 then invalid_points
      else (case p of
          Fin r \<Rightarrow> and_then (check_points f ps) (\<lambda>rest. Inr ((f, r) # rest))
        | _ \<Rightarrow> invalid_points))"

definition validated_points :: "raw_point list \<Rightarrow> ref_point list imported" where
  "validated_points points =
     (if length points < 2 then Inl (Import_Error ''insufficient_points'')
      else check_points (- 1) (sort_key fst points))"

subsection \<open>Numbers of a cell\<close>

definition replace_comma :: "string \<Rightarrow> string" where
  "replace_comma s = map (\<lambda>c. if c = CHR '','' then CHR ''.'' else c) s"

text \<open>\<open>int(x)\<close> and \<open>round(x)\<close> of a float.\<close>

definition float_to_int :: "(rat \<Rightarrow> int) \<Rightarrow> pyfloat \<Rightarrow> int result" where
  "float_to_int f x = (case x of Fin r \<Rightarrow> Inr (f r)
     | NaN \<Rightarrow> Inl (ValueError ''cannot convert float NaN to integer'')
     | _ \<Rightarrow> Inl (OverflowError ''cannot convert float infinity to integer''))"

definition float_of_text :: "reference_lib \<Rightarrow> string \<Rightarrow> pyfloat result" where
  "float_of_text rl s = (case rl_float rl s of Some x \<Rightarrow> Inr x | None \<Rightarrow> Inl (ValueError ''could not convert string to float''))"

definition times_million :: "pyfloat \<Rightarrow> pyfloat" where
  "times_million x = (case x of Fin r \<Rightarrow> Fin (r * 1000000) | y \<Rightarrow> y)"

text \<open>Exceptions outside the \<open>try\<close>, and those its \<open>except\<close> clause turns into an import error.\<close>

definition uncaught :: "'a result \<Rightarrow> 'a imported" where
  "uncaught r = (case r of Inl e \<Rightarrow> Inl (Raised e) | Inr x \<Rightarrow> Inr x)"

definition caught :: "bool \<Rightarrow> string \<Rightarrow> 'a result \<Rightarrow> 'a imported" where
  "caught type_errors code r = (case r of
     Inr x \<Rightarrow> Inr x
   | Inl (ValueError m) \<Rightarrow> Inl (Import_Error code)
   | Inl (TypeError m) \<Rightarrow> if type_errors then Inl (Import_Error code) else Inl (Raised (TypeError m))
   | Inl e \<Rightarrow> Inl (Raised e))"

subsection \<open>CSV\<close>

definition normalize_column :: "string \<Rightarrow> string" where
  "normalize_column s = strip_underscores (underscore_runs False (py_lower (py_strip s)))"

definition first_truthy :: "pyval list \<Rightarrow> pyval" where
  "first_truthy vs = (case filter py_truthy (butlast vs) of v # _ \<Rightarrow> v | [] \<Rightarrow> last vs)"

definition csv_point :: "text_lib \<Rightarrow> reference_lib \<Rightarrow> row \<Rightarrow> raw_point imported" where
  "csv_point lib rl raw_row =
     (let cells = map_of (rev (map (\<lambda>(k, v). (normalize_column k, v)) raw_row));
          get = (\<lambda>k. case cells k of None \<Rightarrow> PNone | Some v \<Rightarrow> v);
          frequency = first_truthy [get ''frequency_hz'', get ''actual_rf_frequency_hz'', get ''measured_frequency_hz''] in
      and_then
        (if absent frequency \<and> \<not> absent (get ''frequency_mhz'')
         then and_then (uncaught (float_of_text rl (replace_comma (py_str lib (get ''frequency_mhz''))))) (\<lambda>x.
              and_then (uncaught (float_to_int py_round (times_million x))) (\<lambda>n. Inr (PInt n)))
         else Inr frequency) (\<lambda>frequency.
      let power = first_truthy [get ''power_dbm'', get ''dbm'', get ''level_dbm''] in
      if absent frequency \<or> absent power then Inl (Import_Error ''missing_csv_columns'')
      else caught False ''invalid_csv_value''
        (and_then (float_of_text rl (replace_comma (py_str lib frequency))) (\<lambda>x.
         and_then (float_to_int py_trunc x) (\<lambda>f.
         and_then (float_of_text rl (replace_comma (py_str lib power))) (\<lambda>p. Inr (f, p)))))))"

fun collect_points :: "('r \<Rightarrow> raw_point imported) \<Rightarrow> 'r list \<Rightarrow> raw_point list imported" where
  "collect_points point [] = Inr []"
| "collect_points point (r # rs) = and_then (point r) (\<lambda>p. and_then (collect_points point rs) (\<lambda>ps. Inr (p # ps)))"

definition csv_rows :: "reference_lib \<Rightarrow> byte list \<Rightarrow> row list imported" where
  "csv_rows rl payload =
     (case fl_utf8_sig (rl_files rl) payload of
        None \<Rightarrow> Inl (Import_Error ''invalid_csv'')
      | Some t \<Rightarrow> (case rl_csv rl t of
            None \<Rightarrow> Inl (Import_Error ''invalid_csv'')
          | Some (Some (h # hs), rows) \<Rightarrow> Inr rows
          | _ \<Rightarrow> Inl (Import_Error ''missing_csv_header'')))"

definition csv_import_points :: "text_lib \<Rightarrow> reference_lib \<Rightarrow> byte list \<Rightarrow> imported_reference imported" where
  "csv_import_points lib rl payload =
     and_then (csv_rows rl payload) (\<lambda>rows.
     and_then (collect_points (csv_point lib rl) rows) (\<lambda>points.
     and_then (validated_points points) (\<lambda>points.
     Inr \<lparr>im_points = points, im_metadata = [], im_format = ''csv''\<rparr>)))"

subsection \<open>JSON\<close>

text \<open>\<open>float(value)\<close> and \<open>int(value)\<close> of a JSON value.\<close>

definition to_float :: "reference_lib \<Rightarrow> pyval \<Rightarrow> pyfloat result" where
  "to_float rl v = (case v of
     PBool b \<Rightarrow> Inr (Fin (if b then 1 else 0))
   | PInt n \<Rightarrow> Inr (Fin (of_int n))
   | PFloat x \<Rightarrow> Inr x
   | PStr s \<Rightarrow> float_of_text rl s
   | _ \<Rightarrow> Inl (TypeError ''float() argument must be a string or a real number''))"

text \<open>\<open>int(text)\<close> accepts a decimal integer, signed, between spaces (digit separators are left out).\<close>

definition int_of_text :: "string \<Rightarrow> int result" where
  "int_of_text s =
     (let t = py_strip s;
          (negative, digits) = (case t of c # cs \<Rightarrow> if c = CHR ''-'' then (True, cs) else if c = CHR ''+'' then (False, cs) else (False, t)
             | [] \<Rightarrow> (False, [])) in
      if digits \<noteq> [] \<and> list_all is_digit digits
      then Inr (if negative then - int (digits_value digits) else int (digits_value digits))
      else Inl (ValueError ''invalid literal for int()''))"

definition to_int :: "pyval \<Rightarrow> int result" where
  "to_int v = (case v of
     PBool b \<Rightarrow> Inr (if b then 1 else 0)
   | PInt n \<Rightarrow> Inr n
   | PFloat x \<Rightarrow> float_to_int py_trunc x
   | PStr s \<Rightarrow> int_of_text s
   | _ \<Rightarrow> Inl (TypeError ''int() argument must be a string, a bytes-like object or a real number''))"

definition json_point :: "reference_lib \<Rightarrow> pyval \<Rightarrow> raw_point imported" where
  "json_point rl v = (case v of
     PDict d \<Rightarrow>
       and_then
         (if dict_get d ''frequency_hz'' = PNone \<and> dict_get d ''frequency_mhz'' \<noteq> PNone
          then and_then (uncaught (to_float rl (dict_get d ''frequency_mhz''))) (\<lambda>x.
               and_then (uncaught (float_to_int py_round (times_million x))) (\<lambda>n. Inr (PInt n)))
          else Inr (dict_get d ''frequency_hz'')) (\<lambda>frequency.
       let power = (if dict_has d ''power_dbm'' then dict_get d ''power_dbm'' else dict_get d ''dbm'') in
       if frequency = PNone \<or> power = PNone then Inl (Import_Error ''invalid_json_points'')
       else caught True ''invalid_json_points''
         (and_then (to_int frequency) (\<lambda>f. and_then (to_float rl power) (\<lambda>p. Inr (f, p)))))
   | _ \<Rightarrow> Inl (Import_Error ''invalid_json_points''))"

definition json_import_points :: "reference_lib \<Rightarrow> byte list \<Rightarrow> imported_reference imported" where
  "json_import_points rl payload =
     (case rl_loads rl payload of
        None \<Rightarrow> Inl (Import_Error ''invalid_json'')
      | Some value \<Rightarrow>
         (let (metadata, rows) = (case value of
               PDict d \<Rightarrow> (if dict_has d ''metadata'' then dict_get d ''metadata'' else PDict [],
                           if dict_has d ''points'' then dict_get d ''points'' else PList [])
             | _ \<Rightarrow> (PDict [], value)) in
          (case metadata of
             PDict m \<Rightarrow> (case rows of
                 PList vs \<Rightarrow> and_then (collect_points (json_point rl) vs) (\<lambda>points.
                    and_then (validated_points points) (\<lambda>points.
                    Inr \<lparr>im_points = points, im_metadata = m, im_format = ''json''\<rparr>))
               | _ \<Rightarrow> Inl (Import_Error ''invalid_json_points''))
           | _ \<Rightarrow> Inl (Import_Error ''invalid_json_metadata''))))"

subsection \<open>The choice of an importer\<close>

datatype importer = Oscor_Peak | Json_Importer | Csv_Importer

definition can_handle :: "reference_lib \<Rightarrow> importer \<Rightarrow> string \<Rightarrow> string \<Rightarrow> byte list \<Rightarrow> bool" where
  "can_handle rl i filename mime header =
     (let suffix = py_lower (path_suffix filename); mime = py_lower mime in
      case i of
        Oscor_Peak \<Rightarrow> suffix = ''.peak''
      | Json_Importer \<Rightarrow> suffix = ''.json'' \<or> mime = ''application/json''
          \<or> startswith (byte_lstrip header) [0x7B] \<or> startswith (byte_lstrip header) [0x5B]
      | Csv_Importer \<Rightarrow>
          if suffix = ''.csv'' \<or> mime \<in> {''text/csv'', ''application/csv''} then True
          else let text' = py_lower (rl_utf8_ignore rl header) in
            contains ''frequency'' text' \<and> (contains ''power'' text' \<or> contains ''dbm'' text'))"

definition importer_for :: "reference_lib \<Rightarrow> string \<Rightarrow> string \<Rightarrow> byte list \<Rightarrow> importer imported" where
  "importer_for rl filename mime header =
     (case filter (\<lambda>i. can_handle rl i filename mime header) [Oscor_Peak, Json_Importer, Csv_Importer] of
        i # _ \<Rightarrow> Inr i | [] \<Rightarrow> Inl (Import_Error ''unsupported_reference_format''))"

definition import_points :: "text_lib \<Rightarrow> reference_lib \<Rightarrow> importer \<Rightarrow> byte list \<Rightarrow> imported_reference imported" where
  "import_points lib rl i payload = (case i of
     Oscor_Peak \<Rightarrow> Inl (Import_Error ''unsupported_peak_format'')
   | Json_Importer \<Rightarrow> json_import_points rl payload
   | Csv_Importer \<Rightarrow> csv_import_points lib rl payload)"

record reference_summary =
  ms_format :: string
  ms_size_bytes :: nat
  ms_point_count :: nat
  ms_start :: int
  ms_stop :: int
  ms_min_power :: rat
  ms_max_power :: rat
  ms_metadata :: row

definition summary_of :: "imported_reference \<Rightarrow> nat \<Rightarrow> reference_summary" where
  "summary_of im n =
     (let ps = im_points im; powers = map snd ps in
      \<lparr>ms_format = im_format im, ms_size_bytes = n, ms_point_count = length ps, ms_start = fst (hd ps),
       ms_stop = fst (last ps), ms_min_power = fold min (tl powers) (hd powers),
       ms_max_power = fold max (tl powers) (hd powers), ms_metadata = im_metadata im\<rparr>)"

text \<open>\<open>inspect\<close> of the placeholder says that the format is not supported, which the handler turns into the error.\<close>

definition inspect_points :: "text_lib \<Rightarrow> reference_lib \<Rightarrow> importer \<Rightarrow> byte list \<Rightarrow> reference_summary imported" where
  "inspect_points lib rl i payload =
     and_then (import_points lib rl i payload) (\<lambda>im. Inr (summary_of im (length payload)))"

subsection \<open>Resampling\<close>

text \<open>
  \<open>max(points, key=power)\<close>: the first of the highest points. The bucket bounds
  \<open>floor(n * b / m)\<close> are divisions of floats in the code; for products below \<open>2 ^ 53\<close>, which the
  upload limit keeps far away, they are the integer quotients written here.
\<close>

fun highest :: "ref_point \<Rightarrow> ref_point list \<Rightarrow> ref_point" where
  "highest best [] = best"
| "highest best (p # ps) = highest (if snd best < snd p then p else best) ps"

definition bucket_bounds :: "nat \<Rightarrow> nat \<Rightarrow> nat \<Rightarrow> nat \<times> nat" where
  "bucket_bounds n m b = (let start = n * b div m in (start, max (start + 1) (n * (b + 1) div m)))"

definition bucket :: "ref_point list \<Rightarrow> nat \<Rightarrow> nat \<Rightarrow> ref_point list" where
  "bucket points m b = (let (start, stop) = bucket_bounds (length points) m b in take (stop - start) (drop start points))"

definition peak_preserving_resample :: "ref_point list \<Rightarrow> nat \<Rightarrow> ref_point list result" where
  "peak_preserving_resample points maximum_points =
     (if length points \<le> maximum_points then Inr points
      else if maximum_points < 2 then Inl (ValueError ''maximum_points must be at least two'')
      else Inr (sort_key fst (map (\<lambda>b. let xs = bucket points maximum_points b in highest (hd xs) (tl xs))
        [0..<maximum_points])))"

subsection \<open>Lemmas\<close>

definition increasing :: "ref_point list \<Rightarrow> bool" where
  "increasing ps \<longleftrightarrow> sorted_wrt (\<lambda>a b. fst a < fst b) ps"

definition raw :: "ref_point \<Rightarrow> raw_point" where
  "raw p = (fst p, Fin (snd p))"

lemma check_points_Inr:
  "check_points prev ps = Inr qs \<longleftrightarrow> ps = map raw qs \<and> increasing qs \<and> (\<forall>q\<in>set qs. prev < fst q \<and> 0 \<le> fst q)"
proof (induction prev ps arbitrary: qs rule: check_points.induct)
  case (2 prev f p ps)
  show ?case
  proof (cases "f \<le> prev \<or> f < 0")
    case True
    then show ?thesis by (cases qs) (auto simp: invalid_points_def raw_def)
  next
    case False
    show ?thesis
    proof (cases p)
      case (Fin r)
      then show ?thesis using False 2 [OF False Fin]
        by (cases qs) (auto simp: and_then_Inr_iff raw_def increasing_def)
    qed (use False in \<open>cases qs; auto simp: invalid_points_def raw_def\<close>)+
  qed
qed (auto simp: increasing_def)

lemma sort_key_increasing: "increasing qs \<Longrightarrow> sort_key fst (map raw qs) = map raw qs"
  by (rule sort_key_id_if_sorted) (induction qs, auto simp: increasing_def raw_def)

lemma increasing_sorted: "increasing qs \<Longrightarrow> sorted (map fst qs)"
  by (induction qs) (auto simp: increasing_def)

lemma validated_points_raw: "2 \<le> length qs \<Longrightarrow> increasing qs \<Longrightarrow> \<forall>q\<in>set qs. 0 \<le> fst q \<Longrightarrow> validated_points (map raw qs) = Inr qs"
  using check_points_Inr [of "-1" "map raw qs" qs] by (auto simp: validated_points_def sort_key_increasing)

text \<open>Cutting a list at increasing positions, and picking one element of each piece.\<close>

lemma concat_pieces:
  assumes "\<And>i. s i \<le> s (Suc i)" "s 0 = (0::nat)"
  shows "concat (map (\<lambda>b. take (s (Suc b) - s b) (drop (s b) xs)) [0..<k]) = take (s k) xs"
proof (induction k)
  case (Suc k)
  have "take (s k) xs @ take (s (Suc k) - s k) (drop (s k) xs) = take (s k + (s (Suc k) - s k)) xs"
    by (simp add: take_add)
  then show ?case using Suc assms(1) [of k] by simp
qed (simp add: assms(2))

lemma increasing_picks:
  "increasing (concat xss) \<Longrightarrow> (\<And>xs. xs \<in> set xss \<Longrightarrow> g xs \<in> set xs) \<Longrightarrow> increasing (map g xss)"
proof (induction xss)
  case (Cons xs xss)
  have "fst (g xs) < fst (g ys)" if "ys \<in> set xss" for ys
  proof -
    have "g xs \<in> set xs" "g ys \<in> set (concat xss)" using Cons.prems(2) that by (auto intro!: bexI [of _ ys])
    then show ?thesis using Cons.prems(1) by (auto simp: increasing_def sorted_wrt_append)
  qed
  then show ?case using Cons by (auto simp: increasing_def sorted_wrt_append)
qed (simp add: increasing_def)

lemma highest_props: "highest p ps \<in> insert p (set ps) \<and> snd p \<le> snd (highest p ps) \<and> (\<forall>q\<in>set ps. snd q \<le> snd (highest p ps))"
proof (induction ps arbitrary: p)
  case (Cons q ps)
  show ?case using Cons [of "if snd p < snd q then q else p"] by (auto split: if_splits)
qed simp

definition bucket_start :: "nat \<Rightarrow> nat \<Rightarrow> nat \<Rightarrow> nat" where
  "bucket_start n m b = n * b div m"

lemma bucket_start_step: "0 < m \<Longrightarrow> m \<le> n \<Longrightarrow> Suc (bucket_start n m b) \<le> bucket_start n m (Suc b)"
proof -
  assume a: "0 < m" "m \<le> n"
  have "(n * b + m) div m \<le> (n * b + n) div m" using a(2) by (intro div_le_mono) simp
  then show ?thesis using a(1) by (simp add: bucket_start_def add.commute)
qed

lemma bucket_piece:
  "0 < m \<Longrightarrow> m \<le> length xs \<Longrightarrow> bucket xs m b
     = take (bucket_start (length xs) m (Suc b) - bucket_start (length xs) m b) (drop (bucket_start (length xs) m b) xs)"
  using bucket_start_step [of m "length xs" b]
  by (simp add: bucket_def bucket_bounds_def Let_def bucket_start_def max_absorb2)

lemma bucket_start_le: "0 < m \<Longrightarrow> b < m \<Longrightarrow> m \<le> n \<Longrightarrow> bucket_start n m b < n"
  by (simp add: bucket_start_def div_less_iff_less_mult mult.commute)

lemma buckets_partition:
  assumes "0 < m" "m \<le> length xs"
  shows "concat (map (bucket xs m) [0..<m]) = xs" "b < m \<Longrightarrow> bucket xs m b \<noteq> []"
proof -
  have "concat (map (bucket xs m) [0..<m]) = take (bucket_start (length xs) m m) xs"
    unfolding bucket_piece [OF assms, abs_def]
    using bucket_start_step [OF assms] by (intro concat_pieces) (auto simp: bucket_start_def intro: Suc_leD)
  then show "concat (map (bucket xs m) [0..<m]) = xs" using assms(1) by (simp add: bucket_start_def)
  show "bucket xs m b \<noteq> []" if "b < m"
    using bucket_start_step [OF assms, of b] bucket_start_le [OF assms(1) that assms(2)] by (simp add: bucket_piece [OF assms])
qed

subsection \<open>What a resampling and a validation return\<close>

lemma resample_result:
  assumes "increasing points" "2 \<le> maximum_points"
  shows "\<exists>out. peak_preserving_resample points maximum_points = Inr out \<and> increasing out \<and> set out \<subseteq> set points
    \<and> length out = min (length points) maximum_points \<and> (\<forall>p\<in>set points. \<exists>q\<in>set out. snd p \<le> snd q)"
proof (cases "length points \<le> maximum_points")
  case True
  then show ?thesis using assms(1) by (auto simp: peak_preserving_resample_def)
next
  case False
  let ?m = maximum_points and ?g = "\<lambda>xs. highest (hd xs) (tl xs)"
  have m: "0 < ?m" "?m \<le> length points" using False assms(2) by auto
  let ?bs = "map (bucket points ?m) [0..<?m]"
  note part = buckets_partition [OF m]
  have pick: "?g xs \<in> set xs \<and> (\<forall>p\<in>set xs. snd p \<le> snd (?g xs))" if "xs \<in> set ?bs" for xs
  proof -
    have "xs \<noteq> []" using that part(2) by auto
    then show ?thesis using highest_props [of "hd xs" "tl xs"] by (cases xs) auto
  qed
  have inc: "increasing (map ?g ?bs)"
    using assms(1) pick by (intro increasing_picks) (simp_all add: part(1))
  have sorted: "sort_key fst (map ?g ?bs) = map ?g ?bs"
    by (rule sort_key_id_if_sorted) (rule increasing_sorted [OF inc])
  have res: "peak_preserving_resample points ?m = Inr (map ?g ?bs)"
    using False assms(2) sorted by (simp add: peak_preserving_resample_def Let_def o_def)
  have all: "set points = (\<Union>xs\<in>set ?bs. set xs)" using part(1) by (metis set_concat)
  have sub: "set (map ?g ?bs) \<subseteq> set points" unfolding all using pick by (auto simp del: set_upt)
  have peaks: "\<exists>q\<in>set (map ?g ?bs). snd p \<le> snd q" if p: "p \<in> set points" for p
  proof -
    obtain xs where xs: "xs \<in> set ?bs" "p \<in> set xs" using p unfolding all by blast
    then show ?thesis using pick [OF xs(1)] by (intro bexI [of _ "?g xs"]) (simp_all only: set_map image_eqI)
  qed
  show ?thesis using res inc False sub peaks by (intro exI [of _ "map ?g ?bs"]) (simp del: map_map set_map)
qed

lemma validated_points_iff:
  "validated_points ps = Inr qs \<longleftrightarrow> 2 \<le> length qs \<and> increasing qs \<and> (\<forall>q\<in>set qs. 0 \<le> fst q) \<and> mset ps = mset (map raw qs)"
proof -
  have ok: "2 \<le> length qs \<and> increasing qs \<and> (\<forall>q\<in>set qs. 0 \<le> fst q) \<and> mset ps = mset (map raw qs)"
    if "validated_points ps = Inr qs" for ps qs
  proof -
    have c: "2 \<le> length ps" "check_points (-1) (sort_key fst ps) = Inr qs"
      using that by (auto simp: validated_points_def split: if_splits)
    then have s: "sort_key fst ps = map raw qs" "increasing qs" "\<forall>q\<in>set qs. 0 \<le> fst q" by (auto simp: check_points_Inr)
    have "length ps = length qs" using arg_cong [OF s(1), of length] by simp
    moreover have "mset ps = mset (map raw qs)" using arg_cong [OF s(1), of mset] by simp
    ultimately show ?thesis using c s by simp
  qed
  moreover have "validated_points ps = Inr qs"
    if "2 \<le> length qs" "increasing qs" "\<forall>q\<in>set qs. 0 \<le> fst q" "mset ps = mset (map raw qs)"
  proof -
    have "distinct (map fst (map raw qs))" using that(2) by (induction qs) (auto simp: increasing_def raw_def)
    then have "distinct (map fst ps)" using that(4) by (metis mset_eq_imp_distinct_iff mset_map)
    moreover have sorted: "sorted (map fst (map raw qs))" using sort_key_increasing [OF that(2)] by (metis sorted_sort_key)
    moreover have same: "set (sort_key fst ps) = set (map raw qs)" using mset_eq_setD [OF that(4)] by simp
    moreover have d: "distinct (map fst (map raw qs))" using that(2) by (induction qs) (auto simp: increasing_def raw_def)
    moreover have "inj_on fst (set (map raw qs))" using d by (simp only: distinct_map)
    moreover have "distinct (map fst (sort_key fst ps))"
      using \<open>distinct (map fst ps)\<close> by (metis mset_eq_imp_distinct_iff mset_map mset_sort)
    ultimately have "sort_key fst ps = map raw qs"
      by (intro map_sorted_distinct_set_unique [where f = fst]) (simp_all del: map_map set_map)
    then show ?thesis using that check_points_Inr [of "-1" "map raw qs" qs] mset_eq_length [OF that(4)]
      by (auto simp: validated_points_def)
  qed
  ultimately show ?thesis by blast
qed

lemma import_points_valid:
  assumes "import_points lib rl i payload = Inr im"
  shows "2 \<le> length (im_points im) \<and> increasing (im_points im) \<and> (\<forall>q\<in>set (im_points im). 0 \<le> fst q)"
proof -
  have "\<exists>ps. validated_points ps = Inr (im_points im)"
    using assms by (auto simp: import_points_def csv_import_points_def json_import_points_def and_then_Inr_iff Let_def
        split: importer.splits option.splits prod.splits pyval.splits)
  then show ?thesis by (auto simp: validated_points_iff)
qed

subsection \<open>Properties\<close>

text \<open>
  C18: Resampling keeps the peaks. A list of points in increasing frequency that is too long becomes
  exactly the allowed number of points, again in strictly increasing frequency, each one a point of
  the list, and for every point of the list a point at least as high is kept; in particular the
  highest level survives. A list that fits is returned as it is.
\<close>

theorem resample_keeps_peaks:
  assumes "increasing points" "2 \<le> maximum_points"
  shows "\<exists>out. peak_preserving_resample points maximum_points = Inr out \<and> increasing out \<and> set out \<subseteq> set points
    \<and> length out = min (length points) maximum_points \<and> (\<forall>p\<in>set points. \<exists>q\<in>set out. snd p \<le> snd q)"
  by (rule resample_result [OF assms])

lemma resample_keeps_peaks_witness:
  "\<exists>out. peak_preserving_resample [(1, -90), (2, -30), (3, -80), (4, -70), (5, -20)] 2 = Inr out \<and> length out = 2"
  using resample_keeps_peaks [of "[(1, -90), (2, -30), (3, -80), (4, -70), (5, -20)]" 2] by (auto simp: increasing_def)

text \<open>
  The validation of imported points is exact: it accepts a list if and only if it has at least
  two points, no two of the same frequency, no negative frequency and only finite levels, and it
  then returns these points in increasing frequency. Every importer returns such points.
\<close>

theorem validated_points_exact:
  "(validated_points ps = Inr qs \<longleftrightarrow> 2 \<le> length qs \<and> increasing qs \<and> (\<forall>q\<in>set qs. 0 \<le> fst q) \<and> mset ps = mset (map raw qs))
   \<and> (import_points lib rl i payload = Inr im \<longrightarrow>
        2 \<le> length (im_points im) \<and> increasing (im_points im) \<and> (\<forall>q\<in>set (im_points im). 0 \<le> fst q))"
  using validated_points_iff import_points_valid by blast

definition sample_reference_lib :: reference_lib where
  "sample_reference_lib =
     \<lparr>rl_files = \<lparr>fl_utf8_sig = (\<lambda>_. None), fl_csv = (\<lambda>_. (None, [])), fl_json = (\<lambda>_. None)\<rparr>,
      rl_csv = (\<lambda>_. None), rl_utf8_ignore = (\<lambda>_. []),
      rl_loads = (\<lambda>_. Some (PList [PDict [(''frequency_mhz'', PFloat (Fin 2)), (''dbm'', PInt (-40))],
         PDict [(''frequency_hz'', PInt 1000000), (''power_dbm'', PFloat (Fin (-50)))]])),
      rl_loads_utf8 = (\<lambda>_. None), rl_float = (\<lambda>_. None)\<rparr>"

lemma sample_points_import:
  "import_points sample_lib sample_reference_lib Json_Importer [1]
     = Inr \<lparr>im_points = [(1000000, -50), (2000000, -40)], im_metadata = [], im_format = ''json''\<rparr>"
  by code_simp

lemma validated_points_exact_witness:
  "increasing [(1000000, -50), (2000000, -40)] \<and> import_points sample_lib sample_reference_lib Json_Importer [1]
     = Inr \<lparr>im_points = [(1000000, -50), (2000000, -40)], im_metadata = [], im_format = ''json''\<rparr>"
  using validated_points_exact [of "[]" "[]" sample_lib sample_reference_lib Json_Importer "[1]"
     "\<lparr>im_points = [(1000000, -50), (2000000, -40)], im_metadata = [], im_format = ''json''\<rparr>"] sample_points_import by simp

end
