(* ===== verification/Reference_Catalog.thy ===== *)
theory Reference_Catalog
  imports Reference_Points Sessions
begin

section \<open>The reference catalog\<close>

text \<open>
  \<open>routers/versioned_references.py\<close> (imported spectrum references with versions per key) and
  \<open>routers/reference_sets.py\<close> (captured sets: a spectrum reference and the device baselines of a
  place). Both write the table \<open>spectrum_references\<close>; its constraints (primary key, unique key and
  version, the checks of the ranges) are those of the schema, and a violated one is an error of the
  request with nothing committed. The check of the form of a checksum always holds for a
  \<open>hexdigest\<close> and is left out. The path parameter of a handler is an identifier already read by
  \<open>validated_optional_uuid\<close>. Columns only copied from the request are kept in a column list.
\<close>

subsection \<open>Tables\<close>

record spectrum_reference =
  sr_id :: nat
  sr_key :: string
  sr_version :: nat
  sr_location_id :: "nat option"
  sr_location_name :: "string option"
  sr_start :: int
  sr_stop :: int
  sr_step :: "int option"
  sr_rbw :: "pyfloat option"
  sr_vbw :: "pyfloat option"
  sr_measured :: "rat option"
  sr_operator :: "string option"
  sr_notes :: "string option"
  sr_checksum :: string
  sr_active :: bool
  sr_valid_from :: "rat option"
  sr_valid_until :: "rat option"
  sr_creation_source :: string
  sr_filename :: string
  sr_format :: string
  sr_point_count :: nat
  sr_metadata :: row
  sr_set :: "nat option"
  sr_session :: "nat option"
  sr_kind :: "string option"
  sr_columns :: "(string \<times> sqlval) list"
  sr_created :: rat
  sr_updated :: rat
  sr_archived :: "rat option"

record reference_point =
  pt_reference :: nat
  pt_frequency :: int
  pt_power :: rat
  pt_time :: rat
  pt_location_name :: string
  pt_source_file :: string
  pt_rbw :: "int option"
  pt_vbw :: "int option"

record catalog_set =
  cs_id :: nat
  cs_key :: string
  cs_version :: nat
  cs_name :: string
  cs_location_id :: nat
  cs_location_name :: string
  cs_session :: "nat option"
  cs_captured :: rat
  cs_status :: string
  cs_active :: bool
  cs_created_by :: "string option"
  cs_notes :: "string option"
  cs_metadata :: row
  cs_created :: rat
  cs_updated :: rat
  cs_archived :: "rat option"

record reference_db =
  rd_sessions :: session_db
  rd_devices :: device_db
  rd_sets :: "catalog_set list"
  rd_spectrum :: "spectrum_reference list"
  rd_points :: "reference_point list"

text \<open>
  What a request draws: the times of the server and of the process, identifiers, the SHA-256 of
  bytes and of the JSON of points, and what the server stores in a column for a JSON value
  (\<open>None\<close> where it refuses the value).
\<close>

record reference_env =
  re_sql :: sql_env
  re_clock :: rat
  re_set_id :: nat
  re_reference_id :: nat
  re_hash_bytes :: "byte list \<Rightarrow> string"
  re_hash_points :: "ref_point list \<Rightarrow> string"
  re_column :: "string \<Rightarrow> pyval \<Rightarrow> sqlval option"

definition creation_sources :: "string list" where
  "creation_sources = [''live'', ''import'', ''replay'', ''converted'']"

definition spectrum_checks :: "spectrum_reference \<Rightarrow> bool" where
  "spectrum_checks r \<longleftrightarrow> 0 < sr_version r \<and> sr_start r < sr_stop r
     \<and> (case sr_step r of None \<Rightarrow> True | Some d \<Rightarrow> 0 < d) \<and> 0 < sr_point_count r
     \<and> sr_creation_source r \<in> set creation_sources
     \<and> (case (sr_valid_from r, sr_valid_until r) of (Some a, Some b) \<Rightarrow> a < b | _ \<Rightarrow> True)"

definition insert_spectrum :: "spectrum_reference \<Rightarrow> spectrum_reference list \<Rightarrow> spectrum_reference list result" where
  "insert_spectrum r rows =
     (if 2 ^ 63 \<le> sr_stop r then Inl (RuntimeError ''NumericValueOutOfRange'')
      else if \<not> spectrum_checks r then Inl (RuntimeError ''CheckViolation'')
      else if (sr_key r, sr_version r) \<in> set (map (\<lambda>r. (sr_key r, sr_version r)) rows)
        then Inl (RuntimeError ''UniqueViolation'')
      else insert_pk sr_id r rows)"

definition next_version :: "('r \<Rightarrow> string) \<Rightarrow> ('r \<Rightarrow> nat) \<Rightarrow> string \<Rightarrow> 'r list \<Rightarrow> nat" where
  "next_version key version k rows = fold max (map version (filter (\<lambda>r. key r = k) rows)) 0 + 1"

subsection \<open>Keys, steps, dates\<close>

definition key_char :: "char \<Rightarrow> bool" where
  "key_char c \<longleftrightarrow> is_lower_alnum (char_lower c) \<or> c = CHR ''_'' \<or> c = CHR ''.'' \<or> c = CHR ''-''"

definition key_ok :: "string \<Rightarrow> bool" where
  "key_ok s \<longleftrightarrow> 1 \<le> length s \<and> length s \<le> 128 \<and> list_all key_char s"

definition clean_key :: "string \<Rightarrow> string result" where
  "clean_key s = (if key_ok (py_strip s) then Inr (py_strip s) else Inl (HTTPException 422 ''invalid_reference_key''))"

text \<open>\<open>Path(name).stem\<close>\<close>

definition path_stem :: "string \<Rightarrow> string" where
  "path_stem s = take (length (path_name s) - length (path_suffix s)) (path_name s)"

fun differences :: "int list \<Rightarrow> int list" where
  "differences (a # b # xs) = (b - a) # differences (b # xs)"
| "differences _ = []"

definition step_frequency :: "ref_point list \<Rightarrow> int option" where
  "step_frequency points = (case remdups (differences (map fst points)) of [d] \<Rightarrow> Some d | _ \<Rightarrow> None)"

definition parse_form_datetime :: "text_lib \<Rightarrow> string option \<Rightarrow> string \<Rightarrow> rat option result" where
  "parse_form_datetime lib v field =
     (if \<not> truthy v then Inr None
      else (case tl_fromiso lib (replace_Z (or_empty v)) of
          None \<Rightarrow> Inl (HTTPException 422 (''invalid_'' @ field))
        | Some d \<Rightarrow> Inr (Some (utc_seconds d))))"

subsection \<open>Importing a reference\<close>

record reference_form =
  fm_key :: "string option"
  fm_location_name :: "string option"
  fm_measured_at :: "string option"
  fm_operator :: "string option"
  fm_notes :: "string option"
  fm_rbw :: "pyfloat option"
  fm_vbw :: "pyfloat option"
  fm_valid_from :: "string option"
  fm_valid_until :: "string option"
  fm_creation_source :: string
  fm_activate :: bool
  fm_columns :: "(string \<times> sqlval) list"

record reference_upload =
  ru_filename :: "string option"
  ru_mime :: "string option"
  ru_payload :: "byte list"

text \<open>\<open>_import_error\<close>\<close>

definition import_answer :: "'a imported \<Rightarrow> 'a result" where
  "import_answer r = (case r of
     Inr x \<Rightarrow> Inr x
   | Inl (Raised e) \<Rightarrow> Inl e
   | Inl (Import_Error code) \<Rightarrow> Inl (HTTPException (if startswith code ''unsupported'' then 415 else 422) code))"

definition read_reference_upload :: "reference_upload \<Rightarrow> (string \<times> byte list) result" where
  "read_reference_upload up =
     and_then (read_bounded_upload (ru_payload up) (64 * (1024 * 1024)) ''empty_reference_file'' ''reference_too_large'') (\<lambda>bs.
     Inr (path_name (if truthy (ru_filename up) then or_empty (ru_filename up) else ''reference''), bs))"

definition max_reference_points :: nat where
  "max_reference_points = 65536"

definition inspect_reference :: "text_lib \<Rightarrow> reference_lib \<Rightarrow> reference_upload \<Rightarrow> reference_summary result" where
  "inspect_reference lib rl up =
     and_then (read_reference_upload up) (\<lambda>(filename, bs).
     import_answer (and_then (importer_for rl filename (or_empty (ru_mime up)) (take 512 bs)) (\<lambda>i. inspect_points lib rl i bs)))"

definition read_reference :: "text_lib \<Rightarrow> reference_lib \<Rightarrow> string \<Rightarrow> string \<Rightarrow> byte list \<Rightarrow> (imported_reference \<times> ref_point list) result" where
  "read_reference lib rl filename mime bs =
     and_then (import_answer (and_then (importer_for rl filename mime (take 512 bs)) (\<lambda>i. import_points lib rl i bs))) (\<lambda>im.
     and_then (peak_preserving_resample (im_points im) max_reference_points) (\<lambda>points. Inr (im, points)))"

definition import_metadata :: "imported_reference \<Rightarrow> ref_point list \<Rightarrow> row" where
  "import_metadata im points = jsonb_concat (im_metadata im)
     [(''original_point_count'', PInt (int (length (im_points im)))),
      (''resampled'', PBool (length points \<noteq> length (im_points im)))]"

definition deactivate_key :: "rat \<Rightarrow> string \<Rightarrow> spectrum_reference list \<Rightarrow> spectrum_reference list" where
  "deactivate_key now key = update_where (\<lambda>r. sr_key r = key \<and> sr_archived r = None)
     (\<lambda>r. r\<lparr>sr_active := False, sr_updated := now\<rparr>)"

text \<open>\<open>round(rbw_hz) if rbw_hz else None\<close>\<close>

definition round_optional :: "pyfloat option \<Rightarrow> int option result" where
  "round_optional x = (case x of None \<Rightarrow> Inr None
     | Some v \<Rightarrow> if v = Fin 0 then Inr None else and_then (float_to_int py_round v) (\<lambda>n. Inr (Some n)))"

definition point_rows :: "nat \<Rightarrow> rat \<Rightarrow> string \<Rightarrow> string \<Rightarrow> int option \<Rightarrow> int option \<Rightarrow> ref_point list \<Rightarrow> reference_point list" where
  "point_rows reference time location source_file rbw vbw points =
     map (\<lambda>(f, p). \<lparr>pt_reference = reference, pt_frequency = f, pt_power = p, pt_time = time,
       pt_location_name = location, pt_source_file = source_file,
       pt_rbw = rbw, pt_vbw = vbw\<rparr>) points"

text \<open>What an import has read from its form and its file before it opens a transaction.\<close>

record parsed_import =
  pi_filename :: string
  pi_payload :: "byte list"
  pi_source :: string
  pi_measured :: "rat option"
  pi_from :: "rat option"
  pi_until :: "rat option"
  pi_import :: imported_reference
  pi_points :: "ref_point list"
  pi_key :: string

definition parse_import :: "text_lib \<Rightarrow> reference_lib \<Rightarrow> reference_form \<Rightarrow> reference_upload \<Rightarrow> parsed_import result" where
  "parse_import lib rl fm up =
     and_then (read_reference_upload up) (\<lambda>(filename, bs).
     let source = py_lower (py_strip (fm_creation_source fm)) in
     if source \<notin> set creation_sources then Inl (HTTPException 422 ''invalid_creation_source'') else
     and_then (parse_form_datetime lib (fm_measured_at fm) ''measured_at'') (\<lambda>measured.
     and_then (parse_form_datetime lib (fm_valid_from fm) ''valid_from'') (\<lambda>starts.
     and_then (parse_form_datetime lib (fm_valid_until fm) ''valid_until'') (\<lambda>ends.
     if (case (starts, ends) of (Some a, Some b) \<Rightarrow> b \<le> a | _ \<Rightarrow> False) then Inl (HTTPException 422 ''invalid_validity_window'') else
     and_then (read_reference lib rl filename (or_empty (ru_mime up)) bs) (\<lambda>(im, points).
     and_then (clean_key (if truthy (fm_key fm) then or_empty (fm_key fm) else path_stem filename)) (\<lambda>key.
     Inr \<lparr>pi_filename = filename, pi_payload = bs, pi_source = source, pi_measured = measured, pi_from = starts,
          pi_until = ends, pi_import = im, pi_points = points, pi_key = key\<rparr>))))))"

definition imported_row ::
  "reference_env \<Rightarrow> reference_form \<Rightarrow> parsed_import \<Rightarrow> nat \<Rightarrow> nat option \<Rightarrow> spectrum_reference" where
  "imported_row re fm pd version lid =
     \<lparr>sr_id = re_reference_id re, sr_key = pi_key pd, sr_version = version, sr_location_id = lid,
      sr_location_name = fm_location_name fm, sr_start = fst (hd (pi_points pd)), sr_stop = fst (last (pi_points pd)),
      sr_step = step_frequency (pi_points pd), sr_rbw = fm_rbw fm, sr_vbw = fm_vbw fm, sr_measured = pi_measured pd,
      sr_operator = fm_operator fm, sr_notes = fm_notes fm, sr_checksum = re_hash_bytes re (pi_payload pd),
      sr_active = fm_activate fm, sr_valid_from = pi_from pd, sr_valid_until = pi_until pd,
      sr_creation_source = pi_source pd, sr_filename = pi_filename pd, sr_format = im_format (pi_import pd),
      sr_point_count = length (pi_points pd), sr_metadata = import_metadata (pi_import pd) (pi_points pd), sr_set = None,
      sr_session = None, sr_kind = None, sr_columns = fm_columns fm, sr_created = ev_now (re_sql re),
      sr_updated = ev_now (re_sql re), sr_archived = None\<rparr>"

definition write_import ::
  "reference_env \<Rightarrow> reference_form \<Rightarrow> parsed_import \<Rightarrow> reference_db \<Rightarrow> (reference_db \<times> spectrum_reference) result" where
  "write_import re fm pd db =
     and_then (if location_filter (fm_location_name fm) = None then Inr (rd_sessions db, None)
               else and_then (ensure_location (re_sql re) (or_empty (location_filter (fm_location_name fm))) (rd_sessions db))
                      (\<lambda>(sdb, l). Inr (sdb, Some l))) (\<lambda>(sdb, lid).
     let r = imported_row re fm pd (next_version sr_key sr_version (pi_key pd) (rd_spectrum db)) lid;
         rows = (if fm_activate fm then deactivate_key (ev_now (re_sql re)) (pi_key pd) (rd_spectrum db) else rd_spectrum db) in
     and_then (insert_spectrum r rows) (\<lambda>rows.
     and_then (round_optional (fm_rbw fm)) (\<lambda>rbw.
     and_then (round_optional (fm_vbw fm)) (\<lambda>vbw.
     Inr (db\<lparr>rd_sessions := sdb, rd_spectrum := rows,
        rd_points := rd_points db @ point_rows (sr_id r) (case pi_measured pd of Some t \<Rightarrow> t | None \<Rightarrow> re_clock re)
          (if truthy (fm_location_name fm) then or_empty (fm_location_name fm) else ''unspecified'') (pi_filename pd)
          rbw vbw (pi_points pd)\<rparr>, r)))))"

definition import_versioned_reference ::
  "text_lib \<Rightarrow> reference_lib \<Rightarrow> reference_env \<Rightarrow> reference_form \<Rightarrow> reference_upload \<Rightarrow> reference_db
     \<Rightarrow> (reference_db \<times> spectrum_reference) result" where
  "import_versioned_reference lib rl re fm up db =
     and_then (parse_import lib rl fm up) (\<lambda>pd. write_import re fm pd db)"

subsection \<open>Reading and activating references\<close>

text \<open>Text compares in the order of its characters (the collation of the server may differ).\<close>

definition list_versioned_references ::
  "int \<Rightarrow> bool \<Rightarrow> string option \<Rightarrow> string option \<Rightarrow> bool \<Rightarrow> reference_db \<Rightarrow> spectrum_reference list" where
  "list_versioned_references limit include_archived reference_key location_name active_only db =
     take (bounded_limit limit) (sort_key sr_key (listing sr_version (\<lambda>r.
         (include_archived \<or> sr_archived r = None)
       \<and> (truthy reference_key \<longrightarrow> sr_key r = or_empty reference_key)
       \<and> (case location_filter location_name of None \<Rightarrow> True
          | Some l \<Rightarrow> (case sr_location_name r of None \<Rightarrow> False | Some n \<Rightarrow> same_place n l))
       \<and> (active_only \<longrightarrow> sr_active r)) (rd_spectrum db)))"

definition points_of :: "nat \<Rightarrow> reference_point list \<Rightarrow> ref_point list" where
  "points_of i rows = map (\<lambda>p. (pt_frequency p, pt_power p)) (sort_key pt_frequency (filter (\<lambda>p. pt_reference p = i) rows))"

definition get_versioned_reference ::
  "nat \<Rightarrow> bool \<Rightarrow> reference_db \<Rightarrow> (spectrum_reference \<times> ref_point list option) result" where
  "get_versioned_reference i include_points db =
     (case filter (\<lambda>r. sr_id r = i) (rd_spectrum db) of
        [] \<Rightarrow> Inl (HTTPException 404 ''reference_not_found'')
      | r # _ \<Rightarrow> Inr (r, if include_points then Some (points_of i (rd_points db)) else None))"

definition activate_versioned_reference :: "rat \<Rightarrow> nat \<Rightarrow> reference_db \<Rightarrow> (reference_db \<times> spectrum_reference) result" where
  "activate_versioned_reference now i db =
     (case filter (\<lambda>r. sr_id r = i \<and> sr_archived r = None) (rd_spectrum db) of
        [] \<Rightarrow> Inl (HTTPException 404 ''reference_not_found'')
      | found # _ \<Rightarrow>
          (let rows = update_where (\<lambda>r. sr_key r = sr_key found \<and> sr_archived r = None)
                (\<lambda>r. r\<lparr>sr_active := (sr_id r = i), sr_updated := now\<rparr>) (rd_spectrum db) in
           Inr (db\<lparr>rd_spectrum := rows\<rparr>, hd (filter (\<lambda>r. sr_id r = i) rows))))"

definition deactivate_versioned_reference :: "rat \<Rightarrow> nat \<Rightarrow> reference_db \<Rightarrow> (reference_db \<times> spectrum_reference) result" where
  "deactivate_versioned_reference now i db =
     (let p = (\<lambda>r. sr_id r = i); f = (\<lambda>r. r\<lparr>sr_active := False, sr_updated := now\<rparr>) in
      case returning p f (rd_spectrum db) of
        [] \<Rightarrow> Inl (HTTPException 404 ''reference_not_found'')
      | r # _ \<Rightarrow> Inr (db\<lparr>rd_spectrum := update_where p f (rd_spectrum db)\<rparr>, r))"

subsection \<open>Export\<close>

text \<open>\<open>json.dumps(..., default=str)\<close>: the texts of identifiers and times, and the bytes of a value.\<close>

record export_lib =
  xl_uuid :: "nat \<Rightarrow> string"
  xl_time :: "rat \<Rightarrow> string"
  xl_dumps :: "pyval \<Rightarrow> byte list"

definition json_opt :: "('a \<Rightarrow> pyval) \<Rightarrow> 'a option \<Rightarrow> pyval" where
  "json_opt f x = (case x of None \<Rightarrow> PNone | Some y \<Rightarrow> f y)"

definition json_column :: "export_lib \<Rightarrow> sqlval \<Rightarrow> pyval" where
  "json_column xl v = (case v of SqlNull \<Rightarrow> PNone | SqlText s \<Rightarrow> PStr s | SqlInt n \<Rightarrow> PInt n
     | SqlReal r \<Rightarrow> PFloat (Fin r) | SqlTime t \<Rightarrow> PStr (xl_time xl t) | SqlJson j \<Rightarrow> j)"

definition json_uuid :: "export_lib \<Rightarrow> nat \<Rightarrow> pyval" where
  "json_uuid xl i = PStr (xl_uuid xl i)"

definition json_time :: "export_lib \<Rightarrow> rat \<Rightarrow> pyval" where
  "json_time xl t = PStr (xl_time xl t)"

definition json_reference :: "export_lib \<Rightarrow> spectrum_reference \<Rightarrow> row" where
  "json_reference xl r = (let c = (\<lambda>k. (k, json_column xl (column (sr_columns r) k))) in
     [(''id'', json_uuid xl (sr_id r)), (''reference_key'', PStr (sr_key r)), (''version'', PInt (int (sr_version r))),
      (''location_id'', json_opt (json_uuid xl) (sr_location_id r)), (''location_name'', json_opt PStr (sr_location_name r)),
      c ''device_name'', c ''source_type'', c ''antenna'', c ''downconverter_profile'',
      (''start_frequency_hz'', PInt (sr_start r)), (''stop_frequency_hz'', PInt (sr_stop r)),
      (''step_frequency_hz'', json_opt PInt (sr_step r)), (''rbw_hz'', json_opt PFloat (sr_rbw r)),
      (''vbw_hz'', json_opt PFloat (sr_vbw r)), (''measured_at'', json_opt (json_time xl) (sr_measured r)),
      (''operator_name'', json_opt PStr (sr_operator r)), (''notes'', json_opt PStr (sr_notes r)),
      (''checksum_sha256'', PStr (sr_checksum r)), (''is_active'', PBool (sr_active r)),
      (''valid_from'', json_opt (json_time xl) (sr_valid_from r)), (''valid_until'', json_opt (json_time xl) (sr_valid_until r)),
      (''creation_source'', PStr (sr_creation_source r)), (''original_filename'', PStr (sr_filename r)),
      (''import_format'', PStr (sr_format r)), (''point_count'', PInt (int (sr_point_count r))),
      (''metadata'', PDict (sr_metadata r)), (''created_at'', json_time xl (sr_created r)),
      (''updated_at'', json_time xl (sr_updated r)), (''archived_at'', json_opt (json_time xl) (sr_archived r)),
      (''reference_set_id'', json_opt (json_uuid xl) (sr_set r)), (''measurement_session_id'', json_opt (json_uuid xl) (sr_session r)),
      (''reference_kind'', json_opt PStr (sr_kind r)), c ''window_start'', c ''window_end'', c ''frame_count''])"

definition json_points :: "ref_point list \<Rightarrow> pyval" where
  "json_points ps = PList (map (\<lambda>(f, p). PDict [(''frequency_hz'', PInt f), (''power_dbm'', PFloat (Fin p))]) ps)"

text \<open>A CSV body is its header and the cells of its rows (\<open>None\<close> prints as the empty text).\<close>

datatype export_body = Json_Body pyval | Csv_Body "string list" "pyval list list"

definition csv_export_header :: "string list" where
  "csv_export_header = [''reference_id'', ''reference_key'', ''version'', ''layer_type'', ''display_color'',
     ''location_name'', ''device_name'', ''measured_at'', ''frequency_hz'', ''power_dbm'']"

definition csv_export_rows :: "export_lib \<Rightarrow> spectrum_reference \<Rightarrow> ref_point list \<Rightarrow> pyval list list" where
  "csv_export_rows xl r points = map (\<lambda>(f, p).
     [json_uuid xl (sr_id r), PStr (sr_key r), PInt (int (sr_version r)), PStr ''reference'',
      (if dict_has (sr_metadata r) ''display_color'' then dict_get (sr_metadata r) ''display_color'' else PStr ''#ff5252''),
      json_opt PStr (sr_location_name r), json_column xl (column (sr_columns r) ''device_name''),
      json_opt (json_time xl) (sr_measured r), PInt f, PFloat (Fin p)]) points"

definition export_versioned_reference ::
  "export_lib \<Rightarrow> nat \<Rightarrow> string \<Rightarrow> reference_db \<Rightarrow> (string \<times> export_body) result" where
  "export_versioned_reference xl i format db =
     and_then (get_versioned_reference i True db) (\<lambda>(r, points).
     let ps = (case points of None \<Rightarrow> [] | Some ps \<Rightarrow> ps); filename = sr_key r @ ''_v'' @ nat_text (sr_version r) in
     if py_lower format = ''json''
       then Inr (filename @ ''.json'', Json_Body (PDict [(''metadata'', PDict (json_reference xl r)), (''points'', json_points ps)]))
     else if py_lower format = ''csv''
       then Inr (filename @ ''.csv'', Csv_Body csv_export_header (csv_export_rows xl r ps))
     else Inl (HTTPException 422 ''unsupported_export_format''))"

end
