(* ===== verification/Reference_Sets.thy ===== *)
theory Reference_Sets
  imports Reference_Catalog
begin

section \<open>Captured reference sets\<close>

text \<open>
  \<open>routers/reference_sets.py\<close>: the capture of a set in one transaction (place, version, the set, its
  spectrum reference and points, the device baselines), activation, listing, comparison, and the
  JSON package of a set that another installation imports.
\<close>

subsection \<open>Capture\<close>

record capture_request =
  cq_name :: string
  cq_key :: string
  cq_location_name :: string
  cq_session :: "string option"
  cq_operator :: "string option"
  cq_notes :: "string option"
  cq_kind :: string
  cq_points :: "raw_point list"
  cq_metadata :: row
  cq_wifi :: bool
  cq_bluetooth :: bool
  cq_activate :: bool

text \<open>The field constraints of \<open>ReferenceSetCaptureRequest\<close>.\<close>

definition capture_fields_ok :: "capture_request \<Rightarrow> bool" where
  "capture_fields_ok rq \<longleftrightarrow>
     1 \<le> length (cq_name rq) \<and> length (cq_name rq) \<le> 200
     \<and> 1 \<le> length (cq_key rq) \<and> length (cq_key rq) \<le> 128
     \<and> 1 \<le> length (cq_location_name rq) \<and> length (cq_location_name rq) \<le> 200
     \<and> length (or_empty (cq_operator rq)) \<le> 200 \<and> length (or_empty (cq_notes rq)) \<le> 2000
     \<and> list_all (\<lambda>(f, p). 1 \<le> f) (cq_points rq)"

fun normalize_from :: "int \<Rightarrow> raw_point list \<Rightarrow> ref_point list result" where
  "normalize_from previous [] = Inr []"
| "normalize_from previous ((f, p) # ps) =
     (if f \<le> 0 \<or> f \<le> previous then Inl (HTTPException 422 ''invalid_spectrum_points'')
      else (case p of
          Fin r \<Rightarrow> and_then (normalize_from f ps) (\<lambda>rest. Inr ((f, r) # rest))
        | _ \<Rightarrow> Inl (HTTPException 422 ''invalid_spectrum_points'')))"

definition normalize_points :: "raw_point list \<Rightarrow> ref_point list result" where
  "normalize_points points =
     (if points = [] \<or> max_reference_points < length points then Inl (HTTPException 422 ''invalid_spectrum_points'')
      else normalize_from 0 points)"

text \<open>The test of the number of points with binary numbers, for evaluation.\<close>

lemma normalize_points_code [code]:
  "normalize_points points =
     (if points = [] \<or> 65536 < int (length points) then Inl (HTTPException 422 ''invalid_spectrum_points'')
      else normalize_from 0 points)"
proof -
  have "max_reference_points < length points \<longleftrightarrow> 65536 < int (length points)" unfolding max_reference_points_def by linarith
  then show ?thesis by (simp only: normalize_points_def)
qed

definition spectrum_kinds :: "string list" where
  "spectrum_kinds = [''snapshot'', ''max_hold'']"

definition optional_session :: "(string \<Rightarrow> nat option) \<Rightarrow> string option \<Rightarrow> nat option result" where
  "optional_session parse v =
     (if \<not> truthy v then Inr None
      else (case parse (or_empty v) of
          None \<Rightarrow> Inl (HTTPException 422 ''invalid_measurement_session_id'') | Some i \<Rightarrow> Inr (Some i)))"

definition insert_set :: "catalog_set \<Rightarrow> catalog_set list \<Rightarrow> catalog_set list result" where
  "insert_set r rows =
     (if (cs_key r, cs_version r) \<in> set (map (\<lambda>r. (cs_key r, cs_version r)) rows)
        then Inl (RuntimeError ''UniqueViolation'')
      else insert_pk cs_id r rows)"

text \<open>The values a capture takes from the metadata, as the server stores them in their columns.\<close>

fun stored_columns :: "(string \<Rightarrow> pyval \<Rightarrow> sqlval option) \<Rightarrow> row \<Rightarrow> string list \<Rightarrow> (string \<times> sqlval) list result" where
  "stored_columns store metadata [] = Inr []"
| "stored_columns store metadata (k # ks) =
     (case store k (dict_get metadata k) of
        None \<Rightarrow> Inl (RuntimeError ''DataError'')
      | Some v \<Rightarrow> and_then (stored_columns store metadata ks) (\<lambda>cs. Inr ((k, v) # cs)))"

datatype baseline_outcome = Saved_Baseline nat nat | No_Session_Observations

text \<open>A 409 of \<open>save_baseline\<close> becomes a warning, any other error ends the request.\<close>

definition capture_baseline ::
  "rat \<Rightarrow> save_request \<Rightarrow> device_db \<Rightarrow> (device_db \<times> baseline_outcome) result" where
  "capture_baseline now rq db =
     (case save_baseline now rq db of
        Inr (db', v, n) \<Rightarrow> Inr (db', Saved_Baseline v n)
      | Inl e \<Rightarrow> (case e of
            HTTPException code m \<Rightarrow> if code = 409 then Inr (db, No_Session_Observations) else Inl e
          | _ \<Rightarrow> Inl e))"

fun capture_baselines ::
  "rat \<Rightarrow> (string \<Rightarrow> save_request) \<Rightarrow> (string \<times> bool) list \<Rightarrow> device_db
     \<Rightarrow> (device_db \<times> (string \<times> baseline_outcome) list) result" where
  "capture_baselines now rq [] db = Inr (db, [])"
| "capture_baselines now rq ((protocol, include) # ps) db =
     (if \<not> include then capture_baselines now rq ps db
      else and_then (capture_baseline now (rq protocol) db) (\<lambda>(db, o1).
        and_then (capture_baselines now rq ps db) (\<lambda>(db, os). Inr (db, (protocol, o1) # os))))"

definition deactivate_place :: "rat \<Rightarrow> string \<Rightarrow> catalog_set list \<Rightarrow> catalog_set list" where
  "deactivate_place now location = update_where (\<lambda>s. same_place (cs_location_name s) location \<and> cs_archived s = None)
     (\<lambda>s. s\<lparr>cs_active := False, cs_updated := now\<rparr>)"

definition captured_set ::
  "reference_env \<Rightarrow> capture_request \<Rightarrow> string \<Rightarrow> string \<Rightarrow> string \<Rightarrow> nat \<Rightarrow> nat \<Rightarrow> nat option \<Rightarrow> catalog_set" where
  "captured_set re rq key kind location version lid session =
     \<lparr>cs_id = re_set_id re, cs_key = key, cs_version = version, cs_name = py_strip (cq_name rq), cs_location_id = lid,
      cs_location_name = location, cs_session = session, cs_captured = re_clock re, cs_status = ''ready'',
      cs_active = cq_activate rq, cs_created_by = cq_operator rq, cs_notes = cq_notes rq,
      cs_metadata = [(''spectrum_reference_kind'', PStr kind)], cs_created = ev_now (re_sql re),
      cs_updated = ev_now (re_sql re), cs_archived = None\<rparr>"

definition captured_spectrum ::
  "reference_env \<Rightarrow> capture_request \<Rightarrow> catalog_set \<Rightarrow> string \<Rightarrow> ref_point list \<Rightarrow> row \<Rightarrow> (string \<times> sqlval) list \<Rightarrow> spectrum_reference" where
  "captured_spectrum re rq s kind points metadata columns =
     \<lparr>sr_id = re_reference_id re, sr_key = cs_key s, sr_version = cs_version s, sr_location_id = Some (cs_location_id s),
      sr_location_name = Some (cs_location_name s), sr_start = fst (hd points), sr_stop = fst (last points),
      sr_step = step_frequency points, sr_rbw = None, sr_vbw = None, sr_measured = Some (re_clock re),
      sr_operator = cq_operator rq, sr_notes = cq_notes rq, sr_checksum = re_hash_points re points,
      sr_active = cq_activate rq, sr_valid_from = None, sr_valid_until = None, sr_creation_source = ''live'',
      sr_filename = ''reference_set_capture'', sr_format = ''live_spectrum_capture'', sr_point_count = length points,
      sr_metadata = metadata, sr_set = Some (cs_id s), sr_session = cs_session s, sr_kind = Some kind,
      sr_columns = (''source_type'', SqlText ''spectrum_monitor'') # columns, sr_created = ev_now (re_sql re),
      sr_updated = ev_now (re_sql re), sr_archived = None\<rparr>"

definition set_save_request :: "capture_request \<Rightarrow> catalog_set \<Rightarrow> string \<Rightarrow> save_request" where
  "set_save_request rq s protocol =
     \<lparr>sv_protocol = protocol, sv_location_name = cs_location_name s, sv_location_id = Some (cs_location_id s),
      sv_session = cs_session s, sv_operator = cq_operator rq, sv_notes = cq_notes rq,
      sv_reference_set_id = Some (cs_id s)\<rparr>"

definition capture_kind :: "capture_request \<Rightarrow> string" where
  "capture_kind rq = py_lower (py_strip (cq_kind rq))"

definition capture_metadata :: "capture_request \<Rightarrow> row" where
  "capture_metadata rq = jsonb_concat (cq_metadata rq)
     [(''layer_type'', PStr ''reference''), (''reference_kind'', PStr (capture_kind rq))]"

record capture_answer =
  ca_set :: catalog_set
  ca_spectrum :: spectrum_reference
  ca_baselines :: "(string \<times> baseline_outcome) list"

text \<open>The transaction, once the request is validated.\<close>

definition write_capture ::
  "reference_env \<Rightarrow> capture_request \<Rightarrow> string \<Rightarrow> ref_point list \<Rightarrow> nat option \<Rightarrow> reference_db
     \<Rightarrow> (reference_db \<times> capture_answer) result" where
  "write_capture re rq key points session db =
     (let location = py_strip (cq_location_name rq); kind = capture_kind rq; now = ev_now (re_sql re);
          metadata = capture_metadata rq in
      and_then (ensure_location (re_sql re) location (rd_sessions db)) (\<lambda>(sdb, lid).
      if (case session of None \<Rightarrow> False | Some i \<Rightarrow> \<not> session_exists i sdb)
        then Inl (HTTPException 404 ''measurement_session_not_found'')
      else let version = next_version cs_key cs_version key (rd_sets db);
               sets = (if cq_activate rq then deactivate_place now location (rd_sets db) else rd_sets db);
               s = captured_set re rq key kind location version lid session in
      and_then (insert_set s sets) (\<lambda>sets.
      and_then (stored_columns (re_column re) metadata [''device_name'', ''window_start'', ''window_end'', ''frame_count'']) (\<lambda>columns.
      let r = captured_spectrum re rq s kind points metadata columns in
      and_then (insert_spectrum r (rd_spectrum db)) (\<lambda>spectrum.
      and_then (capture_baselines now (set_save_request rq s) [(''wifi'', cq_wifi rq), (''bluetooth'', cq_bluetooth rq)]
          (rd_devices db)) (\<lambda>(devices, outcomes).
      Inr (\<lparr>rd_sessions = sdb, rd_devices = devices, rd_sets = sets, rd_spectrum = spectrum,
             rd_points = rd_points db @ point_rows (sr_id r) (re_clock re) location ''reference_set_capture'' None None points\<rparr>,
           \<lparr>ca_set = s, ca_spectrum = r, ca_baselines = outcomes\<rparr>)))))))"

definition capture_reference_set ::
  "(string \<Rightarrow> nat option) \<Rightarrow> reference_env \<Rightarrow> capture_request \<Rightarrow> reference_db \<Rightarrow> (reference_db \<times> capture_answer) result" where
  "capture_reference_set parse re rq db =
     and_then (clean_key (cq_key rq)) (\<lambda>key.
     if capture_kind rq \<notin> set spectrum_kinds then Inl (HTTPException 422 ''invalid_spectrum_reference_kind'') else
     and_then (normalize_points (cq_points rq)) (\<lambda>points.
     and_then (optional_session parse (cq_session rq)) (\<lambda>session.
     write_capture re rq key points session db)))"

subsection \<open>Reading and activating\<close>

definition list_reference_sets :: "string option \<Rightarrow> bool \<Rightarrow> bool \<Rightarrow> int \<Rightarrow> reference_db \<Rightarrow> catalog_set list" where
  "list_reference_sets location_name active_only include_archived limit db =
     take (bounded_limit limit) (listing cs_updated (\<lambda>s.
         (case location_filter location_name of None \<Rightarrow> True | Some l \<Rightarrow> same_place (cs_location_name s) l)
       \<and> (active_only \<longrightarrow> cs_active s) \<and> (include_archived \<or> cs_archived s = None)) (rd_sets db))"

record set_components =
  co_spectrum :: "spectrum_reference list"
  co_wifi :: nat
  co_bluetooth :: nat

definition reference_set_components :: "nat \<Rightarrow> reference_db \<Rightarrow> set_components" where
  "reference_set_components i db =
     (let rows = (\<lambda>p. filter (\<lambda>b. bl_reference_set_id b = Some i \<and> bl_protocol b = p) (db_baselines (rd_devices db))) in
      \<lparr>co_spectrum = listing sr_version (\<lambda>r. sr_set r = Some i) (rd_spectrum db),
       co_wifi = length (rows Wifi), co_bluetooth = length (rows Bluetooth)\<rparr>)"

definition find_set :: "nat \<Rightarrow> reference_db \<Rightarrow> catalog_set result" where
  "find_set i db = (case filter (\<lambda>s. cs_id s = i) (rd_sets db) of
     [] \<Rightarrow> Inl (HTTPException 404 ''reference_set_not_found'') | s # _ \<Rightarrow> Inr s)"

definition get_reference_set :: "nat \<Rightarrow> reference_db \<Rightarrow> (catalog_set \<times> set_components) result" where
  "get_reference_set i db = and_then (find_set i db) (\<lambda>s. Inr (s, reference_set_components i db))"

definition get_reference_set_spectrum :: "nat \<Rightarrow> reference_db \<Rightarrow> ref_point list result" where
  "get_reference_set_spectrum i db =
     (case listing (\<lambda>r. (sr_active r, sr_version r)) (\<lambda>r. sr_set r = Some i) (rd_spectrum db) of
        [] \<Rightarrow> Inl (HTTPException 404 ''spectrum_reference_not_found'')
      | r # _ \<Rightarrow> Inr (points_of (sr_id r) (rd_points db)))"

definition activate_reference_set :: "rat \<Rightarrow> nat \<Rightarrow> reference_db \<Rightarrow> (reference_db \<times> catalog_set) result" where
  "activate_reference_set now i db =
     (case filter (\<lambda>s. cs_id s = i \<and> cs_archived s = None) (rd_sets db) of
        [] \<Rightarrow> Inl (HTTPException 404 ''reference_set_not_found'')
      | found # _ \<Rightarrow>
          (let here = (\<lambda>s. same_place (cs_location_name s) (cs_location_name found));
               sets = update_where (\<lambda>s. here s \<and> cs_archived s = None)
                 (\<lambda>s. s\<lparr>cs_active := (cs_id s = i), cs_updated := now\<rparr>) (rd_sets db);
               ids = map cs_id (filter here sets);
               spectrum = update_where (\<lambda>r. \<exists>j\<in>set ids. sr_set r = Some j)
                 (\<lambda>r. r\<lparr>sr_active := (sr_set r = Some i), sr_updated := now\<rparr>) (rd_spectrum db) in
           Inr (db\<lparr>rd_sets := sets, rd_spectrum := spectrum\<rparr>, hd (filter (\<lambda>s. cs_id s = i) sets))))"

definition deactivate_reference_set :: "rat \<Rightarrow> nat \<Rightarrow> reference_db \<Rightarrow> (reference_db \<times> catalog_set) result" where
  "deactivate_reference_set now i db =
     (let p = (\<lambda>s. cs_id s = i); f = (\<lambda>s. s\<lparr>cs_active := False, cs_updated := now\<rparr>) in
      case returning p f (rd_sets db) of
        [] \<Rightarrow> Inl (HTTPException 404 ''reference_set_not_found'')
      | s # _ \<Rightarrow> Inr (db\<lparr>rd_sets := update_where p f (rd_sets db),
             rd_spectrum := update_where (\<lambda>r. sr_set r = Some i)
               (\<lambda>r. r\<lparr>sr_active := False, sr_updated := now\<rparr>) (rd_spectrum db)\<rparr>, s))"

text \<open>The graces of the two protocols are settings.\<close>

definition compare_reference_set ::
  "string \<Rightarrow> (string \<Rightarrow> nat option) \<Rightarrow> rat \<Rightarrow> rat \<Rightarrow> nat \<Rightarrow> string option \<Rightarrow> reference_db \<Rightarrow> comparison result" where
  "compare_reference_set protocol parse now grace i session db =
     and_then (optional_session parse session) (\<lambda>session.
     and_then (find_set i db) (\<lambda>s.
     compute_baseline_comparison now grace protocol (cs_location_name s) session (Some i) (rd_devices db)))"

definition baseline_grace :: "rat \<Rightarrow> rat \<Rightarrow> string \<Rightarrow> rat" where
  "baseline_grace wifi_grace bluetooth_grace protocol = (if protocol = ''wifi'' then wifi_grace else bluetooth_grace)"

definition compare_reference_set_wifi ::
  "rat \<Rightarrow> rat \<Rightarrow> (string \<Rightarrow> nat option) \<Rightarrow> rat \<Rightarrow> nat \<Rightarrow> string option \<Rightarrow> reference_db \<Rightarrow> comparison result" where
  "compare_reference_set_wifi wg bg parse now = compare_reference_set ''wifi'' parse now (baseline_grace wg bg ''wifi'')"

definition compare_reference_set_bluetooth ::
  "rat \<Rightarrow> rat \<Rightarrow> (string \<Rightarrow> nat option) \<Rightarrow> rat \<Rightarrow> nat \<Rightarrow> string option \<Rightarrow> reference_db \<Rightarrow> comparison result" where
  "compare_reference_set_bluetooth wg bg parse now = compare_reference_set ''bluetooth'' parse now (baseline_grace wg bg ''bluetooth'')"

subsection \<open>The package of a set\<close>

text \<open>The rows of the baselines print as the cursor returns them (\<open>baseline_json\<close>).\<close>

definition json_set :: "export_lib \<Rightarrow> catalog_set \<Rightarrow> row" where
  "json_set xl s =
     [(''id'', json_uuid xl (cs_id s)), (''reference_key'', PStr (cs_key s)), (''version'', PInt (int (cs_version s))),
      (''name'', PStr (cs_name s)), (''location_id'', json_uuid xl (cs_location_id s)),
      (''location_name'', PStr (cs_location_name s)),
      (''source_measurement_session_id'', json_opt (json_uuid xl) (cs_session s)),
      (''capture_started_at'', json_time xl (cs_captured s)), (''capture_ended_at'', json_time xl (cs_captured s)),
      (''status'', PStr (cs_status s)), (''is_active'', PBool (cs_active s)),
      (''created_by'', json_opt PStr (cs_created_by s)), (''notes'', json_opt PStr (cs_notes s)),
      (''metadata'', PDict (cs_metadata s)), (''created_at'', json_time xl (cs_created s)),
      (''updated_at'', json_time xl (cs_updated s)), (''archived_at'', json_opt (json_time xl) (cs_archived s))]"

definition protocol_name :: "protocol \<Rightarrow> string" where
  "protocol_name p = (case p of Wifi \<Rightarrow> ''wifi'' | Bluetooth \<Rightarrow> ''bluetooth'')"

definition export_payload ::
  "export_lib \<Rightarrow> (baseline_row \<Rightarrow> pyval) \<Rightarrow> rat \<Rightarrow> nat \<Rightarrow> reference_db \<Rightarrow> row result" where
  "export_payload xl baseline_json now i db =
     and_then (find_set i db) (\<lambda>s.
     let spectrum = listing sr_version (\<lambda>r. sr_set r = Some i) (rd_spectrum db);
         points = (case spectrum of [] \<Rightarrow> [] | r # _ \<Rightarrow> points_of (sr_id r) (rd_points db));
         baselines = sort_key (\<lambda>b. protocol_name (bl_protocol b)) (sort_key bl_stable_identity
           (filter (\<lambda>b. bl_reference_set_id b = Some i) (db_baselines (rd_devices db)))) in
     Inr [(''manifest'', PDict [(''schema'', PStr ''reference_set_export''), (''version'', PInt 1), (''exported_at'', json_time xl now)]),
          (''reference_set'', PDict (json_set xl s)),
          (''spectrum_reference'', case spectrum of [] \<Rightarrow> PNone | r # _ \<Rightarrow> PDict (json_reference xl r)),
          (''spectrum_points'', json_points points),
          (''device_baselines'', PList (map baseline_json baselines))])"

definition export_reference_set ::
  "export_lib \<Rightarrow> (baseline_row \<Rightarrow> pyval) \<Rightarrow> rat \<Rightarrow> nat \<Rightarrow> string \<Rightarrow> reference_db \<Rightarrow> (string \<times> byte list) result" where
  "export_reference_set xl baseline_json now i format db =
     (if py_lower format \<noteq> ''json'' then Inl (HTTPException 422 ''unsupported_export_format'')
      else and_then (export_payload xl baseline_json now i db) (\<lambda>payload.
        and_then (find_set i db) (\<lambda>s.
        Inr (cs_key s @ ''_reference_set_v'' @ nat_text (cs_version s) @ ''.json'', xl_dumps xl (PDict payload)))))"

text \<open>\<open>text.replace(old, new)\<close>: \<open>skip\<close> counts the characters of a match still to be passed over.\<close>

fun replace_from :: "string \<Rightarrow> string \<Rightarrow> nat \<Rightarrow> string \<Rightarrow> string" where
  "replace_from old new skip [] = []"
| "replace_from old new skip (c # cs) =
     (if 0 < skip then replace_from old new (skip - 1) cs
      else if startswith (c # cs) old then new @ replace_from old new (length old - 1) cs
      else c # replace_from old new 0 cs)"

definition text_or :: "text_lib \<Rightarrow> pyval \<Rightarrow> string \<Rightarrow> string" where
  "text_or lib v fallback = (if py_truthy v then py_str lib v else fallback)"

text \<open>A field of type \<open>str | None\<close>: any other value is refused by the model class.\<close>

definition optional_text :: "pyval \<Rightarrow> string option result" where
  "optional_text v = (case v of PNone \<Rightarrow> Inr None | PStr s \<Rightarrow> Inr (Some s) | _ \<Rightarrow> Inl (RuntimeError ''ValidationError''))"

fun coerce_points :: "(pyval \<Rightarrow> raw_point option) \<Rightarrow> pyval list \<Rightarrow> raw_point list result" where
  "coerce_points coerce [] = Inr []"
| "coerce_points coerce (v # vs) = (case coerce v of
     None \<Rightarrow> Inl (RuntimeError ''ValidationError'')
   | Some p \<Rightarrow> and_then (coerce_points coerce vs) (\<lambda>ps. Inr (p # ps)))"

text \<open>
  The request an uploaded package stands for. \<open>coerce\<close> is the conversion pydantic makes of one point
  (\<open>None\<close> where it refuses it).
\<close>

definition package_request ::
  "text_lib \<Rightarrow> (pyval \<Rightarrow> raw_point option) \<Rightarrow> string \<Rightarrow> bool \<Rightarrow> pyval \<Rightarrow> capture_request result" where
  "package_request lib coerce filename activate data =
     (case data of
        PDict d \<Rightarrow> (case (dict_get d ''reference_set'', dict_get d ''spectrum_points'') of
            (PDict rset, PList points) \<Rightarrow>
              and_then (case dict_get d ''spectrum_reference'' of
                   PDict sr \<Rightarrow> Inr sr
                 | v \<Rightarrow> if py_truthy v then Inl (AttributeError ''get'') else Inr []) (\<lambda>sr.
              and_then (optional_text (dict_get rset ''created_by'')) (\<lambda>operator.
              and_then (optional_text (dict_get rset ''notes'')) (\<lambda>notes.
              and_then (coerce_points coerce points) (\<lambda>points.
              let rq = \<lparr>cq_name = text_or lib (dict_get rset ''name'') filename,
                   cq_key = text_or lib (dict_get rset ''reference_key'') (path_stem filename),
                   cq_location_name = text_or lib (dict_get rset ''location_name'') ''imported'',
                   cq_session = None, cq_operator = operator, cq_notes = notes,
                   cq_kind = replace_from ''imported'' ''snapshot'' 0 (text_or lib (dict_get sr ''reference_kind'') ''imported''),
                   cq_points = points, cq_metadata = [(''imported_from'', PStr filename)],
                   cq_wifi = False, cq_bluetooth = False, cq_activate = activate\<rparr> in
              if capture_fields_ok rq then Inr rq else Inl (RuntimeError ''ValidationError'')))))
          | _ \<Rightarrow> Inl (HTTPException 422 ''invalid_reference_set_package''))
      | _ \<Rightarrow> Inl (HTTPException 422 ''invalid_reference_set_package''))"

definition import_reference_set ::
  "(string \<Rightarrow> nat option) \<Rightarrow> text_lib \<Rightarrow> reference_lib \<Rightarrow> (pyval \<Rightarrow> raw_point option) \<Rightarrow> reference_env \<Rightarrow> reference_upload \<Rightarrow> bool
     \<Rightarrow> reference_db \<Rightarrow> (reference_db \<times> capture_answer) result" where
  "import_reference_set parse lib rl coerce re up activate db =
     (let filename = path_name (if truthy (ru_filename up) then or_empty (ru_filename up) else ''reference_set.json'') in
      and_then (read_bounded_upload (ru_payload up) (64 * (1024 * 1024)) ''empty_reference_set'' ''reference_set_too_large'') (\<lambda>bs.
      case rl_loads_utf8 rl bs of
        None \<Rightarrow> Inl (HTTPException 422 ''invalid_reference_set_json'')
      | Some data \<Rightarrow> and_then (package_request lib coerce filename activate data) (\<lambda>rq.
          capture_reference_set parse re rq db)))"

end
