(* ===== verification/Reference_Properties.thy ===== *)
theory Reference_Properties
  imports Reference_Sets
begin

section \<open>Properties of the reference catalog\<close>

text \<open>
  The invariant of the tables of references and sets under every operation of the two routers, the
  round trips through the exported JSON, and what a capture does to the references before it.
\<close>

subsection \<open>The invariant\<close>

definition points_match :: "reference_point list \<Rightarrow> spectrum_reference \<Rightarrow> bool" where
  "points_match pts r \<longleftrightarrow> (let ps = points_of (sr_id r) pts in
     increasing ps \<and> 2 \<le> length ps \<and> length ps \<le> max_reference_points \<and> length ps = sr_point_count r
     \<and> sr_start r = fst (hd ps) \<and> sr_stop r = fst (last ps) \<and> (\<forall>p\<in>set ps. 0 \<le> fst p))"

definition live_set :: "catalog_set \<Rightarrow> bool" where
  "live_set s \<longleftrightarrow> cs_active s \<and> cs_archived s = None"

definition one_active_set :: "catalog_set list \<Rightarrow> bool" where
  "one_active_set sets \<longleftrightarrow> (\<forall>s\<in>set sets. \<forall>t\<in>set sets. live_set s \<longrightarrow> live_set t \<longrightarrow>
     same_place (cs_location_name s) (cs_location_name t) \<longrightarrow> cs_id s = cs_id t)"

text \<open>A reference of the table, with its points; one of a set has no frequency zero.\<close>

definition reference_ok :: "reference_point list \<Rightarrow> spectrum_reference \<Rightarrow> bool" where
  "reference_ok pts r \<longleftrightarrow> spectrum_checks r \<and> key_ok (sr_key r) \<and> points_match pts r \<and> (sr_set r \<noteq> None \<longrightarrow> 0 < sr_start r)"

definition spectrum_ok :: "spectrum_reference list \<Rightarrow> reference_point list \<Rightarrow> bool" where
  "spectrum_ok rows pts \<longleftrightarrow> distinct (map sr_id rows) \<and> distinct (map (\<lambda>r. (sr_key r, sr_version r)) rows)
     \<and> (\<forall>r\<in>set rows. reference_ok pts r)
     \<and> (\<forall>p\<in>set pts. pt_reference p \<in> set (map sr_id rows))"

definition sets_ok :: "catalog_set list \<Rightarrow> bool" where
  "sets_ok sets \<longleftrightarrow> distinct (map cs_id sets) \<and> distinct (map (\<lambda>s. (cs_key s, cs_version s)) sets) \<and> one_active_set sets"

definition catalog_ok :: "reference_db \<Rightarrow> bool" where
  "catalog_ok db \<longleftrightarrow> spectrum_ok (rd_spectrum db) (rd_points db) \<and> sets_ok (rd_sets db)"

subsection \<open>Points\<close>

lemma sorted_points: "increasing ps \<Longrightarrow> sort_key pt_frequency (point_rows i t l f a b ps) = point_rows i t l f a b ps"
  by (rule sort_key_id_if_sorted) (induction ps, auto simp: increasing_def point_rows_def)

lemma point_rows_pairs [simp]: "map (\<lambda>p. (pt_frequency p, pt_power p)) (point_rows i t l f a b ps) = ps"
  by (induction ps) (auto simp: point_rows_def)

lemma points_of_added:
  assumes "\<forall>p\<in>set pts. pt_reference p \<noteq> i" "increasing ps"
  shows "points_of i (pts @ point_rows i t l f a b ps) = ps"
proof -
  have "filter (\<lambda>p. pt_reference p = i) pts = []" using assms(1) by (simp add: filter_empty_conv)
  moreover have "filter (\<lambda>p. pt_reference p = i) (point_rows i t l f a b ps) = point_rows i t l f a b ps"
    by (auto simp: point_rows_def intro!: filter_True)
  ultimately show ?thesis using sorted_points [OF assms(2)] by (simp add: points_of_def)
qed

lemma points_of_other: "j \<noteq> i \<Longrightarrow> points_of j (pts @ point_rows i t l f a b ps) = points_of j pts"
proof -
  assume "j \<noteq> i"
  then have "filter (\<lambda>p. pt_reference p = j) (point_rows i t l f a b ps) = []"
    by (auto simp: point_rows_def filter_empty_conv)
  then show ?thesis by (simp add: points_of_def)
qed

text \<open>Adding a reference with its points; changing only the active flags and times of references.\<close>

lemma insert_spectrum_Inr:
  "insert_spectrum r rows = Inr rows' \<longleftrightarrow> sr_stop r < 2 ^ 63 \<and> spectrum_checks r
     \<and> (sr_key r, sr_version r) \<notin> (\<lambda>r. (sr_key r, sr_version r)) ` set rows \<and> sr_id r \<notin> set (map sr_id rows)
     \<and> rows' = rows @ [r]"
  by (auto simp: insert_spectrum_def insert_pk_Inr not_le)

lemma spectrum_added:
  assumes ok: "spectrum_ok rows pts" and ins: "insert_spectrum r rows = Inr rows'"
    and ps: "increasing ps" "2 \<le> length ps" "length ps \<le> max_reference_points" "\<forall>p\<in>set ps. 0 \<le> fst p"
    and r: "sr_start r = fst (hd ps)" "sr_stop r = fst (last ps)" "sr_point_count r = length ps"
    and key: "key_ok (sr_key r)" "sr_set r \<noteq> None \<Longrightarrow> 0 < sr_start r"
  shows "spectrum_ok rows' (pts @ point_rows (sr_id r) t l f a b ps)"
proof -
  note i = ins [unfolded insert_spectrum_Inr]
  have fresh: "\<forall>p\<in>set pts. pt_reference p \<noteq> sr_id r" using ok i unfolding spectrum_ok_def by (metis)
  have "reference_ok (pts @ point_rows (sr_id r) t l f a b ps) s" if "s \<in> set rows" for s
  proof -
    have "sr_id s \<noteq> sr_id r" using that i by (metis imageI set_map)
    then show ?thesis using ok that by (simp add: spectrum_ok_def reference_ok_def points_match_def points_of_other)
  qed
  moreover have "reference_ok (pts @ point_rows (sr_id r) t l f a b ps) r"
    using ps r key i by (auto simp: reference_ok_def points_match_def points_of_added [OF fresh])
  moreover have "\<forall>p\<in>set (point_rows (sr_id r) t l f a b ps). pt_reference p = sr_id r" by (auto simp: point_rows_def)
  ultimately show ?thesis using ok i by (auto simp: spectrum_ok_def)
qed

lemma flags_irrelevant [simp]:
  "spectrum_checks (r\<lparr>sr_active := b, sr_updated := now\<rparr>) = spectrum_checks r"
  "points_match pts (r\<lparr>sr_active := b, sr_updated := now\<rparr>) = points_match pts r"
  "reference_ok pts (r\<lparr>sr_active := b, sr_updated := now\<rparr>) = reference_ok pts r"
  by (simp_all add: spectrum_checks_def points_match_def reference_ok_def)

lemma spectrum_flags:
  assumes "spectrum_ok rows pts" and f: "\<And>r. f r = r\<lparr>sr_active := b r, sr_updated := now\<rparr>"
  shows "spectrum_ok (update_where p f rows) pts"
proof -
  have "map sr_id (update_where p f rows) = map sr_id rows"
    "map (\<lambda>r. (sr_key r, sr_version r)) (update_where p f rows) = map (\<lambda>r. (sr_key r, sr_version r)) rows"
    by (rule map_update_where, simp add: f)+
  moreover have "reference_ok pts r" if "r \<in> set (update_where p f rows)" for r
  proof -
    have "\<exists>s\<in>set rows. r = (if p s then f s else s)" using that by (simp only: in_update_where)
    then obtain s where "s \<in> set rows" "r = (if p s then f s else s)" ..
    then show ?thesis using assms(1) by (auto simp: spectrum_ok_def f)
  qed
  ultimately show ?thesis using assms(1) unfolding spectrum_ok_def by metis
qed

subsection \<open>Versions and sets\<close>

lemma next_version_fresh: "(k, next_version key version k rows) \<notin> (\<lambda>r. (key r, version r)) ` set rows"
proof
  assume "(k, next_version key version k rows) \<in> (\<lambda>r. (key r, version r)) ` set rows"
  then obtain r where r: "r \<in> set rows" "key r = k" "version r = next_version key version k rows" by auto
  have "version r \<le> fold max (map version (filter (\<lambda>r. key r = k) rows)) 0" using r(1,2) by (intro fold_max_ge(2)) auto
  then show False using r(3) by (simp add: next_version_def)
qed

lemma insert_set_Inr:
  "insert_set s rows = Inr rows' \<longleftrightarrow> (cs_key s, cs_version s) \<notin> (\<lambda>r. (cs_key r, cs_version r)) ` set rows
     \<and> cs_id s \<notin> set (map cs_id rows) \<and> rows' = rows @ [s]"
  by (auto simp: insert_set_def insert_pk_Inr)

lemma set_keys_kept:
  assumes "\<And>s. f s = s\<lparr>cs_active := b s, cs_updated := now\<rparr>"
  shows "map cs_id (update_where p f sets) = map cs_id sets"
    "map (\<lambda>s. (cs_key s, cs_version s)) (update_where p f sets) = map (\<lambda>s. (cs_key s, cs_version s)) sets"
  by (rule map_update_where, simp add: assms)+

lemma one_active_added:
  assumes "one_active_set sets"
    and "\<And>t. t \<in> set sets \<Longrightarrow> live_set s \<Longrightarrow> live_set t \<Longrightarrow> same_place (cs_location_name s) (cs_location_name t) \<Longrightarrow> False"
  shows "one_active_set (sets @ [s])"
  unfolding one_active_set_def
proof (intro ballI impI)
  fix t u
  assume a: "t \<in> set (sets @ [s])" "u \<in> set (sets @ [s])" "live_set t" "live_set u"
    and same: "same_place (cs_location_name t) (cs_location_name u)"
  consider "t = s" "u = s" | "t = s" "u \<in> set sets" | "t \<in> set sets" "u = s" | "t \<in> set sets" "u \<in> set sets"
    using a(1,2) by auto
  then show "cs_id t = cs_id u"
  proof cases
    case 4
    then show ?thesis using assms(1) a(3,4) same unfolding one_active_set_def by blast
  qed (use assms(2) a(3,4) same same_place_sym [OF same] in blast)+
qed

lemma update_whereE:
  assumes "r \<in> set (update_where p f rows)"
  obtains s where "s \<in> set rows" "r = (if p s then f s else s)"
  using assms by (auto simp: in_update_where)

text \<open>Switching sets off keeps the invariant, and so does switching on one set of a place, all others of it off.\<close>

lemma sets_switched:
  assumes ok: "sets_ok sets" and f: "\<And>s. f s = s\<lparr>cs_active := b s, cs_updated := now\<rparr>"
    and b: "\<And>s. b s \<Longrightarrow> cs_id s = i" and p: "\<And>s t. p s \<Longrightarrow> b s \<Longrightarrow> cs_archived t = None \<Longrightarrow>
      same_place (cs_location_name s) (cs_location_name t) \<Longrightarrow> p t"
  shows "sets_ok (update_where p f sets)"
proof -
  have "one_active_set (update_where p f sets)" unfolding one_active_set_def
  proof (intro ballI impI, elim conjE update_whereE)
    fix s t s' t'
    assume a: "s' \<in> set sets" "s = (if p s' then f s' else s')" "t' \<in> set sets" "t = (if p t' then f t' else t')"
      and live: "live_set s" "live_set t"
      and same: "same_place (cs_location_name s) (cs_location_name t)"
    have same': "same_place (cs_location_name s') (cs_location_name t')" using same a(2,4) by (simp add: f split: if_splits)
    note act = live [unfolded live_set_def]
    have arch: "cs_archived s' = None" "cs_archived t' = None" using act a(2,4) by (auto simp: f split: if_splits)
    have keep: "cs_id s = cs_id s'" "cs_id t = cs_id t'" using a(2,4) by (auto simp: f)
    consider "p s'" "p t'" | "\<not> p s'" "\<not> p t'" | "p s'" "\<not> p t'" | "\<not> p s'" "p t'" by blast
    then show "cs_id s = cs_id t"
    proof cases
      case 1
      then show ?thesis using act a(2,4) b keep by (auto simp: f)
    next
      case 2
      then have "s = s'" "t = t'" using a(2,4) by simp_all
      moreover have "one_active_set sets" using ok by (simp add: sets_ok_def)
      ultimately show ?thesis using live a(1,3) same unfolding one_active_set_def by blast
    next
      case 3
      then show ?thesis using p [OF 3(1) _ arch(2) same'] act a(2) by (simp add: f)
    next
      case 4
      then show ?thesis using p [OF 4(2) _ arch(1) same_place_sym [OF same']] act a(4) by (simp add: f)
    qed
  qed
  then show ?thesis using ok unfolding sets_ok_def set_keys_kept [OF f] by blast
qed

subsection \<open>What an import and a capture write\<close>

lemma read_reference_valid:
  assumes "read_reference lib rl filename mime bs = Inr (im, points)"
  shows "increasing points" "2 \<le> length points" "length points \<le> max_reference_points" "\<forall>p\<in>set points. 0 \<le> fst p"
proof -
  obtain i where i: "import_points lib rl i bs = Inr im" "peak_preserving_resample (im_points im) max_reference_points = Inr points"
    using assms by (auto simp: read_reference_def import_answer_def and_then_Inr_iff split: sum.splits import_error.splits)
  note v = import_points_valid [OF i(1)]
  obtain out where out: "peak_preserving_resample (im_points im) max_reference_points = Inr out" "increasing out"
    "set out \<subseteq> set (im_points im)" "length out = min (length (im_points im)) max_reference_points"
    using resample_result [of "im_points im" max_reference_points] v by (auto simp: max_reference_points_def)
  then have "out = points" using i(2) by simp
  then show "increasing points" "2 \<le> length points" "length points \<le> max_reference_points" "\<forall>p\<in>set points. 0 \<le> fst p"
    using out v by (auto simp: max_reference_points_def)
qed

lemma guard_Inr: "(if b then Inl e else x) = Inr y \<longleftrightarrow> \<not> b \<and> x = Inr y"
  by simp

lemma parse_import_Inr:
  assumes "parse_import lib rl fm up = Inr pd"
  shows "read_reference lib rl (pi_filename pd) (or_empty (ru_mime up)) (pi_payload pd) = Inr (pi_import pd, pi_points pd)"
    "key_ok (pi_key pd)" "pi_payload pd = ru_payload up"
proof -
  have "read_reference lib rl (pi_filename pd) (or_empty (ru_mime up)) (pi_payload pd) = Inr (pi_import pd, pi_points pd)
    \<and> (\<exists>key. clean_key key = Inr (pi_key pd)) \<and> read_reference_upload up = Inr (pi_filename pd, pi_payload pd)"
    using assms unfolding parse_import_def Let_def and_then_Inr_iff split_paired_Ex prod.case guard_Inr
    by (elim exE conjE) auto
  then show "read_reference lib rl (pi_filename pd) (or_empty (ru_mime up)) (pi_payload pd) = Inr (pi_import pd, pi_points pd)"
    "key_ok (pi_key pd)" "pi_payload pd = ru_payload up"
    by (auto simp: clean_key_def read_reference_upload_def read_bounded_upload_def Let_def and_then_Inr_iff split: if_splits)
qed

lemma write_import_Inr:
  assumes "write_import re fm pd db = Inr (db', r)"
  obtains lid sdb rbw vbw where
    "r = imported_row re fm pd (next_version sr_key sr_version (pi_key pd) (rd_spectrum db)) lid"
    "insert_spectrum r (if fm_activate fm then deactivate_key (ev_now (re_sql re)) (pi_key pd) (rd_spectrum db)
       else rd_spectrum db) = Inr (rd_spectrum db')"
    "db' = db\<lparr>rd_sessions := sdb, rd_spectrum := rd_spectrum db',
        rd_points := rd_points db @ point_rows (sr_id r) (case pi_measured pd of Some t \<Rightarrow> t | None \<Rightarrow> re_clock re)
          (if truthy (fm_location_name fm) then or_empty (fm_location_name fm) else ''unspecified'') (pi_filename pd)
          rbw vbw (pi_points pd)\<rparr>"
  using assms unfolding write_import_def Let_def and_then_Inr_iff split_paired_Ex prod.case sum.inject prod.inject
  by (elim exE conjE) (rule that, auto)

lemma normalize_from_Inr:
  "normalize_from prev ps = Inr qs \<longleftrightarrow> ps = map raw qs \<and> increasing qs \<and> (\<forall>q\<in>set qs. prev < fst q \<and> 0 < fst q)"
proof (induction prev ps arbitrary: qs rule: normalize_from.induct)
  case (2 prev f p ps)
  show ?case
  proof (cases "f \<le> 0 \<or> f \<le> prev")
    case True
    then show ?thesis by (cases qs) (auto simp: raw_def)
  next
    case False
    show ?thesis
    proof (cases p)
      case (Fin r)
      then show ?thesis using False 2 [OF False Fin]
        by (cases qs) (auto simp: and_then_Inr_iff raw_def increasing_def)
    qed (use False in \<open>cases qs; auto simp: raw_def\<close>)+
  qed
qed (auto simp: increasing_def)

lemma normalize_points_Inr:
  "normalize_points ps = Inr qs \<longleftrightarrow> ps = map raw qs \<and> qs \<noteq> [] \<and> length qs \<le> max_reference_points \<and> increasing qs
     \<and> (\<forall>q\<in>set qs. 0 < fst q)"
  by (auto simp: normalize_points_def normalize_from_Inr)

text \<open>A spectrum range is not empty, so a list of points that passes the checks has two points.\<close>

lemma two_points: "increasing ps \<Longrightarrow> ps \<noteq> [] \<Longrightarrow> fst (hd ps) < fst (last ps) \<longleftrightarrow> 2 \<le> length ps"
  by (cases ps; cases "tl ps") (auto simp: increasing_def)

lemma capture_Inr:
  assumes "capture_reference_set parse re rq db = Inr (db', ans)"
  obtains points sets lid session metadata columns where
    "normalize_points (cq_points rq) = Inr points" "key_ok (cs_key (ca_set ans))"
    "ca_set ans = captured_set re rq (cs_key (ca_set ans)) (capture_kind rq) (py_strip (cq_location_name rq))
       (next_version cs_key cs_version (cs_key (ca_set ans)) (rd_sets db)) lid session"
    "ca_spectrum ans = captured_spectrum re rq (ca_set ans) (capture_kind rq) points metadata columns"
    "sets = (if cq_activate rq then deactivate_place (ev_now (re_sql re)) (py_strip (cq_location_name rq)) (rd_sets db) else rd_sets db)"
    "insert_set (ca_set ans) sets = Inr (rd_sets db')"
    "insert_spectrum (ca_spectrum ans) (rd_spectrum db) = Inr (rd_spectrum db')"
    "rd_points db' = rd_points db @ point_rows (sr_id (ca_spectrum ans)) (re_clock re) (py_strip (cq_location_name rq))
       ''reference_set_capture'' None None points"
proof -
  obtain key points session where k: "clean_key (cq_key rq) = Inr key" "normalize_points (cq_points rq) = Inr points"
    "write_capture re rq key points session db = Inr (db', ans)"
    using assms by (auto simp: capture_reference_set_def and_then_Inr_iff guard_Inr)
  let ?here = "py_strip (cq_location_name rq)" and ?now = "ev_now (re_sql re)" and ?md = "capture_metadata rq"
  let ?sets = "if cq_activate rq then deactivate_place ?now ?here (rd_sets db) else rd_sets db"
  obtain sdb lid s columns r devices outcomes sets spectrum where w:
    "s = captured_set re rq key (capture_kind rq) ?here (next_version cs_key cs_version key (rd_sets db)) lid session"
    "insert_set s ?sets = Inr sets" "r = captured_spectrum re rq s (capture_kind rq) points ?md columns"
    "insert_spectrum r (rd_spectrum db) = Inr spectrum"
    "\<lparr>rd_sessions = sdb, rd_devices = devices, rd_sets = sets, rd_spectrum = spectrum,
       rd_points = rd_points db @ point_rows (sr_id r) (re_clock re) ?here ''reference_set_capture'' None None points\<rparr> = db'"
    "\<lparr>ca_set = s, ca_spectrum = r, ca_baselines = outcomes\<rparr> = ans"
    using k(3) unfolding write_capture_def Let_def and_then_Inr_iff split_paired_Ex prod.case guard_Inr sum.inject prod.inject
    by (elim exE conjE) (rule that, (rule refl | assumption)+)
  have key: "cs_key s = key" "key_ok key" using w(1) k(1) by (auto simp: captured_set_def clean_key_def split: if_splits)
  show thesis by (rule that [of points lid session ?md columns ?sets]) (use w(1-4) k(2) key w(5,6) [symmetric] in simp_all)
qed

lemma capture_key: "capture_reference_set parse re rq db = Inr (db', ans) \<Longrightarrow> clean_key (cq_key rq) = Inr (cs_key (ca_set ans))"
  unfolding capture_reference_set_def write_capture_def Let_def and_then_Inr_iff split_paired_Ex prod.case guard_Inr
    sum.inject prod.inject
  by (elim exE conjE) (auto simp: captured_set_def)

lemma versioned_flags:
  assumes "catalog_ok db" "\<And>r. f r = r\<lparr>sr_active := b r, sr_updated := now\<rparr>"
  shows "catalog_ok (db\<lparr>rd_spectrum := update_where p f (rd_spectrum db)\<rparr>)"
  using spectrum_flags [OF _ assms(2)] assms(1) by (simp add: catalog_ok_def)

lemma import_keeps:
  assumes ok: "catalog_ok db" and run: "import_versioned_reference lib rl re fm up db = Inr (db', r)"
  shows "catalog_ok db'"
proof -
  obtain pd where pd: "parse_import lib rl fm up = Inr pd" "write_import re fm pd db = Inr (db', r)"
    using run by (auto simp: import_versioned_reference_def and_then_Inr_iff)
  note valid = read_reference_valid [OF parse_import_Inr(1) [OF pd(1)]]
  show ?thesis using pd(2)
  proof (rule write_import_Inr)
    fix lid sdb rbw vbw
    let ?rows = "if fm_activate fm then deactivate_key (ev_now (re_sql re)) (pi_key pd) (rd_spectrum db) else rd_spectrum db"
    let ?pts = "rd_points db @ point_rows (sr_id r) (case pi_measured pd of Some t \<Rightarrow> t | None \<Rightarrow> re_clock re)
          (if truthy (fm_location_name fm) then or_empty (fm_location_name fm) else ''unspecified'') (pi_filename pd)
          rbw vbw (pi_points pd)"
    assume w: "r = imported_row re fm pd (next_version sr_key sr_version (pi_key pd) (rd_spectrum db)) lid"
      "insert_spectrum r ?rows = Inr (rd_spectrum db')" "db' = db\<lparr>rd_sessions := sdb, rd_spectrum := rd_spectrum db', rd_points := ?pts\<rparr>"
    have "spectrum_ok (deactivate_key (ev_now (re_sql re)) (pi_key pd) (rd_spectrum db)) (rd_points db)"
      using ok unfolding deactivate_key_def by (intro spectrum_flags [where b = "\<lambda>_. False"]) (auto simp: catalog_ok_def)
    then have "spectrum_ok ?rows (rd_points db)" using ok by (simp add: catalog_ok_def)
    then have "spectrum_ok (rd_spectrum db') ?pts"
      by (rule spectrum_added [OF _ w(2) valid]) (simp_all add: w(1) imported_row_def parse_import_Inr(2) [OF pd(1)])
    moreover have "rd_points db' = ?pts" "rd_sets db' = rd_sets db" by (subst w(3), simp)+
    ultimately show ?thesis using ok by (simp add: catalog_ok_def)
  qed
qed

lemma capture_keeps:
  assumes ok: "catalog_ok db" and run: "capture_reference_set parse re rq db = Inr (db', ans)"
  shows "catalog_ok db'"
  using run
proof (rule capture_Inr)
  fix points sets lid session metadata columns
  let ?s = "ca_set ans" and ?r = "ca_spectrum ans" and ?here = "py_strip (cq_location_name rq)"
  assume c: "normalize_points (cq_points rq) = Inr points"
    "key_ok (cs_key ?s)" "?s = captured_set re rq (cs_key ?s) (capture_kind rq) ?here (next_version cs_key cs_version (cs_key ?s) (rd_sets db)) lid session"
    "?r = captured_spectrum re rq ?s (capture_kind rq) points metadata columns"
    "sets = (if cq_activate rq then deactivate_place (ev_now (re_sql re)) ?here (rd_sets db) else rd_sets db)"
    "insert_set ?s sets = Inr (rd_sets db')" "insert_spectrum ?r (rd_spectrum db) = Inr (rd_spectrum db')"
    "rd_points db' = rd_points db @ point_rows (sr_id ?r) (re_clock re) ?here ''reference_set_capture'' None None points"
  have pts: "increasing points" "points \<noteq> []" "length points \<le> max_reference_points" "\<forall>p\<in>set points. 0 < fst p"
    using c(1) by (auto simp: normalize_points_Inr)
  have range: "sr_start ?r = fst (hd points)" "sr_stop ?r = fst (last points)" "sr_point_count ?r = length points"
    by (subst c(4), simp add: captured_spectrum_def)+
  have "spectrum_checks ?r" using c(7) by (simp add: insert_spectrum_Inr)
  then have two: "2 \<le> length points" using two_points [OF pts(1,2)] range by (simp add: spectrum_checks_def)
  have key: "sr_key ?r = cs_key ?s" by (subst c(4), simp add: captured_spectrum_def)
  have spec: "spectrum_ok (rd_spectrum db') (rd_points db')"
    unfolding c(8) by (rule spectrum_added [OF _ c(7) pts(1) two pts(3) _ range])
      (use ok pts(2,4) c(2) key range(1) in \<open>auto simp: catalog_ok_def\<close>)
  have off: "sets_ok (deactivate_place (ev_now (re_sql re)) ?here (rd_sets db))"
    unfolding deactivate_place_def
    by (rule sets_switched [where b = "\<lambda>_. False" and i = 0]) (use ok in \<open>auto simp: catalog_ok_def\<close>)
  have s: "cs_active ?s = cq_activate rq" "cs_location_name ?s = ?here" by (subst c(3), simp add: captured_set_def)+
  have "sets_ok sets" using off ok c(5) by (simp add: catalog_ok_def)
  moreover have "one_active_set (sets @ [?s])"
  proof (rule one_active_added)
    show "one_active_set sets" using \<open>sets_ok sets\<close> by (simp add: sets_ok_def)
    fix t assume t: "t \<in> set sets" "live_set ?s" "live_set t" "same_place (cs_location_name ?s) (cs_location_name t)"
    then have "t \<in> set (deactivate_place (ev_now (re_sql re)) ?here (rd_sets db))" using c(5) s by (simp add: live_set_def)
    then show False using t(3,4) s(2) unfolding deactivate_place_def
      by (elim update_whereE) (auto simp: live_set_def same_place_def split: if_splits)
  qed
  ultimately have "sets_ok (rd_sets db')" using c(6) by (auto simp: insert_set_Inr sets_ok_def)
  then show ?thesis using spec by (simp add: catalog_ok_def)
qed

lemma set_flags:
  assumes ok: "catalog_ok db" and f: "\<And>s. f s = s\<lparr>cs_active := b s, cs_updated := now\<rparr>"
    and g: "\<And>r. g r = r\<lparr>sr_active := c r, sr_updated := now\<rparr>" and b: "\<And>s. b s \<Longrightarrow> cs_id s = i"
    and p: "\<And>s t. p s \<Longrightarrow> b s \<Longrightarrow> cs_archived t = None \<Longrightarrow> same_place (cs_location_name s) (cs_location_name t) \<Longrightarrow> p t"
  shows "catalog_ok (db\<lparr>rd_sets := update_where p f (rd_sets db), rd_spectrum := update_where q g (rd_spectrum db)\<rparr>)"
  using sets_switched [OF _ f b p] spectrum_flags [OF _ g] ok by (simp add: catalog_ok_def)

lemma activation_keeps:
  assumes "catalog_ok db"
  shows "activate_versioned_reference now i db = Inr (db1, r) \<Longrightarrow> catalog_ok db1"
    "deactivate_versioned_reference now i db = Inr (db2, r) \<Longrightarrow> catalog_ok db2"
    "deactivate_reference_set now i db = Inr (db3, s) \<Longrightarrow> catalog_ok db3"
    "activate_reference_set now i db = Inr (db4, s) \<Longrightarrow> catalog_ok db4"
proof -
  show "activate_versioned_reference now i db = Inr (db1, r) \<Longrightarrow> catalog_ok db1"
    by (auto simp: activate_versioned_reference_def Let_def split: list.splits
        intro!: versioned_flags [OF assms, where b = "\<lambda>r. sr_id r = i"])
  show "deactivate_versioned_reference now i db = Inr (db2, r) \<Longrightarrow> catalog_ok db2"
    by (auto simp: deactivate_versioned_reference_def Let_def split: list.splits
        intro!: versioned_flags [OF assms, where b = "\<lambda>_. False"])
  show "deactivate_reference_set now i db = Inr (db3, s) \<Longrightarrow> catalog_ok db3"
    by (auto simp: deactivate_reference_set_def Let_def split: list.splits
        intro!: set_flags [OF assms, where b = "\<lambda>_. False" and c = "\<lambda>_. False" and now = now])
  show "activate_reference_set now i db = Inr (db4, s) \<Longrightarrow> catalog_ok db4"
    by (auto simp: activate_reference_set_def Let_def split: list.splits simp del: set_map
        intro!: set_flags [OF assms, where b = "\<lambda>s. cs_id s = i" and c = "\<lambda>r. sr_set r = Some i" and now = now and i = i]
        intro: same_place_trans same_place_sym)
qed

subsection \<open>Steps of the catalog\<close>

text \<open>
  Every write operation of the two routers, with any request, time and identifiers; the other
  components may change the sessions and the devices in between.
\<close>

inductive catalog_step ::
  "(string \<Rightarrow> nat option) \<Rightarrow> text_lib \<Rightarrow> reference_lib \<Rightarrow> (pyval \<Rightarrow> raw_point option) \<Rightarrow> reference_db \<Rightarrow> reference_db \<Rightarrow> bool"
  for parse lib rl coerce where
  Import: "import_versioned_reference lib rl re fm up db = Inr (db', r) \<Longrightarrow> catalog_step parse lib rl coerce db db'"
| Activate: "activate_versioned_reference now i db = Inr (db', r) \<Longrightarrow> catalog_step parse lib rl coerce db db'"
| Deactivate: "deactivate_versioned_reference now i db = Inr (db', r) \<Longrightarrow> catalog_step parse lib rl coerce db db'"
| Capture: "capture_reference_set parse re rq db = Inr (db', ans) \<Longrightarrow> catalog_step parse lib rl coerce db db'"
| Import_Set: "import_reference_set parse lib rl coerce re up activate db = Inr (db', ans) \<Longrightarrow> catalog_step parse lib rl coerce db db'"
| Activate_Set: "activate_reference_set now i db = Inr (db', s) \<Longrightarrow> catalog_step parse lib rl coerce db db'"
| Deactivate_Set: "deactivate_reference_set now i db = Inr (db', s) \<Longrightarrow> catalog_step parse lib rl coerce db db'"
| Elsewhere: "catalog_step parse lib rl coerce db (db\<lparr>rd_sessions := sessions, rd_devices := devices\<rparr>)"

lemma import_set_is_capture:
  "import_reference_set parse lib rl coerce re up activate db = Inr (db', ans) \<Longrightarrow>
     \<exists>rq. capture_reference_set parse re rq db = Inr (db', ans)"
  by (auto simp: import_reference_set_def Let_def and_then_Inr_iff split: option.splits)

lemma step_keeps: "catalog_step parse lib rl coerce db db' \<Longrightarrow> catalog_ok db \<Longrightarrow> catalog_ok db'"
proof (induction rule: catalog_step.induct)
  case (Elsewhere db sessions devices)
  then show ?case by (simp add: catalog_ok_def)
qed (auto dest: import_keeps activation_keeps capture_keeps import_set_is_capture)

text \<open>A row keeps everything but its active flag and its time; the rows of points only grow.\<close>

definition same_reference :: "spectrum_reference \<Rightarrow> spectrum_reference \<Rightarrow> bool" where
  "same_reference r s \<longleftrightarrow> r\<lparr>sr_active := False, sr_updated := 0\<rparr> = s\<lparr>sr_active := False, sr_updated := 0\<rparr>"

definition keeps_references :: "reference_db \<Rightarrow> reference_db \<Rightarrow> bool" where
  "keeps_references db db' \<longleftrightarrow> (\<forall>r\<in>set (rd_spectrum db). \<exists>s\<in>set (rd_spectrum db'). same_reference r s
     \<and> points_of (sr_id s) (rd_points db') = points_of (sr_id r) (rd_points db))"

lemma same_reference_refl [simp]: "same_reference r r" "same_reference r (r\<lparr>sr_active := b, sr_updated := t\<rparr>)"
  by (simp_all add: same_reference_def)

lemma same_reference_trans: "same_reference r s \<Longrightarrow> same_reference s t \<Longrightarrow> same_reference r t"
  by (simp add: same_reference_def)

lemma keeps_trans: "keeps_references a b \<Longrightarrow> keeps_references b c \<Longrightarrow> keeps_references a c"
  unfolding keeps_references_def by (metis same_reference_trans)

lemma flags_keep:
  assumes "\<And>r. f r = r\<lparr>sr_active := b r, sr_updated := now\<rparr>" "rd_spectrum db' = update_where p f (rd_spectrum db)"
    "rd_points db' = rd_points db"
  shows "keeps_references db db'"
  unfolding keeps_references_def
proof
  fix r assume "r \<in> set (rd_spectrum db)"
  then have "(if p r then f r else r) \<in> set (rd_spectrum db')" unfolding assms(2) in_update_where by blast
  then show "\<exists>s\<in>set (rd_spectrum db'). same_reference r s \<and> points_of (sr_id s) (rd_points db') = points_of (sr_id r) (rd_points db)"
    by (rule bexI [rotated]) (simp add: assms(1,3))
qed

lemma added_keeps:
  assumes ok: "catalog_ok db" and ins: "insert_spectrum r rows = Inr (rd_spectrum db')"
    and rows: "rows = update_where p f (rd_spectrum db)" and f: "\<And>r. f r = r\<lparr>sr_active := b r, sr_updated := now\<rparr>"
    and pts: "rd_points db' = rd_points db @ point_rows (sr_id r) t l g x y ps"
  shows "keeps_references db db'"
  unfolding keeps_references_def
proof
  fix s assume s: "s \<in> set (rd_spectrum db)"
  let ?s = "if p s then f s else s"
  have mem: "?s \<in> set rows" unfolding rows in_update_where using s by blast
  have "rd_spectrum db' = rows @ [r]" and fresh: "sr_id r \<notin> set (map sr_id rows)" using ins by (simp_all add: insert_spectrum_Inr)
  then have new: "?s \<in> set (rd_spectrum db')" using mem by simp
  have same: "same_reference s ?s" "sr_id ?s = sr_id s" by (simp_all add: f)
  have "sr_id ?s \<in> set (map sr_id rows)" unfolding set_map using mem by (rule imageI)
  then have "sr_id s \<noteq> sr_id r" using fresh same(2) by metis
  then have "points_of (sr_id ?s) (rd_points db') = points_of (sr_id s) (rd_points db)"
    unfolding same(2) pts by (rule points_of_other)
  then show "\<exists>u\<in>set (rd_spectrum db'). same_reference s u \<and> points_of (sr_id u) (rd_points db') = points_of (sr_id s) (rd_points db)"
    using new same(1) by blast
qed

lemma capture_history:
  assumes "capture_reference_set parse re rq db = Inr (db', ans)" "catalog_ok db"
  shows "keeps_references db db'"
  using assms(1)
proof (rule capture_Inr)
  fix points
  assume c: "insert_spectrum (ca_spectrum ans) (rd_spectrum db) = Inr (rd_spectrum db')"
    "rd_points db' = rd_points db @ point_rows (sr_id (ca_spectrum ans)) (re_clock re) (py_strip (cq_location_name rq))
      ''reference_set_capture'' None None points"
  have "rd_spectrum db = update_where (\<lambda>_. False) (\<lambda>r. r\<lparr>sr_active := False, sr_updated := 0\<rparr>) (rd_spectrum db)"
    by (simp add: update_where_def)
  then show ?thesis by (rule added_keeps [OF assms(2) c(1) _ refl c(2)])
qed

lemma step_history:
  assumes "catalog_step parse lib rl coerce db db'" "catalog_ok db"
  shows "keeps_references db db'"
  using assms
proof (induction rule: catalog_step.induct)
  case (Import re fm up db db' r)
  then obtain pd where "write_import re fm pd db = Inr (db', r)"
    by (auto simp: import_versioned_reference_def and_then_Inr_iff)
  then show ?case
  proof (rule write_import_Inr)
    fix lid sdb rbw vbw
    assume w: "insert_spectrum r (if fm_activate fm then deactivate_key (ev_now (re_sql re)) (pi_key pd) (rd_spectrum db) else rd_spectrum db)
        = Inr (rd_spectrum db')"
      "db' = db\<lparr>rd_sessions := sdb, rd_spectrum := rd_spectrum db',
        rd_points := rd_points db @ point_rows (sr_id r) (case pi_measured pd of Some t \<Rightarrow> t | None \<Rightarrow> re_clock re)
          (if truthy (fm_location_name fm) then or_empty (fm_location_name fm) else ''unspecified'') (pi_filename pd)
          rbw vbw (pi_points pd)\<rparr>"
    let ?p = "\<lambda>s. fm_activate fm \<and> sr_key s = pi_key pd \<and> sr_archived s = None"
    have "(if fm_activate fm then deactivate_key (ev_now (re_sql re)) (pi_key pd) (rd_spectrum db) else rd_spectrum db)
      = update_where ?p (\<lambda>s. s\<lparr>sr_active := False, sr_updated := ev_now (re_sql re)\<rparr>) (rd_spectrum db)"
      by (simp add: deactivate_key_def update_where_def)
    then show ?thesis by (rule added_keeps [OF Import.prems w(1) _ refl]) (subst w(2), simp)
  qed
next
  case (Elsewhere db sessions devices)
  then show ?case by (simp add: keeps_references_def) (metis same_reference_refl(1))
qed (auto simp: activate_versioned_reference_def deactivate_versioned_reference_def activate_reference_set_def
    deactivate_reference_set_def Let_def split: list.splits
    intro: flags_keep dest: import_set_is_capture capture_history)

subsection \<open>Round trips\<close>

text \<open>The name of an exported file: a key has no slash, so the name is its own last part.\<close>

lemma split_slash_plain: "CHR ''/'' \<notin> set s \<Longrightarrow> split_slash s = [s]"
  by (induction s) auto

lemma path_name_plain: "CHR ''/'' \<notin> set s \<Longrightarrow> s \<noteq> [] \<Longrightarrow> s \<noteq> ''.'' \<Longrightarrow> path_name s = s"
  by (simp add: path_name_def split_slash_plain)

lemma path_suffix_json: "CHR ''/'' \<notin> set s \<Longrightarrow> s \<noteq> [] \<Longrightarrow> path_suffix (s @ ''.json'') = ''.json''"
  by (subst path_suffix_def) (simp add: path_name_plain)

lemma key_no_slash: "key_ok s \<Longrightarrow> CHR ''/'' \<notin> set s \<and> s \<noteq> []"
proof -
  have "\<not> key_char (CHR ''/'')" by code_simp
  then show "key_ok s \<Longrightarrow> CHR ''/'' \<notin> set s \<and> s \<noteq> []" by (auto simp: key_ok_def list_all_iff)
qed

lemma json_points_read: "collect_points (json_point rl) (map (\<lambda>(f, p). PDict [(''frequency_hz'', PInt f), (''power_dbm'', PFloat (Fin p))]) ps)
    = Inr (map raw ps)"
  by (induction ps) (auto simp: json_point_def dict_get_def dict_has_def to_int_def to_float_def uncaught_def caught_def and_then_def raw_def)

lemma export_name_suffix: "key_ok k \<Longrightarrow> path_suffix ((k @ ''_v'' @ nat_text n) @ ''.json'') = ''.json''"
proof -
  assume "key_ok k"
  moreover have "\<not> is_digit (CHR ''/'')" by code_simp
  ultimately show ?thesis using key_no_slash [of k] nat_text_digits [of _ n] by (intro path_suffix_json) auto
qed

lemma json_suffix_importer: "path_suffix name = ''.json'' \<Longrightarrow> importer_for rl name mime header = Inr Json_Importer"
proof -
  assume n: "path_suffix name = ''.json''"
  have "py_lower ''.json'' = ''.json''" by code_simp
  then show ?thesis using n by (simp add: importer_for_def can_handle_def Let_def)
qed

lemma reference_points:
  assumes "catalog_ok db" "r \<in> set (rd_spectrum db)"
  shows "increasing (points_of (sr_id r) (rd_points db))" "2 \<le> length (points_of (sr_id r) (rd_points db))"
    "length (points_of (sr_id r) (rd_points db)) \<le> max_reference_points" "\<forall>p\<in>set (points_of (sr_id r) (rd_points db)). 0 \<le> fst p"
    "key_ok (sr_key r)"
  using assms by (auto simp: catalog_ok_def spectrum_ok_def reference_ok_def points_match_def Let_def)

lemma found_first: "filter p rows = r # rs \<Longrightarrow> r \<in> set rows \<and> p r"
  using filter_set [of p rows] by (metis filter_eq_ConsD in_set_conv_decomp)

lemma export_reads_back_aux:
  assumes ok: "catalog_ok db" and r: "r \<in> set (rd_spectrum db)"
    and v: "v = PDict [(''metadata'', PDict m), (''points'', json_points (points_of (sr_id r) (rd_points db)))]"
    and loads: "rl_loads rl bs = Some v" and name: "path_suffix name = ''.json''"
  shows "read_reference lib rl name mime bs
    = Inr (\<lparr>im_points = points_of (sr_id r) (rd_points db), im_metadata = m, im_format = ''json''\<rparr>, points_of (sr_id r) (rd_points db))"
proof -
  note pts = reference_points [OF ok r]
  have "json_import_points rl bs = Inr \<lparr>im_points = points_of (sr_id r) (rd_points db), im_metadata = m, im_format = ''json''\<rparr>"
    using loads validated_points_raw [OF pts(2,1,4)]
    by (simp add: json_import_points_def v json_points_def json_points_read dict_get_def dict_has_def)
  then show ?thesis
    using pts(3) by (simp add: read_reference_def json_suffix_importer [OF name] import_points_def import_answer_def peak_preserving_resample_def)
qed


text \<open>The package of a set: what an import makes of it.\<close>

lemma coerce_points_json:
  assumes "\<And>f p. 1 \<le> f \<Longrightarrow> coerce (PDict [(''frequency_hz'', PInt f), (''power_dbm'', PFloat (Fin p))]) = Some (f, Fin p)"
  shows "\<forall>q\<in>set ps. 0 < fst q \<Longrightarrow>
    coerce_points coerce (map (\<lambda>(f, p). PDict [(''frequency_hz'', PInt f), (''power_dbm'', PFloat (Fin p))]) ps) = Inr (map raw ps)"
  using assms by (induction ps) (auto simp: raw_def)

lemma set_points_positive:
  assumes "catalog_ok db" "r \<in> set (rd_spectrum db)" "sr_set r = Some i" "q \<in> set (points_of (sr_id r) (rd_points db))"
  shows "0 < fst q"
proof -
  let ?ps = "points_of (sr_id r) (rd_points db)"
  have "0 < fst (hd ?ps)" "increasing ?ps"
    using assms(1-3) by (auto simp: catalog_ok_def spectrum_ok_def reference_ok_def points_match_def Let_def)
  then show ?thesis using assms(4) by (cases ?ps) (auto simp: increasing_def)
qed

definition exportable :: "catalog_set \<Rightarrow> bool" where
  "exportable s \<longleftrightarrow> key_ok (cs_key s) \<and> cs_name s \<noteq> [] \<and> length (cs_name s) \<le> 200
     \<and> cs_location_name s \<noteq> [] \<and> length (cs_location_name s) \<le> 200
     \<and> length (or_empty (cs_created_by s)) \<le> 200 \<and> length (or_empty (cs_notes s)) \<le> 2000"

lemma optional_text_json [simp]: "optional_text (json_opt PStr x) = Inr x"
  by (cases x) (simp_all add: optional_text_def json_opt_def)

lemma text_or_PStr [simp]: "s \<noteq> [] \<Longrightarrow> text_or lib (PStr s) other = s"
  by (simp add: text_or_def py_truthy_def py_str_def)

lemma kind_unchanged: "k \<in> set spectrum_kinds \<Longrightarrow> replace_from ''imported'' ''snapshot'' 0 k = k \<and> k \<noteq> []"
proof -
  have "list_all (\<lambda>k. replace_from ''imported'' ''snapshot'' 0 k = k \<and> k \<noteq> []) spectrum_kinds" by code_simp
  then show "k \<in> set spectrum_kinds \<Longrightarrow> replace_from ''imported'' ''snapshot'' 0 k = k \<and> k \<noteq> []" by (simp add: list_all_iff)
qed

text \<open>
  The package exported for a reference set can be imported by any installation: the upload is
  turned into a capture with the name, key, place, kind, creator and notes of the set, and with
  exactly the points of its newest spectrum reference, which pass the checks of a capture.
\<close>

theorem exported_set_reads_back:
  assumes ok: "catalog_ok db" and out: "export_payload xl baseline_json now i db = Inr payload"
    and find: "find_set i db = Inr s" "exportable s"
    and newest: "listing sr_version (\<lambda>r. sr_set r = Some i) (rd_spectrum db) = r # rs" "sr_kind r = Some k" "k \<in> set spectrum_kinds"
    and size: "0 < length (xl_dumps xl (PDict payload))" "length (xl_dumps xl (PDict payload)) \<le> 67108864"
    and loads: "rl_loads_utf8 rl (xl_dumps xl (PDict payload)) = Some (PDict payload)"
    and coerce: "\<And>f p. 1 \<le> f \<Longrightarrow> coerce (PDict [(''frequency_hz'', PInt f), (''power_dbm'', PFloat (Fin p))]) = Some (f, Fin p)"
    and up: "ru_payload up = xl_dumps xl (PDict payload)"
  shows "\<exists>rq. import_reference_set parse lib rl coerce re up activate other = capture_reference_set parse re rq other
    \<and> normalize_points (cq_points rq) = Inr (points_of (sr_id r) (rd_points db)) \<and> cq_key rq = cs_key s
    \<and> cq_name rq = cs_name s \<and> cq_location_name rq = cs_location_name s \<and> capture_kind rq = k
    \<and> cq_operator rq = cs_created_by s \<and> cq_notes rq = cs_notes s \<and> cq_activate rq = activate"
proof -
  let ?ps = "points_of (sr_id r) (rd_points db)"
  have "r \<in> set (listing sr_version (\<lambda>r. sr_set r = Some i) (rd_spectrum db))" using newest(1) by simp
  then have r: "r \<in> set (rd_spectrum db)" "sr_set r = Some i" by (auto simp: listing_def)
  note pts = reference_points [OF ok r(1)]
  have pos: "\<forall>q\<in>set ?ps. 0 < fst q" using set_points_positive [OF ok r] by blast
  have norm: "normalize_points (map raw ?ps) = Inr ?ps" using pts pos by (auto simp: normalize_points_Inr)
  have payload: "dict_get payload ''reference_set'' = PDict (json_set xl s)"
    "dict_get payload ''spectrum_points'' = json_points ?ps" "dict_get payload ''spectrum_reference'' = PDict (json_reference xl r)"
    using out find(1) newest(1) by (auto simp: export_payload_def Let_def dict_get_def)
  have set_fields: "dict_get (json_set xl s) ''created_by'' = json_opt PStr (cs_created_by s)"
    "dict_get (json_set xl s) ''notes'' = json_opt PStr (cs_notes s)" "dict_get (json_set xl s) ''name'' = PStr (cs_name s)"
    "dict_get (json_set xl s) ''reference_key'' = PStr (cs_key s)"
    "dict_get (json_set xl s) ''location_name'' = PStr (cs_location_name s)"
    "dict_get (json_reference xl r) ''reference_kind'' = PStr k"
    using newest(2) by (simp_all add: json_set_def json_reference_def dict_get_def json_opt_def Let_def)
  let ?file = "path_name (if truthy (ru_filename up) then or_empty (ru_filename up) else ''reference_set.json'')"
  let ?rq = "\<lparr>cq_name = cs_name s, cq_key = cs_key s, cq_location_name = cs_location_name s, cq_session = None,
      cq_operator = cs_created_by s, cq_notes = cs_notes s, cq_kind = k, cq_points = map raw ?ps,
      cq_metadata = [(''imported_from'', PStr ?file)], cq_wifi = False, cq_bluetooth = False, cq_activate = activate\<rparr>"
  have ex: "cs_key s \<noteq> []" "cs_name s \<noteq> []" "cs_location_name s \<noteq> []" "capture_fields_ok ?rq"
    using find(2) pos by (auto simp: exportable_def key_ok_def capture_fields_ok_def list_all_iff raw_def Suc_le_eq)
  have "package_request lib coerce ?file activate (PDict payload) = Inr ?rq"
    using coerce_points_json [of coerce, OF coerce pos] ex kind_unchanged [OF newest(3)]
    by (simp add: package_request_def payload json_points_def set_fields Let_def)
  then have "import_reference_set parse lib rl coerce re up activate other = capture_reference_set parse re ?rq other"
    using loads size by (simp add: import_reference_set_def read_bounded_upload_def Let_def up)
  moreover have "list_all (\<lambda>k. py_lower (py_strip k) = k) spectrum_kinds" by code_simp
  then have "capture_kind ?rq = k" using newest(3) by (simp add: capture_kind_def list_all_iff)
  ultimately show ?thesis using norm by (intro exI [of _ ?rq]) simp
qed

subsection \<open>The history of the catalog\<close>

definition empty_catalog :: reference_db where
  "empty_catalog = \<lparr>rd_sessions = \<lparr>sd_locations = [], sd_sessions = [], sd_sources = []\<rparr>,
     rd_devices = \<lparr>db_wifi_devices = [], db_wifi_observations = [], db_bluetooth_devices = [],
       db_bluetooth_observations = [], db_baselines = []\<rparr>,
     rd_sets = [], rd_spectrum = [], rd_points = []\<rparr>"

lemma empty_catalog_ok: "catalog_ok empty_catalog"
  by (simp add: catalog_ok_def spectrum_ok_def sets_ok_def one_active_set_def empty_catalog_def)

lemma steps_keep:
  "(catalog_step parse lib rl coerce)\<^sup>*\<^sup>* db db' \<Longrightarrow> catalog_ok db \<Longrightarrow> catalog_ok db' \<and> keeps_references db db'"
proof (induction rule: rtranclp_induct)
  case base
  then show ?case unfolding keeps_references_def by (metis same_reference_refl(1))
next
  case (step a b)
  then show ?case using step_keeps step_history keeps_trans by metis
qed


definition sample_reference_env :: "nat \<Rightarrow> reference_env" where
  "sample_reference_env i = \<lparr>re_sql = \<lparr>ev_now = 5, ev_location_id = 1, ev_row_id = 2\<rparr>, re_clock = 5, re_set_id = i,
     re_reference_id = 10 + i, re_hash_bytes = (\<lambda>_. []), re_hash_points = (\<lambda>_. []), re_column = (\<lambda>k v. Some SqlNull)\<rparr>"

definition sample_capture :: "string \<Rightarrow> capture_request" where
  "sample_capture key = \<lparr>cq_name = ''night'', cq_key = key, cq_location_name = ''lab'', cq_session = None, cq_operator = None,
     cq_notes = None, cq_kind = ''snapshot'', cq_points = [(100, Fin (-50)), (200, Fin (-60))], cq_metadata = [],
     cq_wifi = True, cq_bluetooth = False, cq_activate = True\<rparr>"

definition captured_catalog :: "(reference_db \<times> capture_answer) result" where
  "captured_catalog = capture_reference_set (\<lambda>_. None) (sample_reference_env 1) (sample_capture ''room'') empty_catalog"

lemma captured_catalog_value:
  "case captured_catalog of Inl _ \<Rightarrow> False | Inr (db, ans) \<Rightarrow>
     length (rd_spectrum db) = 1 \<and> length (rd_points db) = 2 \<and> ca_baselines ans = [(''wifi'', No_Session_Observations)]
     \<and> sr_active (hd (rd_spectrum db)) \<and> sr_set (hd (rd_spectrum db)) = Some 1 \<and> ca_set ans = hd (rd_sets db)
     \<and> ca_spectrum ans = hd (rd_spectrum db)"
  by code_simp


subsection \<open>What a capture does to earlier references\<close>

text \<open>
  A capture is refused by the server for two requests that pass every check of the handler. With a
  single point the range is empty, which the table does not allow; and when the key already has a
  spectrum reference under the version that the sets of the key would have next (an imported reference,
  for example), the unique key fails. The second refusal is permanent: nothing is written, so every
  repetition meets the same state.
\<close>

theorem capture_refused_by_table:
  assumes "clean_key (cq_key rq) = Inr key"
    and "length (cq_points rq) = 1
      \<or> (key, next_version cs_key cs_version key (rd_sets db)) \<in> (\<lambda>r. (sr_key r, sr_version r)) ` set (rd_spectrum db)"
  shows "\<not> is_ok (capture_reference_set parse re rq db)"
proof
  assume "is_ok (capture_reference_set parse re rq db)"
  then obtain db' ans where run: "capture_reference_set parse re rq db = Inr (db', ans)" by (auto simp: is_ok_iff)
  then show False
  proof (rule capture_Inr)
    fix points lid session metadata columns
    let ?s = "ca_set ans" and ?r = "ca_spectrum ans"
    assume c: "normalize_points (cq_points rq) = Inr points"
      "?s = captured_set re rq (cs_key ?s) (capture_kind rq) (py_strip (cq_location_name rq))
         (next_version cs_key cs_version (cs_key ?s) (rd_sets db)) lid session"
      "?r = captured_spectrum re rq ?s (capture_kind rq) points metadata columns"
      "insert_spectrum ?r (rd_spectrum db) = Inr (rd_spectrum db')"
    have r: "sr_start ?r = fst (hd points)" "sr_stop ?r = fst (last points)" "sr_key ?r = cs_key ?s" "sr_version ?r = cs_version ?s"
      by (subst c(3), simp add: captured_spectrum_def)+
    have v: "cs_version ?s = next_version cs_key cs_version (cs_key ?s) (rd_sets db)" by (subst c(2), simp add: captured_set_def)
    have "cs_key ?s = key" using capture_key [OF run] assms(1) by simp
    with assms(2) c(4) r v have "length points = 1"
      using c(1) by (auto simp: insert_spectrum_Inr normalize_points_Inr)
    then have "sr_start ?r = sr_stop ?r" using r by (cases points) auto
    then show False using c(4) by (simp add: insert_spectrum_Inr spectrum_checks_def)
  qed
qed

text \<open>
  A capture that is activated switches off the other sets of its place but not their spectrum
  references. Every reference row stays as it is: the reference of an older set of the place that was
  active is still active although its set no longer is, beside the new active reference. (Activating
  the new set again through the activation route would switch it off.)
\<close>

theorem capture_leaves_reference_active:
  assumes "capture_reference_set parse re rq db = Inr (db', ans)" "cq_activate rq"
    and "r \<in> set (rd_spectrum db)" "sr_active r" "t \<in> set (rd_sets db)" "sr_set r = Some (cs_id t)"
    and "same_place (cs_location_name t) (py_strip (cq_location_name rq))" "cs_archived t = None"
  shows "r \<in> set (rd_spectrum db') \<and> sr_active r \<and> ca_spectrum ans \<in> set (rd_spectrum db') \<and> sr_active (ca_spectrum ans)
    \<and> (\<exists>t'\<in>set (rd_sets db'). cs_id t' = cs_id t \<and> \<not> cs_active t')"
  using assms(1)
proof (rule capture_Inr)
  fix points sets metadata columns
  let ?here = "py_strip (cq_location_name rq)" and ?now = "ev_now (re_sql re)"
  assume c: "ca_spectrum ans = captured_spectrum re rq (ca_set ans) (capture_kind rq) points metadata columns"
    "sets = (if cq_activate rq then deactivate_place ?now ?here (rd_sets db) else rd_sets db)"
    "insert_set (ca_set ans) sets = Inr (rd_sets db')" "insert_spectrum (ca_spectrum ans) (rd_spectrum db) = Inr (rd_spectrum db')"
  have "t\<lparr>cs_active := False, cs_updated := ?now\<rparr> \<in> set sets"
    using update_where_touched [OF assms(5), of "\<lambda>s. same_place (cs_location_name s) ?here \<and> cs_archived s = None"
        "\<lambda>s. s\<lparr>cs_active := False, cs_updated := ?now\<rparr>"] assms(2,7,8) c(2) by (simp add: deactivate_place_def)
  then have "t\<lparr>cs_active := False, cs_updated := ?now\<rparr> \<in> set (rd_sets db')" using c(3) by (simp add: insert_set_Inr)
  then have "\<exists>t'\<in>set (rd_sets db'). cs_id t' = cs_id t \<and> \<not> cs_active t'" by (rule bexI [rotated]) simp
  moreover have "sr_active (ca_spectrum ans)" by (subst c(1)) (simp add: captured_spectrum_def assms(2))
  ultimately show ?thesis using c(4) assms(3,4) by (auto simp: insert_spectrum_Inr)
qed

subsection \<open>Witnesses\<close>

definition sample_export :: export_lib where
  "sample_export = \<lparr>xl_uuid = (\<lambda>_. ''id''), xl_time = (\<lambda>_. ''t''), xl_dumps = (\<lambda>_. [1])\<rparr>"

definition json_body :: "export_body \<Rightarrow> bool" where
  "json_body b = (case b of Json_Body _ \<Rightarrow> True | Csv_Body _ _ \<Rightarrow> False)"

lemma captured_catalog_exports:
  "case captured_catalog of Inl _ \<Rightarrow> False | Inr (db, ans) \<Rightarrow>
     points_of 11 (rd_points db) = [(100, -50), (200, -60)]
     \<and> (case export_versioned_reference sample_export 11 ''json'' db of Inl _ \<Rightarrow> False | Inr (name, b) \<Rightarrow> json_body b)
     \<and> is_ok (export_payload sample_export (\<lambda>_. PNone) 9 1 db) \<and> find_set 1 db = Inr (ca_set ans)
     \<and> listing sr_version (\<lambda>r. sr_set r = Some 1) (rd_spectrum db) = [ca_spectrum ans]
     \<and> sr_kind (ca_spectrum ans) = Some ''snapshot'' \<and> sr_id (ca_spectrum ans) = 11 \<and> exportable (ca_set ans)
     \<and> cs_key (ca_set ans) = ''room'' \<and> sr_version (ca_spectrum ans) = 1 \<and> rd_spectrum db = [ca_spectrum ans]
     \<and> rd_sets db = [ca_set ans] \<and> sr_active (ca_spectrum ans) \<and> cs_id (ca_set ans) = 1 \<and> sr_set (ca_spectrum ans) = Some 1
     \<and> cs_location_name (ca_set ans) = ''lab'' \<and> cs_archived (ca_set ans) = None \<and> sr_key (ca_spectrum ans) = ''room''"
  by code_simp

lemma captured_catalog_ok:
  obtains db ans where "captured_catalog = Inr (db, ans)" "catalog_ok db"
proof -
  obtain db ans where c: "captured_catalog = Inr (db, ans)"
    using captured_catalog_exports by (auto split: sum.splits)
  then have "catalog_ok db" using capture_keeps [OF empty_catalog_ok] unfolding captured_catalog_def by blast
  with c show thesis by (rule that)
qed


definition coerce_sample :: "pyval \<Rightarrow> raw_point option" where
  "coerce_sample v = (case v of PDict [(k, PInt f), (l, PFloat x)] \<Rightarrow> Some (f, x) | _ \<Rightarrow> None)"

definition sample_package :: reference_upload where
  "sample_package = \<lparr>ru_filename = None, ru_mime = None, ru_payload = [1]\<rparr>"

lemma exported_set_reads_back_witness:
  "\<exists>db ans payload rq. captured_catalog = Inr (db, ans) \<and> export_payload sample_export (\<lambda>_. PNone) 9 1 db = Inr payload
     \<and> import_reference_set (\<lambda>_. None) sample_lib (sample_reference_lib\<lparr>rl_loads_utf8 := (\<lambda>_. Some (PDict payload))\<rparr>) coerce_sample
         (sample_reference_env 2) sample_package True empty_catalog
       = capture_reference_set (\<lambda>_. None) (sample_reference_env 2) rq empty_catalog
     \<and> normalize_points (cq_points rq) = Inr [(100, -50), (200, -60)] \<and> cq_key rq = ''room''"
proof -
  obtain db ans where c: "captured_catalog = Inr (db, ans)" "catalog_ok db" by (rule captured_catalog_ok)
  have v: "points_of 11 (rd_points db) = [(100, -50), (200, -60)]" "is_ok (export_payload sample_export (\<lambda>_. PNone) 9 1 db)"
    "find_set 1 db = Inr (ca_set ans)" "listing sr_version (\<lambda>r. sr_set r = Some 1) (rd_spectrum db) = [ca_spectrum ans]"
    "sr_kind (ca_spectrum ans) = Some ''snapshot''" "sr_id (ca_spectrum ans) = 11" "exportable (ca_set ans)" "cs_key (ca_set ans) = ''room''"
    using captured_catalog_exports [unfolded c(1) sum.case prod.case] by blast+
  then obtain payload where p: "export_payload sample_export (\<lambda>_. PNone) 9 1 db = Inr payload" by (auto simp: is_ok_iff)
  have "\<exists>rq. import_reference_set (\<lambda>_. None) sample_lib (sample_reference_lib\<lparr>rl_loads_utf8 := (\<lambda>_. Some (PDict payload))\<rparr>) coerce_sample
         (sample_reference_env 2) sample_package True empty_catalog
       = capture_reference_set (\<lambda>_. None) (sample_reference_env 2) rq empty_catalog
     \<and> normalize_points (cq_points rq) = Inr (points_of (sr_id (ca_spectrum ans)) (rd_points db)) \<and> cq_key rq = cs_key (ca_set ans)
     \<and> cq_name rq = cs_name (ca_set ans) \<and> cq_location_name rq = cs_location_name (ca_set ans) \<and> capture_kind rq = ''snapshot''
     \<and> cq_operator rq = cs_created_by (ca_set ans) \<and> cq_notes rq = cs_notes (ca_set ans) \<and> cq_activate rq = True"
    by (rule exported_set_reads_back [OF c(2) p v(3,7,4,5)])
      (simp_all add: spectrum_kinds_def sample_export_def coerce_sample_def sample_package_def)
  then show ?thesis using c(1) p v by auto
qed

lemma capture_refused_by_table_witness:
  "\<exists>db ans. captured_catalog = Inr (db, ans) \<and> \<not> is_ok (capture_reference_set (\<lambda>_. None) (sample_reference_env 2)
     (sample_capture ''room'') (db\<lparr>rd_sets := []\<rparr>))"
proof -
  obtain db ans where c: "captured_catalog = Inr (db, ans)" by (rule captured_catalog_ok)
  have k: "clean_key (cq_key (sample_capture ''room'')) = Inr ''room''" by code_simp
  have "(''room'', next_version cs_key cs_version ''room'' (rd_sets (db\<lparr>rd_sets := []\<rparr>)))
      \<in> (\<lambda>r. (sr_key r, sr_version r)) ` set (rd_spectrum (db\<lparr>rd_sets := []\<rparr>))"
    using captured_catalog_exports [unfolded c sum.case prod.case] by (simp add: next_version_def)
  from capture_refused_by_table [OF k disjI2 [OF this]] c show ?thesis by blast
qed

lemma second_capture:
  "case captured_catalog of Inl _ \<Rightarrow> False | Inr (db, ans) \<Rightarrow>
     is_ok (capture_reference_set (\<lambda>_. None) (sample_reference_env 2) (sample_capture ''other'') db)"
  by code_simp

lemma capture_leaves_reference_active_witness:
  "\<exists>db ans db' ans'. captured_catalog = Inr (db, ans)
     \<and> capture_reference_set (\<lambda>_. None) (sample_reference_env 2) (sample_capture ''other'') db = Inr (db', ans')
     \<and> ca_spectrum ans \<in> set (rd_spectrum db') \<and> sr_active (ca_spectrum ans) \<and> sr_active (ca_spectrum ans')"
proof -
  obtain db ans where c: "captured_catalog = Inr (db, ans)" by (rule captured_catalog_ok)
  obtain db' ans' where c': "capture_reference_set (\<lambda>_. None) (sample_reference_env 2) (sample_capture ''other'') db = Inr (db', ans')"
    using second_capture [unfolded c sum.case prod.case] by (auto simp: is_ok_iff)
  have "py_strip (cq_location_name (sample_capture ''other'')) = ''lab''" "cq_activate (sample_capture ''other'')" by code_simp+
  then show ?thesis
    using capture_leaves_reference_active [OF c', of "ca_spectrum ans" "ca_set ans"] captured_catalog_exports [unfolded c sum.case prod.case] c c' by auto
qed

end
