(* ===== verification/Settings.thy ===== *)
theory Settings
  imports Reference_Points
begin

section \<open>Settings and the guard of the web service\<close>

text \<open>
  \<open>app/config.py\<close>, \<open>app/security.py\<close>, the adapter check of \<open>app/runtime.py\<close> and the middleware of
  \<open>app/application.py\<close>: what a service reads from its environment, which requests reach a handler, and
  what is audited. An environment is a partial map of texts; \<open>float(text)\<close>, SHA-256 and a drawn request
  identifier are arguments. A request has its method, path and headers (names in lower case, which is
  how they are looked up); the body is left to the handlers.
\<close>

subsection \<open>Reading the environment\<close>

type_synonym env = "string \<Rightarrow> string option"

definition getenv :: "env \<Rightarrow> string \<Rightarrow> string \<Rightarrow> string" where
  "getenv env name fallback = (case env name of None \<Rightarrow> fallback | Some s \<Rightarrow> s)"

text \<open>\<open>a < b\<close> and \<open>a <= b\<close> of floats: every comparison with NaN is false.\<close>

fun float_less :: "pyfloat \<Rightarrow> pyfloat \<Rightarrow> bool" where
  "float_less NaN _ = False"
| "float_less _ NaN = False"
| "float_less PosInf _ = False"
| "float_less _ NegInf = False"
| "float_less (Fin a) (Fin b) = (a < b)"
| "float_less (Fin a) PosInf = True"
| "float_less NegInf _ = True"

definition float_le :: "pyfloat \<Rightarrow> pyfloat \<Rightarrow> bool" where
  "float_le a b \<longleftrightarrow> float_less a b \<or> (a = b \<and> a \<noteq> NaN)"

text \<open>The default values are whole numbers: their text is the integer with \<open>.0\<close>.\<close>

definition whole_text :: "int \<Rightarrow> string" where
  "whole_text n = int_text n @ ''.0''"

definition read_float ::
  "(string \<Rightarrow> pyfloat option) \<Rightarrow> env \<Rightarrow> string \<Rightarrow> int \<Rightarrow> string list \<Rightarrow> pyfloat \<times> string list" where
  "read_float flt env name fallback warnings =
     (let d = Fin (of_int fallback) in
      case env name of
        None \<Rightarrow> (d, warnings)
      | Some s \<Rightarrow> if s = [] then (d, warnings)
          else (case flt s of
              Some x \<Rightarrow> (x, warnings)
            | None \<Rightarrow> (d, warnings @ [name @ '' is invalid; using '' @ whole_text fallback @ ''.''])))"

definition read_int :: "env \<Rightarrow> string \<Rightarrow> int \<Rightarrow> string list \<Rightarrow> int \<times> string list" where
  "read_int env name fallback warnings =
     (case env name of
        None \<Rightarrow> (fallback, warnings)
      | Some s \<Rightarrow> if s = [] then (fallback, warnings)
          else (case int_of_text s of
              Inr n \<Rightarrow> (n, warnings)
            | Inl _ \<Rightarrow> (fallback, warnings @ [name @ '' is invalid; using '' @ int_text fallback @ ''.''])))"

definition truths :: "string list" where
  "truths = [''1'', ''true'', ''yes'', ''on'']"

definition falsehoods :: "string list" where
  "falsehoods = [''0'', ''false'', ''no'', ''off'']"

definition read_bool :: "env \<Rightarrow> string \<Rightarrow> bool \<Rightarrow> string list \<Rightarrow> bool \<times> string list" where
  "read_bool env name fallback warnings =
     (case env name of
        None \<Rightarrow> (fallback, warnings)
      | Some s \<Rightarrow> if s = [] then (fallback, warnings)
          else (let t = py_lower (py_strip s) in
            if t \<in> set truths then (True, warnings)
            else if t \<in> set falsehoods then (False, warnings)
            else (fallback, warnings @ [name @ '' is invalid; using '' @ (if fallback then ''true'' else ''false'') @ ''.''])))"

text \<open>A value out of its range is replaced, with a warning.\<close>

definition replace_if :: "('a \<Rightarrow> bool) \<Rightarrow> 'a \<Rightarrow> string \<Rightarrow> 'a \<times> string list \<Rightarrow> 'a \<times> string list" where
  "replace_if bad fallback message r = (let (x, w) = r in if bad x then (fallback, w @ [message]) else (x, w))"

definition rstrip_slash :: "string \<Rightarrow> string" where
  "rstrip_slash s = rev (dropWhile (\<lambda>c. c = CHR ''/'') (rev s))"

definition or_text :: "string \<Rightarrow> string \<Rightarrow> string" where
  "or_text s fallback = (if s = [] then fallback else s)"

subsection \<open>Settings of the subsystems\<close>

record spectrum_settings =
  ssp_source_mode :: string
  ssp_start_mhz :: pyfloat
  ssp_end_mhz :: pyfloat
  ssp_point_count :: int
  ssp_demo_enabled :: bool
  ssp_demo_frequency_mhz :: pyfloat
  ssp_demo_level_dbm :: pyfloat
  ssp_aaronia_url :: string
  ssp_aaronia_timeout :: pyfloat
  ssp_ingest_url :: string
  ssp_ingest_timeout :: pyfloat
  ssp_warnings :: "string list"

definition read_range :: "(string \<Rightarrow> pyfloat option) \<Rightarrow> env \<Rightarrow> string list \<Rightarrow> (pyfloat \<times> pyfloat) \<times> string list" where
  "read_range flt env w =
     (let (start, w) = read_float flt env ''SPECTRUM_START_MHZ'' 88 w;
          (stop, w) = read_float flt env ''SPECTRUM_END_MHZ'' 108 w in
      replace_if (\<lambda>(start, stop). float_le stop start) (Fin 88, Fin 108)
        ''Spectrum end must be greater than start; using 88-108 MHz.'' ((start, stop), w))"

definition read_point_count :: "env \<Rightarrow> string list \<Rightarrow> int \<times> string list" where
  "read_point_count env w =
     (let (n, w) = read_int env ''SPECTRUM_POINT_COUNT'' 100 w in
      if n < 2 then (100, w @ [''SPECTRUM_POINT_COUNT must be at least 2; using 100.''])
      else if 100000 < n then (100000, w @ [''SPECTRUM_POINT_COUNT is too large; limiting it to 100000.''])
      else (n, w))"

definition spectrum_from_env :: "(string \<Rightarrow> pyfloat option) \<Rightarrow> env \<Rightarrow> spectrum_settings" where
  "spectrum_from_env flt env =
     (let ((start, stop), w) = read_range flt env [];
          (points, w) = read_point_count env w;
          (timeout, w) = replace_if (\<lambda>x. float_le x (Fin 0)) (Fin 5) ''AARONIA_TIMEOUT_SECONDS must be positive; using 5.''
            (read_float flt env ''AARONIA_TIMEOUT_SECONDS'' 5 w);
          (ingest, w) = replace_if (\<lambda>x. float_le x (Fin 0)) (Fin 5) ''SPECTRUM_INGEST_TIMEOUT_SECONDS must be positive; using 5.''
            (read_float flt env ''SPECTRUM_INGEST_TIMEOUT_SECONDS'' 5 w);
          (demo, w) = read_bool env ''DEMO_ANOMALY_ENABLED'' True w;
          (frequency, w) = read_float flt env ''DEMO_ANOMALY_FREQUENCY_MHZ'' 2460 w;
          (level, w) = read_float flt env ''DEMO_ANOMALY_LEVEL_DBM'' (- 35) w in
      \<lparr>ssp_source_mode = py_lower (py_strip (getenv env ''SPECTRUM_SOURCE_MODE'' ''simulator'')),
       ssp_start_mhz = start, ssp_end_mhz = stop, ssp_point_count = points, ssp_demo_enabled = demo,
       ssp_demo_frequency_mhz = frequency, ssp_demo_level_dbm = level,
       ssp_aaronia_url = py_strip (getenv env ''AARONIA_RTSA_URL'' ''http://host.docker.internal:54664''),
       ssp_aaronia_timeout = timeout,
       ssp_ingest_url = py_strip (getenv env ''SPECTRUM_INGEST_WS_URL'' ''ws://spectrum-ingest:8001/ws/spectrum''),
       ssp_ingest_timeout = ingest, ssp_warnings = w\<rparr>)"

record kismet_settings =
  kse_enabled :: bool
  kse_api_url :: string
  kse_api_key :: string
  kse_username :: string
  kse_password :: string
  kse_devices_endpoint :: string
  kse_alerts_endpoint :: string
  kse_poll_interval :: pyfloat
  kse_timeout :: pyfloat
  kse_rssi_delta :: pyfloat
  kse_heartbeat :: pyfloat
  kse_bluetooth_interface :: string
  kse_warnings :: "string list"

definition endpoint_of :: "string \<Rightarrow> string" where
  "endpoint_of s = (if startswith s ''/'' then s else ''/'' @ s)"

definition kismet_from_env :: "(string \<Rightarrow> pyfloat option) \<Rightarrow> env \<Rightarrow> kismet_settings" where
  "kismet_from_env flt env =
     (let (timeout, w) = replace_if (\<lambda>x. float_le x (Fin 0)) (Fin 5) ''KISMET_TIMEOUT_SECONDS must be positive; using 5.''
            (read_float flt env ''KISMET_TIMEOUT_SECONDS'' 5 []);
          (poll, w) = replace_if (\<lambda>x. float_less x (Fin 5)) (Fin 15) ''KISMET_POLL_INTERVAL_SECONDS must be at least 5; using 15.''
            (read_float flt env ''KISMET_POLL_INTERVAL_SECONDS'' 15 w);
          (delta, w) = replace_if (\<lambda>x. float_less x (Fin 0)) (Fin 3) ''KISMET_HISTORY_RSSI_DELTA_DB must be non-negative; using 3.''
            (read_float flt env ''KISMET_HISTORY_RSSI_DELTA_DB'' 3 w);
          (heartbeat, w) = replace_if (\<lambda>x. float_less x (Fin 1)) (Fin 10)
            ''KISMET_HISTORY_HEARTBEAT_SECONDS must be at least 1; using 10.''
            (read_float flt env ''KISMET_HISTORY_HEARTBEAT_SECONDS'' 10 w);
          (enabled, w) = read_bool env ''KISMET_INTEGRATION_ENABLED'' False w in
      \<lparr>kse_enabled = enabled,
       kse_api_url = rstrip_slash (py_strip (getenv env ''KISMET_API_URL'' ''http://host.docker.internal:2501'')),
       kse_api_key = py_strip (getenv env ''KISMET_API_KEY'' []), kse_username = py_strip (getenv env ''KISMET_HTTPD_USERNAME'' []),
       kse_password = py_strip (getenv env ''KISMET_HTTPD_PASSWORD'' []),
       kse_devices_endpoint = endpoint_of (py_strip (getenv env ''KISMET_DEVICES_ENDPOINT'' ''/devices/views/all/devices.json'')),
       kse_alerts_endpoint = endpoint_of (py_strip (getenv env ''KISMET_ALERTS_ENDPOINT'' ''/alerts/all_alerts.json'')),
       kse_poll_interval = poll, kse_timeout = timeout, kse_rssi_delta = delta, kse_heartbeat = heartbeat,
       kse_bluetooth_interface = or_text (py_lower (py_strip (getenv env ''KISMET_BLUETOOTH_INTERFACE'' ''hci0''))) ''hci0'',
       kse_warnings = w\<rparr>)"

record baseline_settings =
  bse_wifi_grace :: pyfloat
  bse_bluetooth_grace :: pyfloat
  bse_warnings :: "string list"

definition baseline_from_env :: "(string \<Rightarrow> pyfloat option) \<Rightarrow> env \<Rightarrow> baseline_settings" where
  "baseline_from_env flt env =
     (let (wifi, w) = replace_if (\<lambda>x. float_less x (Fin 0)) (Fin 180)
            ''WIFI_BASELINE_MISSING_GRACE_SECONDS must be non-negative; using 180.''
            (read_float flt env ''WIFI_BASELINE_MISSING_GRACE_SECONDS'' 180 []);
          (bluetooth, w) = replace_if (\<lambda>x. float_less x (Fin 0)) (Fin 300)
            ''BLUETOOTH_BASELINE_MISSING_GRACE_SECONDS must be non-negative; using 300.''
            (read_float flt env ''BLUETOOTH_BASELINE_MISSING_GRACE_SECONDS'' 300 w) in
      \<lparr>bse_wifi_grace = wifi, bse_bluetooth_grace = bluetooth, bse_warnings = w\<rparr>)"

record ml_settings =
  mse_enabled :: bool
  mse_model_type :: string
  mse_warnings :: "string list"

definition ml_model_types :: "string list" where
  "ml_model_types = [''rule'', ''classical'', ''cnn'', ''onnx'']"

definition ml_from_env :: "env \<Rightarrow> ml_settings" where
  "ml_from_env env =
     (let (enabled, w) = read_bool env ''ML_ENABLED'' True [];
          model = or_text (py_lower (py_strip (getenv env ''ML_MODEL_TYPE'' ''rule''))) ''rule'';
          (model, w) = replace_if (\<lambda>m. m \<notin> set ml_model_types) ''rule''
            (''ML_MODEL_TYPE '' @ [CHR 0x27] @ model @ [CHR 0x27] @ '' is not supported (rule, classical, cnn, onnx); using rule.'') (model, w) in
      \<lparr>mse_enabled = enabled, mse_model_type = model, mse_warnings = w\<rparr>)"

record bettercap_settings =
  bce_enabled :: bool
  bce_api_url :: string
  bce_username :: string
  bce_password :: string
  bce_timeout :: pyfloat
  bce_ble_enabled :: bool
  bce_ble_interface :: string
  bce_poll_interval :: pyfloat
  bce_warnings :: "string list"

definition bettercap_from_env :: "(string \<Rightarrow> pyfloat option) \<Rightarrow> env \<Rightarrow> bettercap_settings" where
  "bettercap_from_env flt env =
     (let (timeout, w) = replace_if (\<lambda>x. float_le x (Fin 0)) (Fin 5) ''BETTERCAP_API_TIMEOUT_SECONDS must be positive; using 5.''
            (read_float flt env ''BETTERCAP_API_TIMEOUT_SECONDS'' 5 []);
          (poll, w) = replace_if (\<lambda>x. float_less x (Fin 1)) (Fin 2) ''BETTERCAP_POLL_INTERVAL_SECONDS must be at least 1; using 2.''
            (read_float flt env ''BETTERCAP_POLL_INTERVAL_SECONDS'' 2 w);
          (enabled, w) = read_bool env ''BETTERCAP_INTEGRATION_ENABLED'' False w;
          (ble, w) = read_bool env ''BETTERCAP_BLE_ENABLED'' True w in
      \<lparr>bce_enabled = enabled,
       bce_api_url = rstrip_slash (py_strip (getenv env ''BETTERCAP_API_URL'' ''http://host.docker.internal:8081'')),
       bce_username = or_text (py_strip (getenv env ''BETTERCAP_USERNAME'' ''user'')) ''user'',
       bce_password = or_text (py_strip (getenv env ''BETTERCAP_PASSWORD'' ''pass'')) ''pass'',
       bce_timeout = timeout, bce_ble_enabled = ble,
       bce_ble_interface = or_text (py_lower (py_strip (getenv env ''BETTERCAP_BLE_INTERFACE'' ''hci1''))) ''hci1'',
       bce_poll_interval = poll, bce_warnings = w\<rparr>)"

text \<open>\<open>bluetooth_adapter_conflict_warning\<close>; the text is shortened to its facts.\<close>

definition adapter_conflict :: "kismet_settings \<Rightarrow> bettercap_settings \<Rightarrow> string option" where
  "adapter_conflict k b =
     (if \<not> (bce_enabled b \<and> bce_ble_enabled b) then None
      else if kse_bluetooth_interface k \<noteq> bce_ble_interface b then None
      else Some (kse_bluetooth_interface k))"

subsection \<open>Security\<close>

record security_settings =
  sse_app_mode :: string
  sse_synthetic_fallback :: bool
  sse_auth_mode :: string
  sse_anonymous_read :: bool
  sse_operator_hash :: string
  sse_admin_hash :: string
  sse_max_bytes :: int

definition boolean :: "env \<Rightarrow> string \<Rightarrow> bool \<Rightarrow> bool" where
  "boolean env name fallback = (py_lower (py_strip (getenv env name (if fallback then ''true'' else ''false''))) \<in> set truths)"

definition security_from_env :: "env \<Rightarrow> security_settings result" where
  "security_from_env env =
     (case int_of_text (py_strip (getenv env ''MAX_REQUEST_BYTES'' ''209715200'')) of
        Inl _ \<Rightarrow> Inl (RuntimeError ''Invalid production configuration: MAX_REQUEST_BYTES must be an integer'')
      | Inr limit \<Rightarrow>
         (let mode = py_lower (py_strip (getenv env ''APP_PROFILE'' (getenv env ''APP_MODE'' ''demo'')));
              synthetic = py_lower (py_strip (getenv env ''ALLOW_SYNTHETIC_FALLBACK'' [])) in
          Inr \<lparr>sse_app_mode = mode,
            sse_synthetic_fallback = (if synthetic \<noteq> [] then synthetic \<in> set truths else mode \<noteq> ''production''),
            sse_auth_mode = py_lower (py_strip (getenv env ''AUTH_MODE'' ''disabled'')),
            sse_anonymous_read = boolean env ''AUTH_ANONYMOUS_READ'' True,
            sse_operator_hash = py_lower (py_strip (getenv env ''AUTH_OPERATOR_TOKEN_SHA256'' [])),
            sse_admin_hash = py_lower (py_strip (getenv env ''AUTH_ADMIN_TOKEN_SHA256'' [])),
            sse_max_bytes = max 1024 limit\<rparr>))"

definition hex_digest :: "string \<Rightarrow> bool" where
  "hex_digest s \<longleftrightarrow> length s = 64 \<and> list_all (\<lambda>c. c \<in> set ''0123456789abcdef'') s"

definition unsafe_passwords :: "string list" where
  "unsafe_passwords = [''change_me_dev_only'', ''change_this_password'', ''postgres'', ''password'']"

definition configuration_errors :: "env \<Rightarrow> security_settings \<Rightarrow> string list" where
  "configuration_errors env st =
     (let production = (sse_app_mode st = ''production'') in
      (if sse_app_mode st \<notin> {''demo'', ''production''} then [''APP_MODE must be demo or production''] else [])
      @ (if production \<and> sse_synthetic_fallback st then [''ALLOW_SYNTHETIC_FALLBACK must be false in production''] else [])
      @ (if sse_auth_mode st \<notin> {''disabled'', ''api_token''} then [''AUTH_MODE must be disabled or api_token''] else [])
      @ concat (map (\<lambda>(name, value). if value \<noteq> [] \<and> \<not> hex_digest value then [name @ '' must be a lowercase SHA-256 hex digest''] else [])
          [(''AUTH_OPERATOR_TOKEN_SHA256'', sse_operator_hash st), (''AUTH_ADMIN_TOKEN_SHA256'', sse_admin_hash st)])
      @ (if production then
           (if py_strip (getenv env ''DATABASE_URL'' []) = [] then [''DATABASE_URL is required in production''] else [])
           @ (if sse_auth_mode st \<noteq> ''api_token'' then [''AUTH_MODE=api_token is required in production''] else [])
           @ (if sse_operator_hash st = [] \<and> sse_admin_hash st = [] then [''At least one operator/admin token hash is required in production''] else [])
           @ (if py_lower (py_strip (getenv env ''POSTGRES_PASSWORD'' [])) \<in> set unsafe_passwords
              then [''Default/unsafe POSTGRES_PASSWORD is forbidden in production''] else [])
         else []))"

fun joined :: "string list \<Rightarrow> string" where
  "joined [] = []"
| "joined [e] = e"
| "joined (e # es) = e @ ''; '' @ joined es"

definition validate_security :: "env \<Rightarrow> security_settings \<Rightarrow> unit result" where
  "validate_security env st =
     (let errors = configuration_errors env st in
      if errors \<noteq> [] then Inl (RuntimeError (''Invalid production configuration: '' @ joined errors)) else Inr ())"

record http_request =
  hq_method :: string
  hq_path :: string
  hq_headers :: "(string \<times> string) list"

text \<open>\<open>request.headers.get(name)\<close>, the first header of the name.\<close>

definition header :: "http_request \<Rightarrow> string \<Rightarrow> string option" where
  "header rq name = map_of (hq_headers rq) name"

definition write_methods :: "string list" where
  "write_methods = [''POST'', ''PUT'', ''PATCH'', ''DELETE'']"

definition public_write_paths :: "string list" where
  "public_write_paths = [''/api/health'', ''/api/health/live'', ''/api/health/ready'', ''/api/health/status'']"

definition token_role :: "(string \<Rightarrow> string) \<Rightarrow> security_settings \<Rightarrow> string \<Rightarrow> string option" where
  "token_role sha st token =
     (let digest = sha token in
      if sse_admin_hash st \<noteq> [] \<and> digest = sse_admin_hash st then Some ''admin''
      else if sse_operator_hash st \<noteq> [] \<and> digest = sse_operator_hash st then Some ''operator''
      else None)"

text \<open>\<open>str.partition(" ")\<close>: the text before the first space and the text after it.\<close>

definition partition_space :: "string \<Rightarrow> string \<times> string" where
  "partition_space s = (takeWhile (\<lambda>c. c \<noteq> CHR '' '') s, drop 1 (dropWhile (\<lambda>c. c \<noteq> CHR '' '') s))"

record principal =
  pr_role :: string
  pr_actor :: string

definition requires_auth :: "security_settings \<Rightarrow> http_request \<Rightarrow> bool" where
  "requires_auth st rq \<longleftrightarrow>
     (py_upper (hq_method rq) \<in> set write_methods \<or> \<not> sse_anonymous_read st) \<and> hq_path rq \<notin> set public_write_paths"

definition authorize_request :: "(string \<Rightarrow> string) \<Rightarrow> security_settings \<Rightarrow> http_request \<Rightarrow> principal result" where
  "authorize_request sha st rq =
     (if sse_auth_mode st = ''disabled'' then Inr \<lparr>pr_role = ''demo'', pr_actor = ''anonymous-demo''\<rparr>
      else if \<not> requires_auth st rq then Inr \<lparr>pr_role = ''viewer'', pr_actor = ''anonymous-viewer''\<rparr>
      else let (scheme, token) = partition_space (or_empty (header rq ''authorization'')) in
        if py_lower scheme \<noteq> ''bearer'' \<or> token = [] then Inl (HTTPException 401 ''bearer_token_required'')
        else (case token_role sha st token of
            None \<Rightarrow> Inl (HTTPException 403 ''operator_or_admin_role_required'')
          | Some role \<Rightarrow> Inr \<lparr>pr_role = role, pr_actor = role @ ''-token''\<rparr>))"

subsection \<open>The guard of every request\<close>

record http_response =
  hr_status :: int
  hr_headers :: "(string \<times> string) list"
  hr_code :: string

text \<open>What a handler does: a response, or an exception other than \<open>HTTPException\<close>, which the guard passes on.\<close>

datatype outcome = Response http_response | Raised py_error

record audit_event =
  av_actor :: string
  av_success :: bool
  av_method :: string
  av_path :: string
  av_status :: int
  av_request_id :: string

definition error_response :: "int \<Rightarrow> string \<Rightarrow> http_response" where
  "error_response status code = \<lparr>hr_status = status, hr_headers = [], hr_code = code\<rparr>"

definition set_header :: "string \<Rightarrow> string \<Rightarrow> http_response \<Rightarrow> http_response" where
  "set_header k v r = r\<lparr>hr_headers := (k, v) # filter (\<lambda>(n, _). n \<noteq> k) (hr_headers r)\<rparr>"

definition cache_control :: "http_request \<Rightarrow> http_response \<Rightarrow> string" where
  "cache_control rq r = (if startswith (hq_path rq) ''/api/'' then ''no-store''
     else (case map_of (hr_headers r) ''cache-control'' of Some v \<Rightarrow> v | None \<Rightarrow> ''no-cache''))"

definition secured :: "http_request \<Rightarrow> string \<Rightarrow> http_response \<Rightarrow> http_response" where
  "secured rq request_id r = set_header ''cache-control'' (cache_control rq r)
     (set_header ''permissions-policy'' ''camera=(), microphone=(), geolocation=()''
     (set_header ''referrer-policy'' ''no-referrer'' (set_header ''x-frame-options'' ''DENY''
     (set_header ''x-content-type-options'' ''nosniff'' (set_header ''x-request-id'' request_id r)))))"

definition request_id :: "string \<Rightarrow> http_request \<Rightarrow> string" where
  "request_id drawn rq = or_text (take 128 (py_strip (or_empty (header rq ''x-request-id'')))) drawn"

definition length_refusal :: "security_settings \<Rightarrow> http_request \<Rightarrow> http_response option" where
  "length_refusal st rq =
     (case header rq ''content-length'' of
        None \<Rightarrow> None
      | Some text \<Rightarrow> if text = [] then None
          else (case int_of_text text of
              Inl _ \<Rightarrow> Some (error_response 400 ''invalid_content_length'')
            | Inr n \<Rightarrow> if n < 0 then Some (error_response 400 ''invalid_content_length'')
                else if sse_max_bytes st < n then Some (error_response 413 ''request_body_too_large'') else None))"

definition guarded :: "(string \<Rightarrow> string) \<Rightarrow> security_settings \<Rightarrow> string \<Rightarrow> (principal \<Rightarrow> http_request \<Rightarrow> outcome) \<Rightarrow> http_request
    \<Rightarrow> outcome \<times> string \<times> int" where
  "guarded sha st drawn handler rq =
     (case length_refusal st rq of
        Some r \<Rightarrow> (Response r, ''unknown'', hr_status r)
      | None \<Rightarrow> (case authorize_request sha st rq of
          Inl (HTTPException status message) \<Rightarrow> (Response (error_response status message), ''unknown'', status)
        | Inl e \<Rightarrow> (Raised e, ''unknown'', 500)
        | Inr who \<Rightarrow> (case handler who rq of
            Response r \<Rightarrow> (Response (secured rq (request_id drawn rq) r), pr_actor who, hr_status r)
          | Raised e \<Rightarrow> (Raised e, pr_actor who, 500))))"

definition audits :: "http_request \<Rightarrow> bool" where
  "audits rq \<longleftrightarrow> hq_method rq \<in> set write_methods \<and> startswith (hq_path rq) ''/api/''"

definition request_context_and_security :: "(string \<Rightarrow> string) \<Rightarrow> security_settings \<Rightarrow> string
    \<Rightarrow> (principal \<Rightarrow> http_request \<Rightarrow> outcome) \<Rightarrow> http_request \<Rightarrow> outcome \<times> audit_event list" where
  "request_context_and_security sha st drawn handler rq =
     (let (outcome, actor, status) = guarded sha st drawn handler rq in
      (outcome, if audits rq then [\<lparr>av_actor = actor, av_success = (200 \<le> status \<and> status < 400), av_method = hq_method rq,
          av_path = hq_path rq, av_status = status, av_request_id = request_id drawn rq\<rparr>] else []))"

subsection \<open>What the settings promise\<close>

lemma float_le_NaN [simp]: "\<not> float_le NaN x" "\<not> float_le x NaN"
  by (cases x; simp add: float_le_def)+

lemma not_le_less: "\<not> float_le x (Fin a) \<Longrightarrow> x = NaN \<or> float_less (Fin a) x"
  by (cases x) (auto simp: float_le_def)

lemma not_less_le: "\<not> float_less x (Fin a) \<Longrightarrow> x = NaN \<or> float_le (Fin a) x"
  by (cases x) (auto simp: float_le_def)

lemma replace_if_ok: "\<not> bad fallback \<Longrightarrow> \<not> bad (fst (replace_if bad fallback m r))"
  by (simp add: replace_if_def split: prod.split)

lemma positive_setting: "0 < a \<Longrightarrow> fst (replace_if (\<lambda>x. float_le x (Fin 0)) (Fin a) m r) = NaN
    \<or> float_less (Fin 0) (fst (replace_if (\<lambda>x. float_le x (Fin 0)) (Fin a) m r))"
  by (rule not_le_less, rule replace_if_ok) (simp add: float_le_def)

lemma minimum_setting: "b \<le> a \<Longrightarrow> fst (replace_if (\<lambda>x. float_less x (Fin b)) (Fin a) m r) = NaN
    \<or> float_le (Fin b) (fst (replace_if (\<lambda>x. float_less x (Fin b)) (Fin a) m r))"
  by (rule not_less_le, rule replace_if_ok) simp

lemma range_setting: "\<not> float_le (snd (fst (read_range flt env w))) (fst (fst (read_range flt env w)))"
proof -
  let ?bad = "\<lambda>(start, stop). float_le stop start"
  have "\<not> ?bad (fst (read_range flt env w))"
    unfolding read_range_def by (auto simp: replace_if_def float_le_def Let_def split: prod.split)
  then show ?thesis by (simp add: split_def)
qed

lemma point_count_setting: "2 \<le> fst (read_point_count env w) \<and> fst (read_point_count env w) \<le> 100000"
  by (auto simp: read_point_count_def split: prod.split)

lemma model_setting: "mse_model_type (ml_from_env env) \<in> set ml_model_types"
proof -
  have "\<not> fst (replace_if (\<lambda>m. m \<notin> set ml_model_types) ''rule'' m r) \<notin> set ml_model_types" for m r
    by (rule replace_if_ok [where bad = "\<lambda>m. m \<notin> set ml_model_types"]) (simp add: ml_model_types_def)
  then show ?thesis by (simp add: ml_from_env_def Let_def split_def)
qed

text \<open>
  C21: Whatever the environment holds, the settings a service starts with are usable: the simulated
  range is not empty, it has between 2 and 100000 points, timeouts are positive and the intervals, the
  level change and the grace periods are at least their minima, unless the value is NaN, which passes
  every check; endpoints start with a slash, credentials and interfaces are not empty, and the model
  type is a supported one.\<close>

theorem settings_in_range:
  "(let s = spectrum_from_env flt env; k = kismet_from_env flt env; b = bettercap_from_env flt env; d = baseline_from_env flt env in
     \<not> float_le (ssp_end_mhz s) (ssp_start_mhz s) \<and> 2 \<le> ssp_point_count s \<and> ssp_point_count s \<le> 100000
     \<and> (\<forall>x\<in>{ssp_aaronia_timeout s, ssp_ingest_timeout s, kse_timeout k, bce_timeout b}. x = NaN \<or> float_less (Fin 0) x)
     \<and> (\<forall>(x, minimum)\<in>{(kse_poll_interval k, 5), (kse_rssi_delta k, 0), (kse_heartbeat k, 1), (bce_poll_interval b, 1),
            (bse_wifi_grace d, 0), (bse_bluetooth_grace d, 0)}. x = NaN \<or> float_le (Fin minimum) x)
     \<and> startswith (kse_devices_endpoint k) ''/'' \<and> startswith (kse_alerts_endpoint k) ''/''
     \<and> [] \<notin> {kse_bluetooth_interface k, bce_ble_interface b, bce_username b, bce_password b}
     \<and> mse_model_type (ml_from_env env) \<in> set ml_model_types)"
proof -
  have endpoint: "startswith (endpoint_of s) ''/''" for s by (simp add: endpoint_of_def)
  have nonempty: "or_text s t \<noteq> []" if "t \<noteq> []" for s t using that by (simp add: or_text_def)
  have spectrum: "\<not> float_le (ssp_end_mhz (spectrum_from_env flt env)) (ssp_start_mhz (spectrum_from_env flt env))"
      "2 \<le> ssp_point_count (spectrum_from_env flt env)" "ssp_point_count (spectrum_from_env flt env) \<le> 100000"
    using range_setting point_count_setting by (simp_all add: spectrum_from_env_def Let_def split_def)
  have timeouts: "x = NaN \<or> float_less (Fin 0) x"
    if "x \<in> {ssp_aaronia_timeout (spectrum_from_env flt env), ssp_ingest_timeout (spectrum_from_env flt env),
        kse_timeout (kismet_from_env flt env), bce_timeout (bettercap_from_env flt env)}" for x
    using that by (elim insertE emptyE)
      (simp_all add: spectrum_from_env_def kismet_from_env_def bettercap_from_env_def Let_def split_def positive_setting)
  have minima: "case p of (x, minimum) \<Rightarrow> x = NaN \<or> float_le (Fin minimum) x"
    if "p \<in> {(kse_poll_interval (kismet_from_env flt env), 5), (kse_rssi_delta (kismet_from_env flt env), 0),
        (kse_heartbeat (kismet_from_env flt env), 1), (bce_poll_interval (bettercap_from_env flt env), 1),
        (bse_wifi_grace (baseline_from_env flt env), 0), (bse_bluetooth_grace (baseline_from_env flt env), 0)}" for p
    using that by (elim insertE emptyE)
      (simp_all add: kismet_from_env_def bettercap_from_env_def baseline_from_env_def Let_def split_def minimum_setting)
  have texts: "startswith (kse_devices_endpoint (kismet_from_env flt env)) ''/''" "startswith (kse_alerts_endpoint (kismet_from_env flt env)) ''/''"
      "[] \<notin> {kse_bluetooth_interface (kismet_from_env flt env), bce_ble_interface (bettercap_from_env flt env),
        bce_username (bettercap_from_env flt env), bce_password (bettercap_from_env flt env)}"
    by (simp_all add: kismet_from_env_def bettercap_from_env_def Let_def split_def endpoint nonempty [THEN not_sym] nonempty)
  show ?thesis
    unfolding Let_def using spectrum timeouts minima texts model_setting by blast
qed

lemma settings_in_range_witness:
  "float_less (Fin 0) (kse_timeout (kismet_from_env (\<lambda>_. Some NegInf) (\<lambda>_. Some ''-inf'')))
    \<and> kse_timeout (kismet_from_env (\<lambda>_. Some NegInf) (\<lambda>_. Some ''-inf'')) = Fin 5"
proof -
  have five: "kse_timeout (kismet_from_env (\<lambda>_. Some NegInf) (\<lambda>_. Some ''-inf'')) = Fin 5"
    by (simp add: Let_def kismet_from_env_def split_def replace_if_def read_float_def float_le_def)
  have "kse_timeout (kismet_from_env (\<lambda>_. Some NegInf) (\<lambda>_. Some ''-inf'')) = NaN
      \<or> float_less (Fin 0) (kse_timeout (kismet_from_env (\<lambda>_. Some NegInf) (\<lambda>_. Some ''-inf'')))"
    using settings_in_range [of "\<lambda>_. Some NegInf" "\<lambda>_. Some ''-inf''"] unfolding Let_def by blast
  then show ?thesis by (simp add: five)
qed

text \<open>
  NaN is accepted for every interval and timeout.\<close>

lemma nan_interval_accepted:
  "env ''KISMET_POLL_INTERVAL_SECONDS'' = Some ''nan'' \<Longrightarrow> flt ''nan'' = Some NaN \<Longrightarrow>
     kse_poll_interval (kismet_from_env flt env) = NaN"
  by (simp add: kismet_from_env_def Let_def split_def replace_if_def read_float_def)

subsection \<open>Who may write\<close>

text \<open>A request that carries a token with one of the configured digests.\<close>

definition bearer_of :: "(string \<Rightarrow> string) \<Rightarrow> security_settings \<Rightarrow> string \<Rightarrow> http_request \<Rightarrow> bool" where
  "bearer_of sha st role rq \<longleftrightarrow> (\<exists>scheme token. header rq ''authorization'' = Some (scheme @ '' '' @ token)
     \<and> py_lower scheme = ''bearer'' \<and> token \<noteq> []
     \<and> (role = ''admin'' \<and> sha token = sse_admin_hash st \<or> role = ''operator'' \<and> sha token = sse_operator_hash st))"

lemma partition_spaceE:
  assumes "partition_space s = (scheme, token)" "token \<noteq> []"
  shows "s = scheme @ '' '' @ token"
proof -
  have rest: "dropWhile (\<lambda>c. c \<noteq> CHR '' '') s \<noteq> []" using assms by (auto simp: partition_space_def simp del: dropWhile_eq_Nil_conv)
  then have "hd (dropWhile (\<lambda>c. c \<noteq> CHR '' '') s) = CHR '' ''" using hd_dropWhile by blast
  with rest have "dropWhile (\<lambda>c. c \<noteq> CHR '' '') s = '' '' @ token"
    using assms(1) by (cases "dropWhile (\<lambda>c. c \<noteq> CHR '' '') s") (auto simp: partition_space_def)
  then show ?thesis using assms(1) takeWhile_dropWhile_id [of "\<lambda>c. c \<noteq> CHR '' ''" s] by (simp add: partition_space_def)
qed

lemma authorize_Inl: "authorize_request sha st rq = Inl e \<Longrightarrow> \<exists>code m. e = HTTPException code m \<and> code \<in> {401, 403}"
  by (auto simp: authorize_request_def Let_def split: if_splits prod.splits option.splits)

lemma authorized_bearer:
  assumes "authorize_request sha st rq = Inr who" "sse_auth_mode st \<noteq> ''disabled''" "requires_auth st rq"
  shows "bearer_of sha st (pr_role who) rq \<and> pr_actor who = pr_role who @ ''-token''"
proof -
  obtain scheme token where p: "partition_space (or_empty (header rq ''authorization'')) = (scheme, token)" by force
  with assms have t: "py_lower scheme = ''bearer''" "token \<noteq> []" and r: "token_role sha st token = Some (pr_role who)"
      "pr_actor who = pr_role who @ ''-token''"
    by (auto simp: authorize_request_def split: if_splits option.splits)
  have "or_empty (header rq ''authorization'') = scheme @ '' '' @ token" by (rule partition_spaceE [OF p t(2)])
  then have "header rq ''authorization'' = Some (scheme @ '' '' @ token)" by (auto simp: or_empty_def split: option.splits)
  moreover have "pr_role who = ''admin'' \<and> sha token = sse_admin_hash st \<or> pr_role who = ''operator'' \<and> sha token = sse_operator_hash st"
    using r(1) by (auto simp: token_role_def Let_def split: if_splits)
  ultimately show ?thesis using t r(2) by (auto simp: bearer_of_def)
qed

lemma production_settings:
  assumes "security_from_env env = Inr st" "validate_security env st = Inr ()" "sse_app_mode st = ''production''"
  shows "sse_auth_mode st = ''api_token'' \<and> (hex_digest (sse_operator_hash st) \<or> hex_digest (sse_admin_hash st)) \<and> \<not> sse_synthetic_fallback st"
  using assms by (auto simp: validate_security_def configuration_errors_def Let_def split: if_splits)

text \<open>
  C22: In production nothing is written without a token. When the settings of the environment pass their
  validation in production mode, a request with a write method outside the public health paths
  reaches its handler only with a bearer token whose SHA-256 is the configured hash of the role it
  is given; every other one is refused with 400, 401, 403 or 413, whatever the handler would do.\<close>

theorem production_writes_need_token:
  assumes "security_from_env env = Inr st" "validate_security env st = Inr ()" "sse_app_mode st = ''production''"
    and "py_upper (hq_method rq) \<in> set write_methods" "hq_path rq \<notin> set public_write_paths"
  shows "(\<exists>role. bearer_of sha st role rq
       \<and> guarded sha st drawn handler rq = guarded sha st drawn (\<lambda>_. handler \<lparr>pr_role = role, pr_actor = role @ ''-token''\<rparr>) rq)
     \<or> (\<exists>status code. status \<in> {400, 401, 403, 413}
       \<and> guarded sha st drawn handler rq = (Response (error_response status code), ''unknown'', status))"
proof -
  have api: "sse_auth_mode st \<noteq> ''disabled''" using production_settings [OF assms(1-3)] by simp
  have auth: "requires_auth st rq" using assms(4,5) by (simp add: requires_auth_def)
  show ?thesis
  proof (cases "length_refusal st rq")
    case (Some r)
    then have "\<exists>status code. status \<in> {400, 413} \<and> r = error_response status code"
      by (auto simp: length_refusal_def split: option.splits if_splits sum.splits)
    then show ?thesis using Some by (auto simp: guarded_def error_response_def)
  next
    case None
    show ?thesis
    proof (cases "authorize_request sha st rq")
      case (Inl e)
      with authorize_Inl [OF Inl] None show ?thesis by (auto simp: guarded_def)
    next
      case (Inr who)
      from authorized_bearer [OF Inr api auth] have b: "bearer_of sha st (pr_role who) rq"
        and who: "who = \<lparr>pr_role = pr_role who, pr_actor = pr_role who @ ''-token''\<rparr>" by simp_all
      have "guarded sha st drawn handler rq = guarded sha st drawn (\<lambda>_. handler \<lparr>pr_role = pr_role who, pr_actor = pr_role who @ ''-token''\<rparr>) rq"
        unfolding who [symmetric] by (simp add: guarded_def None Inr)
      with b show ?thesis by blast
    qed
  qed
qed

definition sample_production_env :: env where
  "sample_production_env name =
     (if name = ''APP_MODE'' then Some ''production'' else if name = ''AUTH_MODE'' then Some ''api_token''
      else if name = ''MAX_REQUEST_BYTES'' then Some ''9'' else if name = ''DATABASE_URL'' then Some ''postgresql://db''
      else if name = ''AUTH_OPERATOR_TOKEN_SHA256'' then Some (replicate 64 CHR ''a'') else None)"

definition sample_write :: http_request where
  "sample_write = \<lparr>hq_method = ''POST'', hq_path = ''/api/alerts'', hq_headers = [(''authorization'', ''Bearer x'')]\<rparr>"

lemma production_writes_need_token_witness:
  "\<exists>st. security_from_env sample_production_env = Inr st \<and> guarded (\<lambda>_. ''00'') st ''id'' (\<lambda>_ _. Response (error_response 200 [])) sample_write
     = (Response (error_response 403 ''operator_or_admin_role_required''), ''unknown'', 403)
   \<and> \<not> (\<exists>role. bearer_of (\<lambda>_. ''00'') st role sample_write)"
proof -
  have ok: "case security_from_env sample_production_env of Inl _ \<Rightarrow> False
    | Inr st \<Rightarrow> validate_security sample_production_env st = Inr () \<and> sse_app_mode st = ''production''
        \<and> sse_admin_hash st = [] \<and> sse_operator_hash st = replicate 64 CHR ''a''
        \<and> guarded (\<lambda>_. ''00'') st ''id'' (\<lambda>_ _. Response (error_response 200 [])) sample_write
            = (Response (error_response 403 ''operator_or_admin_role_required''), ''unknown'', 403)"
    by code_simp
  then obtain st where st: "security_from_env sample_production_env = Inr st" "validate_security sample_production_env st = Inr ()"
      "sse_app_mode st = ''production''" "sse_admin_hash st = []" "sse_operator_hash st = replicate 64 CHR ''a''"
      "guarded (\<lambda>_. ''00'') st ''id'' (\<lambda>_ _. Response (error_response 200 [])) sample_write
            = (Response (error_response 403 ''operator_or_admin_role_required''), ''unknown'', 403)"
    by (auto split: sum.splits)
  have hash: "''00'' \<noteq> sse_operator_hash st" "''00'' \<noteq> sse_admin_hash st" unfolding st(4,5) by code_simp+
  then have "\<not> bearer_of (\<lambda>_. ''00'') st role sample_write" for role unfolding bearer_of_def by blast
  moreover have "py_upper (hq_method sample_write) \<in> set write_methods" "hq_path sample_write \<notin> set public_write_paths" by code_simp+
  from production_writes_need_token [OF st(1-3) this, of "\<lambda>_. ''00''" "''id''" "\<lambda>_ _. Response (error_response 200 [])"]
  have "(\<exists>role. bearer_of (\<lambda>_. ''00'') st role sample_write) \<or> (\<exists>status code. status \<in> {400, 401, 403, 413}
    \<and> guarded (\<lambda>_. ''00'') st ''id'' (\<lambda>_ _. Response (error_response 200 [])) sample_write
       = (Response (error_response status code), ''unknown'', status))" by blast
  ultimately show ?thesis using st(1,6) by blast
qed

text \<open>
  Every write under \<open>/api/\<close> is audited exactly once, refused or not, and nothing else is: the record
  names the method, the path and the role's actor (unknown for a refusal), carries the status of the
  answer (500 for an exception of the handler) and counts as a success for 2xx and 3xx only; an answer of a
  handler leaves with its request identifier and the protective headers, and unchanged otherwise.\<close>

theorem every_write_audited:
  assumes "request_context_and_security sha st drawn handler rq = (outcome, events)"
  shows "(if hq_method rq \<in> set write_methods \<and> startswith (hq_path rq) ''/api/'' then
       (\<exists>e. events = [e] \<and> av_method e = hq_method rq \<and> av_path e = hq_path rq \<and> av_request_id e = request_id drawn rq
         \<and> av_status e = (case outcome of Response r \<Rightarrow> hr_status r | Raised _ \<Rightarrow> 500)
         \<and> av_success e = (200 \<le> av_status e \<and> av_status e < 400)
         \<and> (av_actor e = ''unknown'' \<or> (\<exists>who. authorize_request sha st rq = Inr who \<and> av_actor e = pr_actor who)))
       else events = [])
     \<and> (\<forall>who r. length_refusal st rq = None \<and> authorize_request sha st rq = Inr who \<and> handler who rq = Response r \<longrightarrow>
         (\<exists>r'. outcome = Response r' \<and> hr_status r' = hr_status r \<and> hr_code r' = hr_code r
            \<and> map_of (hr_headers r') ''x-request-id'' = Some (request_id drawn rq)
            \<and> map_of (hr_headers r') ''x-frame-options'' = Some ''DENY''
            \<and> map_of (hr_headers r') ''x-content-type-options'' = Some ''nosniff''
            \<and> map_of (hr_headers r') ''location'' = map_of (hr_headers r) ''location''))"
proof -
  have get: "map_of (hr_headers (set_header k v r)) n = (if n = k then Some v else map_of (hr_headers r) n)" for k v r n
  proof -
    have "map_of (filter (\<lambda>(n, _). n \<noteq> k) hs) n = map_of hs n" if "n \<noteq> k" for hs :: "(string \<times> string) list"
      using that by (induction hs) auto
    then show ?thesis by (simp add: set_header_def)
  qed
  have keep: "hr_status (set_header k v r) = hr_status r" "hr_code (set_header k v r) = hr_code r" for k v r
    by (simp_all add: set_header_def)
  show ?thesis
    using assms
    by (auto simp: request_context_and_security_def audits_def guarded_def keep get secured_def error_response_def
        dest: authorize_Inl split: option.splits sum.splits outcome.splits py_error.splits prod.splits)
qed

lemma every_write_audited_witness:
  "\<exists>st e. security_from_env sample_production_env = Inr st
     \<and> snd (request_context_and_security (\<lambda>_. ''00'') st ''id'' (\<lambda>_ _. Response (error_response 200 [])) sample_write) = [e]
     \<and> av_status e = 403 \<and> av_actor e = ''unknown'' \<and> \<not> av_success e"
proof -
  have "case security_from_env sample_production_env of Inl _ \<Rightarrow> False
    | Inr st \<Rightarrow> guarded (\<lambda>_. ''00'') st ''id'' (\<lambda>_ _. Response (error_response 200 [])) sample_write
            = (Response (error_response 403 ''operator_or_admin_role_required''), ''unknown'', 403)
       \<and> authorize_request (\<lambda>_. ''00'') st sample_write = Inl (HTTPException 403 ''operator_or_admin_role_required'')"
    by code_simp
  then obtain st where st: "security_from_env sample_production_env = Inr st"
      "fst (guarded (\<lambda>_. ''00'') st ''id'' (\<lambda>_ _. Response (error_response 200 [])) sample_write)
            = Response (error_response 403 ''operator_or_admin_role_required'')"
      "authorize_request (\<lambda>_. ''00'') st sample_write = Inl (HTTPException 403 ''operator_or_admin_role_required'')"
    by (auto split: sum.splits)
  obtain outcome events where r: "request_context_and_security (\<lambda>_. ''00'') st ''id'' (\<lambda>_ _. Response (error_response 200 [])) sample_write
      = (outcome, events)" by force
  then have o: "outcome = Response (error_response 403 ''operator_or_admin_role_required'')"
    using st(2) by (auto simp: request_context_and_security_def split: prod.splits)
  have "hq_method sample_write \<in> set write_methods \<and> startswith (hq_path sample_write) ''/api/''" by code_simp
  with every_write_audited [OF r] obtain e where "events = [e]" "av_status e = 403"
      "av_success e = (200 \<le> av_status e \<and> av_status e < 400)" "av_actor e = ''unknown''"
    unfolding o st(3) by (auto simp: error_response_def)
  then show ?thesis using st(1) r by (intro exI [of _ st] exI [of _ e]) (simp add: error_response_def)
qed

end
