(* ===== verification/Collectors.thy ===== *)
theory Collectors
  imports Live_Properties Settings
begin

section \<open>The collectors of Kismet and Bettercap\<close>

text \<open>
  \<open>services/collectors/kismet.py\<close> and \<open>bettercap.py\<close>: what a collector remembers of its server, the
  extraction of the rows from whatever JSON the server sends, and the answers that the live imports
  take; and the loops of \<open>streaming.py\<close> that poll them. A reply of a server is what \<open>urlopen\<close> gives: the
  decoded body, or one of its exceptions. Times are texts.
\<close>

subsection \<open>Replies\<close>

datatype reply =
    Body string
  | Http_Error int string
  | Unreachable string
  | Broken string

text \<open>\<open>_read_json\<close>: an empty body is \<open>None\<close>; a body that is no JSON raises. The left side is the reply that failed.\<close>

definition read_json :: "text_lib \<Rightarrow> reply \<Rightarrow> reply + pyval" where
  "read_json lib r = (case r of
     Body s \<Rightarrow> if s = [] then Inr PNone else (case tl_loads lib s of Some v \<Rightarrow> Inr v | None \<Rightarrow> Inl (Broken ''Expecting value''))
   | _ \<Rightarrow> Inl r)"

fun reply_text :: "reply \<Rightarrow> string" where
  "reply_text (Http_Error code e) = e"
| "reply_text (Unreachable e) = e"
| "reply_text (Broken e) = e"
| "reply_text (Body s) = []"

subsection \<open>Extraction\<close>

definition dict_items :: "pyval list \<Rightarrow> pyval list" where
  "dict_items vs = filter (\<lambda>v. case v of PDict _ \<Rightarrow> True | _ \<Rightarrow> False) vs"

text \<open>The list under the first key that holds one.\<close>

fun list_under :: "row \<Rightarrow> string list \<Rightarrow> pyval list option" where
  "list_under d [] = None"
| "list_under d (k # ks) = (case dict_get d k of PList vs \<Rightarrow> Some vs | _ \<Rightarrow> list_under d ks)"

definition extract_rows :: "string list \<Rightarrow> pyval \<Rightarrow> pyval list" where
  "extract_rows keys payload = (case payload of
     PList vs \<Rightarrow> dict_items vs
   | PDict d \<Rightarrow> (case list_under d keys of Some vs \<Rightarrow> dict_items vs | None \<Rightarrow> dict_items (map snd d))
   | _ \<Rightarrow> [])"

definition extract_devices :: "pyval \<Rightarrow> pyval list" where
  "extract_devices = extract_rows [''devices'', ''data'', ''rows'', ''observations'']"

definition extract_alerts :: "pyval \<Rightarrow> pyval list" where
  "extract_alerts = extract_rows [''alerts'', ''data'', ''rows'', ''events'', ''messages'']"

definition extract_ble_devices :: "pyval \<Rightarrow> pyval list" where
  "extract_ble_devices payload = (case payload of
     PDict d \<Rightarrow> (case dict_get d ''devices'' of PList vs \<Rightarrow> dict_items vs | _ \<Rightarrow> [])
   | PList vs \<Rightarrow> dict_items vs
   | _ \<Rightarrow> [])"

fun ble_recon_of :: "pyval list \<Rightarrow> bool option" where
  "ble_recon_of [] = None"
| "ble_recon_of (PDict m # ms) =
     (if dict_get m ''name'' = PStr ''ble.recon'' then (case dict_get m ''running'' of PBool b \<Rightarrow> Some b | _ \<Rightarrow> None) else ble_recon_of ms)"
| "ble_recon_of (_ # ms) = ble_recon_of ms"

definition ble_recon_running :: "pyval \<Rightarrow> bool option" where
  "ble_recon_running payload = (case payload of PList ms \<Rightarrow> ble_recon_of ms | _ \<Rightarrow> None)"

text \<open>\<open>devices[:limit]\<close> for a positive limit.\<close>

definition limited :: "int option \<Rightarrow> 'a list \<Rightarrow> 'a list" where
  "limited limit xs = (case limit of Some n \<Rightarrow> if 0 < n then take (nat n) xs else xs | None \<Rightarrow> xs)"

subsection \<open>What a collector remembers\<close>

record collector =
  co_reachable :: "bool option"
  co_probe_at :: "string option"
  co_probe_message :: "string option"
  co_recon :: "bool option"
  co_count :: "nat option"
  co_fetch_at :: "string option"
  co_success_at :: "string option"
  co_error :: "string option"

definition new_collector :: collector where
  "new_collector = \<lparr>co_reachable = None, co_probe_at = None, co_probe_message = None, co_recon = None, co_count = None,
     co_fetch_at = None, co_success_at = None, co_error = None\<rparr>"

definition devices_url :: "kismet_settings \<Rightarrow> string" where
  "devices_url k = kse_api_url k @ kse_devices_endpoint k"

definition alerts_url :: "kismet_settings \<Rightarrow> string" where
  "alerts_url k = kse_api_url k @ kse_alerts_endpoint k"

definition last_time_devices_url :: "kismet_settings \<Rightarrow> string" where
  "last_time_devices_url k = kse_api_url k @ ''/devices/last-time/-300/devices.json''"

definition ble_url :: "bettercap_settings \<Rightarrow> string" where
  "ble_url b = bce_api_url b @ ''/api/session/ble''"

definition status_text :: "bool option \<Rightarrow> string" where
  "status_text r = (case r of Some True \<Rightarrow> ''reachable'' | Some False \<Rightarrow> ''unreachable'' | None \<Rightarrow> ''not_checked'')"

definition json_bool :: "bool option \<Rightarrow> pyval" where
  "json_bool b = (case b of None \<Rightarrow> PNone | Some b \<Rightarrow> PBool b)"

definition json_nat :: "nat option \<Rightarrow> pyval" where
  "json_nat n = (case n of None \<Rightarrow> PNone | Some n \<Rightarrow> PInt (int n))"

text \<open>The messages of a status are left out, and the type name of a probe's payload.\<close>

definition kismet_status :: "kismet_settings \<Rightarrow> collector \<Rightarrow> row" where
  "kismet_status k c =
     [(''enabled'', PBool (kse_enabled k)), (''status'', PStr (if kse_enabled k then status_text (co_reachable c) else ''disabled'')),
      (''url'', PStr (kse_api_url k)), (''devices_url'', PStr (devices_url k)), (''alerts_url'', PStr (alerts_url k)),
      (''api_key_configured'', PBool (kse_api_key k \<noteq> [])),
      (''basic_auth_configured'', PBool (kse_username k \<noteq> [] \<and> kse_password k \<noteq> []))]
     @ (if kse_enabled k then
          [(''poll_interval_seconds'', PFloat (kse_poll_interval k)), (''last_device_count'', json_nat (co_count c)),
           (''last_fetch_at'', json_text (co_fetch_at c)), (''last_error'', json_text (co_error c)),
           (''reachable'', json_bool (co_reachable c)), (''last_probe_at'', json_text (co_probe_at c))]
          @ (case co_probe_message c of None \<Rightarrow> [] | Some m \<Rightarrow> [(''probe_message'', PStr m)])
        else [])"

definition bettercap_healthy :: "collector \<Rightarrow> bool" where
  "bettercap_healthy c \<longleftrightarrow> co_reachable c = Some True \<and> co_error c = None"

definition bettercap_status :: "bettercap_settings \<Rightarrow> collector \<Rightarrow> row" where
  "bettercap_status b c =
     [(''enabled'', PBool (bce_enabled b)), (''ble_enabled'', PBool (bce_ble_enabled b)),
      (''status'', PStr (if bce_enabled b then status_text (co_reachable c) else ''disabled'')),
      (''url'', PStr (bce_api_url b)), (''ble_interface'', PStr (bce_ble_interface b)),
      (''reachable'', if bce_enabled b then json_bool (co_reachable c) else PNone),
      (''healthy'', PBool (bce_enabled b \<and> bettercap_healthy c)),
      (''ble_recon_active'', PBool (bce_enabled b \<and> co_recon c = Some True)),
      (''credentials_configured'', PBool (bce_username b \<noteq> [] \<and> bce_password b \<noteq> [])),
      (''last_successful_connection_at'', json_text (co_success_at c)), (''last_error'', json_text (co_error c))]
     @ (if bce_enabled b then
          [(''poll_interval_seconds'', PFloat (bce_poll_interval b)), (''last_device_count'', json_nat (co_count c)),
           (''last_fetch_at'', json_text (co_fetch_at c)), (''last_probe_at'', json_text (co_probe_at c))] else [])"

subsection \<open>Probes\<close>

text \<open>An HTTP error still means that the server is there.\<close>

definition probe_result :: "text_lib \<Rightarrow> string \<Rightarrow> string \<Rightarrow> reply \<Rightarrow> bool \<times> string" where
  "probe_result lib server what r = (case read_json lib r of
     Inr _ \<Rightarrow> (True, server @ '' '' @ what @ '' endpoint returned JSON'')
   | Inl (Http_Error code e) \<Rightarrow> (True, server @ '' endpoint responded with HTTP '' @ int_text code)
   | Inl (Unreachable e) \<Rightarrow> (False, server @ '' endpoint unavailable: '' @ e)
   | Inl other \<Rightarrow> (False, server @ '' probe failed safely: '' @ reply_text other))"

definition probed :: "text_lib \<Rightarrow> string \<Rightarrow> string \<Rightarrow> string \<Rightarrow> reply \<Rightarrow> collector \<Rightarrow> collector" where
  "probed lib server what now r c = (let (ok, message) = probe_result lib server what r in
     c\<lparr>co_reachable := Some ok, co_probe_at := Some now, co_probe_message := Some message\<rparr>)"

definition refresh_kismet :: "text_lib \<Rightarrow> kismet_settings \<Rightarrow> string \<Rightarrow> reply \<Rightarrow> collector \<Rightarrow> collector \<times> row" where
  "refresh_kismet lib k now r c = (let c = (if kse_enabled k then probed lib ''Kismet'' ''status'' now r c else c) in (c, kismet_status k c))"

definition refresh_bettercap :: "text_lib \<Rightarrow> bettercap_settings \<Rightarrow> string \<Rightarrow> reply \<Rightarrow> collector \<Rightarrow> collector \<times> row" where
  "refresh_bettercap lib b now r c =
     (let c = (if bce_enabled b then
          (case read_json lib r of
             Inr payload \<Rightarrow> (probed lib ''Bettercap'' ''session/modules'' now r c)\<lparr>co_success_at := Some now, co_recon := ble_recon_running payload\<rparr>
           | Inl _ \<Rightarrow> (probed lib ''Bettercap'' ''session/modules'' now r c)\<lparr>co_recon := None\<rparr>)
          else c) in (c, bettercap_status b c))"

subsection \<open>Fetching\<close>

definition fetch_failed :: "string \<Rightarrow> string \<Rightarrow> string \<Rightarrow> string \<Rightarrow> string \<Rightarrow> row" where
  "fetch_failed key source url now e =
     [(''enabled'', PBool True), (''source'', PStr source), (''url'', PStr url), (''fetched_at'', PStr now),
      (''total_'' @ key, PInt 0), (''returned_'' @ key, PInt 0), (key, PList []), (''error'', PStr e)]"

definition fetch_succeeded :: "string \<Rightarrow> string \<Rightarrow> string \<Rightarrow> string \<Rightarrow> row \<Rightarrow> int option \<Rightarrow> pyval list \<Rightarrow> row" where
  "fetch_succeeded key source url now extra limit rows =
     [(''enabled'', PBool True), (''source'', PStr source), (''url'', PStr url)] @ extra @ [(''fetched_at'', PStr now),
      (''total_'' @ key, PInt (int (length rows))), (''returned_'' @ key, PInt (int (length (limited limit rows)))),
      (key, PList (limited limit rows))]"

definition not_enabled :: "string \<Rightarrow> string \<Rightarrow> row" where
  "not_enabled key message = [(''enabled'', PBool False), (key, PList []), (''total_'' @ key, PInt 0), (''message'', PStr message)]"

text \<open>\<open>posted\<close> is the reply to the filtered POST; \<open>got\<close> the reply to the GET that is tried when it fails.\<close>

definition kismet_fetch_devices ::
  "text_lib \<Rightarrow> kismet_settings \<Rightarrow> string \<Rightarrow> reply \<Rightarrow> reply \<Rightarrow> int option \<Rightarrow> collector \<Rightarrow> collector \<times> row" where
  "kismet_fetch_devices lib k now posted got limit c =
     (if \<not> kse_enabled k then (c, not_enabled ''devices'' ''Kismet live integration disabled.'')
      else let (m, answer) = (case read_json lib posted of Inr v \<Rightarrow> (''POST'', Inr v) | Inl _ \<Rightarrow> (''GET'', read_json lib got)) in
        (case answer of
           Inr payload \<Rightarrow> (let rows = extract_devices payload in
             (c\<lparr>co_count := Some (length rows), co_fetch_at := Some now, co_error := None\<rparr>,
              fetch_succeeded ''devices'' ''kismet_live_api'' (devices_url k) now [(''fetch_method'', PStr m)] limit rows))
         | Inl r \<Rightarrow> (c\<lparr>co_error := Some (reply_text r), co_fetch_at := Some now\<rparr>,
              fetch_failed ''devices'' ''kismet_live_api'' (devices_url k) now (reply_text r))))"

definition kismet_fetch_alerts ::
  "text_lib \<Rightarrow> kismet_settings \<Rightarrow> string \<Rightarrow> reply \<Rightarrow> int option \<Rightarrow> collector \<Rightarrow> collector \<times> row" where
  "kismet_fetch_alerts lib k now got limit c =
     (if \<not> kse_enabled k then (c, not_enabled ''alerts'' ''Kismet live integration disabled.'')
      else (case read_json lib got of
           Inr payload \<Rightarrow> (c\<lparr>co_error := None\<rparr>,
              fetch_succeeded ''alerts'' ''kismet_alert_api'' (alerts_url k) now [] limit (extract_alerts payload))
         | Inl r \<Rightarrow> (c\<lparr>co_error := Some (reply_text r)\<rparr>,
              fetch_failed ''alerts'' ''kismet_alert_api'' (alerts_url k) now (reply_text r))))"

definition bettercap_fetch_devices ::
  "text_lib \<Rightarrow> bettercap_settings \<Rightarrow> string \<Rightarrow> reply \<Rightarrow> int option \<Rightarrow> collector \<Rightarrow> collector \<times> row" where
  "bettercap_fetch_devices lib b now got limit c =
     (if \<not> bce_enabled b then (c, not_enabled ''devices'' ''Bettercap live integration disabled.'')
      else (case read_json lib got of
           Inr payload \<Rightarrow> (let rows = extract_ble_devices payload in
             (c\<lparr>co_count := Some (length rows), co_fetch_at := Some now, co_success_at := Some now, co_error := None\<rparr>,
              fetch_succeeded ''devices'' ''bettercap_ble_api'' (ble_url b) now [] limit rows))
         | Inl r \<Rightarrow> (c\<lparr>co_error := Some (reply_text r), co_fetch_at := Some now\<rparr>,
              fetch_failed ''devices'' ''bettercap_ble_api'' (ble_url b) now (reply_text r))))"

subsection \<open>The background polls\<close>

text \<open>One turn of a polling loop: the replies of the server and the times of the turn.\<close>

record poll =
  po_env :: live_env
  po_now :: rat
  po_later :: rat
  po_fetched :: string
  po_posted :: reply
  po_got :: reply

type_synonym poller = "collector \<times> collector_state \<times> live_db"

definition kismet_turn ::
  "live_server \<Rightarrow> text_lib \<Rightarrow> (string \<Rightarrow> nat option) \<Rightarrow> kismet_settings \<Rightarrow> poll \<Rightarrow> poller \<Rightarrow> poller" where
  "kismet_turn srv lib parse k p s =
     (let (c, st, db) = s;
          (c, result) = kismet_fetch_devices lib k (po_fetched p) (po_posted p) (po_got p) None c;
          ((st, db), r) = run_kismet_live_import srv lib parse (po_env p) (po_now p) (po_later p) result None None
            ''kismet_live_background'' True (st, db) in
      (c, (case r of Inl e \<Rightarrow> st\<lparr>st_error := Some (error_text e)\<rparr> | Inr _ \<Rightarrow> st), db))"

definition bettercap_turn ::
  "live_server \<Rightarrow> text_lib \<Rightarrow> (string \<Rightarrow> nat option) \<Rightarrow> bettercap_settings \<Rightarrow> poll \<Rightarrow> poller \<Rightarrow> poller" where
  "bettercap_turn srv lib parse b p s =
     (let (c, st, db) = s;
          (c, result) = bettercap_fetch_devices lib b (po_fetched p) (po_got p) None c;
          ((st, db), r) = run_bettercap_live_import srv lib parse (po_env p) (po_now p) (po_later p) result None None
            ''bettercap_ble_live_background'' True (st, db) in
      (c, (case r of Inl e \<Rightarrow> st\<lparr>st_error := Some (error_text e)\<rparr> | Inr _ \<Rightarrow> st), db))"

definition alert_turn :: "live_server \<Rightarrow> text_lib \<Rightarrow> kismet_settings \<Rightarrow> poll \<Rightarrow> poller \<Rightarrow> poller" where
  "alert_turn srv lib k p s =
     (let (c, st, db) = s; (c, result) = kismet_fetch_alerts lib k (po_fetched p) (po_got p) None c in
      if dict_has result ''error'' then (c, st, db)
      else let (db, r) = import_kismet_alert_rows srv lib (po_env p) result None db in (c, st\<lparr>st_alerts := lp_wifi r\<rparr>, db))"

subsection \<open>What a fetch returns\<close>

definition is_object :: "pyval \<Rightarrow> bool" where
  "is_object v = (case v of PDict _ \<Rightarrow> True | _ \<Rightarrow> False)"

lemma dict_items_objects: "v \<in> set (dict_items vs) \<Longrightarrow> is_object v"
  by (auto simp: dict_items_def is_object_def)

lemma extract_rows_objects: "v \<in> set (extract_rows keys payload) \<Longrightarrow> is_object v"
  by (auto simp: extract_rows_def dest: dict_items_objects split: pyval.splits option.splits)

lemma extract_ble_objects: "v \<in> set (extract_ble_devices payload) \<Longrightarrow> is_object v"
  by (auto simp: extract_ble_devices_def dest: dict_items_objects split: pyval.splits)

lemma limited_set: "set (limited limit xs) \<subseteq> set xs"
  by (auto simp: limited_def split: option.split dest: in_set_takeD)

lemma limited_length: "length (limited limit xs) \<le> length xs \<and> (\<forall>n. limit = Some n \<longrightarrow> 0 < n \<longrightarrow> int (length (limited limit xs)) \<le> n)"
  by (auto simp: limited_def split: option.split)

text \<open>The shape of every answer.\<close>

definition fetch_shape :: "string \<Rightarrow> int option \<Rightarrow> row \<Rightarrow> bool" where
  "fetch_shape key limit result \<longleftrightarrow>
     (\<exists>rows total. dict_get result key = PList rows \<and> dict_get result (''total_'' @ key) = PInt (int total)
        \<and> list_all is_object rows \<and> length rows \<le> total \<and> (limit = None \<longrightarrow> length rows = total)
        \<and> (\<forall>n. limit = Some n \<longrightarrow> 0 < n \<longrightarrow> int (length rows) \<le> n)
        \<and> (dict_has result ''error'' \<longrightarrow> rows = [] \<and> total = 0)
        \<and> (dict_get result ''enabled'' = PBool True \<longrightarrow> dict_get result (''returned_'' @ key) = PInt (int (length rows))))"

lemma shape_keys:
  "key \<in> {''devices'', ''alerts''} \<Longrightarrow> fetch_shape key limit (fetch_failed key source url now e)"
  "key \<in> {''devices'', ''alerts''} \<Longrightarrow> fetch_shape key limit (not_enabled key message)"
  by (auto simp: fetch_shape_def fetch_failed_def not_enabled_def dict_get_def dict_has_def)

lemma shape_succeeded:
  assumes "key \<in> {''devices'', ''alerts''}" "\<And>v. v \<in> set rows \<Longrightarrow> is_object v" "map fst extra \<in> {[], [''fetch_method'']}"
  shows "fetch_shape key limit (fetch_succeeded key source url now extra limit rows)"
proof -
  let ?r = "fetch_succeeded key source url now extra limit rows"
  have get: "dict_get ?r key = PList (limited limit rows)" "dict_get ?r (''total_'' @ key) = PInt (int (length rows))"
      "dict_get ?r (''returned_'' @ key) = PInt (int (length (limited limit rows)))" "\<not> dict_has ?r ''error''"
    using assms(1,3)
    by (elim insertE emptyE; cases extra; simp add: fetch_succeeded_def dict_get_def dict_has_def)+
  have objects: "list_all is_object (limited limit rows)" using assms(2) limited_set [of limit rows] by (auto simp: list_all_iff)
  have all: "limit = None \<longrightarrow> length (limited limit rows) = length rows" by (simp add: limited_def)
  show ?thesis
    unfolding fetch_shape_def
    by (rule exI [of _ "limited limit rows"], rule exI [of _ "length rows"]) (use get objects all limited_length [of limit rows] in simp)
qed

text \<open>
  C23: Whatever a server sends (a JSON value of any shape, an empty or broken body, an HTTP error, nothing at
  all), the answer of a fetch is well typed: its list holds objects only, no more than a positive
  limit asks for and all of them without a limit, its counts are the lengths, and an error comes
  with an empty list.\<close>

theorem fetched_rows_typed:
  "fetch_shape ''devices'' limit (snd (kismet_fetch_devices lib k now posted got limit c))
   \<and> fetch_shape ''alerts'' limit (snd (kismet_fetch_alerts lib k now got limit c))
   \<and> fetch_shape ''devices'' limit (snd (bettercap_fetch_devices lib b now got limit c))"
proof (intro conjI)
  have objects: "v \<in> set (extract_devices payload) \<Longrightarrow> is_object v" "v \<in> set (extract_alerts payload) \<Longrightarrow> is_object v" for v payload
    unfolding extract_devices_def extract_alerts_def by (erule extract_rows_objects)+
  show "fetch_shape ''devices'' limit (snd (kismet_fetch_devices lib k now posted got limit c))"
    using shape_keys [of "''devices''"] shape_succeeded [of "''devices''"] objects(1)
    by (simp add: kismet_fetch_devices_def Let_def split: sum.split)
  show "fetch_shape ''alerts'' limit (snd (kismet_fetch_alerts lib k now got limit c))"
    using shape_keys [of "''alerts''"] shape_succeeded [of "''alerts''"] objects(2)
    by (simp add: kismet_fetch_alerts_def Let_def split: sum.split)
  show "fetch_shape ''devices'' limit (snd (bettercap_fetch_devices lib b now got limit c))"
    using shape_keys [of "''devices''"] shape_succeeded [of "''devices''"] extract_ble_objects
    by (simp add: bettercap_fetch_devices_def Let_def split: sum.split)
qed

subsection \<open>Outages\<close>

definition replied :: "text_lib \<Rightarrow> reply \<Rightarrow> bool" where
  "replied lib r \<longleftrightarrow> (\<exists>v. read_json lib r = Inr v)"

lemma fetch_error_failed [simp]: "fetch_error (fetch_failed ''devices'' source url now e) = Some e"
  by (simp add: fetch_error_def fetch_failed_def dict_has_def dict_get_def)

lemma kismet_outage_turn:
  assumes "kse_enabled k" "\<not> replied lib (po_posted p)" "\<not> replied lib (po_got p)"
  shows "\<exists>e. kismet_turn srv lib parse k p (c, st, db) =
    (c\<lparr>co_error := Some e, co_fetch_at := Some (po_fetched p)\<rparr>,
     st\<lparr>st_last_poll := Some (po_now p), st_total := PInt 0, st_error := Some (''Kismet API hiba: '' @ e)\<rparr>, db)"
proof -
  from assms(2,3) obtain r1 r2 where r: "read_json lib (po_posted p) = Inl r1" "read_json lib (po_got p) = Inl r2"
    by (auto simp: replied_def) (meson sum.exhaust)
  have "kismet_fetch_devices lib k (po_fetched p) (po_posted p) (po_got p) None c =
     (c\<lparr>co_error := Some (reply_text r2), co_fetch_at := Some (po_fetched p)\<rparr>,
      fetch_failed ''devices'' ''kismet_live_api'' (devices_url k) (po_fetched p) (reply_text r2))"
    by (simp add: kismet_fetch_devices_def assms(1) r)
  moreover have "dict_get (fetch_failed ''devices'' source url now e) ''total_devices'' = PInt 0" for source url now e
    by (simp add: fetch_failed_def dict_get_def)
  ultimately show ?thesis
    by (intro exI [of _ "reply_text r2"]) (simp add: kismet_turn_def run_kismet_live_import_def run_live_import_def)
qed

lemma run_live_database: "snd (fst (run_live_import label now later result imported (st, db)))
    = (case fetch_error result of Some e \<Rightarrow> db | None \<Rightarrow> (case imported of Inl e \<Rightarrow> db | Inr (db', r) \<Rightarrow> db'))"
  by (simp add: run_live_import_def Let_def split: option.split sum.split)

lemma kismet_turn_database:
  "snd (snd (kismet_turn srv lib parse k p (c, st, db))) =
     snd (fst (run_kismet_live_import srv lib parse (po_env p) (po_now p) (po_later p)
       (snd (kismet_fetch_devices lib k (po_fetched p) (po_posted p) (po_got p) None c)) None None ''kismet_live_background'' True (st, db)))"
  by (simp add: kismet_turn_def split: prod.split)

lemma turn_database:
  "snd (snd (kismet_turn srv lib parse k p (c, st, db))) = snd (snd (kismet_turn srv lib parse k p (c', st', db)))"
proof -
  have "snd (kismet_fetch_devices lib k now posted got None c) = snd (kismet_fetch_devices lib k now posted got None c')" for now posted got
    by (simp add: kismet_fetch_devices_def Let_def split: sum.split)
  then show ?thesis by (simp only: kismet_turn_database run_kismet_live_import_def run_live_database snd_conv)
qed

text \<open>
  An outage of Kismet costs the polls it covers and nothing else. Whatever the order of outages and
  answers, the database after a run of the polling loop is the one of the polls that were
  answered; an outage leaves the database alone, records its error and the time of the poll, and the
  loop goes on with the next turn.\<close>

theorem outages_are_skipped:
  assumes "kse_enabled k"
  shows "snd (snd (fold (kismet_turn srv lib parse k) polls s))
      = snd (snd (fold (kismet_turn srv lib parse k) (filter (\<lambda>p. replied lib (po_posted p) \<or> replied lib (po_got p)) polls) s))
    \<and> (\<forall>p\<in>set polls. \<not> replied lib (po_posted p) \<longrightarrow> \<not> replied lib (po_got p) \<longrightarrow>
         (\<forall>c st db. \<exists>e. kismet_turn srv lib parse k p (c, st, db) = (c\<lparr>co_error := Some e, co_fetch_at := Some (po_fetched p)\<rparr>,
            st\<lparr>st_last_poll := Some (po_now p), st_total := PInt 0, st_error := Some (''Kismet API hiba: '' @ e)\<rparr>, db)))"
proof -
  let ?turn = "kismet_turn srv lib parse k"
  let ?ok = "\<lambda>p. replied lib (po_posted p) \<or> replied lib (po_got p)"
  have "snd (snd (fold ?turn polls s)) = snd (snd (fold ?turn (filter ?ok polls) t))" if "snd (snd s) = snd (snd t)" for s t
    using that
  proof (induction polls arbitrary: s t)
    case (Cons p polls)
    obtain c st db c' st' where s: "s = (c, st, db)" and t: "t = (c', st', db)" using Cons.prems by (metis prod.collapse)
    show ?case
    proof (cases "?ok p")
      case True
      then show ?thesis using Cons.IH [of "?turn p s" "?turn p t"] turn_database by (simp add: s t)
    next
      case False
      then have "snd (snd (?turn p s)) = db" using kismet_outage_turn [OF assms, of lib p srv parse c st db] by (auto simp: s)
      then show ?thesis using False Cons.IH [of "?turn p s" t] by (simp add: t)
    qed
  qed simp
  then show ?thesis using kismet_outage_turn [OF assms] by blast
qed

definition sample_kismet :: kismet_settings where
  "sample_kismet = (kismet_from_env (\<lambda>_. None) (\<lambda>_. None))\<lparr>kse_enabled := True\<rparr>"

definition sample_poll :: "reply \<Rightarrow> poll" where
  "sample_poll r = \<lparr>po_env = sample_live_env, po_now = 100, po_later = 101, po_fetched = ''t'', po_posted = r, po_got = r\<rparr>"

lemma outages_are_skipped_witness:
  "snd (snd (fold (kismet_turn (\<lambda>_. Accepted) sample_lib (\<lambda>_. None) sample_kismet)
      [sample_poll (Http_Error 500 ''down''), sample_poll (Body []), sample_poll (Unreachable ''refused'')] (new_collector, initial_collector_state, sample_live_db)))
    = snd (snd (kismet_turn (\<lambda>_. Accepted) sample_lib (\<lambda>_. None) sample_kismet (sample_poll (Body [])) (new_collector, initial_collector_state, sample_live_db)))"
proof -
  have "kse_enabled sample_kismet" by (simp add: sample_kismet_def)
  from outages_are_skipped [OF this, of "\<lambda>_. Accepted" sample_lib "\<lambda>_. None"
      "[sample_poll (Http_Error 500 ''down''), sample_poll (Body []), sample_poll (Unreachable ''refused'')]"
      "(new_collector, initial_collector_state, sample_live_db)", THEN conjunct1]
  show ?thesis by (simp add: replied_def read_json_def sample_poll_def)
qed

text \<open>
  A collector of Bettercap is healthy exactly when its last probe reached the server and its last fetch
  brought an answer: a fetch that fails makes it unhealthy whatever was probed, probes alone never make it
  healthy again, and an HTTP error of a probe still counts as reached.\<close>

theorem bettercap_health:
  assumes "bce_enabled b"
  shows "(bettercap_healthy (fst (bettercap_fetch_devices lib b now got limit c)) \<longleftrightarrow> co_reachable c = Some True \<and> replied lib got)
    \<and> (bettercap_healthy (fst (refresh_bettercap lib b now r c)) \<longleftrightarrow>
      co_error c = None \<and> (replied lib r \<or> (\<exists>code e. r = Http_Error code e)))"
proof (intro conjI)
  show "bettercap_healthy (fst (bettercap_fetch_devices lib b now got limit c)) \<longleftrightarrow> co_reachable c = Some True \<and> replied lib got"
    using assms by (auto simp: bettercap_fetch_devices_def bettercap_healthy_def replied_def Let_def split: sum.split)
  have "read_json lib r = Inl x \<Longrightarrow> (\<exists>code e. x = Http_Error code e) \<longleftrightarrow> (\<exists>code e. r = Http_Error code e)" for x
    by (auto simp: read_json_def split: reply.splits if_splits option.splits)
  then show "bettercap_healthy (fst (refresh_bettercap lib b now r c)) \<longleftrightarrow>
      co_error c = None \<and> (replied lib r \<or> (\<exists>code e. r = Http_Error code e))"
    using assms by (auto simp: refresh_bettercap_def bettercap_healthy_def replied_def probed_def probe_result_def Let_def
        split: sum.splits reply.splits)
qed

lemma bettercap_health_witness:
  "\<not> bettercap_healthy (fst (bettercap_fetch_devices sample_lib ((bettercap_from_env (\<lambda>_. None) (\<lambda>_. None))\<lparr>bce_enabled := True\<rparr>) ''t''
      (Unreachable ''refused'') None (new_collector\<lparr>co_reachable := Some True\<rparr>)))"
  using bettercap_health [of "(bettercap_from_env (\<lambda>_. None) (\<lambda>_. None))\<lparr>bce_enabled := True\<rparr>"]
  by (simp add: replied_def read_json_def)

end
