(* ===== verification/Spectrum_Hub.thy ===== *)
theory Spectrum_Hub
  imports Anomaly_Pipeline Frame_Validation Settings
begin

section \<open>The broadcast of spectrum frames\<close>

text \<open>
  \<open>app/streaming.py\<close>: one task reads frames from the active source of \<open>app/spectrum\<close>, hands each to the
  anomaly pipeline and sends it to every connected browser, one after the other; browsers connect and
  disconnect between any two of its steps. A step of the state machine is the code between two awaits.
  The abstract bus is what the task promises: every subscriber receives a gapless part of the published
  frames, from the one after it joined to the last one before it left, and at most one frame is
  on its way. The demonstration alert over MQTT is left out; a browser is the number of its
  connection.
\<close>

subsection \<open>Sources of frames\<close>

record hub_frame =
  hf_mode :: string
  hf_points :: "spectrum_point list"
  hf_sequence :: "int option"
  hf_timestamp :: string

text \<open>What the active source gives; \<open>Unavailable\<close> is \<open>SpectrumSourceUnavailable\<close>, \<open>Unexpected\<close> any other exception.\<close>

datatype source_result = Got hub_frame | Unavailable string | Unexpected string

definition of_ingest :: "(py_datetime \<Rightarrow> string) \<Rightarrow> spectrum_frame \<Rightarrow> hub_frame" where
  "of_ingest fmt f = \<lparr>hf_mode = sf_source_mode f, hf_points = sf_points f, hf_sequence = Some (sf_sequence f),
     hf_timestamp = fmt (sf_timestamp f)\<rparr>"

definition source_modes :: "string list" where
  "source_modes = [''simulator'', ''aaronia_rtsa'', ''file_replay'', ''spectrum_ingest'']"

text \<open>
  \<open>SpectrumSourceManager.read_frame\<close>: the simulator's frame and the ingest client's answer are arguments; the
  other two sources never give a frame.
\<close>

definition manager_read_frame ::
  "(py_datetime \<Rightarrow> string) \<Rightarrow> spectrum_settings \<Rightarrow> hub_frame \<Rightarrow> spectrum_frame result \<Rightarrow> source_result" where
  "manager_read_frame fmt st simulated ingested =
     (if ssp_source_mode st = ''simulator'' then Got simulated
      else if ssp_source_mode st = ''spectrum_ingest'' then
        (case ingested of Inr f \<Rightarrow> Got (of_ingest fmt f) | Inl _ \<Rightarrow> Unavailable ''Spectrum ingest unavailable'')
      else if ssp_source_mode st = ''aaronia_rtsa'' then
        Unavailable ''Aaronia RTSA frame parser is not implemented; no RF data was produced.''
      else if ssp_source_mode st = ''file_replay'' then
        Unavailable ''File replay input format is not implemented; no spectrum frame is available.''
      else Unavailable (''Unsupported spectrum source mode: '' @ ssp_source_mode st))"

subsection \<open>What is made of a frame\<close>

definition round_digits :: "nat \<Rightarrow> pyfloat \<Rightarrow> pyfloat" where
  "round_digits n x = (case x of Fin r \<Rightarrow> Fin (of_int (py_round (r * 10 ^ n)) / 10 ^ n) | _ \<Rightarrow> x)"

definition to_websocket_dict :: "spectrum_point \<Rightarrow> pyval" where
  "to_websocket_dict p =
     PDict [(''x'', PFloat (round_digits 6 (frequency_mhz p))), (''y'', PFloat (round_digits 2 (power_dbm p)))]"

definition payload_of :: "hub_frame \<Rightarrow> pyval" where
  "payload_of f = PList (map to_websocket_dict (hf_points f))"

text \<open>\<open>int(round(point.frequency_mhz * 1_000_000))\<close>\<close>

definition whole_hertz :: "pyfloat \<Rightarrow> pyfloat" where
  "whole_hertz x = (case x of Fin r \<Rightarrow> Fin (of_int (py_round (r * 1000000))) | _ \<Rightarrow> x)"

definition envelope_of :: "nat \<Rightarrow> hub_frame \<Rightarrow> envelope" where
  "envelope_of counter f = \<lparr>env_frequencies = map (\<lambda>p. whole_hertz (frequency_mhz p)) (hf_points f),
     env_powers = map power_dbm (hf_points f),
     env_sequence = (case hf_sequence f of Some n \<Rightarrow> n | None \<Rightarrow> int counter),
     env_timestamp = hf_timestamp f, env_source_type = hf_mode f, env_session = None, env_recording = None\<rparr>"

subsection \<open>The state machine\<close>

type_synonym browser = nat

record broadcast_round =
  rd_payload :: pyval
  rd_left :: "browser list"
  rd_failed :: "browser list"

text \<open>
  \<open>hb_clients\<close> is \<open>connected_websockets\<close>, \<open>hb_round\<close> the loop over a copy of it. \<open>hb_published\<close> and \<open>hb_sent\<close> record
  the payloads made and the successful sends, \<open>hb_joined\<close> counts connections.
\<close>

record hub =
  hb_clients :: "browser list"
  hb_round :: "broadcast_round option"
  hb_sequence :: nat
  hb_last_error :: "string option"
  hb_pipeline :: pipeline
  hb_published :: "pyval list"
  hb_sent :: "(browser \<times> pyval) list"
  hb_joined :: nat

definition start_hub :: "pipeline \<Rightarrow> hub" where
  "start_hub pl = \<lparr>hb_clients = [], hb_round = None, hb_sequence = 0, hb_last_error = None, hb_pipeline = pl,
     hb_published = [], hb_sent = [], hb_joined = 0\<rparr>"

definition connect :: "hub \<Rightarrow> hub" where
  "connect s = s\<lparr>hb_clients := hb_clients s @ [hb_joined s], hb_joined := hb_joined s + 1\<rparr>"

definition disconnect :: "browser \<Rightarrow> hub \<Rightarrow> hub" where
  "disconnect c s = s\<lparr>hb_clients := remove1 c (hb_clients s)\<rparr>"

definition frame_read :: "hub_frame \<Rightarrow> hub \<Rightarrow> hub" where
  "frame_read f s =
     (let counter = hb_sequence s + 1; payload = payload_of f in
      s\<lparr>hb_sequence := counter, hb_last_error := None, hb_pipeline := fst (submit_nowait (envelope_of counter f) (hb_pipeline s)),
        hb_published := hb_published s @ [payload],
        hb_round := (if hb_clients s = [] then None
          else Some \<lparr>rd_payload = payload, rd_left = hb_clients s, rd_failed = []\<rparr>)\<rparr>)"

definition no_frame :: "string \<Rightarrow> hub \<Rightarrow> hub" where
  "no_frame message s = s\<lparr>hb_last_error := Some message\<rparr>"

definition sent_to :: "bool \<Rightarrow> browser \<Rightarrow> broadcast_round \<Rightarrow> hub \<Rightarrow> hub" where
  "sent_to ok c rd s =
     (if ok then s\<lparr>hb_round := Some (rd\<lparr>rd_left := tl (rd_left rd)\<rparr>), hb_sent := hb_sent s @ [(c, rd_payload rd)]\<rparr>
      else s\<lparr>hb_round := Some (rd\<lparr>rd_left := tl (rd_left rd), rd_failed := rd_failed rd @ [c]\<rparr>)\<rparr>)"

definition end_round :: "broadcast_round \<Rightarrow> hub \<Rightarrow> hub" where
  "end_round rd s = s\<lparr>hb_clients := fold remove1 (rd_failed rd) (hb_clients s), hb_round := None\<rparr>"

inductive hub_step :: "hub \<Rightarrow> hub \<Rightarrow> bool" where
  Connect: "hub_step s (connect s)"
| Disconnect: "hub_step s (disconnect c s)"
| Frame: "hb_round s = None \<Longrightarrow> hub_step s (frame_read f s)"
| No_Frame: "hb_round s = None \<Longrightarrow> hub_step s (no_frame message s)"
| Send: "hb_round s = Some rd \<Longrightarrow> rd_left rd = c # cs \<Longrightarrow> hub_step s (sent_to ok c rd s)"
| End_Round: "hb_round s = Some rd \<Longrightarrow> rd_left rd = [] \<Longrightarrow> hub_step s (end_round rd s)"

inductive_cases hub_stepE: "hub_step s s'"

text \<open>What a browser has received.\<close>

definition received :: "browser \<Rightarrow> hub \<Rightarrow> pyval list" where
  "received c s = map snd (filter (\<lambda>(d, _). d = c) (hb_sent s))"

subsection \<open>The abstract bus\<close>

text \<open>A subscription: the position in the log it began at, the position it has read to, whether it is open.\<close>

record subscription =
  sb_from :: nat
  sb_to :: nat
  sb_open :: bool

record bus =
  bu_log :: "pyval list"
  bu_subscriptions :: "browser \<rightharpoonup> subscription"

inductive bus_step :: "bus \<Rightarrow> bus \<Rightarrow> bool" where
  Subscribe: "bu_subscriptions b c = None \<Longrightarrow> bus_step b (b\<lparr>bu_subscriptions :=
     (bu_subscriptions b)(c \<mapsto> \<lparr>sb_from = length (bu_log b), sb_to = length (bu_log b), sb_open = True\<rparr>)\<rparr>)"
| Publish: "\<forall>c sb. bu_subscriptions b c = Some sb \<longrightarrow> sb_open sb \<longrightarrow> sb_to sb = length (bu_log b) \<Longrightarrow>
     bus_step b (b\<lparr>bu_log := bu_log b @ [p]\<rparr>)"
| Deliver: "bu_subscriptions b c = Some sb \<Longrightarrow> sb_open sb \<Longrightarrow> sb_to sb < length (bu_log b) \<Longrightarrow>
     bus_step b (b\<lparr>bu_subscriptions := (bu_subscriptions b)(c \<mapsto> sb\<lparr>sb_to := sb_to sb + 1\<rparr>)\<rparr>)"
| Close: "bu_subscriptions b c = Some sb \<Longrightarrow>
     bus_step b (b\<lparr>bu_subscriptions := (bu_subscriptions b)(c \<mapsto> sb\<lparr>sb_open := False\<rparr>)\<rparr>)"

definition delivered :: "bus \<Rightarrow> browser \<Rightarrow> pyval list" where
  "delivered b c = (case bu_subscriptions b c of None \<Rightarrow> [] | Some sb \<Rightarrow> take (sb_to sb - sb_from sb) (drop (sb_from sb) (bu_log b)))"

definition empty_bus :: bus where
  "empty_bus = \<lparr>bu_log = [], bu_subscriptions = Map.empty\<rparr>"

subsection \<open>The broadcast refines the bus\<close>

definition left_of :: "hub \<Rightarrow> browser list" where
  "left_of s = (case hb_round s of None \<Rightarrow> [] | Some rd \<Rightarrow> rd_left rd)"

definition failed_of :: "hub \<Rightarrow> browser list" where
  "failed_of s = (case hb_round s of None \<Rightarrow> [] | Some rd \<Rightarrow> rd_failed rd)"

text \<open>A browser still takes part: it waits for the frame of the round, or it is connected and no send to it failed.\<close>

definition on_bus :: "hub \<Rightarrow> browser \<Rightarrow> bool" where
  "on_bus s c \<longleftrightarrow> c \<in> set (left_of s) \<or> c \<in> set (hb_clients s) \<and> c \<notin> set (failed_of s)"

definition hub_ok :: "hub \<Rightarrow> bool" where
  "hub_ok s \<longleftrightarrow> distinct (hb_clients s) \<and> distinct (left_of s) \<and> set (left_of s) \<inter> set (failed_of s) = {}
     \<and> (\<forall>c\<in>set (hb_clients s) \<union> set (left_of s) \<union> set (failed_of s). c < hb_joined s)
     \<and> (\<forall>rd. hb_round s = Some rd \<longrightarrow> hb_published s \<noteq> [] \<and> rd_payload rd = last (hb_published s))"

definition follows :: "hub \<Rightarrow> browser \<Rightarrow> nat \<Rightarrow> subscription \<Rightarrow> bool" where
  "follows s c n sb \<longleftrightarrow> sb_from sb \<le> sb_to sb \<and> sb_to sb \<le> n \<and> (sb_open sb \<longleftrightarrow> on_bus s c)
     \<and> (on_bus s c \<longrightarrow> sb_to sb = n - (if c \<in> set (left_of s) then 1 else 0))"

definition refines :: "hub \<Rightarrow> bus \<Rightarrow> bool" where
  "refines s b \<longleftrightarrow> hub_ok s \<and> bu_log b = hb_published s
     \<and> (\<forall>c. bu_subscriptions b c = None \<longleftrightarrow> hb_joined s \<le> c)
     \<and> (\<forall>c sb. bu_subscriptions b c = Some sb \<longrightarrow> follows s c (length (bu_log b)) sb)
     \<and> (\<forall>c. received c s = delivered b c)"

lemma refines_start: "refines (start_hub pl) empty_bus"
  by (simp add: refines_def start_hub_def empty_bus_def hub_ok_def left_of_def failed_of_def received_def delivered_def)

lemma refines_connect:
  assumes "refines s b"
  shows "\<exists>b'. bus_step b b' \<and> refines (connect s) b'"
proof -
  let ?c = "hb_joined s"
  let ?sb = "\<lparr>sb_from = length (bu_log b), sb_to = length (bu_log b), sb_open = True\<rparr>"
  let ?b = "b\<lparr>bu_subscriptions := (bu_subscriptions b)(?c \<mapsto> ?sb)\<rparr>"
  have fresh: "bu_subscriptions b ?c = None" using assms by (simp add: refines_def)
  have ok: "hub_ok s" using assms by (simp add: refines_def)
  then have notin: "?c \<notin> set (hb_clients s)" "?c \<notin> set (left_of s)" "?c \<notin> set (failed_of s)" by (auto simp: hub_ok_def)
  have same: "left_of (connect s) = left_of s" "failed_of (connect s) = failed_of s"
    by (simp_all add: left_of_def failed_of_def connect_def)
  have bus: "on_bus (connect s) c \<longleftrightarrow> on_bus s c \<or> c = ?c" for c
    using notin by (auto simp: on_bus_def same) (simp_all add: connect_def)
  have ok': "hub_ok (connect s)" using ok notin by (auto simp: hub_ok_def same) (auto simp: connect_def intro: less_SucI)
  have recv: "received c (connect s) = delivered ?b c" for c
  proof -
    have "received c s = delivered b c" for c using assms by (simp add: refines_def)
    moreover have "received c (connect s) = received c s" by (simp add: received_def connect_def)
    ultimately show ?thesis using fresh by (simp add: delivered_def split: option.split)
  qed
  have "refines (connect s) ?b"
    using assms ok' recv bus notin fresh
    by (auto simp: refines_def follows_def same) (auto simp: connect_def le_Suc_eq)
  with bus_step.Subscribe [OF fresh] show ?thesis by blast
qed

lemma refinesD:
  assumes "refines s b"
  shows "hub_ok s" "bu_log b = hb_published s" "bu_subscriptions b c = None \<longleftrightarrow> hb_joined s \<le> c"
    "bu_subscriptions b c = Some sb \<Longrightarrow> follows s c (length (bu_log b)) sb" "received c s = delivered b c"
  using assms by (auto simp: refines_def)

text \<open>A step that neither sends nor changes who takes part changes nothing on the bus.\<close>

lemma refines_stutter:
  assumes "refines s b" "hub_ok s'" "hb_published s' = hb_published s" "hb_joined s' = hb_joined s"
    and "hb_sent s' = hb_sent s" "set (left_of s') = set (left_of s)" "\<And>c. on_bus s' c = on_bus s c"
  shows "refines s' b"
  using assms by (auto simp: refines_def follows_def received_def)

text \<open>A browser that stops taking part is closed on the bus.\<close>

lemma refines_close:
  assumes "refines s b" "hub_ok s'" "hb_published s' = hb_published s" "hb_joined s' = hb_joined s"
    and "hb_sent s' = hb_sent s" "set (left_of s') = set (left_of s) - {c}" "\<And>d. on_bus s' d \<longleftrightarrow> on_bus s d \<and> d \<noteq> c" "c < hb_joined s"
  shows "\<exists>b'. bus_step b b' \<and> refines s' b'"
proof -
  obtain sb where sb: "bu_subscriptions b c = Some sb" using refinesD(3) [OF assms(1), of c] assms(8) by auto
  let ?b = "b\<lparr>bu_subscriptions := (bu_subscriptions b)(c \<mapsto> sb\<lparr>sb_open := False\<rparr>)\<rparr>"
  have "delivered ?b d = delivered b d" for d using sb by (simp add: delivered_def split: option.split)
  moreover have "follows s' c (length (bu_log b)) (sb\<lparr>sb_open := False\<rparr>)"
    using refinesD(4) [OF assms(1) sb] assms(7) by (simp add: follows_def)
  moreover have "follows s' d (length (bu_log b)) sd" if "bu_subscriptions b d = Some sd" "d \<noteq> c" for d sd
    using refinesD(4) [OF assms(1) that(1)] assms(6,7) that(2) by (simp add: follows_def)
  moreover have "received d s' = delivered b d" for d using refinesD(5) [OF assms(1), of d] assms(5) by (simp add: received_def)
  ultimately have "refines s' ?b"
    using assms(2-4,8) refinesD(2,3) [OF assms(1)] by (auto simp: refines_def)
  with bus_step.Close [OF sb] show ?thesis by blast
qed

lemma refines_disconnect:
  assumes "refines s b"
  shows "\<exists>b'. bus_step\<^sup>*\<^sup>* b b' \<and> refines (disconnect c s) b'"
proof -
  have same: "left_of (disconnect c s) = left_of s" "failed_of (disconnect c s) = failed_of s"
    by (simp_all add: left_of_def failed_of_def disconnect_def)
  have ok: "hub_ok s" by (rule refinesD(1) [OF assms])
  then have clients: "set (hb_clients (disconnect c s)) = set (hb_clients s) - {c}"
    by (simp add: disconnect_def hub_ok_def set_remove1_eq)
  have ok': "hub_ok (disconnect c s)"
    using ok by (auto simp: hub_ok_def same clients) (auto simp: disconnect_def distinct_remove1)
  have on: "on_bus (disconnect c s) d \<longleftrightarrow> d \<in> set (left_of s) \<or> d \<in> set (hb_clients s) - {c} \<and> d \<notin> set (failed_of s)" for d
    by (simp add: on_bus_def same clients)
  show ?thesis
  proof (cases "on_bus s c \<and> c \<notin> set (left_of s)")
    case True
    then have "on_bus (disconnect c s) d \<longleftrightarrow> on_bus s d \<and> d \<noteq> c" for d by (auto simp: on) (auto simp: on_bus_def)
    moreover have "c < hb_joined s" using True ok by (auto simp: on_bus_def hub_ok_def)
    ultimately have "\<exists>b'. bus_step b b' \<and> refines (disconnect c s) b'"
      using True by (intro refines_close [OF assms ok']) (simp_all add: same, simp_all add: disconnect_def)
    then show ?thesis by blast
  next
    case False
    then have "on_bus (disconnect c s) d = on_bus s d" for d by (auto simp: on) (auto simp: on_bus_def)
    then have "refines (disconnect c s) b"
      by (intro refines_stutter [OF assms ok']) (simp_all add: same, simp_all add: disconnect_def)
    then show ?thesis by blast
  qed
qed

lemma refines_frame:
  assumes "refines s b" "hb_round s = None"
  shows "\<exists>b'. bus_step b b' \<and> refines (frame_read f s) b'"
proof -
  let ?s = "frame_read f s"
  let ?b = "b\<lparr>bu_log := bu_log b @ [payload_of f]\<rparr>"
  have none: "left_of s = []" "failed_of s = []" using assms(2) by (simp_all add: left_of_def failed_of_def)
  have left: "left_of ?s = hb_clients s" "failed_of ?s = []" by (simp_all add: left_of_def failed_of_def frame_read_def Let_def)
  have on: "on_bus ?s c \<longleftrightarrow> on_bus s c" "on_bus s c \<longleftrightarrow> c \<in> set (hb_clients s)" for c
    by (auto simp: on_bus_def left none) (simp add: frame_read_def Let_def)
  have ok: "hub_ok s" by (rule refinesD(1) [OF assms(1)])
  have ok': "hub_ok ?s"
    using ok by (auto simp: hub_ok_def left) (auto simp: frame_read_def Let_def split: if_splits)
  have up: "sb_to sb = length (bu_log b)" if "bu_subscriptions b c = Some sb" "sb_open sb" for c sb
    using refinesD(4) [OF assms(1) that(1)] that(2) by (simp add: follows_def none)
  have "delivered ?b c = delivered b c" for c
    using refinesD(4) [OF assms(1), of c] by (auto simp: delivered_def follows_def split: option.split)
  then have recv: "received c ?s = delivered ?b c" for c
    using refinesD(5) [OF assms(1), of c] by (simp add: received_def frame_read_def Let_def)
  have "follows ?s c (length (bu_log ?b)) sb" if "bu_subscriptions b c = Some sb" for c sb
    using refinesD(4) [OF assms(1) that] up [OF that] by (auto simp: follows_def on(1) left none) (auto simp: on(2))
  then have "refines ?s ?b"
    using ok' recv refinesD(2,3) [OF assms(1)] by (simp add: refines_def) (simp add: frame_read_def Let_def)
  with bus_step.Publish [of b "payload_of f"] up show ?thesis by blast
qed

lemma round_of: "hb_round s = Some rd \<Longrightarrow> left_of s = rd_left rd" "hb_round s = Some rd \<Longrightarrow> failed_of s = rd_failed rd"
  by (simp_all add: left_of_def failed_of_def)

lemma sent_round:
  "left_of (sent_to ok c rd s) = tl (rd_left rd)" "failed_of (sent_to ok c rd s) = (if ok then rd_failed rd else rd_failed rd @ [c])"
  "hb_clients (sent_to ok c rd s) = hb_clients s" "hb_joined (sent_to ok c rd s) = hb_joined s"
  "hb_published (sent_to ok c rd s) = hb_published s"
  "hb_sent (sent_to ok c rd s) = (if ok then hb_sent s @ [(c, rd_payload rd)] else hb_sent s)"
  by (simp_all add: sent_to_def left_of_def failed_of_def)

lemma hub_ok_send:
  assumes "hub_ok s" "hb_round s = Some rd" "rd_left rd = c # cs"
  shows "hub_ok (sent_to ok c rd s)"
  using assms by (auto simp: hub_ok_def round_of sent_round) (auto simp: sent_to_def split: if_splits)

lemma refines_send_failed:
  assumes "refines s b" "hb_round s = Some rd" "rd_left rd = c # cs"
  shows "\<exists>b'. bus_step b b' \<and> refines (sent_to False c rd s) b'"
proof (rule refines_close [OF assms(1)])
  have ok: "hub_ok s" by (rule refinesD(1) [OF assms(1)])
  show "hub_ok (sent_to False c rd s)" by (rule hub_ok_send [OF ok assms(2,3)])
  show "set (left_of (sent_to False c rd s)) = set (left_of s) - {c}"
    using ok assms(2,3) by (auto simp: sent_round round_of hub_ok_def)
  show "on_bus (sent_to False c rd s) d \<longleftrightarrow> on_bus s d \<and> d \<noteq> c" for d
    using ok assms(2,3) by (auto simp: on_bus_def sent_round round_of hub_ok_def)
  show "c < hb_joined s" using ok assms(2,3) by (auto simp: hub_ok_def round_of)
qed (simp_all add: sent_round)

text \<open>A successful send delivers one frame; a browser that has disconnected meanwhile is then closed.\<close>

lemma refines_send_ok:
  assumes "refines s b" "hb_round s = Some rd" "rd_left rd = c # cs"
  shows "\<exists>b'. bus_step\<^sup>*\<^sup>* b b' \<and> refines (sent_to True c rd s) b'"
proof -
  let ?s = "sent_to True c rd s"
  have ok: "hub_ok s" by (rule refinesD(1) [OF assms(1)])
  have ok': "hub_ok ?s" by (rule hub_ok_send [OF ok assms(2,3)])
  have left: "set (left_of ?s) = set (left_of s) - {c}" "c \<in> set (left_of s)" "c \<notin> set (failed_of s)" "c < hb_joined s"
    using ok assms(2,3) by (auto simp: sent_round round_of hub_ok_def)
  then have on: "on_bus s c" by (simp add: on_bus_def)
  obtain sb where sb: "bu_subscriptions b c = Some sb" using refinesD(3) [OF assms(1), of c] left(4) by auto
  let ?n = "length (bu_log b)"
  have log: "bu_log b \<noteq> []" "rd_payload rd = last (bu_log b)" using ok assms(2) refinesD(2) [OF assms(1)] by (auto simp: hub_ok_def)
  then have pos: "0 < ?n" by simp
  have f: "sb_open sb" "sb_to sb = ?n - 1" "sb_from sb \<le> sb_to sb"
    using refinesD(4) [OF assms(1) sb] on left(2) by (simp_all add: follows_def)
  let ?sb = "sb\<lparr>sb_to := sb_to sb + 1, sb_open := on_bus ?s c\<rparr>"
  let ?b = "b\<lparr>bu_subscriptions := (bu_subscriptions b)(c \<mapsto> ?sb)\<rparr>"
  have others: "on_bus ?s d = on_bus s d" if "d \<noteq> c" for d
    using that assms(2,3) by (auto simp: on_bus_def sent_round round_of)
  have "take (Suc (?n - 1) - sb_from sb) (drop (sb_from sb) (bu_log b)) =
      take (?n - 1 - sb_from sb) (drop (sb_from sb) (bu_log b)) @ [last (bu_log b)]"
  proof -
    have "take (Suc (?n - 1 - sb_from sb)) (drop (sb_from sb) (bu_log b)) =
        take (?n - 1 - sb_from sb) (drop (sb_from sb) (bu_log b)) @ [drop (sb_from sb) (bu_log b) ! (?n - 1 - sb_from sb)]"
      using pos f(2,3) by (intro take_Suc_conv_app_nth) (unfold length_drop, linarith)
    moreover have "drop (sb_from sb) (bu_log b) ! (?n - 1 - sb_from sb) = last (bu_log b)"
    proof -
      have "sb_from sb + (?n - 1 - sb_from sb) = ?n - 1" using pos f(2,3) by linarith
      then show ?thesis using log(1) f(2,3) by (simp add: last_conv_nth del: diff_diff_left)
    qed
    moreover have "Suc (?n - 1) - sb_from sb = Suc (?n - 1 - sb_from sb)" using f(2,3) by simp
    ultimately show ?thesis by simp
  qed
  then have "delivered ?b c = delivered b c @ [rd_payload rd]" by (simp add: delivered_def sb f(2) log(2))
  moreover have "delivered ?b d = delivered b d" if "d \<noteq> c" for d using that by (simp add: delivered_def split: option.split)
  ultimately have recv: "received d ?s = delivered ?b d" for d
    using refinesD(5) [OF assms(1), of d] by (cases "d = c") (auto simp: received_def sent_round)
  have "follows ?s c ?n ?sb" using f pos left(1) by (simp add: follows_def)
  moreover have "follows ?s d ?n sd" if "bu_subscriptions b d = Some sd" "d \<noteq> c" for d sd
    using refinesD(4) [OF assms(1) that(1)] left(1) that(2) by (simp add: follows_def others)
  ultimately have ref: "refines ?s ?b"
    using ok' recv left(4) refinesD(2,3) [OF assms(1)] by (auto simp: refines_def sent_round)
  let ?b1 = "b\<lparr>bu_subscriptions := (bu_subscriptions b)(c \<mapsto> sb\<lparr>sb_to := sb_to sb + 1\<rparr>)\<rparr>"
  have d: "bus_step b ?b1" using bus_step.Deliver [OF sb f(1)] f(2) pos by simp
  show ?thesis
  proof (cases "on_bus ?s c")
    case True
    then have "?sb = sb\<lparr>sb_to := sb_to sb + 1\<rparr>" using f(1) by (cases sb) simp
    then have "?b = ?b1" by (simp only:)
    then show ?thesis using ref d by auto
  next
    case False
    have "bus_step ?b1 ?b" using bus_step.Close [of ?b1 c "sb\<lparr>sb_to := sb_to sb + 1\<rparr>"] False by simp
    then show ?thesis using ref d by (meson converse_rtranclp_into_rtranclp r_into_rtranclp)
  qed
qed

lemma fold_remove1: "distinct xs \<Longrightarrow> set (fold remove1 ys xs) = set xs - set ys \<and> distinct (fold remove1 ys xs)"
  by (induction ys arbitrary: xs) (auto simp: distinct_remove1)

lemma refines_end:
  assumes "refines s b" "hb_round s = Some rd" "rd_left rd = []"
  shows "refines (end_round rd s) b"
proof (rule refines_stutter [OF assms(1)])
  have ok: "hub_ok s" by (rule refinesD(1) [OF assms(1)])
  then have clients: "set (hb_clients (end_round rd s)) = set (hb_clients s) - set (rd_failed rd)" "distinct (hb_clients (end_round rd s))"
    using fold_remove1 [of "hb_clients s" "rd_failed rd"] by (simp_all add: end_round_def hub_ok_def)
  have round: "left_of (end_round rd s) = []" "failed_of (end_round rd s) = []" by (simp_all add: left_of_def failed_of_def end_round_def)
  show "hub_ok (end_round rd s)"
    using ok clients by (auto simp: hub_ok_def round) (auto simp: end_round_def)
  show "set (left_of (end_round rd s)) = set (left_of s)" using assms(2,3) by (simp add: round round_of)
  show "on_bus (end_round rd s) c = on_bus s c" for c
    using assms(2,3) by (auto simp: on_bus_def round round_of clients)
qed (simp_all add: end_round_def)

lemma refines_step:
  assumes "hub_step s s'" "refines s b"
  shows "\<exists>b'. bus_step\<^sup>*\<^sup>* b b' \<and> refines s' b'"
  using assms(1)
proof cases
  case Connect
  then show ?thesis using refines_connect [OF assms(2)] by blast
next
  case (Disconnect c)
  then show ?thesis using refines_disconnect [OF assms(2)] by blast
next
  case (Frame f)
  then show ?thesis using refines_frame [OF assms(2)] by blast
next
  case (No_Frame message)
  have "refines s' b"
    using refinesD(1) [OF assms(2)] No_Frame
    by (intro refines_stutter [OF assms(2)]) (simp_all add: hub_ok_def no_frame_def left_of_def failed_of_def on_bus_def)
  then show ?thesis by blast
next
  case (Send rd c cs ok)
  show ?thesis
  proof (cases ok)
    case True
    then show ?thesis using refines_send_ok [OF assms(2) Send(2,3)] Send(1) by simp
  next
    case False
    then show ?thesis using refines_send_failed [OF assms(2) Send(2,3)] Send(1) by auto
  qed
next
  case (End_Round rd)
  then show ?thesis using refines_end [OF assms(2)] by blast
qed

lemma refines_reachable: "hub_step\<^sup>*\<^sup>* (start_hub pl) s \<Longrightarrow> \<exists>b. bus_step\<^sup>*\<^sup>* empty_bus b \<and> refines s b"
proof (induction rule: rtranclp_induct)
  case base
  then show ?case using refines_start by blast
next
  case (step s s')
  then show ?case using refines_step by (meson rtranclp_trans)
qed

text \<open>
  C24: The broadcast of spectrum frames implements the abstract bus: every run of the service, whatever
  the interleaving of connections, disconnections, frames, failures of the source and failing sends,
  is matched by a run of the bus with the same published frames and the same frames
  received by every browser; a browser that takes part is an open subscription.\<close>

theorem broadcast_refines_bus:
  assumes "hub_step\<^sup>*\<^sup>* (start_hub pl) s"
  shows "\<exists>b. bus_step\<^sup>*\<^sup>* empty_bus b \<and> bu_log b = hb_published s \<and> (\<forall>c. delivered b c = received c s)
    \<and> (\<forall>c. on_bus s c \<longleftrightarrow> (\<exists>sb. bu_subscriptions b c = Some sb \<and> sb_open sb))"
proof -
  obtain b where b: "bus_step\<^sup>*\<^sup>* empty_bus b" "refines s b" using refines_reachable [OF assms] by blast
  have "on_bus s c \<longleftrightarrow> (\<exists>sb. bu_subscriptions b c = Some sb \<and> sb_open sb)" for c
  proof
    assume on: "on_bus s c"
    then have "c < hb_joined s" using refinesD(1) [OF b(2)] by (auto simp: on_bus_def hub_ok_def)
    then obtain sb where sb: "bu_subscriptions b c = Some sb" using refinesD(3) [OF b(2), of c] by auto
    with on refinesD(4) [OF b(2) sb] show "\<exists>sb. bu_subscriptions b c = Some sb \<and> sb_open sb" by (simp add: follows_def)
  next
    assume "\<exists>sb. bu_subscriptions b c = Some sb \<and> sb_open sb"
    then obtain sb where sb: "bu_subscriptions b c = Some sb" "sb_open sb" by blast
    from refinesD(4) [OF b(2) sb(1)] sb(2) show "on_bus s c" by (simp add: follows_def)
  qed
  then show ?thesis using b refinesD(2,5) [OF b(2)] by metis
qed

text \<open>
  What a browser receives is a gapless part of the published frames, in their order and without
  repetition: an initial part of the frames published after it joined. Between two rounds a connected
  browser has received all of them, up to the last one.\<close>

theorem browser_frames_contiguous:
  assumes "hub_step\<^sup>*\<^sup>* (start_hub pl) s"
  shows "\<exists>before n. received c s = take n (drop before (hb_published s)) \<and> before + n \<le> length (hb_published s)
    \<and> (hb_round s = None \<and> c \<in> set (hb_clients s) \<longrightarrow> before + n = length (hb_published s))"
proof -
  obtain b where b: "refines s b" using refines_reachable [OF assms] by blast
  show ?thesis
  proof (cases "bu_subscriptions b c")
    case None
    then have "\<not> c < hb_joined s" using refinesD(3) [OF b, of c] by simp
    then have "c \<notin> set (hb_clients s)" using refinesD(1) [OF b] unfolding hub_ok_def by blast
    moreover have "received c s = []" using refinesD(5) [OF b, of c] None by (simp add: delivered_def)
    ultimately show ?thesis by (intro exI [of _ 0]) simp
  next
    case (Some sb)
    note f = refinesD(4) [OF b Some, unfolded follows_def] and log = refinesD(2) [OF b]
    have "hb_round s = None \<and> c \<in> set (hb_clients s) \<longrightarrow> sb_to sb = length (hb_published s)"
      using f log by (auto simp: on_bus_def left_of_def failed_of_def)
    then show ?thesis
      using f log refinesD(5) [OF b, of c] Some
      by (intro exI [of _ "sb_from sb"] exI [of _ "sb_to sb - sb_from sb"]) (auto simp: delivered_def)
  qed
qed

text \<open>A run for the witnesses: two browsers join, one leaves while the first frame is being sent.\<close>

definition sample_hub_frame :: hub_frame where
  "sample_hub_frame = \<lparr>hf_mode = ''simulator'', hf_points = [\<lparr>frequency_mhz = Fin 100, power_dbm = Fin (- 90)\<rparr>], hf_sequence = None,
     hf_timestamp = ''t''\<rparr>"

definition sample_round :: "browser list \<Rightarrow> browser list \<Rightarrow> broadcast_round" where
  "sample_round left failed = \<lparr>rd_payload = payload_of sample_hub_frame, rd_left = left, rd_failed = failed\<rparr>"

definition sample_hub :: hub where
  "sample_hub = end_round (sample_round [] [1]) (sent_to False 1 (sample_round [1] []) (disconnect 1
     (sent_to True 0 (sample_round [0, 1] []) (frame_read sample_hub_frame (connect (connect (start_hub (new_pipeline 32))))))))"

lemma sample_hub_reachable: "hub_step\<^sup>*\<^sup>* (start_hub (new_pipeline 32)) sample_hub"
proof -
  let ?s2 = "connect (connect (start_hub (new_pipeline 32)))"
  let ?s3 = "frame_read sample_hub_frame ?s2"
  let ?s4 = "sent_to True 0 (sample_round [0, 1] []) ?s3"
  let ?s6 = "sent_to False 1 (sample_round [1] []) (disconnect 1 ?s4)"
  have start: "hub_step\<^sup>*\<^sup>* (start_hub (new_pipeline 32)) ?s2"
    by (rule rtranclp.rtrancl_into_rtrancl, rule r_into_rtranclp, rule hub_step.Connect, rule hub_step.Connect)
  have "hub_step ?s2 ?s3" by (rule hub_step.Frame) (simp add: connect_def start_hub_def)
  with start have a3: "hub_step\<^sup>*\<^sup>* (start_hub (new_pipeline 32)) ?s3" by (rule rtranclp.rtrancl_into_rtrancl)
  have "hb_round ?s3 = Some (sample_round [0, 1] [])"
    by (simp add: frame_read_def Let_def sample_round_def connect_def start_hub_def)
  then have "hub_step ?s3 ?s4" by (rule hub_step.Send) (simp add: sample_round_def)
  with a3 have a4: "hub_step\<^sup>*\<^sup>* (start_hub (new_pipeline 32)) ?s4" by (rule rtranclp.rtrancl_into_rtrancl)
  have a5: "hub_step\<^sup>*\<^sup>* (start_hub (new_pipeline 32)) (disconnect 1 ?s4)"
    by (rule rtranclp.rtrancl_into_rtrancl, rule a4, rule hub_step.Disconnect)
  have "hb_round (disconnect 1 ?s4) = Some (sample_round [1] [])" by (simp add: disconnect_def sent_to_def sample_round_def)
  then have "hub_step (disconnect 1 ?s4) ?s6" by (rule hub_step.Send) (simp add: sample_round_def)
  with a5 have a6: "hub_step\<^sup>*\<^sup>* (start_hub (new_pipeline 32)) ?s6" by (rule rtranclp.rtrancl_into_rtrancl)
  have "hb_round ?s6 = Some (sample_round [] [1])" by (simp add: sent_to_def sample_round_def)
  then have "hub_step ?s6 sample_hub" unfolding sample_hub_def by (rule hub_step.End_Round) (simp add: sample_round_def)
  with a6 show ?thesis by (rule rtranclp.rtrancl_into_rtrancl)
qed

lemma broadcast_refines_bus_witness:
  "\<exists>b. bus_step\<^sup>*\<^sup>* empty_bus b \<and> bu_log b = hb_published sample_hub \<and> delivered b 0 = received 0 sample_hub"
  using broadcast_refines_bus [OF sample_hub_reachable] by blast

lemma browser_frames_contiguous_witness:
  "received 0 sample_hub = [payload_of sample_hub_frame] \<and> hb_clients sample_hub = [0]
    \<and> (\<exists>before n. received 0 sample_hub = take n (drop before (hb_published sample_hub)) \<and> before + n = length (hb_published sample_hub))"
proof -
  have idle: "hb_round sample_hub = None" "hb_clients sample_hub = [0]" "received 0 sample_hub = [payload_of sample_hub_frame]"
    by (simp_all add: sample_hub_def end_round_def sent_to_def disconnect_def frame_read_def Let_def connect_def start_hub_def
        sample_round_def received_def)
  with browser_frames_contiguous [OF sample_hub_reachable, of 0] show ?thesis by auto
qed

end
