(* ===== verification/Legacy_References.thy ===== *)
theory Legacy_References
  imports Import_Properties Reference_Catalog
begin

section \<open>Reference bands, points and images\<close>

text \<open>
  \<open>routers/legacy_references.py\<close> and its helpers of \<open>services/persistence.py\<close>: the CSV imports of
  reference bands and spectrum points, the upload of reference images, and the three listings. The
  imports are one transaction without savepoints, as in \<open>Imports\<close>: the first statement the server
  refuses loses the whole file. The two \<open>CHECK\<close> constraints of the migration are part of the
  tables; every other verdict (ranges of integers, encodings) is the argument \<open>srv\<close>.
\<close>

subsection \<open>Tables\<close>

record reference_band =
  rb_source_name :: string
  rb_version :: pyval
  rb_location :: nat
  rb_location_name :: string
  rb_start_hz :: int
  rb_end_hz :: int
  rb_band_name :: string
  rb_expected_devices :: pyval
  rb_normal_min :: "rat option"
  rb_normal_max :: "rat option"
  rb_priority :: int
  rb_notes :: pyval
  rb_raw :: row
  rb_external_id :: pyval
  rb_source_file :: pyval
  rb_pdf_page :: "int option"
  rb_profile :: pyval
  rb_confidence :: pyval
  rb_peak_alarm :: "rat option"
  rb_delta :: "rat option"
  rb_requires_baseline :: bool
  rb_manual_allowed :: bool
  rb_temporary :: bool

record legacy_point =
  lp_time :: py_datetime
  lp_reference_id :: string
  lp_location :: nat
  lp_location_name :: string
  lp_device_name :: pyval
  lp_source_file :: pyval
  lp_measured_hz :: int
  lp_actual_hz :: "int option"
  lp_power :: rat
  lp_rbw :: "int option"
  lp_vbw :: "int option"
  lp_antenna :: pyval
  lp_profile :: pyval
  lp_raw :: row

record reference_image =
  ri_id :: nat
  ri_location :: "nat option"
  ri_location_name :: "string option"
  ri_source_name :: "string option"
  ri_version :: "string option"
  ri_filename :: string
  ri_path :: string
  ri_content_type :: string
  ri_size :: nat
  ri_sha256 :: string
  ri_start_hz :: int
  ri_end_hz :: int
  ri_min_dbm :: rat
  ri_max_dbm :: rat
  ri_notes :: "string option"
  ri_created :: rat

record legacy_store =
  ls_imports :: import_db
  ls_bands :: "reference_band list"
  ls_points :: "legacy_point list"
  ls_images :: "reference_image list"

datatype legacy_statement =
    Insert_Band reference_band
  | Insert_Point legacy_point
  | Insert_Image reference_image
  | Import_Record statement

fun apply_legacy :: "legacy_statement \<Rightarrow> legacy_store \<Rightarrow> legacy_store" where
  "apply_legacy (Insert_Band b) db = db\<lparr>ls_bands := ls_bands db @ [b]\<rparr>"
| "apply_legacy (Insert_Point p) db = db\<lparr>ls_points := ls_points db @ [p]\<rparr>"
| "apply_legacy (Insert_Image i) db = db\<lparr>ls_images := ls_images db @ [i]\<rparr>"
| "apply_legacy (Import_Record st) db = db\<lparr>ls_imports := apply_statement st (ls_imports db)\<rparr>"

text \<open>\<open>CHECK (end_hz > start_hz)\<close> and \<open>CHECK (max_dbm > min_dbm)\<close>\<close>

fun check_holds :: "legacy_statement \<Rightarrow> bool" where
  "check_holds (Insert_Band b) = (rb_start_hz b < rb_end_hz b)"
| "check_holds (Insert_Image i) = (ri_start_hz i < ri_end_hz i \<and> ri_min_dbm i < ri_max_dbm i)"
| "check_holds _ = True"

type_synonym legacy_server = "legacy_statement \<Rightarrow> verdict"

record legacy_tx =
  xt_db :: legacy_store
  xt_aborted :: bool

definition execute_legacy :: "legacy_server \<Rightarrow> legacy_statement \<Rightarrow> legacy_tx \<Rightarrow> string option \<times> legacy_tx" where
  "execute_legacy srv st tx =
     (if xt_aborted tx then (Some ''current transaction is aborted'', tx)
      else (case (if check_holds st then srv st else Server_Error ''violates check constraint'') of
          Accepted \<Rightarrow> (None, tx\<lparr>xt_db := apply_legacy st (xt_db tx)\<rparr>)
        | Client_Error e \<Rightarrow> (Some e, tx)
        | Server_Error e \<Rightarrow> (Some e, tx\<lparr>xt_aborted := True\<rparr>)))"

subsection \<open>Reading a row\<close>

definition key_list :: "string list \<Rightarrow> string" where
  "key_list keys = (case keys of [] \<Rightarrow> [] | k # ks \<Rightarrow> k @ concat (map (\<lambda>x. '', '' @ x) ks))"

definition parse_required_frequency :: "text_lib \<Rightarrow> row \<Rightarrow> string list \<Rightarrow> int result" where
  "parse_required_frequency lib row keys =
     (case parse_frequency_hz lib (row_get row keys) of
        None \<Rightarrow> Inl (ValueError (''Hianyzo vagy hibas frekvencia mezo: '' @ key_list keys))
      | Some hz \<Rightarrow> Inr hz)"

definition parse_optional_hz :: "text_lib \<Rightarrow> row \<Rightarrow> string list \<Rightarrow> int option" where
  "parse_optional_hz lib row keys = parse_int lib (row_get row keys)"

definition parse_required_float :: "text_lib \<Rightarrow> row \<Rightarrow> string list \<Rightarrow> rat result" where
  "parse_required_float lib row keys =
     (case parse_float lib (row_get row keys) of
        None \<Rightarrow> Inl (ValueError (''Hianyzo vagy hibas numerikus mezo: '' @ key_list keys))
      | Some x \<Rightarrow> Inr x)"

definition value_or_default :: "pyval \<Rightarrow> pyval \<Rightarrow> pyval" where
  "value_or_default v fallback = (if absent v then fallback else v)"

definition form_value :: "string option \<Rightarrow> pyval" where
  "form_value v = (case v of None \<Rightarrow> PNone | Some s \<Rightarrow> PStr s)"

text \<open>\<open>parse_optional_hz(...)\<close>, and the frequency with its unit when that is \<open>None\<close>\<close>

definition required_hz :: "text_lib \<Rightarrow> row \<Rightarrow> string list \<Rightarrow> string list \<Rightarrow> int result" where
  "required_hz lib row hz_keys keys =
     (case parse_optional_hz lib row hz_keys of Some hz \<Rightarrow> Inr hz | None \<Rightarrow> parse_required_frequency lib row keys)"

definition int_or :: "int option \<Rightarrow> int option \<Rightarrow> int option" where
  "int_or a b = (if a = None \<or> a = Some 0 then b else a)"

definition missing :: "bool \<Rightarrow> string \<Rightarrow> unit result" where
  "missing present field = require present (ValueError (field @ '' hianyzik.''))"

record band_form =
  bf_source_name :: "string option"
  bf_version :: "string option"
  bf_location_name :: "string option"

record point_form =
  pf_reference_id :: "string option"
  pf_location_name :: "string option"
  pf_device_name :: "string option"

definition row_place :: "row \<Rightarrow> string option \<Rightarrow> pyval" where
  "row_place row fallback = value_or_default (row_get row [''location_name'', ''location'', ''helyszin'']) (form_value fallback)"

definition band_source :: "band_form \<Rightarrow> row \<Rightarrow> pyval" where
  "band_source form row = value_or_default (row_get row [''source_name'', ''source'']) (form_value (bf_source_name form))"

definition band_place :: "text_lib \<Rightarrow> band_form \<Rightarrow> row \<Rightarrow> string result" where
  "band_place lib form row =
     and_then (missing (py_truthy (band_source form row)) ''source_name'') (\<lambda>_.
     and_then (missing (py_truthy (row_place row (bf_location_name form))) ''location_name'') (\<lambda>_.
     Inr (py_str lib (row_place row (bf_location_name form)))))"

definition upper_text :: "text_lib \<Rightarrow> pyval \<Rightarrow> string" where
  "upper_text lib v = py_upper (py_strip (py_str lib v))"

definition band_statement :: "text_lib \<Rightarrow> band_form \<Rightarrow> row \<Rightarrow> string \<Rightarrow> nat \<Rightarrow> legacy_statement result" where
  "band_statement lib form row place location =
     and_then (required_hz lib row [''start_hz'', ''start_frequency_hz''] [''start'', ''start_frequency'']) (\<lambda>start.
     and_then (required_hz lib row [''end_hz'', ''end_frequency_hz''] [''end'', ''end_frequency'']) (\<lambda>stop.
     let name = row_get row [''band_name'', ''band_label'', ''name'', ''band'', ''service''] in
     and_then (missing (py_truthy name) ''band_name'') (\<lambda>_.
     Inr (Insert_Band
       \<lparr>rb_source_name = py_str lib (band_source form row),
        rb_version = value_or_default (row_get row [''version'']) (form_value (bf_version form)),
        rb_location = location, rb_location_name = place, rb_start_hz = start, rb_end_hz = stop,
        rb_band_name = py_str lib name,
        rb_expected_devices = row_get row [''expected_devices'', ''expected_devices_or_systems'', ''devices'', ''expected'', ''eszkozok''],
        rb_normal_min = parse_float lib (row_get row [''normal_min_dbm'', ''temporary_normal_min_dbm'', ''min_dbm'', ''normal_min'']),
        rb_normal_max = parse_float lib (row_get row [''normal_max_dbm'', ''temporary_normal_max_dbm'', ''max_dbm'', ''normal_max'']),
        rb_priority = (case parse_int lib (row_get row [''priority'']) of None \<Rightarrow> 0 | Some n \<Rightarrow> n),
        rb_notes = row_get row [''notes'', ''note'', ''comment'', ''megjegyzes''],
        rb_raw = row,
        rb_external_id = row_get row [''band_id'', ''external_band_id'', ''id''],
        rb_source_file = row_get row [''source_file''],
        rb_pdf_page = parse_int lib (row_get row [''source_pdf_page'', ''pdf_page'']),
        rb_profile = row_get row [''reference_profile''],
        rb_confidence = row_get row [''confidence''],
        rb_peak_alarm = parse_float lib (row_get row [''peak_alarm_dbm'', ''temporary_peak_alarm_dbm'']),
        rb_delta = parse_float lib (row_get row [''anomaly_delta_db_above_baseline'', ''anomaly_delta_db'']),
        rb_requires_baseline = (upper_text lib (row_get row [''requires_site_baseline'']) = ''TRUE''),
        rb_manual_allowed = (upper_text lib (row_get row [''manual_site_baseline_allowed'']) \<noteq> ''FALSE''),
        rb_temporary = (row_get row [''temporary_normal_min_dbm'', ''temporary_normal_max_dbm''] \<noteq> PNone)\<rparr>))))"

definition point_reference :: "string \<Rightarrow> row \<Rightarrow> pyval" where
  "point_reference fallback row = value_or_default (row_get row [''reference_id'', ''ref_id'']) (PStr fallback)"

definition point_place :: "text_lib \<Rightarrow> point_form \<Rightarrow> string \<Rightarrow> row \<Rightarrow> string result" where
  "point_place lib form fallback row =
     and_then (missing (py_truthy (point_reference fallback row)) ''reference_id'') (\<lambda>_.
     and_then (missing (py_truthy (row_place row (pf_location_name form))) ''location_name'') (\<lambda>_.
     Inr (py_str lib (row_place row (pf_location_name form)))))"

definition point_statement ::
  "text_lib \<Rightarrow> point_form \<Rightarrow> string \<Rightarrow> string \<Rightarrow> py_datetime \<Rightarrow> row \<Rightarrow> string \<Rightarrow> nat \<Rightarrow> legacy_statement result" where
  "point_statement lib form fallback filename now row place location =
     and_then (required_hz lib row [''measured_frequency_hz'', ''frequency_hz'', ''freq_hz'']
         [''measured_frequency'', ''frequency'', ''freq'']) (\<lambda>measured.
     let actual = (case parse_optional_hz lib row [''actual_rf_frequency_hz'', ''rf_frequency_hz''] of
           Some hz \<Rightarrow> Some hz
         | None \<Rightarrow> parse_frequency_hz lib (row_get row [''actual_rf_frequency'', ''rf_frequency''])) in
     and_then (parse_required_float lib row [''power_dbm'', ''power'', ''dbm'', ''level'', ''signal'']) (\<lambda>power.
     and_then (parse_datetime_value lib (row_get row [''timestamp'', ''time'', ''measured_at''])) (\<lambda>t.
     Inr (Insert_Point
       \<lparr>lp_time = or_default t now, lp_reference_id = py_str lib (point_reference fallback row),
        lp_location = location, lp_location_name = place,
        lp_device_name = value_or_default (row_get row [''device_name'', ''device'', ''instrument'']) (form_value (pf_device_name form)),
        lp_source_file = value_or_default (row_get row [''source_file'']) (PStr filename),
        lp_measured_hz = measured, lp_actual_hz = int_or actual (Some measured), lp_power = power,
        lp_rbw = int_or (parse_optional_hz lib row [''rbw_hz'']) (parse_frequency_hz lib (row_get row [''rbw''])),
        lp_vbw = int_or (parse_optional_hz lib row [''vbw_hz'']) (parse_frequency_hz lib (row_get row [''vbw''])),
        lp_antenna = row_get row [''antenna''],
        lp_profile = row_get row [''downconverter_profile'', ''downconverter''], lp_raw = row\<rparr>))))"

subsection \<open>The imports\<close>

text \<open>\<open>str(exc)\<close>; that of an \<open>HTTPException\<close> begins with its status.\<close>

definition exception_text :: "py_error \<Rightarrow> string" where
  "exception_text e = (case e of HTTPException c m \<Rightarrow> int_text c @ '': '' @ m | _ \<Rightarrow> error_text e)"

definition on_sessions :: "session_db \<Rightarrow> legacy_store \<Rightarrow> legacy_store" where
  "on_sessions sdb db = db\<lparr>ls_imports := (ls_imports db)\<lparr>im_sessions := sdb\<rparr>\<rparr>"

text \<open>
  The body of the \<open>try\<close>: checks of the names, the place (looked up or added), the other fields,
  the insertion. A place added stays when a later field is refused.
\<close>

definition reference_row ::
  "legacy_server \<Rightarrow> sql_env \<Rightarrow> (row \<Rightarrow> string result) \<Rightarrow> (row \<Rightarrow> string \<Rightarrow> nat \<Rightarrow> legacy_statement result) \<Rightarrow> row
     \<Rightarrow> legacy_tx \<Rightarrow> string option \<times> legacy_tx" where
  "reference_row srv ev place statement row tx =
     (case place row of
        Inl e \<Rightarrow> (Some (exception_text e), tx)
      | Inr name \<Rightarrow>
          if py_strip name \<noteq> [] \<and> xt_aborted tx then (Some ''current transaction is aborted'', tx)
          else (case ensure_location ev name (im_sessions (ls_imports (xt_db tx))) of
              Inl e \<Rightarrow> (Some (exception_text e), tx)
            | Inr (sdb, location) \<Rightarrow>
                (let tx = tx\<lparr>xt_db := on_sessions sdb (xt_db tx)\<rparr> in
                 case statement row name location of
                   Inl e \<Rightarrow> (Some (exception_text e), tx)
                 | Inr st \<Rightarrow> execute_legacy srv st tx)))"

definition reference_row_step ::
  "legacy_server \<Rightarrow> (nat \<Rightarrow> sql_env) \<Rightarrow> nat \<Rightarrow> string \<Rightarrow> (row \<Rightarrow> string result)
     \<Rightarrow> (row \<Rightarrow> string \<Rightarrow> nat \<Rightarrow> legacy_statement result)
     \<Rightarrow> legacy_tx \<times> nat \<times> nat \<Rightarrow> nat \<times> row \<Rightarrow> (legacy_tx \<times> nat \<times> nat) result" where
  "reference_row_step srv ev import_id kind place statement run item =
     (let (tx, processed, failed) = run; (n, row) = item in
      case reference_row srv (ev n) place statement row tx of
        (None, tx) \<Rightarrow> Inr (tx, processed + 1, failed)
      | (Some e, tx) \<Rightarrow>
          (case execute_legacy srv (Import_Record (Insert_Error \<lparr>er_import = import_id, er_type = kind,
                  er_row_number = n, er_message = e, er_raw = row\<rparr>)) tx of
             (None, tx) \<Rightarrow> Inr (tx, processed, failed + 1)
           | (Some e, _) \<Rightarrow> Inl (RuntimeError e)))"

definition finish_reference ::
  "legacy_server \<Rightarrow> nat \<Rightarrow> nat \<Rightarrow> legacy_tx \<times> nat \<times> nat \<Rightarrow> (legacy_store \<times> nat \<times> nat) result" where
  "finish_reference srv import_id n_rows run =
     (let (tx, processed, failed) = run in
      case execute_legacy srv (Import_Record (Finish_Import \<lparr>ci_id = import_id, ci_filename = [], ci_type = [],
          ci_status = (if failed = 0 then ''completed'' else ''completed_with_errors''), ci_total = n_rows,
          ci_processed = processed, ci_failed = failed, ci_errors = []\<rparr>)) tx of
        (None, tx) \<Rightarrow> Inr (xt_db tx, processed, failed)
      | (Some e, _) \<Rightarrow> Inl (RuntimeError e))"

record legacy_world =
  lw_store :: legacy_store
  lw_disk :: "(string \<times> byte list) list"

definition put_file :: "string \<Rightarrow> byte list \<Rightarrow> legacy_world \<Rightarrow> legacy_world" where
  "put_file path bs w = w\<lparr>lw_disk := (path, bs) # filter (\<lambda>(p, _). p \<noteq> path) (lw_disk w)\<rparr>"

definition mebibytes :: "int \<Rightarrow> int" where
  "mebibytes n = n * (1024 * 1024)"

record reference_answer =
  ra_import :: nat
  ra_file :: nat
  ra_type :: string
  ra_total :: nat
  ra_processed :: nat
  ra_failed :: nat

text \<open>From the creation of the import's record on; the file is on the disk before its record is inserted.\<close>

definition store_reference_rows ::
  "legacy_server \<Rightarrow> import_env \<Rightarrow> (nat \<Rightarrow> sql_env) \<Rightarrow> string \<Rightarrow> string \<Rightarrow> (row \<Rightarrow> string result)
     \<Rightarrow> (row \<Rightarrow> string \<Rightarrow> nat \<Rightarrow> legacy_statement result) \<Rightarrow> string \<Rightarrow> upload \<Rightarrow> byte list \<Rightarrow> row list \<Rightarrow> legacy_world
     \<Rightarrow> legacy_world \<times> reference_answer result" where
  "store_reference_rows srv ie ev kind short place statement filename up bs rows w =
     (case create_csv_import (ie_import_id ie) filename kind (ls_imports (lw_store w)) of
        Inl e \<Rightarrow> (w, Inl e)
      | Inr idb \<Rightarrow>
          (let w = put_file (upload_path (ie_import_id ie) filename) bs w in
           case and_then (save_uploaded_file ie filename up bs idb) (\<lambda>idb.
                and_then (fold_result (reference_row_step srv ev (ie_import_id ie) kind place statement)
                   (\<lparr>xt_db = (lw_store w)\<lparr>ls_imports := idb\<rparr>, xt_aborted = False\<rparr>, 0, 0) (enumerate 2 rows)) (\<lambda>run.
                finish_reference srv (ie_import_id ie) (length rows) run)) of
             Inl e \<Rightarrow> (w, Inl e)
           | Inr (db, processed, failed) \<Rightarrow> (w\<lparr>lw_store := db\<rparr>,
               Inr \<lparr>ra_import = ie_import_id ie, ra_file = ie_file_id ie, ra_type = short, ra_total = length rows,
                    ra_processed = processed, ra_failed = failed\<rparr>)))"

definition run_reference_import ::
  "legacy_server \<Rightarrow> file_lib \<Rightarrow> import_env \<Rightarrow> (nat \<Rightarrow> sql_env) \<Rightarrow> string \<Rightarrow> string \<Rightarrow> (row \<Rightarrow> string result)
     \<Rightarrow> (row \<Rightarrow> string \<Rightarrow> nat \<Rightarrow> legacy_statement result) \<Rightarrow> string \<Rightarrow> upload \<Rightarrow> legacy_world
     \<Rightarrow> legacy_world \<times> reference_answer result" where
  "run_reference_import srv fl ie ev kind short place statement filename up w =
     (case and_then (read_bounded_upload (up_content up) (mebibytes 64) ''Ures fajl nem importalhato.''
                ''A referenciaimport legfeljebb 64 MiB lehet.'') (\<lambda>bs.
           and_then (reject_binary_text_payload bs ''A referenciaimport'') (\<lambda>_.
           and_then (parse_csv_bytes fl bs) (\<lambda>rows. Inr (bs, rows)))) of
        Inl e \<Rightarrow> (w, Inl e)
      | Inr (bs, rows) \<Rightarrow> store_reference_rows srv ie ev kind short place statement filename up bs rows w)"

definition import_reference_bands_csv ::
  "legacy_server \<Rightarrow> text_lib \<Rightarrow> file_lib \<Rightarrow> import_env \<Rightarrow> (nat \<Rightarrow> sql_env) \<Rightarrow> band_form \<Rightarrow> upload \<Rightarrow> legacy_world
     \<Rightarrow> legacy_world \<times> reference_answer result" where
  "import_reference_bands_csv srv lib fl ie ev form up =
     run_reference_import srv fl ie ev ''reference_bands'' ''bands'' (band_place lib form) (band_statement lib form)
       (upload_name up ''reference_bands.csv'') up"

definition point_fallback :: "point_form \<Rightarrow> upload \<Rightarrow> string" where
  "point_fallback form up = (if truthy (pf_reference_id form) then or_empty (pf_reference_id form)
     else path_stem (upload_name up ''reference_spectrum.csv''))"

definition import_reference_spectrum_csv ::
  "legacy_server \<Rightarrow> text_lib \<Rightarrow> file_lib \<Rightarrow> import_env \<Rightarrow> (nat \<Rightarrow> sql_env) \<Rightarrow> point_form \<Rightarrow> upload \<Rightarrow> legacy_world
     \<Rightarrow> legacy_world \<times> reference_answer result" where
  "import_reference_spectrum_csv srv lib fl ie ev form up =
     run_reference_import srv fl ie ev ''reference_spectrum'' ''spectrum'' (point_place lib form (point_fallback form up))
       (point_statement lib form (point_fallback form up) (upload_name up ''reference_spectrum.csv'') (ie_now ie))
       (upload_name up ''reference_spectrum.csv'') up"

subsection \<open>Images\<close>

record image_form =
  if_start_hz :: string
  if_end_hz :: string
  if_min_dbm :: string
  if_max_dbm :: string
  if_location_name :: "string option"
  if_source_name :: "string option"
  if_version :: "string option"
  if_notes :: "string option"

definition image_type :: "detected_image \<Rightarrow> string" where
  "image_type i = (case i of Png \<Rightarrow> ''image/png'' | Bmp \<Rightarrow> ''image/bmp'')"

text \<open>\<open>save_reference_asset\<close>: the name is \<open>uuid4()\<close>, the argument \<open>drawn\<close>, and the file's own name.\<close>

definition asset_path :: "string \<Rightarrow> string \<Rightarrow> string" where
  "asset_path drawn filename = ''uploads/reference_images/'' @ drawn @ ''_''
     @ (if path_name filename = [] then ''reference_image'' else path_name filename)"

definition image_ranges :: "text_lib \<Rightarrow> image_form \<Rightarrow> (int \<times> int \<times> rat \<times> rat) result" where
  "image_ranges lib form =
     (case (parse_frequency_hz lib (PStr (if_start_hz form)), parse_frequency_hz lib (PStr (if_end_hz form))) of
        (Some start, Some stop) \<Rightarrow>
          if stop \<le> start then Inl (HTTPException 400 ''Hibas frekvenciatartomany.'')
          else (case (parse_float lib (PStr (if_min_dbm form)), parse_float lib (PStr (if_max_dbm form))) of
              (Some low, Some high) \<Rightarrow>
                if high \<le> low then Inl (HTTPException 400 ''Hibas dBm tartomany.'') else Inr (start, stop, low, high)
            | _ \<Rightarrow> Inl (HTTPException 400 ''Hibas dBm tartomany.''))
      | _ \<Rightarrow> Inl (HTTPException 400 ''Hibas frekvenciatartomany.''))"

definition image_location :: "sql_env \<Rightarrow> string option \<Rightarrow> session_db \<Rightarrow> (session_db \<times> nat option) result" where
  "image_location ev name sdb =
     (if truthy name then and_then (ensure_location ev (or_empty name) sdb) (\<lambda>(sdb, l). Inr (sdb, Some l))
      else Inr (sdb, None))"

definition upload_reference_image ::
  "legacy_server \<Rightarrow> text_lib \<Rightarrow> import_env \<Rightarrow> string \<Rightarrow> image_form \<Rightarrow> upload \<Rightarrow> legacy_world
     \<Rightarrow> legacy_world \<times> (nat \<times> string \<times> int \<times> int) result" where
  "upload_reference_image srv lib ie drawn form up w =
     (let filename = upload_name up ''reference_image'' in
      case and_then (read_bounded_upload (up_content up) (mebibytes 20) ''Ures kep nem toltheto fel.''
                ''A referencia kep legfeljebb 20 MiB lehet.'') (\<lambda>bs.
           and_then (detect_reference_image bs filename) (\<lambda>kind.
           and_then (image_ranges lib form) (\<lambda>ranges.
           Inr (bs, kind, ranges)))) of
        Inl e \<Rightarrow> (w, Inl e)
      | Inr (bs, kind, start, stop, low, high) \<Rightarrow>
          (let path = asset_path drawn filename; w = put_file path bs w; db = lw_store w in
           case image_location (ie_sql ie) (if_location_name form) (im_sessions (ls_imports db)) of
             Inl e \<Rightarrow> (w, Inl e)
           | Inr (sdb, location) \<Rightarrow>
               (case execute_legacy srv (Insert_Image
                    \<lparr>ri_id = ie_file_id ie, ri_location = location, ri_location_name = if_location_name form,
                     ri_source_name = if_source_name form, ri_version = if_version form, ri_filename = filename,
                     ri_path = path, ri_content_type = image_type kind, ri_size = length bs, ri_sha256 = ie_sha256 ie bs,
                     ri_start_hz = start, ri_end_hz = stop, ri_min_dbm = low, ri_max_dbm = high,
                     ri_notes = if_notes form, ri_created = ev_now (ie_sql ie)\<rparr>)
                   \<lparr>xt_db = on_sessions sdb db, xt_aborted = False\<rparr> of
                  (Some e, _) \<Rightarrow> (w, Inl (RuntimeError e))
                | (None, tx) \<Rightarrow> (w\<lparr>lw_store := xt_db tx\<rparr>, Inr (ie_file_id ie, filename, start, stop)))))"

definition get_reference_image_file ::
  "(string \<Rightarrow> nat option) \<Rightarrow> string \<Rightarrow> legacy_world \<Rightarrow> (byte list \<times> string \<times> string) result" where
  "get_reference_image_file parse image_id w =
     (case parse image_id of
        None \<Rightarrow> Inl (RuntimeError ''invalid input syntax for type uuid'')
      | Some i \<Rightarrow>
          (case filter (\<lambda>r. ri_id r = i) (ls_images (lw_store w)) of
             [] \<Rightarrow> Inl (HTTPException 404 ''Referencia kep nem talalhato.'')
           | r # _ \<Rightarrow>
               (case map_of (lw_disk w) (ri_path r) of
                  None \<Rightarrow> Inl (HTTPException 404 ''Referencia kep fajl nem talalhato.'')
                | Some bs \<Rightarrow> Inr (bs, ri_content_type r, ri_filename r))))"

subsection \<open>Listings\<close>

text \<open>A range that lacks one of its ends is ignored by all three listings.\<close>

definition overlap_clause :: "int option \<Rightarrow> int option \<Rightarrow> int \<Rightarrow> int \<Rightarrow> bool" where
  "overlap_clause start stop row_start row_end =
     (case (start, stop) of (Some a, Some b) \<Rightarrow> a \<le> row_end \<and> row_start \<le> b | _ \<Rightarrow> True)"

definition place_clause :: "string option \<Rightarrow> string option \<Rightarrow> bool" where
  "place_clause wanted name = (truthy wanted \<longrightarrow> (\<exists>n. name = Some n \<and> py_lower n = py_lower (or_empty wanted)))"

lemma place_clause_code [code]:
  "place_clause wanted name = (if truthy wanted then (case name of None \<Rightarrow> False | Some n \<Rightarrow> py_lower n = py_lower (or_empty wanted)) else True)"
  by (auto simp: place_clause_def split: option.splits)

definition list_reference_bands :: "int option \<Rightarrow> int option \<Rightarrow> string option \<Rightarrow> legacy_store \<Rightarrow> reference_band list" where
  "list_reference_bands start stop place db =
     take 1000 (sort_key (\<lambda>b. (- rb_priority b, rb_start_hz b))
       (filter (\<lambda>b. overlap_clause start stop (rb_start_hz b) (rb_end_hz b) \<and> place_clause place (Some (rb_location_name b)))
         (ls_bands db)))"

definition point_hz :: "legacy_point \<Rightarrow> int" where
  "point_hz p = or_default (lp_actual_hz p) (lp_measured_hz p)"

definition list_reference_spectrum_points ::
  "string option \<Rightarrow> string option \<Rightarrow> int option \<Rightarrow> int option \<Rightarrow> int \<Rightarrow> legacy_store \<Rightarrow> legacy_point list" where
  "list_reference_spectrum_points reference place start stop limit db =
     take (nat (max 100 (min limit 20000))) (sort_key (\<lambda>p. (point_hz p, - utc_seconds (lp_time p)))
       (filter (\<lambda>p. (truthy reference \<longrightarrow> lp_reference_id p = or_empty reference)
           \<and> place_clause place (Some (lp_location_name p))
           \<and> (case (start, stop) of (Some a, Some b) \<Rightarrow> a \<le> point_hz p \<and> point_hz p \<le> b | _ \<Rightarrow> True))
         (ls_points db)))"

definition list_reference_images :: "int option \<Rightarrow> int option \<Rightarrow> string option \<Rightarrow> legacy_store \<Rightarrow> reference_image list" where
  "list_reference_images start stop place db =
     take 200 (sort_key (\<lambda>i. - ri_created i)
       (filter (\<lambda>i. overlap_clause start stop (ri_start_hz i) (ri_end_hz i) \<and> place_clause place (ri_location_name i))
         (ls_images db)))"

subsection \<open>Lemmas\<close>

lemma execute_legacy_None: "execute_legacy srv st tx = (None, tx') \<longleftrightarrow>
    \<not> xt_aborted tx \<and> check_holds st \<and> srv st = Accepted \<and> tx' = tx\<lparr>xt_db := apply_legacy st (xt_db tx)\<rparr>"
  by (auto simp: execute_legacy_def split: verdict.splits if_splits)

lemma execute_legacy_db: "execute_legacy srv st tx = (Some e, tx') \<Longrightarrow> xt_db tx' = xt_db tx"
  by (auto simp: execute_legacy_def split: verdict.splits if_splits)

lemma on_sessions_simps [simp]:
  "ls_bands (on_sessions s db) = ls_bands db" "ls_points (on_sessions s db) = ls_points db"
  "ls_images (on_sessions s db) = ls_images db" "im_sessions (ls_imports (on_sessions s db)) = s"
  "im_errors (ls_imports (on_sessions s db)) = im_errors (ls_imports db)"
  "im_imports (ls_imports (on_sessions s db)) = im_imports (ls_imports db)"
  by (simp_all add: on_sessions_def)

definition known_place :: "string \<Rightarrow> legacy_store \<Rightarrow> bool" where
  "known_place name db = (\<exists>l\<in>set (sd_locations (im_sessions (ls_imports db))). same_place (lo_name l) (py_strip name))"

text \<open>
  What the row loop relies on of an importer: its statement adds one row to its own table, keeps
  the records of the import and leaves the other tables as they are; a row the table's constraint
  lets in satisfies \<open>ok\<close>.
\<close>

locale reference_rows =
  fixes place :: "row \<Rightarrow> string result" and statement :: "row \<Rightarrow> string \<Rightarrow> nat \<Rightarrow> legacy_statement result"
    and table :: "legacy_store \<Rightarrow> 'r list" and others :: "legacy_store \<Rightarrow> 'o" and ok :: "'r \<Rightarrow> bool"
  assumes one_row: "statement row name l = Inr st \<Longrightarrow>
      \<exists>r. table (apply_legacy st db) = table db @ [r] \<and> (check_holds st \<longrightarrow> ok r)"
    and keeps_imports: "statement row name l = Inr st \<Longrightarrow> ls_imports (apply_legacy st db) = ls_imports db"
    and keeps_others: "statement row name l = Inr st \<Longrightarrow> others (apply_legacy st db) = others db"
    and frame: "table (db\<lparr>ls_imports := i\<rparr>) = table db" "others (db\<lparr>ls_imports := i\<rparr>) = others db"
begin

definition loop_ok :: "legacy_store \<Rightarrow> nat \<Rightarrow> legacy_tx \<times> nat \<times> nat \<Rightarrow> bool" where
  "loop_ok db n run \<longleftrightarrow> (case run of (tx, processed, failed) \<Rightarrow>
     processed + failed = n \<and> \<not> xt_aborted tx
     \<and> (\<exists>rows. table (xt_db tx) = table db @ rows \<and> length rows = processed \<and> (\<forall>r\<in>set rows. ok r))
     \<and> others (xt_db tx) = others db
     \<and> (\<exists>es. im_errors (ls_imports (xt_db tx)) = im_errors (ls_imports db) @ es \<and> length es = failed)
     \<and> im_imports (ls_imports (xt_db tx)) = im_imports (ls_imports db)
     \<and> set (sd_locations (im_sessions (ls_imports db))) \<subseteq> set (sd_locations (im_sessions (ls_imports (xt_db tx)))))"

lemma row_failed:
  assumes "reference_row srv ev place statement row tx = (Some e, tx')"
  shows "table (xt_db tx') = table (xt_db tx) \<and> others (xt_db tx') = others (xt_db tx)
    \<and> im_errors (ls_imports (xt_db tx')) = im_errors (ls_imports (xt_db tx))
    \<and> im_imports (ls_imports (xt_db tx')) = im_imports (ls_imports (xt_db tx))
    \<and> set (sd_locations (im_sessions (ls_imports (xt_db tx)))) \<subseteq> set (sd_locations (im_sessions (ls_imports (xt_db tx'))))"
proof -
  have f: "table (on_sessions s db) = table db" "others (on_sessions s db) = others db" for s db
    by (simp_all add: on_sessions_def frame)
  let ?sdb = "im_sessions (ls_imports (xt_db tx))"
  have "xt_db tx' = xt_db tx \<or> (\<exists>name sdb l. ensure_location ev name ?sdb = Inr (sdb, l) \<and> xt_db tx' = on_sessions sdb (xt_db tx))"
  proof (cases "place row")
    case (Inr name)
    show ?thesis
    proof (cases "ensure_location ev name ?sdb")
      case (Inr sl)
      obtain sdb l where sl: "sl = (sdb, l)" by (cases sl)
      have "xt_db tx' = xt_db tx \<or> xt_db tx' = on_sessions sdb (xt_db tx)"
        using assms \<open>place row = Inr name\<close> Inr sl
        by (cases "statement row name l") (auto simp: reference_row_def Let_def split: if_splits dest!: execute_legacy_db)
      then show ?thesis using Inr sl by blast
    qed (use assms Inr in \<open>auto simp: reference_row_def split: if_splits\<close>)
  qed (use assms in \<open>simp add: reference_row_def\<close>)
  then consider (unchanged) "xt_db tx' = xt_db tx"
    | (placed) name sdb l where "ensure_location ev name ?sdb = Inr (sdb, l)" "xt_db tx' = on_sessions sdb (xt_db tx)"
    by blast
  then show ?thesis
  proof cases
    case placed
    then show ?thesis using ensure_location_result(3) [OF placed(1)] by (simp add: f)
  qed simp
qed

lemma row_stored:
  assumes "reference_row srv ev place statement row tx = (None, tx')"
  shows "\<not> xt_aborted tx' \<and> (\<exists>r. table (xt_db tx') = table (xt_db tx) @ [r] \<and> ok r) \<and> others (xt_db tx') = others (xt_db tx)
    \<and> im_errors (ls_imports (xt_db tx')) = im_errors (ls_imports (xt_db tx))
    \<and> im_imports (ls_imports (xt_db tx')) = im_imports (ls_imports (xt_db tx))
    \<and> set (sd_locations (im_sessions (ls_imports (xt_db tx)))) \<subseteq> set (sd_locations (im_sessions (ls_imports (xt_db tx'))))"
proof -
  obtain name sdb l st where s: "ensure_location ev name (im_sessions (ls_imports (xt_db tx))) = Inr (sdb, l)"
    "statement row name l = Inr st" "execute_legacy srv st (tx\<lparr>xt_db := on_sessions sdb (xt_db tx)\<rparr>) = (None, tx')"
    using assms by (auto simp: reference_row_def Let_def split: sum.splits if_splits)
  have f: "table (on_sessions s db) = table db" "others (on_sessions s db) = others db" for s db
    by (simp_all add: on_sessions_def frame)
  show ?thesis
    using s(3) one_row [OF s(2), of "on_sessions sdb (xt_db tx)"] keeps_imports [OF s(2), of "on_sessions sdb (xt_db tx)"]
      keeps_others [OF s(2), of "on_sessions sdb (xt_db tx)"] ensure_location_result(3) [OF s(1)]
    by (auto simp: execute_legacy_None f)
qed

lemma loop_step:
  assumes "loop_ok db n run" and "reference_row_step srv ev i kind place statement run item = Inr run'"
  shows "loop_ok db (Suc n) run'"
proof -
  obtain tx p k m row where r: "run = (tx, p, k)" "item = (m, row)" by (cases run, cases item) auto
  obtain e tx1 where e: "reference_row srv (ev m) place statement row tx = (e, tx1)" by fastforce
  show ?thesis
  proof (cases e)
    case None
    then show ?thesis using assms row_stored [OF e [unfolded None]]
      by (auto simp: r e reference_row_step_def loop_ok_def Let_def)
  next
    case (Some msg)
    then show ?thesis using assms row_failed [OF e [unfolded Some]] frame
      by (auto simp: r e reference_row_step_def loop_ok_def Let_def execute_legacy_None split: prod.splits option.splits)
  qed
qed

lemma loop_fold:
  "loop_ok db n run \<Longrightarrow> fold_result (reference_row_step srv ev i kind place statement) run items = Inr run'
    \<Longrightarrow> loop_ok db (n + length items) run'"
proof (induction items arbitrary: n run)
  case (Cons item items)
  then obtain run1 where "reference_row_step srv ev i kind place statement run item = Inr run1"
    "fold_result (reference_row_step srv ev i kind place statement) run1 items = Inr run'"
    by (auto simp: and_then_Inr_iff)
  with Cons.IH [OF loop_step [OF Cons.prems(1)]] show ?case by simp
qed simp

lemma start_loop: "loop_ok db 0 (\<lparr>xt_db = db, xt_aborted = False\<rparr>, 0, 0)"
  by (simp add: loop_ok_def)

text \<open>A row of a known place whose statement violates the constraint stops the import.\<close>

lemma violation_stops:
  assumes "place row = Inr name" "py_strip name \<noteq> []" "known_place name db"
    and "\<And>l. \<exists>st. statement row name l = Inr st \<and> \<not> check_holds st"
    and "loop_ok db n run"
  shows "\<not> is_ok (reference_row_step srv ev i kind place statement run (m, row))"
proof -
  obtain tx p k where r: "run = (tx, p, k)" by (cases run) auto
  have known: "filter (\<lambda>l. same_place (lo_name l) (py_strip name)) (sd_locations (im_sessions (ls_imports (xt_db tx)))) \<noteq> []"
    using assms(3,5) by (auto simp: r loop_ok_def known_place_def filter_empty_conv)
  then obtain l ls where l: "filter (\<lambda>l. same_place (lo_name l) (py_strip name)) (sd_locations (im_sessions (ls_imports (xt_db tx)))) = l # ls"
    by (cases "filter (\<lambda>l. same_place (lo_name l) (py_strip name)) (sd_locations (im_sessions (ls_imports (xt_db tx))))") auto
  obtain st where st: "statement row name (lo_id l) = Inr st" "\<not> check_holds st" using assms(4) by blast
  have "\<not> xt_aborted tx" using assms(5) by (simp add: r loop_ok_def)
  then show ?thesis using assms(1,2) l st
    by (simp add: r reference_row_step_def reference_row_def ensure_location_def execute_legacy_def Let_def)
qed

lemma violation_stops_all:
  assumes "(m, row) \<in> set items" "place row = Inr name" "py_strip name \<noteq> []" "known_place name db"
    and "\<And>l. \<exists>st. statement row name l = Inr st \<and> \<not> check_holds st"
    and "loop_ok db n run"
  shows "\<not> is_ok (fold_result (reference_row_step srv ev i kind place statement) run items)"
  using assms(1,6)
proof (induction items arbitrary: n run)
  case (Cons item items)
  show ?case
  proof (cases "reference_row_step srv ev i kind place statement run item")
    case (Inr run1)
    then have "item \<noteq> (m, row)" using violation_stops [OF assms(2-5) Cons.prems(2), where m = m and srv = srv and ev = ev and i = i and kind = kind]
      by auto
    with Cons Inr loop_step [OF Cons.prems(2) Inr] show ?thesis by auto
  qed simp
qed simp

end

text \<open>The two importers.\<close>

lemma required_hz_cases: "and_then (required_hz lib row hs ks) f = Inr x \<Longrightarrow> \<exists>hz. f hz = Inr x"
  by (auto simp: and_then_Inr_iff)

lemma band_statement_Inr: "band_statement lib form row place l = Inr st \<Longrightarrow>
    \<exists>b. st = Insert_Band b \<and> rb_location_name b = place \<and> rb_location b = l"
  by (auto simp: band_statement_def and_then_Inr_iff Let_def)

lemma point_statement_Inr: "point_statement lib form fb fn now row place l = Inr st \<Longrightarrow>
    \<exists>p. st = Insert_Point p \<and> lp_location_name p = place \<and> lp_location p = l"
  by (auto simp: point_statement_def and_then_Inr_iff Let_def)

interpretation bands: reference_rows "band_place lib form" "band_statement lib form" ls_bands
    "\<lambda>db. (ls_points db, ls_images db)" "\<lambda>b. rb_start_hz b < rb_end_hz b" for lib form
  by unfold_locales (auto dest!: band_statement_Inr)

interpretation points: reference_rows "point_place lib form fb" "point_statement lib form fb fn now" ls_points
    "\<lambda>db. (ls_bands db, ls_images db)" "\<lambda>_. True" for lib form fb fn now
  by unfold_locales (auto dest!: point_statement_Inr)

definition reference_import_ok ::
  "(legacy_store \<Rightarrow> 'r list) \<Rightarrow> (legacy_store \<Rightarrow> 'o) \<Rightarrow> ('r \<Rightarrow> bool) \<Rightarrow> legacy_world \<Rightarrow> legacy_world \<Rightarrow> reference_answer \<Rightarrow> bool" where
  "reference_import_ok table others ok w w' ans \<longleftrightarrow>
     ra_processed ans + ra_failed ans = ra_total ans
     \<and> (\<exists>rows. table (lw_store w') = table (lw_store w) @ rows \<and> length rows = ra_processed ans \<and> (\<forall>r\<in>set rows. ok r))
     \<and> others (lw_store w') = others (lw_store w)
     \<and> (\<exists>es. im_errors (ls_imports (lw_store w')) = im_errors (ls_imports (lw_store w)) @ es \<and> length es = ra_failed ans)
     \<and> (\<exists>c\<in>set (im_imports (ls_imports (lw_store w'))). ci_id c = ra_import ans \<and> ci_total c = ra_total ans
          \<and> ci_processed c = ra_processed ans \<and> ci_failed c = ra_failed ans
          \<and> ci_status c = (if ra_failed ans = 0 then ''completed'' else ''completed_with_errors''))"

lemma create_csv_import_Inr: "create_csv_import i filename kind db = Inr db' \<Longrightarrow>
    i \<in> ci_id ` set (im_imports db') \<and> im_errors db' = im_errors db \<and> im_sessions db' = im_sessions db"
  by (auto simp: create_csv_import_def and_then_Inr_iff insert_pk_Inr)

lemma read_bounded_upload_Inr: "read_bounded_upload content n e t = Inr bs \<Longrightarrow> bs = content \<and> bs \<noteq> [] \<and> int (length bs) \<le> n"
  by (auto simp: read_bounded_upload_def Let_def min_def split: if_splits)

lemma finished_record:
  assumes "c \<in> set (im_imports db)" "ci_id c = ci_id f"
  shows "\<exists>d\<in>set (im_imports (apply_statement (Finish_Import f) db)). ci_id d = ci_id f \<and> ci_status d = ci_status f
    \<and> ci_total d = ci_total f \<and> ci_processed d = ci_processed f \<and> ci_failed d = ci_failed f"
  using update_where_touched [OF assms(1), where p = "\<lambda>r. ci_id r = ci_id f"
      and f = "\<lambda>r. r\<lparr>ci_status := ci_status f, ci_total := ci_total f, ci_processed := ci_processed f,
        ci_failed := ci_failed f, ci_errors := ci_errors f\<rparr>"] assms(2)
  by (intro bexI) auto

lemma run_reference_import_Inr:
  assumes "run_reference_import srv fl ie ev kind short place statement filename up w = (w', Inr ans)"
  obtains rows idb idb1 run where "parse_csv_bytes fl (up_content up) = Inr rows"
    "create_csv_import (ie_import_id ie) filename kind (ls_imports (lw_store w)) = Inr idb"
    "save_uploaded_file ie filename up (up_content up) idb = Inr idb1"
    "fold_result (reference_row_step srv ev (ie_import_id ie) kind place statement)
       (\<lparr>xt_db = (lw_store w)\<lparr>ls_imports := idb1\<rparr>, xt_aborted = False\<rparr>, 0, 0) (enumerate 2 rows) = Inr run"
    "finish_reference srv (ie_import_id ie) (length rows) run = Inr (lw_store w', ra_processed ans, ra_failed ans)"
    "ra_import ans = ie_import_id ie" "ra_total ans = length rows"
proof -
  have "\<exists>bs rows idb idb1 run. bs = up_content up \<and> parse_csv_bytes fl bs = Inr rows
    \<and> create_csv_import (ie_import_id ie) filename kind (ls_imports (lw_store w)) = Inr idb
    \<and> save_uploaded_file ie filename up bs idb = Inr idb1
    \<and> fold_result (reference_row_step srv ev (ie_import_id ie) kind place statement)
       (\<lparr>xt_db = (lw_store w)\<lparr>ls_imports := idb1\<rparr>, xt_aborted = False\<rparr>, 0, 0) (enumerate 2 rows) = Inr run
    \<and> finish_reference srv (ie_import_id ie) (length rows) run = Inr (lw_store w', ra_processed ans, ra_failed ans)
    \<and> ra_import ans = ie_import_id ie \<and> ra_total ans = length rows"
    using assms
    by (auto simp: run_reference_import_def store_reference_rows_def put_file_def Let_def and_then_Inr_iff split: sum.splits
        dest!: read_bounded_upload_Inr)
  then show thesis using that by blast
qed

context reference_rows
begin

lemma import_ok:
  assumes "run_reference_import srv fl ie ev kind short place statement filename up w = (w', Inr ans)"
  shows "reference_import_ok table others ok w w' ans"
proof -
  obtain rows idb idb1 run where s: "create_csv_import (ie_import_id ie) filename kind (ls_imports (lw_store w)) = Inr idb"
    "save_uploaded_file ie filename up (up_content up) idb = Inr idb1"
    "fold_result (reference_row_step srv ev (ie_import_id ie) kind place statement)
       (\<lparr>xt_db = (lw_store w)\<lparr>ls_imports := idb1\<rparr>, xt_aborted = False\<rparr>, 0, 0) (enumerate 2 rows) = Inr run"
    "finish_reference srv (ie_import_id ie) (length rows) run = Inr (lw_store w', ra_processed ans, ra_failed ans)"
    "ra_import ans = ie_import_id ie" "ra_total ans = length rows"
    using assms by (rule run_reference_import_Inr)
  obtain tx p k where run: "run = (tx, p, k)" by (cases run)
  note l = loop_fold [OF start_loop s(3), unfolded run loop_ok_def, simplified]
  have im: "ie_import_id ie \<in> ci_id ` set (im_imports (ls_imports (xt_db tx)))"
    using l create_csv_import_Inr [OF s(1)] save_uploaded_file_Inr [OF s(2)] by simp
  have fin: "p = ra_processed ans" "k = ra_failed ans"
    "lw_store w' = apply_legacy (Import_Record (Finish_Import \<lparr>ci_id = ie_import_id ie, ci_filename = [], ci_type = [],
        ci_status = (if k = 0 then ''completed'' else ''completed_with_errors''), ci_total = length rows,
        ci_processed = p, ci_failed = k, ci_errors = []\<rparr>)) (xt_db tx)"
    using s(4) by (auto simp: finish_reference_def run Let_def execute_legacy_None split: prod.splits option.splits)
  obtain c where c: "c \<in> set (im_imports (ls_imports (xt_db tx)))" "ci_id c = ie_import_id ie" using im by auto
  show ?thesis
    unfolding reference_import_ok_def
  proof (intro conjI)
    show "\<exists>c\<in>set (im_imports (ls_imports (lw_store w'))). ci_id c = ra_import ans \<and> ci_total c = ra_total ans
          \<and> ci_processed c = ra_processed ans \<and> ci_failed c = ra_failed ans
          \<and> ci_status c = (if ra_failed ans = 0 then ''completed'' else ''completed_with_errors'')"
      using finished_record [of c "ls_imports (xt_db tx)" "\<lparr>ci_id = ie_import_id ie, ci_filename = [], ci_type = [],
        ci_status = (if k = 0 then ''completed'' else ''completed_with_errors''), ci_total = length rows,
        ci_processed = p, ci_failed = k, ci_errors = []\<rparr>"] c
      by (auto simp: fin(3) s(5,6) fin(1,2) simp del: apply_statement.simps)
  qed (use l fin save_uploaded_file_Inr [OF s(2)] create_csv_import_Inr [OF s(1)] in \<open>auto simp: s(6) frame\<close>)
qed

lemma violation_loses_import:
  assumes "parse_csv_bytes fl (up_content up) = Inr rows" "row \<in> set rows" "place row = Inr name" "py_strip name \<noteq> []"
    and "known_place name (lw_store w)" and "\<And>l. \<exists>st. statement row name l = Inr st \<and> \<not> check_holds st"
  shows "\<exists>e w'. run_reference_import srv fl ie ev kind short place statement filename up w = (w', Inl e)
    \<and> lw_store w' = lw_store w"
proof (cases "run_reference_import srv fl ie ev kind short place statement filename up w")
  case (Pair w' r)
  show ?thesis
  proof (cases r)
    case (Inl e)
    then show ?thesis using Pair
      by (auto simp: run_reference_import_def store_reference_rows_def put_file_def Let_def split: sum.splits prod.splits)
  next
    case (Inr ans)
    obtain idb idb1 run where s: "create_csv_import (ie_import_id ie) filename kind (ls_imports (lw_store w)) = Inr idb"
      "save_uploaded_file ie filename up (up_content up) idb = Inr idb1"
      "fold_result (reference_row_step srv ev (ie_import_id ie) kind place statement)
         (\<lparr>xt_db = (lw_store w)\<lparr>ls_imports := idb1\<rparr>, xt_aborted = False\<rparr>, 0, 0) (enumerate 2 rows) = Inr run"
      using run_reference_import_Inr [OF Pair [unfolded Inr]] assms(1) by (metis Inr_inject)
    have kp: "known_place name ((lw_store w)\<lparr>ls_imports := idb1\<rparr>)"
      using assms(5) create_csv_import_Inr [OF s(1)] save_uploaded_file_Inr [OF s(2)] by (simp add: known_place_def)
    from assms(2) obtain m where "(m, row) \<in> set (enumerate 2 rows)"
      by (metis in_set_enumerate_eq in_set_conv_nth add.commute fst_conv snd_conv le_add1 add_diff_cancel_left' nat_add_left_cancel_less)
    from violation_stops_all [OF this assms(3,4) kp assms(6) start_loop, where srv = srv and ev = ev and i = "ie_import_id ie" and kind = kind]
    show ?thesis by (simp add: s(3))
  qed
qed

end

lemma image_ranges_Inr: "image_ranges lib form = Inr (start, stop, low, high) \<Longrightarrow>
    parse_frequency_hz lib (PStr (if_start_hz form)) = Some start \<and> parse_frequency_hz lib (PStr (if_end_hz form)) = Some stop
    \<and> start < stop \<and> low < high"
  by (auto simp: image_ranges_def split: option.splits if_splits)

lemma read_small_upload:
  assumes "content \<noteq> []" "int (length content) \<le> n" "0 \<le> n"
  shows "read_bounded_upload content (mebibytes (n + 1)) a b = Inr content"
proof -
  have "int (length content) \<le> mebibytes (n + 1)" using assms by (simp add: mebibytes_def)
  moreover from this have "length content \<le> nat (mebibytes (n + 1) + 1)" by linarith
  ultimately show ?thesis using assms by (simp add: read_bounded_upload_def Let_def) (simp add: mebibytes_def)
qed

subsection \<open>Properties\<close>

definition sample_band_row :: "string \<Rightarrow> string \<Rightarrow> row" where
  "sample_band_row start stop = [(''Band'', PStr ''ISM''), (''location'', PStr ''lab''), (''start_hz'', PStr start), (''end_hz'', PStr stop)]"

definition sample_band_form :: band_form where
  "sample_band_form = \<lparr>bf_source_name = Some ''plan'', bf_version = None, bf_location_name = None\<rparr>"

definition sample_band_files :: "row list \<Rightarrow> file_lib" where
  "sample_band_files rows = \<lparr>fl_utf8_sig = \<lambda>_. Some ''csv'', fl_csv = \<lambda>_. (Some [''band''], rows), fl_json = \<lambda>_. None\<rparr>"

definition sample_legacy_world :: legacy_world where
  "sample_legacy_world = \<lparr>lw_store = \<lparr>ls_imports = wd_db sample_world, ls_bands = [], ls_points = [], ls_images = []\<rparr>, lw_disk = []\<rparr>"

lemma sample_band_import: "\<exists>w' ans. import_reference_bands_csv (\<lambda>_. Accepted) sample_lib
      (sample_band_files [sample_band_row ''7'' ''9'', sample_band_row ''x'' ''9'', sample_band_row ''8'' ''9''])
      sample_import_env sample_env sample_band_form sample_upload sample_legacy_world = (w', Inr ans)
    \<and> ra_processed ans = 2 \<and> ra_failed ans = 1"
proof -
  let ?rows = "[sample_band_row ''7'' ''9'', sample_band_row ''x'' ''9'', sample_band_row ''8'' ''9'']"
  let ?run = "store_reference_rows (\<lambda>_. Accepted) sample_import_env sample_env ''reference_bands'' ''bands'' (band_place sample_lib sample_band_form)
       (band_statement sample_lib sample_band_form) ''scan.csv'' sample_upload [0x61] ?rows sample_legacy_world"
  have "case snd ?run of Inl _ \<Rightarrow> False | Inr ans \<Rightarrow> ra_processed ans = 2 \<and> ra_failed ans = 1" by code_simp
  moreover have "upload_name sample_upload ''reference_bands.csv'' = ''scan.csv''" by code_simp
  moreover have "reject_binary_text_payload [0x61] ''A referenciaimport'' = Inr ()" by code_simp
  ultimately show ?thesis using read_small_upload [of "[0x61]" 63]
    by (cases ?run) (auto simp: import_reference_bands_csv_def run_reference_import_def sample_upload_def sample_band_files_def
        parse_csv_bytes_def split: sum.splits)
qed

text \<open>
  An import of reference bands or spectrum points that is answered accounts for every row of its
  file: each is either one new row of its table, appended in order, or one new row of the table of
  import errors, with the totals of the answer and of the import's record agreeing; the other
  reference tables are untouched, and every band stored has its lower end below its upper end.
\<close>

theorem reference_import_accounts:
  "(import_reference_bands_csv srv lib fl ie ev bform up w = (w1, Inr a1) \<longrightarrow>
      reference_import_ok ls_bands (\<lambda>db. (ls_points db, ls_images db)) (\<lambda>b. rb_start_hz b < rb_end_hz b) w w1 a1)
   \<and> (import_reference_spectrum_csv srv lib fl ie ev pform up w = (w2, Inr a2) \<longrightarrow>
      reference_import_ok ls_points (\<lambda>db. (ls_bands db, ls_images db)) (\<lambda>_. True) w w2 a2)"
  unfolding import_reference_bands_csv_def import_reference_spectrum_csv_def
  by (auto intro: bands.import_ok points.import_ok)

lemma reference_import_accounts_witness:
  "\<exists>w' ans. import_reference_bands_csv (\<lambda>_. Accepted) sample_lib
      (sample_band_files [sample_band_row ''7'' ''9'', sample_band_row ''x'' ''9'', sample_band_row ''8'' ''9''])
      sample_import_env sample_env sample_band_form sample_upload sample_legacy_world = (w', Inr ans)
    \<and> ra_total ans = 3 \<and> length (ls_bands (lw_store w')) = 2"
proof -
  obtain w' ans where s: "import_reference_bands_csv (\<lambda>_. Accepted) sample_lib
      (sample_band_files [sample_band_row ''7'' ''9'', sample_band_row ''x'' ''9'', sample_band_row ''8'' ''9''])
      sample_import_env sample_env sample_band_form sample_upload sample_legacy_world = (w', Inr ans)"
    "ra_processed ans = 2" "ra_failed ans = 1" using sample_band_import by blast
  from reference_import_accounts [THEN conjunct1, rule_format, OF s(1)] have "ra_total ans = 3 \<and> length (ls_bands (lw_store w')) = 2"
    using s(2,3) by (auto simp: reference_import_ok_def sample_legacy_world_def)
  with s(1) show ?thesis by blast
qed



text \<open>
  A reference image that is accepted has both ranges in order, and asking for its file gives back
  the uploaded bytes under the uploaded name, with the type its first bytes have and not the one the
  client claimed.
\<close>

theorem reference_image_roundtrip:
  assumes "upload_reference_image srv lib ie drawn form up w = (w', Inr (i, filename, start, stop))"
    and "\<forall>r\<in>set (ls_images (lw_store w)). ri_id r \<noteq> i" and "parse image_id = Some i"
  shows "\<exists>kind. detect_reference_image (up_content up) filename = Inr kind
    \<and> get_reference_image_file parse image_id w' = Inr (up_content up, image_type kind, filename)
    \<and> start < stop \<and> (\<exists>r. ls_images (lw_store w') = ls_images (lw_store w) @ [r]
        \<and> ri_start_hz r = start \<and> ri_end_hz r = stop \<and> ri_min_dbm r < ri_max_dbm r)"
proof -
  obtain bs kind low high sdb location tx where s: "bs = up_content up" "detect_reference_image bs filename = Inr kind"
    "image_ranges lib form = Inr (start, stop, low, high)" "filename = upload_name up ''reference_image''" "i = ie_file_id ie"
    "execute_legacy srv (Insert_Image
                    \<lparr>ri_id = ie_file_id ie, ri_location = location, ri_location_name = if_location_name form,
                     ri_source_name = if_source_name form, ri_version = if_version form, ri_filename = filename,
                     ri_path = asset_path drawn filename, ri_content_type = image_type kind, ri_size = length bs, ri_sha256 = ie_sha256 ie bs,
                     ri_start_hz = start, ri_end_hz = stop, ri_min_dbm = low, ri_max_dbm = high,
                     ri_notes = if_notes form, ri_created = ev_now (ie_sql ie)\<rparr>)
                   \<lparr>xt_db = on_sessions sdb (lw_store w), xt_aborted = False\<rparr> = (None, tx)"
    "w' = (put_file (asset_path drawn filename) bs w)\<lparr>lw_store := xt_db tx\<rparr>"
    using assms(1)
    by (fastforce simp: upload_reference_image_def Let_def and_then_Inr_iff put_file_def split: sum.splits prod.splits option.splits
        dest!: read_bounded_upload_Inr)
  have "ls_images (lw_store w') = ls_images (lw_store w) @ [\<lparr>ri_id = ie_file_id ie, ri_location = location, ri_location_name = if_location_name form,
                     ri_source_name = if_source_name form, ri_version = if_version form, ri_filename = filename,
                     ri_path = asset_path drawn filename, ri_content_type = image_type kind, ri_size = length bs, ri_sha256 = ie_sha256 ie bs,
                     ri_start_hz = start, ri_end_hz = stop, ri_min_dbm = low, ri_max_dbm = high,
                     ri_notes = if_notes form, ri_created = ev_now (ie_sql ie)\<rparr>]"
    using s(6) by (simp add: execute_legacy_None s(7))
  moreover have "filter (\<lambda>r. ri_id r = i) (ls_images (lw_store w)) = []" using assms(2) by (simp add: filter_empty_conv)
  moreover have "map_of (lw_disk w') (asset_path drawn filename) = Some bs" by (simp add: s(7) put_file_def)
  ultimately show ?thesis using s(2,3) assms(3) image_ranges_Inr [OF s(3)]
    by (auto simp: get_reference_image_file_def s(1,5))
qed

definition sample_image_form :: image_form where
  "sample_image_form = \<lparr>if_start_hz = ''1 MHz'', if_end_hz = ''2 MHz'', if_min_dbm = ''-90'', if_max_dbm = ''-20'',
     if_location_name = Some ''lab'', if_source_name = None, if_version = None, if_notes = None\<rparr>"

definition sample_image :: upload where
  "sample_image = \<lparr>up_filename = Some ''a.bmp'', up_content = [0x42, 0x4D], up_content_type = Some ''image/png''\<rparr>"

lemma reference_image_roundtrip_witness:
  "\<exists>w'. upload_reference_image (\<lambda>_. Accepted) sample_lib sample_import_env ''u'' sample_image_form sample_image sample_legacy_world
      = (w', Inr (9, ''a.bmp'', 1000000, 2000000))
    \<and> get_reference_image_file (\<lambda>_. Some 9) ''9'' w' = Inr ([0x42, 0x4D], ''image/bmp'', ''a.bmp'')"
proof -
  have parts: "image_ranges sample_lib sample_image_form = Inr (1000000, 2000000, -90, -20)"
    "upload_name sample_image ''reference_image'' = ''a.bmp''" "detect_reference_image [0x42, 0x4D] ''a.bmp'' = Inr Bmp"
    "is_ok (image_location (ie_sql sample_import_env) (if_location_name sample_image_form) (im_sessions (wd_db sample_world)))"
    by code_simp+
  have "\<exists>w'. upload_reference_image (\<lambda>_. Accepted) sample_lib sample_import_env ''u'' sample_image_form sample_image sample_legacy_world
      = (w', Inr (9, ''a.bmp'', 1000000, 2000000))"
    using parts read_small_upload [of "[0x42, 0x4D]" 19]
    by (auto simp: upload_reference_image_def Let_def is_ok_iff put_file_def sample_legacy_world_def execute_legacy_def
        sample_image_def sample_import_env_def)
  then obtain w' where s: "upload_reference_image (\<lambda>_. Accepted) sample_lib sample_import_env ''u'' sample_image_form sample_image sample_legacy_world
      = (w', Inr (9, ''a.bmp'', 1000000, 2000000))" by blast
  from reference_image_roundtrip [OF s, of "\<lambda>_. Some 9" "''9''"] parts(3)
  have "get_reference_image_file (\<lambda>_. Some 9) ''9'' w' = Inr ([0x42, 0x4D], ''image/bmp'', ''a.bmp'')"
    by (auto simp: sample_legacy_world_def sample_image_def image_type_def)
  with s show ?thesis by blast
qed

text \<open>
  The bands listed for a range are those that have a frequency in common with it, highest priority
  first, as long as no more than a thousand match; a range that lacks an end is no restriction.
\<close>

lemma bands_listed:
  assumes "\<forall>r\<in>set (ls_bands db). rb_start_hz r < rb_end_hz r" and "a \<le> b"
    and "length (ls_bands db) \<le> 1000"
  shows "r \<in> set (list_reference_bands (Some a) (Some b) None db) \<longleftrightarrow>
      r \<in> set (ls_bands db) \<and> (\<exists>f. a \<le> f \<and> f \<le> b \<and> rb_start_hz r \<le> f \<and> f \<le> rb_end_hz r)"
    and "set (list_reference_bands (Some a) None None db) = set (ls_bands db)"
proof -
  have full: "list_reference_bands start stop None db = sort_key (\<lambda>b. (- rb_priority b, rb_start_hz b))
      (filter (\<lambda>b. overlap_clause start stop (rb_start_hz b) (rb_end_hz b)) (ls_bands db))" for start stop
    using assms(3) by (simp add: list_reference_bands_def place_clause_def le_trans [OF length_filter_le])
  have "a \<le> rb_end_hz r \<and> rb_start_hz r \<le> b \<longleftrightarrow> (\<exists>f. a \<le> f \<and> f \<le> b \<and> rb_start_hz r \<le> f \<and> f \<le> rb_end_hz r)"
    if "r \<in> set (ls_bands db)"
  proof
    assume "a \<le> rb_end_hz r \<and> rb_start_hz r \<le> b"
    then show "\<exists>f. a \<le> f \<and> f \<le> b \<and> rb_start_hz r \<le> f \<and> f \<le> rb_end_hz r"
      using assms(1,2) that by (intro exI [of _ "max a (rb_start_hz r)"]) force
  qed auto
  then show "r \<in> set (list_reference_bands (Some a) (Some b) None db) \<longleftrightarrow>
      r \<in> set (ls_bands db) \<and> (\<exists>f. a \<le> f \<and> f \<le> b \<and> rb_start_hz r \<le> f \<and> f \<le> rb_end_hz r)"
    by (auto simp: full overlap_clause_def)
  show "set (list_reference_bands (Some a) None None db) = set (ls_bands db)" by (simp add: full overlap_clause_def)
qed

end
