(* ===== verification/Rf_Gateway.thy ===== *)
theory Rf_Gateway
  imports Settings Imports
begin

section \<open>The gateway to the RF agent\<close>

text \<open>
  \<open>app/rf_agent_client.py\<close> and \<open>routers/rf_agent.py\<close>: the HTTP client of the native agent, the
  routes that hand a request over, the storing of a finished recording's metadata and the readiness
  of the SDRangel demodulators. The agent is an argument: what an HTTP exchange with it ends in. A
  handler that makes several exchanges returns the list of requests it has sent. The agent and its C++
  sources are not modelled.
\<close>

subsection \<open>Settings\<close>

record rf_settings =
  rfs_enabled :: bool
  rfs_base_url :: string
  rfs_timeout :: pyfloat

text \<open>\<open>max(0.5, min(30.0, x))\<close>: \<open>min\<close> and \<open>max\<close> return their first argument unless the second is smaller (greater).\<close>

definition clamp_timeout :: "pyfloat \<Rightarrow> pyfloat" where
  "clamp_timeout x =
     (let y = (if float_less x (Fin 30) then x else Fin 30) in if float_less (Fin (1 / 2)) y then y else Fin (1 / 2))"

definition rf_settings_from_env :: "(string \<Rightarrow> pyfloat option) \<Rightarrow> env \<Rightarrow> rf_settings" where
  "rf_settings_from_env flt env =
     \<lparr>rfs_enabled = py_lower (py_strip (getenv env ''RF_AGENT_INTEGRATION_ENABLED'' ''true'')) \<in> set truths,
      rfs_base_url = rstrip_slash (getenv env ''RF_AGENT_URL'' ''http://rf-agent:8765''),
      rfs_timeout = (case flt (getenv env ''RF_AGENT_TIMEOUT_SECONDS'' ''3'') of None \<Rightarrow> Fin 3 | Some x \<Rightarrow> clamp_timeout x)\<rparr>"

subsection \<open>The client\<close>

record agent_request =
  ag_method :: string
  ag_path :: string
  ag_body :: "pyval option"

text \<open>
  How an exchange ends: a parsed JSON answer, an HTTP error with its body when that is JSON, or any
  other failure (no connection, a timeout, an answer that is not JSON) with its text.
\<close>

datatype agent_reply =
    Answer pyval
  | Http_Status int "pyval option" string
  | Broken string

type_synonym agent = "agent_request \<Rightarrow> agent_reply"

definition http_details :: "pyval option \<Rightarrow> string \<Rightarrow> pyval" where
  "http_details body message = (case body of
     Some v \<Rightarrow> v
   | None \<Rightarrow> PDict [(''error'', PDict [(''code'', PStr ''RF_AGENT_HTTP_ERROR''), (''message'', PStr message)])])"

text \<open>\<open>RfAgentUnavailable\<close> is a \<open>RuntimeError\<close>; nothing else the client raises is one.\<close>

definition request_rf_agent :: "text_lib \<Rightarrow> agent \<Rightarrow> rf_settings \<Rightarrow> agent_request \<Rightarrow> row result" where
  "request_rf_agent lib agent st rq =
     (if \<not> rfs_enabled st then Inl (RuntimeError ''rf_agent_integration_disabled'')
      else if \<not> startswith (ag_path rq) ''/'' then Inl (ValueError ''RF agent path must start with slash'')
      else (case agent rq of
          Answer (PDict d) \<Rightarrow> Inr d
        | Answer _ \<Rightarrow> Inl (RuntimeError ''rf_agent_invalid_response'')
        | Http_Status code body message \<Rightarrow>
            Inl (RuntimeError (''rf_agent_http_'' @ int_text code @ '': '' @ tl_dumps lib (http_details body message)))
        | Broken message \<Rightarrow> Inl (RuntimeError (''rf_agent_unavailable: '' @ message))))"

definition rf_agent_status :: "text_lib \<Rightarrow> agent \<Rightarrow> rf_settings \<Rightarrow> row result" where
  "rf_agent_status lib agent st =
     (let answer = (\<lambda>enabled available status. [(''implemented'', PBool True), (''enabled'', PBool enabled),
            (''available'', PBool available), (''status'', PStr status), (''url'', PStr (rfs_base_url st))]) in
      if \<not> rfs_enabled st then Inr (answer False False ''disabled'')
      else (case request_rf_agent lib agent st \<lparr>ag_method = ''GET'', ag_path = ''/status'', ag_body = None\<rparr> of
          Inr value \<Rightarrow> Inr (answer True True ''ready'' @ [(''agent'', PDict value)])
        | Inl (RuntimeError e) \<Rightarrow> Inr (answer True False ''unreachable'' @ [(''error'', PStr e)])
        | Inl e \<Rightarrow> Inl e))"

definition rf_proxy :: "text_lib \<Rightarrow> agent \<Rightarrow> rf_settings \<Rightarrow> string \<Rightarrow> string \<Rightarrow> pyval option \<Rightarrow> row result" where
  "rf_proxy lib agent st path http_method body =
     (case request_rf_agent lib agent st \<lparr>ag_method = http_method, ag_path = path, ag_body = body\<rparr> of
        Inl (RuntimeError e) \<Rightarrow> Inl (HTTPException 503 e)
      | r \<Rightarrow> r)"

subsection \<open>Plain routes\<close>

text \<open>
  The public route, the agent's method and path, and where the body comes from: none, an empty
  object, or the fields of the request's model (the argument \<open>form\<close>, nulls dropped or kept).
\<close>

datatype body_kind = No_Body | Empty_Object | Fields bool

type_synonym route_table = "((string \<times> string) \<times> (string \<times> string \<times> body_kind)) list"

definition source_routes :: route_table where
  "source_routes =
    [((''GET'', ''/api/rf-agent/capabilities''), (''GET'', ''/capabilities'', No_Body)),
     ((''GET'', ''/api/rf-agent/sources''), (''GET'', ''/sources'', No_Body)),
     ((''POST'', ''/api/rf-agent/source/start''), (''POST'', ''/source/start'', Empty_Object)),
     ((''POST'', ''/api/rf-agent/source/stop''), (''POST'', ''/source/stop'', Empty_Object)),
     ((''POST'', ''/api/rf-agent/source/viewport''), (''POST'', ''/source/viewport'', Fields True)),
     ((''GET'', ''/api/rf-agent/recordings''), (''GET'', ''/recordings'', No_Body)),
     ((''GET'', ''/api/rf-agent/recordings/status''), (''GET'', ''/recordings/status'', No_Body))]"

definition recording_routes :: route_table where
  "recording_routes =
    [((''POST'', ''/api/rf-agent/recordings/start''), (''POST'', ''/recordings/start'', Fields True))]"

definition replay_routes :: route_table where
  "replay_routes =
    [((''POST'', ''/api/rf-agent/replay/start''), (''POST'', ''/replay/start'', Fields False)),
     ((''POST'', ''/api/rf-agent/replay/pause''), (''POST'', ''/replay/pause'', Empty_Object)),
     ((''POST'', ''/api/rf-agent/replay/resume''), (''POST'', ''/replay/resume'', Empty_Object)),
     ((''POST'', ''/api/rf-agent/replay/seek''), (''POST'', ''/replay/seek'', Fields False)),
     ((''POST'', ''/api/rf-agent/replay/stop''), (''POST'', ''/replay/stop'', Empty_Object))]"

definition adapter_routes :: route_table where
  "adapter_routes =
    [((''GET'', ''/api/rf-agent/aaronia/status''), (''GET'', ''/aaronia/status'', No_Body)),
     ((''POST'', ''/api/rf-agent/aaronia/probe''), (''POST'', ''/aaronia/probe'', Empty_Object)),
     ((''GET'', ''/api/rf-agent/usrp/status''), (''GET'', ''/usrp/status'', No_Body)),
     ((''POST'', ''/api/rf-agent/usrp/probe''), (''POST'', ''/usrp/probe'', Empty_Object)),
     ((''GET'', ''/api/rf-agent/hackrf/status''), (''GET'', ''/hackrf/status'', No_Body)),
     ((''POST'', ''/api/rf-agent/hackrf/probe''), (''POST'', ''/hackrf/probe'', Empty_Object)),
     ((''GET'', ''/api/rf-agent/sdrangel/status''), (''GET'', ''/sdrangel/status'', No_Body)),
     ((''GET'', ''/api/integrations/sdrangel/status''), (''GET'', ''/sdrangel/status'', No_Body)),
     ((''GET'', ''/api/integrations/sdrangel/devicesets''), (''GET'', ''/sdrangel/devicesets'', No_Body)),
     ((''GET'', ''/api/integrations/sdrangel/devices''), (''GET'', ''/sdrangel/devices'', No_Body)),
     ((''POST'', ''/api/integrations/sdrangel/devicesets''), (''POST'', ''/sdrangel/devicesets'', Fields False))]"

definition tune_routes :: route_table where
  "tune_routes =
    [((''POST'', ''/api/rf-agent/sdrangel/tune''), (''POST'', ''/sdrangel/tune'', Fields False))]"

definition demod_stop_routes :: route_table where
  "demod_stop_routes =
    [((''POST'', ''/api/rf-agent/sdrangel/demod/stop''), (''POST'', ''/sdrangel/demod/stop'', Fields True))]"

definition routes :: route_table where
  "routes = source_routes @ recording_routes @ replay_routes @ adapter_routes @ tune_routes @ demod_stop_routes"

definition not_null :: "row \<Rightarrow> row" where
  "not_null form = filter (\<lambda>(_, v). v \<noteq> PNone) form"

definition route_body :: "body_kind \<Rightarrow> row \<Rightarrow> pyval option" where
  "route_body kind form = (case kind of No_Body \<Rightarrow> None | Empty_Object \<Rightarrow> Some (PDict [])
     | Fields drop_nulls \<Rightarrow> Some (PDict (if drop_nulls then not_null form else form)))"

definition plain_route :: "text_lib \<Rightarrow> agent \<Rightarrow> rf_settings \<Rightarrow> string \<Rightarrow> string \<Rightarrow> row \<Rightarrow> row result option" where
  "plain_route lib agent st http_method path form =
     map_option (\<lambda>(m, p, kind). rf_proxy lib agent st p m (route_body kind form)) (map_of routes (http_method, path))"

text \<open>\<open>[A-Za-z0-9._-]{1,128}\<close>\<close>

definition id_char :: "char \<Rightarrow> bool" where
  "id_char c = (is_lower_alnum (char_lower c) \<or> c \<in> {CHR ''.'', CHR ''_'', CHR ''-''})"

definition get_rf_agent_recording :: "text_lib \<Rightarrow> agent \<Rightarrow> rf_settings \<Rightarrow> string \<Rightarrow> row result" where
  "get_rf_agent_recording lib agent st recording_id =
     (if \<not> (list_all id_char recording_id \<and> recording_id \<noteq> [] \<and> length recording_id \<le> 128)
      then Inl (HTTPException 422 ''invalid_recording_id'')
      else rf_proxy lib agent st (''/recordings/'' @ recording_id) ''GET'' None)"

definition update_sdrangel_demod :: "text_lib \<Rightarrow> agent \<Rightarrow> rf_settings \<Rightarrow> row \<Rightarrow> row result" where
  "update_sdrangel_demod lib agent st form =
     and_then (rf_proxy lib agent st ''/sdrangel/demod/update'' ''PATCH'' (Some (PDict (not_null form)))) (\<lambda>result.
     Inr (if dict_has result ''requested'' then result else result @ [(''requested'', PDict (not_null form))]))"

subsection \<open>Metadata of finished recordings\<close>

definition dict_set :: "row \<Rightarrow> string \<Rightarrow> pyval \<Rightarrow> row" where
  "dict_set d k v = (if dict_has d k then map (\<lambda>(k', v'). if k' = k then (k, v) else (k', v')) d else d @ [(k, v)])"

record stored_recording =
  rec_id :: string
  rec_session :: string
  rec_measurement :: "nat option"
  rec_sensor :: string
  rec_source_type :: string
  rec_source_device :: string
  rec_status :: string
  rec_started :: pyval
  rec_ended :: pyval
  rec_first_frame :: pyval
  rec_last_frame :: pyval
  rec_frame_count :: int
  rec_start_hz :: int
  rec_stop_hz :: int
  rec_points :: int
  rec_file :: string
  rec_compression :: string
  rec_algorithm :: string
  rec_checksum :: string
  rec_description :: pyval
  rec_metadata :: row

record gateway_audit =
  ga_event :: string
  ga_entity :: string
  ga_success :: bool
  ga_details :: row

definition recording_fields :: "string list" where
  "recording_fields = [''recording_id'', ''session_id'', ''sensor_id'', ''source_type'', ''source_device'', ''started_at'',
     ''frame_count'', ''start_frequency_hz'', ''stop_frequency_hz'', ''num_points'', ''frame_file'', ''compression'',
     ''checksum_algorithm'', ''checksum_sha256'']"

definition comma_list :: "string list \<Rightarrow> string" where
  "comma_list xs = (case xs of [] \<Rightarrow> [] | x # ys \<Rightarrow> x @ concat (map (\<lambda>y. '','' @ y) ys))"

definition recording_of :: "text_lib \<Rightarrow> nat option \<Rightarrow> row \<Rightarrow> row \<Rightarrow> stored_recording result" where
  "recording_of lib measurement metadata result =
     (let txt = (\<lambda>k. py_str lib (dict_get result k)) in
      and_then (to_int (dict_get result ''frame_count'')) (\<lambda>count.
      and_then (to_int (dict_get result ''start_frequency_hz'')) (\<lambda>start.
      and_then (to_int (dict_get result ''stop_frequency_hz'')) (\<lambda>stop.
      and_then (to_int (dict_get result ''num_points'')) (\<lambda>points.
      Inr \<lparr>rec_id = txt ''recording_id'', rec_session = txt ''session_id'', rec_measurement = measurement,
           rec_sensor = txt ''sensor_id'', rec_source_type = txt ''source_type'', rec_source_device = txt ''source_device'',
           rec_status = (if py_truthy (dict_get result ''status'') then txt ''status'' else ''completed''),
           rec_started = dict_get result ''started_at'', rec_ended = dict_get result ''ended_at'',
           rec_first_frame = dict_get result ''first_frame_timestamp'', rec_last_frame = dict_get result ''last_frame_timestamp'',
           rec_frame_count = count, rec_start_hz = start, rec_stop_hz = stop, rec_points = points,
           rec_file = txt ''frame_file'', rec_compression = txt ''compression'', rec_algorithm = txt ''checksum_algorithm'',
           rec_checksum = txt ''checksum_sha256'', rec_description = dict_get result ''description'',
           rec_metadata = metadata\<rparr>)))))"

text \<open>\<open>INSERT ... ON CONFLICT (recording_id) DO UPDATE\<close> of every column\<close>

definition upsert_recording :: "stored_recording \<Rightarrow> stored_recording list \<Rightarrow> stored_recording list" where
  "upsert_recording r rows =
     (if rec_id r \<in> set (map rec_id rows) then update_where (\<lambda>x. rec_id x = rec_id r) (\<lambda>_. r) rows else rows @ [r])"

text \<open>\<open>parse\<close> is \<open>uuid.UUID(text)\<close>; \<open>refusal\<close> is the server's error on a row, if it refuses it.\<close>

definition linked_session :: "(string \<Rightarrow> nat option) \<Rightarrow> session_db \<Rightarrow> string \<Rightarrow> nat option" where
  "linked_session parse sdb session =
     (case parse session of None \<Rightarrow> None | Some i \<Rightarrow> if i \<in> set (map se_id (sd_sessions sdb)) then Some i else None)"

definition persist_recording_metadata ::
  "text_lib \<Rightarrow> (string \<Rightarrow> nat option) \<Rightarrow> (stored_recording \<Rightarrow> string option) \<Rightarrow> session_db \<Rightarrow> row \<Rightarrow> stored_recording list
     \<Rightarrow> stored_recording list \<times> row \<times> gateway_audit list" where
  "persist_recording_metadata lib parse refusal sdb metadata recs =
     (let result = dict_set metadata ''metadata_persisted'' (PBool False);
          missing = filter (\<lambda>k. absent (dict_get result k)) recording_fields in
      if missing \<noteq> []
      then (recs, dict_set result ''metadata_persist_error'' (PStr (''missing_fields:'' @ comma_list missing)), [])
      else let session = py_str lib (dict_get result ''session_id''); measurement = linked_session parse sdb session in
      (case and_then (recording_of lib measurement metadata result) (\<lambda>r. case refusal r of
              Some e \<Rightarrow> Inl (RuntimeError e) | None \<Rightarrow> Inr r) of
         Inr r \<Rightarrow> (upsert_recording r recs,
           dict_set (dict_set result ''metadata_persisted'' (PBool True)) ''measurement_session_id''
             (case measurement of None \<Rightarrow> PNone | Some i \<Rightarrow> PStr (nat_text i)),
           [\<lparr>ga_event = ''recording.metadata.persisted'', ga_entity = rec_id r, ga_success = True,
             ga_details = [(''source_type'', dict_get result ''source_type''), (''frame_count'', dict_get result ''frame_count'')]\<rparr>])
       | Inl e \<Rightarrow> (recs, dict_set result ''metadata_persist_error'' (PStr (error_text e)),
           [\<lparr>ga_event = ''recording.metadata.persist_failed'',
             ga_entity = (if py_truthy (dict_get result ''recording_id'') then py_str lib (dict_get result ''recording_id'') else []),
             ga_success = False, ga_details = [(''error'', PStr (error_text e))]\<rparr>])))"

definition stop_rf_agent_recording ::
  "text_lib \<Rightarrow> agent \<Rightarrow> rf_settings \<Rightarrow> (string \<Rightarrow> nat option) \<Rightarrow> (stored_recording \<Rightarrow> string option) \<Rightarrow> session_db
     \<Rightarrow> stored_recording list \<Rightarrow> (stored_recording list \<times> row \<times> gateway_audit list) result" where
  "stop_rf_agent_recording lib agent st parse refusal sdb recs =
     and_then (rf_proxy lib agent st ''/recordings/stop'' ''POST'' (Some (PDict []))) (\<lambda>metadata.
     Inr (persist_recording_metadata lib parse refusal sdb metadata recs))"

text \<open>The order is the server's reading \<open>stamp\<close> of the time, latest first.\<close>

definition list_recording_metadata :: "(pyval \<Rightarrow> rat) \<Rightarrow> int \<Rightarrow> stored_recording list \<Rightarrow> stored_recording list" where
  "list_recording_metadata stamp limit recs =
     take (bounded_limit limit) (sort_key (\<lambda>r. - stamp (rec_started r)) recs)"

subsection \<open>Readiness and demodulators\<close>

record readiness =
  rdy_ready :: bool
  rdy_reasons :: "string list"
  rdy_control :: row
  rdy_devicesets :: row
  rdy_capabilities :: row
  rdy_source :: pyval
  rdy_native :: bool
  rdy_audio :: string
  rdy_demodulators :: "string list"

definition or_http :: "row result \<Rightarrow> (string \<Rightarrow> row) \<Rightarrow> row result" where
  "or_http r fallback = (case r of Inl (HTTPException _ m) \<Rightarrow> Inr (fallback m) | _ \<Rightarrow> r)"

definition dict_default :: "row \<Rightarrow> string \<Rightarrow> pyval \<Rightarrow> pyval" where
  "dict_default d k v = (if dict_has d k then dict_get d k else v)"

text \<open>\<open>source.get(''backend'') in {''usrp'', ''hackrf''}\<close>, evaluated only when the agent offers IQ data.\<close>

definition backend_native :: "pyval \<Rightarrow> bool result" where
  "backend_native source = (case source of
     PDict d \<Rightarrow> (case dict_get d ''backend'' of
         PList _ \<Rightarrow> Inl (TypeError ''unhashable type'') | PDict _ \<Rightarrow> Inl (TypeError ''unhashable type'')
       | v \<Rightarrow> Inr (v \<in> {PStr ''usrp'', PStr ''hackrf''}))
   | _ \<Rightarrow> Inl (AttributeError ''get''))"

definition native_demodulators :: "string list" where
  "native_demodulators = [''AM'', ''NFM'', ''WFM'']"

definition sdrangel_demodulators :: "string list" where
  "sdrangel_demodulators = [''AM'', ''NFM'', ''WFM'', ''BFM'', ''USB'', ''LSB'', ''DSB'', ''CW'', ''DSD'', ''FREEDV'', ''M17'', ''DAB'']"

definition get_sdrangel_readiness :: "text_lib \<Rightarrow> agent \<Rightarrow> rf_settings \<Rightarrow> readiness result" where
  "get_sdrangel_readiness lib agent st =
     (let ask = (\<lambda>path. rf_proxy lib agent st path ''GET'' None) in
      and_then (or_http (ask ''/sdrangel/status'') (\<lambda>e. [(''status'', PStr ''unreachable''),
        (''control_plane'', PStr ''unreachable''), (''error'', PStr e)])) (\<lambda>control.
      and_then (or_http (ask ''/sdrangel/devicesets'') (\<lambda>e. [(''devicesetcount'', PInt 0), (''error'', PStr e)])) (\<lambda>devicesets.
      and_then (or_http (ask ''/capabilities'') (\<lambda>e. [(''iq'', PBool False), (''error'', PStr e)])) (\<lambda>capabilities.
      and_then (or_http (ask ''/sources/current'') (\<lambda>_. [])) (\<lambda>current.
      let source = dict_default current ''source'' (PDict []) in
      and_then (if py_truthy (dict_get capabilities ''iq'') then backend_native source else Inr False) (\<lambda>native.
      let control_ready = dict_get control ''status'' = PStr ''ready'' \<and> dict_get control ''control_plane'' = PStr ''ready'' in
      and_then (to_int (dict_default devicesets ''devicesetcount'' (PInt 0))) (\<lambda>n.
      let reasons = (if \<not> native \<and> \<not> control_ready then [''sdrangel_control_not_ready''] else [])
            @ (if \<not> native \<and> \<not> 0 < n then [''sdrangel_deviceset_missing''] else []) in
      Inr \<lparr>rdy_ready = (reasons = []), rdy_reasons = reasons, rdy_control = control, rdy_devicesets = devicesets,
           rdy_capabilities = capabilities, rdy_source = source, rdy_native = native,
           rdy_audio = (if native then ''native_iq'' else if 0 < n then ''controlled_by_sdrangel'' else ''not_configured''),
           rdy_demodulators = (if native then native_demodulators else sdrangel_demodulators)\<rparr>)))))))"

text \<open>The first component is what the handler sends beyond the four questions of the readiness.\<close>

definition start_sdrangel_demod :: "text_lib \<Rightarrow> agent \<Rightarrow> rf_settings \<Rightarrow> row \<Rightarrow> agent_request list \<times> row result" where
  "start_sdrangel_demod lib agent st form =
     (case get_sdrangel_readiness lib agent st of
        Inl e \<Rightarrow> ([], Inl e)
      | Inr r \<Rightarrow>
          if \<not> rdy_ready r then ([], Inl (HTTPException 409 ''sdrangel_demod_not_ready''))
          else (let payload = not_null form;
                    rq = \<lparr>ag_method = ''POST'', ag_path = ''/sdrangel/demod/start'', ag_body = Some (PDict payload)\<rparr> in
            ([rq], and_then (rf_proxy lib agent st (ag_path rq) (ag_method rq) (ag_body rq)) (\<lambda>result.
              Inr (dict_set (dict_set result ''requested'' (PDict payload)) ''accepted_optional_settings''
                (PList (map PStr (filter (dict_has payload)
                  [''bandwidth_hz'', ''squelch_db'', ''audio_sample_rate'', ''audio_device'', ''volume'']))))))))"

subsection \<open>Lemmas\<close>

text \<open>The timeout is between half a second and thirty, also where the text says \<open>nan\<close> or \<open>inf\<close>.\<close>

lemma timeout_in_range:
  "\<exists>x. rfs_timeout (rf_settings_from_env flt env) = Fin x \<and> 1 / 2 \<le> x \<and> x \<le> 30"
proof -
  have "clamp_timeout x = Fin (case x of Fin r \<Rightarrow> max (1 / 2) (min r 30) | NegInf \<Rightarrow> 1 / 2 | _ \<Rightarrow> 30)" for x
    by (cases x) (auto simp: clamp_timeout_def Let_def max_def min_def)
  then show ?thesis by (auto simp: rf_settings_from_env_def split: option.splits pyfloat.splits)
qed

lemma request_errors:
  "request_rf_agent lib agent st rq = Inl e \<Longrightarrow> startswith (ag_path rq) ''/'' \<Longrightarrow> \<exists>m. e = RuntimeError m"
  by (auto simp: request_rf_agent_def split: if_splits agent_reply.splits pyval.splits)

lemma rf_proxy_errors:
  "rf_proxy lib agent st path m body = Inl e \<Longrightarrow> startswith path ''/'' \<Longrightarrow> \<exists>x. e = HTTPException 503 x"
  using request_errors [of lib agent st "\<lparr>ag_method = m, ag_path = path, ag_body = body\<rparr>"]
  by (auto simp: rf_proxy_def split: sum.splits py_error.splits)

text \<open>Every plain route leads to a path of the agent, so a route answers or fails with status 503.\<close>

lemma plain_route_503:
  assumes "plain_route lib agent st m path form = Some (Inl e)"
  shows "\<exists>x. e = HTTPException 503 x"
proof -
  obtain am ap kind where r: "((m, path), (am, ap, kind)) \<in> set routes" "rf_proxy lib agent st ap am (route_body kind form) = Inl e"
    using assms by (auto simp: plain_route_def dest: map_of_SomeD)
  have "list_all (\<lambda>(_, _, p, _). startswith p ''/'') routes" by (simp add: routes_def source_routes_def recording_routes_def replay_routes_def
      adapter_routes_def tune_routes_def demod_stop_routes_def)
  then have "startswith ap ''/''" using r(1) by (auto simp: list_all_iff)
  from rf_proxy_errors [OF r(2) this] show ?thesis .
qed

text \<open>With the agent gone or switched off the status still answers.\<close>

lemma rf_agent_status_total: "\<exists>answer. rf_agent_status lib agent st = Inr answer
    \<and> dict_get answer ''available'' = PBool (is_ok (request_rf_agent lib agent st \<lparr>ag_method = ''GET'', ag_path = ''/status'', ag_body = None\<rparr>))"
proof (cases "rfs_enabled st")
  case True
  show ?thesis
  proof (cases "request_rf_agent lib agent st \<lparr>ag_method = ''GET'', ag_path = ''/status'', ag_body = None\<rparr>")
    case (Inl e)
    with request_errors [OF Inl] obtain m where "e = RuntimeError m" by auto
    then show ?thesis using True Inl by (simp add: rf_agent_status_def dict_get_def)
  qed (use True in \<open>simp add: rf_agent_status_def dict_get_def\<close>)
qed (simp add: rf_agent_status_def request_rf_agent_def dict_get_def)

lemma dict_get_set: "dict_get (dict_set d k v) j = (if j = k then v else dict_get d j)"
proof -
  have "map_of (map (\<lambda>(k', v'). if k' = k then (k, v) else (k', v')) d) j
      = (if j = k then map_option (\<lambda>_. v) (map_of d j) else map_of d j)"
    by (induction d) auto
  then show ?thesis by (auto simp: dict_set_def dict_get_def dict_has_def map_add_def split: option.splits)
qed

lemma upsert_recording_ids: "distinct (map rec_id recs) \<Longrightarrow> distinct (map rec_id (upsert_recording r recs))"
proof -
  assume d: "distinct (map rec_id recs)"
  have "map rec_id (update_where (\<lambda>x. rec_id x = rec_id r) (\<lambda>_. r) recs) = map rec_id recs"
    by (auto simp: update_where_def)
  then show ?thesis using d by (auto simp: upsert_recording_def)
qed

lemma update_where_id: "\<forall>x\<in>set rows. p x \<longrightarrow> f x = x \<Longrightarrow> update_where p f rows = rows"
  by (simp add: update_where_def map_idI)

lemma upsert_recording_rows: "set (upsert_recording r recs) = insert r {x \<in> set recs. rec_id x \<noteq> rec_id r}"
proof (cases "rec_id r \<in> set (map rec_id recs)")
  case True
  then show ?thesis by (auto simp: upsert_recording_def update_where_def)
next
  case False
  then have "{x \<in> set recs. rec_id x \<noteq> rec_id r} = set recs" by (auto simp: image_iff)
  with False show ?thesis by (simp add: upsert_recording_def)
qed

lemma upsert_recording_twice: "upsert_recording r (upsert_recording r recs) = upsert_recording r recs"
proof -
  have "rec_id r \<in> set (map rec_id (upsert_recording r recs))" by (simp add: upsert_recording_rows)
  moreover have "\<forall>x\<in>set (upsert_recording r recs). rec_id x = rec_id r \<longrightarrow> r = x" by (auto simp: upsert_recording_rows)
  ultimately show ?thesis using update_where_id [of "upsert_recording r recs" "\<lambda>x. rec_id x = rec_id r" "\<lambda>_. r"]
    by (simp add: upsert_recording_def [of r "upsert_recording r recs"])
qed

lemma recording_of_id: "recording_of lib m metadata result = Inr r \<Longrightarrow> rec_id r = py_str lib (dict_get result ''recording_id'')
    \<and> rec_metadata r = metadata \<and> rec_measurement r = m"
  by (auto simp: recording_of_def Let_def and_then_Inr_iff)

subsection \<open>Properties\<close>

text \<open>
  Storing the metadata of a finished recording never fails and never changes what the agent
  reported: the answer keeps every reported field and says whether the row was stored. Stored means
  that the table holds exactly one row of the recording, with the reported metadata, linked to a
  measurement session only when that exists; otherwise the table is as before. Either way the rows of
  other recordings stay, recordings stay unique, and storing the same metadata again changes nothing.
\<close>

theorem recording_metadata_persisted:
  assumes "persist_recording_metadata lib parse refusal sdb metadata recs = (recs', result, events)"
    and "distinct (map rec_id recs)"
  shows "distinct (map rec_id recs')
    \<and> (\<forall>k. k \<notin> {''metadata_persisted'', ''metadata_persist_error'', ''measurement_session_id''} \<longrightarrow> dict_get result k = dict_get metadata k)
    \<and> (dict_get result ''metadata_persisted'' = PBool True \<or> dict_get result ''metadata_persisted'' = PBool False \<and> recs' = recs)
    \<and> (dict_get result ''metadata_persisted'' = PBool True \<longrightarrow>
        (\<exists>r. set recs' = insert r {x \<in> set recs. rec_id x \<noteq> rec_id r} \<and> rec_metadata r = metadata
          \<and> rec_id r = py_str lib (dict_get metadata ''recording_id'')
          \<and> (\<forall>i. rec_measurement r = Some i \<longrightarrow> i \<in> se_id ` set (sd_sessions sdb)))
        \<and> fst (persist_recording_metadata lib parse refusal sdb metadata recs') = recs')"
proof -
  let ?result = "dict_set metadata ''metadata_persisted'' (PBool False)"
  let ?missing = "filter (\<lambda>k. absent (dict_get ?result k)) recording_fields"
  let ?link = "linked_session parse sdb (py_str lib (dict_get ?result ''session_id''))"
  let ?row = "and_then (recording_of lib ?link metadata ?result) (\<lambda>r. case refusal r of Some e \<Rightarrow> Inl (RuntimeError e) | None \<Rightarrow> Inr r)"
  consider (missing) "?missing \<noteq> []" | (refused) e where "?missing = []" "?row = Inl e" | (stored) r where "?missing = []" "?row = Inr r"
    by (cases ?row) auto
  then show ?thesis
  proof cases
    case missing
    then have "recs' = recs" "result = dict_set ?result ''metadata_persist_error'' (PStr (''missing_fields:'' @ comma_list ?missing))"
      using assms(1) by (simp_all add: persist_recording_metadata_def Let_def)
    then show ?thesis using assms(2) by (simp add: dict_get_set)
  next
    case refused
    then have "recs' = recs" "result = dict_set ?result ''metadata_persist_error'' (PStr (error_text e))"
      using assms(1) by (simp_all add: persist_recording_metadata_def Let_def)
    then show ?thesis using assms(2) by (simp add: dict_get_set)
  next
    case stored
    then have s: "recs' = upsert_recording r recs"
      "result = dict_set (dict_set ?result ''metadata_persisted'' (PBool True)) ''measurement_session_id''
         (case ?link of None \<Rightarrow> PNone | Some i \<Rightarrow> PStr (nat_text i))"
      using assms(1) by (simp_all add: persist_recording_metadata_def Let_def)
    have r: "rec_id r = py_str lib (dict_get metadata ''recording_id'')" "rec_metadata r = metadata" "rec_measurement r = ?link"
      using stored(2) by (auto simp: and_then_Inr_iff dict_get_set dest!: recording_of_id split: option.splits)
    have "fst (persist_recording_metadata lib parse refusal sdb metadata recs') = upsert_recording r recs'"
      using stored by (simp add: persist_recording_metadata_def Let_def)
    then have again: "fst (persist_recording_metadata lib parse refusal sdb metadata recs') = recs'"
      by (simp add: s(1) upsert_recording_twice)
    have "\<forall>i. rec_measurement r = Some i \<longrightarrow> i \<in> se_id ` set (sd_sessions sdb)"
      by (auto simp: r(3) linked_session_def split: option.splits if_splits)
    then have "\<exists>r. set recs' = insert r {x \<in> set recs. rec_id x \<noteq> rec_id r} \<and> rec_metadata r = metadata
          \<and> rec_id r = py_str lib (dict_get metadata ''recording_id'')
          \<and> (\<forall>i. rec_measurement r = Some i \<longrightarrow> i \<in> se_id ` set (sd_sessions sdb))"
      using r(1,2) upsert_recording_rows [of r recs] by (intro exI [of _ r]) (simp add: s(1))
    then show ?thesis using again upsert_recording_ids [OF assms(2), of r]
      by (simp add: s dict_get_set)
  qed
qed

definition sample_recording_metadata :: row where
  "sample_recording_metadata = map (\<lambda>k. (k, PStr ''1'')) recording_fields"

lemma recording_metadata_persisted_witness:
  "\<exists>r. set (fst (persist_recording_metadata sample_lib (\<lambda>_. Some 1) (\<lambda>_. None) sample_sessions sample_recording_metadata [])) = {r}
     \<and> rec_metadata r = sample_recording_metadata"
proof -
  obtain recs result events where s: "persist_recording_metadata sample_lib (\<lambda>_. Some 1) (\<lambda>_. None) sample_sessions sample_recording_metadata []
      = (recs, result, events)" by (metis prod_cases3)
  have "case persist_recording_metadata sample_lib (\<lambda>_. Some 1) (\<lambda>_. None) sample_sessions sample_recording_metadata []
      of (_, result, _) \<Rightarrow> dict_get result ''metadata_persisted'' = PBool True" by code_simp
  then have "dict_get result ''metadata_persisted'' = PBool True" unfolding s by (simp only: prod.case)
  with recording_metadata_persisted [OF s, THEN conjunct2, THEN conjunct2, THEN conjunct2] obtain r where
    "set recs = {r}" "rec_metadata r = sample_recording_metadata" by auto
  then show ?thesis unfolding s by (intro exI [of _ r]) (simp only: fst_conv)
qed

text \<open>
  C26: The request that starts a demodulator reaches the agent at most once, and only when the agent
  either offers IQ data of its own USRP or HackRF source, or reports a ready control plane and at
  least one device set; otherwise the handler ends in an error.
\<close>

theorem demodulator_needs_ready:
  assumes "start_sdrangel_demod lib agent st form = (sent, r)"
  shows "length sent \<le> 1 \<and> (sent = [] \<longrightarrow> (\<exists>e. r = Inl e))
    \<and> (sent \<noteq> [] \<longrightarrow> (\<exists>rdy. get_sdrangel_readiness lib agent st = Inr rdy
        \<and> (rdy_native rdy \<and> py_truthy (dict_get (rdy_capabilities rdy) ''iq'')
              \<and> (\<exists>d. rdy_source rdy = PDict d \<and> dict_get d ''backend'' \<in> {PStr ''usrp'', PStr ''hackrf''})
           \<or> dict_get (rdy_control rdy) ''status'' = PStr ''ready'' \<and> dict_get (rdy_control rdy) ''control_plane'' = PStr ''ready''
              \<and> (\<exists>n. to_int (dict_default (rdy_devicesets rdy) ''devicesetcount'' (PInt 0)) = Inr n \<and> 0 < n))))"
proof -
  have ready: "rdy_native rdy \<and> py_truthy (dict_get (rdy_capabilities rdy) ''iq'')
        \<and> (\<exists>d. rdy_source rdy = PDict d \<and> dict_get d ''backend'' \<in> {PStr ''usrp'', PStr ''hackrf''})
      \<or> dict_get (rdy_control rdy) ''status'' = PStr ''ready'' \<and> dict_get (rdy_control rdy) ''control_plane'' = PStr ''ready''
        \<and> (\<exists>n. to_int (dict_default (rdy_devicesets rdy) ''devicesetcount'' (PInt 0)) = Inr n \<and> 0 < n)"
    if asm: "get_sdrangel_readiness lib agent st = Inr rdy" "rdy_ready rdy" for rdy
  proof -
    have native: "\<exists>d. source = PDict d \<and> dict_get d ''backend'' \<in> {PStr ''usrp'', PStr ''hackrf''}"
      if "backend_native source = Inr True" for source
      using that by (auto simp: backend_native_def split: pyval.splits)
    obtain n where n: "to_int (dict_default (rdy_devicesets rdy) ''devicesetcount'' (PInt 0)) = Inr n"
      "rdy_native rdy \<Longrightarrow> py_truthy (dict_get (rdy_capabilities rdy) ''iq'') \<and> backend_native (rdy_source rdy) = Inr True"
      "rdy_ready rdy \<longleftrightarrow> rdy_native rdy
         \<or> dict_get (rdy_control rdy) ''status'' = PStr ''ready'' \<and> dict_get (rdy_control rdy) ''control_plane'' = PStr ''ready'' \<and> 0 < n"
      using asm(1) unfolding get_sdrangel_readiness_def Let_def and_then_Inr_iff by (auto split: if_splits)
    show ?thesis using n asm(2) native by blast
  qed
  show ?thesis
  proof (cases "get_sdrangel_readiness lib agent st")
    case (Inr rdy)
    then show ?thesis using assms ready [OF Inr] by (cases "rdy_ready rdy") (auto simp: start_sdrangel_demod_def Let_def)
  qed (use assms in \<open>auto simp: start_sdrangel_demod_def\<close>)
qed

definition sample_agent :: agent where
  "sample_agent rq = (if ag_path rq = ''/sources/current'' then Answer (PDict [(''source'', PDict [(''backend'', PStr ''usrp'')])])
     else if ag_path rq = ''/capabilities'' then Answer (PDict [(''iq'', PBool True)])
     else if ag_path rq = ''/sdrangel/demod/start'' then Answer (PDict [])
     else Broken ''refused'')"

definition sample_rf_settings :: rf_settings where
  "sample_rf_settings = rf_settings_from_env (\<lambda>_. Some NaN) (\<lambda>_. None)"

lemma demodulator_needs_ready_witness:
  "\<exists>sent r. start_sdrangel_demod sample_lib sample_agent sample_rf_settings [(''demodulator'', PStr ''AM''), (''volume'', PNone)] = (sent, r)
     \<and> map ag_body sent = [Some (PDict [(''demodulator'', PStr ''AM'')])]
     \<and> (\<exists>rdy. get_sdrangel_readiness sample_lib sample_agent sample_rf_settings = Inr rdy \<and> rdy_native rdy)"
proof -
  obtain sent r where s: "start_sdrangel_demod sample_lib sample_agent sample_rf_settings [(''demodulator'', PStr ''AM''), (''volume'', PNone)] = (sent, r)"
    by fastforce
  have "map ag_body (fst (start_sdrangel_demod sample_lib sample_agent sample_rf_settings [(''demodulator'', PStr ''AM''), (''volume'', PNone)]))
      = [Some (PDict [(''demodulator'', PStr ''AM'')])]" by code_simp
  then have sent: "map ag_body sent = [Some (PDict [(''demodulator'', PStr ''AM'')])]" by (simp add: s)
  have control: "case get_sdrangel_readiness sample_lib sample_agent sample_rf_settings of Inl _ \<Rightarrow> False
    | Inr rdy \<Rightarrow> dict_get (rdy_control rdy) ''status'' = PStr ''unreachable''" by code_simp
  have "sent \<noteq> []" using sent by auto
  with demodulator_needs_ready [OF s] obtain rdy where "get_sdrangel_readiness sample_lib sample_agent sample_rf_settings = Inr rdy" "rdy_native rdy"
    using control by auto
  with s sent show ?thesis by (intro exI conjI)
qed

end
