(* ===== verification/Rag.thy ===== *)
theory Rag
  imports Settings Imports
begin

section \<open>Retrieval of documents\<close>

text \<open>
  \<open>app/rag.py\<close> and its routes in \<open>routers/system_rag.py\<close>: cutting a document into chunks, the two
  embedding providers, the index of documents and the retrieval of the nearest chunks. The tokens of a
  text, SHA-256, the division of a vector by its length, the distance of two vectors and the exchange
  with the Ollama server are arguments. A text is a list of 8-bit characters.
\<close>

subsection \<open>Settings\<close>

record rag_settings =
  rgs_enabled :: bool
  rgs_provider :: string
  rgs_model :: string
  rgs_url :: string
  rgs_timeout :: pyfloat
  rgs_chunk :: int
  rgs_overlap :: int
  rgs_top_k :: int

text \<open>\<open>max(low, min(high, x))\<close> on floats, see \<open>clamp_timeout\<close>\<close>

definition clamp_float :: "rat \<Rightarrow> rat \<Rightarrow> pyfloat \<Rightarrow> pyfloat" where
  "clamp_float low high x =
     (let y = (if float_less x (Fin high) then x else Fin high) in if float_less (Fin low) y then y else Fin low)"

definition ollama_timeout :: "(string \<Rightarrow> pyfloat option) \<Rightarrow> env \<Rightarrow> pyfloat" where
  "ollama_timeout flt env = (case flt (getenv env ''OLLAMA_TIMEOUT_SECONDS'' ''300'') of
     None \<Rightarrow> Fin 20 | Some x \<Rightarrow> clamp_float 1 600 x)"

definition enabled_flag :: "env \<Rightarrow> string \<Rightarrow> bool" where
  "enabled_flag env name = (py_lower (py_strip (getenv env name ''false'')) \<in> set truths)"

definition chunk_settings :: "env \<Rightarrow> (int \<times> int \<times> int) result" where
  "chunk_settings env =
     and_then (int_of_text (getenv env ''RAG_CHUNK_CHARACTERS'' ''1200'')) (\<lambda>size.
     let size = max 256 (min 4000 size) in
     and_then (int_of_text (getenv env ''RAG_CHUNK_OVERLAP'' ''200'')) (\<lambda>overlap.
     and_then (int_of_text (getenv env ''RAG_TOP_K'' ''5'')) (\<lambda>k.
     Inr (size, max 0 (min (size div 2) overlap), max 1 (min 20 k)))))"

definition rag_from_env :: "(string \<Rightarrow> pyfloat option) \<Rightarrow> env \<Rightarrow> rag_settings" where
  "rag_from_env flt env =
     (let provider = py_lower (py_strip (getenv env ''RAG_EMBEDDING_PROVIDER'' ''local_hash''));
          (size, overlap, k) = (case chunk_settings env of Inl _ \<Rightarrow> (1200, 200, 5) | Inr s \<Rightarrow> s) in
      \<lparr>rgs_enabled = enabled_flag env ''RAG_ENABLED'', rgs_provider = provider,
       rgs_model = py_strip (getenv env ''RAG_EMBEDDING_MODEL''
         (if provider = ''local_hash'' then ''local-feature-hash-v1'' else ''embeddinggemma'')),
       rgs_url = rstrip_slash (getenv env ''OLLAMA_URL'' ''http://ollama:11434''), rgs_timeout = ollama_timeout flt env,
       rgs_chunk = size, rgs_overlap = overlap, rgs_top_k = k\<rparr>)"

definition rag_configured :: "rag_settings \<Rightarrow> bool" where
  "rag_configured st = (rgs_enabled st \<and> rgs_provider st \<in> {''local_hash'', ''ollama''} \<and> rgs_model st \<noteq> [])"

definition before_colon :: "string \<Rightarrow> string" where
  "before_colon = takeWhile (\<lambda>c. c \<noteq> CHR '':'')"

definition embedding_dimensions :: "string \<Rightarrow> string \<Rightarrow> nat" where
  "embedding_dimensions provider model = (if provider = ''ollama'' \<and> before_colon (py_lower model) = ''bge-m3'' then 1024 else 768)"

subsection \<open>Chunks\<close>

text \<open>\<open>re.sub(r"\r\n?", "\n", text)\<close>\<close>

fun unix_lines :: "string \<Rightarrow> string" where
  "unix_lines [] = []"
| "unix_lines [c] = [if c = CHR 0x0D then CHR 0x0A else c]"
| "unix_lines (c # d # cs) = (if c = CHR 0x0D then CHR 0x0A # (if d = CHR 0x0A then unix_lines cs else unix_lines (d # cs))
     else c # unix_lines (d # cs))"

text \<open>\<open>text.rfind(c, low, high)\<close>, \<open>None\<close> for \<open>-1\<close>\<close>

definition rfind :: "char \<Rightarrow> string \<Rightarrow> nat \<Rightarrow> nat \<Rightarrow> nat option" where
  "rfind c text low high = (case rev (filter (\<lambda>i. text ! i = c) [low..<min high (length text)]) of [] \<Rightarrow> None | i # _ \<Rightarrow> Some i)"

definition later_of :: "nat option \<Rightarrow> nat option \<Rightarrow> nat option" where
  "later_of a b = (case (a, b) of (Some i, Some j) \<Rightarrow> Some (max i j) | (Some i, None) \<Rightarrow> Some i | (None, b) \<Rightarrow> b)"

definition chunk_end :: "string \<Rightarrow> nat \<Rightarrow> nat \<Rightarrow> nat" where
  "chunk_end text n start =
     (let stop = min (length text) (start + n) in
      if stop < length text
      then (case later_of (rfind (CHR 0x0A) text (start + n div 2) stop) (rfind (CHR '' '') text (start + n div 2) stop) of
          Some b \<Rightarrow> if start < b then b else stop
        | None \<Rightarrow> stop)
      else stop)"

definition slice :: "string \<Rightarrow> nat \<Rightarrow> nat \<Rightarrow> string" where
  "slice text a b = take (b - a) (drop a text)"

function chunk_spans :: "string \<Rightarrow> nat \<Rightarrow> nat \<Rightarrow> nat \<Rightarrow> (nat \<times> nat) list" where
  "chunk_spans text n overlap start =
     (if start < length text
      then (let stop = chunk_end text n start in
        (start, stop) # (if length text \<le> stop then [] else chunk_spans text n overlap (max (start + 1) (stop - overlap))))
      else [])"
  by pat_completeness auto
termination by (relation "measure (\<lambda>(text, n, overlap, start). length text - start)") auto

declare chunk_spans.simps [simp del]

definition chunk_text :: "string \<Rightarrow> int \<Rightarrow> int \<Rightarrow> string list result" where
  "chunk_text content max_characters overlap =
     (let text = py_strip (unix_lines content) in
      if text = [] then Inl (ValueError ''document content is empty'')
      else if max_characters < 64 \<or> overlap < 0 \<or> max_characters \<le> overlap then Inl (ValueError ''invalid chunk configuration'')
      else Inr (filter (\<lambda>c. c \<noteq> []) (map (\<lambda>(a, b). py_strip (slice text a b))
        (chunk_spans text (nat max_characters) (nat overlap) 0))))"

subsection \<open>Embeddings\<close>

text \<open>
  \<open>tokens\<close> are the words of the case-folded text, \<open>digest\<close> SHA-256 of a text, \<open>unit\<close> the division
  of a vector of counts by its length.
\<close>

record 'v vector_lib =
  vl_tokens :: "string \<Rightarrow> string list"
  vl_digest :: "string \<Rightarrow> byte list"
  vl_unit :: "int list \<Rightarrow> 'v"
  vl_vector :: "pyfloat list \<Rightarrow> 'v"
  vl_distance :: "'v \<Rightarrow> 'v \<Rightarrow> rat"

fun bigrams :: "string list \<Rightarrow> string list" where
  "bigrams (a # b # ts) = (a @ CHR ''_'' # b) # bigrams (b # ts)"
| "bigrams _ = []"

definition feature_slot :: "byte list \<Rightarrow> nat \<Rightarrow> nat \<times> int" where
  "feature_slot digest dims =
     (fold (\<lambda>b n. n * 256 + unat b) (take 4 digest) 0 mod dims, if odd (unat (digest ! 4)) then 1 else - 1)"

definition hash_counts :: "'v vector_lib \<Rightarrow> nat \<Rightarrow> string \<Rightarrow> int list" where
  "hash_counts vl dims text =
     (let tokens = vl_tokens vl text in
      fold (\<lambda>f v. let (i, s) = feature_slot (vl_digest vl f) dims in v[i := v ! i + s]) (tokens @ bigrams tokens) (replicate dims 0))"

fun map_result :: "('a \<Rightarrow> 'b result) \<Rightarrow> 'a list \<Rightarrow> 'b list result" where
  "map_result f [] = Inr []"
| "map_result f (x # xs) = and_then (f x) (\<lambda>y. and_then (map_result f xs) (\<lambda>ys. Inr (y # ys)))"

definition local_hash_embedding :: "'v vector_lib \<Rightarrow> string \<Rightarrow> 'v result" where
  "local_hash_embedding vl t =
     (let v = hash_counts vl 768 t in
      if list_all (\<lambda>x. x = 0) v then Inl (ValueError ''text has no embeddable tokens'') else Inr (vl_unit vl v))"

definition local_hash_embeddings :: "'v vector_lib \<Rightarrow> string list \<Rightarrow> 'v list result" where
  "local_hash_embeddings vl texts =
     (if texts = [] then Inl (ValueError ''invalid embedding request'')
      else map_result (local_hash_embedding vl) texts)"

text \<open>One attempt of the exchange: the parsed body, an HTTP error with its text, or a network failure or
  a body that is not JSON.\<close>

datatype embed_reply = Embed_Json pyval | Embed_Http int string string | Embed_Broken string

definition model_missing :: "int \<Rightarrow> string \<Rightarrow> bool" where
  "model_missing code detail = (code = 404 \<or> contains ''model'' (py_lower detail) \<and> contains ''not found'' (py_lower detail))"

text \<open>Two attempts; a JSON null counts as no answer.\<close>

fun ask_embeddings :: "embed_reply list \<Rightarrow> string \<Rightarrow> pyval result" where
  "ask_embeddings [] last_error = Inl (RuntimeError (''embedding_provider_unavailable: '' @ last_error))"
| "ask_embeddings (r # rs) last_error = (case r of
     Embed_Json v \<Rightarrow> if v = PNone then Inl (RuntimeError (''embedding_provider_unavailable: '' @ last_error)) else Inr v
   | Embed_Http code detail message \<Rightarrow>
       if model_missing code detail then Inl (RuntimeError ''embedding_model_not_installed'') else ask_embeddings rs message
   | Embed_Broken message \<Rightarrow> ask_embeddings rs message)"

definition elements :: "pyval \<Rightarrow> pyval list result" where
  "elements v = (case v of PList vs \<Rightarrow> Inr vs | PStr s \<Rightarrow> Inr (map (\<lambda>c. PStr [c]) s) | PDict d \<Rightarrow> Inr (map (\<lambda>(k, _). PStr k) d)
     | _ \<Rightarrow> Inl (TypeError ''not iterable''))"

definition finite_float :: "pyfloat \<Rightarrow> bool" where
  "finite_float x = (case x of Fin _ \<Rightarrow> True | _ \<Rightarrow> False)"

definition embedding_rows :: "reference_lib \<Rightarrow> pyval list \<Rightarrow> pyfloat list list result" where
  "embedding_rows rl vs = (case map_result (\<lambda>v. and_then (elements v) (map_result (to_float rl))) vs of
     Inl (TypeError _) \<Rightarrow> Inl (RuntimeError ''embedding_provider_invalid_response'')
   | Inl (ValueError _) \<Rightarrow> Inl (RuntimeError ''embedding_provider_invalid_response'')
   | Inl e \<Rightarrow> Inl e
   | Inr rows \<Rightarrow> Inr rows)"

definition embeddings_of :: "reference_lib \<Rightarrow> nat \<Rightarrow> nat \<Rightarrow> pyval \<Rightarrow> pyfloat list list result" where
  "embeddings_of rl dims n value = (case value of
     PDict d \<Rightarrow> (case dict_get d ''embeddings'' of
         PList vs \<Rightarrow>
           if length vs \<noteq> n then Inl (RuntimeError ''embedding_provider_invalid_response'')
           else and_then (embedding_rows rl vs) (\<lambda>rows.
             if list_ex (\<lambda>r. length r \<noteq> dims \<or> \<not> list_all finite_float r) rows
             then Inl (RuntimeError ''embedding_provider_invalid_dimensions'') else Inr rows)
       | _ \<Rightarrow> Inl (RuntimeError ''embedding_provider_invalid_response''))
   | _ \<Rightarrow> Inl (RuntimeError ''embedding_provider_invalid_response''))"

definition ollama_embeddings ::
  "'v vector_lib \<Rightarrow> reference_lib \<Rightarrow> rag_settings \<Rightarrow> embed_reply \<Rightarrow> embed_reply \<Rightarrow> string list \<Rightarrow> 'v list result" where
  "ollama_embeddings vl rl st r1 r2 texts =
     (if texts = [] \<or> list_ex (\<lambda>t. py_strip t = []) texts then Inl (ValueError ''invalid embedding request'')
      else and_then (ask_embeddings [r1, r2] ''None'') (\<lambda>value.
        and_then (embeddings_of rl (embedding_dimensions (rgs_provider st) (rgs_model st)) (length texts) value) (\<lambda>rows.
        Inr (map (vl_vector vl) rows))))"

record 'v embedder =
  em_lib :: "'v vector_lib"
  em_reference :: reference_lib
  em_first :: embed_reply
  em_second :: embed_reply

definition embed_texts :: "'v embedder \<Rightarrow> rag_settings \<Rightarrow> string list \<Rightarrow> 'v list result" where
  "embed_texts em st texts =
     (if \<not> rag_configured st then Inl (RuntimeError ''rag_component_not_available'')
      else if rgs_provider st = ''local_hash'' then local_hash_embeddings (em_lib em) texts
      else ollama_embeddings (em_lib em) (em_reference em) st (em_first em) (em_second em) texts)"

subsection \<open>The index\<close>

record document_row =
  dc_id :: nat
  dc_title :: string
  dc_type :: string
  dc_source :: "string option"
  dc_content :: string
  dc_metadata :: row

record chunk_row =
  ck_id :: nat
  ck_document :: nat
  ck_index :: nat
  ck_content :: string
  ck_metadata :: row

record 'v embedding_row =
  eb_chunk :: nat
  eb_provider :: string
  eb_model :: string
  eb_dimensions :: nat
  eb_vector :: 'v
  eb_sha256 :: "byte list"

record 'v rag_db =
  gd_documents :: "document_row list"
  gd_chunks :: "chunk_row list"
  gd_embeddings :: "'v embedding_row list"

definition next_id :: "nat list \<Rightarrow> nat" where
  "next_id ids = fold max ids 0 + 1"

text \<open>\<open>INSERT ... ON CONFLICT (chunk_id, embedding_provider, embedding_model) DO UPDATE\<close>\<close>

definition same_embedding :: "'v embedding_row \<Rightarrow> 'v embedding_row \<Rightarrow> bool" where
  "same_embedding a b = (eb_chunk a = eb_chunk b \<and> eb_provider a = eb_provider b \<and> eb_model a = eb_model b)"

definition upsert_embedding :: "'v embedding_row \<Rightarrow> 'v embedding_row list \<Rightarrow> 'v embedding_row list" where
  "upsert_embedding e rows = (if list_ex (same_embedding e) rows then update_where (same_embedding e) (\<lambda>_. e) rows else rows @ [e])"

definition source_value :: "string option \<Rightarrow> pyval" where
  "source_value s = (case s of None \<Rightarrow> PNone | Some t \<Rightarrow> PStr t)"

definition store_chunk ::
  "'v vector_lib \<Rightarrow> rag_settings \<Rightarrow> nat \<Rightarrow> string option \<Rightarrow> nat \<times> string \<times> 'v \<Rightarrow> 'v rag_db \<times> nat list \<Rightarrow> 'v rag_db \<times> nat list" where
  "store_chunk vl st document source item s =
     (let (i, chunk, v) = item; (db, ids) = s; cid = next_id (map ck_id (gd_chunks db)) in
      (db\<lparr>gd_chunks := gd_chunks db @ [\<lparr>ck_id = cid, ck_document = document, ck_index = i, ck_content = chunk,
             ck_metadata = [(''source'', source_value source)]\<rparr>],
          gd_embeddings := upsert_embedding \<lparr>eb_chunk = cid, eb_provider = rgs_provider st, eb_model = rgs_model st,
             eb_dimensions = embedding_dimensions (rgs_provider st) (rgs_model st), eb_vector = v, eb_sha256 = vl_digest vl chunk\<rparr>
             (gd_embeddings db)\<rparr>, ids @ [cid]))"

text \<open>The document's number and those of its chunks; nothing is stored unless all is.\<close>

definition index_document ::
  "'v embedder \<Rightarrow> rag_settings \<Rightarrow> string \<Rightarrow> string \<Rightarrow> string option \<Rightarrow> string \<Rightarrow> row \<Rightarrow> 'v rag_db \<Rightarrow> ('v rag_db \<times> nat \<times> nat list) result" where
  "index_document em st title content source document_type metadata db =
     and_then (chunk_text content (rgs_chunk st) (rgs_overlap st)) (\<lambda>chunks.
     and_then (embed_texts em st chunks) (\<lambda>vectors.
     let did = next_id (map dc_id (gd_documents db));
         db' = db\<lparr>gd_documents := gd_documents db @ [\<lparr>dc_id = did, dc_title = title, dc_type = document_type,
           dc_source = source, dc_content = content, dc_metadata = metadata\<rparr>]\<rparr>;
         (db', ids) = fold (store_chunk (em_lib em) st did source) (enumerate 0 (zip chunks vectors)) (db', []) in
     Inr (db', did, ids)))"

record retrieved =
  rt_chunk :: chunk_row
  rt_document :: document_row
  rt_similarity :: rat

definition compatible :: "rag_settings \<Rightarrow> 'v embedding_row \<Rightarrow> bool" where
  "compatible st e = (eb_provider e = rgs_provider st \<and> eb_model e = rgs_model st
     \<and> eb_dimensions e = embedding_dimensions (rgs_provider st) (rgs_model st))"

definition joined_chunk :: "'v rag_db \<Rightarrow> 'v embedding_row \<Rightarrow> ('v embedding_row \<times> chunk_row \<times> document_row) option" where
  "joined_chunk db e = (case List.find (\<lambda>c. ck_id c = eb_chunk e) (gd_chunks db) of
     None \<Rightarrow> None
   | Some c \<Rightarrow> map_option (\<lambda>d. (e, c, d)) (List.find (\<lambda>d. dc_id d = ck_document c) (gd_documents db)))"

definition top_k_limit :: "rag_settings \<Rightarrow> int option \<Rightarrow> nat" where
  "top_k_limit st top_k = nat (max 1 (min 20 (case top_k of None \<Rightarrow> rgs_top_k st | Some k \<Rightarrow> if k = 0 then rgs_top_k st else k)))"

definition nearest :: "'v vector_lib \<Rightarrow> rag_settings \<Rightarrow> nat \<Rightarrow> 'v \<Rightarrow> 'v rag_db \<Rightarrow> retrieved list" where
  "nearest vl st k q db =
     map (\<lambda>(e, c, d). \<lparr>rt_chunk = c, rt_document = d, rt_similarity = 1 - vl_distance vl (eb_vector e) q\<rparr>)
       (take k (sort_key (\<lambda>(e, _, _). vl_distance vl (eb_vector e) q) (List.map_filter (joined_chunk db) (filter (compatible st) (gd_embeddings db)))))"

definition retrieve_chunks :: "'v embedder \<Rightarrow> rag_settings \<Rightarrow> string \<Rightarrow> int option \<Rightarrow> 'v rag_db \<Rightarrow> retrieved list result" where
  "retrieve_chunks em st query top_k db =
     and_then (embed_texts em st [query]) (\<lambda>vs. Inr (nearest (em_lib em) st (top_k_limit st top_k) (hd vs) db))"

record rag_state =
  rst_enabled :: bool
  rst_configured :: bool
  rst_available :: bool
  rst_status :: string
  rst_dimensions :: nat
  rst_vector_extension :: bool
  rst_index :: bool
  rst_embeddings :: nat
  rst_compatible :: nat
  rst_index_compatible :: bool
  rst_reindex :: bool

text \<open>\<open>extension\<close> and \<open>index_exists\<close> are what the catalogues of the database say for the dimension.\<close>

definition database_rag_status :: "bool \<Rightarrow> (nat \<Rightarrow> bool) \<Rightarrow> rag_settings \<Rightarrow> 'v rag_db \<Rightarrow> rag_state" where
  "database_rag_status extension index_exists st db =
     (let dims = embedding_dimensions (rgs_provider st) (rgs_model st); index = index_exists dims;
          chunks = length (gd_chunks db); fitting = length (filter (compatible st) (gd_embeddings db)) in
      \<lparr>rst_enabled = rgs_enabled st, rst_configured = rag_configured st,
       rst_available = (rag_configured st \<and> extension \<and> index),
       rst_status = (if \<not> rgs_enabled st then ''disabled''
         else if rgs_provider st \<notin> {''local_hash'', ''ollama''} \<or> rgs_model st = [] then ''not_configured''
         else if \<not> extension \<or> \<not> index then ''database_not_ready''
         else if fitting = 0 then ''ready_empty'' else ''ready''),
       rst_dimensions = dims, rst_vector_extension = extension, rst_index = index,
       rst_embeddings = length (gd_embeddings db), rst_compatible = fitting,
       rst_index_compatible = (index \<and> (chunks = 0 \<or> fitting = chunks)), rst_reindex = (fitting < chunks)\<rparr>)"

subsection \<open>Routes\<close>

definition http_of :: "(py_error \<Rightarrow> py_error) \<Rightarrow> 'a result \<Rightarrow> 'a result" where
  "http_of f r = (case r of Inl e \<Rightarrow> Inl (f e) | Inr x \<Rightarrow> Inr x)"

definition runtime_503 :: "py_error \<Rightarrow> py_error" where
  "runtime_503 e = (case e of RuntimeError m \<Rightarrow> HTTPException 503 m | _ \<Rightarrow> e)"

definition value_422 :: "py_error \<Rightarrow> py_error" where
  "value_422 e = (case e of ValueError m \<Rightarrow> HTTPException 422 m | _ \<Rightarrow> e)"

definition rag_index_document ::
  "'v embedder \<Rightarrow> rag_settings \<Rightarrow> string \<Rightarrow> string \<Rightarrow> string option \<Rightarrow> string \<Rightarrow> row \<Rightarrow> 'v rag_db \<Rightarrow> ('v rag_db \<times> nat \<times> nat list) result" where
  "rag_index_document em st title content source document_type metadata db =
     (let title = py_strip title; content = py_strip content in
      if title = [] \<or> 500 < length title then Inl (HTTPException 422 ''document title must contain 1-500 characters'')
      else if content = [] \<or> 2000000 < int (length content) then Inl (HTTPException 422 ''document content must contain 1-2000000 characters'')
      else if \<not> rag_configured st then Inl (HTTPException 503 ''rag_component_not_available'')
      else http_of (value_422 \<circ> runtime_503) (index_document em st title content source document_type metadata db))"

text \<open>Here a \<open>ValueError\<close> is not turned into an answer: it ends the request with status 500.\<close>

definition rag_retrieve :: "'v embedder \<Rightarrow> rag_settings \<Rightarrow> string \<Rightarrow> int option \<Rightarrow> 'v rag_db \<Rightarrow> retrieved list result" where
  "rag_retrieve em st query top_k db =
     (let query = py_strip query in
      if query = [] \<or> 2000 < length query then Inl (HTTPException 422 ''query must contain 1-2000 characters'')
      else if \<not> rag_configured st then Inl (HTTPException 503 ''rag_component_not_available'')
      else http_of runtime_503 (retrieve_chunks em st query top_k db))"

subsection \<open>Chunks: lemmas\<close>

lemma rfind_bounds:
  assumes "rfind c text low high = Some i"
  shows "low \<le> i \<and> i < high \<and> i < length text"
proof -
  obtain js where "rev (filter (\<lambda>i. text ! i = c) [low..<min high (length text)]) = i # js"
    using assms by (auto simp: rfind_def split: list.splits)
  then have "i \<in> set (rev (filter (\<lambda>i. text ! i = c) [low..<min high (length text)]))" by simp
  then show ?thesis by auto
qed

lemma chunk_end_bounds:
  assumes "start < length text" "1 \<le> n"
  shows "start < chunk_end text n start" "chunk_end text n start \<le> length text" "chunk_end text n start \<le> start + n"
  using assms by (auto simp: chunk_end_def Let_def later_of_def split: option.splits prod.splits dest!: rfind_bounds)

text \<open>What the spans from a position on look like.\<close>

lemma chunk_spans_ok:
  assumes "1 \<le> n" "s \<le> length tx"
  shows "(\<forall>(a, b)\<in>set (chunk_spans tx n overlap s). s \<le> a \<and> a < b \<and> b \<le> length tx \<and> b \<le> a + n)
    \<and> (\<forall>i. s \<le> i \<and> i < length tx \<longrightarrow> (\<exists>(a, b)\<in>set (chunk_spans tx n overlap s). a \<le> i \<and> i < b))
    \<and> sorted_wrt (\<lambda>(a, b) (a', b'). a < a') (chunk_spans tx n overlap s)"
  using assms
proof (induction tx n overlap s rule: chunk_spans.induct)
  case (1 tx n overlap s)
  show ?case
  proof (cases "s < length tx")
    case True
    let ?e = "chunk_end tx n s" and ?next = "max (s + 1) (chunk_end tx n s - overlap)"
    note e = chunk_end_bounds [OF True 1(2)]
    show ?thesis
    proof (cases "length tx \<le> ?e")
      case True
      then show ?thesis using \<open>s < length tx\<close> e by (subst (1 2 3) chunk_spans.simps) (auto simp: Let_def)
    next
      case False
      have nxt: "s < ?next" "?next \<le> ?e" using e by auto
      have IH: "(\<forall>(a, b)\<in>set (chunk_spans tx n overlap ?next). ?next \<le> a \<and> a < b \<and> b \<le> length tx \<and> b \<le> a + n)
        \<and> (\<forall>i. ?next \<le> i \<and> i < length tx \<longrightarrow> (\<exists>(a, b)\<in>set (chunk_spans tx n overlap ?next). a \<le> i \<and> i < b))
        \<and> sorted_wrt (\<lambda>(a, b) (a', b'). a < a') (chunk_spans tx n overlap ?next)"
        using 1(1) [OF True refl False 1(2)] nxt(2) e(2) by simp
      have spans: "chunk_spans tx n overlap s = (s, ?e) # chunk_spans tx n overlap ?next"
        using True False by (subst chunk_spans.simps) (simp add: Let_def)
      show ?thesis unfolding spans
      proof (intro conjI)
        show "\<forall>(a, b)\<in>set ((s, ?e) # chunk_spans tx n overlap ?next). s \<le> a \<and> a < b \<and> b \<le> length tx \<and> b \<le> a + n"
          using IH nxt(1) e by fastforce
        show "\<forall>i. s \<le> i \<and> i < length tx \<longrightarrow> (\<exists>(a, b)\<in>set ((s, ?e) # chunk_spans tx n overlap ?next). a \<le> i \<and> i < b)"
        proof (intro allI impI)
          fix i assume i: "s \<le> i \<and> i < length tx"
          show "\<exists>(a, b)\<in>set ((s, ?e) # chunk_spans tx n overlap ?next). a \<le> i \<and> i < b"
          proof (cases "i < ?e")
            case False
            then have "?next \<le> i" using nxt(2) by linarith
            then show ?thesis using IH i by (meson list.set_intros(2))
          qed (use i in auto)
        qed
        show "sorted_wrt (\<lambda>(a, b) (a', b'). a < a') ((s, ?e) # chunk_spans tx n overlap ?next)"
          using IH nxt(1) by fastforce
      qed
    qed
  qed (simp add: chunk_spans.simps)
qed

text \<open>Trimming takes blanks from the two ends.\<close>

lemma py_strip_pieces: "\<exists>p q. s = p @ py_strip s @ q \<and> (\<forall>c\<in>set p \<union> set q. is_space c)"
proof (intro exI conjI)
  let ?r = "dropWhile is_space s"
  have "?r = rev (dropWhile is_space (rev ?r)) @ rev (takeWhile is_space (rev ?r))"
    by (metis rev_append rev_rev_ident takeWhile_dropWhile_id)
  then show "s = takeWhile is_space s @ py_strip s @ rev (takeWhile is_space (rev ?r))"
    by (metis py_strip_def takeWhile_dropWhile_id)
  show "\<forall>c\<in>set (takeWhile is_space s) \<union> set (rev (takeWhile is_space (rev ?r))). is_space c"
    by (auto dest: set_takeWhileD)
qed

lemma slice_trimmed:
  assumes "a \<le> i" "i < b" "b \<le> length tx" "\<not> is_space (tx ! i)"
  shows "\<exists>k. k \<le> i \<and> i < k + length (py_strip (slice tx a b)) \<and> take (length (py_strip (slice tx a b))) (drop k tx) = py_strip (slice tx a b)"
proof -
  let ?s = "slice tx a b" and ?c = "py_strip (slice tx a b)"
  obtain p q where pq: "?s = p @ ?c @ q" "\<forall>c\<in>set p \<union> set q. is_space c" using py_strip_pieces by blast
  have len: "length ?s = b - a" using assms by (simp add: slice_def)
  have at_i: "?s ! (i - a) = tx ! i" using assms by (simp add: slice_def)
  have low: "length p \<le> i - a"
  proof (rule ccontr)
    assume *: "\<not> length p \<le> i - a"
    then have "?s ! (i - a) = p ! (i - a)" using pq(1) by (metis not_le nth_append)
    then show False using * pq(2) assms(4) at_i by (metis UnI1 not_le nth_mem)
  qed
  have high: "i - a < length p + length ?c"
  proof (rule ccontr)
    assume *: "\<not> i - a < length p + length ?c"
    have "length p + length ?c + length q = b - a" using len arg_cong [OF pq(1), of length] by simp
    then have m: "i - a - length p - length ?c < length q" using * assms by linarith
    have "?s ! (i - a) = q ! (i - a - length p - length ?c)"
      using * pq(1) by (metis (no_types, lifting) add.commute diff_diff_left le_less_linear length_append nth_append append_assoc add_lessD1)
    then show False using m pq(2) assms(4) at_i by (metis UnI2 nth_mem)
  qed
  have "take (length ?c) (drop (a + length p) tx) = ?c"
  proof -
    have "take (length ?c) (drop (length p) ?s) = ?c" by (subst pq(1)) simp
    moreover have "length ?c \<le> b - a - length p" using len arg_cong [OF pq(1), of length] by simp
    ultimately show ?thesis by (simp add: slice_def drop_take min_def add.commute)
  qed
  then show ?thesis using low high assms by (intro exI [of _ "a + length p"]) auto
qed

lemma length_slice: "length (slice tx a b) \<le> b - a"
  by (simp add: slice_def)

lemma chunk_spans_first: "tx \<noteq> [] \<Longrightarrow> \<exists>b. (0, b) \<in> set (chunk_spans tx n overlap 0)"
  by (subst chunk_spans.simps) (auto simp: Let_def)

lemma chunk_text_result:
  "chunk_text content n overlap = Inr chunks \<longleftrightarrow>
     py_strip (unix_lines content) \<noteq> [] \<and> 64 \<le> n \<and> 0 \<le> overlap \<and> overlap < n
     \<and> chunks = filter (\<lambda>c. c \<noteq> []) (map (\<lambda>(a, b). py_strip (slice (py_strip (unix_lines content)) a b))
         (chunk_spans (py_strip (unix_lines content)) (nat n) (nat overlap) 0))"
  by (auto simp: chunk_text_def Let_def)

lemma py_strip_head: "py_strip s = c # cs \<Longrightarrow> \<not> is_space c"
proof
  assume *: "py_strip s = c # cs" "is_space c"
  have "py_strip (c # cs) = py_strip cs" using *(2) by (simp add: py_strip_def)
  then have "length (py_strip (c # cs)) \<le> length cs" by (simp add: length_py_strip)
  moreover have "py_strip (c # cs) = c # cs" using *(1) by (metis py_strip_idem)
  ultimately show False by simp
qed

lemma chunk_text_occurrence:
  assumes "chunk_text content n overlap = Inr chunks" "i < length (py_strip (unix_lines content))"
    "\<not> is_space (py_strip (unix_lines content) ! i)"
  shows "\<exists>c\<in>set chunks. \<exists>k\<le>i. i < k + length c \<and> take (length c) (drop k (py_strip (unix_lines content))) = c"
proof -
  let ?t = "py_strip (unix_lines content)" and ?spans = "chunk_spans (py_strip (unix_lines content)) (nat n) (nat overlap) 0"
  note r = assms(1) [unfolded chunk_text_result]
  have n1: "1 \<le> nat n" using r by (simp add: le_nat_iff del: One_nat_def)
  obtain a b where ab: "(a, b) \<in> set ?spans" "a \<le> i" "i < b" "b \<le> length ?t"
  proof -
    have "\<forall>(a, b)\<in>set ?spans. a < b \<and> b \<le> length ?t" "\<exists>(a, b)\<in>set ?spans. a \<le> i \<and> i < b"
      using chunk_spans_ok [OF n1, of 0 ?t "nat overlap"] assms(2) by auto
    then show thesis using that by blast
  qed
  obtain k where k: "k \<le> i" "i < k + length (py_strip (slice ?t a b))"
      "take (length (py_strip (slice ?t a b))) (drop k ?t) = py_strip (slice ?t a b)"
    using slice_trimmed [OF ab(2,3,4) assms(3)] by blast
  have "py_strip (slice ?t a b) \<noteq> []" using k(1,2) by auto
  then have "py_strip (slice ?t a b) \<in> set chunks" using r ab(1) by force
  then show ?thesis using k by blast
qed

lemma chunk_text_pieces:
  assumes "chunk_text content n overlap = Inr chunks" "c \<in> set chunks"
  shows "c \<noteq> [] \<and> int (length c) \<le> n \<and> py_strip c = c"
proof -
  let ?t = "py_strip (unix_lines content)" and ?spans = "chunk_spans (py_strip (unix_lines content)) (nat n) (nat overlap) 0"
  note r = assms(1) [unfolded chunk_text_result]
  have n1: "1 \<le> nat n" using r by (simp add: le_nat_iff del: One_nat_def)
  obtain a b where ab: "(a, b) \<in> set ?spans" "c = py_strip (slice ?t a b)" "c \<noteq> []" using r assms(2) by auto
  have "b \<le> a + nat n" using chunk_spans_ok [OF n1, of 0 ?t "nat overlap"] ab(1) by auto
  then have "length c \<le> nat n" unfolding ab(2) using length_py_strip [of "slice ?t a b"] length_slice [of ?t a b] by linarith
  then show ?thesis using ab(2,3) r by auto
qed



subsection \<open>The index: lemmas\<close>

text \<open>The keys and references of the three tables.\<close>

definition rag_ok :: "'v rag_db \<Rightarrow> bool" where
  "rag_ok db = (distinct (map dc_id (gd_documents db)) \<and> distinct (map ck_id (gd_chunks db))
     \<and> list_all (\<lambda>c. ck_document c \<in> set (map dc_id (gd_documents db))) (gd_chunks db)
     \<and> list_all (\<lambda>e. eb_chunk e \<in> set (map ck_id (gd_chunks db))) (gd_embeddings db)
     \<and> distinct (map (\<lambda>e. (eb_chunk e, eb_provider e, eb_model e)) (gd_embeddings db)))"

lemma next_id_fresh: "i \<in> set ids \<Longrightarrow> i < next_id ids"
  unfolding next_id_def Max.set_eq_fold [symmetric] by (simp add: less_Suc_eq_le)

lemma next_id_not_in: "next_id ids \<notin> set ids"
  using next_id_fresh by blast

lemma store_chunk_appends:
  assumes "rag_ok db"
  shows "store_chunk vl st did source (i, t, v) (db, ids) =
    (db\<lparr>gd_chunks := gd_chunks db @ [\<lparr>ck_id = next_id (map ck_id (gd_chunks db)), ck_document = did, ck_index = i, ck_content = t,
           ck_metadata = [(''source'', source_value source)]\<rparr>],
        gd_embeddings := gd_embeddings db @ [\<lparr>eb_chunk = next_id (map ck_id (gd_chunks db)), eb_provider = rgs_provider st,
           eb_model = rgs_model st, eb_dimensions = embedding_dimensions (rgs_provider st) (rgs_model st), eb_vector = v,
           eb_sha256 = vl_digest vl t\<rparr>]\<rparr>, ids @ [next_id (map ck_id (gd_chunks db))])"
proof -
  have "\<not> list_ex (\<lambda>r. next_id (map ck_id (gd_chunks db)) = eb_chunk r) (gd_embeddings db)"
    using assms next_id_not_in [of "map ck_id (gd_chunks db)"] by (auto simp: rag_ok_def list_ex_iff list_all_iff)
  then have "\<not> list_ex (same_embedding \<lparr>eb_chunk = next_id (map ck_id (gd_chunks db)), eb_provider = rgs_provider st,
           eb_model = rgs_model st, eb_dimensions = embedding_dimensions (rgs_provider st) (rgs_model st), eb_vector = v,
           eb_sha256 = vl_digest vl t\<rparr>) (gd_embeddings db)"
    by (auto simp: list_ex_iff same_embedding_def)
  then show ?thesis by (simp add: store_chunk_def upsert_embedding_def Let_def)
qed

lemma store_chunk_keeps:
  assumes "rag_ok db" "did \<in> set (map dc_id (gd_documents db))"
  shows "rag_ok (fst (store_chunk vl st did source item (db, ids)))"
proof -
  obtain i t v where item: "item = (i, t, v)" by (cases item)
  note fresh = next_id_not_in [of "map ck_id (gd_chunks db)"]
  have "next_id (map ck_id (gd_chunks db)) \<notin> eb_chunk ` set (gd_embeddings db)"
    using assms(1) fresh by (auto simp: rag_ok_def list_all_iff)
  then show ?thesis unfolding item store_chunk_appends [OF assms(1)]
    using assms fresh by (auto simp: rag_ok_def list_all_iff)
qed

text \<open>What a run over the chunks of one document appends.\<close>

definition rows_for :: "nat \<Rightarrow> (nat \<times> string \<times> 'v) list \<Rightarrow> rag_settings \<Rightarrow> chunk_row list \<Rightarrow> 'v embedding_row list \<Rightarrow> bool" where
  "rows_for did items st cs es =
     (map (\<lambda>c. (ck_document c, ck_index c, ck_content c)) cs = map (\<lambda>(i, t, _). (did, i, t)) items
      \<and> map eb_chunk es = map ck_id cs \<and> map eb_vector es = map (\<lambda>(_, _, v). v) items \<and> list_all (compatible st) es)"

lemma store_chunks_append:
  assumes "rag_ok db" "did \<in> set (map dc_id (gd_documents db))"
  shows "\<exists>cs es. rows_for did items st cs es \<and>
    fold (store_chunk vl st did source) items (db, ids) =
      (db\<lparr>gd_chunks := gd_chunks db @ cs, gd_embeddings := gd_embeddings db @ es\<rparr>, ids @ map ck_id cs)
    \<and> rag_ok (db\<lparr>gd_chunks := gd_chunks db @ cs, gd_embeddings := gd_embeddings db @ es\<rparr>)"
  using assms
proof (induction items arbitrary: db ids)
  case Nil
  then show ?case by (intro exI [of _ "[]"]) (auto simp: rows_for_def)
next
  case (Cons item items)
  obtain i t v where item: "item = (i, t, v)" by (cases item)
  let ?c = "\<lparr>ck_id = next_id (map ck_id (gd_chunks db)), ck_document = did, ck_index = i, ck_content = t,
           ck_metadata = [(''source'', source_value source)]\<rparr>"
  let ?e = "\<lparr>eb_chunk = next_id (map ck_id (gd_chunks db)), eb_provider = rgs_provider st, eb_model = rgs_model st,
     eb_dimensions = embedding_dimensions (rgs_provider st) (rgs_model st), eb_vector = v, eb_sha256 = vl_digest vl t\<rparr>"
  let ?db = "db\<lparr>gd_chunks := gd_chunks db @ [?c], gd_embeddings := gd_embeddings db @ [?e]\<rparr>"
  note one = store_chunk_appends [OF Cons.prems(1), of vl st did source i t v ids]
  have ok: "rag_ok ?db" using store_chunk_keeps [OF Cons.prems, of vl st source item ids] unfolding item one by simp
  obtain cs es where cs: "rows_for did items st cs es"
      "fold (store_chunk vl st did source) items (?db, ids @ [ck_id ?c]) =
        (?db\<lparr>gd_chunks := gd_chunks ?db @ cs, gd_embeddings := gd_embeddings ?db @ es\<rparr>, (ids @ [ck_id ?c]) @ map ck_id cs)"
      "rag_ok (?db\<lparr>gd_chunks := gd_chunks ?db @ cs, gd_embeddings := gd_embeddings ?db @ es\<rparr>)"
    using Cons.IH [OF ok, of "ids @ [ck_id ?c]"] Cons.prems(2) by auto
  show ?case
  proof (intro exI conjI)
    show "rows_for did (item # items) st (?c # cs) (?e # es)"
      using cs(1) by (simp add: rows_for_def item compatible_def)
    show "fold (store_chunk vl st did source) (item # items) (db, ids) =
        (db\<lparr>gd_chunks := gd_chunks db @ ?c # cs, gd_embeddings := gd_embeddings db @ ?e # es\<rparr>, ids @ map ck_id (?c # cs))"
      using cs(2) by (simp add: item one)
    show "rag_ok (db\<lparr>gd_chunks := gd_chunks db @ ?c # cs, gd_embeddings := gd_embeddings db @ ?e # es\<rparr>)"
      using cs(3) by simp
  qed
qed

lemma map_result_length: "map_result f xs = Inr ys \<Longrightarrow> length ys = length xs"
  by (induction xs arbitrary: ys) (auto simp: and_then_Inr_iff)

lemma embedding_rows_length: "embedding_rows rl vs = Inr rows \<Longrightarrow> length rows = length vs"
  by (auto simp: embedding_rows_def split: sum.splits py_error.splits dest!: map_result_length)

lemma embeddings_of_length: "embeddings_of rl dims n reply = Inr rows \<Longrightarrow> length rows = n"
  by (cases reply)
    (auto simp: embeddings_of_def and_then_Inr_iff split: pyval.splits if_splits dest!: embedding_rows_length)

lemma embed_texts_length:
  assumes "embed_texts em st texts = Inr vs"
  shows "length vs = length texts"
  using assms
  by (auto simp: embed_texts_def local_hash_embeddings_def ollama_embeddings_def and_then_Inr_iff
      split: if_splits dest!: map_result_length embeddings_of_length)

lemma index_document_rows:
  assumes "rag_ok db" "index_document em st title content source document_type metadata db = Inr (db', did, ids)"
  shows "\<exists>chunks vectors cs es. chunk_text content (rgs_chunk st) (rgs_overlap st) = Inr chunks \<and> embed_texts em st chunks = Inr vectors
    \<and> did \<notin> set (map dc_id (gd_documents db)) \<and> ids = map ck_id cs \<and> rag_ok db'
    \<and> db' = db\<lparr>gd_documents := gd_documents db @ [\<lparr>dc_id = did, dc_title = title, dc_type = document_type,
           dc_source = source, dc_content = content, dc_metadata = metadata\<rparr>],
         gd_chunks := gd_chunks db @ cs, gd_embeddings := gd_embeddings db @ es\<rparr>
    \<and> rows_for did (enumerate 0 (zip chunks vectors)) st cs es"
proof -
  obtain chunks vectors where c: "chunk_text content (rgs_chunk st) (rgs_overlap st) = Inr chunks"
      "embed_texts em st chunks = Inr vectors"
    using assms(2) by (auto simp: index_document_def and_then_Inr_iff)
  let ?did = "next_id (map dc_id (gd_documents db))"
  let ?db = "db\<lparr>gd_documents := gd_documents db @ [\<lparr>dc_id = ?did, dc_title = title, dc_type = document_type,
           dc_source = source, dc_content = content, dc_metadata = metadata\<rparr>]\<rparr>"
  have ok: "rag_ok ?db" using assms(1) next_id_not_in [of "map dc_id (gd_documents db)"]
    by (auto simp: rag_ok_def list_all_iff)
  obtain cs es where cs: "rows_for ?did (enumerate 0 (zip chunks vectors)) st cs es"
      "fold (store_chunk (em_lib em) st ?did source) (enumerate 0 (zip chunks vectors)) (?db, []) =
        (?db\<lparr>gd_chunks := gd_chunks ?db @ cs, gd_embeddings := gd_embeddings ?db @ es\<rparr>, [] @ map ck_id cs)"
      "rag_ok (?db\<lparr>gd_chunks := gd_chunks ?db @ cs, gd_embeddings := gd_embeddings ?db @ es\<rparr>)"
    using store_chunks_append [OF ok, of ?did "enumerate 0 (zip chunks vectors)" st "em_lib em" source "[]"] by auto
  have "did = ?did" "ids = map ck_id cs" "db' = ?db\<lparr>gd_chunks := gd_chunks db @ cs, gd_embeddings := gd_embeddings db @ es\<rparr>"
    using assms(2) cs(2) c by (auto simp: index_document_def Let_def)
  then show ?thesis using c cs(1,3) next_id_not_in [of "map dc_id (gd_documents db)"] by (intro exI conjI) auto
qed

lemma rows_for_lengths:
  assumes "rows_for did (enumerate 0 (zip chunks vectors)) st cs es" "length vectors = length chunks"
  shows "map ck_content cs = chunks" "map ck_index cs = [0..<length chunks]" "map eb_vector es = vectors"
    "map eb_chunk es = map ck_id cs" "list_all (compatible st) es" "list_all (\<lambda>c. ck_document c = did) cs"
proof -
  have len: "length cs = length chunks" "length es = length chunks"
    using assms by (auto simp: rows_for_def dest!: map_eq_imp_length_eq)
  have row: "ck_document (cs ! j) = did \<and> ck_index (cs ! j) = j \<and> ck_content (cs ! j) = chunks ! j" if "j < length chunks" for j
  proof -
    have "map (\<lambda>c. (ck_document c, ck_index c, ck_content c)) cs ! j = map (\<lambda>(i, t, _). (did, i, t)) (enumerate 0 (zip chunks vectors)) ! j"
      using assms(1) by (simp only: rows_for_def)
    then show ?thesis using that len assms(2) by (simp add: nth_enumerate_eq)
  qed
  have vec: "eb_vector (es ! j) = vectors ! j" if "j < length chunks" for j
  proof -
    have "map eb_vector es ! j = map (\<lambda>(_, _, v). v) (enumerate 0 (zip chunks vectors)) ! j"
      using assms(1) by (simp only: rows_for_def)
    then show ?thesis using that len assms(2) by (simp add: nth_enumerate_eq)
  qed
  show "map ck_content cs = chunks" "map ck_index cs = [0..<length chunks]" "map eb_vector es = vectors"
    using len row vec assms(2) by (auto intro!: nth_equalityI)
  show "list_all (\<lambda>c. ck_document c = did) cs"
    using len row by (simp add: list_all_length)
qed (use assms(1) in \<open>simp_all add: rows_for_def\<close>)

text \<open>
  indexing a document appends the document under a new number, one chunk for each piece of its
  text, numbered from nought and in order, and for each chunk its vector under the settings in force;
  nothing else changes and the keys and references of the tables stay sound.
\<close>

theorem document_indexed:
  assumes "rag_ok db" "index_document em st title content source document_type metadata db = Inr (db', did, ids)"
  shows "\<exists>chunks vectors cs es. chunk_text content (rgs_chunk st) (rgs_overlap st) = Inr chunks \<and> embed_texts em st chunks = Inr vectors
    \<and> db' = db\<lparr>gd_documents := gd_documents db @ [\<lparr>dc_id = did, dc_title = title, dc_type = document_type,
           dc_source = source, dc_content = content, dc_metadata = metadata\<rparr>],
         gd_chunks := gd_chunks db @ cs, gd_embeddings := gd_embeddings db @ es\<rparr>
    \<and> rag_ok db' \<and> ids = map ck_id cs \<and> map ck_content cs = chunks \<and> map ck_index cs = [0..<length chunks]
    \<and> list_all (\<lambda>c. ck_document c = did) cs \<and> map eb_chunk es = ids \<and> map eb_vector es = vectors \<and> list_all (compatible st) es"
proof -
  obtain chunks vectors cs es where *: "chunk_text content (rgs_chunk st) (rgs_overlap st) = Inr chunks"
      "embed_texts em st chunks = Inr vectors" "ids = map ck_id cs" "rag_ok db'"
      "db' = db\<lparr>gd_documents := gd_documents db @ [\<lparr>dc_id = did, dc_title = title, dc_type = document_type,
           dc_source = source, dc_content = content, dc_metadata = metadata\<rparr>],
         gd_chunks := gd_chunks db @ cs, gd_embeddings := gd_embeddings db @ es\<rparr>"
      "rows_for did (enumerate 0 (zip chunks vectors)) st cs es"
    using index_document_rows [OF assms] by blast
  note r = rows_for_lengths [OF *(6) embed_texts_length [OF *(2)]]
  show ?thesis
    by (rule exI [of _ chunks], rule exI [of _ vectors], rule exI [of _ cs], rule exI [of _ es]) (use * r in simp)
qed

subsection \<open>Retrieval: lemmas\<close>

lemma joined_some:
  assumes "rag_ok db" "e \<in> set (gd_embeddings db)"
  shows "\<exists>c d. joined_chunk db e = Some (e, c, d) \<and> c \<in> set (gd_chunks db) \<and> d \<in> set (gd_documents db)
    \<and> ck_id c = eb_chunk e \<and> dc_id d = ck_document c"
proof -
  have "\<exists>c\<in>set (gd_chunks db). ck_id c = eb_chunk e"
    using assms by (force simp: rag_ok_def list_all_iff)
  then have "List.find (\<lambda>c. ck_id c = eb_chunk e) (gd_chunks db) \<noteq> None" by (auto simp: find_None_iff)
  then obtain c where c: "List.find (\<lambda>c. ck_id c = eb_chunk e) (gd_chunks db) = Some c" by auto
  then have cin: "c \<in> set (gd_chunks db)" "ck_id c = eb_chunk e" by (auto simp: find_Some_iff)
  have "\<exists>d\<in>set (gd_documents db). dc_id d = ck_document c"
    using assms(1) cin(1) by (force simp: rag_ok_def list_all_iff)
  then have "List.find (\<lambda>d. dc_id d = ck_document c) (gd_documents db) \<noteq> None" by (auto simp: find_None_iff)
  then obtain d where d: "List.find (\<lambda>d. dc_id d = ck_document c) (gd_documents db) = Some d" by auto
  then have "d \<in> set (gd_documents db)" "dc_id d = ck_document c" by (auto simp: find_Some_iff)
  then show ?thesis using c d cin by (simp add: joined_chunk_def)
qed

text \<open>The rows of the join, one for each compatible embedding.\<close>

definition join_rows :: "rag_settings \<Rightarrow> 'v rag_db \<Rightarrow> ('v embedding_row \<times> chunk_row \<times> document_row) list" where
  "join_rows st db = List.map_filter (joined_chunk db) (filter (compatible st) (gd_embeddings db))"

lemma join_rows_embeddings:
  assumes "rag_ok db"
  shows "map fst (join_rows st db) = filter (compatible st) (gd_embeddings db)"
proof -
  have "map fst (List.map_filter (joined_chunk db) es) = es" if "set es \<subseteq> set (gd_embeddings db)" for es
    using that joined_some [OF assms] by (induction es) (force simp: List.map_filter_simps)+
  then show ?thesis unfolding join_rows_def by (metis filter_is_subset)
qed

lemma join_rows_row:
  assumes "rag_ok db" "(e, c, d) \<in> set (join_rows st db)"
  shows "e \<in> set (gd_embeddings db) \<and> compatible st e \<and> c \<in> set (gd_chunks db) \<and> d \<in> set (gd_documents db)
    \<and> ck_id c = eb_chunk e \<and> dc_id d = ck_document c"
proof -
  obtain e' where e': "e' \<in> set (gd_embeddings db)" "compatible st e'" "joined_chunk db e' = Some (e, c, d)"
    using assms(2) by (auto simp: join_rows_def List.map_filter_def)
  then show ?thesis using joined_some [OF assms(1) e'(1)] by auto
qed

text \<open>The first rows of a sorted list are at most as large as the others.\<close>

lemma sort_key_prefix_le:
  assumes "x \<in> set (take k (sort_key f xs))" "y \<in> set xs" "y \<notin> set (take k (sort_key f xs))"
  shows "f x \<le> f y"
proof -
  have "y \<in> set (drop k (sort_key f xs))"
    using assms(2,3) by (metis Un_iff append_take_drop_id set_append set_sort)
  moreover have "sorted (map f (take k (sort_key f xs)) @ map f (drop k (sort_key f xs)))"
    by (metis append_take_drop_id map_append sorted_sort_key)
  ultimately show ?thesis using assms(1) by (auto simp: sorted_append)
qed

definition hit_of :: "'v vector_lib \<Rightarrow> 'v \<Rightarrow> 'v embedding_row \<times> chunk_row \<times> document_row \<Rightarrow> retrieved" where
  "hit_of vl q r = (case r of (e, c, d) \<Rightarrow> \<lparr>rt_chunk = c, rt_document = d, rt_similarity = 1 - vl_distance vl (eb_vector e) q\<rparr>)"

lemma nearest_join_rows:
  "nearest vl st k q db = map (hit_of vl q) (take k (sort_key (\<lambda>r. vl_distance vl (eb_vector (fst r)) q) (join_rows st db)))"
  by (simp add: nearest_def join_rows_def hit_of_def [abs_def] case_prod_unfold)

lemma nearest_sorted: "sorted (rev (map rt_similarity (nearest vl st k q db)))"
proof -
  let ?f = "\<lambda>r. vl_distance vl (eb_vector (fst r)) q" and ?xs = "take k (sort_key (\<lambda>r. vl_distance vl (eb_vector (fst r)) q) (join_rows st db))"
  have "sorted (map ?f ?xs)" unfolding take_map [symmetric] by (intro sorted_wrt_take sorted_sort_key)
  moreover have "map rt_similarity (nearest vl st k q db) = map (\<lambda>x. 1 - x) (map ?f ?xs)"
    by (simp add: nearest_join_rows hit_of_def case_prod_unfold)
  ultimately show ?thesis by (simp only: sorted_rev_iff_nth_mono) (simp add: sorted_iff_nth_mono)
qed

lemma top_k_limit_range: "1 \<le> top_k_limit st k \<and> top_k_limit st k \<le> 20"
  by (auto simp: top_k_limit_def)

lemma retrieve_chunks_result:
  "retrieve_chunks em st query top_k db = Inr hits \<longleftrightarrow>
     (\<exists>q. embed_texts em st [query] = Inr [q] \<and> hits = nearest (em_lib em) st (top_k_limit st top_k) q db)"
proof -
  have "embed_texts em st [query] = Inr vs \<Longrightarrow> \<exists>q. vs = [q]" for vs
    using embed_texts_length [of em st "[query]" vs] by (auto simp: length_Suc_conv)
  then show ?thesis by (fastforce simp: retrieve_chunks_def and_then_Inr_iff)
qed

lemma nearest_length: "rag_ok db \<Longrightarrow> length (nearest vl st k q db) = min k (length (filter (compatible st) (gd_embeddings db)))"
  by (simp add: nearest_join_rows min.commute flip: join_rows_embeddings)

lemma nearest_hit:
  assumes "rag_ok db" "h \<in> set (nearest vl st k q db)"
  shows "\<exists>e\<in>set (gd_embeddings db). compatible st e \<and> eb_chunk e = ck_id (rt_chunk h) \<and> rt_similarity h = 1 - vl_distance vl (eb_vector e) q
    \<and> rt_chunk h \<in> set (gd_chunks db) \<and> rt_document h \<in> set (gd_documents db) \<and> dc_id (rt_document h) = ck_document (rt_chunk h)"
proof -
  obtain e c d where "(e, c, d) \<in> set (join_rows st db)" "h = hit_of vl q (e, c, d)"
    using assms(2) by (auto simp: nearest_join_rows dest!: in_set_takeD)
  then show ?thesis using join_rows_row [OF assms(1)] by (fastforce simp: hit_of_def)
qed

lemma nearest_left_out:
  assumes "rag_ok db" "e \<in> set (gd_embeddings db)" "compatible st e"
    "eb_chunk e \<notin> (ck_id \<circ> rt_chunk) ` set (nearest vl st k q db)" "h \<in> set (nearest vl st k q db)"
  shows "1 - vl_distance vl (eb_vector e) q \<le> rt_similarity h"
proof -
  let ?f = "\<lambda>r. vl_distance vl (eb_vector (fst r)) q" and ?rows = "join_rows st db"
  have "e \<in> set (map fst ?rows)" using assms(2,3) unfolding join_rows_embeddings [OF assms(1)] by simp
  then obtain c d where r: "(e, c, d) \<in> set ?rows" by auto
  have "(e, c, d) \<notin> set (take k (sort_key ?f ?rows))"
  proof
    assume "(e, c, d) \<in> set (take k (sort_key ?f ?rows))"
    then have "hit_of vl q (e, c, d) \<in> set (nearest vl st k q db)" by (auto simp: nearest_join_rows)
    then show False using assms(4) join_rows_row [OF assms(1) r] by (force simp: hit_of_def)
  qed
  moreover obtain x where x: "x \<in> set (take k (sort_key ?f ?rows))" "h = hit_of vl q x"
    using assms(5) by (auto simp: nearest_join_rows)
  ultimately have "?f x \<le> vl_distance vl (eb_vector e) q" using sort_key_prefix_le [OF x(1) r] by auto
  then show ?thesis using x(2) by (simp add: hit_of_def case_prod_unfold)
qed


text \<open>A text whose vector is its own, found at similarity one.\<close>

lemma map_result_nth: "map_result f xs = Inr ys \<Longrightarrow> i < length xs \<Longrightarrow> f (xs ! i) = Inr (ys ! i)"
  by (induction xs arbitrary: ys i) (auto simp: and_then_Inr_iff nth_Cons split: nat.splits)

lemma local_hash_single:
  assumes "rgs_provider st = ''local_hash''" "embed_texts em st texts = Inr vs" "j < length texts"
  shows "embed_texts em st [texts ! j] = Inr [vs ! j]"
  using assms map_result_nth [of "local_hash_embedding (em_lib em)" texts vs j]
  by (auto simp: embed_texts_def local_hash_embeddings_def split: if_splits)

lemma nearest_best:
  assumes "rag_ok db" "e \<in> set (gd_embeddings db)" "compatible st e" "1 \<le> k"
  shows "nearest vl st k q db \<noteq> [] \<and> 1 - vl_distance vl (eb_vector e) q \<le> rt_similarity (hd (nearest vl st k q db))"
proof -
  let ?f = "\<lambda>r. vl_distance vl (eb_vector (fst r)) q" and ?rows = "join_rows st db"
  have "e \<in> set (map fst ?rows)" using assms(2,3) unfolding join_rows_embeddings [OF assms(1)] by simp
  then obtain c d where r: "(e, c, d) \<in> set (sort_key ?f ?rows)" by auto
  then obtain x xs where x: "sort_key ?f ?rows = x # xs" by (cases "sort_key ?f ?rows") auto
  have "?f x \<le> ?f (e, c, d)"
    using sorted_sort_key [of ?f ?rows] r unfolding x by auto
  then show ?thesis using assms(4) by (cases k) (simp_all add: nearest_join_rows x hit_of_def case_prod_unfold)
qed

text \<open>
  With the local provider and a distance that is nought between a vector and itself and never
  negative, the text of a chunk of a document just indexed is found: the retrieval succeeds and its
  first hit has similarity one.
\<close>

theorem indexed_text_is_found:
  assumes "rag_ok db" "rgs_provider st = ''local_hash''"
    and "index_document em st title content source document_type metadata db = Inr (db', did, ids)"
    and "ck \<in> set (gd_chunks db')" "ck_document ck = did"
    and "\<And>v. vl_distance (em_lib em) v v = 0" "\<And>v w. 0 \<le> vl_distance (em_lib em) v w"
  shows "\<exists>hits. retrieve_chunks em st (ck_content ck) top_k db' = Inr hits \<and> hits \<noteq> [] \<and> rt_similarity (hd hits) = 1"
proof -
  obtain chunks vectors cs es where *: "embed_texts em st chunks = Inr vectors"
      "did \<notin> set (map dc_id (gd_documents db))" "rag_ok db'" "gd_chunks db' = gd_chunks db @ cs"
      "gd_embeddings db' = gd_embeddings db @ es" "rows_for did (enumerate 0 (zip chunks vectors)) st cs es"
    using index_document_rows [OF assms(1,3)] by auto
  note r = rows_for_lengths [OF *(6) embed_texts_length [OF *(1)]]
  have "ck \<in> set cs" using assms(1,4,5) *(2,4) by (auto simp: rag_ok_def list_all_iff)
  then obtain j where j: "j < length cs" "ck = cs ! j" by (auto simp: in_set_conv_nth)
  have len: "length cs = length chunks" "length es = length chunks"
    using arg_cong [OF r(1), of length] arg_cong [OF r(4), of length] by simp_all
  have q: "embed_texts em st [ck_content ck] = Inr [vectors ! j]"
    using local_hash_single [OF assms(2) *(1), of j] j len nth_map [of j cs ck_content] unfolding r(1) by simp
  let ?hits = "nearest (em_lib em) st (top_k_limit st top_k) (vectors ! j) db'"
  have e: "es ! j \<in> set (gd_embeddings db')" "compatible st (es ! j)" "eb_vector (es ! j) = vectors ! j"
    using j len r(3,5) *(5) by (auto simp: list_all_length)
  have best: "?hits \<noteq> [] \<and> 1 \<le> rt_similarity (hd ?hits)"
    using nearest_best [OF *(3) e(1,2), of "top_k_limit st top_k" "em_lib em" "vectors ! j"] top_k_limit_range [of st top_k]
      assms(6) e(3) by simp
  then have hd: "hd ?hits \<in> set ?hits" by simp
  obtain x where "x \<in> set (gd_embeddings db')" "rt_similarity (hd ?hits) = 1 - vl_distance (em_lib em) (eb_vector x) (vectors ! j)"
    using nearest_hit [OF *(3) hd] by auto
  then have "rt_similarity (hd ?hits) = 1" using best assms(7) [of "eb_vector x" "vectors ! j"] by simp
  then show ?thesis using best q by (auto simp: retrieve_chunks_result)
qed

text \<open>
  A question of which no word can be embedded ends the retrieval route with an uncaught
  \<open>ValueError\<close>, while the indexing route never lets a \<open>ValueError\<close> through.
\<close>

lemma retrieval_without_words:
  assumes "rag_configured st" "rgs_provider st = ''local_hash''" "py_strip query \<noteq> []" "length (py_strip query) \<le> 2000"
    and "vl_tokens (em_lib em) (py_strip query) = []"
  shows "rag_retrieve em st query top_k db = Inl (ValueError ''text has no embeddable tokens'')
    \<and> rag_index_document em st title content source document_type metadata db \<noteq> Inl (ValueError m)"
proof
  have "hash_counts (em_lib em) 768 (py_strip query) = replicate 768 0"
    by (simp add: hash_counts_def assms(5))
  then have "local_hash_embedding (em_lib em) (py_strip query) = Inl (ValueError ''text has no embeddable tokens'')"
    by (simp add: local_hash_embedding_def list_all_iff)
  then show "rag_retrieve em st query top_k db = Inl (ValueError ''text has no embeddable tokens'')"
    using assms(1,2,3,4) by (simp add: rag_retrieve_def retrieve_chunks_def embed_texts_def local_hash_embeddings_def http_of_def runtime_503_def)
  show "rag_index_document em st title content source document_type metadata db \<noteq> Inl (ValueError m)"
    by (auto simp: rag_index_document_def http_of_def Let_def value_422_def runtime_503_def
        split: sum.splits py_error.splits)
qed

subsection \<open>Examples\<close>

definition example_vectors :: "int vector_lib" where
  "example_vectors = \<lparr>vl_tokens = (\<lambda>s. if s = ''...'' then [] else [s]), vl_digest = (\<lambda>s. [0, 0, 0, 0, 1]), vl_unit = hd,
     vl_vector = (\<lambda>_. 0), vl_distance = (\<lambda>a b. if a = b then 0 else 1)\<rparr>"

lemma example_counts: "t \<noteq> ''...'' \<Longrightarrow> hash_counts example_vectors 768 t = 1 # replicate 767 0"
proof -
  assume *: "t \<noteq> ''...''"
  have zeros: "replicate 768 (0::int) = 0 # replicate 767 0"
    using replicate_Suc [of 767 "0::int"] by (simp only: Suc_eq_plus1) (simp only: add_num_simps numeral_plus_one)
  have "vl_tokens example_vectors t = [t]" "feature_slot (vl_digest example_vectors t) 768 = (0, 1)"
    using * by (simp_all add: example_vectors_def feature_slot_def)
  then show ?thesis unfolding hash_counts_def Let_def zeros by simp
qed

text \<open>The provider's replies play no part with the local provider.\<close>

definition example_embedder :: "reference_lib \<Rightarrow> int embedder" where
  "example_embedder rl = \<lparr>em_lib = example_vectors, em_reference = rl, em_first = Embed_Broken [], em_second = Embed_Broken []\<rparr>"

definition example_rag :: rag_settings where
  "example_rag = \<lparr>rgs_enabled = True, rgs_provider = ''local_hash'', rgs_model = ''local-feature-hash-v1'', rgs_url = ''http://ollama:11434'',
     rgs_timeout = Fin 300, rgs_chunk = 1200, rgs_overlap = 200, rgs_top_k = 5\<rparr>"

definition empty_rag :: "int rag_db" where
  "empty_rag = \<lparr>gd_documents = [], gd_chunks = [], gd_embeddings = []\<rparr>"

definition example_indexed :: "int rag_db" where
  "example_indexed = \<lparr>gd_documents = [\<lparr>dc_id = 1, dc_title = ''Notes'', dc_type = ''note'', dc_source = None, dc_content = ''radio notes'', dc_metadata = []\<rparr>],
     gd_chunks = [\<lparr>ck_id = 1, ck_document = 1, ck_index = 0, ck_content = ''radio notes'', ck_metadata = [(''source'', PNone)]\<rparr>],
     gd_embeddings = [\<lparr>eb_chunk = 1, eb_provider = ''local_hash'', eb_model = ''local-feature-hash-v1'', eb_dimensions = 768, eb_vector = 1,
       eb_sha256 = [0, 0, 0, 0, 1]\<rparr>]\<rparr>"

lemma example_embeds: "t \<noteq> ''...'' \<Longrightarrow> embed_texts (example_embedder rl) example_rag [t] = Inr [1]"
  using example_counts [of t]
  by (simp add: embed_texts_def local_hash_embeddings_def local_hash_embedding_def example_embedder_def example_rag_def
      rag_configured_def example_vectors_def)

lemma example_chunks: "chunk_text ''radio notes'' (rgs_chunk example_rag) (rgs_overlap example_rag) = Inr [''radio notes'']"
  by code_simp

lemma example_index:
  "index_document (example_embedder rl) example_rag ''Notes'' ''radio notes'' None ''note'' [] empty_rag = Inr (example_indexed, 1, [1])"
proof -
  have "embed_texts (example_embedder rl) example_rag [''radio notes''] = Inr [1]" by (rule example_embeds) simp
  then show ?thesis
    by (simp only: index_document_def example_chunks and_then_simps)
      (simp add: empty_rag_def example_indexed_def next_id_def store_chunk_def upsert_embedding_def source_value_def
        example_rag_def embedding_dimensions_def example_embedder_def example_vectors_def enumerate_eq_zip)
qed

lemma empty_rag_ok: "rag_ok empty_rag" and example_indexed_ok: "rag_ok example_indexed"
  by (simp_all add: rag_ok_def empty_rag_def example_indexed_def)

lemma document_indexed_witness:
  "\<exists>chunks. chunk_text ''radio notes'' 1200 200 = Inr chunks \<and> map ck_content (gd_chunks example_indexed) = chunks"
proof -
  have "gd_chunks empty_rag = []" "rgs_chunk example_rag = 1200" "rgs_overlap example_rag = 200"
    by (simp_all add: empty_rag_def example_rag_def)
  with document_indexed [OF empty_rag_ok example_index [of sample_reference_lib]]
  show ?thesis by (metis (no_types, lifting) append_Nil rag_db.select_convs(2) rag_db.update_convs(2,3) rag_db.surjective)
qed


lemma indexed_text_is_found_witness:
  "\<exists>hits. retrieve_chunks (example_embedder sample_reference_lib) example_rag ''radio notes'' None example_indexed = Inr hits \<and> rt_similarity (hd hits) = 1"
proof -
  have c: "hd (gd_chunks example_indexed) \<in> set (gd_chunks example_indexed)" "ck_document (hd (gd_chunks example_indexed)) = 1"
      "ck_content (hd (gd_chunks example_indexed)) = ''radio notes''" "rgs_provider example_rag = ''local_hash''"
    by (simp_all add: example_indexed_def example_rag_def)
  have "vl_distance (em_lib (example_embedder sample_reference_lib)) v v = 0" "0 \<le> vl_distance (em_lib (example_embedder sample_reference_lib)) v w" for v w
    by (simp_all add: example_embedder_def example_vectors_def)
  from indexed_text_is_found [OF empty_rag_ok c(4) example_index c(1,2) this, of None] show ?thesis unfolding c(3) by blast
qed

lemma retrieval_without_words_witness:
  "rag_retrieve (example_embedder sample_reference_lib) example_rag ''...'' None empty_rag = Inl (ValueError ''text has no embeddable tokens'')"
proof -
  have "rag_configured example_rag" "rgs_provider example_rag = ''local_hash''" "py_strip ''...'' = ''...''"
      "vl_tokens (em_lib (example_embedder sample_reference_lib)) ''...'' = []"
    by (simp_all add: rag_configured_def example_rag_def example_embedder_def example_vectors_def) code_simp
  then show ?thesis using retrieval_without_words [of example_rag "''...''" "example_embedder sample_reference_lib"] by simp
qed

end
