(* ===== verification/Observations.thy ===== *)
theory Observations
  imports Live_Import Reference_Match
begin

section \<open>Listings and exports of devices and observations\<close>

text \<open>
  \<open>routers/observations.py\<close> and \<open>services/csv_export.py\<close>: the queries behind the device and
  observation pages, and the CSV files. A row a query returns is an association list of columns, as
  the database's row factory gives it; the aggregates of the devices page are a record. Ties in time,
  which SQL leaves open, are resolved by the order of insertion.
\<close>

subsection \<open>Pattern matching\<close>

text \<open>\<open>LIKE\<close> on lower-case text: \<open>%\<close> is any text, \<open>_\<close> any character, a backslash quotes the next one.\<close>

fun like :: "string \<Rightarrow> string \<Rightarrow> bool" where
  "like [] s = (s = [])"
| "like (p # ps) [] = (p = CHR ''%'' \<and> like ps [])"
| "like (p # ps) (c # cs) =
     (if p = CHR ''%'' then like ps (c # cs) \<or> like (p # ps) cs
      else if p = CHR 0x5C then (case ps of [] \<Rightarrow> False | q # qs \<Rightarrow> q = c \<and> like qs cs)
      else (p = CHR ''_'' \<or> p = c) \<and> like ps cs)"

definition ilike :: "string \<Rightarrow> string option \<Rightarrow> bool" where
  "ilike pat v = (case v of None \<Rightarrow> False | Some s \<Rightarrow> like (py_lower pat) (py_lower s))"

subsection \<open>The observations\<close>

definition given :: "string option \<Rightarrow> string option" where
  "given v = (if truthy v \<and> py_strip (or_empty v) \<noteq> [] then Some (py_strip (or_empty v)) else None)"

text \<open>\<open>parse_mac(mac) or mac.strip().upper()\<close>.\<close>

definition wanted_mac :: "text_lib \<Rightarrow> string \<Rightarrow> string" where
  "wanted_mac lib mac = (case parse_mac lib (PStr mac) of Some m \<Rightarrow> m | None \<Rightarrow> py_upper (py_strip mac))"

record observation_query =
  oq_session :: "nat option"
  oq_location :: "string option"
  oq_mac :: "string option"
  oq_start :: "rat option"
  oq_end :: "rat option"

text \<open>\<open>COALESCE(o.location_name, l.name)\<close> after the left join with the places\<close>

definition place_of :: "location_row list \<Rightarrow> device_observation \<Rightarrow> string option" where
  "place_of locs ob = (case ob_location_name ob of
     Some n \<Rightarrow> Some n
   | None \<Rightarrow> (case ob_location_id ob of None \<Rightarrow> None
       | Some i \<Rightarrow> map_option lo_name (List.find (\<lambda>l. lo_id l = i) locs)))"

definition place_matches :: "string option \<Rightarrow> string \<Rightarrow> bool" where
  "place_matches v s = (case v of None \<Rightarrow> False | Some t \<Rightarrow> py_lower t = py_lower s)"

definition selects :: "text_lib \<Rightarrow> location_row list \<Rightarrow> observation_query \<Rightarrow> device_observation \<Rightarrow> bool" where
  "selects lib locs q ob =
     ((case oq_session q of None \<Rightarrow> True | Some s \<Rightarrow> ob_session ob = Some s)
      \<and> (case given (oq_location q) of None \<Rightarrow> True | Some l \<Rightarrow> place_matches (place_of locs ob) l)
      \<and> (case given (oq_mac q) of None \<Rightarrow> True | Some _ \<Rightarrow> ob_mac ob = wanted_mac lib (or_empty (oq_mac q)))
      \<and> (case oq_start q of None \<Rightarrow> True | Some t \<Rightarrow> t \<le> ob_at ob)
      \<and> (case oq_end q of None \<Rightarrow> True | Some t \<Rightarrow> ob_at ob \<le> t))"

definition newest_first :: "device_observation list \<Rightarrow> device_observation list" where
  "newest_first = sort_key (\<lambda>ob. - ob_at ob)"

type_synonym query_row = "(string \<times> sqlval) list"

definition coalesce_sql :: "sqlval \<Rightarrow> sqlval \<Rightarrow> sqlval" where
  "coalesce_sql a b = (if a = SqlNull then b else a)"

definition session_value :: "device_observation \<Rightarrow> sqlval" where
  "session_value ob = nullable (\<lambda>i. SqlInt (int i)) (ob_session ob)"

definition bluetooth_observation_row :: "location_row list \<Rightarrow> device_observation \<Rightarrow> query_row" where
  "bluetooth_observation_row locs ob =
     (let c = column (ob_columns ob) in
      [(''id'', c ''id''), (''measurement_session_id'', session_value ob),
       (''location_name'', nullable SqlText (place_of locs ob)),
       (''source_name'', coalesce_sql (c ''source_name'') (c ''capture_source'')),
       (''source_type'', SqlText (or_default (ob_source_type ob) ''bluetooth'')),
       (''observed_at'', SqlTime (ob_at ob)), (''mac'', SqlText (ob_mac ob)),
       (''device_name'', c ''device_name''), (''rssi_dbm'', nullable SqlReal (ob_rssi_dbm ob)),
       (''vendor'', if coalesce_sql (c ''vendor_resolution_method'') (SqlText ''unknown'') = SqlText ''unknown''
          then SqlNull else c ''vendor''),
       (''service_uuids'', SqlJson (PList (map PStr (ob_service_uuids ob)))),
       (''address_type'', c ''address_type''), (''bluetooth_type'', c ''bluetooth_type''),
       (''vendor_resolution_method'', c ''vendor_resolution_method''), (''vendor_confidence'', c ''vendor_confidence''),
       (''bluetooth_company_id'', c ''bluetooth_company_id''), (''manufacturer_data_hash'', c ''manufacturer_data_hash''),
       (''stable_identity'', coalesce_sql (c ''stable_identity'') (SqlText (ob_mac ob))),
       (''identity_confidence'', coalesce_sql (c ''identity_confidence'') (SqlText ''unknown'')),
       (''observation_count'', c ''observation_count''), (''raw_payload'', c ''raw_payload''), (''created_at'', c ''created_at'')])"

definition signal_of :: "device_observation \<Rightarrow> rat option" where
  "signal_of ob = coalesce (ob_signal_dbm ob) (ob_rssi_dbm ob)"

definition device_of :: "known_device list \<Rightarrow> string \<Rightarrow> known_device option" where
  "device_of devices mac = List.find (\<lambda>d. kd_mac d = mac) devices"

definition wifi_observation_row :: "location_row list \<Rightarrow> known_device list \<Rightarrow> device_observation \<Rightarrow> query_row" where
  "wifi_observation_row locs devices ob =
     (let c = column (ob_columns ob); d = device_of devices (ob_mac ob) in
      [(''id'', c ''id''), (''measurement_session_id'', session_value ob),
       (''location_name'', nullable SqlText (place_of locs ob)),
       (''source_name'', coalesce_sql (c ''source_name'') (c ''capture_source'')),
       (''source_type'', SqlText (or_default (ob_source_type ob) ''wifi'')),
       (''observed_at'', SqlTime (ob_at ob)), (''bssid'', SqlText (ob_mac ob)),
       (''ssid'', c ''ssid''), (''channel'', nullable SqlInt (ob_channel ob)),
       (''frequency_hz'', nullable SqlInt (ob_frequency_hz ob)), (''rssi_dbm'', nullable SqlReal (ob_rssi_dbm ob)),
       (''vendor'', nullable SqlText (Option.bind d kd_vendor)),
       (''device_type'', coalesce_sql (coalesce_sql (c ''device_type'') (nullable SqlText (Option.bind d kd_device_type))) (SqlText ''unknown'')),
       (''signal_dbm'', nullable SqlReal (signal_of ob)), (''noise_dbm'', c ''noise_dbm''), (''encryption'', c ''encryption''),
       (''packet_count'', c ''packet_count''),
       (''stable_identity'', coalesce_sql (c ''stable_identity'') (SqlText (ob_mac ob))),
       (''identity_confidence'', coalesce_sql (c ''identity_confidence'') (SqlText ''unknown'')),
       (''observation_count'', c ''observation_count''), (''raw_payload'', c ''raw_payload''), (''created_at'', c ''created_at'')])"

definition bluetooth_observation_rows :: "text_lib \<Rightarrow> observation_query \<Rightarrow> import_db \<Rightarrow> query_row list" where
  "bluetooth_observation_rows lib q db =
     (let locs = sd_locations (im_sessions db) in
      map (bluetooth_observation_row locs) (newest_first (filter (selects lib locs q) (db_bluetooth_observations (im_devices db)))))"

definition wifi_observation_rows :: "text_lib \<Rightarrow> observation_query \<Rightarrow> import_db \<Rightarrow> query_row list" where
  "wifi_observation_rows lib q db =
     (let locs = sd_locations (im_sessions db) in
      map (wifi_observation_row locs (db_wifi_devices (im_devices db)))
        (newest_first (filter (selects lib locs q) (db_wifi_observations (im_devices db)))))"

definition list_bluetooth_observations :: "text_lib \<Rightarrow> observation_query \<Rightarrow> int \<Rightarrow> import_db \<Rightarrow> query_row list \<times> int" where
  "list_bluetooth_observations lib q limit db =
     (let safe = max 1 (min limit 5000) in (take (nat safe) (bluetooth_observation_rows lib q db), safe))"

definition list_wifi_observations :: "text_lib \<Rightarrow> observation_query \<Rightarrow> int \<Rightarrow> import_db \<Rightarrow> query_row list \<times> int" where
  "list_wifi_observations lib q limit db =
     (let safe = max 1 (min limit 5000) in (take (nat safe) (wifi_observation_rows lib q db), safe))"

text \<open>The signal history of one address, oldest first.\<close>

definition get_bluetooth_rssi_history ::
  "text_lib \<Rightarrow> string \<Rightarrow> observation_query \<Rightarrow> import_db \<Rightarrow> (string \<times> query_row list) result" where
  "get_bluetooth_rssi_history lib mac q db =
     (case parse_mac lib (PStr mac) of
        None \<Rightarrow> Inl (HTTPException 400 ''Ervenytelen Bluetooth MAC cim.'')
      | Some m \<Rightarrow>
          (let locs = sd_locations (im_sessions db);
               chosen = filter (\<lambda>ob. ob_mac ob = m \<and> selects lib locs (q\<lparr>oq_mac := None\<rparr>) ob) (db_bluetooth_observations (im_devices db)) in
           Inr (m, take 10000 (map (\<lambda>ob. [(''observed_at'', SqlTime (ob_at ob)), (''rssi_dbm'', nullable SqlReal (ob_rssi_dbm ob)),
               (''location_name'', nullable SqlText (place_of locs ob)),
               (''source_name'', coalesce_sql (column (ob_columns ob) ''source_name'') (column (ob_columns ob) ''capture_source'')),
               (''measurement_session_id'', session_value ob)]) (sort_key ob_at chosen)))))"

subsection \<open>The devices page\<close>

record device_query =
  dq_session :: "nat option"
  dq_location :: "string option"
  dq_mac :: "string option"
  dq_name :: "string option"
  dq_reference_set :: "nat option"
  dq_require_session :: bool
  dq_limit :: int

definition device_limit :: "device_query \<Rightarrow> nat" where
  "device_limit q = nat (max 1 (min (dq_limit q) 1000))"

text \<open>The filter of the joined observations; here a place is the observation's own column only.\<close>

definition counted_here :: "device_query \<Rightarrow> device_observation \<Rightarrow> bool" where
  "counted_here q ob =
     ((case dq_session q of None \<Rightarrow> True | Some s \<Rightarrow> ob_session ob = Some s)
      \<and> (case given (dq_location q) of None \<Rightarrow> True | Some l \<Rightarrow> place_matches (ob_location_name ob) l))"

definition observations_of :: "device_query \<Rightarrow> device_observation list \<Rightarrow> known_device \<Rightarrow> device_observation list" where
  "observations_of q obs d = newest_first (filter (\<lambda>ob. ob_mac ob = kd_mac d \<and> counted_here q ob) obs)"

definition shown :: "text_lib \<Rightarrow> (known_device \<Rightarrow> string option) \<Rightarrow> device_query \<Rightarrow> device_observation list \<Rightarrow> known_device \<Rightarrow> bool" where
  "shown lib name q obs d =
     ((case given (dq_mac q) of None \<Rightarrow> True | Some _ \<Rightarrow> kd_mac d = wanted_mac lib (or_empty (dq_mac q)))
      \<and> (case given (dq_name q) of None \<Rightarrow> True | Some n \<Rightarrow> ilike (''%'' @ n @ ''%'') (name d))
      \<and> (if dq_session q \<noteq> None \<or> given (dq_location q) \<noteq> None then observations_of q obs d \<noteq> [] else True))"

definition sql_avg :: "rat option list \<Rightarrow> rat option" where
  "sql_avg xs = (let ys = non_null xs in if ys = [] then None else Some (sum_list ys / of_nat (length ys)))"

text \<open>\<open>(ARRAY_AGG(f ORDER BY ...))[n + 1]\<close> of the observations, newest first\<close>

definition agg_nth :: "nat \<Rightarrow> (device_observation \<Rightarrow> 'a option) \<Rightarrow> device_observation list \<Rightarrow> 'a option" where
  "agg_nth n f obs = (case drop n obs of [] \<Rightarrow> None | ob # _ \<Rightarrow> f ob)"

definition text_column :: "string \<Rightarrow> device_observation \<Rightarrow> string option" where
  "text_column name ob = (case column (ob_columns ob) name of SqlText s \<Rightarrow> Some s | _ \<Rightarrow> None)"

definition int_column :: "string \<Rightarrow> device_observation \<Rightarrow> int option" where
  "int_column name ob = (case column (ob_columns ob) name of SqlInt n \<Rightarrow> Some n | _ \<Rightarrow> None)"

definition device_text :: "string \<Rightarrow> known_device \<Rightarrow> string option" where
  "device_text name d = (case column (kd_columns d) name of SqlText s \<Rightarrow> Some s | _ \<Rightarrow> None)"

record device_stats =
  dst_count :: nat
  dst_first :: "rat option"
  dst_last :: "rat option"
  dst_level :: "rat option"
  dst_previous :: "rat option"
  dst_min :: "rat option"
  dst_max :: "rat option"
  dst_avg :: "rat option"

definition stats_of :: "(device_observation \<Rightarrow> rat option) \<Rightarrow> device_observation list \<Rightarrow> device_stats" where
  "stats_of level obs =
     \<lparr>dst_count = length obs, dst_first = sql_min (map (\<lambda>ob. Some (ob_at ob)) obs), dst_last = sql_max (map (\<lambda>ob. Some (ob_at ob)) obs),
      dst_level = agg_nth 0 level obs, dst_previous = agg_nth 1 level obs,
      dst_min = sql_min (map level obs), dst_max = sql_max (map level obs), dst_avg = sql_avg (map level obs)\<rparr>"

definition presence_state :: "rat \<Rightarrow> rat option \<Rightarrow> string" where
  "presence_state now t = (case t of None \<Rightarrow> ''unknown'' | Some t \<Rightarrow> if now - 60 \<le> t then ''present'' else ''stale'')"

text \<open>\<open>it\<close> has the columns the comparison with a reference reads.\<close>

record device_listing =
  dl_item :: session_item
  dl_identity_confidence :: string
  dl_vendor_method :: "string option"
  dl_vendor_confidence :: "string option"
  dl_frame_summary :: row
  dl_first_seen :: "rat option"
  dl_last_seen :: "rat option"
  dl_stats :: device_stats
  dl_presence :: string

definition wifi_listing :: "rat \<Rightarrow> known_device \<Rightarrow> device_observation list \<Rightarrow> device_listing" where
  "wifi_listing now d obs =
     (let c = (\<lambda>name. agg_nth 0 (text_column name) obs); stats = stats_of signal_of obs in
      \<lparr>dl_item = \<lparr>it_stable_identity = coalesce (coalesce (c ''stable_identity'') (kd_stable_identity d)) (Some (kd_mac d)),
          it_bssid = Some (kd_mac d), it_mac = None, it_ssid = coalesce (c ''ssid'') (kd_ssid d),
          it_encryption = coalesce (c ''encryption'') (kd_encryption d),
          it_device_type = Some (or_default (coalesce (c ''device_type'') (kd_device_type d)) ''unknown''),
          it_vendor = kd_vendor d, it_device_name = None, it_address_type = None, it_bluetooth_type = None,
          it_manufacturer_hash = None, it_channel = agg_nth 0 ob_channel obs, it_frequency_hz = agg_nth 0 ob_frequency_hz obs,
          it_company_id = None, it_service_uuids = []\<rparr>,
       dl_identity_confidence = or_default (coalesce (c ''identity_confidence'') (kd_identity_confidence d)) ''unknown'',
       dl_vendor_method = None, dl_vendor_confidence = None, dl_frame_summary = frame_counts d,
       dl_first_seen = kd_first_seen d, dl_last_seen = kd_last_seen d, dl_stats = stats,
       dl_presence = presence_state now (dst_last stats)\<rparr>)"

definition bluetooth_listing :: "rat \<Rightarrow> known_device \<Rightarrow> device_observation list \<Rightarrow> device_listing" where
  "bluetooth_listing now d obs =
     (let c = (\<lambda>name. agg_nth 0 (text_column name) obs); stats = stats_of ob_rssi_dbm obs;
          vendor_method = or_default (coalesce (c ''vendor_resolution_method'') (device_text ''vendor_resolution_method'' d)) ''unknown'' in
      \<lparr>dl_item = \<lparr>it_stable_identity = coalesce (coalesce (c ''stable_identity'') (kd_stable_identity d)) (Some (kd_mac d)),
          it_bssid = None, it_mac = Some (kd_mac d), it_ssid = None, it_encryption = None, it_device_type = None,
          it_vendor = (if vendor_method = ''unknown'' then None else coalesce (c ''vendor'') (kd_vendor d)),
          it_device_name = coalesce (c ''device_name'') (kd_name d),
          it_address_type = coalesce (c ''address_type'') (device_text ''address_type'' d),
          it_bluetooth_type = coalesce (c ''bluetooth_type'') (kd_bluetooth_type d),
          it_manufacturer_hash = coalesce (c ''manufacturer_data_hash'') (kd_manufacturer_hash d),
          it_channel = None, it_frequency_hz = None,
          it_company_id = coalesce (agg_nth 0 (int_column ''bluetooth_company_id'') obs) (kd_company_id d),
          it_service_uuids = or_default (agg_nth 0 (\<lambda>ob. Some (ob_service_uuids ob)) obs) []\<rparr>,
       dl_identity_confidence = or_default (coalesce (c ''identity_confidence'') (kd_identity_confidence d)) ''unknown'',
       dl_vendor_method = Some vendor_method,
       dl_vendor_confidence = Some (or_default (coalesce (c ''vendor_confidence'') (device_text ''vendor_confidence'' d)) ''unknown''),
       dl_frame_summary = [], dl_first_seen = kd_first_seen d, dl_last_seen = kd_last_seen d, dl_stats = stats,
       dl_presence = presence_state now (dst_last stats)\<rparr>)"

text \<open>\<open>ORDER BY d.last_seen DESC NULLS LAST, mac\<close>\<close>

definition recent_first :: "known_device list \<Rightarrow> known_device list" where
  "recent_first = sort_key (\<lambda>d. (kd_last_seen d = None, - or_default (kd_last_seen d) 0, kd_mac d))"

definition listed_devices ::
  "text_lib \<Rightarrow> (known_device \<Rightarrow> string option) \<Rightarrow> device_query \<Rightarrow> known_device list \<Rightarrow> device_observation list \<Rightarrow> known_device list" where
  "listed_devices lib name q devices obs = take (device_limit q) (recent_first (filter (shown lib name q obs) devices))"

definition annotated :: "protocol \<Rightarrow> device_query \<Rightarrow> reference_set list \<Rightarrow> baseline_row list \<Rightarrow> device_listing list \<Rightarrow> reference_result" where
  "annotated p q sets baselines items = (case dq_reference_set q of
     Some i \<Rightarrow> annotate_devices i p sets baselines (map dl_item items)
   | None \<Rightarrow> stamp_not_compared (map dl_item items))"

definition list_wifi_devices ::
  "text_lib \<Rightarrow> rat \<Rightarrow> device_query \<Rightarrow> reference_set list \<Rightarrow> device_db \<Rightarrow> device_listing list \<times> nat \<times> reference_result" where
  "list_wifi_devices lib now q sets db =
     (if dq_require_session q \<and> dq_session q = None then ([], device_limit q, stamp_not_compared [])
      else (let obs = db_wifi_observations db;
                items = map (\<lambda>d. wifi_listing now d (observations_of q obs d)) (listed_devices lib kd_ssid q (db_wifi_devices db) obs) in
        (items, device_limit q, annotated Wifi q sets (db_baselines db) items)))"

definition list_bluetooth_devices ::
  "text_lib \<Rightarrow> rat \<Rightarrow> device_query \<Rightarrow> reference_set list \<Rightarrow> device_db \<Rightarrow> device_listing list \<times> nat \<times> reference_result" where
  "list_bluetooth_devices lib now q sets db =
     (if dq_require_session q \<and> dq_session q = None then ([], device_limit q, stamp_not_compared [])
      else (let obs = db_bluetooth_observations db;
                items = map (\<lambda>d. bluetooth_listing now d (observations_of q obs d)) (listed_devices lib kd_name q (db_bluetooth_devices db) obs) in
        (items, device_limit q, annotated Bluetooth q sets (db_baselines db) items)))"

subsection \<open>CSV files\<close>

text \<open>
  \<open>csv.DictWriter\<close> with its defaults: minimal quoting, lines ended by CR LF. The text of a number, a
  time or a JSON value is the argument \<open>cell\<close>; a null is empty. Columns the file has no field for are
  left out, a missing column is empty.
\<close>

definition special_char :: "char \<Rightarrow> bool" where
  "special_char c = (c = CHR '','' \<or> c = CHR 0x22 \<or> c = CHR 0x0D \<or> c = CHR 0x0A)"

fun double_quotes :: "string \<Rightarrow> string" where
  "double_quotes [] = []"
| "double_quotes (c # cs) = (if c = CHR 0x22 then [c, c] else [c]) @ double_quotes cs"

definition csv_cell :: "string \<Rightarrow> string" where
  "csv_cell s = (if list_ex special_char s then CHR 0x22 # double_quotes s @ [CHR 0x22] else s)"

fun csv_line :: "string list \<Rightarrow> string" where
  "csv_line [] = [CHR 0x0D, CHR 0x0A]"
| "csv_line [s] = csv_cell s @ [CHR 0x0D, CHR 0x0A]"
| "csv_line (s # t # ss) = csv_cell s @ CHR '','' # csv_line (t # ss)"

definition cell_text :: "(sqlval \<Rightarrow> string) \<Rightarrow> sqlval \<Rightarrow> string" where
  "cell_text cell v = (case v of SqlNull \<Rightarrow> [] | SqlText s \<Rightarrow> s | _ \<Rightarrow> cell v)"

definition csv_lines :: "(sqlval \<Rightarrow> string) \<Rightarrow> string list \<Rightarrow> query_row list \<Rightarrow> string list" where
  "csv_lines cell names rows = csv_line names # map (\<lambda>r. csv_line (map (\<lambda>f. cell_text cell (column r f)) names)) rows"

definition bluetooth_fields :: "string list" where
  "bluetooth_fields = [''id'', ''measurement_session_id'', ''location_name'', ''source_name'', ''source_type'', ''observed_at'',
     ''mac'', ''device_name'', ''rssi_dbm'', ''vendor'', ''service_uuids'', ''address_type'', ''bluetooth_type'',
     ''vendor_resolution_method'', ''vendor_confidence'', ''bluetooth_company_id'', ''manufacturer_data_hash'',
     ''stable_identity'', ''identity_confidence'', ''observation_count'', ''raw_payload'', ''created_at'']"

definition wifi_fields :: "string list" where
  "wifi_fields = [''id'', ''measurement_session_id'', ''location_name'', ''source_name'', ''source_type'', ''observed_at'',
     ''bssid'', ''ssid'', ''channel'', ''frequency_hz'', ''rssi_dbm'', ''vendor'', ''signal_dbm'', ''noise_dbm'',
     ''encryption'', ''device_type'', ''stable_identity'', ''identity_confidence'', ''packet_count'', ''observation_count'',
     ''raw_payload'', ''created_at'']"

definition export_bluetooth_observations :: "text_lib \<Rightarrow> (sqlval \<Rightarrow> string) \<Rightarrow> observation_query \<Rightarrow> import_db \<Rightarrow> string list" where
  "export_bluetooth_observations lib cell q db = csv_lines cell bluetooth_fields (bluetooth_observation_rows lib q db)"

definition export_wifi_observations :: "text_lib \<Rightarrow> (sqlval \<Rightarrow> string) \<Rightarrow> observation_query \<Rightarrow> import_db \<Rightarrow> string list" where
  "export_wifi_observations lib cell q db = csv_lines cell wifi_fields (wifi_observation_rows lib q db)"

subsection \<open>Reading a CSV file\<close>

text \<open>A reader of quoted, comma-separated records, the specification the export is held against.\<close>

datatype csv_mode = Plain | Quoted | Closing

fun csv_read :: "csv_mode \<Rightarrow> string \<Rightarrow> string list \<Rightarrow> string \<Rightarrow> string list list" where
  "csv_read m cell record [] = (if cell = [] \<and> record = [] then [] else [record @ [cell]])"
| "csv_read Plain cell record (c # cs) =
     (if c = CHR 0x22 \<and> cell = [] then csv_read Quoted [] record cs
      else if c = CHR '','' then csv_read Plain [] (record @ [cell]) cs
      else if c = CHR 0x0A then (record @ [cell]) # csv_read Plain [] [] cs
      else if c = CHR 0x0D then csv_read Plain cell record cs
      else csv_read Plain (cell @ [c]) record cs)"
| "csv_read Quoted cell record (c # cs) =
     (if c = CHR 0x22 then csv_read Closing cell record cs else csv_read Quoted (cell @ [c]) record cs)"
| "csv_read Closing cell record (c # cs) =
     (if c = CHR 0x22 then csv_read Quoted (cell @ [c]) record cs
      else if c = CHR '','' then csv_read Plain [] (record @ [cell]) cs
      else if c = CHR 0x0A then (record @ [cell]) # csv_read Plain [] [] cs
      else csv_read Closing cell record cs)"

lemma csv_read_quoted: "csv_read Quoted cell rec (double_quotes s @ CHR 0x22 # t) = csv_read Closing (cell @ s) rec t
    \<or> (\<exists>u. t = CHR 0x22 # u)"
  by (induction s arbitrary: cell) auto

lemma csv_read_plain: "\<not> list_ex special_char s \<Longrightarrow> csv_read Plain cell rec (s @ t) = csv_read Plain (cell @ s) rec t"
  by (induction s arbitrary: cell) (auto simp: special_char_def)

lemma csv_read_cell:
  "csv_read Plain [] rec (csv_cell s @ CHR '','' # t) = csv_read Plain [] (rec @ [s]) t"
  "csv_read Plain [] rec (csv_cell s @ CHR 0x0D # CHR 0x0A # t) = (rec @ [s]) # csv_read Plain [] [] t"
proof -
  have q: "csv_read Quoted [] rec (double_quotes s @ CHR 0x22 # u) = csv_read Closing s rec u"
    if "\<forall>v. u \<noteq> CHR 0x22 # v" for u
    using csv_read_quoted [of "[]" rec s u] that by auto
  show "csv_read Plain [] rec (csv_cell s @ CHR '','' # t) = csv_read Plain [] (rec @ [s]) t"
    using q [of "CHR '','' # t"] by (simp add: csv_cell_def csv_read_plain)
  show "csv_read Plain [] rec (csv_cell s @ CHR 0x0D # CHR 0x0A # t) = (rec @ [s]) # csv_read Plain [] [] t"
    using q [of "CHR 0x0D # CHR 0x0A # t"] by (simp add: csv_cell_def csv_read_plain)
qed

lemma csv_read_line: "ss \<noteq> [] \<Longrightarrow> csv_read Plain [] rec (csv_line ss @ t) = (rec @ ss) # csv_read Plain [] [] t"
  by (induction ss arbitrary: rec rule: csv_line.induct) (simp_all add: csv_read_cell)

lemma csv_read_lines: "\<forall>r\<in>set rows. r \<noteq> [] \<Longrightarrow> csv_read Plain [] [] (concat (map csv_line rows)) = rows"
  by (induction rows) (simp_all add: csv_read_line)

lemma csv_lines_read:
  "names \<noteq> [] \<Longrightarrow> csv_read Plain [] [] (concat (csv_lines cell names rows))
    = names # map (\<lambda>r. map (\<lambda>f. cell_text cell (column r f)) names) rows"
  using csv_read_lines [of "names # map (\<lambda>r. map (\<lambda>f. cell_text cell (column r f)) names) rows"]
  by (simp add: csv_lines_def comp_def)

subsection \<open>Lemmas on the listings\<close>

lemma newest_first_set [simp]: "set (newest_first obs) = set obs" "length (newest_first obs) = length obs"
  by (simp_all add: newest_first_def)

lemma newest_first_sorted: "sorted (map (\<lambda>ob. - ob_at ob) (newest_first obs))"
  by (simp add: newest_first_def)

lemma newest_first_mset: "mset (newest_first obs) = mset obs"
  by (simp add: newest_first_def)

text \<open>The pattern \<open>%s%\<close> of a text without wildcards matches the texts that contain it.\<close>

lemma like_literal: "\<forall>c\<in>set p. c \<notin> {CHR ''%'', CHR ''_'', CHR 0x5C} \<Longrightarrow> like (p @ ''%'') s \<longleftrightarrow> startswith s p"
proof (induction p arbitrary: s)
  case Nil
  have "like ''%'' s" by (induction s) auto
  then show ?case by simp
next
  case (Cons a p)
  then show ?case by (cases s) auto
qed

lemma like_contains:
  assumes "\<forall>c\<in>set p. c \<notin> {CHR ''%'', CHR ''_'', CHR 0x5C}"
  shows "like (CHR ''%'' # p @ ''%'') s \<longleftrightarrow> contains p s"
proof (induction s)
  case Nil
  show ?case using like_literal [OF assms, of "[]"] by (cases p) (auto simp: contains_iff startswith_iff)
next
  case (Cons c s)
  have "like (CHR ''%'' # p @ ''%'') (c # s) \<longleftrightarrow> startswith (c # s) p \<or> contains p s"
    using like_literal [OF assms, of "c # s"] Cons by simp
  also have "\<dots> \<longleftrightarrow> contains p (c # s)"
    by (auto simp: contains_iff startswith_iff Cons_eq_append_conv)
  finally show ?case .
qed

lemma sql_min_le: "x \<in> set (non_null xs) \<Longrightarrow> \<exists>m. sql_min xs = Some m \<and> m \<le> x"
proof -
  have "fold min ys y \<le> z" if "z \<in> insert y (set ys)" for y z :: rat and ys
    using that by (simp add: Min.set_eq_fold [symmetric])
  then show "x \<in> set (non_null xs) \<Longrightarrow> \<exists>m. sql_min xs = Some m \<and> m \<le> x"
    by (cases "non_null xs") (auto simp: sql_min_def)
qed

lemma sql_max_ge: "x \<in> set (non_null xs) \<Longrightarrow> \<exists>m. sql_max xs = Some m \<and> x \<le> m"
proof -
  have "z \<le> fold max ys y" if "z \<in> insert y (set ys)" for y z :: rat and ys
    using that by (simp add: Max.set_eq_fold [symmetric])
  then show "x \<in> set (non_null xs) \<Longrightarrow> \<exists>m. sql_max xs = Some m \<and> x \<le> m"
    by (cases "non_null xs") (auto simp: sql_max_def)
qed

lemma sum_list_bounds:
  fixes ys :: "rat list"
  shows "\<forall>y\<in>set ys. a \<le> y \<Longrightarrow> of_nat (length ys) * a \<le> sum_list ys"
    and "\<forall>y\<in>set ys. y \<le> b \<Longrightarrow> sum_list ys \<le> of_nat (length ys) * b"
  by (induction ys) (auto simp: algebra_simps add_mono)

lemma sql_avg_between:
  assumes "sql_avg xs = Some m"
  shows "\<exists>a b. sql_min xs = Some a \<and> sql_max xs = Some b \<and> a \<le> m \<and> m \<le> b"
proof -
  have ne: "non_null xs \<noteq> []" and m: "m = sum_list (non_null xs) / of_nat (length (non_null xs))"
    using assms by (auto simp: sql_avg_def Let_def split: if_splits)
  then obtain y where y: "y \<in> set (non_null xs)" by (cases "non_null xs") auto
  from sql_min_le [OF y] sql_max_ge [OF y] obtain a b where ab: "sql_min xs = Some a" "sql_max xs = Some b" by blast
  have "\<forall>y\<in>set (non_null xs). a \<le> y \<and> y \<le> b" using sql_min_le sql_max_ge ab by fastforce
  then have "of_nat (length (non_null xs)) * a \<le> sum_list (non_null xs)" "sum_list (non_null xs) \<le> of_nat (length (non_null xs)) * b"
    using sum_list_bounds [of "non_null xs"] by auto
  then have "a \<le> m \<and> m \<le> b" using ne by (auto simp: m field_simps)
  with ab show ?thesis by blast
qed

lemma sql_max_mem: "sql_max xs = Some m \<Longrightarrow> m \<in> set (non_null xs)"
  using Max_in [of "set (non_null xs)"] by (cases "non_null xs") (auto simp: sql_max_def Max.set_eq_fold [symmetric])

lemma non_null_member: "f x = Some y \<Longrightarrow> x \<in> set xs \<Longrightarrow> y \<in> set (non_null (map f xs))"
  by (auto simp: non_null_def intro!: image_eqI [of _ _ "Some y"] image_eqI [of _ _ x])

lemma non_null_times: "non_null (map (\<lambda>ob. Some (ob_at ob)) obs) = map ob_at obs"
  by (induction obs) (simp_all add: non_null_def)

text \<open>What every row of the devices page says about the observations it counts.\<close>

definition stats_ok :: "rat \<Rightarrow> device_observation list \<Rightarrow> device_listing \<Rightarrow> bool" where
  "stats_ok now obs item \<longleftrightarrow>
     dst_count (dl_stats item) = length obs
     \<and> (\<forall>x. dst_level (dl_stats item) = Some x \<or> dst_avg (dl_stats item) = Some x \<longrightarrow>
          (\<exists>lo hi. dst_min (dl_stats item) = Some lo \<and> dst_max (dl_stats item) = Some hi \<and> lo \<le> x \<and> x \<le> hi))
     \<and> (dl_presence item = ''present'' \<longleftrightarrow> (\<exists>ob\<in>set obs. now - 60 \<le> ob_at ob))
     \<and> (dl_presence item = ''unknown'' \<longleftrightarrow> obs = [])"

lemma listing_stats_ok:
  assumes "dl_stats item = stats_of level (newest_first obs)" "dl_presence item = presence_state now (dst_last (dl_stats item))"
  shows "stats_ok now obs item"
proof -
  let ?obs = "newest_first obs"
  have level: "\<exists>lo hi. sql_min (map level ?obs) = Some lo \<and> sql_max (map level ?obs) = Some hi \<and> lo \<le> x \<and> x \<le> hi"
    if "agg_nth 0 level ?obs = Some x" for x
  proof -
    have "x \<in> set (non_null (map level ?obs))"
    proof (cases ?obs)
      case (Cons ob obs')
      show ?thesis by (rule non_null_member [of level ob]) (use that Cons in \<open>simp_all add: agg_nth_def\<close>)
    qed (use that in \<open>simp add: agg_nth_def\<close>)
    then show ?thesis using sql_min_le sql_max_ge by blast
  qed
  have last: "case dst_last (stats_of level ?obs) of None \<Rightarrow> obs = [] | Some t \<Rightarrow> obs \<noteq> [] \<and> t \<in> ob_at ` set obs \<and> (\<forall>ob\<in>set obs. ob_at ob \<le> t)"
  proof (cases "sql_max (map (\<lambda>ob. Some (ob_at ob)) ?obs)")
    case None
    then show ?thesis
      by (cases ?obs) (auto simp: stats_of_def sql_max_def non_null_def newest_first_def dest: arg_cong [of _ _ length])
  next
    case (Some t)
    then show ?thesis using sql_max_mem [OF Some] sql_max_ge [of _ "map (\<lambda>ob. Some (ob_at ob)) ?obs"]
      by (auto simp: stats_of_def non_null_times)
  qed
  have present: "dl_presence item = ''present'' \<longleftrightarrow> (\<exists>ob\<in>set obs. now - 60 \<le> ob_at ob)" "dl_presence item = ''unknown'' \<longleftrightarrow> obs = []"
    using last by (auto simp: assms presence_state_def intro: order_trans split: option.splits)
  show ?thesis unfolding stats_ok_def using level sql_avg_between present by (auto simp: assms(1) stats_of_def)
qed

lemma listing_simps:
  "dl_stats (wifi_listing now d obs) = stats_of signal_of obs" "dl_stats (bluetooth_listing now d obs) = stats_of ob_rssi_dbm obs"
  "dl_presence (wifi_listing now d obs) = presence_state now (dst_last (dl_stats (wifi_listing now d obs)))"
  "dl_presence (bluetooth_listing now d obs) = presence_state now (dst_last (dl_stats (bluetooth_listing now d obs)))"
  "it_bssid (dl_item (wifi_listing now d obs)) = Some (kd_mac d)" "it_mac (dl_item (bluetooth_listing now d obs)) = Some (kd_mac d)"
  by (simp_all add: wifi_listing_def bluetooth_listing_def Let_def)

text \<open>
  The devices page looks for a place in the observation's own column only, while the observations page
  falls back on the place the observation is linked to: an observation imported with its place linked
  but not copied is found by the one and not counted by the other.
\<close>

lemma place_filters_differ:
  assumes "ob_location_name ob = None" and "place_matches (place_of locs ob) place" and "given (Some l) = Some place"
  shows "selects lib locs \<lparr>oq_session = None, oq_location = Some l, oq_mac = None, oq_start = None, oq_end = None\<rparr> ob"
    and "dq_location q = Some l \<Longrightarrow> \<not> counted_here q ob"
  using assms by (auto simp: selects_def counted_here_def place_matches_def given_def)

subsection \<open>Properties\<close>

text \<open>
  C27: A CSV export read back by a reader of quoted records gives the header and then one record for
  every observation the filters select, newest first, whatever the texts hold (commas, quotes, line
  ends); its header names every column of the query and nothing else, and the page of the same query
  shows the same rows, cut to its limit.
\<close>

theorem exported_observations_read_back:
  fixes lib q db cell
  defines "locs \<equiv> sd_locations (im_sessions db)" and "devices \<equiv> db_wifi_devices (im_devices db)"
  defines "wifi \<equiv> newest_first (filter (selects lib locs q) (db_wifi_observations (im_devices db)))"
    and "bluetooth \<equiv> newest_first (filter (selects lib locs q) (db_bluetooth_observations (im_devices db)))"
  shows "csv_read Plain [] [] (concat (export_wifi_observations lib cell q db))
      = wifi_fields # map (\<lambda>ob. map (\<lambda>f. cell_text cell (column (wifi_observation_row locs devices ob) f)) wifi_fields) wifi
    \<and> csv_read Plain [] [] (concat (export_bluetooth_observations lib cell q db))
      = bluetooth_fields # map (\<lambda>ob. map (\<lambda>f. cell_text cell (column (bluetooth_observation_row locs ob) f)) bluetooth_fields) bluetooth
    \<and> set (map fst (wifi_observation_row locs devices ob)) = set wifi_fields
    \<and> set (map fst (bluetooth_observation_row locs ob)) = set bluetooth_fields
    \<and> fst (list_wifi_observations lib q limit db) = take (nat (max 1 (min limit 5000))) (map (wifi_observation_row locs devices) wifi)
    \<and> fst (list_bluetooth_observations lib q limit db) = take (nat (max 1 (min limit 5000))) (map (bluetooth_observation_row locs) bluetooth)"
proof (intro conjI)
  show "csv_read Plain [] [] (concat (export_wifi_observations lib cell q db))
      = wifi_fields # map (\<lambda>ob. map (\<lambda>f. cell_text cell (column (wifi_observation_row locs devices ob) f)) wifi_fields) wifi"
    unfolding export_wifi_observations_def
    by (subst csv_lines_read) (simp_all add: wifi_fields_def wifi_observation_rows_def Let_def assms comp_def)
  show "csv_read Plain [] [] (concat (export_bluetooth_observations lib cell q db))
      = bluetooth_fields # map (\<lambda>ob. map (\<lambda>f. cell_text cell (column (bluetooth_observation_row locs ob) f)) bluetooth_fields) bluetooth"
    unfolding export_bluetooth_observations_def
    by (subst csv_lines_read) (simp_all add: bluetooth_fields_def bluetooth_observation_rows_def Let_def assms comp_def)
  have "map fst (wifi_observation_row locs devices ob) = [''id'', ''measurement_session_id'', ''location_name'', ''source_name'',
      ''source_type'', ''observed_at'', ''bssid'', ''ssid'', ''channel'', ''frequency_hz'', ''rssi_dbm'', ''vendor'', ''device_type'',
      ''signal_dbm'', ''noise_dbm'', ''encryption'', ''packet_count'', ''stable_identity'', ''identity_confidence'',
      ''observation_count'', ''raw_payload'', ''created_at'']" (is "_ = ?names")
    by (simp add: wifi_observation_row_def Let_def)
  moreover have "set ?names = set wifi_fields" by code_simp
  ultimately show "set (map fst (wifi_observation_row locs devices ob)) = set wifi_fields" by (simp only:)
  show "set (map fst (bluetooth_observation_row locs ob)) = set bluetooth_fields"
    by (simp add: bluetooth_observation_row_def bluetooth_fields_def Let_def)
qed (simp_all add: list_wifi_observations_def list_bluetooth_observations_def wifi_observation_rows_def bluetooth_observation_rows_def Let_def assms)

text \<open>
  Every row of a devices page is a device of the table, at most a thousand of them; its count is
  that of the observations of the device in the session and place asked for, and is positive when one
  was asked for; its latest and average level lie between its lowest and highest; it is present
  exactly when one of these observations is at most a minute old, and unknown when there is none.
\<close>

theorem device_page_statistics:
  assumes "page = list_wifi_devices \<and> devices = db_wifi_devices db \<and> obs = db_wifi_observations db
      \<or> page = list_bluetooth_devices \<and> devices = db_bluetooth_devices db \<and> obs = db_bluetooth_observations db"
    and "page lib now q sets db = (items, n, reference)"
  shows "length items \<le> n \<and> n \<le> 1000 \<and> (\<forall>item\<in>set items. \<exists>d\<in>set devices.
      (it_bssid (dl_item item) = Some (kd_mac d) \<or> it_mac (dl_item item) = Some (kd_mac d))
      \<and> stats_ok now (filter (\<lambda>ob. ob_mac ob = kd_mac d \<and> counted_here q ob) obs) item
      \<and> (dq_session q \<noteq> None \<or> given (dq_location q) \<noteq> None \<longrightarrow> 0 < dst_count (dl_stats item)))"
proof -
  let ?obs = "\<lambda>d. filter (\<lambda>ob. ob_mac ob = kd_mac d \<and> counted_here q ob) obs"
  obtain listing level name where l: "items = [] \<or> items = map (\<lambda>d. listing now d (observations_of q obs d)) (listed_devices lib name q devices obs)"
    "n = device_limit q" "\<And>d os. dl_stats (listing now d os) = stats_of level os"
    "\<And>d os. dl_presence (listing now d os) = presence_state now (dst_last (dl_stats (listing now d os)))"
    "\<And>d os. it_bssid (dl_item (listing now d os)) = Some (kd_mac d) \<or> it_mac (dl_item (listing now d os)) = Some (kd_mac d)"
    using assms
  proof (elim disjE conjE)
    assume "page = list_wifi_devices" "devices = db_wifi_devices db" "obs = db_wifi_observations db" "page lib now q sets db = (items, n, reference)"
    then show thesis
      by (intro that [of wifi_listing kd_ssid signal_of]) (auto simp: list_wifi_devices_def Let_def listing_simps split: if_splits)
  next
    assume "page = list_bluetooth_devices" "devices = db_bluetooth_devices db" "obs = db_bluetooth_observations db" "page lib now q sets db = (items, n, reference)"
    then show thesis
      by (intro that [of bluetooth_listing kd_name ob_rssi_dbm]) (auto simp: list_bluetooth_devices_def Let_def listing_simps split: if_splits)
  qed
  have "\<exists>d\<in>set devices. (it_bssid (dl_item item) = Some (kd_mac d) \<or> it_mac (dl_item item) = Some (kd_mac d))
      \<and> stats_ok now (?obs d) item \<and> (dq_session q \<noteq> None \<or> given (dq_location q) \<noteq> None \<longrightarrow> 0 < dst_count (dl_stats item))"
    if item: "item \<in> set items" for item
  proof -
    obtain d where d: "d \<in> set (listed_devices lib name q devices obs)" "item = listing now d (observations_of q obs d)"
      using item l(1) by auto
    have mem: "d \<in> set devices" "shown lib name q obs d"
      using d(1) by (auto simp: listed_devices_def recent_first_def dest!: in_set_takeD)
    have "stats_ok now (?obs d) item"
      by (rule listing_stats_ok [where level = level]) (simp_all only: d(2) l(3,4) observations_of_def)
    moreover have "dq_session q \<noteq> None \<or> given (dq_location q) \<noteq> None \<longrightarrow> 0 < dst_count (dl_stats item)"
      using mem(2) by (auto simp: shown_def d(2) l(3) stats_of_def split: if_splits)
    ultimately show ?thesis using mem(1) l(5) d(2) by blast
  qed
  moreover have "length items \<le> n \<and> n \<le> 1000" using l(1,2) by (auto simp: listed_devices_def device_limit_def)
  ultimately show ?thesis by blast
qed

definition sample_device_query :: device_query where
  "sample_device_query = \<lparr>dq_session = Some 7, dq_location = Some '' lab '', dq_mac = None, dq_name = Some ''e'', dq_reference_set = None,
     dq_require_session = True, dq_limit = 1\<rparr>"

lemma device_page_statistics_witness:
  "\<exists>items n r item. list_wifi_devices sample_lib 30 sample_device_query [] sample_device_db = (items, n, r) \<and> items = [item]
     \<and> dst_count (dl_stats item) = 1 \<and> dl_presence item = ''present''"
proof -
  obtain items n r where s: "list_wifi_devices sample_lib 30 sample_device_query [] sample_device_db = (items, n, r)" by (metis prod_cases3)
  have "length (fst (list_wifi_devices sample_lib 30 sample_device_query [] sample_device_db)) = 1
    \<and> dst_count (dl_stats (hd (fst (list_wifi_devices sample_lib 30 sample_device_query [] sample_device_db)))) = 1" by code_simp
  then have c: "length items = 1" "dst_count (dl_stats (hd items)) = 1" unfolding s fst_conv by blast+
  then obtain item where i: "items = [item]" by (cases items) auto
  have m: "item \<in> set items" by (simp add: i)
  from device_page_statistics [where page = list_wifi_devices, OF disjI1 s, OF conjI, OF refl, OF conjI, OF refl refl,
      THEN conjunct2, THEN conjunct2, THEN bspec, OF m] obtain d :: known_device where
    "stats_ok 30 (filter (\<lambda>ob. ob_mac ob = kd_mac d \<and> counted_here sample_device_query ob) (db_wifi_observations sample_device_db)) item"
    by blast
  moreover from this c(2) have "filter (\<lambda>ob. ob_mac ob = kd_mac d \<and> counted_here sample_device_query ob) (db_wifi_observations sample_device_db) \<noteq> []"
    by (auto simp: stats_ok_def i)
  moreover have "\<forall>ob\<in>set (db_wifi_observations sample_device_db). 30 - 60 \<le> ob_at ob" by (simp add: sample_device_db_def)
  ultimately have "dl_presence item = ''present''" unfolding stats_ok_def by (metis (no_types, lifting) hd_in_set filter_is_subset subsetD)
  then show ?thesis using s c i by auto
qed

end
