(* ===== verification/Assistant.thy ===== *)
theory Assistant
  imports Rag Observations
begin

section \<open>The assistant\<close>

text \<open>
  \<open>app/assistant.py\<close> and the question route of \<open>routers/system_rag.py\<close>: which records a question
  concerns, how they are packed into the prompt, and how the answer is made. A text is read as a list
  of Latin-1 characters, so the two Hungarian letters outside that range do not occur. \<open>casefold\<close>,
  \<open>json.dumps\<close> and \<open>json.loads\<close>, the exchange with the Ollama server and the rows that each of the
  five sample queries returns are arguments.
\<close>

subsection \<open>Settings and status\<close>

record assistant_settings =
  as_enabled :: bool
  as_url :: string
  as_model :: string
  as_timeout :: pyfloat
  as_records :: int
  as_prompt_chars :: int
  as_sources :: int
  as_predict :: int

definition bounded_int :: "env \<Rightarrow> string \<Rightarrow> string \<Rightarrow> int \<Rightarrow> int \<Rightarrow> int \<Rightarrow> int" where
  "bounded_int env name given_default low high fallback =
     (case int_of_text (getenv env name given_default) of Inl _ \<Rightarrow> fallback | Inr n \<Rightarrow> max low (min high n))"

definition assistant_from_env :: "(string \<Rightarrow> pyfloat option) \<Rightarrow> env \<Rightarrow> assistant_settings" where
  "assistant_from_env flt env =
     \<lparr>as_enabled = enabled_flag env ''AI_ENABLED'', as_url = rstrip_slash (getenv env ''OLLAMA_URL'' ''http://ollama:11434''),
      as_model = py_strip (getenv env ''OLLAMA_MODEL'' []), as_timeout = ollama_timeout flt env,
      as_records = bounded_int env ''ASSISTANT_MAX_CONTEXT_RECORDS'' ''10'' 1 50 10,
      as_prompt_chars = bounded_int env ''ASSISTANT_MAX_PROMPT_CHARS'' ''12000'' 2000 60000 12000,
      as_sources = bounded_int env ''ASSISTANT_MAX_SOURCE_RECORDS'' ''20'' 1 100 20,
      as_predict = bounded_int env ''ASSISTANT_NUM_PREDICT'' ''768'' 64 2048 768\<rparr>"

record generation_status =
  gs_enabled :: bool
  gs_available :: bool
  gs_status :: string
  gs_model :: "string option"
  gs_error :: "string option"
  gs_version :: "string option"
  gs_models :: "string list option"

definition assistant_status :: "assistant_settings \<Rightarrow> generation_status" where
  "assistant_status st =
     (let available = as_enabled st \<and> as_model st \<noteq> [] in
      \<lparr>gs_enabled = as_enabled st, gs_available = available,
       gs_status = (if available then ''configured'' else if as_enabled st then ''model_not_configured'' else ''disabled''),
       gs_model = (if as_model st = [] then None else Some (as_model st)), gs_error = None, gs_version = None, gs_models = None\<rparr>)"

definition model_is_installed :: "string \<Rightarrow> string set \<Rightarrow> bool" where
  "model_is_installed model installed = (model \<in> installed \<or> CHR '':'' \<notin> set model \<and> model @ '':latest'' \<in> installed)"

text \<open>\<open>str(item.get("name") or item.get("model") or "")\<close>\<close>

definition py_or :: "pyval \<Rightarrow> pyval \<Rightarrow> pyval" where
  "py_or a b = (if py_truthy a then a else b)"

definition installed_names :: "text_lib \<Rightarrow> pyval list \<Rightarrow> string list" where
  "installed_names lib items = List.map_filter (\<lambda>item. case item of
     PDict d \<Rightarrow> Some (py_str lib (py_or (py_or (dict_get d ''name'') (dict_get d ''model'')) (PStr [])))
   | _ \<Rightarrow> None) items"

text \<open>The two probes: the bodies for the version and the tags, or the first failure.\<close>

datatype probe = Probe_Failed string | Probed pyval pyval

definition live_status :: "text_lib \<Rightarrow> probe \<Rightarrow> assistant_settings \<Rightarrow> generation_status" where
  "live_status lib p st =
     (let configured = assistant_status st in
      if \<not> gs_available configured then configured
      else case p of
        Probe_Failed message \<Rightarrow> configured\<lparr>gs_available := False, gs_status := ''ollama_unavailable'', gs_error := Some message\<rparr>
      | Probed version tags \<Rightarrow>
          (case version of
             PDict vd \<Rightarrow> (case dict_get vd ''version'' of
               PStr ver \<Rightarrow> (case tags of
                 PDict td \<Rightarrow> (case dict_get td ''models'' of
                   PList items \<Rightarrow>
                     (let names = installed_names lib items;
                          known = configured\<lparr>gs_version := Some ver, gs_models := Some (sort (remdups (filter (\<lambda>n. n \<noteq> []) names)))\<rparr> in
                      if \<not> model_is_installed (as_model st) (set names)
                      then known\<lparr>gs_available := False, gs_status := ''model_not_installed''\<rparr>
                      else known\<lparr>gs_status := ''ready''\<rparr>)
                 | _ \<Rightarrow> configured\<lparr>gs_available := False, gs_status := ''ollama_invalid_response'', gs_version := Some ver\<rparr>)
               | _ \<Rightarrow> configured\<lparr>gs_available := False, gs_status := ''ollama_invalid_response'', gs_version := Some ver\<rparr>)
             | _ \<Rightarrow> configured\<lparr>gs_available := False, gs_status := ''ollama_invalid_response''\<rparr>)
           | _ \<Rightarrow> configured\<lparr>gs_available := False, gs_status := ''ollama_invalid_response''\<rparr>))"

text \<open>The report of the status route: the generation, the retrieval, and whether the embedding model is installed.\<close>

definition assistant_report ::
  "text_lib \<Rightarrow> probe \<Rightarrow> assistant_settings \<Rightarrow> rag_settings \<Rightarrow> rag_state \<Rightarrow> generation_status \<times> rag_state \<times> bool" where
  "assistant_report lib p st rs rag =
     (let generation = live_status lib p st;
          installed = model_is_installed (rgs_model rs) (set (or_default (gs_models generation) [])) in
      (generation, if rgs_provider rs = ''ollama'' \<and> \<not> installed
         then rag\<lparr>rst_available := False, rst_status := ''embedding_model_not_installed''\<rparr> else rag, installed))"

subsection \<open>What a question is about\<close>

definition context_words :: "(string \<times> string list) list" where
  "context_words =
     [(''sessions'', [''session'', ''m'' @ [CHR 0xE9] @ ''r'' @ [CHR 0xE9] @ ''s'', ''meres'', ''helysz'' @ [CHR 0xED] @ ''n'', ''helyszin'',
         ''oper'' @ [CHR 0xE1] @ ''tor'', ''operator'']),
      (''wifi'', [''wifi'', ''wi-fi'', ''ssid'', ''bssid'', ''mac'', ''mac c'' @ [CHR 0xED] @ ''m'', ''mac-c'' @ [CHR 0xED] @ ''m'', ''mac cim'',
         ''csatorna'', ''channel'']),
      (''bluetooth'', [''bluetooth'', ''ble'', ''mac'', ''mac c'' @ [CHR 0xED] @ ''m'', ''mac-c'' @ [CHR 0xED] @ ''m'', ''mac cim'', ''service uuid'']),
      (''peaks'', [''peak'', ''cs'' @ [CHR 0xFA] @ ''cs'', ''csucs'', ''frekvencia'', ''frequency'', ''spektrum'', ''spectrum'']),
      (''anomalies'', [''anom'' @ [CHR 0xE1] @ ''lia'', ''anomalia'', ''anomaly'', ''riaszt'', ''alert''])]"

definition summary_words :: "string list" where
  "summary_words = [[CHR 0xF6] @ ''sszefoglal'', ''osszefoglal'', ''foglald '' @ [CHR 0xF6] @ ''ssze'', ''foglald ossze'', ''minden'', ''overview'']"

definition mentions :: "string \<Rightarrow> string list \<Rightarrow> bool" where
  "mentions question words = list_ex (\<lambda>w. contains w question) words"

definition select_context_kinds :: "(string \<Rightarrow> string) \<Rightarrow> string \<Rightarrow> string list" where
  "select_context_kinds fold_case question =
     (let normalized = fold_case question; selected = map fst (filter (\<lambda>(_, words). mentions normalized words) context_words) in
      if mentions normalized summary_words then map fst context_words
      else if selected = [] then [''sessions'', ''peaks'', ''anomalies''] else selected)"

definition complete_words :: "string list" where
  "complete_words = [''minden'', [CHR 0xF6] @ ''sszes'', ''osszes'', ''valamennyi'', ''teljes lista'', ''list'' @ [CHR 0xE1] @ ''z'', ''listaz'', ''sorold'', ''mutasd'']"

definition is_mac_inventory_question :: "(string \<Rightarrow> string) \<Rightarrow> string \<Rightarrow> bool" where
  "is_mac_inventory_question fold_case question =
     (mentions (fold_case question) [''mac'', ''bssid''] \<and> mentions (fold_case question) complete_words)"

text \<open>\<open>fetch kind limit\<close> are the rows of the sample query of that kind, after \<open>json_safe\<close>.\<close>

definition source_of :: "text_lib \<Rightarrow> string \<Rightarrow> row \<Rightarrow> row option" where
  "source_of lib kind r =
     (if py_truthy (dict_get r ''id'')
      then let stamp = py_or (dict_get r ''time'') (dict_get r ''started_at'') in
        Some ([(''record_type'', PStr kind), (''record_id'', PStr (py_str lib (dict_get r ''id'')))]
          @ (if py_truthy stamp then [(''timestamp'', PStr (py_str lib stamp))] else []))
      else None)"

definition collect_sql_context ::
  "text_lib \<Rightarrow> (string \<Rightarrow> string) \<Rightarrow> (string \<Rightarrow> nat \<Rightarrow> row list) \<Rightarrow> string \<Rightarrow> nat \<Rightarrow> row \<times> row list" where
  "collect_sql_context lib fold_case fetch question limit =
     (let kinds = select_context_kinds fold_case question in
      (map (\<lambda>k. (k, PList (map PDict (fetch k limit)))) kinds,
       concat (map (\<lambda>k. List.map_filter (source_of lib k) (fetch k limit)) kinds)))"

subsection \<open>The prompt\<close>

definition trim_field :: "pyval \<Rightarrow> pyval" where
  "trim_field v = (case v of PStr s \<Rightarrow> if 280 < length s then PStr (take 277 s @ ''...'') else v | _ \<Rightarrow> v)"

definition trim_record :: "pyval \<Rightarrow> pyval" where
  "trim_record v = (case v of PDict d \<Rightarrow> PDict (map (\<lambda>(k, x). (k, trim_field x)) d) | _ \<Rightarrow> v)"

text \<open>The records of a kind: how many there are, those taken, those waiting, and whether the kind is exhausted.\<close>

datatype pack_entry = Packed nat "pyval list" "pyval list" bool | Plain pyval

definition entry_value :: "pack_entry \<Rightarrow> pyval" where
  "entry_value e = (case e of
     Packed n taken _ _ \<Rightarrow> PDict [(''supplied_count'', PInt (int n)), (''records'', PList taken)] | Plain v \<Rightarrow> v)"

definition bounded_value :: "(string \<times> pack_entry) list \<Rightarrow> pyval" where
  "bounded_value es = PDict (map (\<lambda>(k, e). (k, entry_value e)) es)"

definition initial_entry :: "pyval \<Rightarrow> pack_entry" where
  "initial_entry v = (case v of PList rs \<Rightarrow> Packed (length rs) [] (map trim_record rs) (rs = []) | _ \<Rightarrow> Plain v)"

text \<open>One kind's turn. A kind that is not exhausted has a waiting record, see \<open>waits_ok\<close>.\<close>

definition offer ::
  "(pyval \<Rightarrow> string) \<Rightarrow> int \<Rightarrow> nat \<Rightarrow> (string \<times> pack_entry) list \<times> bool \<Rightarrow> (string \<times> pack_entry) list \<times> bool" where
  "offer dumps budget i s =
     (let (es, progressed) = s in
      case es ! i of
        (k, Packed n taken (r # rest) False) \<Rightarrow>
          (let es' = es[i := (k, Packed n (taken @ [r]) rest (rest = []))] in
           if budget < int (length (dumps (bounded_value es')))
           then (es[i := (k, Packed n taken (r # rest) True)], progressed)
           else (es', True))
      | _ \<Rightarrow> s)"

definition pack_round :: "(pyval \<Rightarrow> string) \<Rightarrow> int \<Rightarrow> (string \<times> pack_entry) list \<Rightarrow> (string \<times> pack_entry) list \<times> bool" where
  "pack_round dumps budget es = fold (offer dumps budget) [0..<length es] (es, False)"

definition spent :: "pack_entry \<Rightarrow> bool" where
  "spent e = (case e of Packed _ _ _ b \<Rightarrow> b | Plain _ \<Rightarrow> True)"

definition waiting :: "pack_entry \<Rightarrow> nat" where
  "waiting e = (case e of Packed _ _ ws _ \<Rightarrow> length ws | Plain _ \<Rightarrow> 0)"

definition total_waiting :: "(string \<times> pack_entry) list \<Rightarrow> nat" where
  "total_waiting es = sum_list (map (waiting \<circ> snd) es)"

lemma total_waiting_update:
  "i < length es \<Longrightarrow> es ! i = (k, e) \<Longrightarrow> total_waiting (es[i := (k', e')]) + waiting e = total_waiting es + waiting e'"
proof (induction es arbitrary: i)
  case (Cons x es)
  then show ?case by (cases i) (auto simp: total_waiting_def)
qed simp

text \<open>The three outcomes of a turn.\<close>

lemma offer_cases:
  obtains (idle) "offer dumps budget i (es, p) = (es, p)"
  | (refused) k n taken r rest where "es ! i = (k, Packed n taken (r # rest) False)"
      "offer dumps budget i (es, p) = (es[i := (k, Packed n taken (r # rest) True)], p)"
      "budget < int (length (dumps (bounded_value (es[i := (k, Packed n (taken @ [r]) rest (rest = []))]))))"
  | (taken) k n taken r rest where "es ! i = (k, Packed n taken (r # rest) False)"
      "offer dumps budget i (es, p) = (es[i := (k, Packed n (taken @ [r]) rest (rest = []))], True)"
      "int (length (dumps (bounded_value (es[i := (k, Packed n (taken @ [r]) rest (rest = []))])))) \<le> budget"
proof -
  obtain k e where e: "es ! i = (k, e)" by (cases "es ! i")
  show thesis
  proof (cases "\<exists>n taken r rest. e = Packed n taken (r # rest) False")
    case True
    then obtain n tk r rest where er: "e = Packed n tk (r # rest) False" by blast
    show thesis
    proof (cases "budget < int (length (dumps (bounded_value (es[i := (k, Packed n (tk @ [r]) rest (rest = []))]))))")
      case True
      then show thesis using e er by (intro refused [of k n tk r rest]) (simp_all add: offer_def)
    next
      case False
      then show thesis using e er by (intro taken [of k n tk r rest]) (simp_all add: offer_def)
    qed
  next
    case False
    then show thesis using e by (intro idle) (auto simp: offer_def split: pack_entry.splits list.splits bool.splits)
  qed
qed

lemma offer_length [simp]: "length (fst (offer dumps budget i (es, p))) = length es"
  by (rule offer_cases [of dumps budget i es p]) simp_all

lemma offer_waiting:
  assumes "i < length es"
  shows "total_waiting (fst (offer dumps budget i (es, p))) \<le> total_waiting es
    \<and> (snd (offer dumps budget i (es, p)) \<longrightarrow> p \<or> total_waiting (fst (offer dumps budget i (es, p))) < total_waiting es)"
proof (cases rule: offer_cases [of dumps budget i es p])
  case (refused k n taken r rest)
  then show ?thesis using total_waiting_update [OF assms refused(1), of k "Packed n taken (r # rest) True"]
    by (simp add: waiting_def)
next
  case (taken k n tk r rest)
  then show ?thesis using total_waiting_update [OF assms taken(1), of k "Packed n (tk @ [r]) rest (rest = [])"]
    by (simp add: waiting_def)
qed simp

lemma round_waiting:
  assumes "\<forall>i\<in>set is'. i < length es"
  shows "total_waiting (fst (fold (offer dumps budget) is' (es, p))) \<le> total_waiting es
    \<and> (snd (fold (offer dumps budget) is' (es, p)) \<longrightarrow> p \<or> total_waiting (fst (fold (offer dumps budget) is' (es, p))) < total_waiting es)"
  using assms
proof (induction is' arbitrary: es p)
  case (Cons i is')
  obtain es' p' where o: "offer dumps budget i (es, p) = (es', p')" by (cases "offer dumps budget i (es, p)")
  have "length es' = length es" using offer_length [of dumps budget i es p] o by simp
  then show ?case using Cons.IH [of es' p'] Cons.prems offer_waiting [of i es dumps budget p] o by (auto intro: le_trans)
qed simp

text \<open>Rounds until every kind is exhausted or a round takes nothing.\<close>

function pack_loop :: "(pyval \<Rightarrow> string) \<Rightarrow> int \<Rightarrow> (string \<times> pack_entry) list \<Rightarrow> (string \<times> pack_entry) list" where
  "pack_loop dumps budget es =
     (if list_all (spent \<circ> snd) es then es
      else (let (es', progressed) = pack_round dumps budget es in if progressed then pack_loop dumps budget es' else es'))"
  by pat_completeness auto
termination
proof (relation "measure (\<lambda>(dumps, budget, es). total_waiting es)")
  fix dumps budget es x es' and progressed :: bool
  assume *: "x = pack_round dumps budget es" "(es', progressed) = x" progressed
  then have "fold (offer dumps budget) [0..<length es] (es, False) = (es', True)" by (simp add: pack_round_def)
  then show "((dumps, budget, es'), (dumps, budget, es)) \<in> measure (\<lambda>(dumps, budget, es). total_waiting es)"
    using round_waiting [of "[0..<length es]" es dumps budget False] by simp
qed simp

declare pack_loop.simps [simp del]

definition pack_context :: "(pyval \<Rightarrow> string) \<Rightarrow> row \<Rightarrow> int \<Rightarrow> pyval" where
  "pack_context dumps context budget = bounded_value (pack_loop dumps budget (map (\<lambda>(k, v). (k, initial_entry v)) context))"

definition prompt_payload :: "(pyval \<Rightarrow> string) \<Rightarrow> pyval \<Rightarrow> row list \<Rightarrow> string" where
  "prompt_payload dumps bounded sources =
     dumps (PDict [(''context'', bounded), (''source_records'', PList (map PDict sources))])"

text \<open>Drops the last source while the payload is too long.\<close>

function drop_sources :: "(row list \<Rightarrow> string) \<Rightarrow> int \<Rightarrow> row list \<Rightarrow> row list" where
  "drop_sources payload limit sources =
     (if limit < int (length (payload sources)) \<and> sources \<noteq> [] then drop_sources payload limit (butlast sources) else sources)"
  by pat_completeness auto
termination by (relation "measure (\<lambda>(payload, limit, sources). length sources)") auto

declare drop_sources.simps [simp del]

definition instructions :: string where
  "instructions = ''You are a measurement-data assistant. Use only the supplied context. '' @
     ''Never invent measurements, identities, causes, or conclusions. '' @ ''If evidence is insufficient, say so. '' @
     ''Return plain, natural human-readable prose, never JSON. Do not repeat the question. '' @
     ''Use clear bullet lists where useful. '' @ ''Cite relevant records as [record_type:record_id].'' @ [CHR 0x0A, CHR 0x0A]"

definition hungarian_markers :: "string list" where
  "hungarian_markers = [[CHR 0xE1], [CHR 0xE9], [CHR 0xED], [CHR 0xF3], [CHR 0xF6], [CHR 0xFA], [CHR 0xFC], ''milyen'', ''mennyi'', ''foglald'',
     ''k'' @ [CHR 0xE9] @ ''rd'' @ [CHR 0xE9] @ ''s'']"

definition answer_language :: "(string \<Rightarrow> string) \<Rightarrow> string \<Rightarrow> string" where
  "answer_language fold_case question =
     (if mentions (fold_case question) hungarian_markers then ''Hungarian (hu)'' else ''the language used by the question'')"

definition build_grounded_prompt ::
  "(pyval \<Rightarrow> string) \<Rightarrow> (string \<Rightarrow> string) \<Rightarrow> string \<Rightarrow> row \<Rightarrow> row list \<Rightarrow> int \<Rightarrow> nat \<Rightarrow> string" where
  "build_grounded_prompt dumps fold_case question context sources max_chars max_sources =
     (let capped = take max_sources sources;
          reserve = int (length (dumps (PDict [(''source_records'', PList (map PDict capped))])));
          bounded = pack_context dumps context (max 200 (max_chars - reserve));
          payload = prompt_payload dumps bounded (drop_sources (prompt_payload dumps bounded) max_chars capped) in
      instructions @ ''Structured context: '' @ payload @ [CHR 0x0A, CHR 0x0A] @ ''Question: '' @ question @ [CHR 0x0A] @
      ''Required answer language: '' @ answer_language fold_case question @ ''. This language requirement is mandatory. '' @
      ''Answer the question directly; do not interpret language instructions as names '' @ ''or measurement entities.'')"

subsection \<open>The answer\<close>

definition line_break :: "char \<Rightarrow> bool" where
  "line_break c = (c \<in> {CHR 0x0A, CHR 0x0B, CHR 0x0C, CHR 0x0D, CHR 0x1C, CHR 0x1D, CHR 0x1E, CHR 0x85})"

text \<open>\<open>str.splitlines\<close>: CR LF is one break, and a final break opens no line.\<close>

definition after_break :: "char \<Rightarrow> string \<Rightarrow> string" where
  "after_break c cs = (if c = CHR 0x0D \<and> cs \<noteq> [] \<and> hd cs = CHR 0x0A then tl cs else cs)"

function splitlines :: "string \<Rightarrow> string list" where
  "splitlines [] = []"
| "splitlines (c # cs) =
     (if line_break c then [] # splitlines (after_break c cs)
      else case splitlines cs of [] \<Rightarrow> [[c]] | l # ls \<Rightarrow> (c # l) # ls)"
  by pat_completeness auto
termination by (relation "measure length") (auto simp: after_break_def less_Suc_eq_le)

fun join_lines :: "string list \<Rightarrow> string" where
  "join_lines [] = []"
| "join_lines [l] = l"
| "join_lines (l # ls) = l @ CHR 0x0A # join_lines ls"

definition fence :: string where
  "fence = [CHR 0x60, CHR 0x60, CHR 0x60]"

fun first_answer :: "row \<Rightarrow> string list \<Rightarrow> string option" where
  "first_answer d [] = None"
| "first_answer d (k # ks) = (case dict_get d k of
     PStr s \<Rightarrow> if py_strip s \<noteq> [] then Some (py_strip s) else first_answer d ks
   | _ \<Rightarrow> first_answer d ks)"

definition normalize_ollama_answer :: "text_lib \<Rightarrow> string \<Rightarrow> string" where
  "normalize_ollama_answer lib answer =
     (let cleaned = py_strip answer;
          cleaned = (if startswith cleaned fence \<and> startswith (rev cleaned) (rev fence)
            then py_strip (join_lines (butlast (tl (splitlines cleaned)))) else cleaned) in
      case tl_loads lib cleaned of
        Some (PDict d) \<Rightarrow> (case first_answer d [''answer'', ''response'', ''message'', ''content''] of Some a \<Rightarrow> a | None \<Rightarrow> cleaned)
      | _ \<Rightarrow> cleaned)"

text \<open>The exchange: the parsed body, or the message of a network failure or of a body that is not JSON.\<close>

datatype ollama_reply = Replied pyval | Unavailable string

definition call_ollama :: "text_lib \<Rightarrow> (string \<Rightarrow> ollama_reply) \<Rightarrow> assistant_settings \<Rightarrow> string \<Rightarrow> string result" where
  "call_ollama lib server st prompt =
     (if \<not> as_enabled st \<or> as_model st = [] then Inl (RuntimeError ''ai_component_not_available'')
      else case server prompt of
        Unavailable m \<Rightarrow> Inl (RuntimeError (''ollama_unavailable: '' @ m))
      | Replied (PDict d) \<Rightarrow> (case dict_get d ''response'' of
            PStr a \<Rightarrow> if py_strip a = [] then Inl (RuntimeError ''ollama_invalid_response'') else Inr (normalize_ollama_answer lib a)
          | _ \<Rightarrow> Inl (RuntimeError ''ollama_invalid_response''))
      | Replied _ \<Rightarrow> Inl (AttributeError ''get''))"

subsection \<open>Questions\<close>

text \<open>SQL's \<open>TRIM\<close> takes spaces only.\<close>

definition sql_trim :: "string \<Rightarrow> string" where
  "sql_trim s = rev (dropWhile (\<lambda>c. c = CHR '' '') (rev (dropWhile (\<lambda>c. c = CHR '' '') s)))"

record seen_mac =
  sm_domain :: string
  sm_mac :: string
  sm_last :: rat

definition shown_macs :: "device_observation list \<Rightarrow> device_observation list" where
  "shown_macs = filter (\<lambda>ob. sql_trim (ob_mac ob) \<noteq> [])"

definition shown_mac :: "device_observation \<Rightarrow> string" where
  "shown_mac ob = py_upper (sql_trim (ob_mac ob))"

definition seen_macs :: "string \<Rightarrow> device_observation list \<Rightarrow> seen_mac list" where
  "seen_macs domain obs =
     map (\<lambda>m. \<lparr>sm_domain = domain, sm_mac = m, sm_last = Max (set (map ob_at (filter (\<lambda>ob. shown_mac ob = m) (shown_macs obs))))\<rparr>)
       (sort (remdups (map shown_mac (shown_macs obs))))"

text \<open>The group-by, in the order of domain and address.\<close>

definition mac_inventory :: "device_db \<Rightarrow> seen_mac list" where
  "mac_inventory db = seen_macs ''bluetooth'' (db_bluetooth_observations db) @ seen_macs ''wifi'' (db_wifi_observations db)"

text \<open>The sentences of fixed answers are given by their numbers and lists.\<close>

datatype answer =
    Mac_List nat "string list" "string list"
  | Bluetooth_Count nat nat
  | Generated string

record ask_reply =
  ry_mode :: string
  ry_retrieval :: string
  ry_rag :: bool
  ry_rag_status :: string
  ry_context :: row
  ry_inventory :: "seen_mac list"
  ry_sources :: "row list"
  ry_available :: bool
  ry_status :: string
  ry_answer :: "answer option"
  ry_model :: "string option"
  ry_error :: "string option"
  ry_generation :: "string option"

text \<open>The parts of the service a question meets.\<close>

record 'v assistant_world =
  aw_lib :: text_lib
  aw_fold :: "string \<Rightarrow> string"
  aw_fetch :: "string \<Rightarrow> nat \<Rightarrow> row list"
  aw_embedder :: "'v embedder"
  aw_rag :: rag_settings
  aw_settings :: assistant_settings
  aw_ml :: pyval
  aw_dumps :: "pyval \<Rightarrow> string"
  aw_server :: "string \<Rightarrow> ollama_reply"
  aw_time :: "rat \<Rightarrow> string"

definition inventory_reply :: "'v assistant_world \<Rightarrow> seen_mac list \<Rightarrow> ask_reply" where
  "inventory_reply w macs =
     (let wifi = map sm_mac (filter (\<lambda>r. sm_domain r = ''wifi'') macs); bt = map sm_mac (filter (\<lambda>r. sm_domain r = ''bluetooth'') macs) in
      \<lparr>ry_mode = ''structured_sql_answer'', ry_retrieval = ''structured_sql_unique_mac_inventory'', ry_rag = False,
       ry_rag_status = ''not_used'', ry_context = [], ry_inventory = macs,
       ry_sources = map (\<lambda>r. [(''record_type'', PStr (sm_domain r @ ''_mac'')), (''record_id'', PStr (sm_mac r)),
         (''timestamp'', PStr (aw_time w (sm_last r)))]) macs,
       ry_available = True, ry_status = ''ok'', ry_answer = Some (Mac_List (card (set (map sm_mac macs))) wifi bt),
       ry_model = None, ry_error = None, ry_generation = None\<rparr>)"

definition bluetooth_count_question :: "(string \<Rightarrow> string) \<Rightarrow> string \<Rightarrow> bool" where
  "bluetooth_count_question fold_case question =
     (let n = fold_case question in contains ''bluetooth'' n \<and> contains ''mac'' n
        \<and> mentions n [''h'' @ [CHR 0xE1] @ ''ny'', ''hany'', ''mennyi'', ''darab''])"

definition repeated_question :: "(string \<Rightarrow> string) \<Rightarrow> string \<Rightarrow> bool" where
  "repeated_question fold_case question =
     (mentions (fold_case question) [''mac'', ''mac-cim'', ''maccim'']
      \<and> mentions (fold_case question) [''tobb hely'', ''tobb helyszin'', ''ismetlod'', ''elofordul''])"

definition bluetooth_summary :: "device_db \<Rightarrow> nat \<times> nat" where
  "bluetooth_summary db =
     (let shown = shown_macs (db_bluetooth_observations db) in (card (set (map shown_mac shown)), length shown))"

definition hit_record :: "retrieved \<Rightarrow> pyval" where
  "hit_record h = PDict [(''chunk_id'', PStr (nat_text (ck_id (rt_chunk h)))), (''document_id'', PStr (nat_text (dc_id (rt_document h)))),
     (''title'', PStr (dc_title (rt_document h))), (''source'', source_value (dc_source (rt_document h))),
     (''chunk_index'', PInt (int (ck_index (rt_chunk h)))), (''content'', PStr (ck_content (rt_chunk h))),
     (''metadata'', PDict (ck_metadata (rt_chunk h))), (''similarity'', PFloat (Fin (rt_similarity h)))]"

definition hit_source :: "retrieved \<Rightarrow> row" where
  "hit_source h = [(''record_type'', PStr ''document_chunk''), (''record_id'', PStr (nat_text (ck_id (rt_chunk h)))),
     (''document_id'', PStr (nat_text (dc_id (rt_document h))))]"

definition repeated_record :: "repeated_mac \<Rightarrow> pyval" where
  "repeated_record r = PDict [(''mac_address'', PStr (rm_mac r)), (''observation_count'', PInt (int (rm_observations r))),
     (''location_count'', PInt (int (rm_locations r))), (''locations'', PList (map PStr (rm_location_names r))),
     (''source_types'', PList (map PStr (rm_sources r)))]"

definition rag_lookup :: "'v assistant_world \<Rightarrow> string \<Rightarrow> 'v rag_db \<Rightarrow> retrieved list \<times> string option" where
  "rag_lookup w question docs =
     (if rag_configured (aw_rag w)
      then (case retrieve_chunks (aw_embedder w) (aw_rag w) question None docs of
          Inl e \<Rightarrow> ([], Some (''rag_retrieval_unavailable: '' @ error_text e)) | Inr hits \<Rightarrow> (hits, None))
      else ([], None))"

text \<open>Everything a question that is no inventory is answered from: the context, the sources and the hits.\<close>

definition gather_context ::
  "'v assistant_world \<Rightarrow> string \<Rightarrow> import_db \<Rightarrow> 'v rag_db \<Rightarrow> row \<times> row list \<times> retrieved list \<times> string option" where
  "gather_context w question db docs =
     (let cf = aw_fold w;
          (context, sources) = collect_sql_context (aw_lib w) cf (aw_fetch w) question (nat (as_records (aw_settings w)));
          (macs, obs) = bluetooth_summary (im_devices db);
          context = context @ (if bluetooth_count_question cf question then [(''bluetooth_summary'',
            PList [PDict [(''unique_mac_count'', PInt (int macs)), (''observation_count'', PInt (int obs))]])] else []);
          (hits, rag_error) = rag_lookup w question docs;
          (context, sources) = (if hits = [] then (context, sources)
            else (context @ [(''document_chunks'', PList (map hit_record hits))], sources @ map hit_source hits));
          repeated = fetch_repeated_macs 2 db;
          (context, sources) = (if repeated_question cf question
            then (context @ [(''repeated_macs'', PList (map repeated_record repeated))],
              sources @ map (\<lambda>r. [(''record_type'', PStr ''repeated_macs''), (''record_id'', PStr (rm_mac r))]) repeated)
            else (context, sources)) in
      (context @ [(''ml_status'', PList [aw_ml w])], sources, hits, rag_error))"

definition base_reply :: "row \<Rightarrow> row list \<Rightarrow> retrieved list \<Rightarrow> string option \<Rightarrow> ask_reply" where
  "base_reply context sources hits rag_error =
     \<lparr>ry_mode = (if hits \<noteq> [] then ''rag_assistant'' else ''context_grounded_assistant''),
      ry_retrieval = (if hits \<noteq> [] then ''structured_sql_and_vector_top_k'' else ''structured_sql''),
      ry_rag = (hits \<noteq> []), ry_rag_status = (if hits \<noteq> [] then ''used'' else (case rag_error of Some e \<Rightarrow> e | None \<Rightarrow> ''not_used'')),
      ry_context = context, ry_inventory = [], ry_sources = sources, ry_available = False, ry_status = [],
      ry_answer = None, ry_model = None, ry_error = None, ry_generation = None\<rparr>"

definition ask_database :: "'v assistant_world \<Rightarrow> string \<Rightarrow> import_db \<Rightarrow> 'v rag_db \<Rightarrow> ask_reply result" where
  "ask_database w asked db docs =
     (let question = py_strip asked; cf = aw_fold w; st = aw_settings w in
      if question = [] then Inl (HTTPException 400 ''A kerdes nem lehet ures.'')
      else if 2000 < length question then Inl (HTTPException 413 ''A kerdes legfeljebb 2000 karakter lehet.'')
      else if is_mac_inventory_question cf question then Inr (inventory_reply w (mac_inventory (im_devices db)))
      else
        let (context, sources, hits, rag_error) = gather_context w question db docs;
            base = base_reply context sources hits rag_error in
        if bluetooth_count_question cf question
        then (let (macs, obs) = bluetooth_summary (im_devices db) in
          Inr (base\<lparr>ry_mode := ''structured_sql_answer'', ry_available := True, ry_status := ''ok'', ry_answer := Some (Bluetooth_Count macs obs)\<rparr>))
        else if \<not> gs_available (assistant_status st)
        then Inr (base\<lparr>ry_status := ''ai_component_not_available'', ry_generation := Some (gs_status (assistant_status st))\<rparr>)
        else (case call_ollama (aw_lib w) (aw_server w) st
              (build_grounded_prompt (aw_dumps w) cf question context sources (as_prompt_chars st) (nat (as_sources st))) of
            Inl (RuntimeError m) \<Rightarrow> Inr (base\<lparr>ry_status := ''ollama_unavailable'', ry_error := Some m\<rparr>)
          | Inl e \<Rightarrow> Inl e
          | Inr a \<Rightarrow> Inr (base\<lparr>ry_available := True, ry_status := ''ok'', ry_model := Some (as_model st), ry_answer := Some (Generated a)\<rparr>)))"

subsection \<open>Packing: lemmas\<close>

text \<open>An entry holds a prefix of the trimmed records of its kind, the rest is waiting.\<close>

definition holds_prefix :: "string \<times> pyval \<Rightarrow> string \<times> pack_entry \<Rightarrow> bool" where
  "holds_prefix kv ke = (fst ke = fst kv \<and> (case snd kv of
     PList rs \<Rightarrow> (\<exists>n b. snd ke = Packed (length rs) (take n (map trim_record rs)) (drop n (map trim_record rs)) b
       \<and> (b \<or> n < length rs))
   | _ \<Rightarrow> snd ke = Plain (snd kv)))"

definition initial_entries :: "row \<Rightarrow> (string \<times> pack_entry) list" where
  "initial_entries context = map (\<lambda>(k, v). (k, initial_entry v)) context"

definition packing_ok :: "(pyval \<Rightarrow> string) \<Rightarrow> int \<Rightarrow> row \<Rightarrow> (string \<times> pack_entry) list \<Rightarrow> bool" where
  "packing_ok dumps budget context es =
     (list_all2 holds_prefix context es
      \<and> (int (length (dumps (bounded_value es))) \<le> budget \<or> bounded_value es = bounded_value (initial_entries context)))"

lemma initial_packing: "packing_ok dumps budget context (initial_entries context)"
  by (auto simp: packing_ok_def initial_entries_def list_all2_conv_all_nth holds_prefix_def initial_entry_def
      split: pyval.splits prod.splits intro!: exI [of _ 0])

lemma holds_prefix_packed:
  assumes "holds_prefix kv (k, Packed m taken (r # rest) b)"
  shows "\<exists>rs n. snd kv = PList rs \<and> k = fst kv \<and> m = length rs \<and> n < length rs \<and> taken = take n (map trim_record rs)
    \<and> r # rest = drop n (map trim_record rs)"
proof -
  obtain rs n where rs: "snd kv = PList rs" "k = fst kv" "m = length rs" "taken = take n (map trim_record rs)"
      "r # rest = drop n (map trim_record rs)"
    using assms by (auto simp: holds_prefix_def split: pyval.splits)
  then have "n < length rs" by (metis drop_eq_Nil length_map list.distinct(1) not_le)
  then show ?thesis using rs by blast
qed

lemma bounded_value_refused:
  "es ! i = (k, Packed n taken ws b) \<Longrightarrow> bounded_value (es[i := (k, Packed n taken ws' b')]) = bounded_value es"
proof (cases "i < length es")
  case True
  assume "es ! i = (k, Packed n taken ws b)"
  with True have "map (\<lambda>(k, e). (k, entry_value e)) es ! i = (k, entry_value (Packed n taken ws b))" by simp
  then show ?thesis using True by (simp add: bounded_value_def map_update entry_value_def list_update_same_conv)
qed (simp add: list_update_beyond)

lemma offer_packing:
  assumes "packing_ok dumps budget context es" "i < length es"
  shows "packing_ok dumps budget context (fst (offer dumps budget i (es, p)))"
proof (cases rule: offer_cases [of dumps budget i es p])
  case idle
  then show ?thesis using assms(1) by simp
next
  case (refused k n taken r rest)
  have len: "length context = length es" using assms(1) by (auto simp: packing_ok_def dest: list_all2_lengthD)
  have "holds_prefix (context ! i) (k, Packed n taken (r # rest) False)"
    using assms refused(1) by (auto simp: packing_ok_def list_all2_conv_all_nth)
  then have "holds_prefix (context ! i) (k, Packed n taken (r # rest) True)"
    by (auto simp: holds_prefix_def split: pyval.splits)
  then have "list_all2 holds_prefix context (es[i := (k, Packed n taken (r # rest) True)])"
    using assms len by (auto simp: packing_ok_def list_all2_conv_all_nth nth_list_update)
  then show ?thesis using assms(1) unfolding refused(2) by (simp add: packing_ok_def bounded_value_refused [OF refused(1)])
next
  case (taken k n tk r rest)
  have len: "length context = length es" using assms(1) by (auto simp: packing_ok_def dest: list_all2_lengthD)
  have "holds_prefix (context ! i) (k, Packed n tk (r # rest) False)"
    using assms taken(1) by (auto simp: packing_ok_def list_all2_conv_all_nth)
  then obtain rs m where rs: "snd (context ! i) = PList rs" "k = fst (context ! i)" "n = length rs" "m < length rs"
      "tk = take m (map trim_record rs)" "r # rest = drop m (map trim_record rs)"
    using holds_prefix_packed by blast
  have "r = map trim_record rs ! m" using rs(4,6) by (metis hd_drop_conv_nth length_map list.sel(1))
  then have "tk @ [r] = take (Suc m) (map trim_record rs)" using rs(4,5) by (simp add: take_Suc_conv_app_nth)
  moreover have rest: "rest = drop (Suc m) (map trim_record rs)" using rs(6) by (metis drop_Suc list.sel(3) tl_drop)
  moreover have "rest = [] \<or> Suc m < length rs" using rest by auto
  ultimately have "holds_prefix (context ! i) (k, Packed n (tk @ [r]) rest (rest = []))"
    using rs(1,2,3) unfolding holds_prefix_def by (auto intro!: exI [of _ "Suc m"])
  then have "list_all2 holds_prefix context (es[i := (k, Packed n (tk @ [r]) rest (rest = []))])"
    using assms len by (auto simp: packing_ok_def list_all2_conv_all_nth nth_list_update)
  then show ?thesis using taken(2,3) by (simp add: packing_ok_def)
qed

lemma offers_packing:
  "packing_ok dumps budget context es \<Longrightarrow> \<forall>i\<in>set is'. i < length es \<Longrightarrow>
    packing_ok dumps budget context (fst (fold (offer dumps budget) is' (es, p)))"
proof (induction is' arbitrary: es p)
  case (Cons i is')
  obtain es' p' where o: "offer dumps budget i (es, p) = (es', p')" by (cases "offer dumps budget i (es, p)")
  have "length es' = length es" using offer_length [of dumps budget i es p] o by simp
  then show ?case using Cons.IH [of es' p'] Cons.prems offer_packing [OF Cons.prems(1), of i p] o by simp
qed simp

lemma pack_loop_packing: "packing_ok dumps budget context es \<Longrightarrow> packing_ok dumps budget context (pack_loop dumps budget es)"
proof (induction dumps budget es rule: pack_loop.induct)
  case (1 dumps budget es)
  obtain es' p where r: "pack_round dumps budget es = (es', p)" by (cases "pack_round dumps budget es")
  have "packing_ok dumps budget context es'"
    using offers_packing [OF 1(2), of "[0..<length es]" False] r by (simp add: pack_round_def)
  then show ?case using 1 r by (subst pack_loop.simps) auto
qed

text \<open>What a packed context is: every kind with a prefix of its records, trimmed, and their number; anything else as it was.\<close>

definition kept_kind :: "string \<times> pyval \<Rightarrow> string \<times> pyval \<Rightarrow> bool" where
  "kept_kind kv kv' = (fst kv' = fst kv \<and> (case snd kv of
     PList rs \<Rightarrow> (\<exists>n. snd kv' = PDict [(''supplied_count'', PInt (int (length rs))), (''records'', PList (take n (map trim_record rs)))])
   | _ \<Rightarrow> snd kv' = snd kv))"

definition packs :: "row \<Rightarrow> pyval \<Rightarrow> bool" where
  "packs context bounded = (\<exists>ps. bounded = PDict ps \<and> list_all2 kept_kind context ps)"

lemma holds_prefix_kept: "holds_prefix kv ke \<Longrightarrow> kept_kind kv (case ke of (k, e) \<Rightarrow> (k, entry_value e))"
  by (cases "snd kv") (auto simp: holds_prefix_def kept_kind_def entry_value_def split: prod.splits)

lemma pack_context_packs: "packs context (pack_context dumps context budget)"
proof -
  let ?es = "pack_loop dumps budget (initial_entries context)"
  have "list_all2 holds_prefix context ?es"
    using pack_loop_packing [OF initial_packing] by (auto simp: packing_ok_def)
  then have "list_all2 (\<lambda>kv ke. kept_kind kv (case ke of (k, e) \<Rightarrow> (k, entry_value e))) context ?es"
    by (rule list_all2_mono) (rule holds_prefix_kept)
  then have "packs context (bounded_value ?es)" by (simp add: packs_def bounded_value_def list_all2_map2)
  then show ?thesis by (simp add: pack_context_def initial_entries_def)
qed

lemma pack_context_size:
  "int (length (dumps (pack_context dumps context budget))) \<le> budget
    \<or> pack_context dumps context budget = bounded_value (initial_entries context)"
  using pack_loop_packing [OF initial_packing, of dumps budget "context"]
  by (auto simp: packing_ok_def pack_context_def initial_entries_def)

lemma drop_sources_prefix:
  "\<exists>n\<le>length sources. drop_sources payload limit sources = take n sources
    \<and> (int (length (payload (take n sources))) \<le> limit \<or> n = 0)"
proof (induction payload limit sources rule: drop_sources.induct)
  case (1 payload limit sources)
  show ?case
  proof (cases "limit < int (length (payload sources)) \<and> sources \<noteq> []")
    case True
    then obtain n where n: "n \<le> length (butlast sources)" "drop_sources payload limit (butlast sources) = take n (butlast sources)"
        "int (length (payload (take n (butlast sources)))) \<le> limit \<or> n = 0"
      using 1 by blast
    have "n \<le> length sources - 1" using n(1) by simp
    then have "take n (butlast sources) = take n sources" unfolding butlast_conv_take by (simp only: take_take min_absorb1)
    then show ?thesis using n True by (subst drop_sources.simps) (auto intro!: exI [of _ n])
  next
    case False
    then show ?thesis by (subst drop_sources.simps) (auto intro!: exI [of _ "length sources"])
  qed
qed


subsection \<open>Answers: lemmas\<close>

lemma seen_macs_fields:
  "map sm_mac (seen_macs domain obs) = sort (remdups (map shown_mac (shown_macs obs)))"
  "filter (\<lambda>r. sm_domain r = d) (seen_macs domain obs) = (if d = domain then seen_macs domain obs else [])"
  by (simp_all add: seen_macs_def comp_def filter_map)

lemma seen_macs_set: "sm_mac ` set (seen_macs domain obs) = shown_mac ` set (shown_macs obs)"
  by (auto simp: seen_macs_def image_iff)

lemma seen_macs_latest:
  assumes "r \<in> set (seen_macs domain obs)" "ob \<in> set (shown_macs obs)" "shown_mac ob = sm_mac r"
  shows "ob_at ob \<le> sm_last r"
  using assms by (auto simp: seen_macs_def intro!: Max_ge)

lemma inventory_lists:
  "map sm_mac (filter (\<lambda>r. sm_domain r = ''wifi'') (mac_inventory db)) = sort (remdups (map shown_mac (shown_macs (db_wifi_observations db))))"
  "map sm_mac (filter (\<lambda>r. sm_domain r = ''bluetooth'') (mac_inventory db)) = sort (remdups (map shown_mac (shown_macs (db_bluetooth_observations db))))"
  by (simp_all add: mac_inventory_def seen_macs_fields)

text \<open>
  C31: A question for the complete list of addresses is answered without the language model: the answer
  lists, for each kind, every address that was observed and no other, once and in order, counts the
  distinct ones over both kinds, and cites one source for each entry.
\<close>

theorem mac_inventory_complete:
  assumes "py_strip asked \<noteq> []" "length (py_strip asked) \<le> 2000" "is_mac_inventory_question (aw_fold w) (py_strip asked)"
  shows "\<exists>r n wifi bt. ask_database w asked db docs = Inr r \<and> ry_answer r = Some (Mac_List n wifi bt)
    \<and> set wifi = shown_mac ` set (shown_macs (db_wifi_observations (im_devices db))) \<and> distinct wifi \<and> sorted wifi
    \<and> set bt = shown_mac ` set (shown_macs (db_bluetooth_observations (im_devices db))) \<and> distinct bt \<and> sorted bt
    \<and> n = card (set wifi \<union> set bt) \<and> length (ry_sources r) = length wifi + length bt"
proof -
  let ?db = "im_devices db" and ?r = "inventory_reply w (mac_inventory (im_devices db))"
  let ?list = "\<lambda>obs. sort (remdups (map shown_mac (shown_macs obs)))"
  have "ask_database w asked db docs = Inr ?r" using assms by (simp add: ask_database_def Let_def)
  moreover have "ry_answer ?r = Some (Mac_List (card (set (map sm_mac (mac_inventory ?db))))
      (?list (db_wifi_observations ?db)) (?list (db_bluetooth_observations ?db)))"
    by (simp add: inventory_reply_def inventory_lists Let_def)
  moreover have "set (map sm_mac (mac_inventory ?db)) = set (?list (db_wifi_observations ?db)) \<union> set (?list (db_bluetooth_observations ?db))"
    by (auto simp: mac_inventory_def image_Un seen_macs_set)
  moreover have "length (ry_sources ?r) = length (?list (db_wifi_observations ?db)) + length (?list (db_bluetooth_observations ?db))"
    by (simp add: inventory_reply_def mac_inventory_def seen_macs_def Let_def)
  ultimately show ?thesis by (intro exI conjI) (assumption | simp)+
qed

text \<open>An answer of the model comes from a reply of the server to a prompt.\<close>

definition server_said :: "'v assistant_world \<Rightarrow> string \<Rightarrow> bool" where
  "server_said w a = (\<exists>prompt d s. aw_server w prompt = Replied (PDict d) \<and> dict_get d ''response'' = PStr s \<and> py_strip s \<noteq> []
     \<and> a = normalize_ollama_answer (aw_lib w) s)"

definition replied_no_object :: "'v assistant_world \<Rightarrow> bool" where
  "replied_no_object w = (\<exists>prompt v. aw_server w prompt = Replied v \<and> (\<forall>d. v \<noteq> PDict d))"

lemma call_ollama_outcome:
  "case call_ollama lib server st prompt of
     Inr a \<Rightarrow> as_enabled st \<and> as_model st \<noteq> [] \<and> (\<exists>d s. server prompt = Replied (PDict d) \<and> dict_get d ''response'' = PStr s
       \<and> py_strip s \<noteq> [] \<and> a = normalize_ollama_answer lib s)
   | Inl e \<Rightarrow> (\<exists>m. e = RuntimeError m) \<or> (e = AttributeError ''get'' \<and> (\<exists>v. server prompt = Replied v \<and> (\<forall>d. v \<noteq> PDict d)))"
  by (auto simp: call_ollama_def split: ollama_reply.splits pyval.splits)


subsection \<open>Examples\<close>

text \<open>A model server that answers with an object, and one that answers with a list.\<close>

definition sample_world :: "(string \<Rightarrow> ollama_reply) \<Rightarrow> int assistant_world" where
  "sample_world server =
     \<lparr>aw_lib = sample_lib, aw_fold = py_lower, aw_fetch = (\<lambda>_ _. []), aw_embedder = example_embedder sample_reference_lib,
      aw_rag = example_rag, aw_settings = \<lparr>as_enabled = True, as_url = ''http://ollama:11434'', as_model = ''qwen3'', as_timeout = Fin 300,
        as_records = 10, as_prompt_chars = 12000, as_sources = 20, as_predict = 768\<rparr>,
      aw_ml = PNone, aw_dumps = (\<lambda>_. []), aw_server = server, aw_time = (\<lambda>_. [])\<rparr>"

lemma mac_inventory_complete_witness:
  "\<forall>db docs. \<exists>r. ask_database (sample_world (\<lambda>_. Unavailable [])) ''osszes MAC'' db docs = Inr r \<and> ry_answer r \<noteq> None"
proof (intro allI)
  fix db docs
  have q: "py_strip ''osszes MAC'' = ''osszes MAC''" "is_mac_inventory_question py_lower ''osszes MAC''" by code_simp+
  have "aw_fold (sample_world (\<lambda>_. Unavailable [])) = py_lower" by (simp add: sample_world_def)
  then show "\<exists>r. ask_database (sample_world (\<lambda>_. Unavailable [])) ''osszes MAC'' db docs = Inr r \<and> ry_answer r \<noteq> None"
    using mac_inventory_complete [of "''osszes MAC''" "sample_world (\<lambda>_. Unavailable [])" db docs] q by auto
qed

text \<open>A server whose JSON is a list makes the request fail; a fenced answer loses its fence.\<close>

lemma list_reply_escapes: "call_ollama lib (\<lambda>_. Replied (PList vs)) st prompt = (if as_enabled st \<and> as_model st \<noteq> []
    then Inl (AttributeError ''get'') else Inl (RuntimeError ''ai_component_not_available''))"
  by (simp add: call_ollama_def)

lemma fenced_answer:
  "normalize_ollama_answer sample_lib (fence @ [CHR 0x0A] @ ''yes'' @ [CHR 0x0A] @ fence) = ''yes''"
  by code_simp

lemma packing_example:
  "pack_context (\<lambda>v. case v of PDict ps \<Rightarrow> concat (map (\<lambda>(k, x). case x of PDict [_, (_, PList rs)] \<Rightarrow> replicate (10 * length rs) (CHR ''x'') | _ \<Rightarrow> []) ps) | _ \<Rightarrow> [])
     [(''wifi'', PList [PInt 1, PInt 2, PInt 3]), (''peaks'', PList [PInt 4]), (''ml'', PNone)] 30 =
   PDict [(''wifi'', PDict [(''supplied_count'', PInt 3), (''records'', PList [PInt 1, PInt 2])]),
     (''peaks'', PDict [(''supplied_count'', PInt 1), (''records'', PList [PInt 4])]), (''ml'', PNone)]"
  by code_simp

lemma assistant_settings_bounded:
  "let st = assistant_from_env flt env in 1 \<le> as_records st \<and> as_records st \<le> 50 \<and> 2000 \<le> as_prompt_chars st \<and> as_prompt_chars st \<le> 60000
    \<and> 1 \<le> as_sources st \<and> as_sources st \<le> 100 \<and> 64 \<le> as_predict st \<and> as_predict st \<le> 2048"
  by (auto simp: assistant_from_env_def bounded_int_def split: sum.splits)

end
