(* ===== verification/Spectrum_Actions.thy ===== *)
theory Spectrum_Actions
  imports Reference_Properties Observations
begin

section \<open>Saving what the live spectrum shows\<close>

text \<open>
  \<open>routers/spectrum_actions.py\<close>: the capture of a live spectrum as a new version of a reference, the
  saving of a peak (with a closed session of its own where none is running) and the list and the CSV
  file of peaks. The references are those of the catalog, the sessions those of \<open>Sessions\<close>. The powers of
  a request are finite numbers; an absent source file is the empty text.
\<close>

subsection \<open>Captures\<close>

record live_point =
  sp_hz :: "int option"
  sp_mhz :: "pyfloat option"
  sp_power :: rat

record live_capture =
  lq_key :: string
  lq_location :: string
  lq_device :: "string option"
  lq_source_file :: "string option"
  lq_rbw :: "int option"
  lq_vbw :: "int option"
  lq_antenna :: "string option"
  lq_downconverter :: "string option"
  lq_points :: "live_point list"

text \<open>\<open>int(mhz * 1_000_000)\<close>; the rounding of the product is left out.\<close>

definition mhz_to_hz :: "pyfloat \<Rightarrow> int result" where
  "mhz_to_hz x = float_to_int py_trunc (times_million x)"

definition frequency_of :: "int option \<Rightarrow> pyfloat option \<Rightarrow> int option result" where
  "frequency_of hz mhz = (case hz of
     Some f \<Rightarrow> Inr (Some f)
   | None \<Rightarrow> (case mhz of None \<Rightarrow> Inr None | Some x \<Rightarrow> and_then (mhz_to_hz x) (\<lambda>f. Inr (Some f))))"

text \<open>Points without a frequency are left out.\<close>

fun captured_points :: "live_point list \<Rightarrow> ref_point list result" where
  "captured_points [] = Inr []"
| "captured_points (p # ps) =
     and_then (frequency_of (sp_hz p) (sp_mhz p)) (\<lambda>f.
     and_then (captured_points ps) (\<lambda>qs.
     Inr (case f of None \<Rightarrow> qs | Some f \<Rightarrow> (f, sp_power p) # qs)))"

definition too_many_points :: string where
  "too_many_points = ''Tul sok spektrum pont egy ment'' @ [CHR 0xE9] @ ''sben.''"

definition bad_key :: string where
  "bad_key = [CHR 0xC9] @ ''rv'' @ [CHR 0xE9] @ ''nytelen referencia azonos'' @ [CHR 0xED] @ ''t'' @ [CHR 0xF3] @ ''.''"

definition live_reference :: "reference_env \<Rightarrow> live_capture \<Rightarrow> string \<Rightarrow> nat \<Rightarrow> nat \<Rightarrow> ref_point list \<Rightarrow> spectrum_reference" where
  "live_reference re rq key version lid points =
     \<lparr>sr_id = re_reference_id re, sr_key = key, sr_version = version, sr_location_id = Some lid,
      sr_location_name = Some (lq_location rq), sr_start = fst (hd points), sr_stop = fst (last points),
      sr_step = step_frequency points, sr_rbw = map_option (\<lambda>n. Fin (of_int n)) (lq_rbw rq),
      sr_vbw = map_option (\<lambda>n. Fin (of_int n)) (lq_vbw rq), sr_measured = Some (re_clock re), sr_operator = None,
      sr_notes = Some ''Live spectrum monitor reference capture.'', sr_checksum = re_hash_points re points, sr_active = True,
      sr_valid_from = None, sr_valid_until = None, sr_creation_source = ''live'', sr_filename = or_empty (lq_source_file rq),
      sr_format = ''live_spectrum_capture'', sr_point_count = length points,
      sr_metadata = [(''layer_type'', PStr ''reference''), (''display_color'', PStr ''#ff5252''), (''source'', PStr ''live_spectrum_capture'')],
      sr_set = None, sr_session = None, sr_kind = None,
      sr_columns = [(''device_name'', nullable SqlText (lq_device rq)), (''source_type'', SqlText ''spectrum_monitor''),
        (''antenna'', nullable SqlText (lq_antenna rq)), (''downconverter_profile'', nullable SqlText (lq_downconverter rq))],
      sr_created = ev_now (re_sql re), sr_updated = ev_now (re_sql re), sr_archived = None\<rparr>"

definition write_live_capture ::
  "reference_env \<Rightarrow> live_capture \<Rightarrow> string \<Rightarrow> ref_point list \<Rightarrow> reference_db \<Rightarrow> (reference_db \<times> spectrum_reference) result" where
  "write_live_capture re rq key points db =
     and_then (ensure_location (re_sql re) (lq_location rq) (rd_sessions db)) (\<lambda>(sdb, lid).
     let r = live_reference re rq key (next_version sr_key sr_version key (rd_spectrum db)) lid points in
     if sr_start r < - (2 ^ 63) then Inl (RuntimeError ''NumericValueOutOfRange'')
     else and_then (insert_spectrum r (deactivate_key (ev_now (re_sql re)) key (rd_spectrum db))) (\<lambda>rows.
     Inr (db\<lparr>rd_sessions := sdb, rd_spectrum := rows,
        rd_points := rd_points db @ point_rows (sr_id r) (re_clock re) (lq_location rq) (or_empty (lq_source_file rq))
          (lq_rbw rq) (lq_vbw rq) points\<rparr>, r)))"

definition save_reference_capture ::
  "reference_env \<Rightarrow> live_capture \<Rightarrow> reference_db \<Rightarrow> (reference_db \<times> spectrum_reference) result" where
  "save_reference_capture re rq db =
     (if lq_points rq = [] then Inl (HTTPException 400 ''Nincs mentheto spektrum pont.'')
      else if 25000 < int (length (lq_points rq)) then Inl (HTTPException 400 too_many_points)
      else if \<not> key_ok (py_strip (lq_key rq)) then Inl (HTTPException 422 bad_key)
      else and_then (captured_points (lq_points rq)) (\<lambda>qs.
        let points = sort_key fst qs in
        if points = [] then Inl (HTTPException 400 ''Nincs mentheto spektrum pont.'')
        else write_live_capture re rq (py_strip (lq_key rq)) points db))"

subsection \<open>Peaks\<close>

record peak_row =
  pk_id :: nat
  pk_time :: rat
  pk_session :: "nat option"
  pk_location :: "nat option"
  pk_type :: string
  pk_frequency :: int
  pk_power :: rat
  pk_metadata :: row

text \<open>The titles of sessions, a column that only the peaks show, are kept beside them.\<close>

record peak_db =
  pd_sessions :: session_db
  pd_titles :: "(nat \<times> string) list"
  pd_peaks :: "peak_row list"

record peak_request =
  pq_location :: string
  pq_type :: string
  pq_mhz :: "pyfloat option"
  pq_hz :: "int option"
  pq_power :: rat
  pq_title :: "string option"
  pq_metadata :: "row option"

text \<open>The newest running session of the place, or a new one that is closed already.\<close>

definition peak_session :: "sql_env \<Rightarrow> peak_request \<Rightarrow> nat \<Rightarrow> peak_db \<Rightarrow> (peak_db \<times> nat) result" where
  "peak_session ev rq lid db =
     (case active_sessions (\<lambda>s. same_place (se_location_name s) (py_strip (pq_location rq))) (pd_sessions db) of
        s # _ \<Rightarrow> Inr (db, se_id s)
      | [] \<Rightarrow>
          (let s = \<lparr>se_id = ev_row_id ev, se_location_id = Some lid, se_location_name = py_strip (pq_location rq),
                 se_started = ev_now ev, se_ended = Some (ev_now ev), se_operator = None,
                 se_notes = Some ''Automatically closed one-shot session for manual peak save.'', se_environment = None,
                 se_status = ''stopped'', se_created = ev_now ev, se_updated = ev_now ev\<rparr> in
           and_then (insert_pk se_id s (sd_sessions (pd_sessions db))) (\<lambda>rows.
           Inr (db\<lparr>pd_sessions := (pd_sessions db)\<lparr>sd_sessions := rows\<rparr>,
              pd_titles := pd_titles db @ [(se_id s, if truthy (pq_title rq) then or_empty (pq_title rq) else ''Manual spectrum peak save'')]\<rparr>,
            se_id s))))"

definition save_spectrum_peak :: "sql_env \<Rightarrow> nat \<Rightarrow> peak_request \<Rightarrow> peak_db \<Rightarrow> (peak_db \<times> peak_row) result" where
  "save_spectrum_peak ev i rq db =
     and_then (frequency_of (pq_hz rq) (pq_mhz rq)) (\<lambda>f. case f of
        None \<Rightarrow> Inl (HTTPException 400 ''Frekvencia hianyzik.'')
      | Some f \<Rightarrow>
          and_then (ensure_location ev (pq_location rq) (pd_sessions db)) (\<lambda>(sdb, lid).
          and_then (peak_session ev rq lid (db\<lparr>pd_sessions := sdb\<rparr>)) (\<lambda>(db, sid).
          let p = \<lparr>pk_id = i, pk_time = ev_now ev, pk_session = Some sid, pk_location = Some lid, pk_type = pq_type rq,
            pk_frequency = f, pk_power = pq_power rq, pk_metadata = or_default (pq_metadata rq) []\<rparr> in
          if f < - (2 ^ 63) \<or> 2 ^ 63 \<le> f then Inl (RuntimeError ''NumericValueOutOfRange'')
          else and_then (insert_pk pk_id p (pd_peaks db)) (\<lambda>rows. Inr (db\<lparr>pd_peaks := rows\<rparr>, p)))))"

definition peak_place :: "peak_db \<Rightarrow> peak_row \<Rightarrow> string option" where
  "peak_place db p = (case pk_location p of None \<Rightarrow> None
     | Some i \<Rightarrow> map_option lo_name (List.find (\<lambda>l. lo_id l = i) (sd_locations (pd_sessions db))))"

definition peak_title :: "peak_db \<Rightarrow> peak_row \<Rightarrow> string option" where
  "peak_title db p = (case pk_session p of None \<Rightarrow> None
     | Some i \<Rightarrow> if session_exists i (pd_sessions db) then map_of (pd_titles db) i else None)"

definition peak_query_row :: "peak_db \<Rightarrow> peak_row \<Rightarrow> query_row" where
  "peak_query_row db p =
     [(''id'', SqlInt (int (pk_id p))), (''time'', SqlTime (pk_time p)), (''session_id'', nullable (\<lambda>i. SqlInt (int i)) (pk_session p)),
      (''session_title'', nullable SqlText (peak_title db p)), (''location_name'', nullable SqlText (peak_place db p)),
      (''peak_type'', SqlText (pk_type p)), (''frequency_hz'', SqlInt (pk_frequency p)), (''power_dbm'', SqlReal (pk_power p)),
      (''metadata'', SqlJson (PDict (pk_metadata p)))]"

definition peak_wanted :: "string option \<Rightarrow> rat option \<Rightarrow> rat option \<Rightarrow> peak_db \<Rightarrow> peak_row \<Rightarrow> bool" where
  "peak_wanted location start stop db p =
     ((case given location of None \<Rightarrow> True | Some l \<Rightarrow> place_matches (peak_place db p) l)
      \<and> (case start of None \<Rightarrow> True | Some t \<Rightarrow> t \<le> pk_time p) \<and> (case stop of None \<Rightarrow> True | Some t \<Rightarrow> pk_time p \<le> t))"

definition spectrum_peaks_query :: "string option \<Rightarrow> rat option \<Rightarrow> rat option \<Rightarrow> peak_db \<Rightarrow> query_row list" where
  "spectrum_peaks_query location start stop db =
     map (peak_query_row db) (listing pk_time (peak_wanted location start stop db) (pd_peaks db))"

definition list_spectrum_peaks :: "string option \<Rightarrow> rat option \<Rightarrow> rat option \<Rightarrow> int \<Rightarrow> peak_db \<Rightarrow> query_row list \<times> int" where
  "list_spectrum_peaks location start stop limit db =
     (let safe = max 1 (min limit 5000) in (take (nat safe) (spectrum_peaks_query location start stop db), safe))"

definition spectrum_peak_fields :: "string list" where
  "spectrum_peak_fields = [''id'', ''time'', ''session_id'', ''session_title'', ''location_name'', ''peak_type'', ''frequency_hz'', ''power_dbm'', ''metadata'']"

definition export_spectrum_peaks :: "(sqlval \<Rightarrow> string) \<Rightarrow> string option \<Rightarrow> rat option \<Rightarrow> rat option \<Rightarrow> peak_db \<Rightarrow> string list" where
  "export_spectrum_peaks cell location start stop db = csv_lines cell spectrum_peak_fields (spectrum_peaks_query location start stop db)"

subsection \<open>Captures: lemmas\<close>

lemma captured_points_length: "captured_points ps = Inr qs \<Longrightarrow> length qs \<le> length ps"
proof (induction ps arbitrary: qs)
  case (Cons p ps)
  then obtain f rest where "captured_points ps = Inr rest" "qs = (case f of None \<Rightarrow> rest | Some f \<Rightarrow> (f, sp_power p) # rest)"
    by (auto simp: and_then_Inr_iff)
  then show ?case using Cons.IH [of rest] by (auto split: option.splits)
qed simp

lemma sorted_point_rows: "sorted (map fst ps) \<Longrightarrow> sort_key pt_frequency (point_rows i t l f a b ps) = point_rows i t l f a b ps"
  by (rule sort_key_id_if_sorted) (simp add: point_rows_def comp_def case_prod_unfold)

lemma points_of_appended:
  assumes "\<forall>p\<in>set pts. pt_reference p \<noteq> i" "sorted (map fst ps)"
  shows "points_of i (pts @ point_rows i t l f a b ps) = ps"
proof -
  have "filter (\<lambda>p. pt_reference p = i) pts = []" using assms(1) by (simp add: filter_empty_conv)
  moreover have "filter (\<lambda>p. pt_reference p = i) (point_rows i t l f a b ps) = point_rows i t l f a b ps"
    by (auto simp: point_rows_def intro!: filter_True)
  ultimately show ?thesis using sorted_point_rows [OF assms(2)] by (simp add: points_of_def)
qed

lemma save_reference_capture_Inr:
  assumes "save_reference_capture re rq db = Inr (db', r)"
  obtains qs lid sdb where "captured_points (lq_points rq) = Inr qs" "qs \<noteq> []" "length qs \<le> 25000" "key_ok (py_strip (lq_key rq))"
    "r = live_reference re rq (py_strip (lq_key rq)) (next_version sr_key sr_version (py_strip (lq_key rq)) (rd_spectrum db)) lid (sort_key fst qs)"
    "insert_spectrum r (deactivate_key (ev_now (re_sql re)) (py_strip (lq_key rq)) (rd_spectrum db)) = Inr (rd_spectrum db')"
    "db' = db\<lparr>rd_sessions := sdb, rd_spectrum := rd_spectrum db', rd_points := rd_points db @ point_rows (sr_id r) (re_clock re)
       (lq_location rq) (or_empty (lq_source_file rq)) (lq_rbw rq) (lq_vbw rq) (sort_key fst qs)\<rparr>"
proof -
  obtain qs where q: "captured_points (lq_points rq) = Inr qs" "\<not> 25000 < int (length (lq_points rq))" "key_ok (py_strip (lq_key rq))"
      "qs \<noteq> []" "write_live_capture re rq (py_strip (lq_key rq)) (sort_key fst qs) db = Inr (db', r)"
    using assms by (auto simp: save_reference_capture_def Let_def and_then_Inr_iff guard_Inr) (metis length_sort list.size(3) length_0_conv)
  have len: "length qs \<le> 25000" using captured_points_length [OF q(1)] q(2) by linarith
  show thesis using q(5) unfolding write_live_capture_def Let_def and_then_Inr_iff split_paired_Ex prod.case guard_Inr sum.inject prod.inject
    by (elim exE conjE) (rule that [OF q(1,4) len q(3)], auto)
qed

text \<open>
  C33: A capture of the live spectrum appends one reference under the next version of its key, the only
  active one of the key that is not archived, with the captured points in order; no earlier reference
  loses anything but its active flag. The catalog stays well formed exactly when no frequency occurs
  twice or is negative, which the route does not check.
\<close>

theorem live_capture_accounts:
  assumes "catalog_ok db" "save_reference_capture re rq db = Inr (db', r)"
  shows "\<exists>qs. captured_points (lq_points rq) = Inr qs \<and> points_of (sr_id r) (rd_points db') = sort_key fst qs
    \<and> sr_point_count r = length qs \<and> sr_version r = next_version sr_key sr_version (sr_key r) (rd_spectrum db)
    \<and> length (rd_spectrum db') = length (rd_spectrum db) + 1 \<and> r \<in> set (rd_spectrum db') \<and> keeps_references db db'
    \<and> filter (\<lambda>s. sr_key s = sr_key r \<and> sr_active s \<and> sr_archived s = None) (rd_spectrum db') = [r]
    \<and> (catalog_ok db' \<longleftrightarrow> increasing (sort_key fst qs) \<and> list_all (\<lambda>q. 0 \<le> fst q) qs)"
  using assms(2)
proof (rule save_reference_capture_Inr)
  fix qs :: "ref_point list" and lid sdb
  let ?key = "py_strip (lq_key rq)" and ?ps = "sort_key fst qs"
  let ?rows = "deactivate_key (ev_now (re_sql re)) ?key (rd_spectrum db)"
  assume c: "captured_points (lq_points rq) = Inr qs" "qs \<noteq> []" "length qs \<le> 25000" "key_ok ?key"
    "r = live_reference re rq ?key (next_version sr_key sr_version ?key (rd_spectrum db)) lid ?ps"
    "insert_spectrum r ?rows = Inr (rd_spectrum db')"
    "db' = db\<lparr>rd_sessions := sdb, rd_spectrum := rd_spectrum db', rd_points := rd_points db @ point_rows (sr_id r) (re_clock re)
       (lq_location rq) (or_empty (lq_source_file rq)) (lq_rbw rq) (lq_vbw rq) ?ps\<rparr>"
  have pts: "rd_points db' = rd_points db @ point_rows (sr_id r) (re_clock re) (lq_location rq) (or_empty (lq_source_file rq)) (lq_rbw rq) (lq_vbw rq) ?ps"
    and sets: "rd_sets db' = rd_sets db"
    by (subst c(7), simp)+
  have r: "sr_key r = ?key" "sr_version r = next_version sr_key sr_version ?key (rd_spectrum db)" "sr_active r" "sr_archived r = None"
      "sr_point_count r = length qs" "sr_start r = fst (hd ?ps)" "sr_stop r = fst (last ?ps)" "sr_set r = None"
    by (simp_all add: c(5) live_reference_def)
  have new: "rd_spectrum db' = ?rows @ [r]" "spectrum_checks r" "sr_id r \<notin> set (map sr_id ?rows)"
    using c(6) by (simp_all add: insert_spectrum_Inr)
  have rows: "spectrum_ok ?rows (rd_points db)"
    using assms(1) unfolding deactivate_key_def by (intro spectrum_flags [where b = "\<lambda>_. False"]) (auto simp: catalog_ok_def)
  have "\<forall>p\<in>set (rd_points db). pt_reference p \<noteq> sr_id r" using rows new(3) unfolding spectrum_ok_def by metis
  then have points: "points_of (sr_id r) (rd_points db') = ?ps" unfolding pts by (rule points_of_appended) simp
  have keep: "keeps_references db db'"
    by (rule added_keeps [OF assms(1) c(6) _ _ pts, where b = "\<lambda>_. False"]) (simp_all add: deactivate_key_def)
  have "filter (\<lambda>s. sr_key s = ?key \<and> sr_active s \<and> sr_archived s = None) ?rows = []"
    by (auto simp: filter_empty_conv deactivate_key_def elim!: update_whereE split: if_splits)
  then have active: "filter (\<lambda>s. sr_key s = sr_key r \<and> sr_active s \<and> sr_archived s = None) (rd_spectrum db') = [r]"
    using r by (simp add: new(1))
  have "catalog_ok db' \<longleftrightarrow> increasing ?ps \<and> list_all (\<lambda>q. 0 \<le> fst q) qs"
  proof
    assume "catalog_ok db'"
    then have "points_match (rd_points db') r" using new(1) by (simp add: catalog_ok_def spectrum_ok_def reference_ok_def)
    then show "increasing ?ps \<and> list_all (\<lambda>q. 0 \<le> fst q) qs" by (simp add: points_match_def points list_all_iff Let_def)
  next
    assume i: "increasing ?ps \<and> list_all (\<lambda>q. 0 \<le> fst q) qs"
    have ne: "?ps \<noteq> []" using c(2) by (metis length_0_conv length_sort)
    have two: "2 \<le> length ?ps" using two_points [OF conjunct1 [OF i] ne] new(2) r(6,7) by (simp add: spectrum_checks_def)
    have "spectrum_ok (rd_spectrum db') (rd_points db')" unfolding pts
      by (rule spectrum_added [OF rows c(6) conjunct1 [OF i] two])
        (use c(3,4) i r in \<open>auto simp: max_reference_points_def list_all_iff\<close>)
    then show "catalog_ok db'" using assms(1) sets by (simp add: catalog_ok_def)
  qed
  then show ?thesis using c(1) points r(1,2,5) new(1) keep active
    by (intro exI [of _ qs]) (simp add: deactivate_key_def update_where_def)
qed

definition sample_live :: "live_point list \<Rightarrow> live_capture" where
  "sample_live points = \<lparr>lq_key = ''room'', lq_location = ''lab'', lq_device = None, lq_source_file = Some ''live_spectrum_capture'',
     lq_rbw = Some 1000, lq_vbw = None, lq_antenna = None, lq_downconverter = None, lq_points = points\<rparr>"

definition at_hz :: "int \<Rightarrow> live_point" where
  "at_hz f = \<lparr>sp_hz = Some f, sp_mhz = None, sp_power = - 50\<rparr>"

lemma sample_live_value:
  "case save_reference_capture (sample_reference_env 1) (sample_live [at_hz 200, at_hz 100]) empty_catalog of
     Inl _ \<Rightarrow> False | Inr (db, r) \<Rightarrow> length (rd_spectrum db) = 1 \<and> sr_version r = 1 \<and> sr_start r = 100 \<and> sr_stop r = 200"
  by code_simp

lemma live_capture_accounts_witness:
  "\<exists>db r. save_reference_capture (sample_reference_env 1) (sample_live [at_hz 200, at_hz 100]) empty_catalog = Inr (db, r)
    \<and> r \<in> set (rd_spectrum db) \<and> sr_version r = 1"
proof -
  obtain db r where c: "save_reference_capture (sample_reference_env 1) (sample_live [at_hz 200, at_hz 100]) empty_catalog = Inr (db, r)"
      "sr_version r = 1"
    using sample_live_value by (auto split: sum.splits)
  from live_capture_accounts [OF empty_catalog_ok c(1)] c show ?thesis by blast
qed

text \<open>A frequency that occurs twice is stored, which no other way of writing a reference allows.\<close>

lemma repeated_frequency_stored:
  "case save_reference_capture (sample_reference_env 1) (sample_live [at_hz 100, at_hz 100, at_hz 200]) empty_catalog of
     Inl _ \<Rightarrow> False | Inr (db, r) \<Rightarrow> map fst (points_of (sr_id r) (rd_points db)) = [100, 100, 200]"
  by code_simp

subsection \<open>Peaks: lemmas\<close>

definition peak_linked :: "session_db \<Rightarrow> peak_row \<Rightarrow> bool" where
  "peak_linked sdb p = ((case pk_session p of None \<Rightarrow> True | Some i \<Rightarrow> session_exists i sdb)
     \<and> (case pk_location p of None \<Rightarrow> True | Some i \<Rightarrow> i \<in> lo_id ` set (sd_locations sdb)))"

definition peaks_ok :: "peak_db \<Rightarrow> bool" where
  "peaks_ok db = (distinct (map pk_id (pd_peaks db)) \<and> list_all (peak_linked (pd_sessions db)) (pd_peaks db))"

lemma located_unique:
  assumes "locations_ok locs" "l \<in> set locs" "m \<in> set locs" "same_place (lo_name l) (lo_name m)"
  shows "l = m"
  using assms by (auto simp: locations_ok_def same_place_def distinct_map inj_on_def)

lemma peak_session_ok:
  assumes ok: "sessions_ok single (pd_sessions db)" and l: "l \<in> set (sd_locations (pd_sessions db))" "same_place (lo_name l) (py_strip (pq_location rq))"
    and run: "peak_session ev rq (lo_id l) db = Inr (db', sid)"
  shows "sessions_ok single (pd_sessions db')" "pd_peaks db' = pd_peaks db"
    "sd_locations (pd_sessions db') = sd_locations (pd_sessions db)"
    "filter Sessions.is_active (sd_sessions (pd_sessions db')) = filter Sessions.is_active (sd_sessions (pd_sessions db))"
    "\<exists>s\<in>set (sd_sessions (pd_sessions db')). se_id s = sid \<and> same_place (se_location_name s) (py_strip (pq_location rq))
       \<and> se_location_id s = Some (lo_id l)"
    "set (sd_sessions (pd_sessions db)) \<subseteq> set (sd_sessions (pd_sessions db'))"
proof -
  let ?p = "\<lambda>s. same_place (se_location_name s) (py_strip (pq_location rq))"
  have loc: "se_location_id s = Some (lo_id l)" if "s \<in> set (sd_sessions (pd_sessions db))" "?p s" for s
  proof -
    have "session_located (sd_locations (pd_sessions db)) s" using ok that(1) unfolding sessions_ok_def by blast
    then obtain m where m: "m \<in> set (sd_locations (pd_sessions db))" "se_location_id s = Some (lo_id m)" "same_place (lo_name m) (se_location_name s)"
      unfolding session_located_def by blast
    have "same_place (lo_name l) (lo_name m)" using m(3) that(2) l(2) by (simp add: same_place_def)
    then show ?thesis using located_unique [OF _ l(1) m(1)] ok m(2) by (simp add: sessions_ok_def)
  qed
  have "sessions_ok single (pd_sessions db') \<and> pd_peaks db' = pd_peaks db
    \<and> sd_locations (pd_sessions db') = sd_locations (pd_sessions db)
    \<and> filter Sessions.is_active (sd_sessions (pd_sessions db')) = filter Sessions.is_active (sd_sessions (pd_sessions db))
    \<and> (\<exists>s\<in>set (sd_sessions (pd_sessions db')). se_id s = sid \<and> ?p s \<and> se_location_id s = Some (lo_id l))
    \<and> set (sd_sessions (pd_sessions db)) \<subseteq> set (sd_sessions (pd_sessions db'))"
  proof (cases "active_sessions ?p (pd_sessions db)")
    case (Cons s ss)
    then have "s \<in> set (active_sessions ?p (pd_sessions db))" by simp
    then have s: "s \<in> set (sd_sessions (pd_sessions db))" "?p s" by simp_all
    have "db' = db" "sid = se_id s" using run Cons by (simp_all add: peak_session_def)
    then show ?thesis using ok s loc [OF s] by blast
  next
    case Nil
    let ?s = "\<lparr>se_id = ev_row_id ev, se_location_id = Some (lo_id l), se_location_name = py_strip (pq_location rq),
                 se_started = ev_now ev, se_ended = Some (ev_now ev), se_operator = None,
                 se_notes = Some ''Automatically closed one-shot session for manual peak save.'', se_environment = None,
                 se_status = ''stopped'', se_created = ev_now ev, se_updated = ev_now ev\<rparr>"
    have w: "pd_sessions db' = (pd_sessions db)\<lparr>sd_sessions := sd_sessions (pd_sessions db) @ [?s]\<rparr>" "sid = se_id ?s"
        "se_id ?s \<notin> set (map se_id (sd_sessions (pd_sessions db)))" "pd_peaks db' = pd_peaks db"
      using run Nil by (auto simp: peak_session_def Let_def and_then_Inr_iff insert_pk_Inr)
    have closed: "\<not> Sessions.is_active ?s" by (simp add: Sessions.is_active_def)
    have "one_active single (sd_sessions (pd_sessions db) @ [?s])"
      using ok closed by (auto simp: sessions_ok_def one_active_def)
    moreover have "session_located (sd_locations (pd_sessions db)) ?s" using l by (auto simp: session_located_def)
    moreover have "session_exists i (pd_sessions db) \<Longrightarrow> session_exists i (pd_sessions db')" for i
      by (auto simp: session_exists_def w(1))
    ultimately have "sessions_ok single (pd_sessions db')"
      using ok w(3) closed unfolding w(1) by (auto simp: sessions_ok_def session_exists_def)
    then show ?thesis using closed w by auto
  qed
  then show "sessions_ok single (pd_sessions db')" "pd_peaks db' = pd_peaks db"
    "sd_locations (pd_sessions db') = sd_locations (pd_sessions db)"
    "filter Sessions.is_active (sd_sessions (pd_sessions db')) = filter Sessions.is_active (sd_sessions (pd_sessions db))"
    "\<exists>s\<in>set (sd_sessions (pd_sessions db')). se_id s = sid \<and> same_place (se_location_name s) (py_strip (pq_location rq))
       \<and> se_location_id s = Some (lo_id l)"
    "set (sd_sessions (pd_sessions db)) \<subseteq> set (sd_sessions (pd_sessions db'))" by blast+
qed

lemma peaks_ok_mono:
  assumes "peaks_ok db" "pd_peaks db' = pd_peaks db" "set (sd_sessions (pd_sessions db)) \<subseteq> set (sd_sessions (pd_sessions db'))"
    "set (sd_locations (pd_sessions db)) \<subseteq> set (sd_locations (pd_sessions db'))"
  shows "peaks_ok db'"
proof -
  have "session_exists i (pd_sessions db) \<Longrightarrow> session_exists i (pd_sessions db')" for i
    using assms(3) by (auto simp: session_exists_def)
  then show ?thesis using assms(1,2) image_mono [OF assms(4), of lo_id]
    by (fastforce simp: peaks_ok_def peak_linked_def list_all_iff split: option.splits)
qed

text \<open>
  Saving a peak keeps the sessions and the peaks well formed and the running sessions as they are,
  and appends one peak whose session is at the place asked for and carries the peak's location.
\<close>

theorem peak_saved:
  assumes "sessions_ok single (pd_sessions db)" "peaks_ok db" "save_spectrum_peak ev i rq db = Inr (db', p)"
  shows "sessions_ok single (pd_sessions db') \<and> peaks_ok db' \<and> pd_peaks db' = pd_peaks db @ [p]
    \<and> filter Sessions.is_active (sd_sessions (pd_sessions db')) = filter Sessions.is_active (sd_sessions (pd_sessions db))
    \<and> (\<exists>s\<in>set (sd_sessions (pd_sessions db')). pk_session p = Some (se_id s) \<and> se_location_id s = pk_location p
        \<and> same_place (se_location_name s) (py_strip (pq_location rq)))"
proof -
  obtain f sdb lid db1 sid where w: "ensure_location ev (pq_location rq) (pd_sessions db) = Inr (sdb, lid)"
      "peak_session ev rq lid (db\<lparr>pd_sessions := sdb\<rparr>) = Inr (db1, sid)" "i \<notin> set (map pk_id (pd_peaks db1))"
      "p = \<lparr>pk_id = i, pk_time = ev_now ev, pk_session = Some sid, pk_location = Some lid, pk_type = pq_type rq,
        pk_frequency = f, pk_power = pq_power rq, pk_metadata = or_default (pq_metadata rq) []\<rparr>"
      "db' = db1\<lparr>pd_peaks := pd_peaks db1 @ [p]\<rparr>"
    using assms(3) unfolding save_spectrum_peak_def Let_def and_then_Inr_iff split_paired_Ex
    by (auto simp: and_then_Inr_iff insert_pk_Inr split: option.splits if_splits)
  note l = ensure_location_result [OF w(1)]
  obtain loc where loc: "loc \<in> set (sd_locations sdb)" "lo_id loc = lid" "same_place (lo_name loc) (py_strip (pq_location rq))" using l(4) by blast
  have ok: "sessions_ok single sdb"
    using assms(1) l(1,2,3,5) session_located_mono [OF l(3)] by (simp add: sessions_ok_def session_exists_def)
  note s = peak_session_ok [of single "db\<lparr>pd_sessions := sdb\<rparr>" loc rq ev db1 sid, simplified, OF ok loc(1,3) w(2) [folded loc(2)]]
  have peaks: "peaks_ok db1" by (rule peaks_ok_mono [OF assms(2)]) (use s l in auto)
  obtain se where se: "se \<in> set (sd_sessions (pd_sessions db1))" "se_id se = sid" "same_place (se_location_name se) (py_strip (pq_location rq))"
      "se_location_id se = Some lid" using s(5) loc(2) by auto
  have "session_exists sid (pd_sessions db1)" using se(1,2) by (auto simp: session_exists_def)
  moreover have "lid \<in> lo_id ` set (sd_locations (pd_sessions db1))" using loc s(3) by auto
  ultimately have "peak_linked (pd_sessions db1) p" "pk_id p = i" by (simp_all add: peak_linked_def w(4))
  then have "peaks_ok db'" using peaks w(3) by (simp add: peaks_ok_def w(5))
  then show ?thesis using s se l(1) by (auto simp: w(4,5))
qed

definition sample_peak :: peak_request where
  "sample_peak = \<lparr>pq_location = '' lab '', pq_type = ''realtime'', pq_mhz = Some (Fin 100), pq_hz = None, pq_power = - 40, pq_title = None, pq_metadata = None\<rparr>"

definition no_peaks :: peak_db where
  "no_peaks = \<lparr>pd_sessions = empty_sessions, pd_titles = [], pd_peaks = []\<rparr>"

lemma sample_peak_value:
  "case save_spectrum_peak (Sessions.sample_env 3) 9 sample_peak no_peaks of
     Inl _ \<Rightarrow> False | Inr (db, p) \<Rightarrow> pk_frequency p = 100000000 \<and> map se_status (sd_sessions (pd_sessions db)) = [''stopped'']
       \<and> map (\<lambda>r. column r ''session_title'') (spectrum_peaks_query (Some ''LAB'') None None db) = [SqlText ''Manual spectrum peak save'']"
  by code_simp

lemma peak_saved_witness:
  "\<exists>db p. save_spectrum_peak (Sessions.sample_env 3) 9 sample_peak no_peaks = Inr (db, p) \<and> pd_peaks db = [p]"
proof -
  obtain db p where c: "save_spectrum_peak (Sessions.sample_env 3) 9 sample_peak no_peaks = Inr (db, p)"
    using sample_peak_value by (auto split: sum.splits)
  have "sessions_ok True (pd_sessions no_peaks)" "peaks_ok no_peaks"
    by (simp_all add: no_peaks_def empty_sessions_def sessions_ok_def locations_ok_def one_active_def peaks_ok_def)
  from peak_saved [OF this c] c show ?thesis by (simp add: no_peaks_def)
qed

end
