(* ===== verification/Retention.thy ===== *)
theory Retention
  imports Settings Device_Rows
begin

section \<open>Data retention\<close>

text \<open>
  \<open>routers/data_retention.py\<close>: the preview and the purge of old rows of the four time tables. Such a
  table is stored in chunks, each for a range of times, and \<open>drop_chunks\<close> removes the chunks whose whole
  range lies before the cut-off (the documented behaviour of TimescaleDB).
\<close>

text \<open>A row is represented by its time and its content.\<close>

record 'a chunk =
  ch_from :: rat
  ch_to :: rat
  ch_rows :: "(rat \<times> 'a) list"

type_synonym 'a tables = "string \<Rightarrow> 'a chunk list"

definition retention_datasets :: "(string \<times> string) list" where
  "retention_datasets = [(''spectrum_peaks'', ''time''), (''wifi_observations'', ''time''), (''bluetooth_observations'', ''time''), (''anomalies'', ''time'')]"

definition dataset_config :: "string \<Rightarrow> string result" where
  "dataset_config dataset = (case map_of retention_datasets dataset of
     None \<Rightarrow> Inl (HTTPException 422 ''unsupported_dataset'') | Some c \<Rightarrow> Inr c)"

definition parse_older_than :: "text_lib \<Rightarrow> string \<Rightarrow> rat result" where
  "parse_older_than lib value =
     (case tl_fromiso lib (replace_Z value) of
        None \<Rightarrow> Inl (HTTPException 422 ''invalid_older_than'') | Some d \<Rightarrow> Inr (utc_seconds d))"

definition table_rows :: "'a chunk list \<Rightarrow> (rat \<times> 'a) list" where
  "table_rows chunks = concat (map ch_rows chunks)"

record preview =
  pv_dataset :: string
  pv_cutoff :: rat
  pv_count :: nat
  pv_oldest :: "rat option"
  pv_newest :: "rat option"

definition times_min :: "rat list \<Rightarrow> rat option" where
  "times_min ts = (case ts of [] \<Rightarrow> None | t # rest \<Rightarrow> Some (fold min rest t))"

definition times_max :: "rat list \<Rightarrow> rat option" where
  "times_max ts = (case ts of [] \<Rightarrow> None | t # rest \<Rightarrow> Some (fold max rest t))"

definition preview_retention :: "text_lib \<Rightarrow> string \<Rightarrow> string \<Rightarrow> 'a tables \<Rightarrow> preview result" where
  "preview_retention lib dataset older_than tables =
     and_then (dataset_config dataset) (\<lambda>_.
     and_then (parse_older_than lib older_than) (\<lambda>cutoff.
     let ts = filter (\<lambda>t. t < cutoff) (map fst (table_rows (tables dataset))) in
     Inr \<lparr>pv_dataset = dataset, pv_cutoff = cutoff, pv_count = length ts, pv_oldest = times_min ts, pv_newest = times_max ts\<rparr>))"

definition drop_chunks :: "rat \<Rightarrow> 'a chunk list \<Rightarrow> 'a chunk list \<times> 'a chunk list" where
  "drop_chunks cutoff chunks = (filter (\<lambda>c. \<not> ch_to c \<le> cutoff) chunks, filter (\<lambda>c. ch_to c \<le> cutoff) chunks)"

record purge_request =
  pr_dataset :: string
  pr_older_than :: string
  pr_confirm :: bool

record purged =
  pg_dataset :: string
  pg_cutoff :: rat
  pg_dropped :: nat

text \<open>The audit event carries the dataset, the text of the request and the number of chunks.\<close>

definition purge_retention :: "text_lib \<Rightarrow> purge_request \<Rightarrow> 'a tables \<Rightarrow> ('a tables \<times> (string \<times> string \<times> nat) \<times> purged) result" where
  "purge_retention lib rq tables =
     (if \<not> pr_confirm rq then Inl (HTTPException 422 ''confirmation_required'')
      else and_then (dataset_config (pr_dataset rq)) (\<lambda>_.
      and_then (parse_older_than lib (pr_older_than rq)) (\<lambda>cutoff.
      let (kept, dropped) = drop_chunks cutoff (tables (pr_dataset rq)) in
      Inr (tables (pr_dataset rq := kept), (pr_dataset rq, pr_older_than rq, length dropped),
        \<lparr>pg_dataset = pr_dataset rq, pg_cutoff = cutoff, pg_dropped = length dropped\<rparr>))))"

text \<open>Every row lies in the range of its chunk.\<close>

definition chunks_ok :: "'a chunk list \<Rightarrow> bool" where
  "chunks_ok chunks = list_all (\<lambda>c. list_all (\<lambda>(t, _). ch_from c \<le> t \<and> t < ch_to c) (ch_rows c)) chunks"

lemma table_rows_split: "mset (table_rows chunks) = mset (table_rows (fst (drop_chunks cutoff chunks))) + mset (table_rows (snd (drop_chunks cutoff chunks)))"
  by (induction chunks) (auto simp: table_rows_def drop_chunks_def)

lemma dropped_rows_old:
  "chunks_ok chunks \<Longrightarrow> r \<in> set (table_rows (snd (drop_chunks cutoff chunks))) \<Longrightarrow> fst r < cutoff"
  by (fastforce simp: chunks_ok_def table_rows_def drop_chunks_def list_all_iff)

lemma kept_recent_rows:
  assumes "chunks_ok chunks"
  shows "filter (\<lambda>r. cutoff \<le> fst r) (table_rows (fst (drop_chunks cutoff chunks))) = filter (\<lambda>r. cutoff \<le> fst r) (table_rows chunks)"
  using assms
proof (induction chunks)
  case (Cons c chunks)
  have "filter (\<lambda>r. cutoff \<le> fst r) (ch_rows c) = []" if "ch_to c \<le> cutoff"
    using Cons.prems that by (fastforce simp: chunks_ok_def list_all_iff filter_empty_conv)
  then show ?case using Cons by (auto simp: table_rows_def drop_chunks_def chunks_ok_def)
qed (simp add: table_rows_def drop_chunks_def)


text \<open>A purge can leave rows that the preview counted: their chunk reaches past the cut-off.\<close>

definition one_chunk :: "nat tables" where
  "one_chunk = (\<lambda>_. [\<lparr>ch_from = 0, ch_to = 10, ch_rows = [(1, 7), (8, 9)]\<rparr>])"

definition fifth :: text_lib where
  "fifth = sample_lib\<lparr>tl_fromiso := (\<lambda>_. Some \<lparr>aware = True, utc_seconds = 5\<rparr>)\<rparr>"

lemma counted_but_kept:
  "(case preview_retention fifth ''anomalies'' ''x'' one_chunk of Inl _ \<Rightarrow> 0 | Inr pv \<Rightarrow> pv_count pv) = 1"
  "(case purge_retention fifth \<lparr>pr_dataset = ''anomalies'', pr_older_than = ''x'', pr_confirm = True\<rparr> one_chunk of
      Inl _ \<Rightarrow> [] | Inr (tables, _) \<Rightarrow> table_rows (tables ''anomalies'')) = [(1, 7), (8, 9)]"
  by code_simp+

definition two_chunks :: "nat tables" where
  "two_chunks = (\<lambda>_. [\<lparr>ch_from = 0, ch_to = 5, ch_rows = [(1, 7)]\<rparr>, \<lparr>ch_from = 5, ch_to = 10, ch_rows = [(8, 9)]\<rparr>])"


end
