(* ===== verification/Reviews.thy ===== *)
theory Reviews
  imports Anomaly_Pipeline Device_Baseline Sessions
begin

section \<open>What operators do with detections, markers and baselines\<close>

text \<open>
  The remaining routes of \<open>routers/anomalies_alerts.py\<close> and \<open>routers/markers_known.py\<close>, and the routes of
  \<open>routers/device_baseline.py\<close>: pages of detections and of Wi-Fi events, the review of a detection, the
  change of a marker, the list of audit events, and the baselines of a place. An identifier in a path
  is checked by \<open>parse\<close>, that of a session in a request is a number; the audit event of a route is part of its result.
\<close>

record audit =
  au_type :: string
  au_entity :: string
  au_id :: "string option"
  au_actor :: string
  au_details :: "(string \<times> pyval) list"

text \<open>An identifier: absent when empty, which no row has.\<close>

definition path_id :: "(string \<Rightarrow> nat option) \<Rightarrow> string \<Rightarrow> string \<Rightarrow> nat option result" where
  "path_id parse s field =
     (if s = [] then Inr None
      else (case parse s of None \<Rightarrow> Inl (HTTPException 422 (''invalid_'' @ field)) | Some i \<Rightarrow> Inr (Some i)))"

subsection \<open>Detections\<close>

text \<open>A stored detection with its time and the columns of a review.\<close>

record review_entry =
  rv_row :: stored_detection
  rv_at :: rat
  rv_notes :: "string option"
  rv_reviewed :: "(rat \<times> string) option"
  rv_training :: "bool option"

definition review_key :: "review_entry \<Rightarrow> rat \<times> nat" where
  "review_key r = (rv_at r, sd_id (rv_row r))"

definition dispositions :: "string list" where
  "dispositions = [''known'', ''changed'', ''false_positive'', ''reviewed'']"

definition page_cursor :: "(rat \<times> nat) result option \<Rightarrow> (rat \<times> nat) option result" where
  "page_cursor cursor = (case cursor of None \<Rightarrow> Inr None
     | Some (Inl e) \<Rightarrow> Inl (HTTPException 422 ''invalid_pagination_cursor'') | Some (Inr c) \<Rightarrow> Inr (Some c))"

definition list_detections ::
  "nat \<Rightarrow> string option \<Rightarrow> string option \<Rightarrow> string option \<Rightarrow> (rat \<times> nat) result option \<Rightarrow> string option \<Rightarrow>
    review_entry list \<Rightarrow> (review_entry list \<times> bool \<times> (rat \<times> nat) option) result" where
  "list_detections limit domain disposition severity_filter cursor session table =
     and_then (optional_filter domain [''spectrum'', ''wifi'', ''bluetooth'', ''technical''] ''invalid_detection_domain''
         (\<lambda>v r. entity_domain (sd_detection (rv_row r)) = v)) (\<lambda>p1.
     and_then (optional_filter disposition (''new'' # dispositions) ''invalid_detection_disposition''
         (\<lambda>v r. sd_disposition (rv_row r) = v)) (\<lambda>p2.
     and_then (optional_filter severity_filter [''info'', ''low'', ''medium'', ''high'', ''critical''] ''invalid_detection_severity''
         (\<lambda>v r. severity (sd_detection (rv_row r)) = v)) (\<lambda>p3.
     and_then (page_cursor cursor) (\<lambda>c.
       Inr (keyset_page review_key
         (\<lambda>r. (session = None \<or> sd_session (rv_row r) = session) \<and> p1 r \<and> p2 r \<and> p3 r) limit c table)))))"

record review_request =
  rq_disposition :: string
  rq_notes :: "string option"
  rq_signal :: "string option"
  rq_reviewer :: "string option"
  rq_training :: "bool option"

text \<open>\<open>(value or "operator").strip()[:200]\<close>\<close>

definition operator_name :: "string option \<Rightarrow> string" where
  "operator_name v = take 200 (py_strip (if truthy v then or_empty v else ''operator''))"

definition optional_id :: "(string \<Rightarrow> nat option) \<Rightarrow> string option \<Rightarrow> string \<Rightarrow> nat option result" where
  "optional_id parse v field = path_id parse (or_empty v) field"

definition id_value :: "nat option \<Rightarrow> pyval" where
  "id_value i = (case i of None \<Rightarrow> PNone | Some n \<Rightarrow> PStr (nat_text n))"

text \<open>\<open>signals\<close> are the identifiers of the known signals, which the foreign key refers to.\<close>

definition review_detection ::
  "(string \<Rightarrow> nat option) \<Rightarrow> rat \<Rightarrow> nat list \<Rightarrow> string \<Rightarrow> review_request \<Rightarrow> review_entry list \<Rightarrow> (review_entry list \<times> review_entry \<times> audit) result" where
  "review_detection parse now signals path rq table =
     and_then (path_id parse path ''detection_id'') (\<lambda>i.
     if rq_disposition rq \<notin> set dispositions then Inl (HTTPException 422 ''invalid_detection_disposition'')
     else and_then (optional_id parse (rq_signal rq) ''known_signal_id'') (\<lambda>known.
       let operator = operator_name (rq_reviewer rq);
           p = (\<lambda>r. Some (sd_id (rv_row r)) = i);
           f = (\<lambda>r. r\<lparr>rv_row := (rv_row r)\<lparr>sd_disposition := rq_disposition rq, sd_known_signal := known\<rparr>, rv_notes := rq_notes rq,
             rv_reviewed := Some (now, operator), rv_training := rq_training rq\<rparr>) in
       case returning p f table of
         [] \<Rightarrow> Inl (HTTPException 404 ''detection_not_found'')
       | row # _ \<Rightarrow>
           if (case known of None \<Rightarrow> False | Some k \<Rightarrow> k \<notin> set signals) then Inl (RuntimeError ''ForeignKeyViolation'')
           else Inr (update_where p f table, row,
             \<lparr>au_type = ''rf_detection.reviewed'', au_entity = ''rf_detection'', au_id = map_option nat_text i, au_actor = operator,
              au_details = [(''disposition'', PStr (rq_disposition rq)),
                (''include_in_training'', case rq_training rq of None \<Rightarrow> PNone | Some b \<Rightarrow> PBool b), (''known_signal_id'', id_value known)]\<rparr>)))"

definition recent_anomalies :: "nat \<Rightarrow> string option \<Rightarrow> pipeline \<Rightarrow> spectrum_detection list \<times> nat" where
  "recent_anomalies limit domain pl =
     (let items = (if truthy domain then filter (\<lambda>d. entity_domain d = or_empty domain) (pl_recent pl) else pl_recent pl) in
      (take limit items, min (length items) limit))"

definition list_wifi_security_events ::
  "nat \<Rightarrow> string option \<Rightarrow> string option \<Rightarrow> (rat \<times> nat) result option \<Rightarrow> string option \<Rightarrow>
    alert list \<Rightarrow> ((string \<times> pyval) list list \<times> bool \<times> (rat \<times> nat) option) result" where
  "list_wifi_security_events limit status severity_filter cursor session table =
     and_then (optional_filter status [''open'', ''acknowledged'', ''resolved''] ''invalid_alert_status''
         (\<lambda>v a. status_text (al_status a) = v)) (\<lambda>p1.
     and_then (optional_filter severity_filter [''info'', ''warning'', ''error'', ''critical''] ''invalid_alert_severity''
         (\<lambda>v a. al_severity a = v)) (\<lambda>p2.
     and_then (page_cursor cursor) (\<lambda>c.
       let (rows, more, next_cursor) = keyset_page alert_key
         (\<lambda>a. al_domain a = ''wifi_security'' \<and> (session = None \<or> al_session a = session) \<and> p1 a \<and> p2 a) limit c table in
       Inr (map wifi_security_event rows, more, next_cursor))))"

subsection \<open>Markers\<close>

text \<open>The fields a request sets; the inner option is the value, \<open>None\<close> for null. \<open>mc_other\<close> are the
  columns the model of a marker leaves out.\<close>

record marker_change =
  mc_location :: "string option option"
  mc_session :: "string option option"
  mc_recording :: "string option option"
  mc_frequency :: "int option option"
  mc_power :: "rat option option"
  mc_label :: "string option option"
  mc_other :: "(string \<times> pyval) list"

definition changed_fields :: "marker_change \<Rightarrow> string list" where
  "changed_fields mc =
     (if mc_location mc = None then [] else [''location_id'']) @ (if mc_session mc = None then [] else [''measurement_session_id''])
     @ (if mc_recording mc = None then [] else [''recording_id'']) @ (if mc_frequency mc = None then [] else [''frequency_hz''])
     @ (if mc_power mc = None then [] else [''power_dbm'']) @ (if mc_label mc = None then [] else [''label'']) @ map fst (mc_other mc)"

definition changed :: "'a option \<Rightarrow> 'a \<Rightarrow> 'a" where
  "changed v old = (case v of None \<Rightarrow> old | Some x \<Rightarrow> x)"

definition changed_uuid :: "(string \<Rightarrow> string option) \<Rightarrow> string option option \<Rightarrow> string \<Rightarrow> string option option result" where
  "changed_uuid parse v field = (case v of None \<Rightarrow> Inr None | Some u \<Rightarrow> and_then (validated_optional_uuid parse u field) (\<lambda>x. Inr (Some x)))"

definition get_spectrum_marker :: "(string \<Rightarrow> nat option) \<Rightarrow> string \<Rightarrow> marker list \<Rightarrow> marker result" where
  "get_spectrum_marker parse path table =
     and_then (path_id parse path ''marker_id'') (\<lambda>i.
     case filter (\<lambda>m. Some (mk_id m) = i) table of [] \<Rightarrow> Inl (HTTPException 404 ''marker_not_found'') | m # _ \<Rightarrow> Inr m)"

definition change_marker :: "marker_change \<Rightarrow> string option option \<Rightarrow> string option option \<Rightarrow> marker \<Rightarrow> marker" where
  "change_marker mc loc session m = m\<lparr>mk_location := changed loc (mk_location m), mk_session := changed session (mk_session m),
             mk_recording := changed (mc_recording mc) (mk_recording m),
             mk_frequency_hz := (case mc_frequency mc of Some (Some f) \<Rightarrow> f | _ \<Rightarrow> mk_frequency_hz m),
             mk_power_dbm := changed (mc_power mc) (mk_power_dbm m),
             mk_label := (case mc_label mc of Some (Some l) \<Rightarrow> l | _ \<Rightarrow> mk_label m)\<rparr>"

definition update_spectrum_marker ::
  "(string \<Rightarrow> nat option) \<Rightarrow> (string \<Rightarrow> string option) \<Rightarrow> string \<Rightarrow> marker_change \<Rightarrow> marker list \<Rightarrow> (marker list \<times> marker \<times> audit) result" where
  "update_spectrum_marker parse_id parse path mc table =
     and_then (path_id parse_id path ''marker_id'') (\<lambda>i.
     if changed_fields mc = [] then Inl (HTTPException 422 ''empty_update'')
     else and_then (changed_uuid parse (mc_location mc) ''location_id'') (\<lambda>loc.
     and_then (changed_uuid parse (mc_session mc) ''measurement_session_id'') (\<lambda>session.
     if (case mc_frequency mc of None \<Rightarrow> False | Some None \<Rightarrow> True | Some (Some f) \<Rightarrow> f \<le> 0)
     then Inl (HTTPException 422 ''invalid_frequency_hz'')
     else if (case mc_label mc of None \<Rightarrow> False | Some None \<Rightarrow> True | Some (Some l) \<Rightarrow> py_strip l = [])
     then Inl (HTTPException 422 ''invalid_label'')
     else
       let p = (\<lambda>m. Some (mk_id m) = i); f = change_marker mc loc session in
       case returning p f table of
         [] \<Rightarrow> Inl (HTTPException 404 ''marker_not_found'')
       | row # _ \<Rightarrow> Inr (update_where p f table, row,
           \<lparr>au_type = ''spectrum.marker.updated'', au_entity = ''spectrum_marker'', au_id = map_option nat_text i, au_actor = ''system'',
            au_details = [(''fields'', PList (map PStr (changed_fields mc)))]\<rparr>))))"

definition get_known_signal :: "(string \<Rightarrow> nat option) \<Rightarrow> string \<Rightarrow> signal_profile list \<Rightarrow> signal_profile result" where
  "get_known_signal parse path table =
     and_then (path_id parse path ''known_signal_id'') (\<lambda>i.
     case filter (\<lambda>s. Some (ks_id s) = i) table of [] \<Rightarrow> Inl (HTTPException 404 ''known_signal_not_found'') | s # _ \<Rightarrow> Inr s)"

definition list_audit_events :: "int \<Rightarrow> string option \<Rightarrow> (rat \<times> audit) list \<Rightarrow> (rat \<times> audit) list" where
  "list_audit_events limit event_type table =
     take (bounded_limit limit) (listing fst (\<lambda>(_, e). truthy event_type \<longrightarrow> au_type e = or_empty event_type) table)"

subsection \<open>Baselines of a place\<close>

record baseline_save =
  bs_protocol :: string
  bs_location :: string
  bs_session :: "nat option"
  bs_operator :: "string option"
  bs_notes :: "string option"

definition save_device_baseline ::
  "sql_env \<Rightarrow> baseline_save \<Rightarrow> session_db \<times> device_db \<Rightarrow> ((session_db \<times> device_db) \<times> (nat \<times> nat) \<times> audit) result" where
  "save_device_baseline ev rq s =
     (let (sdb, db) = s in
      and_then (ensure_location ev (bs_location rq) sdb) (\<lambda>(sdb, lid).
      and_then (save_baseline (ev_now ev) \<lparr>sv_protocol = bs_protocol rq, sv_location_name = bs_location rq, sv_location_id = Some lid,
          sv_session = bs_session rq, sv_operator = Some (operator_name (bs_operator rq)), sv_notes = bs_notes rq,
          sv_reference_set_id = None\<rparr> db) (\<lambda>(db, version, count).
      Inr ((sdb, db), (version, count),
        \<lparr>au_type = ''device_baseline.saved'', au_entity = ''device_baseline'', au_id = None,
         au_actor = (if truthy (bs_operator rq) then or_empty (bs_operator rq) else ''operator''),
         au_details = [(''version'', PInt (int version)), (''entries'', PInt (int count))]\<rparr>))))"

definition deactivate_device_baseline :: "rat \<Rightarrow> string \<Rightarrow> string \<Rightarrow> device_db \<Rightarrow> (device_db \<times> nat \<times> audit) result" where
  "deactivate_device_baseline now protocol location db =
     and_then (deactivate_baseline now protocol location db) (\<lambda>(db, n).
     Inr (db, n, \<lparr>au_type = ''device_baseline.deactivated'', au_entity = ''device_baseline'', au_id = None, au_actor = ''operator'',
       au_details = [(''deactivated_entries'', PInt (int n))]\<rparr>))"

definition grace_seconds :: "rat \<Rightarrow> rat \<Rightarrow> string \<Rightarrow> rat" where
  "grace_seconds wifi bluetooth protocol = (if protocol = ''wifi'' then wifi else bluetooth)"

definition compare_device_baseline ::
  "rat \<Rightarrow> rat \<Rightarrow> rat \<Rightarrow> string \<Rightarrow> string \<Rightarrow> nat option \<Rightarrow> device_db \<Rightarrow> comparison result" where
  "compare_device_baseline wifi bluetooth now protocol location session db =
     compute_baseline_comparison now (grace_seconds wifi bluetooth protocol) protocol location session None db"

subsection \<open>Reviews: lemmas\<close>

text \<open>What a review may not touch.\<close>

definition evidence_of :: "review_entry \<Rightarrow> nat \<times> spectrum_detection \<times> signal_match list \<times> string option \<times> string option \<times> rat" where
  "evidence_of r = (sd_id (rv_row r), sd_detection (rv_row r), sd_matches (rv_row r), sd_suppression (rv_row r), sd_session (rv_row r), rv_at r)"

lemma review_detection_Inr:
  assumes "review_detection parse now signals path rq table = Inr (table', row, event)"
  obtains i known where "path_id parse path ''detection_id'' = Inr (Some i)" "rq_disposition rq \<in> set dispositions"
    "optional_id parse (rq_signal rq) ''known_signal_id'' = Inr known" "known = None \<or> (\<exists>k\<in>set signals. known = Some k)"
    "table' = update_where (\<lambda>r. sd_id (rv_row r) = i) (\<lambda>r. r\<lparr>rv_row := (rv_row r)\<lparr>sd_disposition := rq_disposition rq, sd_known_signal := known\<rparr>,
       rv_notes := rq_notes rq, rv_reviewed := Some (now, operator_name (rq_reviewer rq)), rv_training := rq_training rq\<rparr>) table"
    "\<exists>r\<in>set table. sd_id (rv_row r) = i" "au_actor event = operator_name (rq_reviewer rq)" "au_id event = Some (nat_text i)"
proof -
  obtain i known where w: "path_id parse path ''detection_id'' = Inr i" "rq_disposition rq \<in> set dispositions"
      "optional_id parse (rq_signal rq) ''known_signal_id'' = Inr known"
    using assms by (auto simp: review_detection_def and_then_Inr_iff split: if_splits)
  show thesis
  proof (cases i)
    case None
    then show thesis using assms w by (simp add: review_detection_def returning_def)
  next
    case (Some n)
    then show thesis using assms w
      by (intro that [of n known]) (auto simp: review_detection_def returning_def Let_def filter_eq_Cons_iff
          split: list.splits if_splits option.splits)
  qed
qed

lemma operator_name_length: "length (operator_name v) \<le> 200"
  by (simp add: operator_name_def)


subsection \<open>Markers: lemmas\<close>

definition marker_ok :: "marker \<Rightarrow> bool" where
  "marker_ok m = (0 < mk_frequency_hz m \<and> py_strip (mk_label m) \<noteq> [])"

definition markers_ok :: "marker list \<Rightarrow> bool" where
  "markers_ok table = (distinct (map mk_id table) \<and> list_all marker_ok table)"

lemma update_spectrum_marker_ok:
  assumes "markers_ok table" "update_spectrum_marker parse_id parse path mc table = Inr (table', row, event)"
  shows "markers_ok table'"
proof -
  obtain i loc session where w:
    "table' = update_where (\<lambda>m. Some (mk_id m) = i) (change_marker mc loc session) table"
    "\<not> (case mc_frequency mc of None \<Rightarrow> False | Some None \<Rightarrow> True | Some (Some f) \<Rightarrow> f \<le> 0)"
    "\<not> (case mc_label mc of None \<Rightarrow> False | Some None \<Rightarrow> True | Some (Some l) \<Rightarrow> py_strip l = [])"
  proof -
    assume *: "\<And>i loc session. table' = update_where (\<lambda>m. Some (mk_id m) = i) (change_marker mc loc session) table \<Longrightarrow>
      \<not> (case mc_frequency mc of None \<Rightarrow> False | Some None \<Rightarrow> True | Some (Some f) \<Rightarrow> f \<le> 0) \<Longrightarrow>
      \<not> (case mc_label mc of None \<Rightarrow> False | Some None \<Rightarrow> True | Some (Some l) \<Rightarrow> py_strip l = []) \<Longrightarrow> thesis"
    obtain i loc session where "\<not> (case mc_frequency mc of None \<Rightarrow> False | Some None \<Rightarrow> True | Some (Some f) \<Rightarrow> f \<le> 0)"
        "\<not> (case mc_label mc of None \<Rightarrow> False | Some None \<Rightarrow> True | Some (Some l) \<Rightarrow> py_strip l = [])"
        "(case returning (\<lambda>m. Some (mk_id m) = i) (change_marker mc loc session) table of
           [] \<Rightarrow> Inl (HTTPException 404 ''marker_not_found'')
         | row # _ \<Rightarrow> Inr (update_where (\<lambda>m. Some (mk_id m) = i) (change_marker mc loc session) table, row,
           \<lparr>au_type = ''spectrum.marker.updated'', au_entity = ''spectrum_marker'', au_id = map_option nat_text i, au_actor = ''system'',
            au_details = [(''fields'', PList (map PStr (changed_fields mc)))]\<rparr>)) = Inr (table', row, event)"
      using assms(2) by (auto simp: update_spectrum_marker_def and_then_Inr_iff Let_def split: if_splits)
    then show thesis by (intro * [of i loc session]) (auto split: list.splits)
  qed
  have "map mk_id table' = map mk_id table" unfolding w(1) by (rule map_update_where) (simp add: change_marker_def)
  moreover have "list_all marker_ok table'"
    using assms(1) w(2,3) unfolding w(1)
    by (auto simp: markers_ok_def list_all_iff marker_ok_def update_where_def change_marker_def split: option.splits)
  ultimately show ?thesis using assms(1) by (simp add: markers_ok_def)
qed

lemma create_marker_ok:
  assumes "markers_ok table" "fresh \<notin> set (map mk_id table)" "create_marker parse fresh now r table = Inr (table', row)"
  shows "markers_ok table'"
proof -
  have "\<exists>row. table' = table @ [row] \<and> mk_id row = fresh \<and> marker_ok row"
    using assms(3) by (auto simp: create_marker_def Let_def and_then_Inr_iff marker_ok_def split: if_splits)
  then show ?thesis using assms(1,2) by (auto simp: markers_ok_def)
qed

lemma archive_marker_ok:
  assumes "markers_ok table" "archive_marker i table = Inr table'"
  shows "markers_ok table'"
proof -
  have t: "table' = update_where (\<lambda>m. mk_id m = i \<and> \<not> mk_archived m) (\<lambda>m. m\<lparr>mk_archived := True\<rparr>) table"
    using assms(2) by (auto simp: archive_marker_def Let_def split: if_splits)
  have "map mk_id table' = map mk_id table" unfolding t by (rule map_update_where) simp
  moreover have "list_all marker_ok table'"
    using assms(1) by (auto simp: t markers_ok_def list_all_iff update_where_def marker_ok_def)
  ultimately show ?thesis using assms(1) by (simp add: markers_ok_def)
qed

text \<open>Creating refuses a label of more than 200 characters, changing one does not.\<close>

definition sample_marker :: marker where
  "sample_marker = \<lparr>mk_id = 1, mk_location = None, mk_session = None, mk_recording = None, mk_frequency_hz = 100, mk_power_dbm = None,
     mk_label = ''a'', mk_archived = False, mk_created_at = 0\<rparr>"

definition label_change :: "string \<Rightarrow> marker_change" where
  "label_change l = \<lparr>mc_location = None, mc_session = None, mc_recording = None, mc_frequency = None, mc_power = None, mc_label = Some (Some l), mc_other = []\<rparr>"

lemma long_label_by_update:
  "create_marker Some 2 0 (sample_marker\<lparr>mk_label := replicate 201 (CHR ''x'')\<rparr>) [] = Inl (HTTPException 422 ''invalid_label'')"
  "case update_spectrum_marker (\<lambda>_. Some 1) Some ''1'' (label_change (replicate 201 (CHR ''x''))) [sample_marker] of
     Inl _ \<Rightarrow> False | Inr (table, _) \<Rightarrow> map (length \<circ> mk_label) table = [201]"
  by code_simp+

text \<open>The grace of a comparison is chosen by the spelling of the protocol, the devices by its meaning.\<close>

lemma grace_of_spelling:
  "compare_device_baseline wifi bluetooth now ''WiFi'' location session db = compute_baseline_comparison now bluetooth ''wifi'' location session None db"
proof -
  have "normalize_protocol ''WiFi'' = normalize_protocol ''wifi''" by code_simp
  then show ?thesis by (simp add: compare_device_baseline_def grace_seconds_def compute_baseline_comparison_def)
qed

text \<open>A client that follows the cursors of the detections meets each one that fits the filters once.\<close>

lemma detection_paging:
  assumes "distinct (map (sd_id \<circ> rv_row) table)" "0 < limit" "length table < n"
  shows "keyset_walk n review_key p limit None table = listing review_key p table"
proof (rule keyset_walk_complete [OF _ assms(2,3)])
  have "map (sd_id \<circ> rv_row) table = map snd (map review_key table)" by (simp add: review_key_def comp_def)
  then show "distinct (map review_key table)" using assms(1) by (metis distinct_map)
qed

definition unreviewed :: "spectrum_detection \<Rightarrow> review_entry" where
  "unreviewed d = \<lparr>rv_row = \<lparr>sd_id = 1, sd_detection = d, sd_known_signal = None, sd_disposition = ''new'', sd_suppression = None,
     sd_matches = [], sd_session = None, sd_recording = None, sd_source_type = ''sdr''\<rparr>, rv_at = 3, rv_notes = None, rv_reviewed = None, rv_training = None\<rparr>"

definition sample_review :: review_request where
  "sample_review = \<lparr>rq_disposition = ''known'', rq_notes = None, rq_signal = Some ''7'', rq_reviewer = None, rq_training = Some True\<rparr>"


end
