(* ===== verification/Datasets.thy ===== *)
theory Datasets
  imports Recordings Spectrum_Detector "HOL-Library.Sublist"
begin

section \<open>Data sets for training\<close>

text \<open>
  \<open>ml/dataset.py\<close>, \<open>ml/recording_dataset.py\<close> and \<open>ml/preprocessing.py\<close> of the backend, with the script
  \<open>split_manifest.py\<close>: the split of labelled items into training, validation and
  test data by the hash of their recording, the reading of a recorded directory, and its cutting into
  windows of normalised spectra. A directory maps names to the bytes of its files. SHA-256, the decoders
  of the standard library and the zstd program are arguments. The arithmetic of numpy is exact.
\<close>

subsection \<open>The split by groups\<close>

record dataset_item =
  di_item :: string
  di_recording :: string
  di_session :: string
  di_label :: string

definition group_id :: "dataset_item \<Rightarrow> string" where
  "group_id x = (if di_recording x \<noteq> [] then di_recording x else di_session x)"

datatype split_part = Train_Part | Validation_Part | Test_Part

definition part_name :: "split_part \<Rightarrow> string" where
  "part_name p = (case p of Train_Part \<Rightarrow> ''train'' | Validation_Part \<Rightarrow> ''validation'' | Test_Part \<Rightarrow> ''test'')"

text \<open>\<open>int.from_bytes(digest[:8], "big") / float(2**64)\<close>; \<open>rnd\<close> rounds to a float.\<close>

definition big_endian :: "byte list \<Rightarrow> nat" where
  "big_endian bs = foldl (\<lambda>n b. 256 * n + unat b) 0 bs"

definition hash_value :: "(string \<Rightarrow> byte list) \<Rightarrow> (rat \<Rightarrow> rat) \<Rightarrow> string \<Rightarrow> string \<Rightarrow> rat" where
  "hash_value sha rnd seed g = rnd (of_nat (big_endian (take 8 (sha (seed @ '':'' @ g)))) / 2 ^ 64)"

definition part_of :: "rat \<Rightarrow> rat \<Rightarrow> rat \<Rightarrow> split_part" where
  "part_of train_fraction validation_fraction v =
     (if v < train_fraction then Train_Part
      else if v < train_fraction + validation_fraction then Validation_Part else Test_Part)"

record dataset_split =
  sp_assignments :: "string \<Rightarrow> split_part option"
  sp_items :: "split_part \<Rightarrow> dataset_item list"

definition empty_split :: dataset_split where
  "empty_split = \<lparr>sp_assignments = (\<lambda>_. None), sp_items = (\<lambda>_. [])\<rparr>"

definition split_item :: "(string \<Rightarrow> split_part) \<Rightarrow> dataset_split \<Rightarrow> dataset_item \<Rightarrow> dataset_split result" where
  "split_item chosen s x =
     (if group_id x = [] then Inl (ValueError ''every item requires a recording_id or session_id'')
      else let p = chosen (group_id x);
               previous = (case sp_assignments s (group_id x) of None \<Rightarrow> p | Some q \<Rightarrow> q) in
        if previous \<noteq> p then Inl (AssertionError ''group leakage detected'')
        else Inr \<lparr>sp_assignments = (sp_assignments s)(group_id x \<mapsto> previous),
                  sp_items = (sp_items s)(p := sp_items s p @ [x])\<rparr>)"

definition grouped_split ::
  "(string \<Rightarrow> byte list) \<Rightarrow> (rat \<Rightarrow> rat) \<Rightarrow> rat \<Rightarrow> rat \<Rightarrow> string \<Rightarrow> dataset_item list \<Rightarrow> dataset_split result" where
  "grouped_split sha rnd train_fraction validation_fraction seed xs =
     (if \<not> (0 < train_fraction \<and> train_fraction < 1) \<or> \<not> (0 \<le> validation_fraction \<and> validation_fraction < 1)
      then Inl (ValueError ''invalid split fractions'')
      else if 1 \<le> train_fraction + validation_fraction
      then Inl (ValueError ''train + validation fraction must be below 1'')
      else fold_result (split_item (\<lambda>g. part_of train_fraction validation_fraction (hash_value sha rnd seed g)))
        empty_split xs)"

text \<open>The script: the lines of the label file (\<open>loads\<close> is \<open>json.loads\<close>), then the manifest it writes.\<close>

definition label_item :: "conversions \<Rightarrow> nat \<Rightarrow> pyval \<Rightarrow> dataset_item result" where
  "label_item cv n v =
     (case v of
        PDict d \<Rightarrow>
          if dict_has d ''item_id'' \<and> dict_has d ''label''
          then (let optional = (\<lambda>k. if dict_has d k then Frame_Validation.py_str cv (dict_get d k) else []) in
            Inr \<lparr>di_item = Frame_Validation.py_str cv (dict_get d ''item_id''), di_recording = optional ''recording_id'',
              di_session = optional ''session_id'', di_label = Frame_Validation.py_str cv (dict_get d ''label'')\<rparr>)
          else Inl (ValueError (''invalid label at line '' @ nat_text n))
      | _ \<Rightarrow> Inl (ValueError (''invalid label at line '' @ nat_text n)))"

fun read_lines :: "(nat \<Rightarrow> pyval \<Rightarrow> 'a result) \<Rightarrow> (string \<Rightarrow> pyval result) \<Rightarrow> nat \<Rightarrow> string list \<Rightarrow> 'a list result" where
  "read_lines item loads n [] = Inr []"
| "read_lines item loads n (line # rest) =
     (if py_strip line = [] then read_lines item loads (Suc n) rest
      else and_then (loads line) (\<lambda>v. and_then (item n v) (\<lambda>x.
        and_then (read_lines item loads (Suc n) rest) (\<lambda>xs. Inr (x # xs)))))"

definition split_manifest ::
  "conversions \<Rightarrow> (string \<Rightarrow> pyval result) \<Rightarrow> (string \<Rightarrow> byte list) \<Rightarrow> (rat \<Rightarrow> rat) \<Rightarrow> string \<Rightarrow> string list \<Rightarrow> pyval result" where
  "split_manifest cv loads sha rnd seed file =
     and_then (read_lines (label_item cv) loads 1 file) (\<lambda>xs.
     and_then (grouped_split sha rnd (7 / 10) (15 / 100) seed xs) (\<lambda>s.
     Inr (PDict [(''schema_version'', PInt 1), (''seed'', PStr seed), (''split_unit'', PStr ''recording_or_session''),
       (''partitions'', PDict (map (\<lambda>p. (part_name p, PList (map (\<lambda>x. PStr (di_item x)) (sp_items s p))))
          [Train_Part, Validation_Part, Test_Part]))])))"

subsection \<open>What a split is\<close>

lemma split_items_filter:
  assumes "fold_result (split_item chosen) s xs = Inr t"
  shows "sp_items t p = sp_items s p @ filter (\<lambda>x. chosen (group_id x) = p) xs"
    and "\<forall>x\<in>set xs. group_id x \<noteq> []"
  using assms
  by (induction xs arbitrary: s) (fastforce simp: split_item_def and_then_Inr_iff Let_def split: if_splits)+

lemma split_runs:
  assumes "\<And>g q. sp_assignments s g = Some q \<Longrightarrow> q = chosen g" and "\<forall>x\<in>set xs. group_id x \<noteq> []"
  shows "\<exists>t. fold_result (split_item chosen) s xs = Inr t"
  using assms
proof (induction xs arbitrary: s)
  case (Cons x xs)
  define s' where "s' = \<lparr>sp_assignments = (sp_assignments s)(group_id x \<mapsto> chosen (group_id x)),
    sp_items = (sp_items s)(chosen (group_id x) := sp_items s (chosen (group_id x)) @ [x])\<rparr>"
  have "split_item chosen s x = Inr s'"
    using Cons.prems by (auto simp: split_item_def Let_def s'_def split: option.splits)
  moreover have "\<exists>t. fold_result (split_item chosen) s' xs = Inr t"
  proof (rule Cons.IH)
    show "q = chosen g" if "sp_assignments s' g = Some q" for g q
      using that Cons.prems(1) by (auto simp: s'_def split: if_splits)
  qed (use Cons.prems(2) in simp)
  ultimately show ?case by simp
qed simp

lemma split_stops:
  assumes "\<And>g q. sp_assignments s g = Some q \<Longrightarrow> q = chosen g" and "\<exists>x\<in>set xs. group_id x = []"
  shows "fold_result (split_item chosen) s xs = Inl (ValueError ''every item requires a recording_id or session_id'')"
  using assms
proof (induction xs arbitrary: s)
  case (Cons x xs)
  show ?case
  proof (cases "group_id x = []")
    case True
    then show ?thesis by (simp add: split_item_def)
  next
    case False
    define s' where "s' = \<lparr>sp_assignments = (sp_assignments s)(group_id x \<mapsto> chosen (group_id x)),
      sp_items = (sp_items s)(chosen (group_id x) := sp_items s (chosen (group_id x)) @ [x])\<rparr>"
    have "split_item chosen s x = Inr s'"
      using Cons.prems False by (auto simp: split_item_def Let_def s'_def split: option.splits)
    moreover have "fold_result (split_item chosen) s' xs
      = Inl (ValueError ''every item requires a recording_id or session_id'')"
    proof (rule Cons.IH)
      show "q = chosen g" if "sp_assignments s' g = Some q" for g q
        using that Cons.prems(1) by (auto simp: s'_def split: if_splits)
    qed (use Cons.prems(2) False in auto)
    ultimately show ?thesis by simp
  qed
qed simp

text \<open>The third refusal, \<open>group leakage detected\<close>, cannot happen.\<close>

lemma grouped_split_ok:
  "is_ok (grouped_split sha rnd a b seed xs) \<longleftrightarrow>
     0 < a \<and> a < 1 \<and> 0 \<le> b \<and> b < 1 \<and> a + b < 1 \<and> (\<forall>x\<in>set xs. group_id x \<noteq> [])"
proof (cases "\<exists>x\<in>set xs. group_id x = []")
  case True
  then have "fold_result (split_item c) empty_split xs = Inl (ValueError ''every item requires a recording_id or session_id'')" for c
    by (intro split_stops) (auto simp: empty_split_def)
  then show ?thesis using True by (auto simp: grouped_split_def)
next
  case False
  then have "\<exists>t. fold_result (split_item c) empty_split xs = Inr t" for c
    by (intro split_runs) (auto simp: empty_split_def)
  then have "is_ok (fold_result (split_item c) empty_split xs)" for c by (auto simp: is_ok_iff)
  then show ?thesis using False by (auto simp: grouped_split_def)
qed

text \<open>
  C36: The split is free of leakage. It succeeds exactly when the fractions are legal and every item names
  a recording or a session. Then every item is in exactly one part, in the order of the list; two items of
  one recording are in the same part; and items that are added later go to the end of their parts and
  move no other item.
\<close>

theorem split_without_leakage:
  "(is_ok (grouped_split sha rnd a b seed xs) \<longleftrightarrow>
      0 < a \<and> a < 1 \<and> 0 \<le> b \<and> b < 1 \<and> a + b < 1 \<and> (\<forall>x\<in>set xs. group_id x \<noteq> []))
    \<and> (\<forall>s. grouped_split sha rnd a b seed xs = Inr s \<longrightarrow>
      mset (sp_items s Train_Part) + mset (sp_items s Validation_Part) + mset (sp_items s Test_Part) = mset xs
      \<and> (\<forall>p. subseq (sp_items s p) xs)
      \<and> (\<forall>p q x y. x \<in> set (sp_items s p) \<longrightarrow> y \<in> set (sp_items s q) \<longrightarrow> group_id x = group_id y \<longrightarrow> p = q)
      \<and> (\<forall>ys s' p. grouped_split sha rnd a b seed (xs @ ys) = Inr s' \<longrightarrow>
          sp_items s' p = sp_items s p @ filter (\<lambda>y. y \<in> set (sp_items s' p)) ys))"
proof -
  define c where "c = (\<lambda>g. part_of a b (hash_value sha rnd seed g))"
  have items: "sp_items s p = filter (\<lambda>x. c (group_id x) = p) zs"
    if "grouped_split sha rnd a b seed zs = Inr s" for s p zs
    using that split_items_filter(1) [of c empty_split zs s p]
    by (auto simp: grouped_split_def c_def empty_split_def split: if_splits)
  have all: "mset (filter (\<lambda>x. c (group_id x) = Train_Part) zs) + mset (filter (\<lambda>x. c (group_id x) = Validation_Part) zs)
      + mset (filter (\<lambda>x. c (group_id x) = Test_Part) zs) = mset zs" for zs
  proof (induction zs)
    case (Cons z zs)
    then show ?case by (cases "c (group_id z)") auto
  qed simp
  have later: "sp_items s' p = sp_items s p @ filter (\<lambda>y. y \<in> set (sp_items s' p)) ys"
    if "grouped_split sha rnd a b seed xs = Inr s" "grouped_split sha rnd a b seed (xs @ ys) = Inr s'" for s ys s' p
  proof -
    have "filter (\<lambda>y. y \<in> set (sp_items s' p)) ys = filter (\<lambda>x. c (group_id x) = p) ys"
      using items [OF that(2)] by (auto intro: filter_cong)
    then show ?thesis using items [OF that(1)] items [OF that(2)] by simp
  qed
  show ?thesis
  proof (intro conjI allI impI grouped_split_ok)
    fix s ys s' p
    assume "grouped_split sha rnd a b seed xs = Inr s" "grouped_split sha rnd a b seed (xs @ ys) = Inr s'"
    then show "sp_items s' p = sp_items s p @ filter (\<lambda>y. y \<in> set (sp_items s' p)) ys" by (rule later)
  qed (use items all in auto)
qed

definition sample_item :: "string \<Rightarrow> string \<Rightarrow> dataset_item" where
  "sample_item i rec = \<lparr>di_item = i, di_recording = rec, di_session = ''s'', di_label = ''noise''\<rparr>"

definition sample_digest :: "string \<Rightarrow> byte list" where
  "sample_digest t = replicate 8 (if last t = CHR ''1'' then 255 else 0)"

lemma split_without_leakage_witness:
  "\<exists>s. grouped_split sample_digest (\<lambda>x. x) (7 / 10) (15 / 100) ''v1'' [sample_item ''a'' ''r1'', sample_item ''b'' ''r2''] = Inr s
    \<and> mset (sp_items s Train_Part) + mset (sp_items s Validation_Part) + mset (sp_items s Test_Part)
        = mset [sample_item ''a'' ''r1'', sample_item ''b'' ''r2'']"
proof -
  let ?xs = "[sample_item ''a'' ''r1'', sample_item ''b'' ''r2'']"
  have "\<forall>x\<in>set ?xs. group_id x \<noteq> []" by (simp add: group_id_def sample_item_def)
  then have "is_ok (grouped_split sample_digest (\<lambda>x. x) (7 / 10) (15 / 100) ''v1'' ?xs)"
    using split_without_leakage [of sample_digest "\<lambda>x. x" "7 / 10" "15 / 100" "''v1''" ?xs] by simp
  then obtain s where "grouped_split sample_digest (\<lambda>x. x) (7 / 10) (15 / 100) ''v1'' ?xs = Inr s"
    by (auto simp: is_ok_iff)
  then show ?thesis using split_without_leakage [of sample_digest "\<lambda>x. x" "7 / 10" "15 / 100" "''v1''" ?xs] by blast
qed

subsection \<open>A recorded directory\<close>

type_synonym folder = "(string \<times> byte list) list"

text \<open>
  \<open>dl_json\<close> decodes and parses a file, \<open>dl_loads\<close> parses a line; \<open>dl_text\<close> iterates a text file (the lines,
  and the error that ended the iteration); \<open>dl_zstd\<close> is the output of the zstd program in the same form,
  what it wrote on its error channel, and whether its exit code is not nought.
\<close>

record dataset_lib =
  dl_conv :: conversions
  dl_asarray :: "pyval list \<Rightarrow> pyfloat list result"
  dl_sha :: "byte list \<Rightarrow> string"
  dl_json :: "byte list \<Rightarrow> pyval result"
  dl_loads :: "string \<Rightarrow> pyval result"
  dl_text :: "byte list \<Rightarrow> string list \<times> py_error option"
  dl_zstd :: "byte list \<Rightarrow> (string list \<times> py_error option) \<times> string \<times> bool"

definition frame_lines :: "dataset_lib \<Rightarrow> string \<Rightarrow> byte list \<Rightarrow> string list \<times> py_error option" where
  "frame_lines lib name bs =
     (if \<not> startswith (rev name) (rev ''.zst'') then dl_text lib bs
      else case dl_zstd lib bs of ((ls, err), stderr, failed) \<Rightarrow>
        (ls, if failed then Some (ValueError (''zstd decompression failed: '' @ py_strip stderr)) else err))"

definition ascii_text :: "byte list \<Rightarrow> string result" where
  "ascii_text bs = (if list_all (\<lambda>b. b < 128) bs then Inr (map (\<lambda>b. char_of (unat b)) bs)
     else Inl (ValueError ''UnicodeDecodeError''))"

definition first_word :: "string \<Rightarrow> string" where
  "first_word s = takeWhile (\<lambda>c. \<not> is_space c) (dropWhile is_space s)"

definition utf8_length :: "string \<Rightarrow> nat" where
  "utf8_length s = sum_list (map (\<lambda>c. if (of_char c :: nat) < 128 then 1 else 2) s)"

definition valid_frame :: "dataset_lib \<Rightarrow> pyval \<Rightarrow> unit result" where
  "valid_frame lib v = ml_validate_frame (cv_round (dl_conv lib)) (dl_asarray lib) v"

definition read_line_frame :: "dataset_lib \<Rightarrow> string \<Rightarrow> row result" where
  "read_line_frame lib line = and_then (dl_loads lib line) (\<lambda>v. and_then (valid_frame lib v) (\<lambda>_.
     case v of PDict d \<Rightarrow> Inr d | _ \<Rightarrow> Inl (ValueError ''missing SpectrumFrame fields'')))"

text \<open>\<open>except (json.JSONDecodeError, TypeError, ValueError)\<close>.\<close>

definition line_error :: "py_error \<Rightarrow> bool" where
  "line_error e = (case e of ValueError _ \<Rightarrow> True | TypeError _ \<Rightarrow> True | _ \<Rightarrow> False)"

definition frame_step :: "dataset_lib \<Rightarrow> row list \<times> nat \<Rightarrow> string \<Rightarrow> (row list \<times> nat) result" where
  "frame_step lib s line =
     (if py_strip line = [] then Inr s
      else if 8 * 1024 * 1024 < utf8_length line then Inr (fst s, Suc (snd s))
      else and_then (case read_line_frame lib line of
            Inr d \<Rightarrow> Inr (fst s @ [d], snd s)
          | Inl e \<Rightarrow> if line_error e then Inr (fst s, Suc (snd s)) else Inl e)
        (\<lambda>t. if 100000 < length (fst t) + snd t then Inl (ValueError ''recording exceeds the frame limit'') else Inr t))"

definition load_frames :: "dataset_lib \<Rightarrow> row \<Rightarrow> string list \<times> py_error option \<Rightarrow> (row \<times> row list) result" where
  "load_frames lib metadata source =
     and_then (fold_result (frame_step lib) ([], 0) (fst source)) (\<lambda>(frames, dropped).
       case snd source of
         Some e \<Rightarrow> Inl e
       | None \<Rightarrow>
           and_then (if dict_has metadata ''frame_count'' then py_int (dl_conv lib) (dict_get metadata ''frame_count'')
               else Inr (int (length frames + dropped))) (\<lambda>expected.
             if expected \<noteq> int (length frames + dropped) then Inl (ValueError ''recording frame_count mismatch'')
             else if frames = [] then Inl (ValueError ''recording contains no valid SpectrumFrame'')
             else Inr (set_key ''dropped_frame_count'' (PInt (int dropped))
                 (set_key ''valid_frame_count'' (PInt (int (length frames))) metadata), frames)))"

definition load_recording :: "dataset_lib \<Rightarrow> folder \<Rightarrow> (row \<times> row list) result" where
  "load_recording lib dir =
     (case (map_of dir ''metadata.json'', map_of dir ''checksum.sha256'') of
        (Some meta, Some checksum) \<Rightarrow>
          and_then (dl_json lib meta) (\<lambda>v. case v of
            PDict metadata \<Rightarrow>
              if \<not> eq_int (dict_get metadata ''schema_version'') 1
              then Inl (ValueError ''unsupported recording schema_version'')
              else let name = (if dict_has metadata ''frame_file''
                  then Frame_Validation.py_str (dl_conv lib) (dict_get metadata ''frame_file'') else ''frames.ndjson.zst'') in
              if name \<notin> {''frames.ndjson'', ''frames.ndjson.zst''} then Inl (ValueError ''unsupported frame_file'')
              else (case map_of dir name of
                  None \<Rightarrow> Inl (ValueError ''recording frame file is missing'')
                | Some bs \<Rightarrow> and_then (ascii_text checksum) (\<lambda>t.
                    if length (first_word t) \<noteq> 64 then Inl (ValueError ''invalid checksum file'')
                    else if dl_sha lib bs \<noteq> py_lower (first_word t) then Inl (ValueError ''recording checksum mismatch'')
                    else load_frames lib metadata (frame_lines lib name bs)))
          | w \<Rightarrow> Inl (AttributeError (type_name w @ '' object has no attribute get'')))
      | _ \<Rightarrow> Inl (ValueError ''recording metadata or checksum is missing''))"

subsection \<open>The preprocessor\<close>

text \<open>The axis of a frame is assumed to fit the 64-bit integers of numpy.\<close>

record prepared_spectrogram =
  ps_normalized :: "rat list list"
  ps_powers :: "rat list list"
  ps_frequencies :: "rat list"
  ps_source_types :: "string list"
  ps_session_ids :: "string list"

definition linspace :: "rat \<Rightarrow> rat \<Rightarrow> nat \<Rightarrow> rat list" where
  "linspace a b n = map (\<lambda>i. a + (b - a) * of_nat i / of_nat (n - 1)) [0..<n]"

text \<open>\<open>np.interp\<close>: constant outside of the axis, linear between two of its points.\<close>

fun interp :: "rat list \<Rightarrow> rat list \<Rightarrow> rat \<Rightarrow> rat" where
  "interp (x0 # x1 # xs) (y0 # y1 # ys) v =
     (if v \<le> x0 then y0 else if v \<le> x1 then y0 + (y1 - y0) * ((v - x0) / (x1 - x0))
      else interp (x1 # xs) (y1 # ys) v)"
| "interp xs (y # ys) v = y"
| "interp xs [] v = 0"

definition median_of :: "rat list \<Rightarrow> rat" where
  "median_of xs = (let ys = sort xs; n = length xs in
     if odd n then ys ! (n div 2) else (ys ! (n div 2 - 1) + ys ! (n div 2)) / 2)"

definition frame_axis :: "int \<Rightarrow> int \<Rightarrow> int \<Rightarrow> rat list" where
  "frame_axis start step points = map (\<lambda>i. of_int (start + int i * step)) [0..<nat points]"

definition frame_levels :: "dataset_lib \<Rightarrow> row \<Rightarrow> pyfloat list result" where
  "frame_levels lib d = (case dict_get d ''powers_dbm'' of PList ps \<Rightarrow> dl_asarray lib ps | _ \<Rightarrow> Inl (TypeError ''powers_dbm''))"

definition prepare_frame :: "dataset_lib \<Rightarrow> nat \<Rightarrow> row \<Rightarrow> (rat list \<times> rat list) result" where
  "prepare_frame lib bins d =
     and_then (valid_frame lib (PDict d)) (\<lambda>_.
     and_then (py_int (dl_conv lib) (dict_get d ''num_points'')) (\<lambda>count.
     and_then (py_int (dl_conv lib) (dict_get d ''start_frequency_hz'')) (\<lambda>start.
     and_then (py_int (dl_conv lib) (dict_get d ''step_frequency_hz'')) (\<lambda>step.
     and_then (frame_levels lib d) (\<lambda>values.
       let axis = frame_axis start step count; target = linspace (hd axis) (last axis) bins in
       Inr (target, map (interp axis (map float_rat values)) target))))))"

text \<open>One pass of the loop: the rows, the common axis, the source types and the sessions so far.\<close>

definition prepare_step ::
  "dataset_lib \<Rightarrow> nat \<Rightarrow> rat list list \<times> rat list option \<times> string list \<times> string list \<Rightarrow> row \<Rightarrow>
    (rat list list \<times> rat list option \<times> string list \<times> string list) result" where
  "prepare_step lib bins s d =
     (case s of (rows, common, sources, sessions) \<Rightarrow>
       and_then (prepare_frame lib bins d) (\<lambda>(target, r).
         if (case common of None \<Rightarrow> False | Some axis \<Rightarrow> \<not> list_all2 (\<lambda>x y. \<bar>x - y\<bar> \<le> 1) axis target)
         then Inl (ValueError ''all frames must cover the same frequency range'')
         else Inr (rows @ [r], Some (case common of None \<Rightarrow> target | Some axis \<Rightarrow> axis),
           sources @ [Frame_Validation.py_str (dl_conv lib) (dict_get d ''source_type'')],
           sessions @ [Frame_Validation.py_str (dl_conv lib) (dict_get d ''session_id'')])))"

definition normalize_row :: "rat list \<Rightarrow> rat list" where
  "normalize_row r =
     (let m = median_of r; mad = median_of (map (\<lambda>x. \<bar>x - m\<bar>) r); scale = max (mad * (14826 / 10000)) 1 in
      map (\<lambda>x. clamp (-6) 12 ((x - m) / scale) / 12) r)"

definition check_bins :: "int \<Rightarrow> int \<Rightarrow> unit result" where
  "check_bins frequency_bins time_bins = require (16 \<le> frequency_bins \<and> 1 \<le> time_bins)
     (ValueError ''frequency_bins must be >=16 and time_bins must be >=1'')"

definition prepare :: "dataset_lib \<Rightarrow> nat \<Rightarrow> nat \<Rightarrow> row list \<Rightarrow> prepared_spectrogram result" where
  "prepare lib bins time_bins frames =
     (if frames = [] then Inl (ValueError ''at least one SpectrumFrame is required'')
      else and_then (fold_result (prepare_step lib bins) ([], None, [], []) (take_last time_bins frames))
        (\<lambda>(rows, common, sources, sessions).
          Inr \<lparr>ps_normalized = map normalize_row rows, ps_powers = rows,
            ps_frequencies = (case common of None \<Rightarrow> [] | Some axis \<Rightarrow> axis),
            ps_source_types = sources, ps_session_ids = sessions\<rparr>))"

subsection \<open>Windows of a labelled recording\<close>

definition rf_classes :: "string list" where
  "rf_classes = [''wifi_2_4g'', ''wifi_5g'', ''bluetooth'', ''zigbee'', ''narrowband_unknown'', ''wideband_unknown'',
     ''noise'', ''unknown'']"

definition label_qualities :: "string list" where
  "label_qualities = [''ground_truth'', ''controlled_simulation'', ''weak_label'']"

record recording_label =
  rl_name :: string
  rl_label :: string
  rl_quality :: string
  rl_provenance :: string

definition validate_label :: "bool \<Rightarrow> recording_label \<Rightarrow> unit result" where
  "validate_label allow_weak_labels r =
     (if rl_label r \<notin> set rf_classes then Inl (ValueError (''unsupported RF class: '' @ rl_label r))
      else if rl_quality r \<notin> set label_qualities then Inl (ValueError (''unsupported label_quality: '' @ rl_quality r))
      else if rl_quality r = ''weak_label'' \<and> \<not> allow_weak_labels
      then Inl (ValueError ''weak labels are excluded from training by default'')
      else if py_strip (rl_provenance r) = [] then Inl (ValueError ''label provenance is required'')
      else Inr ())"

record window_file =
  wf_spectrogram :: "rat list list"
  wf_frequencies :: "rat list"
  wf_label :: string

type_synonym window_files = "string \<Rightarrow> window_file option"

text \<open>\<open>f"{start:08d}"\<close>.\<close>

definition pad8 :: "nat \<Rightarrow> string" where
  "pad8 n = replicate (8 - length (nat_text n)) (CHR ''0'') @ nat_text n"

definition item_name :: "string \<Rightarrow> nat \<Rightarrow> string" where
  "item_name recording_id start = recording_id @ ''-'' @ pad8 start"

definition window_path :: "string \<Rightarrow> string \<Rightarrow> string" where
  "window_path out item = out @ ''/'' @ item @ ''.npz''"

definition window_entry ::
  "recording_label \<Rightarrow> string \<Rightarrow> string \<Rightarrow> string \<Rightarrow> pyval \<Rightarrow> nat \<Rightarrow> row list \<Rightarrow> row" where
  "window_entry r out recording_id session_id source start w =
     [(''item_id'', PStr (item_name recording_id start)), (''recording_id'', PStr recording_id),
      (''session_id'', PStr session_id), (''label'', PStr (rl_label r)), (''label_quality'', PStr (rl_quality r)),
      (''provenance'', PStr (rl_provenance r)), (''source_type'', source),
      (''processed_path'', PStr (window_path out (item_name recording_id start))),
      (''first_sequence'', dict_get (hd w) ''sequence''), (''last_sequence'', dict_get (last w) ''sequence''),
      (''first_timestamp'', dict_get (hd w) ''timestamp''), (''last_timestamp'', dict_get (last w) ''timestamp'')]"

text \<open>The loop over the starts: a window that cannot be prepared ends it, the files before it stay.\<close>

fun windows_loop ::
  "(nat \<Rightarrow> (string \<times> window_file \<times> row) result) \<Rightarrow> window_files \<Rightarrow> nat list \<Rightarrow> window_files \<times> row list result" where
  "windows_loop window files [] = (files, Inr [])"
| "windows_loop window files (start # starts) =
     (case window start of
        Inl e \<Rightarrow> (files, Inl e)
      | Inr (path, npz, entry) \<Rightarrow>
          (case windows_loop window (files(path \<mapsto> npz)) starts of
             (files', r) \<Rightarrow> (files', and_then r (\<lambda>entries. Inr (entry # entries)))))"

definition make_window ::
  "dataset_lib \<Rightarrow> nat \<Rightarrow> nat \<Rightarrow> recording_label \<Rightarrow> string \<Rightarrow> string \<Rightarrow> string \<Rightarrow> pyval \<Rightarrow> row list \<Rightarrow> nat \<Rightarrow>
    (string \<times> window_file \<times> row) result" where
  "make_window lib bins time_bins r out recording_id session_id source frames start =
     (let w = take time_bins (drop start frames) in
      and_then (prepare lib bins time_bins w) (\<lambda>p.
        Inr (window_path out (item_name recording_id start),
          \<lparr>wf_spectrogram = ps_normalized p, wf_frequencies = ps_frequencies p, wf_label = rl_label r\<rparr>,
          window_entry r out recording_id session_id source start w)))"

text \<open>\<open>range(0, n - time_bins + 1, stride)\<close>.\<close>

definition window_starts :: "nat \<Rightarrow> nat \<Rightarrow> nat \<Rightarrow> nat list" where
  "window_starts n time_bins stride = map (\<lambda>k. k * stride) [0..<(n - time_bins) div stride + 1]"

definition str_or :: "conversions \<Rightarrow> row \<Rightarrow> string \<Rightarrow> string \<Rightarrow> string" where
  "str_or cv d k other = (if py_truthy (dict_get d k) then Frame_Validation.py_str cv (dict_get d k) else other)"

definition build_recording_windows ::
  "dataset_lib \<Rightarrow> recording_label \<Rightarrow> folder \<Rightarrow> string \<Rightarrow> int \<Rightarrow> int \<Rightarrow> int \<Rightarrow> bool \<Rightarrow> window_files \<Rightarrow>
    window_files \<times> row list result" where
  "build_recording_windows lib r dir out time_bins frequency_bins stride allow files =
     (case and_then (validate_label allow r) (\<lambda>_.
         if stride < 1 \<or> time_bins < stride then Inl (ValueError ''stride must be between 1 and time_bins'')
         else and_then (load_recording lib dir) (\<lambda>(metadata, frames).
           if int (length frames) < time_bins
           then Inl (ValueError ''recording is shorter than one spectrogram window'')
           else and_then (check_bins frequency_bins time_bins) (\<lambda>_. Inr (metadata, frames)))) of
        Inl e \<Rightarrow> (files, Inl e)
      | Inr (metadata, frames) \<Rightarrow>
          (let cv = dl_conv lib; recording_id = str_or cv metadata ''recording_id'' (rl_name r);
               session_id = str_or cv metadata ''session_id'' (Frame_Validation.py_str cv (dict_get (hd frames) ''session_id''));
               source = (if dict_has metadata ''source_type'' then dict_get metadata ''source_type''
                 else dict_get (hd frames) ''source_type'') in
           windows_loop
             (make_window lib (nat frequency_bins) (nat time_bins) r out recording_id session_id source frames)
             files (window_starts (length frames) (nat time_bins) (nat stride))))"

subsection \<open>What a loaded recording holds\<close>

text \<open>The frame a line contributes.\<close>

definition kept_frame :: "dataset_lib \<Rightarrow> string \<Rightarrow> row list" where
  "kept_frame lib line =
     (if py_strip line = [] \<or> 8 * 1024 * 1024 < utf8_length line then []
      else case read_line_frame lib line of Inr d \<Rightarrow> [d] | Inl _ \<Rightarrow> [])"

definition filled :: "string list \<Rightarrow> string list" where
  "filled ls = filter (\<lambda>l. py_strip l \<noteq> []) ls"

lemma frame_step_Inr:
  assumes "frame_step lib s line = Inr t"
  shows "fst t = fst s @ kept_frame lib line"
    and "length (fst t) + snd t = length (fst s) + snd s + length (filled [line])"
    and "length (fst s) \<le> 100000 \<Longrightarrow> length (fst t) \<le> 100000"
  using assms
  by (auto simp: frame_step_def kept_frame_def filled_def and_then_Inr_iff split: if_splits sum.splits)

lemma frames_run:
  "fold_result (frame_step lib) s ls = Inr t \<Longrightarrow> fst t = fst s @ concat (map (kept_frame lib) ls)
    \<and> length (fst t) + snd t = length (fst s) + snd s + length (filled ls)"
proof (induction ls arbitrary: s)
  case (Cons l ls)
  then obtain s' where s': "frame_step lib s l = Inr s'" "fold_result (frame_step lib) s' ls = Inr t"
    by (auto simp: and_then_Inr_iff)
  have "length (filled (l # ls)) = length (filled [l]) + length (filled ls)" by (simp add: filled_def)
  moreover have "length (fst t) + snd t = length (fst s') + snd s' + length (filled ls)"
    using Cons.IH [OF s'(2)] by (rule conjunct2)
  ultimately have "length (fst t) + snd t = length (fst s) + snd s + length (filled (l # ls))"
    using frame_step_Inr(2) [OF s'(1)] by linarith
  moreover have "fst t = fst s @ concat (map (kept_frame lib) (l # ls))"
    using Cons.IH [OF s'(2)] frame_step_Inr(1) [OF s'(1)] by simp
  ultimately show ?case by (rule conjI [rotated])
qed (simp add: filled_def)

lemma frames_limited:
  assumes "fold_result (frame_step lib) ([], 0) ls = Inr t"
  shows "length (fst t) \<le> 100000"
  by (rule fold_result_invariant [OF assms, where P = "\<lambda>t. length (fst t) \<le> 100000"]) (use frame_step_Inr(3) in auto)

lemma kept_frame_valid: "f \<in> set (kept_frame lib line) \<Longrightarrow> valid_frame lib (PDict f) = Inr ()"
proof -
  assume "f \<in> set (kept_frame lib line)"
  then have "read_line_frame lib line = Inr f" by (auto simp: kept_frame_def split: if_splits sum.splits)
  then obtain v where "valid_frame lib v = Inr ()"
      "(case v of PDict d \<Rightarrow> Inr d | _ \<Rightarrow> Inl (ValueError ''missing SpectrumFrame fields'')) = Inr f"
    by (auto simp: read_line_frame_def and_then_Inr_iff)
  then show ?thesis by (cases v) simp_all
qed

lemma map_of_set_key: "map_of (set_key k v r) k' = (if k' = k then Some v else map_of r k')"
proof (cases "dict_has r k")
  case True
  have "map_of (map (\<lambda>(k', v'). (k', if k' = k then v else v')) r) k' =
      (if k' = k then map_option (\<lambda>_. v) (map_of r k') else map_of r k')"
    by (induction r) auto
  then show ?thesis using True by (auto simp: set_key_def dict_has_def)
qed (auto simp: set_key_def dict_has_def map_add_def split: option.splits)

lemma get_set_key: "dict_get (set_key k v r) k' = (if k' = k then v else dict_get r k')"
  by (simp add: dict_get_def map_of_set_key)

text \<open>
  What is loaded is what was recorded. A successful load has the checksum of the frame file confirmed; the frames
  are those of its lines that are valid, in their order, at least one and at most 100000; every other line
  that is not blank is counted as dropped; both counts are in the metadata, and they sum up to the
  \<open>frame_count\<close> of the metadata where it has one.
\<close>

theorem loaded_recording_checked:
  assumes "load_recording lib dir = Inr (metadata, frames)"
  shows "\<exists>name bs ls checksum digest.
      name \<in> {''frames.ndjson'', ''frames.ndjson.zst''} \<and> map_of dir name = Some bs
      \<and> map_of dir ''checksum.sha256'' = Some checksum \<and> ascii_text checksum = Inr digest
      \<and> dl_sha lib bs = py_lower (first_word digest)
      \<and> frame_lines lib name bs = (ls, None) \<and> frames = concat (map (kept_frame lib) ls)
      \<and> 0 < length frames \<and> length frames \<le> 100000
      \<and> (\<forall>f\<in>set frames. valid_frame lib (PDict f) = Inr ())
      \<and> dict_get metadata ''valid_frame_count'' = PInt (int (length frames))
      \<and> dict_get metadata ''dropped_frame_count'' = PInt (int (length (filled ls)) - int (length frames))
      \<and> (dict_get metadata ''frame_count'' \<noteq> PNone \<longrightarrow>
          py_int (dl_conv lib) (dict_get metadata ''frame_count'') = Inr (int (length (filled ls))))"
proof -
  obtain meta checksum where sidecars: "map_of dir ''metadata.json'' = Some meta" "map_of dir ''checksum.sha256'' = Some checksum"
    using assms by (auto simp: load_recording_def split: option.splits)
  then obtain v where v: "dl_json lib meta = Inr v"
    using assms by (auto simp: load_recording_def and_then_Inr_iff)
  then obtain d where d: "v = PDict d" using assms sidecars by (cases v) (auto simp: load_recording_def)
  define name where "name = (if dict_has d ''frame_file''
      then Frame_Validation.py_str (dl_conv lib) (dict_get d ''frame_file'') else ''frames.ndjson.zst'')"
  have accepted: "name \<in> {''frames.ndjson'', ''frames.ndjson.zst''}"
    using assms sidecars v d by (auto simp: load_recording_def Let_def name_def split: if_splits)
  then obtain bs where "map_of dir name = Some bs"
    using assms sidecars v d by (auto simp: load_recording_def Let_def name_def split: if_splits option.splits)
  then obtain digest where files: "map_of dir name = Some bs" "ascii_text checksum = Inr digest"
      "dl_sha lib bs = py_lower (first_word digest)"
    and load: "load_frames lib d (frame_lines lib name bs) = Inr (metadata, frames)"
    using assms sidecars v d accepted unfolding load_recording_def name_def [symmetric]
    by (auto simp: and_then_Inr_iff Let_def name_def [symmetric] split: if_splits)
  obtain ls dropped where run: "frame_lines lib name bs = (ls, None)"
      "fold_result (frame_step lib) ([], 0) ls = Inr (frames, dropped)" "frames \<noteq> []"
    and meta: "metadata = set_key ''dropped_frame_count'' (PInt (int dropped))
        (set_key ''valid_frame_count'' (PInt (int (length frames))) d)"
    and expected: "dict_has d ''frame_count'' \<Longrightarrow>
        py_int (dl_conv lib) (dict_get d ''frame_count'') = Inr (int (length frames + dropped))"
    using load by (cases "frame_lines lib name bs")
      (auto simp: load_frames_def and_then_Inr_iff split: option.splits if_splits)
  have lines: "frames = concat (map (kept_frame lib) ls)" "length frames + dropped = length (filled ls)"
    using conjunct1 [OF frames_run [OF run(2)]] conjunct2 [OF frames_run [OF run(2)]] by (simp_all only: fst_conv snd_conv) simp_all
  have valid: "\<forall>f\<in>set frames. valid_frame lib (PDict f) = Inr ()"
    using lines(1) kept_frame_valid by auto
  have "dict_get d ''frame_count'' \<noteq> PNone \<Longrightarrow> dict_has d ''frame_count''"
    by (auto simp: dict_get_def dict_has_def split: option.splits)
  then show ?thesis
    using accepted sidecars(2) files run(1,3) lines valid meta expected frames_limited [OF run(2)]
    by (intro exI [of _ name] exI [of _ bs] exI [of _ ls] exI [of _ checksum] exI [of _ digest])
      (auto simp: get_set_key)
qed

subsection \<open>What a prepared spectrogram is\<close>

lemma interp_between:
  assumes "sorted_wrt (<) xs" "length xs = length ys" "ys \<noteq> []" and "\<And>y. y \<in> set ys \<Longrightarrow> lo \<le> y \<and> y \<le> hi"
  shows "lo \<le> interp xs ys v \<and> interp xs ys v \<le> hi"
  using assms
proof (induction xs ys v rule: interp.induct)
  case (1 x0 x1 xs y0 y1 ys v)
  have x: "x0 < x1" and y: "lo \<le> y0" "y0 \<le> hi" "lo \<le> y1" "y1 \<le> hi" using 1 by auto
  show ?case
  proof (cases "v \<le> x0 \<or> x1 < v")
    case True
    then show ?thesis using 1 x y by auto
  next
    case False
    define t where "t = (v - x0) / (x1 - x0)"
    have t: "0 \<le> t" "t \<le> 1" using False x by (auto simp: t_def divide_simps)
    have mix: "y0 + (y1 - y0) * t = (1 - t) * y0 + t * y1" by (simp add: algebra_simps)
    have "lo = (1 - t) * lo + t * lo" "hi = (1 - t) * hi + t * hi" by (simp_all add: algebra_simps)
    moreover have "(1 - t) * lo \<le> (1 - t) * y0" "t * lo \<le> t * y1" "(1 - t) * y0 \<le> (1 - t) * hi" "t * y1 \<le> t * hi"
      using t y by (auto intro: mult_left_mono)
    ultimately have "lo \<le> y0 + (y1 - y0) * t" "y0 + (y1 - y0) * t \<le> hi" unfolding mix by linarith+
    then show ?thesis using False by (simp add: t_def)
  qed
qed auto

lemma sorted_frame_axis: "0 < step \<Longrightarrow> sorted_wrt (<) (frame_axis start step n)"
  by (auto simp: frame_axis_def sorted_wrt_iff_nth_less)

lemma length_frame_axis [simp]: "length (frame_axis start step n) = nat n"
  by (simp add: frame_axis_def)

lemma length_linspace [simp]: "length (linspace a b n) = n"
  by (simp add: linspace_def)

lemma length_normalize_row [simp]: "length (normalize_row r) = length r"
  by (simp add: normalize_row_def Let_def)

lemma normalize_row_range: "x \<in> set (normalize_row r) \<Longrightarrow> - 1 / 2 \<le> x \<and> x \<le> 1"
  by (auto simp: normalize_row_def Let_def clamp_def)

text \<open>A constant gain moves the median by itself and leaves the deviations as they are.\<close>

lemma sort_shift: "sort (map (\<lambda>x. x + c) xs) = map (\<lambda>x. x + c) (sort (xs :: rat list))"
  by (rule properties_for_sort) (auto simp: sorted_wrt_map)

lemma median_shift: "xs \<noteq> [] \<Longrightarrow> median_of (map (\<lambda>x. x + c) xs) = median_of xs + c"
proof -
  assume "xs \<noteq> []"
  then have "length xs div 2 < length xs" "length xs div 2 - 1 < length xs" by (cases xs; simp)+
  then show ?thesis by (simp add: median_of_def Let_def sort_shift field_simps)
qed

lemma normalize_row_shift: "normalize_row (map (\<lambda>x. x + c) r) = normalize_row r"
proof (cases "r = []")
  case False
  then show ?thesis by (simp add: normalize_row_def Let_def median_shift o_def)
qed (simp add: normalize_row_def)

lemma valid_frame_shape:
  assumes "valid_frame lib (PDict d) = Inr ()"
  shows "\<exists>ps step. dict_get d ''powers_dbm'' = PList ps \<and> dict_get d ''num_points'' = PInt (int (length ps))
    \<and> 2 \<le> length ps \<and> dict_get d ''step_frequency_hz'' = PInt step \<and> 0 < step"
  using assms unfolding valid_frame_def ml_validate_frame_def Let_def
  by (auto simp: and_then_Inr_iff is_strict_int_iff split: if_splits pyval.splits)

lemma prepare_frame_Inr:
  assumes "prepare_frame lib bins d = Inr (target, r)"
    and law: "\<And>ps vs. dl_asarray lib ps = Inr vs \<Longrightarrow> length vs = length ps"
  shows "length target = bins \<and> length r = bins \<and> (\<exists>vs. frame_levels lib d = Inr vs
    \<and> (\<forall>x\<in>set r. Min (float_rat ` set vs) \<le> x \<and> x \<le> Max (float_rat ` set vs)))"
proof -
  obtain ps step where shape: "dict_get d ''powers_dbm'' = PList ps" "dict_get d ''num_points'' = PInt (int (length ps))"
      "2 \<le> length ps" "dict_get d ''step_frequency_hz'' = PInt step" "0 < step"
    using assms(1) valid_frame_shape [of lib d] by (auto simp: prepare_frame_def and_then_Inr_iff)
  obtain start vs where vs: "dl_asarray lib ps = Inr vs"
    and axis: "target = linspace (hd (frame_axis start step (int (length ps)))) (last (frame_axis start step (int (length ps)))) bins"
    and r: "r = map (interp (frame_axis start step (int (length ps))) (map float_rat vs)) target"
    using assms(1) shape by (auto simp: prepare_frame_def frame_levels_def and_then_Inr_iff py_int_def Let_def)
  have "Min (float_rat ` set vs) \<le> interp (frame_axis start step (int (length ps))) (map float_rat vs) v
      \<and> interp (frame_axis start step (int (length ps))) (map float_rat vs) v \<le> Max (float_rat ` set vs)" for v
    by (rule interp_between [OF sorted_frame_axis [OF shape(5)]]) (use law [OF vs] shape(3) in auto)
  then show ?thesis using axis r vs shape(1) by (auto simp: frame_levels_def)
qed

definition row_of :: "dataset_lib \<Rightarrow> nat \<Rightarrow> row \<Rightarrow> rat list" where
  "row_of lib bins d = snd (projr (prepare_frame lib bins d))"

definition axis_of :: "dataset_lib \<Rightarrow> nat \<Rightarrow> row \<Rightarrow> rat list" where
  "axis_of lib bins d = fst (projr (prepare_frame lib bins d))"

definition same_axis :: "rat list \<Rightarrow> rat list \<Rightarrow> bool" where
  "same_axis = list_all2 (\<lambda>x y. \<bar>x - y\<bar> \<le> 1)"

lemma prepare_step_Inr:
  assumes "prepare_step lib bins (rows, common, so, se) d = Inr (rows', common', so', se')"
  shows "is_ok (prepare_frame lib bins d) \<and> rows' = rows @ [row_of lib bins d]
    \<and> common' = Some (case common of None \<Rightarrow> axis_of lib bins d | Some a \<Rightarrow> a)
    \<and> (\<forall>a. common = Some a \<longrightarrow> same_axis a (axis_of lib bins d))"
  using assms
  by (auto simp: prepare_step_def and_then_Inr_iff row_of_def axis_of_def same_axis_def split: option.splits if_splits)

lemma prepare_run:
  assumes "fold_result (prepare_step lib bins) (rows, Some a, so, se) ds = Inr (rows', common', so', se')"
  shows "rows' = rows @ map (row_of lib bins) ds \<and> common' = Some a
    \<and> (\<forall>d\<in>set ds. is_ok (prepare_frame lib bins d) \<and> same_axis a (axis_of lib bins d))"
  using assms
proof (induction ds arbitrary: rows so se)
  case (Cons d ds)
  then obtain r1 c1 so1 se1 where step: "prepare_step lib bins (rows, Some a, so, se) d = Inr (r1, c1, so1, se1)"
    and rest: "fold_result (prepare_step lib bins) (r1, c1, so1, se1) ds = Inr (rows', common', so', se')"
    by (auto simp: and_then_Inr_iff)
  have "c1 = Some a" using prepare_step_Inr [OF step] by simp
  then show ?case using prepare_step_Inr [OF step] Cons.IH [of r1 so1 se1] rest by simp
qed simp

lemma take_last_nonempty: "xs \<noteq> [] \<Longrightarrow> 1 \<le> n \<Longrightarrow> take_last n xs \<noteq> []"
  by (cases xs) (auto simp: take_last_def)

lemma prepare_Inr:
  assumes "prepare lib bins time_bins frames = Inr p" "1 \<le> time_bins"
  shows "ps_powers p = map (row_of lib bins) (take_last time_bins frames)
    \<and> ps_normalized p = map normalize_row (ps_powers p)
    \<and> ps_frequencies p = axis_of lib bins (hd (take_last time_bins frames))
    \<and> (\<forall>d\<in>set (take_last time_bins frames). is_ok (prepare_frame lib bins d))
    \<and> (\<forall>d\<in>set (tl (take_last time_bins frames)). same_axis (ps_frequencies p) (axis_of lib bins d))"
proof -
  have "frames \<noteq> []" using assms(1) by (auto simp: prepare_def)
  then have "take_last time_bins frames \<noteq> []" using assms(2) by (rule take_last_nonempty)
  then obtain d ds where ds: "take_last time_bins frames = d # ds" by (cases "take_last time_bins frames") auto
  obtain rows common so se where run: "fold_result (prepare_step lib bins) ([], None, [], []) (d # ds) = Inr (rows, common, so, se)"
    and p: "p = \<lparr>ps_normalized = map normalize_row rows, ps_powers = rows,
      ps_frequencies = (case common of None \<Rightarrow> [] | Some axis \<Rightarrow> axis), ps_source_types = so, ps_session_ids = se\<rparr>"
    using assms(1) \<open>frames \<noteq> []\<close> ds by (auto simp: prepare_def and_then_Inr_iff simp del: fold_result.simps)
  then obtain r1 c1 so1 se1 where step: "prepare_step lib bins ([], None, [], []) d = Inr (r1, c1, so1, se1)"
    and rest: "fold_result (prepare_step lib bins) (r1, c1, so1, se1) ds = Inr (rows, common, so, se)"
    by (auto simp: and_then_Inr_iff)
  show ?thesis using prepare_step_Inr [OF step] rest prepare_run [of lib bins r1 "axis_of lib bins d" so1 se1 ds] p ds by auto
qed


subsection \<open>What the windows of a recording cover\<close>

lemma digits_value_zeros: "digits_value (replicate k (CHR ''0'') @ t) = digits_value t"
  by (induction k) (simp_all add: digits_value_def digit_value_def)

lemma pad8_eq [simp]: "pad8 m = pad8 n \<longleftrightarrow> m = n"
  by (metis pad8_def digits_value_zeros digits_value_nat_text)

lemma item_name_eq [simp]: "item_name i m = item_name i n \<longleftrightarrow> m = n"
  by (simp add: item_name_def)

lemma window_path_eq [simp]: "window_path out x = window_path out y \<longleftrightarrow> x = y"
  by (simp add: window_path_def)

lemma windows_loop_Inr:
  assumes "windows_loop window files starts = (files', Inr entries)"
    and "\<And>a q f e. window a = Inr (q, f, e) \<Longrightarrow> q = path a" and "distinct (map path starts)"
  shows "length entries = length starts
    \<and> (\<forall>k<length starts. \<exists>f. window (starts ! k) = Inr (path (starts ! k), f, entries ! k)
        \<and> files' (path (starts ! k)) = Some f)
    \<and> (\<forall>q. q \<notin> path ` set starts \<longrightarrow> files' q = files q)"
  using assms
proof (induction starts arbitrary: files entries)
  case (Cons a starts)
  obtain q f e where first: "window a = Inr (q, f, e)" using Cons.prems(1) by (cases "window a") auto
  then have a: "window a = Inr (path a, f, e)" using Cons.prems(2) by simp
  obtain files'' t where rest': "windows_loop window (files(path a \<mapsto> f)) starts = (files'', t)" by fastforce
  then obtain entries' where rest: "windows_loop window (files(path a \<mapsto> f)) starts = (files', Inr entries')" and e: "entries = e # entries'"
    using Cons.prems(1) a by (cases t) auto
  have IH: "length entries' = length starts
      \<and> (\<forall>k<length starts. \<exists>f. window (starts ! k) = Inr (path (starts ! k), f, entries' ! k)
          \<and> files' (path (starts ! k)) = Some f)
      \<and> (\<forall>q. q \<notin> path ` set starts \<longrightarrow> files' q = (files(path a \<mapsto> f)) q)"
    using Cons.IH [OF rest Cons.prems(2)] Cons.prems(3) by simp
  have "files' (path a) = Some f" using conjunct2 [OF conjunct2 [OF IH]] Cons.prems(3) by simp
  then have "\<exists>f. window ((a # starts) ! k) = Inr (path ((a # starts) ! k), f, entries ! k)
      \<and> files' (path ((a # starts) ! k)) = Some f" if "k < length (a # starts)" for k
    using IH a e that by (cases k) auto
  moreover have "files' q = files q" if "q \<notin> path ` set (a # starts)" for q
    using that conjunct2 [OF conjunct2 [OF IH]] by auto
  ultimately show ?case using IH e by simp
qed simp

lemma starts_covered:
  assumes "1 \<le> stride" "stride \<le> T" "i < m * stride + T"
  shows "\<exists>k\<le>m. k * stride \<le> i \<and> i < k * stride + (T :: nat)"
proof (cases "i div stride \<le> m")
  case True
  have "i div stride * stride \<le> i" by simp
  moreover have "i < i div stride * stride + stride" using assms(1) by (metis dividend_less_div_times Suc_le_eq One_nat_def add.commute)
  ultimately show ?thesis using True assms(2) by (intro exI [of _ "i div stride"]) simp
next
  case False
  then have "m * stride \<le> i div stride * stride" by (intro mult_le_mono1) simp
  also have "\<dots> \<le> i" by simp
  finally show ?thesis using assms(3) by blast
qed

lemma length_window_starts [simp]: "length (window_starts n T stride) = (n - T) div stride + 1"
  by (simp add: window_starts_def)

lemma window_starts_nth: "k \<le> (n - T) div stride \<Longrightarrow> window_starts n T stride ! k = k * stride"
  by (simp add: window_starts_def del: upt_Suc)

lemma window_starts_distinct: "1 \<le> stride \<Longrightarrow> inj_on g UNIV \<Longrightarrow> distinct (map g (window_starts n T stride))"
proof -
  assume stride: "1 \<le> stride" and g: "inj_on g UNIV"
  have "inj_on (\<lambda>k. g (k * stride)) A" for A
  proof (rule inj_onI)
    fix x y assume "g (x * stride) = g (y * stride)"
    then have "x * stride = y * stride" using g by (simp add: inj_eq)
    then show "x = y" using stride by simp
  qed
  then show ?thesis by (simp add: window_starts_def distinct_map o_def del: upt_Suc)
qed

lemma window_fits: "T \<le> n \<Longrightarrow> k \<le> (n - T) div stride \<Longrightarrow> k * stride + T \<le> (n :: nat)"
proof -
  assume "T \<le> n" "k \<le> (n - T) div stride"
  then have "k * stride \<le> (n - T) div stride * stride" by (intro mult_le_mono1)
  also have "\<dots> \<le> n - T" by simp
  finally show ?thesis using \<open>T \<le> n\<close> by simp
qed

lemma window_ends:
  assumes "1 \<le> T" "a + T \<le> length xs"
  shows "length (take T (drop a xs)) = T \<and> hd (take T (drop a xs)) = xs ! a \<and> last (take T (drop a xs)) = xs ! (a + T - 1)"
proof -
  let ?w = "take T (drop a xs)"
  have len: "length ?w = T" using assms by simp
  then have "?w \<noteq> []" using assms(1) by auto
  then show ?thesis using assms len by (simp add: hd_conv_nth last_conv_nth del: take_eq_Nil)
qed

lemma build_recording_windows_Inr:
  assumes "load_recording lib dir = Inr (metadata, frames)"
    and "build_recording_windows lib r dir out T bins stride allow files = (files', Inr entries)"
  shows "validate_label allow r = Inr () \<and> 1 \<le> stride \<and> stride \<le> T \<and> nat T \<le> length frames
    \<and> (\<exists>i sid src. windows_loop (make_window lib (nat bins) (nat T) r out i sid src frames) files
        (window_starts (length frames) (nat T) (nat stride)) = (files', Inr entries))"
  using assms
  by (auto simp: build_recording_windows_def check_bins_def and_then_def Let_def split: sum.splits if_splits)

text \<open>
  C37: The windows of a recording cover it. When a build succeeds, window k starts at frame k * stride and has exactly
  \<open>time_bins\<close> frames; its file holds what the preprocessor makes of them, with the label, and its entry
  names their first and last sequence number. The items have different names, no other file is
  touched, no frame between two windows is skipped, and fewer than a stride of frames is left at the end.
\<close>

theorem windows_cover_recording:
  assumes "load_recording lib dir = Inr (metadata, frames)"
    and "build_recording_windows lib r dir out T bins stride allow files = (files', Inr entries)"
  shows "\<exists>i. (\<forall>k<length entries. \<exists>w p.
        w = take (nat T) (drop (k * nat stride) frames) \<and> length w = nat T
        \<and> prepare lib (nat bins) (nat T) w = Inr p
        \<and> dict_get (entries ! k) ''item_id'' = PStr (item_name i (k * nat stride))
        \<and> dict_get (entries ! k) ''label'' = PStr (rl_label r)
        \<and> dict_get (entries ! k) ''first_sequence'' = dict_get (frames ! (k * nat stride)) ''sequence''
        \<and> dict_get (entries ! k) ''last_sequence'' = dict_get (frames ! (k * nat stride + nat T - 1)) ''sequence''
        \<and> files' (window_path out (item_name i (k * nat stride)))
          = Some \<lparr>wf_spectrogram = ps_normalized p, wf_frequencies = ps_frequencies p, wf_label = rl_label r\<rparr>)
      \<and> distinct (map (\<lambda>e. dict_get e ''item_id'') entries)
      \<and> (\<forall>q. (\<forall>k<length entries. q \<noteq> window_path out (item_name i (k * nat stride))) \<longrightarrow> files' q = files q)
      \<and> (\<forall>j < (length entries - 1) * nat stride + nat T. \<exists>k<length entries. k * nat stride \<le> j \<and> j < k * nat stride + nat T)
      \<and> (length entries - 1) * nat stride + nat T \<le> length frames
      \<and> length frames < length entries * nat stride + nat T"
proof -
  define n where "n = length frames"
  obtain i sid src where bounds: "1 \<le> nat stride" "nat stride \<le> nat T" "nat T \<le> n"
    and loop: "windows_loop (make_window lib (nat bins) (nat T) r out i sid src frames) files
        (window_starts n (nat T) (nat stride)) = (files', Inr entries)"
    using build_recording_windows_Inr [OF assms] unfolding n_def by auto
  let ?starts = "window_starts n (nat T) (nat stride)" and ?m = "(n - nat T) div nat stride"
    and ?path = "\<lambda>a. window_path out (item_name i a)"
  have paths: "q = ?path a" if "make_window lib (nat bins) (nat T) r out i sid src frames a = Inr (q, f, e)" for a q f e
    using that by (auto simp: make_window_def Let_def and_then_Inr_iff)
  have inj: "inj_on ?path UNIV" by (simp add: inj_on_def)
  have run: "length entries = length ?starts
      \<and> (\<forall>k<length ?starts. \<exists>f. make_window lib (nat bins) (nat T) r out i sid src frames (?starts ! k)
            = Inr (?path (?starts ! k), f, entries ! k) \<and> files' (?path (?starts ! k)) = Some f)
      \<and> (\<forall>q. q \<notin> ?path ` set ?starts \<longrightarrow> files' q = files q)"
    by (rule windows_loop_Inr [OF loop paths window_starts_distinct [OF bounds(1) inj]])
  have len: "length entries = ?m + 1" using run by simp
  have window: "\<exists>p. prepare lib (nat bins) (nat T) (take (nat T) (drop (k * nat stride) frames)) = Inr p
      \<and> entries ! k = window_entry r out i sid src (k * nat stride) (take (nat T) (drop (k * nat stride) frames))
      \<and> files' (?path (k * nat stride))
        = Some \<lparr>wf_spectrogram = ps_normalized p, wf_frequencies = ps_frequencies p, wf_label = rl_label r\<rparr>"
    if "k < length entries" for k
  proof -
    have "?starts ! k = k * nat stride" using that len by (intro window_starts_nth) simp
    then show ?thesis using run that by (fastforce simp: make_window_def Let_def and_then_Inr_iff)
  qed
  have fits: "k * nat stride + nat T \<le> n" if "k < length entries" for k
    using window_fits [OF bounds(3)] that len by simp
  have entry: "let w = take (nat T) (drop (k * nat stride) frames); e = window_entry r out i sid src (k * nat stride) w in
      length w = nat T \<and> dict_get e ''item_id'' = PStr (item_name i (k * nat stride)) \<and> dict_get e ''label'' = PStr (rl_label r)
      \<and> dict_get e ''first_sequence'' = dict_get (frames ! (k * nat stride)) ''sequence''
      \<and> dict_get e ''last_sequence'' = dict_get (frames ! (k * nat stride + nat T - 1)) ''sequence''"
    if "k < length entries" for k
    using window_ends [of "nat T" "k * nat stride" frames] fits [OF that] bounds
    by (simp add: Let_def window_entry_def dict_get_def n_def)
  have ids: "map (\<lambda>e. dict_get e ''item_id'') entries = map (\<lambda>k. PStr (item_name i (k * nat stride))) [0..<length entries]"
    by (rule nth_equalityI) (use window entry in \<open>force simp: Let_def\<close>)+
  have "distinct (map (\<lambda>e. dict_get e ''item_id'') entries)"
    unfolding ids using bounds(1) by (auto simp: distinct_map inj_on_def)
  moreover have "files' q = files q" if "\<forall>k<length entries. q \<noteq> ?path (k * nat stride)" for q
  proof -
    have "q \<notin> ?path ` set ?starts"
    proof
      assume "q \<in> ?path ` set ?starts"
      then obtain a where a: "a \<in> set ?starts" "q = ?path a" by blast
      then obtain k where "k < ?m + 1" "a = k * nat stride" by (auto simp: window_starts_def simp del: upt_Suc)
      then show False using that a(2) unfolding len by blast
    qed
    then show ?thesis using conjunct2 [OF conjunct2 [OF run]] by blast
  qed
  moreover have "\<exists>k<length entries. k * nat stride \<le> j \<and> j < k * nat stride + nat T"
    if j: "j < (length entries - 1) * nat stride + nat T" for j
  proof -
    obtain k where "k \<le> length entries - 1" "k * nat stride \<le> j" "j < k * nat stride + nat T"
      using starts_covered [OF bounds(1,2) j] by blast
    then show ?thesis using len by (intro exI [of _ k]) simp
  qed
  moreover have "(length entries - 1) * nat stride + nat T \<le> n" using fits [of "length entries - 1"] len by simp
  moreover have "n < length entries * nat stride + nat T"
  proof -
    have "0 < nat stride" using bounds(1) by linarith
    then have "n - nat T < nat stride + nat stride * ?m" by (rule dividend_less_times_div)
    moreover have "(?m + 1) * nat stride = nat stride + nat stride * ?m" by simp
    ultimately show ?thesis unfolding len using bounds(3) by linarith
  qed
  moreover have "\<exists>w p. w = take (nat T) (drop (k * nat stride) frames) \<and> length w = nat T
        \<and> prepare lib (nat bins) (nat T) w = Inr p
        \<and> dict_get (entries ! k) ''item_id'' = PStr (item_name i (k * nat stride))
        \<and> dict_get (entries ! k) ''label'' = PStr (rl_label r)
        \<and> dict_get (entries ! k) ''first_sequence'' = dict_get (frames ! (k * nat stride)) ''sequence''
        \<and> dict_get (entries ! k) ''last_sequence'' = dict_get (frames ! (k * nat stride + nat T - 1)) ''sequence''
        \<and> files' (?path (k * nat stride))
          = Some \<lparr>wf_spectrogram = ps_normalized p, wf_frequencies = ps_frequencies p, wf_label = rl_label r\<rparr>"
    if k: "k < length entries" for k
  proof -
    obtain p where "prepare lib (nat bins) (nat T) (take (nat T) (drop (k * nat stride) frames)) = Inr p"
      "entries ! k = window_entry r out i sid src (k * nat stride) (take (nat T) (drop (k * nat stride) frames))"
      "files' (?path (k * nat stride))
        = Some \<lparr>wf_spectrogram = ps_normalized p, wf_frequencies = ps_frequencies p, wf_label = rl_label r\<rparr>"
      using window [OF k] by blast
    then show ?thesis using entry [OF k] unfolding Let_def
      by (intro exI [of _ "take (nat T) (drop (k * nat stride) frames)"] exI [of _ p]) (simp only: simp_thms)
  qed
  ultimately show ?thesis unfolding n_def [symmetric] by (intro exI [of _ i] conjI allI impI)
qed

subsection \<open>A recorded sample\<close>

definition sample_dataset_lib :: dataset_lib where
  "sample_dataset_lib = \<lparr>dl_conv = sample_conversions, dl_asarray = sample_asarray, dl_sha = (\<lambda>_. replicate 64 (CHR ''a'')),
     dl_json = (\<lambda>_. Inr (PDict [(''schema_version'', PInt 1), (''frame_file'', PStr ''frames.ndjson''), (''frame_count'', PInt 3)])),
     dl_loads = (\<lambda>l. if l = ''bad'' then Inl (ValueError ''JSONDecodeError'') else Inr (PDict (sample_fields 2))),
     dl_text = (\<lambda>_. ([''f1'', ''bad'', [], ''f2''], None)), dl_zstd = (\<lambda>_. (([], None), [], False))\<rparr>"

definition sample_folder :: folder where
  "sample_folder = [(''metadata.json'', []), (''frames.ndjson'', [1]), (''checksum.sha256'', replicate 64 97)]"

lemma sample_frame_valid: "valid_frame sample_dataset_lib (PDict (sample_fields 2)) = Inr ()"
  unfolding valid_frame_def sample_dataset_lib_def
  by (simp add: sample_simps sample_asarray_def ml_validate_frame_def ml_fields_def plus_int_def is_strict_int_def
      num_eq_def num_of_def is_number_def is_fin_def source_type_names_def unhashable_def numeral_2_eq_2)

lemma sample_checksum: "ascii_text (replicate 64 97) = Inr (replicate 64 (CHR ''a''))"
  by (simp add: ascii_text_def list_all_iff) code_simp

lemma sample_load:
  "\<exists>m. load_recording sample_dataset_lib sample_folder = Inr (m, [sample_fields 2, sample_fields 2])"
proof -
  have words: "length (first_word (replicate 64 (CHR ''a''))) = 64" "py_lower (first_word (replicate 64 (CHR ''a''))) = replicate 64 (CHR ''a'')"
    by code_simp+
  have lines: "utf8_length ''f1'' = 2" "utf8_length ''f2'' = 2" "utf8_length ''bad'' = 3"
    "py_strip ''f1'' \<noteq> []" "py_strip ''f2'' \<noteq> []" "py_strip ''bad'' \<noteq> []" "py_strip [] = []" by code_simp+
  have frame: "read_line_frame sample_dataset_lib l = Inr (sample_fields 2)" if "l \<noteq> ''bad''" for l
    using that sample_frame_valid by (simp add: read_line_frame_def sample_dataset_lib_def)
  have bad: "read_line_frame sample_dataset_lib ''bad'' = Inl (ValueError ''JSONDecodeError'')"
    by (simp add: read_line_frame_def sample_dataset_lib_def)
  have run: "fold_result (frame_step sample_dataset_lib) ([], 0) [''f1'', ''bad'', [], ''f2'']
      = Inr ([sample_fields 2, sample_fields 2], 1)"
    by (simp add: frame_step_def lines frame bad line_error_def)
  have ls: "frame_lines sample_dataset_lib ''frames.ndjson'' [1] = ([''f1'', ''bad'', [], ''f2''], None)"
    by (simp add: frame_lines_def sample_dataset_lib_def)
  have fields: "dl_json sample_dataset_lib bs = Inr (PDict [(''schema_version'', PInt 1),
      (''frame_file'', PStr ''frames.ndjson''), (''frame_count'', PInt 3)])"
    "dl_sha sample_dataset_lib bs = replicate 64 (CHR ''a'')" for bs by (simp_all add: sample_dataset_lib_def)
  have frames: "\<exists>m. load_frames sample_dataset_lib d ([''f1'', ''bad'', [], ''f2''], None)
      = Inr (m, [sample_fields 2, sample_fields 2])" if "map_of d ''frame_count'' = Some (PInt 3)" for d
    using that by (simp add: load_frames_def run dict_has_def dict_get_def py_int_def del: fold_result.simps)
  show ?thesis
    unfolding load_recording_def sample_folder_def
    by (simp add: fields dict_get_def dict_has_def Frame_Validation.py_str_def sample_checksum words ls frames Let_def
        del: replicate.simps)
qed

lemma loaded_recording_checked_witness:
  "\<exists>m. load_recording sample_dataset_lib sample_folder = Inr (m, [sample_fields 2, sample_fields 2])
    \<and> dict_get m ''valid_frame_count'' = PInt 2"
proof -
  obtain m where m: "load_recording sample_dataset_lib sample_folder = Inr (m, [sample_fields 2, sample_fields 2])"
    using sample_load by blast
  have "dict_get m ''valid_frame_count'' = PInt (int (length [sample_fields 2, sample_fields 2]))"
    using loaded_recording_checked [OF m] by (elim exE conjE) assumption
  then show ?thesis using m by auto
qed

lemma sample_prepare:
  "is_ok (prepare sample_dataset_lib bins 2 [sample_fields 2, sample_fields 2])"
  "is_ok (prepare sample_dataset_lib bins 1 [sample_fields 2])"
proof -
  have frame: "\<exists>t r. prepare_frame sample_dataset_lib bins (sample_fields 2) = Inr (t, r)"
    by (simp add: prepare_frame_def sample_frame_valid)
      (simp add: sample_fields_def dict_get_def py_int_def frame_levels_def sample_dataset_lib_def sample_asarray_def
        is_number_def num_of_def Let_def numeral_2_eq_2)
  then obtain t r where t: "prepare_frame sample_dataset_lib bins (sample_fields 2) = Inr (t, r)" by blast
  have "list_all2 (\<lambda>x y. \<bar>x - y\<bar> \<le> 1) t t" by (simp add: list_all2_same)
  then show "is_ok (prepare sample_dataset_lib bins 2 [sample_fields 2, sample_fields 2])"
    "is_ok (prepare sample_dataset_lib bins 1 [sample_fields 2])"
    by (simp_all add: prepare_def take_last_def prepare_step_def t)
qed

lemma sample_asarray_length: "dl_asarray sample_dataset_lib ps = Inr vs \<Longrightarrow> length vs = length ps"
  by (auto simp: sample_dataset_lib_def sample_asarray_def split: if_splits)


definition sample_label :: recording_label where
  "sample_label = \<lparr>rl_name = ''rec'', rl_label = ''noise'', rl_quality = ''ground_truth'', rl_provenance = ''lab''\<rparr>"

lemma windows_loop_ok:
  "\<forall>a\<in>set starts. is_ok (window a) \<Longrightarrow> \<exists>files' entries. windows_loop window files starts = (files', Inr entries)"
proof (induction starts arbitrary: files)
  case (Cons a starts)
  then obtain q f e where "window a = Inr (q, f, e)" by (auto simp: is_ok_iff)
  moreover obtain files' entries where "windows_loop window (files(q \<mapsto> f)) starts = (files', Inr entries)"
    using Cons by fastforce
  ultimately show ?case by simp
qed simp

lemma sample_build:
  assumes "load_recording sample_dataset_lib sample_folder = Inr (m, [sample_fields 2, sample_fields 2])"
  shows "\<exists>files' entries. build_recording_windows sample_dataset_lib sample_label sample_folder ''out'' 1 16 1 False (\<lambda>_. None)
    = (files', Inr entries)"
proof -
  have label: "validate_label False sample_label = Inr ()" by code_simp
  have windows: "\<forall>a\<in>set (window_starts 2 1 1).
      is_ok (make_window sample_dataset_lib 16 1 sample_label ''out'' i sid src [sample_fields 2, sample_fields 2] a)" for i sid src
    using sample_prepare(2) [of 16] by (auto simp: window_starts_def make_window_def Let_def is_ok_iff)
  show ?thesis
    using windows_loop_ok [OF windows] by (simp add: build_recording_windows_def label assms check_bins_def Let_def numeral_2_eq_2)
qed

lemma windows_cover_recording_witness:
  "\<exists>files' entries. build_recording_windows sample_dataset_lib sample_label sample_folder ''out'' 1 16 1 False (\<lambda>_. None)
      = (files', Inr entries) \<and> length entries = 2"
proof -
  obtain m where m: "load_recording sample_dataset_lib sample_folder = Inr (m, [sample_fields 2, sample_fields 2])"
    using sample_load by blast
  obtain files' entries where
    built: "build_recording_windows sample_dataset_lib sample_label sample_folder ''out'' 1 16 1 False (\<lambda>_. None) = (files', Inr entries)"
    using sample_build [OF m] by blast
  then show ?thesis using windows_cover_recording [OF m built] by auto
qed

end
