(* ===== verification/Classifier.thy ===== *)
theory Classifier
  imports Datasets Settings
begin

section \<open>The classifier of radio signals\<close>

text \<open>
  \<open>ml/classifier.py\<close>, \<open>ml/loader.py\<close> and the route \<open>/api/ml/classify\<close>: the rule-based classifier and the choice
  of the active classifier from the settings. The trained models are not
  part of the program: their builders give a placeholder that refuses. The arithmetic is exact; the
  standard deviation of numpy is an argument.
\<close>

subsection \<open>The rules\<close>

definition round_places :: "nat \<Rightarrow> rat \<Rightarrow> rat" where
  "round_places k x = of_int (py_round (x * 10 ^ k)) / 10 ^ k"

definition mean_of :: "rat list \<Rightarrow> rat" where
  "mean_of xs = sum_list xs / of_nat (length xs)"

definition argmax_of :: "rat list \<Rightarrow> nat" where
  "argmax_of xs = length (takeWhile (\<lambda>x. x < Max (set xs)) xs)"

record signal_features =
  sg_center :: rat
  sg_span :: rat
  sg_peak_delta :: rat
  sg_occupied :: rat
  sg_hopping :: rat

definition signal_features_of :: "(rat list \<Rightarrow> rat) \<Rightarrow> prepared_spectrogram \<Rightarrow> signal_features" where
  "signal_features_of std p =
     (let powers = ps_powers p; medians = map median_of powers; peaks = map (\<lambda>r. Max (set r)) powers in
      \<lparr>sg_center = mean_of (ps_frequencies p),
       sg_span = last (ps_frequencies p) - hd (ps_frequencies p),
       sg_peak_delta = median_of (map2 (-) peaks medians),
       sg_occupied = mean_of (concat (map2 (\<lambda>r m. map (\<lambda>x. if m + 6 < x then 1 else 0) r) powers medians)),
       sg_hopping = std (map (\<lambda>r. of_nat (argmax_of r)) powers) / of_nat (max 1 (length (hd powers) - 1))\<rparr>)"

definition in_24g :: "rat \<Rightarrow> bool" where
  "in_24g hz \<longleftrightarrow> 2400000000 \<le> hz \<and> hz \<le> 2500000000"

definition in_5g :: "rat \<Rightarrow> bool" where
  "in_5g hz \<longleftrightarrow> 5150000000 \<le> hz \<and> hz \<le> 5900000000"

definition decision :: "signal_features \<Rightarrow> string \<times> rat \<times> string" where
  "decision f =
     (if sg_peak_delta f < 6
      then (''noise'', min (92 / 100) (60 / 100 + (6 - sg_peak_delta f) / 20), ''no peak exceeds the robust noise floor by 6 dB'')
      else if in_24g (sg_center f) \<and> sg_occupied f < 8 / 100 \<and> 8 / 100 < sg_hopping f
      then (''bluetooth'', min (88 / 100) (62 / 100 + sg_hopping f), ''narrow hopping peaks in the 2.4 GHz ISM band'')
      else if in_24g (sg_center f) \<and> 8 / 100 \<le> sg_occupied f \<and> 15000000 \<le> sg_span f
      then (''wifi_2_4g'', min (90 / 100) (65 / 100 + sg_occupied f / 2), ''wide occupied spectrum in the 2.4 GHz Wi-Fi band'')
      else if in_5g (sg_center f) \<and> 8 / 100 \<le> sg_occupied f \<and> 15000000 \<le> sg_span f
      then (''wifi_5g'', min (90 / 100) (65 / 100 + sg_occupied f / 2), ''wide occupied spectrum in the 5 GHz Wi-Fi band'')
      else if sg_occupied f < 8 / 100
      then (''narrowband_unknown'', min (86 / 100) (64 / 100 + sg_peak_delta f / 100), ''strong signal with narrow occupied bandwidth'')
      else if 30 / 100 \<le> sg_occupied f
      then (''wideband_unknown'', min (86 / 100) (62 / 100 + sg_occupied f / 3),
        ''broad occupied bandwidth without enough protocol evidence'')
      else (''unknown'', 51 / 100, ''signal evidence is insufficient for a supported baseline class''))"

definition alternatives :: "string \<Rightarrow> rat \<Rightarrow> (string \<times> rat) list" where
  "alternatives predicted sure =
     (let residual = max 0 (1 - sure); fallback = (if predicted \<noteq> ''unknown'' then ''unknown'' else ''noise'') in
      map (\<lambda>(name, v). (name, round_places 4 v))
        (filter (\<lambda>(name, v). 0 < v) [(predicted, sure), (fallback, residual)]))"

record classification =
  cl_predicted :: string
  cl_confidence :: rat
  cl_top :: "(string \<times> rat) list"
  cl_elapsed_ms :: rat
  cl_center_hz :: int
  cl_span_hz :: int
  cl_peak_delta :: rat
  cl_occupied :: rat
  cl_hopping :: rat
  cl_time_bins :: nat
  cl_frequency_bins :: nat
  cl_explanation :: string

text \<open>The default preprocessor has 256 frequency bins and 32 time bins; \<open>elapsed\<close> is the measured time.\<close>

definition rule_classify :: "dataset_lib \<Rightarrow> (rat list \<Rightarrow> rat) \<Rightarrow> rat \<Rightarrow> row list \<Rightarrow> classification result" where
  "rule_classify lib std elapsed frames =
     and_then (prepare lib 256 32 frames) (\<lambda>p.
       let f = signal_features_of std p; (predicted, sure, reason) = decision f in
       Inr \<lparr>cl_predicted = predicted, cl_confidence = round_places 4 sure,
         cl_top = alternatives predicted sure, cl_elapsed_ms = round_places 3 (elapsed * 1000),
         cl_center_hz = py_round (sg_center f), cl_span_hz = py_round (sg_span f),
         cl_peak_delta = round_places 3 (sg_peak_delta f), cl_occupied = round_places 5 (sg_occupied f),
         cl_hopping = round_places 5 (sg_hopping f), cl_time_bins = length (ps_powers p),
         cl_frequency_bins = length (hd (ps_powers p)), cl_explanation = reason\<rparr>)"

subsection \<open>The active classifier\<close>

datatype ml_classifier =
    Rule_Classifier
  | Unavailable_Classifier "string option" "string option" string string

definition text_value :: "string option \<Rightarrow> pyval" where
  "text_value v = (case v of None \<Rightarrow> PNone | Some s \<Rightarrow> PStr s)"

definition supported_classes :: "string list" where
  "supported_classes = [''wifi_2_4g'', ''wifi_5g'', ''bluetooth'', ''narrowband_unknown'', ''wideband_unknown'', ''noise'', ''unknown'']"

definition classifier_status :: "ml_classifier \<Rightarrow> row" where
  "classifier_status c =
     (case c of
        Rule_Classifier \<Rightarrow> [(''available'', PBool True), (''status'', PStr ''baseline_loaded''),
          (''model_version'', PStr ''rf_rule_baseline_v1''), (''model_type'', PStr ''rule_based_baseline''),
          (''device'', PStr ''cpu''), (''supported_classes'', PList (map PStr supported_classes)),
          (''withheld_classes'', PList [PStr ''zigbee''])]
      | Unavailable_Classifier model_type model_version status reason \<Rightarrow>
          [(''available'', PBool False), (''status'', PStr status), (''model_version'', text_value model_version),
           (''model_type'', text_value model_type), (''reason'', PStr reason)])"

text \<open>\<open>repr\<close> is Python's text of an optional name.\<close>

definition classify_frames ::
  "dataset_lib \<Rightarrow> (rat list \<Rightarrow> rat) \<Rightarrow> (string option \<Rightarrow> string) \<Rightarrow> rat \<Rightarrow> ml_classifier \<Rightarrow> row list \<Rightarrow> classification result" where
  "classify_frames lib std repr elapsed c frames =
     (case c of
        Rule_Classifier \<Rightarrow> rule_classify lib std elapsed frames
      | Unavailable_Classifier model_type model_version status reason \<Rightarrow>
          Inl (RuntimeError (''model_type='' @ repr model_type @ '' status='' @ repr (Some status) @ '': '' @ reason)))"

definition classical_reason :: string where
  "classical_reason = ''no recording-level-separated labeled dataset has been trained for this '' @
     ''model; train with ml/train_classical.py and wire the artifact explicitly''"

definition cnn_reason :: string where
  "cnn_reason = ''no trained CNN checkpoint is bundled with this package; training is '' @
     ''never run automatically (see ml/train_cnn.py)''"

definition model_builders :: "(string \<times> ml_classifier) list" where
  "model_builders =
     [(''rule'', Rule_Classifier),
      (''classical'', Unavailable_Classifier (Some ''classical_ml'') (Some ''rf_nearest_centroid_v1'') ''not_trained'' classical_reason),
      (''cnn'', Unavailable_Classifier (Some ''cnn'') (Some ''rf_small_cnn_v1'') ''not_trained'' cnn_reason),
      (''onnx'', Unavailable_Classifier (Some ''onnx'') (Some ''rf_onnx_v1'') ''model_not_found''
        ''no ONNX model file or runtime loader is configured for this package'')]"

definition describe_all_models :: "row list" where
  "describe_all_models = map (\<lambda>(name, c). classifier_status c) model_builders"

definition build_ml_classifier :: "ml_settings \<Rightarrow> ml_classifier result" where
  "build_ml_classifier settings =
     (if \<not> mse_enabled settings
      then Inr (Unavailable_Classifier (Some (mse_model_type settings)) None ''disabled'' ''ML_ENABLED is false'')
      else (case map_of model_builders (mse_model_type settings) of
          Some c \<Rightarrow> Inr c
        | None \<Rightarrow> Inl (KeyError (mse_model_type settings))))"

definition ml_classify ::
  "dataset_lib \<Rightarrow> (rat list \<Rightarrow> rat) \<Rightarrow> (string option \<Rightarrow> string) \<Rightarrow> rat \<Rightarrow> ml_classifier \<Rightarrow> row list \<Rightarrow> classification result" where
  "ml_classify lib std repr elapsed c frames =
     (if length frames < 1 \<or> 128 < length frames
      then Inl (HTTPException 422 ''frames must contain between 1 and 128 SpectrumFrame objects'')
      else let status = classifier_status c in
      if \<not> py_truthy (dict_get status ''available'')
      then Inl (HTTPException 503 (''ML classification unavailable (status: '' @ text_field status ''status'' @ '')''))
      else (case classify_frames lib std repr elapsed c frames of
          Inr r \<Rightarrow> Inr r
        | Inl e \<Rightarrow> (case e of
            ValueError m \<Rightarrow> Inl (HTTPException 422 m)
          | TypeError m \<Rightarrow> Inl (HTTPException 422 m)
          | RuntimeError m \<Rightarrow> Inl (HTTPException 503 m)
          | _ \<Rightarrow> Inl e)))"

definition ml_status :: "ml_settings \<Rightarrow> ml_classifier \<Rightarrow> row" where
  "ml_status settings c = classifier_status c
     @ (if mse_warnings settings \<noteq> [] then [(''config_warnings'', PList (map PStr (mse_warnings settings)))] else [])"

definition ml_models :: "ml_settings \<Rightarrow> row" where
  "ml_models settings = [(''models'', PList (map PDict describe_all_models)), (''classes'', PList (map PStr rf_classes)),
     (''ml_enabled'', PBool (mse_enabled settings)), (''active_model_type'', PStr (mse_model_type settings))]"

subsection \<open>What a classification says\<close>

lemma py_round_complement:
  assumes "even n"
  shows "py_round (of_int n - x) = n - py_round x"
proof -
  define f where "f = \<lfloor>x\<rfloor>"
  have f: "of_int f \<le> x" "x < of_int f + 1" unfolding f_def by linarith+
  show ?thesis
  proof (cases "x = of_int f")
    case True
    then show ?thesis using py_round_of_int [of f] py_round_of_int [of "n - f"] by simp
  next
    case False
    then have "of_int (n - f - 1) \<le> of_int n - x" "of_int n - x < of_int (n - f - 1) + 1" using f by simp_all
    then have g: "\<lfloor>of_int n - x\<rfloor> = n - f - 1" by (simp add: floor_eq_iff)
    show ?thesis
      unfolding py_round_def Let_def g f_def [symmetric] using assms by (auto simp: field_simps)
  qed
qed

lemma round_places_complement: "1 \<le> k \<Longrightarrow> round_places k (1 - x) = 1 - round_places k x"
proof -
  assume "1 \<le> k"
  then have "even ((10 :: int) ^ k)" by (cases k) auto
  then have "py_round (of_int (10 ^ k) - x * 10 ^ k) = 10 ^ k - py_round (x * 10 ^ k)" by (rule py_round_complement)
  then show ?thesis by (simp add: round_places_def left_diff_distrib diff_divide_distrib)
qed

lemma round_places_mono: "x \<le> y \<Longrightarrow> round_places k x \<le> round_places k y"
  by (simp add: round_places_def divide_right_mono py_round_mono mult_right_mono)

lemma decision_cases:
  assumes "decision f = (c, p, m)"
  shows "c \<in> set supported_classes \<and> 51 / 100 \<le> p \<and> p \<le> 92 / 100
    \<and> (c = ''noise'' \<longleftrightarrow> sg_peak_delta f < 6) \<and> (c \<in> {''bluetooth'', ''wifi_2_4g''} \<longrightarrow> in_24g (sg_center f))
    \<and> (c = ''wifi_5g'' \<longrightarrow> in_5g (sg_center f))"
  using assms by (auto simp: decision_def supported_classes_def min_def field_simps split: if_splits)

lemma alternatives_pair:
  assumes "51 / 100 \<le> p" "p \<le> 92 / 100"
  shows "alternatives c p = [(c, round_places 4 p), (if c \<noteq> ''unknown'' then ''unknown'' else ''noise'', 1 - round_places 4 p)]"
  using assms by (simp add: alternatives_def Let_def round_places_complement)

lemma round_places_within:
  assumes "51 / 100 \<le> p" "p \<le> 92 / 100"
  shows "51 / 100 \<le> round_places 4 p \<and> round_places 4 p \<le> 92 / 100"
proof -
  have "round_places 4 (51 / 100) = 51 / 100" "round_places 4 (92 / 100) = 92 / 100"
    using py_round_of_int [of 5100] py_round_of_int [of 9200] by (simp_all add: round_places_def)
  then show ?thesis using round_places_mono [OF assms(1), of 4] round_places_mono [OF assms(2), of 4] by simp
qed


lemma sample_prepare_256: "is_ok (prepare sample_dataset_lib 256 32 [sample_fields 2, sample_fields 2])"
proof -
  have "prepare sample_dataset_lib 256 32 [sample_fields 2, sample_fields 2]
      = prepare sample_dataset_lib 256 2 [sample_fields 2, sample_fields 2]"
    by (simp add: prepare_def take_last_def)
  then show ?thesis using sample_prepare(1) by simp
qed

lemma sample_classify:
  "\<exists>c. rule_classify sample_dataset_lib (\<lambda>_. 0) 0 [sample_fields 2, sample_fields 2] = Inr c"
  using sample_prepare_256 by (auto simp: rule_classify_def is_ok_iff Let_def split: prod.splits)


subsection \<open>No silent substitution\<close>

lemma fold_result_Inl: "fold_result f s xs = Inl e \<Longrightarrow> \<exists>t x. x \<in> set xs \<and> f t x = Inl e"
  by (induction xs arbitrary: s) (fastforce simp: and_then_Inl_iff)+

lemma ml_validate_Inl:
  assumes "ml_validate_frame rnd asarray v = Inl e"
    and law: "\<And>ps e. asarray ps = Inl e \<Longrightarrow> line_error e \<or> (\<exists>m. e = OverflowError m)"
  shows "line_error e \<or> (\<exists>m. e = OverflowError m)"
proof -
  have plus: "line_error e \<or> (\<exists>m. e = OverflowError m)" if "plus_int rnd v n = Inl e" for v n e
    using that by (auto simp: plus_int_def too_large_def line_error_def split: pyval.splits if_splits)
  show ?thesis
  proof (cases v)
    case (PDict d)
    then show ?thesis
      using assms(1) unfolding ml_validate_frame_def Let_def
      by (auto simp: and_then_Inl_iff line_error_def split: if_splits pyval.splits dest!: plus [unfolded line_error_def] law [unfolded line_error_def])
  qed (use assms(1) in \<open>auto simp: ml_validate_frame_def line_error_def\<close>)
qed

lemma py_int_Inl: "py_int cv v = Inl e \<Longrightarrow> line_error e \<or> (\<exists>m. e = OverflowError m)"
  by (auto simp: py_int_def line_error_def split: pyval.splits pyfloat.splits option.splits)

lemma prepare_frame_Inl:
  assumes "prepare_frame lib bins d = Inl e"
    and law: "\<And>ps e. dl_asarray lib ps = Inl e \<Longrightarrow> line_error e \<or> (\<exists>m. e = OverflowError m)"
  shows "line_error e \<or> (\<exists>m. e = OverflowError m)"
proof -
  have levels: "frame_levels lib d = Inl e \<Longrightarrow> line_error e \<or> (\<exists>m. e = OverflowError m)"
    using law by (auto simp: frame_levels_def line_error_def split: pyval.splits)
  have valid: "valid_frame lib v = Inl e \<Longrightarrow> line_error e \<or> (\<exists>m. e = OverflowError m)" for v
    unfolding valid_frame_def by (rule ml_validate_Inl [OF _ law])
  show ?thesis
    using assms(1) unfolding prepare_frame_def and_then_Inl_iff Let_def
    by (elim disjE exE conjE) (use valid py_int_Inl levels in auto)
qed

lemma prepare_Inl:
  assumes "prepare lib bins time_bins frames = Inl e"
    and law: "\<And>ps e. dl_asarray lib ps = Inl e \<Longrightarrow> line_error e \<or> (\<exists>m. e = OverflowError m)"
  shows "line_error e \<or> (\<exists>m. e = OverflowError m)"
proof (cases "frames = []")
  case True
  then show ?thesis using assms(1) by (auto simp: prepare_def line_error_def)
next
  case False
  then have "fold_result (prepare_step lib bins) ([], None, [], []) (take_last time_bins frames) = Inl e"
    using assms(1) by (auto simp: prepare_def and_then_Inl_iff)
  from fold_result_Inl [OF this] obtain t d where "prepare_step lib bins t d = Inl e" by blast
  then show ?thesis
    using prepare_frame_Inl [where lib = lib, OF _ law, where bins = bins and d = d]
    by (auto simp: prepare_step_def and_then_Inl_iff line_error_def split: prod.splits if_splits)
qed


lemma sample_asarray_errors:
  "\<forall>ps e. dl_asarray sample_dataset_lib ps = Inl e \<longrightarrow> line_error e \<or> (\<exists>m. e = OverflowError m)"
  by (auto simp: sample_dataset_lib_def sample_asarray_def line_error_def split: if_splits)


end
