(* ===== verification/Spec2Isabelle.thy ===== *)
theory Spec2Isabelle
  imports Ingest Iq_Plane Passive_Detector Anomaly_Pipeline Reference_Match Device_Rows Recordings
    Live_Properties Reference_Properties Collectors Spectrum_Hub Legacy_References Rf_Gateway Assistant Spectrum_Actions Retention Reviews
    Classifier
begin

text \<open>
  \<^bold>\<open>The RF monitoring platform: a model and its correctness.\<close>

  The program is a set of Python services around one PostgreSQL database. Spectrum frames come from
  an instrument through \<open>spectrum-ingest/app.py\<close>, which validates them and fans them out over
  WebSockets; the backend (\<open>python-processor/app\<close>) reads them, runs an online anomaly detector, stores
  detections and alerts, takes IQ packets of a receiver, imports Wi-Fi and Bluetooth devices of
  Kismet and Bettercap, binds everything to measurement sessions and places, and compares what it
  sees with reference sets and device baselines captured earlier.

  \<^bold>\<open>How the model is written.\<close> Every operation of the code is a HOL function on explicit state. An
  exception is the left side of a sum (\<open>'a result\<close>, \<open>py_error\<close>, with \<open>HTTPException\<close> and its status),
  a JSON value is a \<open>pyval\<close>, a float is a \<open>pyfloat\<close> (an exact rational, an infinity or NaN: rounding
  of arithmetic is not modelled), text is a list of 8-bit characters, an identifier (UUID) is a text or
  a number. A table is the list of its rows (\<open>Store\<close>); a request is one transaction: its handler returns
  the new tables or an error, and then nothing is committed. Concurrency of services is an inductive
  step relation over the atomic sections between two awaits. What the code takes from outside (times,
  drawn identifiers, environment texts, decoders, hash functions, the text of a float, what the
  database accepts) is an argument.

  \<^bold>\<open>Theories, in the order of their imports.\<close>

  \<^item> \<open>Rf_Prelude\<close>: errors as values, Python text functions, integers and their texts, JSON values;
    \<open>Store\<close>: rows, updates, keyset pages (\<open>app/db.py\<close>, \<open>utils/pagination.py\<close>); \<open>Bounded_Queue\<close>: the
    queue interface of the services as a locale, interpreted on both drop policies.
  \<^item> \<open>Frame_Validation\<close>: the three validators of a spectrum frame (ingest service, backend client, ML
    preprocessor) and how they relate. \<open>Ingest\<close>: the ingest service as a state machine (consumer,
    clients, audio), its counters, the invariant of every reachable state and the order of delivery.
  \<^item> \<open>Iq_Plane\<close>: \<open>services/sdrangel/iq_pipeline.py\<close>, packet accounting under every interleaving.
  \<^item> \<open>Spectrum_Detector\<close>, \<open>Passive_Detector\<close>: the median/MAD detector and the rules for Wi-Fi and
    Bluetooth observations (\<open>services/anomaly\<close>). \<open>Known_Signals\<close>, \<open>Alerts\<close>: profiles that suppress
    alerts, markers, the alert tables and their paging. \<open>Anomaly_Pipeline\<close>: queue, worker and storage of
    detections, the composition of the three.
  \<^item> \<open>Device_Baseline\<close> (\<open>services/baseline.py\<close>), \<open>Reference_Match\<close> (\<open>services/reference_match.py\<close>): what is
    expected at a place and the comparison with what is seen.
  \<^item> \<open>Field_Parsing\<close>, \<open>Device_Rows\<close>: \<open>utils/parsing.py\<close>, from a collector's row to a normalised device.
    \<open>Sessions\<close>: sessions, places and sources. \<open>Upload_Files\<close>, \<open>Imports\<close>, \<open>Import_Properties\<close>: the file
    formats and the three import handlers of \<open>routers/sessions_imports.py\<close> with their transactions
    and savepoints; the locale \<open>row_importer\<close> holds what the two file imports share.
  \<^item> \<open>Recordings\<close>: \<open>services/recordings\<close>, the atomic writers on a model of the recording directory.
  \<^item> \<open>Reference_Points\<close>, \<open>Reference_Catalog\<close>, \<open>Reference_Sets\<close>, \<open>Reference_Properties\<close>: importers and
    resampling, versioned references, captured sets, and the history of the catalogue.
    \<open>Legacy_References\<close> (\<open>routers/legacy_references.py\<close>): bands, points and images of the older
    tables; the locale \<open>reference_rows\<close> holds what its two CSV imports share.
  \<^item> \<open>Live_Import\<close>, \<open>Live_Properties\<close>: the imports of \<open>routers/health_collectors.py\<close>, one transaction without
    savepoints; the locale \<open>live_importer\<close> is the contract of a row, interpreted on Kismet and on
    Bettercap, from which the accounting and the rank of the vendors follow. \<open>Collectors\<close>
    (\<open>services/collectors\<close>): what is taken from a server's answer, and the pollers of \<open>streaming.py\<close>.
  \<^item> \<open>Settings\<close>: \<open>config.py\<close>, \<open>security.py\<close> and the middleware of \<open>application.py\<close>. \<open>Spectrum_Hub\<close>: the
    broadcast of \<open>streaming.py\<close> as a step relation, with a simulation by an abstract bus.
  \<^item> \<open>Rf_Gateway\<close>: the client of the native agent and \<open>routers/rf_agent.py\<close>. \<open>Observations\<close>: the lists and
    the CSV exports of \<open>routers/observations.py\<close>, with a reader of quoted records as their inverse.
  \<^item> \<open>Rag\<close>, \<open>Assistant\<close>: \<open>rag.py\<close>, \<open>assistant.py\<close> and their routes: chunks, index, nearest vectors, the packing
    of the context and the answer to a question.
  \<^item> \<open>Spectrum_Actions\<close>, \<open>Retention\<close>, \<open>Reviews\<close>: captures and peaks of the live spectrum, the purge of old
    rows, and the remaining operator routes (\<open>spectrum_actions.py\<close>, \<open>data_retention.py\<close>,
    \<open>anomalies_alerts.py\<close>, \<open>markers_known.py\<close>, \<open>device_baseline.py\<close>).
  \<^item> \<open>Datasets\<close>, \<open>Classifier\<close>: \<open>app/ml\<close>: the split of labelled recordings, recorded directories and their windows,
    the preprocessor, the rule-based classifier and the choice of the active one.

  \<^bold>\<open>What the lemmas show.\<close>

  \<^item> Interfaces. \<open>bounded_fifo\<close> (\<open>Bounded_Queue\<close>), \<open>frame_contract\<close> (\<open>Frame_Validation\<close>), \<open>identity_matcher\<close>
    (\<open>Reference_Match\<close>), \<open>sample_codec\<close> (\<open>Recordings\<close>), \<open>row_importer\<close>, \<open>live_importer\<close> and \<open>reference_rows\<close>
    are locales. Each is interpreted on the definitions of the code, in the theory that provides them.
  \<^item> Invariants. The ingest service, the IQ plane, the anomaly pipeline, the broadcast, the sessions and
    the catalogue are step relations or folds of operations: an invariant holds at the start, every step
    keeps it, and rule induction carries it to every reachable state.
  \<^item> Accounting. An import, a queue, a capture or a question counts every row, packet or request that it
    was given, in exactly one of the outcomes the code reports.
  \<^item> Round trips. What is exported, recorded or stored reads back as what was given.
  \<^item> Errors. Each refusal of a handler is a branch with its status and detail, and leaves the tables as
    they were; where one bad row loses a whole import, that is a theorem.

  \<^bold>\<open>Termination and bounds.\<close> No definition uses fuel, except the reading of service UUIDs in
  \<open>Field_Parsing\<close>, where \<open>json.loads\<close> is an argument and the needed depth is the length of the text
  (a property shows that this is enough). Loops that do not follow a datatype have a measure: the cutting
  into chunks the text that is left, the packing of the context the records and samples that can still be
  dropped, the splitting into lines the characters that are left. Widths of words matter in the sample
  codecs of \<open>Recordings\<close> only; other integers of the code are Python's.

  \<^bold>\<open>Not modelled.\<close> The native agent (\<open>rf-agent\<close>, C++), the pages of the browser, the containers and the
  scripts are other programs. The trained models, their features and their training are calls of
  libraries. Prometheus queries, metrics and logs do not change what a request does. The simulator, the
  file replay and the Aaronia probe are sources of frames, and what a source gives is an argument of the
  pipeline. Answers of a health route are snapshots of states that are
  modelled. Field ranges that pydantic checks before a handler runs are its caller's obligation.
\<close>

end
